(* ===== verification/Mlf_Prelude.thy ===== *)
theory Mlf_Prelude
  imports Main "HOL-Library.Word" "HOL-Library.Char_ord" "HOL-Library.List_Lexorder"
    "HOL-Library.Product_Lexorder"
begin

text \<open>
  Shared vocabulary of the development: machine integers, ordered maps (the model of
  \<open>std::map\<close>: association lists kept in strictly increasing key order), bounded token
  checks, decimal printing, sorting with removal of duplicates, and the lemma
  collections the component proofs draw on.
\<close>

named_theorems om_simps \<open>laws of ordered maps\<close>
named_theorems gen_simps \<open>facts about generations\<close>

section \<open>Machine integers and generations\<close>

type_synonym u8 = "8 word"
type_synonym u16 = "16 word"
type_synonym u32 = "32 word"
type_synonym u64 = "64 word"

text \<open>An identity or a generation is valid when it is not zero (\<open>Id::valid\<close>).\<close>

definition id_valid :: "u64 \<Rightarrow> bool" where
  "id_valid i \<longleftrightarrow> i \<noteq> 0"

lemma id_valid_zero [simp]: "\<not> id_valid 0"
  by (simp add: id_valid_def)

text \<open>\<open>next_generation\<close> of identity.hpp: advance by one, saturate instead of wrapping.\<close>

definition next_generation :: "u64 \<Rightarrow> u64" where
  "next_generation current =
     (let advanced = current + 1 in if current < advanced then advanced else (- 1))"

lemma next_generation_top: "next_generation ((- 1)) = (- 1)"
  by (simp add: next_generation_def)

lemma unat_u64_bound: "unat (x :: u64) < 2 ^ 64"
  using unsigned_less [where w = x and 'a = nat] by simp

lemma word_less_plus_one: "(x :: u64) < x + 1 \<longleftrightarrow> x \<noteq> - 1"
proof (cases "x = - 1")
  case False
  then have "1 + x \<noteq> 0"
    by (metis add.commute add_eq_0_iff)
  then have "unat (1 + x) = Suc (unat x)" by (rule unatSuc)
  with False show ?thesis by (simp add: word_less_nat_alt add.commute)
qed simp

lemma next_generation_alt: "next_generation x = (if x = (- 1) then (- 1) else x + 1)"
  by (simp add: next_generation_def Let_def word_less_plus_one)

lemma next_generation_le [gen_simps, simp]: "x \<le> next_generation x"
  using word_less_plus_one [of x] by (auto simp: next_generation_alt)

lemma next_generation_less: "x \<noteq> (- 1) \<Longrightarrow> x < next_generation x"
  using word_less_plus_one [of x] by (auto simp: next_generation_alt)

lemma next_generation_valid [gen_simps, simp]: "id_valid (next_generation x)"
proof (cases "x = (- 1)")
  case True
  then show ?thesis by (simp add: next_generation_alt id_valid_def)
next
  case False
  then have "x < next_generation x" by (rule next_generation_less)
  then show ?thesis by (auto simp: id_valid_def)
qed

text \<open>Identities that are 1-based positions.\<close>

lemma unat_minus_1: "x \<noteq> 0 \<Longrightarrow> unat ((x :: u64) - 1) = unat x - 1"
  by (simp add: unat_sub word_le_nat_alt unat_gt_0 Suc_leI)

lemma position_iff: "k < 2 ^ 64 \<Longrightarrow> of_nat k + 1 = (w :: u64) \<longleftrightarrow> k = unat (w - 1)"
proof
  assume k: "k < 2 ^ 64" and "of_nat k + 1 = w"
  then have "w - 1 = of_nat k" by auto
  then show "k = unat (w - 1)" using k by (simp add: unat_of_nat)
qed simp

lemma succ_nonzero: "k < 2 ^ 64 - 1 \<Longrightarrow> of_nat k + 1 \<noteq> (0 :: u64)"
proof
  assume k: "k < 2 ^ 64 - 1" and "of_nat k + 1 = (0 :: u64)"
  then have "k = unat (0 - 1 :: u64)" using position_iff [of k 0] by simp
  with k show False by (simp add: unsigned_minus_1_eq_mask mask_eq_exp_minus_1)
qed

lemma unat_next_position:
  assumes "n < 2 ^ 64 - 1"
  shows "unat (of_nat n + 1 :: u64) = n + 1"
proof -
  define w where "w = (of_nat n + 1 :: u64)"
  have "n < 2 ^ 64" using assms by (rule order_less_trans) simp
  then have n: "n = unat (w - 1)" using position_iff [of n w] w_def by blast
  have "w \<noteq> 0" unfolding w_def by (rule succ_nonzero [OF assms])
  then have "unat (w - 1) = unat w - 1" "0 < unat w"
    using unat_minus_1 unat_gt_0 by blast+
  then have "unat w = n + 1" using n by (metis Suc_eq_plus1 Suc_pred')
  then show ?thesis unfolding w_def .
qed

section \<open>Ordered maps\<close>

type_synonym ('k, 'v) omap = "('k \<times> 'v) list"

fun om_put :: "'k::linorder \<Rightarrow> 'v \<Rightarrow> ('k, 'v) omap \<Rightarrow> ('k, 'v) omap" where
  "om_put k v [] = [(k, v)]"
| "om_put k v ((a, b) # m) =
     (if k < a then (k, v) # (a, b) # m
      else if k = a then (k, v) # m
      else (a, b) # om_put k v m)"

definition om_erase :: "'k \<Rightarrow> ('k, 'v) omap \<Rightarrow> ('k, 'v) omap" where
  "om_erase k m = filter (\<lambda>e. fst e \<noteq> k) m"

definition om_wf :: "('k::linorder, 'v) omap \<Rightarrow> bool" where
  "om_wf m \<longleftrightarrow> sorted_wrt (\<lambda>a b. fst a < fst b) m"

text \<open>\<open>map::emplace\<close>: an existing key keeps its value.\<close>

definition om_emplace :: "'k::linorder \<Rightarrow> 'v \<Rightarrow> ('k, 'v) omap \<Rightarrow> ('k, 'v) omap" where
  "om_emplace k v m = (case map_of m k of None \<Rightarrow> om_put k v m | Some _ \<Rightarrow> m)"

text \<open>A pass over all the values, as a range-for over the map with a mutable reference.\<close>

definition om_map :: "('v \<Rightarrow> 'w) \<Rightarrow> ('k, 'v) omap \<Rightarrow> ('k, 'w) omap" where
  "om_map f m = map (\<lambda>(k, v). (k, f v)) m"

lemma om_find_put [simp, om_simps]: "map_of (om_put k v m) x = (if x = k then Some v else map_of m x)"
  by (induction m) auto

lemma om_find_erase [simp, om_simps]: "map_of (om_erase k m) x = (if x = k then None else map_of m x)"
  by (induction m) (auto simp: om_erase_def)

lemma om_find_map [simp, om_simps]: "map_of (om_map f m) x = map_option f (map_of m x)"
  by (induction m) (auto simp: om_map_def)

lemma om_map_keys [simp]: "map fst (om_map f m) = map fst m"
  by (induction m) (auto simp: om_map_def)

lemma om_wf_Nil [simp]: "om_wf []"
  by (simp add: om_wf_def)

lemma om_wf_Cons [simp]: "om_wf (e # m) \<longleftrightarrow> (\<forall>b \<in> set m. fst e < fst b) \<and> om_wf m"
  by (simp add: om_wf_def)

lemma om_wf_map [simp]: "om_wf (om_map f m) = om_wf m"
  by (induction m) (auto simp: om_map_def)

lemma om_put_subset: "set (om_put k v m) \<subseteq> insert (k, v) (set m)"
  by (induction m) (auto split: if_splits)

lemma om_wf_put [simp, intro]: "om_wf m \<Longrightarrow> om_wf (om_put k v m)"
proof (induction m)
  case (Cons e m)
  obtain a b where e: "e = (a, b)" by (cases e)
  have tail: "om_wf m" and above: "\<forall>x \<in> set m. a < fst x"
    using Cons.prems by (auto simp: e)
  have "\<not> k < a \<Longrightarrow> k \<noteq> a \<Longrightarrow> \<forall>x \<in> set (om_put k v m). a < fst x"
    using above om_put_subset [of k v m] by auto
  then show ?case
    using Cons.IH [OF tail] tail above by (auto simp: e)
qed simp

lemma om_wf_erase [simp, intro]: "om_wf m \<Longrightarrow> om_wf (om_erase k m)"
  by (induction m) (auto simp: om_erase_def)

lemma om_wf_emplace [simp, intro]: "om_wf m \<Longrightarrow> om_wf (om_emplace k v m)"
  by (simp add: om_emplace_def split: option.splits)

lemma om_wf_distinct: "om_wf m \<Longrightarrow> distinct (map fst m)"
  by (induction m) auto

lemma om_entry_find: "om_wf m \<Longrightarrow> (k, v) \<in> set m \<longleftrightarrow> map_of m k = Some v"
  using om_wf_distinct map_of_eq_Some_iff by fastforce

lemma om_entry_key: "(k, v) \<in> set m \<Longrightarrow> map_of m k \<noteq> None"
  by (induction m) auto

text \<open>The representation is canonical: equal lookups, equal maps.\<close>

lemma om_wf_ext:
  assumes wf: "om_wf m" "om_wf n" and eq: "map_of m = map_of n"
  shows "m = n"
proof -
  have entries: "set m = set n"
    using om_entry_find [OF wf(1)] om_entry_find [OF wf(2)] eq by auto
  have inj: "inj_on fst (set m \<union> set n)"
    using om_entry_find [OF wf(1)] entries by (auto simp: inj_on_def)
  have "sorted (map fst k) \<and> distinct (map fst k)" if "om_wf k" for k :: "('a::linorder \<times> 'b) list"
    using that by (induction k) auto
  then show ?thesis
    using wf entries inj by (auto intro: map_sorted_distinct_set_unique)
qed

text \<open>
  The interface a component relies on when it keeps its records in a map: what a lookup
  returns after an insertion or a removal, and that both keep the representation.
\<close>

locale keyed_map =
  fixes find :: "'m \<Rightarrow> 'k \<Rightarrow> 'v option"
    and put :: "'k \<Rightarrow> 'v \<Rightarrow> 'm \<Rightarrow> 'm"
    and erase :: "'k \<Rightarrow> 'm \<Rightarrow> 'm"
    and entries :: "'m \<Rightarrow> ('k \<times> 'v) set"
    and wf :: "'m \<Rightarrow> bool"
  assumes find_put: "find (put k v m) x = (if x = k then Some v else find m x)"
    and find_erase: "find (erase k m) x = (if x = k then None else find m x)"
    and wf_put: "wf m \<Longrightarrow> wf (put k v m)"
    and wf_erase: "wf m \<Longrightarrow> wf (erase k m)"
    and entry_find: "wf m \<Longrightarrow> (k, v) \<in> entries m \<longleftrightarrow> find m k = Some v"
begin

lemma entries_put:
  assumes "wf m"
  shows "entries (put k v m) = insert (k, v) {e \<in> entries m. fst e \<noteq> k}"
  using entry_find [OF assms] entry_find [OF wf_put [OF assms]] by (auto simp: find_put split: if_splits)

lemma entries_erase:
  assumes "wf m"
  shows "entries (erase k m) = {e \<in> entries m. fst e \<noteq> k}"
  using entry_find [OF assms] entry_find [OF wf_erase [OF assms]] by (auto simp: find_erase split: if_splits)

lemma put_keeps_all:
  assumes "wf m" and "\<forall>e \<in> entries m. P (fst e) (snd e)" and "P k v"
  shows "\<forall>e \<in> entries (put k v m). P (fst e) (snd e)"
  using assms by (auto simp: entries_put)

lemma put_keeps_found:
  assumes "\<And>x w. find m x = Some w \<Longrightarrow> P x w" and "P k v" and "find (put k v m) x = Some w"
  shows "P x w"
  using assms by (auto simp: find_put split: if_splits)

lemma entry_unique: "wf m \<Longrightarrow> (k, v) \<in> entries m \<Longrightarrow> (k, w) \<in> entries m \<Longrightarrow> v = w"
  using entry_find by fastforce

end

interpretation om: keyed_map map_of om_put om_erase set om_wf
  by unfold_locales (auto simp: om_entry_find)

section \<open>Sorting with removal of duplicates\<close>

text \<open>\<open>std::sort\<close> followed by \<open>erase(unique(...))\<close>.\<close>

definition sort_unique :: "'a::linorder list \<Rightarrow> 'a list" where
  "sort_unique xs = remdups_adj (sort xs)"

lemma set_sort_unique [simp]: "set (sort_unique xs) = set xs"
  by (simp add: sort_unique_def)

lemma sorted_sort_unique [simp]: "sorted (sort_unique xs)"
  by (simp add: sort_unique_def sorted_remdups_adj)

lemma distinct_remdups_adj_sorted: "sorted xs \<Longrightarrow> distinct (remdups_adj xs)"
  by (induction xs rule: remdups_adj.induct) (auto simp: order.antisym)

lemma distinct_sort_unique [simp]: "distinct (sort_unique xs)"
  by (simp add: sort_unique_def distinct_remdups_adj_sorted)

lemma sort_unique_canonical: "set xs = set ys \<longleftrightarrow> sort_unique xs = sort_unique ys"
  by (metis distinct_sort_unique set_sort_unique sorted_distinct_set_unique sorted_sort_unique)

section \<open>Bounded text\<close>

definition is_alnum :: "char \<Rightarrow> bool" where
  "is_alnum c \<longleftrightarrow> (CHR ''a'' \<le> c \<and> c \<le> CHR ''z'') \<or> (CHR ''A'' \<le> c \<and> c \<le> CHR ''Z'') \<or>
     (CHR ''0'' \<le> c \<and> c \<le> CHR ''9'')"

text \<open>\<open>clamp_detail\<close> of engine_registry.cpp: keep at most the retained bound.\<close>

definition clamp_detail :: "nat \<Rightarrow> string \<Rightarrow> string" where
  "clamp_detail max_length text = (if max_length < length text then take max_length text else text)"

definition kMaxReasonDetail :: nat where "kMaxReasonDetail = 160"
definition kMaxRecordDetail :: nat where "kMaxRecordDetail = 256"

lemma clamp_detail_length [simp]: "length (clamp_detail n s) \<le> n"
  by (simp add: clamp_detail_def)

lemma clamp_detail_idem [simp]: "clamp_detail n (clamp_detail n s) = clamp_detail n s"
  by (simp add: clamp_detail_def)

text \<open>\<open>std::to_string\<close> of an unsigned integer: decimal digits, no leading zero.\<close>

definition digit_char :: "nat \<Rightarrow> char" where
  "digit_char d = char_of (48 + d)"

fun show_nat :: "nat \<Rightarrow> string" where
  "show_nat n = (if n < 10 then [digit_char n] else show_nat (n div 10) @ [digit_char (n mod 10)])"

declare show_nat.simps [simp del]

definition show_u64 :: "u64 \<Rightarrow> string" where
  "show_u64 i = show_nat (unat i)"

definition show_bool :: "bool \<Rightarrow> string" where
  "show_bool b = (if b then ''yes'' else ''no'')"

end
