(* ===== verification/Mlf_Status.thy ===== *)
theory Mlf_Status
  imports Mlf_Prelude
begin

text \<open>
  Structured outcomes of include/mlf/status.hpp and src/status.cpp: outcome codes, named
  reasons, decisions (an outcome plus a list of reasons) and explanations (ordered
  key/value bindings plus reasons), with the canonical ordering \<open>normalize\<close> and the
  renderings. The severity gate, the accumulation of faults every \<open>evaluate_*\<close> routine
  performs, is specified here as a locale.
\<close>

section \<open>Outcome codes\<close>

datatype outcome_code =
    OC_Ok | OC_Accepted | OC_Rejected | OC_PROMOTION_ALLOWED | OC_PROMOTION_BLOCKED |
    OC_CANARY_ALLOWED | OC_CANARY_BLOCKED | OC_STAGE_ADVANCE_ALLOWED |
    OC_STAGE_ADVANCE_BLOCKED | OC_ROLLBACK_ALLOWED | OC_ROLLBACK_BLOCKED |
    OC_RETIREMENT_ALLOWED | OC_RETIREMENT_BLOCKED | OC_REVALIDATION_REQUIRED |
    OC_ROLLBACK_DECISION_REQUIRED | OC_STALE_PLAN | OC_STALE_EVIDENCE | OC_INCOMPATIBLE |
    OC_NO_AUTHORITATIVE_MODEL | OC_AMBIGUOUS | OC_OUTCOME_UNKNOWN |
    OC_RECONCILIATION_REQUIRED | OC_CONFLICT | OC_BOUNDS_EXCEEDED | OC_NOT_FOUND |
    OC_UNSUPPORTED

primrec to_string_outcome :: "outcome_code \<Rightarrow> string" where
  "to_string_outcome OC_Ok = ''OK''"
| "to_string_outcome OC_Accepted = ''ACCEPTED''"
| "to_string_outcome OC_Rejected = ''REJECTED''"
| "to_string_outcome OC_PROMOTION_ALLOWED = ''PROMOTION_ALLOWED''"
| "to_string_outcome OC_PROMOTION_BLOCKED = ''PROMOTION_BLOCKED''"
| "to_string_outcome OC_CANARY_ALLOWED = ''CANARY_ALLOWED''"
| "to_string_outcome OC_CANARY_BLOCKED = ''CANARY_BLOCKED''"
| "to_string_outcome OC_STAGE_ADVANCE_ALLOWED = ''STAGE_ADVANCE_ALLOWED''"
| "to_string_outcome OC_STAGE_ADVANCE_BLOCKED = ''STAGE_ADVANCE_BLOCKED''"
| "to_string_outcome OC_ROLLBACK_ALLOWED = ''ROLLBACK_ALLOWED''"
| "to_string_outcome OC_ROLLBACK_BLOCKED = ''ROLLBACK_BLOCKED''"
| "to_string_outcome OC_RETIREMENT_ALLOWED = ''RETIREMENT_ALLOWED''"
| "to_string_outcome OC_RETIREMENT_BLOCKED = ''RETIREMENT_BLOCKED''"
| "to_string_outcome OC_REVALIDATION_REQUIRED = ''REVALIDATION_REQUIRED''"
| "to_string_outcome OC_ROLLBACK_DECISION_REQUIRED = ''ROLLBACK_DECISION_REQUIRED''"
| "to_string_outcome OC_STALE_PLAN = ''STALE_PLAN''"
| "to_string_outcome OC_STALE_EVIDENCE = ''STALE_EVIDENCE''"
| "to_string_outcome OC_INCOMPATIBLE = ''INCOMPATIBLE''"
| "to_string_outcome OC_NO_AUTHORITATIVE_MODEL = ''NO_AUTHORITATIVE_MODEL''"
| "to_string_outcome OC_AMBIGUOUS = ''AMBIGUOUS''"
| "to_string_outcome OC_OUTCOME_UNKNOWN = ''OUTCOME_UNKNOWN''"
| "to_string_outcome OC_RECONCILIATION_REQUIRED = ''RECONCILIATION_REQUIRED''"
| "to_string_outcome OC_CONFLICT = ''CONFLICT''"
| "to_string_outcome OC_BOUNDS_EXCEEDED = ''BOUNDS_EXCEEDED''"
| "to_string_outcome OC_NOT_FOUND = ''NOT_FOUND''"
| "to_string_outcome OC_UNSUPPORTED = ''UNSUPPORTED''"

definition is_positive :: "outcome_code \<Rightarrow> bool" where
  "is_positive code \<longleftrightarrow>
     code = OC_Ok \<or> code = OC_Accepted \<or> code = OC_PROMOTION_ALLOWED \<or>
     code = OC_CANARY_ALLOWED \<or> code = OC_STAGE_ADVANCE_ALLOWED \<or>
     code = OC_ROLLBACK_ALLOWED \<or> code = OC_RETIREMENT_ALLOWED"

section \<open>Named reasons\<close>

text \<open>
  The source enumerates the reasons in one \<open>enum class\<close> of 151 values, divided into
  groups by its comments. Each group is a datatype here and \<open>reason_code\<close> is their sum;
  \<open>reason_index\<close> gives the enumeration value.
\<close>

datatype registry_reason =
    DuplicateModel | DuplicateVersion | UnknownModel | UnknownVersion | UnknownScope |
    InvalidName | InvalidVersionLabel | InvalidDigest | ParentVersionMissing |
    PredecessorCycle | VersionSuperseded

datatype bounds_reason =
    BoundsModelCount | BoundsVersionCount | BoundsScopeCount | BoundsRolloutCount |
    BoundsStageCount | BoundsCohortCount | BoundsWorkerCount | BoundsEvidenceCount |
    BoundsAttemptCount | BoundsHistoryCount | BoundsPayloadSize | BoundsStringLength

datatype lifecycle_reason =
    InvalidLifecycleTransition | LifecycleGenerationMismatch | VersionRetired |
    VersionFailed | VersionNotPromotionEligible | VersionAlreadyCurrent

datatype artifact_reason =
    ArtifactSetMissing | ArtifactGenerationMismatch | ArtifactDigestMismatch |
    ArtifactIntegrityStale

datatype compatibility_reason =
    CompatibilityMissing | CompatibilityStale | CompatibilityGenerationMismatch |
    IncompatibleArtifact | IncompatibleRuntime | IncompatibleBackend |
    IncompatibleArchitecture | IncompatiblePrecision | IncompatibleTokenizer |
    IncompatibleAdapter | IncompatiblePolicy | CompatibilityUnknown |
    CompatibilityRequiresRebuild | CompatibilityRequiresRecompile |
    CompatibilityRequiresConversion | HardwareCapabilityInsufficient

datatype policy_reason =
    PolicyGenerationMismatch | PolicyDeniesPromotion | PolicyDeniesCoexistence |
    PolicyDeniesAutoRollback | PolicyRequiresRollbackTarget | PolicyScopeNotTargetable |
    PolicyRequiresEvidence | PolicyRequiresDrain | PolicyRequiresApproval |
    CoexistenceLimitExceeded | BlastRadiusExceeded

datatype evidence_reason =
    EvidenceMissing | EvidenceStale | EvidenceSubjectMismatch |
    EvidenceGenerationMismatch | EvidencePublisherUnknown | EvidencePublisherBootStale |
    EvidenceSubjectModelGenerationMismatch | EvidenceSubjectArtifactMismatch |
    EvidenceSubjectCompatibilityMismatch | EvidenceUnsatisfiedCriteria |
    EvidenceConflicting | EvidenceUnknownProvenance

datatype ordering_reason =
    ModelGenerationMismatch | ScopeGenerationMismatch | RolloutGenerationMismatch |
    RolloutStageGenerationMismatch | PromotionGenerationMismatch |
    CoordinatorEpochStale | SnapshotGenerationStale | SequenceRegression

datatype promotion_reason =
    PromotionNotAuthorized | PromotionCommitDuplicate | PromotionCandidateRetired |
    PromotionScopeInvalid | PromotionRequiresRolloutPlan

datatype rollout_reason =
    RolloutPlanStale | RolloutNotActive | RolloutAlreadyComplete | StageOrderViolation |
    StageEntryConditionUnmet | StageAcceptanceNotMet | StageFailureThresholdExceeded |
    StageSkipped | CohortUnknown | CohortScopeInvalid | StageCompletionDuplicate |
    RolloutSuperseded | StageFeedbackIncomplete | DrainRequired

datatype rollback_reason =
    RollbackTargetRequired | RollbackTargetUnknown | RollbackTargetRetired |
    RollbackTargetArtifactMissing | RollbackTargetIncompatible |
    RollbackCommitDuplicate | RollbackGenerationMismatch | NoCurrentAuthority |
    RollbackNotAuthorized | RollbackSupersededByNewerGeneration

datatype retirement_reason =
    RetirementScopeDependency | RetirementRolloutActive |
    RetirementRetentionUnsatisfied | RetirementDrainIncomplete |
    RetirementDependencyUnresolved | RetirementAlreadyRetired

datatype readiness_reason =
    ResidencyIntentMissing | ResidencyGenerationMismatch | ResidencyNotResident |
    ReadinessMissing | ReadinessStale | ReadinessSubjectMismatch | WarmupIncomplete

datatype worker_reason =
    WorkerUnknown | WorkerBootStale | WorkerNotRegistered | WorkerNotCurrent |
    WorkerScopeNotOwned | CoordinatorEpochMismatch | AttemptUnknown |
    AttemptAlreadyCompleted | AttemptConflictingCompletion | AttemptOutcomeUnknown

datatype reconciliation_reason =
    ReplicaEvidenceMissing | ExternalStateDiverged | ExpectedResidentMissing |
    RetiredModelStillResident | RolloutStageWithoutWorkers | UnreconciledAttempt

datatype protocol_reason =
    ProtocolWrongMagic | ProtocolUnsupportedVersion | ProtocolUnknownType |
    ProtocolOversized | ProtocolTruncated | ProtocolIntegrityFailure |
    ProtocolDuplicateHello | ProtocolInvalidScope | ProtocolInvalidTransition |
    ProtocolDecodeFailure

datatype transaction_reason =
    TransactionRolledBack | UnsupportedCapability

datatype reason_code =
    NoReason
  | Reg registry_reason
  | Bnd bounds_reason
  | Lfc lifecycle_reason
  | Art artifact_reason
  | Cmp compatibility_reason
  | Pol policy_reason
  | Evd evidence_reason
  | Ord ordering_reason
  | Prm promotion_reason
  | Rlt rollout_reason
  | Rbk rollback_reason
  | Ret retirement_reason
  | Rdy readiness_reason
  | Wrk worker_reason
  | Rcn reconciliation_reason
  | Prt protocol_reason
  | Txn transaction_reason

primrec registry_index :: "registry_reason \<Rightarrow> nat" where
  "registry_index DuplicateModel = 0"
| "registry_index DuplicateVersion = 1"
| "registry_index UnknownModel = 2"
| "registry_index UnknownVersion = 3"
| "registry_index UnknownScope = 4"
| "registry_index InvalidName = 5"
| "registry_index InvalidVersionLabel = 6"
| "registry_index InvalidDigest = 7"
| "registry_index ParentVersionMissing = 8"
| "registry_index PredecessorCycle = 9"
| "registry_index VersionSuperseded = 10"

primrec bounds_index :: "bounds_reason \<Rightarrow> nat" where
  "bounds_index BoundsModelCount = 0"
| "bounds_index BoundsVersionCount = 1"
| "bounds_index BoundsScopeCount = 2"
| "bounds_index BoundsRolloutCount = 3"
| "bounds_index BoundsStageCount = 4"
| "bounds_index BoundsCohortCount = 5"
| "bounds_index BoundsWorkerCount = 6"
| "bounds_index BoundsEvidenceCount = 7"
| "bounds_index BoundsAttemptCount = 8"
| "bounds_index BoundsHistoryCount = 9"
| "bounds_index BoundsPayloadSize = 10"
| "bounds_index BoundsStringLength = 11"

primrec lifecycle_index :: "lifecycle_reason \<Rightarrow> nat" where
  "lifecycle_index InvalidLifecycleTransition = 0"
| "lifecycle_index LifecycleGenerationMismatch = 1"
| "lifecycle_index VersionRetired = 2"
| "lifecycle_index VersionFailed = 3"
| "lifecycle_index VersionNotPromotionEligible = 4"
| "lifecycle_index VersionAlreadyCurrent = 5"

primrec artifact_index :: "artifact_reason \<Rightarrow> nat" where
  "artifact_index ArtifactSetMissing = 0"
| "artifact_index ArtifactGenerationMismatch = 1"
| "artifact_index ArtifactDigestMismatch = 2"
| "artifact_index ArtifactIntegrityStale = 3"

primrec compatibility_index :: "compatibility_reason \<Rightarrow> nat" where
  "compatibility_index CompatibilityMissing = 0"
| "compatibility_index CompatibilityStale = 1"
| "compatibility_index CompatibilityGenerationMismatch = 2"
| "compatibility_index IncompatibleArtifact = 3"
| "compatibility_index IncompatibleRuntime = 4"
| "compatibility_index IncompatibleBackend = 5"
| "compatibility_index IncompatibleArchitecture = 6"
| "compatibility_index IncompatiblePrecision = 7"
| "compatibility_index IncompatibleTokenizer = 8"
| "compatibility_index IncompatibleAdapter = 9"
| "compatibility_index IncompatiblePolicy = 10"
| "compatibility_index CompatibilityUnknown = 11"
| "compatibility_index CompatibilityRequiresRebuild = 12"
| "compatibility_index CompatibilityRequiresRecompile = 13"
| "compatibility_index CompatibilityRequiresConversion = 14"
| "compatibility_index HardwareCapabilityInsufficient = 15"

primrec policy_index :: "policy_reason \<Rightarrow> nat" where
  "policy_index PolicyGenerationMismatch = 0"
| "policy_index PolicyDeniesPromotion = 1"
| "policy_index PolicyDeniesCoexistence = 2"
| "policy_index PolicyDeniesAutoRollback = 3"
| "policy_index PolicyRequiresRollbackTarget = 4"
| "policy_index PolicyScopeNotTargetable = 5"
| "policy_index PolicyRequiresEvidence = 6"
| "policy_index PolicyRequiresDrain = 7"
| "policy_index PolicyRequiresApproval = 8"
| "policy_index CoexistenceLimitExceeded = 9"
| "policy_index BlastRadiusExceeded = 10"

primrec evidence_index :: "evidence_reason \<Rightarrow> nat" where
  "evidence_index EvidenceMissing = 0"
| "evidence_index EvidenceStale = 1"
| "evidence_index EvidenceSubjectMismatch = 2"
| "evidence_index EvidenceGenerationMismatch = 3"
| "evidence_index EvidencePublisherUnknown = 4"
| "evidence_index EvidencePublisherBootStale = 5"
| "evidence_index EvidenceSubjectModelGenerationMismatch = 6"
| "evidence_index EvidenceSubjectArtifactMismatch = 7"
| "evidence_index EvidenceSubjectCompatibilityMismatch = 8"
| "evidence_index EvidenceUnsatisfiedCriteria = 9"
| "evidence_index EvidenceConflicting = 10"
| "evidence_index EvidenceUnknownProvenance = 11"

primrec ordering_index :: "ordering_reason \<Rightarrow> nat" where
  "ordering_index ModelGenerationMismatch = 0"
| "ordering_index ScopeGenerationMismatch = 1"
| "ordering_index RolloutGenerationMismatch = 2"
| "ordering_index RolloutStageGenerationMismatch = 3"
| "ordering_index PromotionGenerationMismatch = 4"
| "ordering_index CoordinatorEpochStale = 5"
| "ordering_index SnapshotGenerationStale = 6"
| "ordering_index SequenceRegression = 7"

primrec promotion_index :: "promotion_reason \<Rightarrow> nat" where
  "promotion_index PromotionNotAuthorized = 0"
| "promotion_index PromotionCommitDuplicate = 1"
| "promotion_index PromotionCandidateRetired = 2"
| "promotion_index PromotionScopeInvalid = 3"
| "promotion_index PromotionRequiresRolloutPlan = 4"

primrec rollout_index :: "rollout_reason \<Rightarrow> nat" where
  "rollout_index RolloutPlanStale = 0"
| "rollout_index RolloutNotActive = 1"
| "rollout_index RolloutAlreadyComplete = 2"
| "rollout_index StageOrderViolation = 3"
| "rollout_index StageEntryConditionUnmet = 4"
| "rollout_index StageAcceptanceNotMet = 5"
| "rollout_index StageFailureThresholdExceeded = 6"
| "rollout_index StageSkipped = 7"
| "rollout_index CohortUnknown = 8"
| "rollout_index CohortScopeInvalid = 9"
| "rollout_index StageCompletionDuplicate = 10"
| "rollout_index RolloutSuperseded = 11"
| "rollout_index StageFeedbackIncomplete = 12"
| "rollout_index DrainRequired = 13"

primrec rollback_index :: "rollback_reason \<Rightarrow> nat" where
  "rollback_index RollbackTargetRequired = 0"
| "rollback_index RollbackTargetUnknown = 1"
| "rollback_index RollbackTargetRetired = 2"
| "rollback_index RollbackTargetArtifactMissing = 3"
| "rollback_index RollbackTargetIncompatible = 4"
| "rollback_index RollbackCommitDuplicate = 5"
| "rollback_index RollbackGenerationMismatch = 6"
| "rollback_index NoCurrentAuthority = 7"
| "rollback_index RollbackNotAuthorized = 8"
| "rollback_index RollbackSupersededByNewerGeneration = 9"

primrec retirement_index :: "retirement_reason \<Rightarrow> nat" where
  "retirement_index RetirementScopeDependency = 0"
| "retirement_index RetirementRolloutActive = 1"
| "retirement_index RetirementRetentionUnsatisfied = 2"
| "retirement_index RetirementDrainIncomplete = 3"
| "retirement_index RetirementDependencyUnresolved = 4"
| "retirement_index RetirementAlreadyRetired = 5"

primrec readiness_index :: "readiness_reason \<Rightarrow> nat" where
  "readiness_index ResidencyIntentMissing = 0"
| "readiness_index ResidencyGenerationMismatch = 1"
| "readiness_index ResidencyNotResident = 2"
| "readiness_index ReadinessMissing = 3"
| "readiness_index ReadinessStale = 4"
| "readiness_index ReadinessSubjectMismatch = 5"
| "readiness_index WarmupIncomplete = 6"

primrec worker_index :: "worker_reason \<Rightarrow> nat" where
  "worker_index WorkerUnknown = 0"
| "worker_index WorkerBootStale = 1"
| "worker_index WorkerNotRegistered = 2"
| "worker_index WorkerNotCurrent = 3"
| "worker_index WorkerScopeNotOwned = 4"
| "worker_index CoordinatorEpochMismatch = 5"
| "worker_index AttemptUnknown = 6"
| "worker_index AttemptAlreadyCompleted = 7"
| "worker_index AttemptConflictingCompletion = 8"
| "worker_index AttemptOutcomeUnknown = 9"

primrec reconciliation_index :: "reconciliation_reason \<Rightarrow> nat" where
  "reconciliation_index ReplicaEvidenceMissing = 0"
| "reconciliation_index ExternalStateDiverged = 1"
| "reconciliation_index ExpectedResidentMissing = 2"
| "reconciliation_index RetiredModelStillResident = 3"
| "reconciliation_index RolloutStageWithoutWorkers = 4"
| "reconciliation_index UnreconciledAttempt = 5"

primrec protocol_index :: "protocol_reason \<Rightarrow> nat" where
  "protocol_index ProtocolWrongMagic = 0"
| "protocol_index ProtocolUnsupportedVersion = 1"
| "protocol_index ProtocolUnknownType = 2"
| "protocol_index ProtocolOversized = 3"
| "protocol_index ProtocolTruncated = 4"
| "protocol_index ProtocolIntegrityFailure = 5"
| "protocol_index ProtocolDuplicateHello = 6"
| "protocol_index ProtocolInvalidScope = 7"
| "protocol_index ProtocolInvalidTransition = 8"
| "protocol_index ProtocolDecodeFailure = 9"

primrec transaction_index :: "transaction_reason \<Rightarrow> nat" where
  "transaction_index TransactionRolledBack = 0"
| "transaction_index UnsupportedCapability = 1"

primrec reason_index :: "reason_code \<Rightarrow> nat" where
  "reason_index NoReason = 0"
| "reason_index (Reg r) = 1 + registry_index r"
| "reason_index (Bnd r) = 12 + bounds_index r"
| "reason_index (Lfc r) = 24 + lifecycle_index r"
| "reason_index (Art r) = 30 + artifact_index r"
| "reason_index (Cmp r) = 34 + compatibility_index r"
| "reason_index (Pol r) = 50 + policy_index r"
| "reason_index (Evd r) = 61 + evidence_index r"
| "reason_index (Ord r) = 73 + ordering_index r"
| "reason_index (Prm r) = 81 + promotion_index r"
| "reason_index (Rlt r) = 86 + rollout_index r"
| "reason_index (Rbk r) = 100 + rollback_index r"
| "reason_index (Ret r) = 110 + retirement_index r"
| "reason_index (Rdy r) = 116 + readiness_index r"
| "reason_index (Wrk r) = 123 + worker_index r"
| "reason_index (Rcn r) = 133 + reconciliation_index r"
| "reason_index (Prt r) = 139 + protocol_index r"
| "reason_index (Txn r) = 149 + transaction_index r"

lemma registry_index_less: "registry_index r < 11"
  by (cases r) simp_all

lemma registry_index_inj: "registry_index r = registry_index r' \<Longrightarrow> r = r'"
  by (cases r; cases r'; simp)

lemma bounds_index_less: "bounds_index r < 12"
  by (cases r) simp_all

lemma bounds_index_inj: "bounds_index r = bounds_index r' \<Longrightarrow> r = r'"
  by (cases r; cases r'; simp)

lemma lifecycle_index_less: "lifecycle_index r < 6"
  by (cases r) simp_all

lemma lifecycle_index_inj: "lifecycle_index r = lifecycle_index r' \<Longrightarrow> r = r'"
  by (cases r; cases r'; simp)

lemma artifact_index_less: "artifact_index r < 4"
  by (cases r) simp_all

lemma artifact_index_inj: "artifact_index r = artifact_index r' \<Longrightarrow> r = r'"
  by (cases r; cases r'; simp)

lemma compatibility_index_less: "compatibility_index r < 16"
  by (cases r) simp_all

lemma compatibility_index_inj: "compatibility_index r = compatibility_index r' \<Longrightarrow> r = r'"
  by (cases r; cases r'; simp)

lemma policy_index_less: "policy_index r < 11"
  by (cases r) simp_all

lemma policy_index_inj: "policy_index r = policy_index r' \<Longrightarrow> r = r'"
  by (cases r; cases r'; simp)

lemma evidence_index_less: "evidence_index r < 12"
  by (cases r) simp_all

lemma evidence_index_inj: "evidence_index r = evidence_index r' \<Longrightarrow> r = r'"
  by (cases r; cases r'; simp)

lemma ordering_index_less: "ordering_index r < 8"
  by (cases r) simp_all

lemma ordering_index_inj: "ordering_index r = ordering_index r' \<Longrightarrow> r = r'"
  by (cases r; cases r'; simp)

lemma promotion_index_less: "promotion_index r < 5"
  by (cases r) simp_all

lemma promotion_index_inj: "promotion_index r = promotion_index r' \<Longrightarrow> r = r'"
  by (cases r; cases r'; simp)

lemma rollout_index_less: "rollout_index r < 14"
  by (cases r) simp_all

lemma rollout_index_inj: "rollout_index r = rollout_index r' \<Longrightarrow> r = r'"
  by (cases r; cases r'; simp)

lemma rollback_index_less: "rollback_index r < 10"
  by (cases r) simp_all

lemma rollback_index_inj: "rollback_index r = rollback_index r' \<Longrightarrow> r = r'"
  by (cases r; cases r'; simp)

lemma retirement_index_less: "retirement_index r < 6"
  by (cases r) simp_all

lemma retirement_index_inj: "retirement_index r = retirement_index r' \<Longrightarrow> r = r'"
  by (cases r; cases r'; simp)

lemma readiness_index_less: "readiness_index r < 7"
  by (cases r) simp_all

lemma readiness_index_inj: "readiness_index r = readiness_index r' \<Longrightarrow> r = r'"
  by (cases r; cases r'; simp)

lemma worker_index_less: "worker_index r < 10"
  by (cases r) simp_all

lemma worker_index_inj: "worker_index r = worker_index r' \<Longrightarrow> r = r'"
  by (cases r; cases r'; simp)

lemma reconciliation_index_less: "reconciliation_index r < 6"
  by (cases r) simp_all

lemma reconciliation_index_inj: "reconciliation_index r = reconciliation_index r' \<Longrightarrow> r = r'"
  by (cases r; cases r'; simp)

lemma protocol_index_less: "protocol_index r < 10"
  by (cases r) simp_all

lemma protocol_index_inj: "protocol_index r = protocol_index r' \<Longrightarrow> r = r'"
  by (cases r; cases r'; simp)

lemma transaction_index_less: "transaction_index r < 2"
  by (cases r) simp_all

lemma transaction_index_inj: "transaction_index r = transaction_index r' \<Longrightarrow> r = r'"
  by (cases r; cases r'; simp)

lemmas group_index_less =
  registry_index_less bounds_index_less lifecycle_index_less artifact_index_less
  compatibility_index_less policy_index_less evidence_index_less ordering_index_less
  promotion_index_less rollout_index_less rollback_index_less retirement_index_less
  readiness_index_less worker_index_less reconciliation_index_less protocol_index_less
  transaction_index_less

lemmas group_index_inj =
  registry_index_inj bounds_index_inj lifecycle_index_inj artifact_index_inj
  compatibility_index_inj policy_index_inj evidence_index_inj ordering_index_inj
  promotion_index_inj rollout_index_inj rollback_index_inj retirement_index_inj
  readiness_index_inj worker_index_inj reconciliation_index_inj protocol_index_inj
  transaction_index_inj

definition kReasonNames :: "(reason_code \<times> string) list" where
  "kReasonNames = [
    (NoReason, ''NONE''),
    (Reg DuplicateModel, ''DUPLICATE_MODEL''),
    (Reg DuplicateVersion, ''DUPLICATE_VERSION''),
    (Reg UnknownModel, ''UNKNOWN_MODEL''),
    (Reg UnknownVersion, ''UNKNOWN_VERSION''),
    (Reg UnknownScope, ''UNKNOWN_SCOPE''),
    (Reg InvalidName, ''INVALID_NAME''),
    (Reg InvalidVersionLabel, ''INVALID_VERSION_LABEL''),
    (Reg InvalidDigest, ''INVALID_DIGEST''),
    (Reg ParentVersionMissing, ''PARENT_VERSION_MISSING''),
    (Reg PredecessorCycle, ''PREDECESSOR_CYCLE''),
    (Reg VersionSuperseded, ''VERSION_SUPERSEDED''),
    (Bnd BoundsModelCount, ''BOUNDS_MODEL_COUNT''),
    (Bnd BoundsVersionCount, ''BOUNDS_VERSION_COUNT''),
    (Bnd BoundsScopeCount, ''BOUNDS_SCOPE_COUNT''),
    (Bnd BoundsRolloutCount, ''BOUNDS_ROLLOUT_COUNT''),
    (Bnd BoundsStageCount, ''BOUNDS_STAGE_COUNT''),
    (Bnd BoundsCohortCount, ''BOUNDS_COHORT_COUNT''),
    (Bnd BoundsWorkerCount, ''BOUNDS_WORKER_COUNT''),
    (Bnd BoundsEvidenceCount, ''BOUNDS_EVIDENCE_COUNT''),
    (Bnd BoundsAttemptCount, ''BOUNDS_ATTEMPT_COUNT''),
    (Bnd BoundsHistoryCount, ''BOUNDS_HISTORY_COUNT''),
    (Bnd BoundsPayloadSize, ''BOUNDS_PAYLOAD_SIZE''),
    (Bnd BoundsStringLength, ''BOUNDS_STRING_LENGTH''),
    (Lfc InvalidLifecycleTransition, ''INVALID_LIFECYCLE_TRANSITION''),
    (Lfc LifecycleGenerationMismatch, ''LIFECYCLE_GENERATION_MISMATCH''),
    (Lfc VersionRetired, ''VERSION_RETIRED''),
    (Lfc VersionFailed, ''VERSION_FAILED''),
    (Lfc VersionNotPromotionEligible, ''VERSION_NOT_PROMOTION_ELIGIBLE''),
    (Lfc VersionAlreadyCurrent, ''VERSION_ALREADY_CURRENT''),
    (Art ArtifactSetMissing, ''ARTIFACT_SET_MISSING''),
    (Art ArtifactGenerationMismatch, ''ARTIFACT_GENERATION_MISMATCH''),
    (Art ArtifactDigestMismatch, ''ARTIFACT_DIGEST_MISMATCH''),
    (Art ArtifactIntegrityStale, ''ARTIFACT_INTEGRITY_STALE''),
    (Cmp CompatibilityMissing, ''COMPATIBILITY_MISSING''),
    (Cmp CompatibilityStale, ''COMPATIBILITY_STALE''),
    (Cmp CompatibilityGenerationMismatch, ''COMPATIBILITY_GENERATION_MISMATCH''),
    (Cmp IncompatibleArtifact, ''INCOMPATIBLE_ARTIFACT''),
    (Cmp IncompatibleRuntime, ''INCOMPATIBLE_RUNTIME''),
    (Cmp IncompatibleBackend, ''INCOMPATIBLE_BACKEND''),
    (Cmp IncompatibleArchitecture, ''INCOMPATIBLE_ARCHITECTURE''),
    (Cmp IncompatiblePrecision, ''INCOMPATIBLE_PRECISION''),
    (Cmp IncompatibleTokenizer, ''INCOMPATIBLE_TOKENIZER''),
    (Cmp IncompatibleAdapter, ''INCOMPATIBLE_ADAPTER''),
    (Cmp IncompatiblePolicy, ''INCOMPATIBLE_POLICY''),
    (Cmp CompatibilityUnknown, ''COMPATIBILITY_UNKNOWN''),
    (Cmp CompatibilityRequiresRebuild, ''COMPATIBILITY_REQUIRES_REBUILD''),
    (Cmp CompatibilityRequiresRecompile, ''COMPATIBILITY_REQUIRES_RECOMPILE''),
    (Cmp CompatibilityRequiresConversion, ''COMPATIBILITY_REQUIRES_CONVERSION''),
    (Cmp HardwareCapabilityInsufficient, ''HARDWARE_CAPABILITY_INSUFFICIENT''),
    (Pol PolicyGenerationMismatch, ''POLICY_GENERATION_MISMATCH''),
    (Pol PolicyDeniesPromotion, ''POLICY_DENIES_PROMOTION''),
    (Pol PolicyDeniesCoexistence, ''POLICY_DENIES_COEXISTENCE''),
    (Pol PolicyDeniesAutoRollback, ''POLICY_DENIES_AUTO_ROLLBACK''),
    (Pol PolicyRequiresRollbackTarget, ''POLICY_REQUIRES_ROLLBACK_TARGET''),
    (Pol PolicyScopeNotTargetable, ''POLICY_SCOPE_NOT_TARGETABLE''),
    (Pol PolicyRequiresEvidence, ''POLICY_REQUIRES_EVIDENCE''),
    (Pol PolicyRequiresDrain, ''POLICY_REQUIRES_DRAIN''),
    (Pol PolicyRequiresApproval, ''POLICY_REQUIRES_APPROVAL''),
    (Pol CoexistenceLimitExceeded, ''COEXISTENCE_LIMIT_EXCEEDED''),
    (Pol BlastRadiusExceeded, ''BLAST_RADIUS_EXCEEDED''),
    (Evd EvidenceMissing, ''EVIDENCE_MISSING''),
    (Evd EvidenceStale, ''EVIDENCE_STALE''),
    (Evd EvidenceSubjectMismatch, ''EVIDENCE_SUBJECT_MISMATCH''),
    (Evd EvidenceGenerationMismatch, ''EVIDENCE_GENERATION_MISMATCH''),
    (Evd EvidencePublisherUnknown, ''EVIDENCE_PUBLISHER_UNKNOWN''),
    (Evd EvidencePublisherBootStale, ''EVIDENCE_PUBLISHER_BOOT_STALE''),
    (Evd EvidenceSubjectModelGenerationMismatch, ''EVIDENCE_SUBJECT_MODEL_GENERATION_MISMATCH''),
    (Evd EvidenceSubjectArtifactMismatch, ''EVIDENCE_SUBJECT_ARTIFACT_MISMATCH''),
    (Evd EvidenceSubjectCompatibilityMismatch, ''EVIDENCE_SUBJECT_COMPATIBILITY_MISMATCH''),
    (Evd EvidenceUnsatisfiedCriteria, ''EVIDENCE_UNSATISFIED_CRITERIA''),
    (Evd EvidenceConflicting, ''EVIDENCE_CONFLICTING''),
    (Evd EvidenceUnknownProvenance, ''EVIDENCE_UNKNOWN_PROVENANCE''),
    (Ord ModelGenerationMismatch, ''MODEL_GENERATION_MISMATCH''),
    (Ord ScopeGenerationMismatch, ''SCOPE_GENERATION_MISMATCH''),
    (Ord RolloutGenerationMismatch, ''ROLLOUT_GENERATION_MISMATCH''),
    (Ord RolloutStageGenerationMismatch, ''ROLLOUT_STAGE_GENERATION_MISMATCH''),
    (Ord PromotionGenerationMismatch, ''PROMOTION_GENERATION_MISMATCH''),
    (Ord CoordinatorEpochStale, ''COORDINATOR_EPOCH_STALE''),
    (Ord SnapshotGenerationStale, ''SNAPSHOT_GENERATION_STALE''),
    (Ord SequenceRegression, ''SEQUENCE_REGRESSION''),
    (Prm PromotionNotAuthorized, ''PROMOTION_NOT_AUTHORIZED''),
    (Prm PromotionCommitDuplicate, ''PROMOTION_COMMIT_DUPLICATE''),
    (Prm PromotionCandidateRetired, ''PROMOTION_CANDIDATE_RETIRED''),
    (Prm PromotionScopeInvalid, ''PROMOTION_SCOPE_INVALID''),
    (Prm PromotionRequiresRolloutPlan, ''PROMOTION_REQUIRES_ROLLOUT_PLAN''),
    (Rlt RolloutPlanStale, ''ROLLOUT_PLAN_STALE''),
    (Rlt RolloutNotActive, ''ROLLOUT_NOT_ACTIVE''),
    (Rlt RolloutAlreadyComplete, ''ROLLOUT_ALREADY_COMPLETE''),
    (Rlt StageOrderViolation, ''STAGE_ORDER_VIOLATION''),
    (Rlt StageEntryConditionUnmet, ''STAGE_ENTRY_CONDITION_UNMET''),
    (Rlt StageAcceptanceNotMet, ''STAGE_ACCEPTANCE_NOT_MET''),
    (Rlt StageFailureThresholdExceeded, ''STAGE_FAILURE_THRESHOLD_EXCEEDED''),
    (Rlt StageSkipped, ''STAGE_SKIPPED''),
    (Rlt CohortUnknown, ''COHORT_UNKNOWN''),
    (Rlt CohortScopeInvalid, ''COHORT_SCOPE_INVALID''),
    (Rlt StageCompletionDuplicate, ''STAGE_COMPLETION_DUPLICATE''),
    (Rlt RolloutSuperseded, ''ROLLOUT_SUPERSEDED''),
    (Rlt StageFeedbackIncomplete, ''STAGE_FEEDBACK_INCOMPLETE''),
    (Rlt DrainRequired, ''DRAIN_REQUIRED''),
    (Rbk RollbackTargetRequired, ''ROLLBACK_TARGET_REQUIRED''),
    (Rbk RollbackTargetUnknown, ''ROLLBACK_TARGET_UNKNOWN''),
    (Rbk RollbackTargetRetired, ''ROLLBACK_TARGET_RETIRED''),
    (Rbk RollbackTargetArtifactMissing, ''ROLLBACK_TARGET_ARTIFACT_MISSING''),
    (Rbk RollbackTargetIncompatible, ''ROLLBACK_TARGET_INCOMPATIBLE''),
    (Rbk RollbackCommitDuplicate, ''ROLLBACK_COMMIT_DUPLICATE''),
    (Rbk RollbackGenerationMismatch, ''ROLLBACK_GENERATION_MISMATCH''),
    (Rbk NoCurrentAuthority, ''NO_CURRENT_AUTHORITY''),
    (Rbk RollbackNotAuthorized, ''ROLLBACK_NOT_AUTHORIZED''),
    (Rbk RollbackSupersededByNewerGeneration, ''ROLLBACK_SUPERSEDED_BY_NEWER_GENERATION''),
    (Ret RetirementScopeDependency, ''RETIREMENT_SCOPE_DEPENDENCY''),
    (Ret RetirementRolloutActive, ''RETIREMENT_ROLLOUT_ACTIVE''),
    (Ret RetirementRetentionUnsatisfied, ''RETIREMENT_RETENTION_UNSATISFIED''),
    (Ret RetirementDrainIncomplete, ''RETIREMENT_DRAIN_INCOMPLETE''),
    (Ret RetirementDependencyUnresolved, ''RETIREMENT_DEPENDENCY_UNRESOLVED''),
    (Ret RetirementAlreadyRetired, ''RETIREMENT_ALREADY_RETIRED''),
    (Rdy ResidencyIntentMissing, ''RESIDENCY_INTENT_MISSING''),
    (Rdy ResidencyGenerationMismatch, ''RESIDENCY_GENERATION_MISMATCH''),
    (Rdy ResidencyNotResident, ''RESIDENCY_NOT_RESIDENT''),
    (Rdy ReadinessMissing, ''READINESS_MISSING''),
    (Rdy ReadinessStale, ''READINESS_STALE''),
    (Rdy ReadinessSubjectMismatch, ''READINESS_SUBJECT_MISMATCH''),
    (Rdy WarmupIncomplete, ''WARMUP_INCOMPLETE''),
    (Wrk WorkerUnknown, ''WORKER_UNKNOWN''),
    (Wrk WorkerBootStale, ''WORKER_BOOT_STALE''),
    (Wrk WorkerNotRegistered, ''WORKER_NOT_REGISTERED''),
    (Wrk WorkerNotCurrent, ''WORKER_NOT_CURRENT''),
    (Wrk WorkerScopeNotOwned, ''WORKER_SCOPE_NOT_OWNED''),
    (Wrk CoordinatorEpochMismatch, ''COORDINATOR_EPOCH_MISMATCH''),
    (Wrk AttemptUnknown, ''ATTEMPT_UNKNOWN''),
    (Wrk AttemptAlreadyCompleted, ''ATTEMPT_ALREADY_COMPLETED''),
    (Wrk AttemptConflictingCompletion, ''ATTEMPT_CONFLICTING_COMPLETION''),
    (Wrk AttemptOutcomeUnknown, ''ATTEMPT_OUTCOME_UNKNOWN''),
    (Rcn ReplicaEvidenceMissing, ''REPLICA_EVIDENCE_MISSING''),
    (Rcn ExternalStateDiverged, ''EXTERNAL_STATE_DIVERGED''),
    (Rcn ExpectedResidentMissing, ''EXPECTED_RESIDENT_MISSING''),
    (Rcn RetiredModelStillResident, ''RETIRED_MODEL_STILL_RESIDENT''),
    (Rcn RolloutStageWithoutWorkers, ''ROLLOUT_STAGE_WITHOUT_WORKERS''),
    (Rcn UnreconciledAttempt, ''UNRECONCILED_ATTEMPT''),
    (Prt ProtocolWrongMagic, ''PROTOCOL_WRONG_MAGIC''),
    (Prt ProtocolUnsupportedVersion, ''PROTOCOL_UNSUPPORTED_VERSION''),
    (Prt ProtocolUnknownType, ''PROTOCOL_UNKNOWN_TYPE''),
    (Prt ProtocolOversized, ''PROTOCOL_OVERSIZED''),
    (Prt ProtocolTruncated, ''PROTOCOL_TRUNCATED''),
    (Prt ProtocolIntegrityFailure, ''PROTOCOL_INTEGRITY_FAILURE''),
    (Prt ProtocolDuplicateHello, ''PROTOCOL_DUPLICATE_HELLO''),
    (Prt ProtocolInvalidScope, ''PROTOCOL_INVALID_SCOPE''),
    (Prt ProtocolInvalidTransition, ''PROTOCOL_INVALID_TRANSITION''),
    (Prt ProtocolDecodeFailure, ''PROTOCOL_DECODE_FAILURE''),
    (Txn TransactionRolledBack, ''TRANSACTION_ROLLED_BACK''),
    (Txn UnsupportedCapability, ''UNSUPPORTED_CAPABILITY'')]"

primrec reason_group :: "reason_code \<Rightarrow> nat" where
  "reason_group NoReason = 0"
| "reason_group (Reg r) = 1"
| "reason_group (Bnd r) = 2"
| "reason_group (Lfc r) = 3"
| "reason_group (Art r) = 4"
| "reason_group (Cmp r) = 5"
| "reason_group (Pol r) = 6"
| "reason_group (Evd r) = 7"
| "reason_group (Ord r) = 8"
| "reason_group (Prm r) = 9"
| "reason_group (Rlt r) = 10"
| "reason_group (Rbk r) = 11"
| "reason_group (Ret r) = 12"
| "reason_group (Rdy r) = 13"
| "reason_group (Wrk r) = 14"
| "reason_group (Rcn r) = 15"
| "reason_group (Prt r) = 16"
| "reason_group (Txn r) = 17"

lemma reason_group_of_index:
  "reason_group c = (let n = reason_index c in
      if n < 1 then 0
      else if n < 12 then 1
      else if n < 24 then 2
      else if n < 30 then 3
      else if n < 34 then 4
      else if n < 50 then 5
      else if n < 61 then 6
      else if n < 73 then 7
      else if n < 81 then 8
      else if n < 86 then 9
      else if n < 100 then 10
      else if n < 110 then 11
      else if n < 116 then 12
      else if n < 123 then 13
      else if n < 133 then 14
      else if n < 139 then 15
      else if n < 149 then 16
      else 17)"
  by (cases c) (simp_all add: group_index_less)

lemma reason_index_inj: "reason_index a = reason_index b \<longleftrightarrow> a = b"
proof
  assume index: "reason_index a = reason_index b"
  then have "reason_group a = reason_group b"
    by (simp only: reason_group_of_index)
  with index show "a = b"
    by (cases a; cases b; simp add: group_index_inj)
qed simp

lemma reason_code_equal [code]: "HOL.equal a b \<longleftrightarrow> reason_index a = reason_index b"
  by (simp add: equal_eq reason_index_inj)

definition to_string_reason :: "reason_code \<Rightarrow> string" where
  "to_string_reason code =
     (case find (\<lambda>entry. fst entry = code) kReasonNames of
        Some entry \<Rightarrow> snd entry
      | None \<Rightarrow> ''UNKNOWN_REASON'')"

text \<open>A reason: a code and a bounded detail, ordered by code value, then detail.\<close>

datatype reason = Reason (r_code: reason_code) (r_detail: string)

definition reason_key :: "reason \<Rightarrow> nat \<times> string" where
  "reason_key r = (reason_index (r_code r), r_detail r)"

lemma reason_key_inj: "reason_key a = reason_key b \<longleftrightarrow> a = b"
  by (cases a; cases b) (simp add: reason_key_def reason_index_inj)

definition reason_before :: "reason \<Rightarrow> reason \<Rightarrow> bool" where
  "reason_before a b \<longleftrightarrow> reason_key a < reason_key b"

instantiation reason :: linorder
begin

definition less_eq_reason :: "reason \<Rightarrow> reason \<Rightarrow> bool" where
  "less_eq_reason a b \<longleftrightarrow> reason_key a \<le> reason_key b"

definition less_reason :: "reason \<Rightarrow> reason \<Rightarrow> bool" where
  "less_reason a b \<longleftrightarrow> reason_before a b"

instance
  by standard (auto simp: less_eq_reason_def less_reason_def reason_before_def reason_key_inj less_le_not_le
      dest: order.antisym order.trans)

end

section \<open>Decisions\<close>

record decision =
  d_outcome :: outcome_code
  d_reasons :: "reason list"

definition new_decision :: "outcome_code \<Rightarrow> decision" where
  "new_decision code = \<lparr>d_outcome = code, d_reasons = []\<rparr>"

definition add_reason :: "decision \<Rightarrow> reason_code \<Rightarrow> string \<Rightarrow> decision" where
  "add_reason d code detail =
     (if code = NoReason then d else d\<lparr>d_reasons := d_reasons d @ [Reason code detail]\<rparr>)"

fun add_reasons :: "decision \<Rightarrow> reason list \<Rightarrow> decision" where
  "add_reasons d [] = d"
| "add_reasons d (r # rs) = add_reasons (add_reason d (r_code r) (r_detail r)) rs"

definition set_outcome :: "decision \<Rightarrow> outcome_code \<Rightarrow> decision" where
  "set_outcome d code = d\<lparr>d_outcome := code\<rparr>"

text \<open>The idiom \<open>set_outcome(code); return add(reason, detail)\<close> on a fresh decision.\<close>

definition refuse :: "outcome_code \<Rightarrow> reason_code \<Rightarrow> string \<Rightarrow> decision" where
  "refuse code reason detail = add_reason (new_decision code) reason detail"

definition allowed :: "decision \<Rightarrow> bool" where
  "allowed d \<longleftrightarrow> is_positive (d_outcome d)"

definition has_reason :: "decision \<Rightarrow> reason_code \<Rightarrow> bool" where
  "has_reason d code \<longleftrightarrow> list_ex (\<lambda>r. r_code r = code) (d_reasons d)"

definition normalize_decision :: "decision \<Rightarrow> decision" where
  "normalize_decision d = d\<lparr>d_reasons := sort_unique (d_reasons d)\<rparr>"

fun render_reasons :: "bool \<Rightarrow> reason list \<Rightarrow> string" where
  "render_reasons first [] = []"
| "render_reasons first (r # rs) =
     (if first then [] else '', '') @ to_string_reason (r_code r) @
     (if r_detail r = [] then [] else ''('' @ r_detail r @ '')'') @ render_reasons False rs"

definition render_decision :: "decision \<Rightarrow> string" where
  "render_decision d =
     to_string_outcome (d_outcome d) @
     (if d_reasons d = [] then [] else '' ['' @ render_reasons True (d_reasons d) @ '']'')"

lemma d_outcome_new [simp]: "d_outcome (new_decision c) = c"
  by (simp add: new_decision_def)

lemma d_reasons_new [simp]: "d_reasons (new_decision c) = []"
  by (simp add: new_decision_def)

lemma d_outcome_add [simp]: "d_outcome (add_reason d c t) = d_outcome d"
  by (simp add: add_reason_def)

lemma d_outcome_adds [simp]: "d_outcome (add_reasons d rs) = d_outcome d"
  by (induction rs arbitrary: d) simp_all

lemma d_outcome_set [simp]: "d_outcome (set_outcome d c) = c"
  by (simp add: set_outcome_def)

lemma d_outcome_refuse [simp]: "d_outcome (refuse c r t) = c"
  by (simp add: refuse_def)

lemma d_outcome_normalize [simp]: "d_outcome (normalize_decision d) = d_outcome d"
  by (simp add: normalize_decision_def)

lemma allowed_refuse [simp]: "allowed (refuse c r t) \<longleftrightarrow> is_positive c"
  by (simp add: allowed_def)

lemma allowed_new [simp]: "allowed (new_decision c) \<longleftrightarrow> is_positive c"
  by (simp add: allowed_def)

lemma allowed_normalize [simp]: "allowed (normalize_decision d) = allowed d"
  by (simp add: allowed_def)

lemma allowed_adds [simp]: "allowed (add_reasons d rs) = allowed d"
  by (simp add: allowed_def)

lemma allowed_add [simp]: "allowed (add_reason d c t) = allowed d"
  by (simp add: allowed_def)

lemma has_reason_refuse [simp]: "has_reason (refuse c r t) r' \<longleftrightarrow> r \<noteq> NoReason \<and> r' = r"
  by (auto simp: has_reason_def refuse_def add_reason_def)

lemma is_positive_simps [simp]:
  "is_positive OC_Ok" "is_positive OC_Accepted" "is_positive OC_PROMOTION_ALLOWED"
  "is_positive OC_CANARY_ALLOWED" "is_positive OC_STAGE_ADVANCE_ALLOWED"
  "is_positive OC_ROLLBACK_ALLOWED" "is_positive OC_RETIREMENT_ALLOWED"
  "\<not> is_positive OC_Rejected" "\<not> is_positive OC_PROMOTION_BLOCKED"
  "\<not> is_positive OC_CANARY_BLOCKED" "\<not> is_positive OC_STAGE_ADVANCE_BLOCKED"
  "\<not> is_positive OC_ROLLBACK_BLOCKED" "\<not> is_positive OC_RETIREMENT_BLOCKED"
  "\<not> is_positive OC_REVALIDATION_REQUIRED" "\<not> is_positive OC_ROLLBACK_DECISION_REQUIRED"
  "\<not> is_positive OC_STALE_PLAN" "\<not> is_positive OC_STALE_EVIDENCE"
  "\<not> is_positive OC_INCOMPATIBLE" "\<not> is_positive OC_NO_AUTHORITATIVE_MODEL"
  "\<not> is_positive OC_AMBIGUOUS" "\<not> is_positive OC_OUTCOME_UNKNOWN"
  "\<not> is_positive OC_RECONCILIATION_REQUIRED" "\<not> is_positive OC_CONFLICT"
  "\<not> is_positive OC_BOUNDS_EXCEEDED" "\<not> is_positive OC_NOT_FOUND"
  "\<not> is_positive OC_UNSUPPORTED"
  by (simp_all add: is_positive_def)

section \<open>Explanations\<close>

record explanation =
  x_outcome :: outcome_code
  x_bindings :: "(string \<times> string) list"
  x_reasons :: "reason list"

definition new_explanation :: "outcome_code \<Rightarrow> explanation" where
  "new_explanation code = \<lparr>x_outcome = code, x_bindings = [], x_reasons = []\<rparr>"

text \<open>\<open>Explanation::set\<close>: overwrite the first binding of the key, or append one.\<close>

fun set_binding :: "string \<Rightarrow> string \<Rightarrow> (string \<times> string) list \<Rightarrow> (string \<times> string) list" where
  "set_binding key val [] = [(key, val)]"
| "set_binding key val (kv # kvs) =
     (if fst kv = key then (key, val) # kvs else kv # set_binding key val kvs)"

definition x_set :: "string \<Rightarrow> string \<Rightarrow> explanation \<Rightarrow> explanation" where
  "x_set key val x = x\<lparr>x_bindings := set_binding key val (x_bindings x)\<rparr>"

fun x_set_all :: "(string \<times> string) list \<Rightarrow> explanation \<Rightarrow> explanation" where
  "x_set_all [] x = x"
| "x_set_all (kv # kvs) x = x_set_all kvs (x_set (fst kv) (snd kv) x)"

definition x_add :: "reason_code \<Rightarrow> string \<Rightarrow> explanation \<Rightarrow> explanation" where
  "x_add code detail x =
     (if code = NoReason then x else x\<lparr>x_reasons := x_reasons x @ [Reason code detail]\<rparr>)"

definition normalize_explanation :: "explanation \<Rightarrow> explanation" where
  "normalize_explanation x =
     x\<lparr>x_bindings := sort_key fst (x_bindings x), x_reasons := sort_unique (x_reasons x)\<rparr>"

definition x_find :: "string \<Rightarrow> explanation \<Rightarrow> string option" where
  "x_find key x = map_of (x_bindings x) key"

definition render_explanation :: "explanation \<Rightarrow> string" where
  "render_explanation x =
     to_string_outcome (x_outcome x) @ [CHR 0x0A] @
     concat (map (\<lambda>(k, v). ''  '' @ k @ '' = '' @ v @ [CHR 0x0A]) (x_bindings x)) @
     (if x_reasons x = [] then []
      else ''  reasons:'' @ [CHR 0x0A] @
        concat (map (\<lambda>r. ''    - '' @ to_string_reason (r_code r) @
            (if r_detail r = [] then [] else '': '' @ r_detail r) @ [CHR 0x0A]) (x_reasons x)))"

lemma keys_set_binding:
  "fst ` set (set_binding k v kvs) = insert k (fst ` set kvs)"
  by (induction kvs) auto

lemma distinct_set_binding:
  "distinct (map fst kvs) \<Longrightarrow> distinct (map fst (set_binding k v kvs))"
proof (induction kvs)
  case (Cons kv kvs)
  then show ?case
    using keys_set_binding [of k v kvs] by auto
qed simp

lemma find_set_binding:
  "map_of (set_binding k v kvs) x = (if x = k then Some v else map_of kvs x)"
  by (induction kvs) auto

section \<open>The severity gate\<close>

text \<open>
  Every \<open>evaluate_*_locked\<close> routine starts from its positive outcome and calls a local
  \<open>fault\<close>: \<open>raise\<close> keeps the outcome of the highest rank, the clamped text is added to the
  decision and to the explanation. \<open>gate\<close> is that pair of accumulators.
\<close>

record gate =
  g_decision :: decision
  g_local :: explanation

definition open_gate :: "outcome_code \<Rightarrow> gate" where
  "open_gate code = \<lparr>g_decision = new_decision code, g_local = new_explanation code\<rparr>"

definition raise :: "(outcome_code \<Rightarrow> nat) \<Rightarrow> decision \<Rightarrow> outcome_code \<Rightarrow> decision" where
  "raise rank d code = (if rank (d_outcome d) < rank code then set_outcome d code else d)"

definition fault ::
  "(outcome_code \<Rightarrow> nat) \<Rightarrow> outcome_code \<Rightarrow> reason_code \<Rightarrow> string \<Rightarrow> gate \<Rightarrow> gate" where
  "fault rank code reason text g =
     (let clamped = clamp_detail kMaxReasonDetail text in
      \<lparr>g_decision = add_reason (raise rank (g_decision g) code) reason clamped,
       g_local = x_add reason clamped (g_local g)\<rparr>)"

text \<open>\<open>if (condition) fault(...)\<close>.\<close>

definition fault_when ::
  "(outcome_code \<Rightarrow> nat) \<Rightarrow> bool \<Rightarrow> outcome_code \<Rightarrow> reason_code \<Rightarrow> string \<Rightarrow> gate \<Rightarrow> gate" where
  "fault_when rank b code reason text g = (if b then fault rank code reason text g else g)"

text \<open>\<open>for (reason : d.reasons()) fault(code, reason.code, reason.detail)\<close>.\<close>

fun fault_each :: "(outcome_code \<Rightarrow> nat) \<Rightarrow> outcome_code \<Rightarrow> reason list \<Rightarrow> gate \<Rightarrow> gate" where
  "fault_each rank code [] g = g"
| "fault_each rank code (r # rs) g =
     fault_each rank code rs (fault rank code (r_code r) (r_detail r) g)"

text \<open>\<open>if (!d.allowed()) for (reason : d.reasons()) fault(d.outcome(), ...)\<close>.\<close>

definition fault_decision :: "(outcome_code \<Rightarrow> nat) \<Rightarrow> decision \<Rightarrow> gate \<Rightarrow> gate" where
  "fault_decision rank d g =
     (if allowed d then g else fault_each rank (d_outcome d) (d_reasons d) g)"

definition g_note :: "reason_code \<Rightarrow> string \<Rightarrow> gate \<Rightarrow> gate" where
  "g_note code detail g = g\<lparr>g_local := x_add code detail (g_local g)\<rparr>"

definition g_set :: "string \<Rightarrow> string \<Rightarrow> gate \<Rightarrow> gate" where
  "g_set key val g = g\<lparr>g_local := x_set key val (g_local g)\<rparr>"

definition g_set_all :: "(string \<times> string) list \<Rightarrow> gate \<Rightarrow> gate" where
  "g_set_all kvs g = g\<lparr>g_local := x_set_all kvs (g_local g)\<rparr>"

text \<open>The common tail: outcome into the explanation, both normalized.\<close>

definition close_gate :: "gate \<Rightarrow> decision \<times> explanation" where
  "close_gate g =
     (normalize_decision (g_decision g),
      normalize_explanation ((g_local g)\<lparr>x_outcome := d_outcome (g_decision g)\<rparr>))"

text \<open>
  The contract of such a gate: \<open>top\<close> is the positive outcome and every code the routine
  raises outranks it. Then the gate ends positive exactly when no fault was raised.
\<close>

locale severity_gate =
  fixes rank :: "outcome_code \<Rightarrow> nat" and positive :: "outcome_code \<Rightarrow> bool"
  assumes positive_rank: "rank c = 0 \<longleftrightarrow> positive c"
    and positive_is_positive: "positive c \<Longrightarrow> is_positive c"
begin

definition clean :: "gate \<Rightarrow> bool" where
  "clean g \<longleftrightarrow> positive (d_outcome (g_decision g))"

lemma clean_open: "positive c \<Longrightarrow> clean (open_gate c)"
  by (simp add: clean_def open_gate_def)

lemma clean_fault: "clean (fault rank code r t g) \<longleftrightarrow> clean g \<and> positive code"
  using positive_rank [of code] positive_rank [of "d_outcome (g_decision g)"]
  by (auto simp: clean_def fault_def Let_def raise_def)

lemma clean_fault_when:
  "\<not> positive code \<Longrightarrow> clean (fault_when rank b code r t g) \<longleftrightarrow> clean g \<and> \<not> b"
  by (simp add: fault_when_def clean_fault)

lemma clean_fault_each:
  "\<not> positive code \<Longrightarrow> clean (fault_each rank code rs g) \<longleftrightarrow> clean g \<and> rs = []"
  by (induction rs arbitrary: g) (auto simp: clean_fault)

lemma clean_fault_decision:
  "(\<not> allowed d \<Longrightarrow> d_reasons d \<noteq> []) \<Longrightarrow>
   clean (fault_decision rank d g) \<longleftrightarrow> clean g \<and> allowed d"
  using positive_is_positive clean_fault_each [of "d_outcome d"]
  by (auto simp: fault_decision_def allowed_def)

lemma clean_g_note [simp]: "clean (g_note c t g) = clean g"
  by (simp add: clean_def g_note_def)

lemma clean_g_set [simp]: "clean (g_set k v g) = clean g"
  by (simp add: clean_def g_set_def)

lemma clean_g_set_all [simp]: "clean (g_set_all kvs g) = clean g"
  by (simp add: clean_def g_set_all_def)

text \<open>A gate never shows a positive outcome of another routine.\<close>

definition sound :: "gate \<Rightarrow> bool" where
  "sound g \<longleftrightarrow> clean g \<or> \<not> is_positive (d_outcome (g_decision g))"

lemma sound_open: "positive c \<Longrightarrow> sound (open_gate c)"
  by (simp add: sound_def clean_open)

lemma sound_fault: "\<not> is_positive code \<Longrightarrow> sound g \<Longrightarrow> sound (fault rank code r t g)"
  by (auto simp: sound_def clean_def fault_def Let_def raise_def)

lemma sound_fault_when: "\<not> is_positive code \<Longrightarrow> sound g \<Longrightarrow> sound (fault_when rank b code r t g)"
  by (simp add: fault_when_def sound_fault)

lemma sound_fault_each: "\<not> is_positive code \<Longrightarrow> sound g \<Longrightarrow> sound (fault_each rank code rs g)"
  by (induction rs arbitrary: g) (auto simp: sound_fault)

lemma sound_fault_decision: "sound g \<Longrightarrow> sound (fault_decision rank d g)"
  by (simp add: fault_decision_def allowed_def sound_fault_each)

lemma sound_g_note [simp]: "sound (g_note c t g) = sound g"
  by (simp add: sound_def g_note_def clean_def)

lemma sound_g_set [simp]: "sound (g_set k v g) = sound g"
  by (simp add: sound_def g_set_def clean_def)

lemma sound_g_set_all [simp]: "sound (g_set_all kvs g) = sound g"
  by (simp add: sound_def g_set_all_def clean_def)

text \<open>A gate closes with an allowed decision exactly when no fault was raised.\<close>

lemma close_allowed: "sound g \<Longrightarrow> allowed (fst (close_gate g)) \<longleftrightarrow> clean g"
  by (auto simp: sound_def clean_def close_gate_def allowed_def positive_is_positive)

lemma clean_outcome: "clean g \<Longrightarrow> positive (d_outcome (fst (close_gate g)))"
  by (simp add: clean_def close_gate_def)

lemmas clean_rules = clean_fault clean_fault_when clean_fault_decision clean_g_note clean_g_set
  clean_g_set_all

lemmas sound_rules = sound_fault sound_fault_when sound_fault_each sound_fault_decision

end

section \<open>Reasons a gate records\<close>

text \<open>The codes recorded so far; faults only ever add to them.\<close>

definition gate_codes :: "gate \<Rightarrow> reason_code set" where
  "gate_codes g = r_code ` set (d_reasons (g_decision g))"

lemma gate_codes_open [simp]: "gate_codes (open_gate c) = {}"
  by (simp add: gate_codes_def open_gate_def)

lemma gate_codes_fault [simp]:
  "gate_codes (fault rank code r t g) =
     (if r = NoReason then gate_codes g else insert r (gate_codes g))"
  by (auto simp: gate_codes_def fault_def Let_def add_reason_def raise_def set_outcome_def)

lemma gate_codes_fault_when [simp]:
  "gate_codes (fault_when rank b code r t g) =
     (if b \<and> r \<noteq> NoReason then insert r (gate_codes g) else gate_codes g)"
  by (simp add: fault_when_def)

lemma gate_codes_fault_each [simp]:
  "gate_codes (fault_each rank code rs g) = gate_codes g \<union> (r_code ` set rs - {NoReason})"
  by (induction rs arbitrary: g) auto

lemma gate_codes_fault_decision [simp]:
  "gate_codes (fault_decision rank d g) =
     (if allowed d then gate_codes g else gate_codes g \<union> (r_code ` set (d_reasons d) - {NoReason}))"
  by (simp add: fault_decision_def)

lemma gate_codes_g_note [simp]: "gate_codes (g_note c t g) = gate_codes g"
  by (simp add: gate_codes_def g_note_def)

lemma gate_codes_g_set [simp]: "gate_codes (g_set k v g) = gate_codes g"
  by (simp add: gate_codes_def g_set_def)

lemma gate_codes_g_set_all [simp]: "gate_codes (g_set_all kvs g) = gate_codes g"
  by (simp add: gate_codes_def g_set_all_def)

lemma has_reason_close: "has_reason (fst (close_gate g)) c \<longleftrightarrow> c \<in> gate_codes g"
  by (auto simp: has_reason_def close_gate_def normalize_decision_def list_ex_iff gate_codes_def)

end
