(* ===== verification/Mlf_Search.thy ===== *)
theory Mlf_Search
  imports Mlf_Prelude
begin

text \<open>
  The breadth-first search of \<open>advance_lifecycle_to\<close> (src/engine_promotion.cpp) over a
  successor table, written over an arbitrary finite state type: the frontier queue, the
  set of seen states, the map of predecessors, the early exit when the target is found,
  and the walk back along the predecessors. The locale \<open>successor_graph\<close> states what a
  client needs of the table and proves that the search terminates, returns only legal
  paths, and finds a path whenever one exists.
\<close>

section \<open>The search\<close>

text \<open>
  The inner loop over \<open>list[0..count)\<close>: skip seen states; otherwise mark the state seen,
  record its predecessor, stop when it is the target, else append it to the frontier.
  The result is (found, seen, previous, frontier).
\<close>

fun scan_successors ::
  "'s::linorder \<Rightarrow> 's \<Rightarrow> 's list \<Rightarrow> 's list \<Rightarrow> ('s, 's) omap \<Rightarrow> 's list \<Rightarrow>
     bool \<times> 's list \<times> ('s, 's) omap \<times> 's list" where
  "scan_successors target current [] seen previous frontier = (False, seen, previous, frontier)"
| "scan_successors target current (s # rest) seen previous frontier =
     (if s \<in> set seen then scan_successors target current rest seen previous frontier
      else if s = target then (True, s # seen, om_put s current previous, frontier)
      else scan_successors target current rest (s # seen) (om_put s current previous)
             (frontier @ [s]))"

lemma scan_measure:
  fixes target :: "'s::{linorder, finite}"
  assumes "scan_successors target current ss seen previous frontier = (found, seen', previous', frontier')"
  shows "length frontier' + card (- set seen') \<le> length frontier + card (- set seen)"
  using assms
proof (induction target current ss seen previous frontier rule: scan_successors.induct)
  case (2 target current s rest seen previous frontier)
  have drop: "s \<notin> set seen \<Longrightarrow> Suc (card (- set (s # seen))) = card (- set seen)"
    using card_Suc_Diff1 [of "- set seen" s] by (simp only: list.set Compl_insert) simp
  show ?case
  proof (cases "s \<in> set seen \<or> s = target")
    case True
    then show ?thesis using 2 drop by (auto split: if_splits)
  next
    case False
    then show ?thesis
      using "2.IH"(2) "2.prems" drop by auto
  qed
qed simp

text \<open>The outer loop \<open>while (!frontier.empty() && !found)\<close>.\<close>

function search ::
  "('s \<Rightarrow> 's list) \<Rightarrow> 's \<Rightarrow> 's list \<Rightarrow> 's list \<Rightarrow> ('s::{linorder, finite}, 's) omap \<Rightarrow>
     ('s, 's) omap option" where
  "search succ target [] seen previous = None"
| "search succ target (current # frontier) seen previous =
     (case scan_successors target current (succ current) seen previous frontier of
        (found, seen', previous', frontier') \<Rightarrow>
          if found then Some previous' else search succ target frontier' seen' previous')"
  by pat_completeness auto
termination
  by (relation "measure (\<lambda>(succ, target, frontier, seen, previous).
        length frontier + card (- set seen))")
     (auto dest!: scan_measure [OF sym])

text \<open>
  The walk back from the target: \<open>while (cursor != start)\<close>, with the lookup of the
  predecessor that the code guards. The code's loop has no bound of its own; the fuel is
  the number of recorded predecessors plus one, and \<open>successor_graph\<close> below shows that
  it never runs out. The result is the path in forward order.
\<close>

fun walk_back :: "nat \<Rightarrow> ('s, 's) omap \<Rightarrow> 's \<Rightarrow> 's \<Rightarrow> 's list \<Rightarrow> 's list option" where
  "walk_back 0 previous start cursor path = None"
| "walk_back (Suc fuel) previous start cursor path =
     (if cursor = start then Some path
      else (case map_of previous cursor of
              None \<Rightarrow> None
            | Some parent \<Rightarrow> walk_back fuel previous start parent (cursor # path)))"

definition search_path :: "('s \<Rightarrow> 's list) \<Rightarrow> 's \<Rightarrow> 's::{linorder, finite} \<Rightarrow> 's list option" where
  "search_path succ start target =
     (case search succ target [start] [start] [] of
        None \<Rightarrow> None
      | Some previous \<Rightarrow> walk_back (Suc (length previous)) previous start target [])"

section \<open>Correctness over any successor table\<close>

text \<open>\<open>path_from s xs\<close>: each element of \<open>xs\<close> is a successor of the one before it.\<close>

fun path_from :: "('s \<Rightarrow> 's list) \<Rightarrow> 's \<Rightarrow> 's list \<Rightarrow> bool" where
  "path_from succ s [] \<longleftrightarrow> True"
| "path_from succ s (x # xs) \<longleftrightarrow> x \<in> set (succ s) \<and> path_from succ x xs"

lemma path_from_append:
  "path_from succ s (xs @ [y]) \<longleftrightarrow>
     path_from succ s xs \<and> y \<in> set (succ (if xs = [] then s else last xs))"
  by (induction xs arbitrary: s) auto

lemma path_from_reach:
  "path_from succ s xs \<Longrightarrow> (s, if xs = [] then s else last xs) \<in> {(a, b). b \<in> set (succ a)}\<^sup>*"
proof (induction xs arbitrary: s)
  case (Cons x xs)
  then have "(s, x) \<in> {(a, b). b \<in> set (succ a)}"
    and "(x, if xs = [] then x else last xs) \<in> {(a, b). b \<in> set (succ a)}\<^sup>*" by auto
  then have "(s, if xs = [] then x else last xs) \<in> {(a, b). b \<in> set (succ a)}\<^sup>*"
    by (rule converse_rtrancl_into_rtrancl)
  then show ?case by (cases xs) auto
qed simp


text \<open>
  The search tree: \<open>seen\<close> lists the states in reverse order of discovery, so the recorded
  predecessor of a state lies in the tail after it.
\<close>

fun spanning :: "('s \<Rightarrow> 's list) \<Rightarrow> 's \<Rightarrow> ('s \<rightharpoonup> 's) \<Rightarrow> 's list \<Rightarrow> bool" where
  "spanning succ start prev [] \<longleftrightarrow> False"
| "spanning succ start prev [x] \<longleftrightarrow> x = start"
| "spanning succ start prev (x # xs) \<longleftrightarrow>
     x \<notin> set xs \<and> (\<exists>p \<in> set xs. prev x = Some p \<and> x \<in> set (succ p)) \<and> spanning succ start prev xs"

lemma spanning_start: "spanning succ start prev seen \<Longrightarrow> start \<in> set seen"
  by (induction succ start prev seen rule: spanning.induct) auto

lemma spanning_fresh:
  "spanning succ start prev seen \<Longrightarrow> x \<notin> set seen \<Longrightarrow> spanning succ start (prev(x := v)) seen"
  by (induction succ start prev seen rule: spanning.induct) auto

lemma spanning_extend:
  "spanning succ start prev seen \<Longrightarrow> x \<notin> set seen \<Longrightarrow> p \<in> set seen \<Longrightarrow> x \<in> set (succ p) \<Longrightarrow>
   spanning succ start (prev(x \<mapsto> p)) (x # seen)"
  by (cases seen) (auto simp: spanning_fresh)

lemma walk_back_spanning:
  "spanning succ start (map_of previous) seen \<Longrightarrow> x \<in> set seen \<Longrightarrow> length seen \<le> fuel \<Longrightarrow>
   \<exists>path. walk_back fuel previous start x acc = Some (path @ acc) \<and> path_from succ start path \<and>
     (if path = [] then start else last path) = x"
proof (induction succ start "map_of previous" seen arbitrary: x fuel acc rule: spanning.induct)
  case (2 succ start y)
  then show ?case by (cases fuel) (auto intro: exI [of _ "[]"])
next
  case (3 succ start y z zs)
  let ?xs = "z # zs"
  obtain fuel' where fuel: "fuel = Suc fuel'" and len: "length ?xs \<le> fuel'"
    using "3.prems"(3) by (cases fuel) auto
  have tail: "spanning succ start (map_of previous) ?xs" and fresh: "y \<notin> set ?xs"
    using "3.prems"(1) by auto
  show ?case
  proof (cases "x = y")
    case True
    obtain p where p: "p \<in> set ?xs" "map_of previous y = Some p" "y \<in> set (succ p)"
      using "3.prems"(1) by auto
    have "x \<noteq> start" using True fresh spanning_start [OF tail] by auto
    moreover obtain path where "walk_back fuel' previous start p (x # acc) = Some (path @ x # acc)"
      "path_from succ start path" "(if path = [] then start else last path) = p"
      using "3.hyps" [OF tail p(1) len] by blast
    ultimately show ?thesis
      using p True by (intro exI [of _ "path @ [x]"]) (auto simp: fuel path_from_append)
  next
    case False
    then show ?thesis using "3.hyps" [OF tail _] "3.prems"(2,3) by auto
  qed
qed simp

text \<open>What holds at the head of the outer loop.\<close>

definition search_inv ::
  "('s \<Rightarrow> 's list) \<Rightarrow> 's \<Rightarrow> 's \<Rightarrow> 's list \<Rightarrow> 's list \<Rightarrow> ('s, 's) omap \<Rightarrow> bool" where
  "search_inv succ start target frontier seen previous \<longleftrightarrow>
     spanning succ start (map_of previous) seen \<and> set frontier \<subseteq> set seen \<and>
     Suc (length previous) = length seen \<and> dom (map_of previous) \<subseteq> set seen"

lemma om_put_length: "map_of m k = None \<Longrightarrow> length (om_put k v m) = Suc (length m)"
  by (induction m) (auto split: if_splits)

lemma scan_correct:
  assumes "scan_successors target current ss seen previous frontier =
      (found, seen', previous', frontier')"
    and "search_inv succ start target frontier seen previous"
    and "current \<in> set seen" and "set ss \<subseteq> set (succ current)" and "target \<notin> set seen"
  shows "search_inv succ start target frontier' seen' previous' \<and>
    set seen \<subseteq> set seen' \<and> (found \<longrightarrow> target \<in> set seen') \<and>
    (\<not> found \<longrightarrow> target \<notin> set seen' \<and> set ss \<subseteq> set seen' \<and>
       set frontier' = set frontier \<union> (set seen' - set seen))"
  using assms
proof (induction target current ss seen previous frontier rule: scan_successors.induct)
  case (2 target current s rest seen previous frontier)
  note inv = "2.prems"(2) [unfolded search_inv_def]
  show ?case
  proof (cases "s \<in> set seen")
    case True
    then show ?thesis using "2.IH"(1) "2.prems" by auto
  next
    case False
    then have none: "map_of previous s = None" using inv by (auto simp: domIff)
    have "map_of (om_put s current previous) = (map_of previous)(s \<mapsto> current)"
      by (rule ext) simp
    moreover have "spanning succ start ((map_of previous)(s \<mapsto> current)) (s # seen)"
      using inv False "2.prems"(3,4) by (intro spanning_extend) auto
    ultimately have ext: "search_inv succ start target f (s # seen) (om_put s current previous)"
      if "set f \<subseteq> insert s (set seen)" for f
      using inv that none by (auto simp: search_inv_def om_put_length)
    show ?thesis
    proof (cases "s = target")
      case True
      have "set frontier \<subseteq> insert s (set seen)" using inv by auto
      from ext [OF this] show ?thesis using False True "2.prems"(1) by auto
    next
      case no: False
      have "set (frontier @ [s]) \<subseteq> insert s (set seen)" using inv by auto
      from "2.IH"(2) [OF False no _ ext [OF this]] show ?thesis
        using False no "2.prems" by auto
    qed
  qed
qed auto

lemma search_correct:
  assumes "search_inv succ start target frontier seen previous" and "target \<notin> set seen"
    and "\<forall>x \<in> set seen - set frontier. set (succ x) \<subseteq> set seen"
  shows "(case search succ target frontier seen previous of
      None \<Rightarrow> (start, target) \<notin> {(a, b). b \<in> set (succ a)}\<^sup>*
    | Some previous' \<Rightarrow> \<exists>frontier' seen'. search_inv succ start target frontier' seen' previous' \<and>
        target \<in> set seen')"
  using assms
proof (induction succ target frontier seen previous rule: search.induct)
  case (1 succ target seen previous)
  have "x \<in> set seen" if "(start, x) \<in> {(a, b). b \<in> set (succ a)}\<^sup>*" for x
    using that
  proof induction
    case base
    then show ?case using "1.prems"(1) by (auto simp: search_inv_def spanning_start)
  next
    case (step y z)
    then show ?case using "1.prems"(3) by auto
  qed
  then show ?case using "1.prems"(2) by auto
next
  case (2 succ target current frontier seen previous)
  obtain found seen' previous' frontier' where
    scan: "scan_successors target current (succ current) seen previous frontier =
      (found, seen', previous', frontier')"
    by (metis prod_cases4)
  have inv: "search_inv succ start target frontier seen previous" and cur: "current \<in> set seen"
    using "2.prems"(1) by (auto simp: search_inv_def)
  note facts = scan_correct [OF scan inv cur subset_refl "2.prems"(2)]
  show ?case
  proof (cases found)
    case True
    then show ?thesis using facts scan by auto
  next
    case False
    have "\<forall>x \<in> set seen' - set frontier'. set (succ x) \<subseteq> set seen'"
    proof
      fix x assume x: "x \<in> set seen' - set frontier'"
      then have "x = current \<or> x \<in> set seen - set (current # frontier)"
        using facts False by auto
      then show "set (succ x) \<subseteq> set seen'"
        using facts False "2.prems"(3) by blast
    qed
    then show ?thesis
      using "2.IH" [OF scan [symmetric] refl refl False] facts False scan by auto
  qed
qed

text \<open>
  The contract of a successor table with a distinguished set of final states, and the
  facts its clients use: the search never runs out of fuel, returns legal paths only, and
  succeeds exactly on the reachable targets.
\<close>

locale successor_graph =
  fixes succ :: "'s::{linorder, finite} \<Rightarrow> 's list" and final :: "'s \<Rightarrow> bool"
  assumes final_stuck: "final s \<Longrightarrow> succ s = []"
begin

lemma search_path_correct:
  assumes "start \<noteq> target"
  shows "(case search_path succ start target of
      None \<Rightarrow> (start, target) \<notin> {(a, b). b \<in> set (succ a)}\<^sup>*
    | Some path \<Rightarrow> path \<noteq> [] \<and> path_from succ start path \<and> last path = target)"
proof (cases "search succ target [start] [start] []")
  case None
  have "search_inv succ start target [start] [start] []" by (simp add: search_inv_def)
  from search_correct [OF this] show ?thesis
    using None assms by (simp add: search_path_def)
next
  case (Some previous)
  have "search_inv succ start target [start] [start] []" by (simp add: search_inv_def)
  from search_correct [OF this] obtain frontier' seen'
    where inv: "search_inv succ start target frontier' seen' previous" and t: "target \<in> set seen'"
    using Some assms by auto
  then have sp: "spanning succ start (map_of previous) seen'"
    and len: "length seen' \<le> Suc (length previous)" by (auto simp: search_inv_def)
  from walk_back_spanning [OF sp t len, of "[]"] show ?thesis
    using Some assms by (auto simp: search_path_def split: if_splits)
qed

lemma search_path_iff:
  "start \<noteq> target \<Longrightarrow>
   search_path succ start target \<noteq> None \<longleftrightarrow> (start, target) \<in> {(a, b). b \<in> set (succ a)}\<^sup>*"
  using search_path_correct [of start target] path_from_reach [of succ start]
  by (fastforce split: option.splits)

lemma search_path_legal:
  "start \<noteq> target \<Longrightarrow> search_path succ start target = Some path \<Longrightarrow>
   path \<noteq> [] \<and> path_from succ start path \<and> last path = target"
  using search_path_correct [of start target] by simp

text \<open>A final state has no way out, and no path passes through it.\<close>

lemma final_no_path: "final start \<Longrightarrow> start \<noteq> target \<Longrightarrow> search_path succ start target = None"
proof -
  assume "final start" and neq: "start \<noteq> target"
  then have "(start, target) \<notin> {(a, b). b \<in> set (succ a)}\<^sup>*"
    using final_stuck by (auto elim: converse_rtranclE)
  then show ?thesis using search_path_iff [OF neq] by blast
qed

lemma path_final_last: "path_from succ s path \<Longrightarrow> x \<in> set (butlast path) \<Longrightarrow> \<not> final x"
proof (induction path arbitrary: s)
  case (Cons y path)
  then show ?case using final_stuck by (cases path) (auto split: if_splits)
qed simp

end

end
