(* ===== verification/Mlf_Lifecycle.thy ===== *)
theory Mlf_Lifecycle
  imports Mlf_Status Mlf_Search
begin

text \<open>
  The lifecycle state machine of include/mlf/lifecycle.hpp and src/lifecycle.cpp: the
  nineteen states, their names, the successor table, and the shortest legal path that
  \<open>advance_lifecycle_to\<close> of src/engine_promotion.cpp takes through it.
\<close>

section \<open>States and their names\<close>

datatype lifecycle_state =
    LS_REGISTERED | LS_VALIDATING | LS_PROMOTION_ELIGIBLE | LS_PROMOTION_BLOCKED |
    LS_CANARY_PENDING | LS_CANARY_ACTIVE | LS_CANARY_PASSED | LS_CANARY_FAILED |
    LS_ROLLOUT_ACTIVE | LS_PARTIALLY_PROMOTED | LS_CURRENT | LS_DRAINING |
    LS_ROLLBACK_PENDING | LS_ROLLING_BACK | LS_ROLLED_BACK | LS_RETIREMENT_PENDING |
    LS_RETIRED | LS_REVALIDATION_REQUIRED | LS_FAILED

definition lifecycle_states :: "lifecycle_state list" where
  "lifecycle_states =
      [LS_REGISTERED, LS_VALIDATING, LS_PROMOTION_ELIGIBLE, LS_PROMOTION_BLOCKED,
       LS_CANARY_PENDING, LS_CANARY_ACTIVE, LS_CANARY_PASSED, LS_CANARY_FAILED,
       LS_ROLLOUT_ACTIVE, LS_PARTIALLY_PROMOTED, LS_CURRENT, LS_DRAINING, LS_ROLLBACK_PENDING,
       LS_ROLLING_BACK, LS_ROLLED_BACK, LS_RETIREMENT_PENDING, LS_RETIRED,
       LS_REVALIDATION_REQUIRED, LS_FAILED]"

primrec state_index :: "lifecycle_state \<Rightarrow> nat" where
  "state_index LS_REGISTERED = 0"
| "state_index LS_VALIDATING = 1"
| "state_index LS_PROMOTION_ELIGIBLE = 2"
| "state_index LS_PROMOTION_BLOCKED = 3"
| "state_index LS_CANARY_PENDING = 4"
| "state_index LS_CANARY_ACTIVE = 5"
| "state_index LS_CANARY_PASSED = 6"
| "state_index LS_CANARY_FAILED = 7"
| "state_index LS_ROLLOUT_ACTIVE = 8"
| "state_index LS_PARTIALLY_PROMOTED = 9"
| "state_index LS_CURRENT = 10"
| "state_index LS_DRAINING = 11"
| "state_index LS_ROLLBACK_PENDING = 12"
| "state_index LS_ROLLING_BACK = 13"
| "state_index LS_ROLLED_BACK = 14"
| "state_index LS_RETIREMENT_PENDING = 15"
| "state_index LS_RETIRED = 16"
| "state_index LS_REVALIDATION_REQUIRED = 17"
| "state_index LS_FAILED = 18"

definition kLifecycleStateCount :: nat where "kLifecycleStateCount = 19"

lemma lifecycle_states_all: "s \<in> set lifecycle_states"
  by (cases s) (simp_all add: lifecycle_states_def)

lemma state_index_inj: "state_index s = state_index t \<longleftrightarrow> s = t"
  by (cases s; cases t) simp_all

lemma state_index_bound: "state_index s < kLifecycleStateCount"
  by (cases s) (simp_all add: kLifecycleStateCount_def)

lemma all_lifecycle_states: "(\<forall>s. P s) \<longleftrightarrow> list_all P lifecycle_states"
  using lifecycle_states_all by (auto simp: list_all_iff)

instantiation lifecycle_state :: "{linorder, finite}"
begin

definition less_eq_lifecycle_state :: "lifecycle_state \<Rightarrow> lifecycle_state \<Rightarrow> bool" where
  "less_eq_lifecycle_state a b \<longleftrightarrow> state_index a \<le> state_index b"

definition less_lifecycle_state :: "lifecycle_state \<Rightarrow> lifecycle_state \<Rightarrow> bool" where
  "less_lifecycle_state a b \<longleftrightarrow> state_index a < state_index b"

instance
proof
  show "finite (UNIV :: lifecycle_state set)"
    using lifecycle_states_all by (intro finite_subset [of UNIV "set lifecycle_states"]) auto
qed (auto simp: less_eq_lifecycle_state_def less_lifecycle_state_def state_index_inj)

end

definition kStateNames :: "(lifecycle_state \<times> string) list" where
  "kStateNames = [
    (LS_REGISTERED, ''REGISTERED''),
    (LS_VALIDATING, ''VALIDATING''),
    (LS_PROMOTION_ELIGIBLE, ''PROMOTION_ELIGIBLE''),
    (LS_PROMOTION_BLOCKED, ''PROMOTION_BLOCKED''),
    (LS_CANARY_PENDING, ''CANARY_PENDING''),
    (LS_CANARY_ACTIVE, ''CANARY_ACTIVE''),
    (LS_CANARY_PASSED, ''CANARY_PASSED''),
    (LS_CANARY_FAILED, ''CANARY_FAILED''),
    (LS_ROLLOUT_ACTIVE, ''ROLLOUT_ACTIVE''),
    (LS_PARTIALLY_PROMOTED, ''PARTIALLY_PROMOTED''),
    (LS_CURRENT, ''CURRENT''),
    (LS_DRAINING, ''DRAINING''),
    (LS_ROLLBACK_PENDING, ''ROLLBACK_PENDING''),
    (LS_ROLLING_BACK, ''ROLLING_BACK''),
    (LS_ROLLED_BACK, ''ROLLED_BACK''),
    (LS_RETIREMENT_PENDING, ''RETIREMENT_PENDING''),
    (LS_RETIRED, ''RETIRED''),
    (LS_REVALIDATION_REQUIRED, ''REVALIDATION_REQUIRED''),
    (LS_FAILED, ''FAILED'')]"

definition to_string_state :: "lifecycle_state \<Rightarrow> string" where
  "to_string_state state =
     (case find (\<lambda>entry. fst entry = state) kStateNames of
        Some entry \<Rightarrow> snd entry
      | None \<Rightarrow> ''UNKNOWN_STATE'')"

definition parse_lifecycle_state :: "string \<Rightarrow> lifecycle_state option" where
  "parse_lifecycle_state text =
     map_option fst (find (\<lambda>entry. snd entry = text) kStateNames)"

section \<open>The successor table\<close>

definition kTransitions :: "(lifecycle_state \<times> lifecycle_state list) list" where
  "kTransitions = [
    (LS_REGISTERED,
      [LS_VALIDATING, LS_PROMOTION_BLOCKED, LS_REVALIDATION_REQUIRED, LS_RETIREMENT_PENDING,
       LS_FAILED]),
    (LS_VALIDATING,
      [LS_PROMOTION_ELIGIBLE, LS_PROMOTION_BLOCKED, LS_REVALIDATION_REQUIRED,
       LS_RETIREMENT_PENDING, LS_FAILED]),
    (LS_PROMOTION_ELIGIBLE,
      [LS_CANARY_PENDING, LS_VALIDATING, LS_PROMOTION_BLOCKED, LS_REVALIDATION_REQUIRED,
       LS_RETIREMENT_PENDING, LS_FAILED]),
    (LS_PROMOTION_BLOCKED,
      [LS_VALIDATING, LS_PROMOTION_ELIGIBLE, LS_REVALIDATION_REQUIRED, LS_RETIREMENT_PENDING,
       LS_FAILED]),
    (LS_CANARY_PENDING,
      [LS_CANARY_ACTIVE, LS_CANARY_FAILED, LS_PROMOTION_BLOCKED, LS_REVALIDATION_REQUIRED,
       LS_RETIREMENT_PENDING, LS_FAILED]),
    (LS_CANARY_ACTIVE,
      [LS_CANARY_PASSED, LS_CANARY_FAILED, LS_REVALIDATION_REQUIRED, LS_ROLLBACK_PENDING,
       LS_RETIREMENT_PENDING, LS_FAILED]),
    (LS_CANARY_PASSED,
      [LS_ROLLOUT_ACTIVE, LS_PARTIALLY_PROMOTED, LS_CURRENT, LS_CANARY_FAILED,
       LS_ROLLBACK_PENDING, LS_REVALIDATION_REQUIRED, LS_DRAINING, LS_RETIREMENT_PENDING,
       LS_FAILED]),
    (LS_CANARY_FAILED,
      [LS_ROLLBACK_PENDING, LS_ROLLED_BACK, LS_DRAINING, LS_RETIREMENT_PENDING,
       LS_REVALIDATION_REQUIRED, LS_FAILED]),
    (LS_ROLLOUT_ACTIVE,
      [LS_PARTIALLY_PROMOTED, LS_CURRENT, LS_ROLLBACK_PENDING, LS_REVALIDATION_REQUIRED,
       LS_DRAINING, LS_RETIREMENT_PENDING, LS_FAILED]),
    (LS_PARTIALLY_PROMOTED,
      [LS_ROLLOUT_ACTIVE, LS_CURRENT, LS_ROLLBACK_PENDING, LS_DRAINING,
       LS_REVALIDATION_REQUIRED, LS_RETIREMENT_PENDING, LS_FAILED]),
    (LS_CURRENT,
      [LS_PARTIALLY_PROMOTED, LS_ROLLBACK_PENDING, LS_DRAINING, LS_REVALIDATION_REQUIRED,
       LS_RETIREMENT_PENDING, LS_FAILED]),
    (LS_DRAINING,
      [LS_ROLLED_BACK, LS_RETIREMENT_PENDING, LS_REVALIDATION_REQUIRED, LS_FAILED]),
    (LS_ROLLBACK_PENDING,
      [LS_ROLLING_BACK, LS_ROLLED_BACK, LS_CURRENT, LS_REVALIDATION_REQUIRED, LS_FAILED]),
    (LS_ROLLING_BACK,
      [LS_ROLLED_BACK, LS_REVALIDATION_REQUIRED, LS_FAILED]),
    (LS_ROLLED_BACK,
      [LS_DRAINING, LS_RETIREMENT_PENDING, LS_REVALIDATION_REQUIRED, LS_FAILED]),
    (LS_RETIREMENT_PENDING,
      [LS_RETIRED, LS_DRAINING, LS_ROLLED_BACK, LS_REVALIDATION_REQUIRED, LS_FAILED]),
    (LS_RETIRED,
      []),
    (LS_REVALIDATION_REQUIRED,
      [LS_VALIDATING, LS_PROMOTION_ELIGIBLE, LS_PROMOTION_BLOCKED, LS_DRAINING,
       LS_ROLLBACK_PENDING, LS_RETIREMENT_PENDING, LS_FAILED]),
    (LS_FAILED,
      [LS_RETIREMENT_PENDING, LS_DRAINING, LS_RETIRED])]"

definition successors :: "lifecycle_state \<Rightarrow> lifecycle_state list" where
  "successors from_state =
     (case find (\<lambda>row. fst row = from_state) kTransitions of
        Some row \<Rightarrow> snd row
      | None \<Rightarrow> [])"

definition is_terminal :: "lifecycle_state \<Rightarrow> bool" where
  "is_terminal state \<longleftrightarrow> state = LS_RETIRED"

definition is_transition_allowed :: "lifecycle_state \<Rightarrow> lifecycle_state \<Rightarrow> bool" where
  "is_transition_allowed from_state to_state \<longleftrightarrow>
     (if from_state = to_state then False
      else if is_terminal from_state then False
      else to_state \<in> set (successors from_state))"

definition can_hold_authority :: "lifecycle_state \<Rightarrow> bool" where
  "can_hold_authority state \<longleftrightarrow> state \<in> {LS_CANARY_ACTIVE, LS_CANARY_PASSED, LS_ROLLOUT_ACTIVE,
     LS_PARTIALLY_PROMOTED, LS_CURRENT, LS_DRAINING, LS_ROLLBACK_PENDING, LS_ROLLING_BACK}"

definition is_promotable_from :: "lifecycle_state \<Rightarrow> bool" where
  "is_promotable_from state \<longleftrightarrow> state \<in> {LS_REGISTERED, LS_VALIDATING, LS_PROMOTION_ELIGIBLE,
     LS_REVALIDATION_REQUIRED}"

text \<open>One row of the table per state, as rewrite rules.\<close>

lemma successors_simps [simp]:
  "successors LS_REGISTERED =
      [LS_VALIDATING, LS_PROMOTION_BLOCKED, LS_REVALIDATION_REQUIRED, LS_RETIREMENT_PENDING,
       LS_FAILED]"
  "successors LS_VALIDATING =
      [LS_PROMOTION_ELIGIBLE, LS_PROMOTION_BLOCKED, LS_REVALIDATION_REQUIRED,
       LS_RETIREMENT_PENDING, LS_FAILED]"
  "successors LS_PROMOTION_ELIGIBLE =
      [LS_CANARY_PENDING, LS_VALIDATING, LS_PROMOTION_BLOCKED, LS_REVALIDATION_REQUIRED,
       LS_RETIREMENT_PENDING, LS_FAILED]"
  "successors LS_PROMOTION_BLOCKED =
      [LS_VALIDATING, LS_PROMOTION_ELIGIBLE, LS_REVALIDATION_REQUIRED, LS_RETIREMENT_PENDING,
       LS_FAILED]"
  "successors LS_CANARY_PENDING =
      [LS_CANARY_ACTIVE, LS_CANARY_FAILED, LS_PROMOTION_BLOCKED, LS_REVALIDATION_REQUIRED,
       LS_RETIREMENT_PENDING, LS_FAILED]"
  "successors LS_CANARY_ACTIVE =
      [LS_CANARY_PASSED, LS_CANARY_FAILED, LS_REVALIDATION_REQUIRED, LS_ROLLBACK_PENDING,
       LS_RETIREMENT_PENDING, LS_FAILED]"
  "successors LS_CANARY_PASSED =
      [LS_ROLLOUT_ACTIVE, LS_PARTIALLY_PROMOTED, LS_CURRENT, LS_CANARY_FAILED,
       LS_ROLLBACK_PENDING, LS_REVALIDATION_REQUIRED, LS_DRAINING, LS_RETIREMENT_PENDING,
       LS_FAILED]"
  "successors LS_CANARY_FAILED =
      [LS_ROLLBACK_PENDING, LS_ROLLED_BACK, LS_DRAINING, LS_RETIREMENT_PENDING,
       LS_REVALIDATION_REQUIRED, LS_FAILED]"
  "successors LS_ROLLOUT_ACTIVE =
      [LS_PARTIALLY_PROMOTED, LS_CURRENT, LS_ROLLBACK_PENDING, LS_REVALIDATION_REQUIRED,
       LS_DRAINING, LS_RETIREMENT_PENDING, LS_FAILED]"
  "successors LS_PARTIALLY_PROMOTED =
      [LS_ROLLOUT_ACTIVE, LS_CURRENT, LS_ROLLBACK_PENDING, LS_DRAINING,
       LS_REVALIDATION_REQUIRED, LS_RETIREMENT_PENDING, LS_FAILED]"
  "successors LS_CURRENT =
      [LS_PARTIALLY_PROMOTED, LS_ROLLBACK_PENDING, LS_DRAINING, LS_REVALIDATION_REQUIRED,
       LS_RETIREMENT_PENDING, LS_FAILED]"
  "successors LS_DRAINING =
      [LS_ROLLED_BACK, LS_RETIREMENT_PENDING, LS_REVALIDATION_REQUIRED, LS_FAILED]"
  "successors LS_ROLLBACK_PENDING =
      [LS_ROLLING_BACK, LS_ROLLED_BACK, LS_CURRENT, LS_REVALIDATION_REQUIRED, LS_FAILED]"
  "successors LS_ROLLING_BACK =
      [LS_ROLLED_BACK, LS_REVALIDATION_REQUIRED, LS_FAILED]"
  "successors LS_ROLLED_BACK =
      [LS_DRAINING, LS_RETIREMENT_PENDING, LS_REVALIDATION_REQUIRED, LS_FAILED]"
  "successors LS_RETIREMENT_PENDING =
      [LS_RETIRED, LS_DRAINING, LS_ROLLED_BACK, LS_REVALIDATION_REQUIRED, LS_FAILED]"
  "successors LS_RETIRED =
      []"
  "successors LS_REVALIDATION_REQUIRED =
      [LS_VALIDATING, LS_PROMOTION_ELIGIBLE, LS_PROMOTION_BLOCKED, LS_DRAINING,
       LS_ROLLBACK_PENDING, LS_RETIREMENT_PENDING, LS_FAILED]"
  "successors LS_FAILED =
      [LS_RETIREMENT_PENDING, LS_DRAINING, LS_RETIRED]"
  by (simp_all add: successors_def kTransitions_def)

lemma is_terminal_simps [simp]: "is_terminal LS_RETIRED"
  by (simp add: is_terminal_def)

interpretation lc: successor_graph successors is_terminal
  by unfold_locales (simp add: is_terminal_def)

section \<open>The path an advance takes\<close>

definition lifecycle_path :: "lifecycle_state \<Rightarrow> lifecycle_state \<Rightarrow> lifecycle_state list option" where
  "lifecycle_path from_state to_state = search_path successors from_state to_state"

text \<open>
  Every state but the terminal one reaches \<open>LS_REVALIDATION_REQUIRED\<close>, and that state
  reaches every state but the initial one. So an advance fails only from \<open>LS_RETIRED\<close> or
  towards \<open>LS_REGISTERED\<close>.
\<close>

lemma reach_step:
  "t \<in> set (successors s) \<Longrightarrow> (t, u) \<in> {(a, b). b \<in> set (successors a)}\<^sup>* \<Longrightarrow>
   (s, u) \<in> {(a, b). b \<in> set (successors a)}\<^sup>*"
  by (rule converse_rtrancl_into_rtrancl) auto

lemma reach_one: "t \<in> set (successors s) \<Longrightarrow> (s, t) \<in> {(a, b). b \<in> set (successors a)}\<^sup>*"
  by (rule reach_step) auto

lemma reach_revalidation:
  assumes "s \<noteq> LS_RETIRED"
  shows "(s, LS_REVALIDATION_REQUIRED) \<in> {(a, b). b \<in> set (successors a)}\<^sup>*"
proof (cases "LS_REVALIDATION_REQUIRED \<in> set (successors s)")
  case True
  then show ?thesis by (rule reach_one)
next
  case False
  with assms have "s = LS_FAILED \<or> s = LS_REVALIDATION_REQUIRED" by (cases s) auto
  then show ?thesis
    using reach_step [of LS_RETIREMENT_PENDING LS_FAILED] reach_one [of LS_REVALIDATION_REQUIRED LS_RETIREMENT_PENDING]
    by auto
qed

lemma revalidation_reach:
  assumes "t \<noteq> LS_REGISTERED"
  shows "(LS_REVALIDATION_REQUIRED, t) \<in> {(a, b). b \<in> set (successors a)}\<^sup>*"
proof -
  let ?E = "{(a, b). b \<in> set (successors a)}"
  have pend: "(LS_REVALIDATION_REQUIRED, LS_CANARY_PENDING) \<in> ?E\<^sup>*"
    by (rule reach_step [of LS_PROMOTION_ELIGIBLE]) (auto intro: reach_one)
  have active: "(LS_REVALIDATION_REQUIRED, LS_CANARY_ACTIVE) \<in> ?E\<^sup>*"
    using pend reach_one [of LS_CANARY_ACTIVE LS_CANARY_PENDING] by (auto intro: rtrancl_trans)
  have passed: "(LS_REVALIDATION_REQUIRED, LS_CANARY_PASSED) \<in> ?E\<^sup>*"
    using active reach_one [of LS_CANARY_PASSED LS_CANARY_ACTIVE] by (auto intro: rtrancl_trans)
  show ?thesis
  proof (cases "t \<in> set (successors LS_REVALIDATION_REQUIRED) \<or> t = LS_REVALIDATION_REQUIRED")
    case True
    then show ?thesis by (auto intro: reach_one)
  next
    case False
    with assms show ?thesis
      using pend active passed reach_one [of t LS_CANARY_PENDING] reach_one [of t LS_CANARY_PASSED]
        reach_step [of LS_RETIREMENT_PENDING LS_REVALIDATION_REQUIRED t]
        reach_step [of LS_ROLLBACK_PENDING LS_REVALIDATION_REQUIRED t]
        reach_one [of t LS_RETIREMENT_PENDING] reach_one [of t LS_ROLLBACK_PENDING]
      by (cases t) (auto intro: rtrancl_trans)
  qed
qed

lemma lifecycle_path_total:
  assumes "s \<noteq> LS_RETIRED" and "t \<noteq> LS_REGISTERED" and "s \<noteq> t"
  shows "\<exists>path. lifecycle_path s t = Some path"
  using rtrancl_trans [OF reach_revalidation [OF assms(1)] revalidation_reach [OF assms(2)]]
    lc.search_path_iff [OF assms(3)] by (auto simp: lifecycle_path_def)

lemma lifecycle_path_legal:
  "s \<noteq> t \<Longrightarrow> lifecycle_path s t = Some path \<Longrightarrow>
   path \<noteq> [] \<and> path_from successors s path \<and> last path = t"
  unfolding lifecycle_path_def by (rule lc.search_path_legal)

lemma successors_irreflexive: "s \<notin> set (successors s)"
  by (cases s) simp_all

lemma transition_iff_successor:
  "is_transition_allowed s t \<longleftrightarrow> t \<in> set (successors s)"
  using successors_irreflexive [of s] by (cases "s = LS_RETIRED")
    (auto simp: is_transition_allowed_def is_terminal_def)

section \<open>Properties\<close>

text \<open>
  C16 An advance of the lifecycle from any non-terminal state to any state but the initial
  one succeeds, and it follows edges of the transition table only: the path ends at the
  target and every step of it is an allowed transition.
\<close>

theorem lifecycle_path_total_legal:
  assumes "s \<noteq> LS_RETIRED" and "t \<noteq> LS_REGISTERED" and "s \<noteq> t"
  shows "\<exists>path. lifecycle_path s t = Some path \<and> path \<noteq> [] \<and> last path = t \<and>
    list_all2 is_transition_allowed (butlast (s # path)) path"
proof -
  obtain path where path: "lifecycle_path s t = Some path"
    using lifecycle_path_total [OF assms] by blast
  have "path_from successors s path \<Longrightarrow> list_all2 is_transition_allowed (butlast (s # path)) path"
    for s path by (induction path arbitrary: s) (auto simp: transition_iff_successor)
  then show ?thesis
    using lifecycle_path_legal [OF assms(3) path] path by blast
qed

lemma lifecycle_path_total_legal_witness:
  "\<exists>path. lifecycle_path LS_REGISTERED LS_CURRENT = Some path \<and> path \<noteq> [] \<and> last path = LS_CURRENT \<and>
    list_all2 is_transition_allowed (butlast (LS_REGISTERED # path)) path"
  by (rule lifecycle_path_total_legal) simp_all

end
