(* ===== verification/Mlf_Scope.thy ===== *)
theory Mlf_Scope
  imports Mlf_Status
begin

text \<open>
  The rollout scope tree of include/mlf/scope.hpp and src/scope.cpp: records in creation
  order (an identity is a 1-based position), the children lists, the path index, and the
  operations that create, resolve, walk and restore the tree. The invariant \<open>sr_wf\<close> says
  that the three representations agree. Recovery accepts exactly the lists of records that are
  a \<open>consistent_tree\<close>, a specification by descent from the root that does not use the checks of
  the code, and rebuilds the same registry.
\<close>

section \<open>Scope kinds\<close>

datatype scope_kind =
    SK_Global | SK_Site | SK_Region | SK_Cluster | SK_Environment | SK_Service | SK_Tenant |
    SK_ReplicaGroup | SK_WorkloadClass

primrec scope_kind_index :: "scope_kind \<Rightarrow> nat" where
  "scope_kind_index SK_Global = 0"
| "scope_kind_index SK_Site = 1"
| "scope_kind_index SK_Region = 2"
| "scope_kind_index SK_Cluster = 3"
| "scope_kind_index SK_Environment = 4"
| "scope_kind_index SK_Service = 5"
| "scope_kind_index SK_Tenant = 6"
| "scope_kind_index SK_ReplicaGroup = 7"
| "scope_kind_index SK_WorkloadClass = 8"

lemma scope_kind_index_inj: "scope_kind_index a = scope_kind_index b \<longleftrightarrow> a = b"
  by (cases a; cases b) simp_all

instantiation scope_kind :: linorder
begin

definition less_eq_scope_kind :: "scope_kind \<Rightarrow> scope_kind \<Rightarrow> bool" where
  "less_eq_scope_kind a b \<longleftrightarrow> scope_kind_index a \<le> scope_kind_index b"

definition less_scope_kind :: "scope_kind \<Rightarrow> scope_kind \<Rightarrow> bool" where
  "less_scope_kind a b \<longleftrightarrow> scope_kind_index a < scope_kind_index b"

instance
  by standard (auto simp: less_eq_scope_kind_def less_scope_kind_def scope_kind_index_inj)

end

definition kScopeKindNames :: "(scope_kind \<times> string) list" where
  "kScopeKindNames =
    [(SK_Global, ''global''), (SK_Site, ''site''), (SK_Region, ''region''),
     (SK_Cluster, ''cluster''), (SK_Environment, ''environment''), (SK_Service, ''service''),
     (SK_Tenant, ''tenant''), (SK_ReplicaGroup, ''replica-group''),
     (SK_WorkloadClass, ''workload-class'')]"

definition to_string_scope_kind :: "scope_kind \<Rightarrow> string" where
  "to_string_scope_kind kind =
     (case find (\<lambda>entry. fst entry = kind) kScopeKindNames of
        Some entry \<Rightarrow> snd entry
      | None \<Rightarrow> ''unknown'')"

definition parse_scope_kind :: "string \<Rightarrow> scope_kind option" where
  "parse_scope_kind text =
     (case find (\<lambda>entry. snd entry = text) kScopeKindNames of
        Some entry \<Rightarrow> Some (fst entry)
      | None \<Rightarrow>
          if text = ''replicagroup'' then Some SK_ReplicaGroup
          else if text = ''workloadclass'' then Some SK_WorkloadClass
          else None)"

lemma parse_scope_kind_name: "parse_scope_kind (to_string_scope_kind k) = Some k"
  by (cases k) (simp_all add: parse_scope_kind_def to_string_scope_kind_def kScopeKindNames_def)

lemma scope_kind_name_plain:
  "CHR ''/'' \<notin> set (to_string_scope_kind k) \<and> CHR '':'' \<notin> set (to_string_scope_kind k)"
  by (cases k) (simp_all add: to_string_scope_kind_def kScopeKindNames_def)

section \<open>Records and the registry\<close>

record scope_record =
  s_id :: u64
  s_parent :: u64
  s_kind :: scope_kind
  s_name :: string
  s_path :: string
  s_generation :: u64
  s_depth :: nat

record scope_registry =
  sr_records :: "scope_record list"
  sr_children :: "u64 list list"
  sr_index :: "(string, u64) omap"
  sr_max :: nat
  sr_root :: u64

definition kMaxScopeNameLength :: nat where "kMaxScopeNameLength = 64"
definition kMaxScopePathLength :: nat where "kMaxScopePathLength = 1024"
definition kMaxScopeDepth :: nat where "kMaxScopeDepth = 32"

lemmas scope_bounds = kMaxScopeNameLength_def kMaxScopePathLength_def kMaxScopeDepth_def

definition empty_scopes :: scope_registry where
  "empty_scopes = \<lparr>sr_records = [], sr_children = [], sr_index = [], sr_max = 4096, sr_root = 0\<rparr>"

definition valid_scope_name :: "string \<Rightarrow> bool" where
  "valid_scope_name name \<longleftrightarrow>
     name \<noteq> [] \<and> length name \<le> kMaxScopeNameLength \<and>
     list_all (\<lambda>c. is_alnum c \<or> c = CHR ''.'' \<or> c = CHR ''_'' \<or> c = CHR ''-'') name"

definition root_scope :: scope_record where
  "root_scope = \<lparr>s_id = 1, s_parent = 0, s_kind = SK_Global, s_name = ''global'',
     s_path = ''global'', s_generation = 1, s_depth = 0\<rparr>"

definition ensure_root :: "scope_registry \<Rightarrow> scope_registry" where
  "ensure_root sr =
     (if id_valid (sr_root sr) \<and> sr_records sr \<noteq> [] then sr
      else sr\<lparr>sr_records := sr_records sr @ [root_scope],
              sr_children := sr_children sr @ [[]],
              sr_index := om_emplace ''global'' 1 (sr_index sr),
              sr_root := 1\<rparr>)"

definition sr_find :: "scope_registry \<Rightarrow> u64 \<Rightarrow> scope_record option" where
  "sr_find sr i =
     (if \<not> id_valid i then None
      else let index = unat (i - 1) in
        if length (sr_records sr) \<le> index then None else Some (sr_records sr ! index))"

definition path_of :: "scope_registry \<Rightarrow> u64 \<Rightarrow> string" where
  "path_of sr i = (case sr_find sr i of Some record \<Rightarrow> s_path record | None \<Rightarrow> [])"

definition child_path :: "scope_record \<Rightarrow> scope_kind \<Rightarrow> string \<Rightarrow> string" where
  "child_path parent kind name =
     s_path parent @ [CHR ''/''] @ to_string_scope_kind kind @ [CHR '':''] @ name"

text \<open>\<open>add_child\<close>: the decision, the new identity (0 on refusal) and the registry.\<close>

definition add_child ::
  "u64 \<Rightarrow> scope_kind \<Rightarrow> string \<Rightarrow> scope_registry \<Rightarrow> decision \<times> u64 \<times> scope_registry" where
  "add_child parent kind name sr0 =
     (let sr = ensure_root sr0 in
      case sr_find sr parent of
        None \<Rightarrow> (refuse OC_Rejected (Reg UnknownScope) ''parent scope is not registered'', 0, sr)
      | Some parent_record \<Rightarrow>
          if kind = SK_Global then
            (refuse OC_Rejected (Reg InvalidName) ''only one global scope exists'', 0, sr)
          else if \<not> valid_scope_name name then
            (refuse OC_Rejected (Reg InvalidName) ''scope name must be [A-Za-z0-9._-]{1,64}'', 0, sr)
          else if sr_max sr \<le> length (sr_records sr) then
            (refuse OC_BOUNDS_EXCEEDED (Bnd BoundsScopeCount) ''scope bound reached'', 0, sr)
          else if kMaxScopeDepth < s_depth parent_record + 1 then
            (refuse OC_Rejected (Reg InvalidName) ''scope depth bound reached'', 0, sr)
          else let path = child_path parent_record kind name in
            if kMaxScopePathLength < length path then
              (refuse OC_BOUNDS_EXCEEDED (Bnd BoundsStringLength) ''scope path too long'', 0, sr)
            else if map_of (sr_index sr) path \<noteq> None then
              (refuse OC_CONFLICT (Reg InvalidName) ''scope path already exists'', 0, sr)
            else let created = of_nat (length (sr_records sr)) + 1;
                record = \<lparr>s_id = created, s_parent = parent, s_kind = kind, s_name = name,
                  s_path = path, s_generation = 1, s_depth = s_depth parent_record + 1\<rparr>;
                children = sr_children sr @ [[]];
                p = unat (parent - 1) in
              (new_decision OC_Accepted, created,
               sr\<lparr>sr_records := sr_records sr @ [record],
                  sr_children := children[p := children ! p @ [created]],
                  sr_index := om_emplace path created (sr_index sr)\<rparr>))"

lemma tail_after_slash:
  "c \<in> set xs \<Longrightarrow> length (dropWhile (\<lambda>x. x \<noteq> c) xs) - Suc 0 < length xs"
  using length_dropWhile_le [of "\<lambda>x. x \<noteq> c" xs] by (cases xs) auto

text \<open>
  \<open>ensure_path\<close>: one segment (\<open>first\<close> is \<open>first_segment\<close>), then the loop; the cursor is the
  text still to read. Scopes created before a refused segment stay.
\<close>

definition segment_step ::
  "bool \<Rightarrow> string \<Rightarrow> u64 \<Rightarrow> string \<Rightarrow> scope_registry \<Rightarrow>
     decision option \<times> string \<times> u64 \<times> scope_registry" where
  "segment_step first prefix current segment sr =
     (if segment = [] then
        (Some (refuse OC_Rejected (Reg InvalidName) ''empty scope path segment''), prefix, current, sr)
      else if first then
        (if segment \<noteq> ''global'' then
           (Some (refuse OC_Rejected (Reg InvalidName) ''scope path must start at global''),
            prefix, current, sr)
         else (None, ''global'', current, sr))
      else if CHR '':'' \<notin> set segment then
        (Some (refuse OC_Rejected (Reg InvalidName) ''scope segment must be kind:name''),
         prefix, current, sr)
      else case parse_scope_kind (takeWhile (\<lambda>c. c \<noteq> CHR '':'') segment) of
          None \<Rightarrow>
            (Some (refuse OC_Rejected (Reg InvalidName) ''unknown scope kind''), prefix, current, sr)
        | Some kind \<Rightarrow>
            let name = tl (dropWhile (\<lambda>c. c \<noteq> CHR '':'') segment);
                candidate = prefix @ [CHR ''/''] @ segment in
            case map_of (sr_index sr) candidate of
              Some found \<Rightarrow> (None, candidate, found, sr)
            | None \<Rightarrow>
                case add_child current kind name sr of (added, created, sr') \<Rightarrow>
                  if \<not> allowed added then
                    (Some (add_reasons (new_decision (d_outcome added)) (d_reasons added)),
                     prefix, current, sr')
                  else (None, candidate, created, sr'))"

function ensure_segments ::
  "bool \<Rightarrow> string \<Rightarrow> u64 \<Rightarrow> string \<Rightarrow> scope_registry \<Rightarrow> decision \<times> u64 \<times> scope_registry" where
  "ensure_segments first prefix current path sr =
     (let segment = takeWhile (\<lambda>c. c \<noteq> CHR ''/'') path;
          rest = dropWhile (\<lambda>c. c \<noteq> CHR ''/'') path in
      case segment_step first prefix current segment sr of
        (Some refusal, prefix', current', sr') \<Rightarrow> (refusal, 0, sr')
      | (None, prefix', current', sr') \<Rightarrow>
          if rest = [] then
            (if \<not> id_valid current' then
               (refuse OC_Rejected (Reg UnknownScope) ''path resolution failed'', 0, sr')
             else (new_decision OC_Accepted, current', sr'))
          else ensure_segments False prefix' current' (tl rest) sr')"
  by pat_completeness auto
termination
  by (relation "measure (\<lambda>(first, prefix, current, path, sr). length path)")
     (auto intro: tail_after_slash)

declare ensure_segments.simps [simp del]

definition ensure_path :: "string \<Rightarrow> scope_registry \<Rightarrow> decision \<times> u64 \<times> scope_registry" where
  "ensure_path path sr0 =
     (if path = [] \<or> kMaxScopePathLength < length path then
        (refuse OC_Rejected (Bnd BoundsStringLength) ''scope path empty or oversized'', 0, sr0)
      else let sr = ensure_root sr0 in
        case map_of (sr_index sr) path of
          Some found \<Rightarrow> (new_decision OC_Accepted, found, sr)
        | None \<Rightarrow> ensure_segments True [] (sr_root sr) path sr)"

definition find_path :: "scope_registry \<Rightarrow> string \<Rightarrow> u64 option" where
  "find_path sr path = map_of (sr_index sr) path"

text \<open>The walk of \<open>is_ancestor_or_self\<close>, with the guard of the code.\<close>

function ancestor_walk :: "scope_registry \<Rightarrow> u64 \<Rightarrow> nat \<Rightarrow> scope_record option \<Rightarrow> bool" where
  "ancestor_walk sr ancestor guard None = False"
| "ancestor_walk sr ancestor guard (Some record) =
     (if \<not> id_valid (s_parent record) then False
      else if s_parent record = ancestor then True
      else if kMaxScopeDepth + 1 < guard + 1 then False
      else ancestor_walk sr ancestor (guard + 1) (sr_find sr (s_parent record)))"
  by pat_completeness auto
termination
  by (relation "measure (\<lambda>(sr, ancestor, guard, record). kMaxScopeDepth + 2 - guard)") auto

definition is_ancestor_or_self :: "scope_registry \<Rightarrow> u64 \<Rightarrow> u64 \<Rightarrow> bool" where
  "is_ancestor_or_self sr ancestor descendant \<longleftrightarrow>
     (if \<not> id_valid ancestor \<or> \<not> id_valid descendant then False
      else if ancestor = descendant then True
      else ancestor_walk sr ancestor 0 (sr_find sr descendant))"

text \<open>
  The unguarded walk of \<open>chain\<close>; in a well-formed tree a parent precedes its children, so
  as many steps as there are records are enough (\<open>chain_complete\<close>).
\<close>

fun chain_up :: "nat \<Rightarrow> scope_registry \<Rightarrow> scope_record option \<Rightarrow> u64 list" where
  "chain_up 0 sr record = []"
| "chain_up (Suc fuel) sr None = []"
| "chain_up (Suc fuel) sr (Some record) =
     s_id record #
       (if \<not> id_valid (s_parent record) then [] else chain_up fuel sr (sr_find sr (s_parent record)))"

definition chain :: "scope_registry \<Rightarrow> u64 \<Rightarrow> u64 list" where
  "chain sr i = rev (chain_up (length (sr_records sr)) sr (sr_find sr i))"

definition all_ids :: "scope_registry \<Rightarrow> u64 list" where
  "all_ids sr = map s_id (sr_records sr)"

definition touch :: "u64 \<Rightarrow> scope_registry \<Rightarrow> scope_registry" where
  "touch i sr =
     (case sr_find sr i of
        None \<Rightarrow> sr
      | Some record \<Rightarrow>
          sr\<lparr>sr_records := (sr_records sr)[unat (i - 1) :=
                record\<lparr>s_generation := next_generation (s_generation record)\<rparr>]\<rparr>)"

definition children_of :: "scope_registry \<Rightarrow> u64 \<Rightarrow> u64 list" where
  "children_of sr i =
     (if \<not> id_valid i then []
      else let index = unat (i - 1) in
        if length (sr_children sr) \<le> index then [] else sr_children sr ! index)"

text \<open>The checks \<open>restore\<close> makes of the record at position \<open>i\<close>.\<close>

definition restore_check :: "scope_record list \<Rightarrow> nat \<Rightarrow> scope_record \<Rightarrow> bool" where
  "restore_check all i record \<longleftrightarrow>
     s_id record = of_nat i + 1 \<and> id_valid (s_generation record) \<and>
     s_path record \<noteq> [] \<and> length (s_path record) \<le> kMaxScopePathLength \<and>
     valid_scope_name (s_name record) \<and>
     (if i = 0 then
        s_kind record = SK_Global \<and> \<not> id_valid (s_parent record) \<and>
        s_path record = ''global'' \<and> s_depth record = 0
      else
        id_valid (s_parent record) \<and> unat (s_parent record) \<le> length all \<and>
        s_parent record < s_id record \<and>
        (let parent = all ! unat (s_parent record - 1) in
           s_depth record = s_depth parent + 1 \<and> s_depth record \<le> kMaxScopeDepth \<and>
           child_path parent (s_kind record) (s_name record) = s_path record))"

fun restore_records ::
  "scope_record list \<Rightarrow> nat \<Rightarrow> scope_record list \<Rightarrow> u64 list list \<Rightarrow> (string, u64) omap \<Rightarrow>
     (u64 list list \<times> (string, u64) omap) option" where
  "restore_records all i [] children index = Some (children, index)"
| "restore_records all i (record # rest) children index =
     (if \<not> restore_check all i record then None
      else let p = unat (s_parent record - 1);
               children' = (if i = 0 then children else children[p := children ! p @ [s_id record]]) in
        if map_of index (s_path record) \<noteq> None then None
        else restore_records all (Suc i) rest children'
               (om_emplace (s_path record) (s_id record) index))"

definition restore_scopes ::
  "scope_record list \<Rightarrow> u64 \<Rightarrow> scope_registry \<Rightarrow> scope_registry option" where
  "restore_scopes records root sr =
     (if records = [] then None
      else if \<not> id_valid root \<or> root \<noteq> 1 then None
      else if sr_max sr < length records then None
      else case restore_records records 0 records (replicate (length records) []) [] of
          None \<Rightarrow> None
        | Some (children, index) \<Rightarrow>
            Some (sr\<lparr>sr_records := records, sr_children := children, sr_index := index,
                     sr_root := root\<rparr>))"

section \<open>The invariant\<close>

text \<open>The children lists and the path index are functions of the records.\<close>

definition children_upto :: "nat \<Rightarrow> scope_record list \<Rightarrow> u64 list list" where
  "children_upto n recs =
     map (\<lambda>k. map s_id (filter (\<lambda>r. s_parent r = of_nat k + 1) recs)) [0..<n]"

definition path_map :: "scope_record list \<Rightarrow> string \<rightharpoonup> u64" where
  "path_map recs = map_of (map (\<lambda>r. (s_path r, s_id r)) recs)"

definition records_ok :: "scope_record list \<Rightarrow> bool" where
  "records_ok recs \<longleftrightarrow>
     list_all (\<lambda>i. restore_check recs i (recs ! i)) [0..<length recs] \<and> distinct (map s_path recs)"

definition sr_wf :: "scope_registry \<Rightarrow> bool" where
  "sr_wf sr \<longleftrightarrow>
     0 < sr_max sr \<and> length (sr_records sr) \<le> sr_max sr \<and> sr_max sr < 2 ^ 64 \<and>
     sr_root sr = (if sr_records sr = [] then 0 else 1) \<and>
     records_ok (sr_records sr) \<and>
     sr_children sr = children_upto (length (sr_records sr)) (sr_records sr) \<and>
     om_wf (sr_index sr) \<and> map_of (sr_index sr) = path_map (sr_records sr)"

lemma path_map_dom: "path_map recs p = None \<longleftrightarrow> p \<notin> s_path ` set recs"
  by (force simp: path_map_def map_of_eq_None_iff)

lemma path_map_snoc:
  "s_path r \<notin> s_path ` set recs \<Longrightarrow>
   path_map (recs @ [r]) = (path_map recs)(s_path r \<mapsto> s_id r)"
  using path_map_dom [of recs "s_path r"]
  by (auto simp: path_map_def map_add_def fun_eq_iff split: option.splits)

lemma children_upto_length [simp]: "length (children_upto n recs) = n"
  by (simp add: children_upto_def)

lemma children_upto_nth [simp]:
  "k < n \<Longrightarrow> children_upto n recs ! k = map s_id (filter (\<lambda>r. s_parent r = of_nat k + 1) recs)"
  by (simp add: children_upto_def)

lemma children_upto_snoc:
  assumes "n \<le> 2 ^ 64" and p: "unat (s_parent r - 1) < n"
  shows "children_upto n (recs @ [r]) =
    (let p = unat (s_parent r - 1); c = children_upto n recs in c[p := c ! p @ [s_id r]])"
proof (rule nth_equalityI)
  fix k assume "k < length (children_upto n (recs @ [r]))"
  then have k: "k < n" by simp
  then have eq: "s_parent r = of_nat k + 1 \<longleftrightarrow> unat (s_parent r - 1) = k"
    using assms position_iff [of k "s_parent r"] by (metis order_less_le_trans)
  then show "children_upto n (recs @ [r]) ! k =
    (let p = unat (s_parent r - 1); c = children_upto n recs in c[p := c ! p @ [s_id r]]) ! k"
    by (cases "s_parent r = of_nat k + 1") (use eq k p in \<open>auto simp: Let_def\<close>)
qed (simp add: Let_def)

lemma children_upto_root:
  assumes "n < 2 ^ 64" and "s_parent r = 0"
  shows "children_upto n (recs @ [r]) = children_upto n recs"
proof (rule nth_equalityI)
  fix k assume "k < length (children_upto n (recs @ [r]))"
  then have k: "k < n" by simp
  then have "0 \<noteq> (of_nat k + 1 :: u64)"
    using assms succ_nonzero [of k] by auto
  then show "children_upto n (recs @ [r]) ! k = children_upto n recs ! k"
    using k assms(2) by simp
qed simp

lemma restore_check_parent:
  assumes "restore_check all i r" and "i \<noteq> 0" and "i < length all" and "length all < 2 ^ 64"
  shows "s_parent r \<noteq> 0" and "unat (s_parent r - 1) < i"
proof -
  have p: "s_parent r \<noteq> 0" "s_parent r < of_nat i + 1"
    using assms by (auto simp: restore_check_def id_valid_def)
  moreover have "unat (of_nat i + 1 :: u64) = i + 1"
    using assms by (simp add: unat_word_ariths unat_of_nat)
  ultimately show "s_parent r \<noteq> 0" "unat (s_parent r - 1) < i"
    using unat_gt_0 [of "s_parent r"] by (auto simp: word_less_nat_alt unat_minus_1)
qed

lemma restore_records_sound:
  assumes "restore_records all i rest ch ix = Some (ch', ix')"
    and "all = pre @ rest" and "i = length pre" and "length all < 2 ^ 64"
    and "ch = children_upto (length all) pre" and "om_wf ix" and "map_of ix = path_map pre"
    and "distinct (map s_path pre)"
  shows "ch' = children_upto (length all) all \<and> om_wf ix' \<and> map_of ix' = path_map all \<and>
    distinct (map s_path all) \<and> (\<forall>k. i \<le> k \<and> k < length all \<longrightarrow> restore_check all k (all ! k))"
  using assms
proof (induction all i rest ch ix
    arbitrary: pre rule: restore_records.induct)
  case (2 all i r rest children index)
  have ok: "restore_check all i r" and fresh: "map_of index (s_path r) = None"
    using "2.prems"(1) by (auto simp: Let_def split: if_splits)
  have new: "s_path r \<notin> s_path ` set pre"
    using fresh "2.prems"(7) path_map_dom [of pre] by simp
  let ?ch = "if i = 0 then children
    else children[unat (s_parent r - 1) := children ! unat (s_parent r - 1) @ [s_id r]]"
  have ch: "?ch = children_upto (length all) (pre @ [r])"
  proof (cases "i = 0")
    case True
    then show ?thesis
      using "2.prems" ok by (subst children_upto_root) (auto simp: restore_check_def id_valid_def)
  next
    case False
    then have "unat (s_parent r - 1) < length all"
      using restore_check_parent [OF ok] "2.prems" by force
    then show ?thesis
      using "2.prems" False by (subst children_upto_snoc) (auto simp: Let_def)
  qed
  have ix: "map_of (om_emplace (s_path r) (s_id r) index) = path_map (pre @ [r])"
    using new fresh "2.prems"(7) by (auto simp: path_map_snoc om_emplace_def fun_eq_iff)
  have rest: "restore_records all (Suc i) rest ?ch (om_emplace (s_path r) (s_id r) index)
    = Some (ch', ix')"
    using "2.prems"(1) ok fresh by (simp add: Let_def split: if_splits)
  have IH: "ch' = children_upto (length all) all \<and> om_wf ix' \<and> map_of ix' = path_map all \<and>
    distinct (map s_path all) \<and> (\<forall>k. Suc i \<le> k \<and> k < length all \<longrightarrow> restore_check all k (all ! k))"
  proof (rule "2.IH")
    show "\<not> \<not> restore_check all i r" "\<not> map_of index (s_path r) \<noteq> None" using ok fresh by auto
    show "distinct (map s_path (pre @ [r]))" using "2.prems"(8) new by auto
    show "om_wf (om_emplace (s_path r) (s_id r) index)" using "2.prems"(6) by simp
  qed (rule ch rest ix refl | (use "2.prems"(2-4) in simp; fail))+
  have "all ! i = r" using "2.prems"(2,3) by simp
  with IH ok show ?case by (metis le_eq_less_or_eq Suc_leI)
qed auto

lemma restore_records_complete:
  assumes "xs = pre @ rest" and "i = length pre" and "dom (map_of ix) = s_path ` set pre"
    and "\<forall>k. i \<le> k \<and> k < length xs \<longrightarrow> restore_check xs k (xs ! k)" and "distinct (map s_path xs)"
  shows "restore_records xs i rest ch ix \<noteq> None"
  using assms
proof (induction xs i rest ch ix arbitrary: pre rule: restore_records.induct)
  case (2 all i r rest children index)
  have "all ! i = r" using "2.prems"(1,2) by simp
  then have ok: "restore_check all i r"
    using "2.prems"(1,2,4) by auto
  have "s_path r \<notin> dom (map_of index)"
    using "2.prems"(1,3,5) by auto
  then have fresh: "map_of index (s_path r) = None" by blast
  let ?ch = "if i = 0 then children
    else children[unat (s_parent r - 1) := children ! unat (s_parent r - 1) @ [s_id r]]"
  have "restore_records all (Suc i) rest ?ch (om_emplace (s_path r) (s_id r) index) \<noteq> None"
  proof (rule "2.IH")
    show "\<not> \<not> restore_check all i r" "\<not> map_of index (s_path r) \<noteq> None" using ok fresh by auto
    show "dom (map_of (om_emplace (s_path r) (s_id r) index)) = s_path ` set (pre @ [r])"
      using "2.prems"(3) fresh by (auto simp: om_emplace_def dom_def split: if_splits)
  qed (rule refl | (use "2.prems" in simp; fail))+
  with ok fresh show ?case by (simp add: Let_def)
qed simp

lemma records_ok_iff:
  "records_ok recs \<longleftrightarrow> (\<forall>k < length recs. restore_check recs k (recs ! k)) \<and> distinct (map s_path recs)"
  by (auto simp: records_ok_def list_all_iff)

text \<open>Recovery succeeds exactly on the record lists the invariant allows, and establishes it.\<close>

lemma restore_scopes_wf:
  assumes "restore_scopes recs root sr = Some sr'" and "sr_max sr < 2 ^ 64"
  shows "sr_wf sr' \<and> sr_records sr' = recs \<and> sr_root sr' = root \<and> sr_max sr' = sr_max sr \<and> recs \<noteq> []"
proof -
  have guards: "recs \<noteq> []" "root = 1" "length recs \<le> sr_max sr"
    using assms(1) by (auto simp: restore_scopes_def split: if_splits)
  obtain ch ix where run: "restore_records recs 0 recs (replicate (length recs) []) [] = Some (ch, ix)"
    and sr': "sr' = sr\<lparr>sr_records := recs, sr_children := ch, sr_index := ix, sr_root := root\<rparr>"
    using assms(1) by (auto simp: restore_scopes_def split: if_splits option.splits)
  have "replicate (length recs) [] = children_upto (length recs) []"
    by (intro nth_equalityI) auto
  then have "ch = children_upto (length recs) recs \<and> om_wf ix \<and> map_of ix = path_map recs \<and>
    distinct (map s_path recs) \<and> (\<forall>k. 0 \<le> k \<and> k < length recs \<longrightarrow> restore_check recs k (recs ! k))"
    using guards assms(2)
    by (intro restore_records_sound [OF run, of "[]"]) (auto simp: path_map_def)
  then show ?thesis
    using guards assms(2) by (cases recs) (auto simp: sr_wf_def sr' records_ok_iff)
qed

lemma restore_scopes_accepts:
  assumes "records_ok recs" and "recs \<noteq> []" and "length recs \<le> sr_max sr"
  shows "restore_scopes recs 1 sr \<noteq> None"
proof -
  have "restore_records recs 0 recs (replicate (length recs) []) [] \<noteq> None"
    using assms(1) by (intro restore_records_complete [of _ "[]"]) (auto simp: records_ok_iff)
  then show ?thesis
    using assms(2,3) by (auto simp: restore_scopes_def id_valid_def)
qed

lemma sr_wf_determined:
  assumes "sr_wf a" and "sr_wf b" and "sr_records a = sr_records b" and "sr_max a = sr_max b"
  shows "a = b"
proof -
  have "sr_index a = sr_index b"
    using assms by (auto simp: sr_wf_def intro: om_wf_ext)
  with assms show ?thesis by (auto simp: sr_wf_def)
qed

lemma restore_scopes_round_trip:
  assumes "sr_wf sr" and "sr_records sr \<noteq> []" and "sr_max base = sr_max sr"
  shows "restore_scopes (sr_records sr) (sr_root sr) base = Some sr"
proof -
  have guards: "sr_root sr = 1" "records_ok (sr_records sr)" "length (sr_records sr) \<le> sr_max base"
      "sr_max base < 2 ^ 64"
    using assms by (auto simp: sr_wf_def)
  then obtain sr' where run: "restore_scopes (sr_records sr) (sr_root sr) base = Some sr'"
    using restore_scopes_accepts [OF guards(2) assms(2) guards(3)] by auto
  then have "sr' = sr"
    using restore_scopes_wf [OF run guards(4)] assms by (intro sr_wf_determined) auto
  with run show ?thesis by simp
qed

section \<open>Every operation keeps the invariant\<close>

lemma sr_wf_empty: "sr_wf (empty_scopes\<lparr>sr_max := n\<rparr>)" if "0 < n" "n < 2 ^ 64"
  using that by (auto simp: sr_wf_def empty_scopes_def records_ok_def children_upto_def path_map_def fun_eq_iff)

lemma restore_check_root: "restore_check [root_scope] 0 root_scope"
  by (simp add: restore_check_def root_scope_def id_valid_def valid_scope_name_def scope_bounds
      is_alnum_def less_eq_char_def)

lemma sr_wf_ensure_root [simp, intro]: "sr_wf sr \<Longrightarrow> sr_wf (ensure_root sr)"
  using restore_check_root succ_nonzero [of 0]
  by (cases "sr_records sr = []")
     (auto simp: ensure_root_def sr_wf_def records_ok_iff children_upto_def om_emplace_def path_map_def
        root_scope_def fun_eq_iff id_valid_def)

lemma ensure_root_facts:
  assumes "sr_wf sr"
  shows "sr_records (ensure_root sr) \<noteq> []" "sr_root (ensure_root sr) = 1"
    "sr_max (ensure_root sr) = sr_max sr"
    "sr_records (ensure_root sr) = (if sr_records sr = [] then [root_scope] else sr_records sr)"
  using assms by (auto simp: ensure_root_def sr_wf_def id_valid_def)

lemma sr_find_Some:
  assumes "sr_wf sr" and "sr_find sr i = Some r"
  shows "r \<in> set (sr_records sr)" "s_id r = i" "i \<noteq> 0" "unat (i - 1) < length (sr_records sr)"
    "r = sr_records sr ! unat (i - 1)" "restore_check (sr_records sr) (unat (i - 1)) r"
proof -
  have found: "i \<noteq> 0" "unat (i - 1) < length (sr_records sr)" "r = sr_records sr ! unat (i - 1)"
    using assms(2) by (auto simp: sr_find_def id_valid_def Let_def split: if_splits)
  then have check: "restore_check (sr_records sr) (unat (i - 1)) r"
    using assms(1) by (simp add: sr_wf_def records_ok_iff)
  show "r \<in> set (sr_records sr)" using found by simp
  have "s_id r = of_nat (unat (i - 1)) + 1" using check by (simp only: restore_check_def)
  then show "s_id r = i" by simp
qed (use assms in \<open>auto simp: sr_find_def id_valid_def sr_wf_def records_ok_iff Let_def split: if_splits\<close>)

lemma restore_check_mono:
  assumes "restore_check all i r" and "i < length all" and "length all < 2 ^ 64"
    and "map (\<lambda>r. (s_path r, s_depth r)) all = map (\<lambda>r. (s_path r, s_depth r)) (take (length all) all')"
    and "length all \<le> length all'"
  shows "restore_check all' i r"
proof (cases "i = 0")
  case False
  let ?p = "unat (s_parent r - 1)"
  have "?p < length all" using restore_check_parent [OF assms(1) False] assms(2,3) by auto
  then have "map (\<lambda>r. (s_path r, s_depth r)) all ! ?p = map (\<lambda>r. (s_path r, s_depth r)) (take (length all) all') ! ?p"
    using assms(4) by simp
  then have "s_path (all ! ?p) = s_path (all' ! ?p)" "s_depth (all ! ?p) = s_depth (all' ! ?p)"
    using \<open>?p < length all\<close> assms(5) by auto
  then show ?thesis
    using assms(1,5) False by (auto simp: restore_check_def Let_def child_path_def)
qed (use assms in \<open>auto simp: restore_check_def\<close>)

lemma restore_check_appended:
  assumes "records_ok recs" and "length recs < 2 ^ 64 - 1" and "k < length recs"
  shows "restore_check (recs @ [r]) k (recs ! k)"
proof (rule restore_check_mono)
  show "restore_check recs k (recs ! k)" using assms(1,3) by (simp add: records_ok_iff)
  show "length recs < 2 ^ 64" using assms(2) by (rule order_less_trans) simp
qed (simp_all add: assms(3))

text \<open>A scope whose parent exists can be appended when its path is new.\<close>

lemma sr_wf_append:
  assumes wf: "sr_wf sr" and parent: "sr_find sr p = Some parent_record"
    and bound: "length (sr_records sr) < sr_max sr"
    and name: "valid_scope_name name" and depth: "s_depth parent_record + 1 \<le> kMaxScopeDepth"
    and path: "path = child_path parent_record kind name" "length path \<le> kMaxScopePathLength"
    and fresh: "map_of (sr_index sr) path = None"
    and r: "r = \<lparr>s_id = of_nat (length (sr_records sr)) + 1, s_parent = p, s_kind = kind, s_name = name,
       s_path = path, s_generation = 1, s_depth = s_depth parent_record + 1\<rparr>"
    and sr': "sr' = sr\<lparr>sr_records := sr_records sr @ [r],
       sr_children := (sr_children sr @ [[]])
          [unat (p - 1) := (sr_children sr @ [[]]) ! unat (p - 1) @ [s_id r]],
       sr_index := om_emplace path (s_id r) (sr_index sr)\<rparr>"
  shows "sr_wf sr'"
proof -
  let ?n = "length (sr_records sr)"
  have n: "?n < 2 ^ 64 - 1" "?n \<noteq> 0"
    using wf bound parent by (auto simp: sr_wf_def sr_find_def split: if_splits)
  note found = sr_find_Some [OF wf parent]
  have "unat p \<le> ?n"
    using found(3,4) by (simp add: unat_minus_1)
  then have check: "restore_check (sr_records sr @ [r]) ?n r"
    using found(3,4,5) name depth path n unat_next_position [OF n(1)]
    by (auto simp: r restore_check_def id_valid_def Let_def nth_append word_less_nat_alt child_path_def)
  have new: "s_path r \<notin> s_path ` set (sr_records sr)"
    using fresh wf path_map_dom [of "sr_records sr"] by (auto simp: sr_wf_def r)
  have ok: "records_ok (sr_records sr @ [r])"
    using check new restore_check_appended [of "sr_records sr"] wf n
    by (auto simp: records_ok_iff nth_append sr_wf_def less_Suc_eq)
  have last: "of_nat ?n + 1 \<notin> s_parent ` set (sr_records sr)"
  proof
    assume "of_nat ?n + 1 \<in> s_parent ` set (sr_records sr)"
    then obtain k where k: "k < ?n" "s_parent (sr_records sr ! k) = of_nat ?n + 1"
      by (auto simp: in_set_conv_nth)
    have "restore_check (sr_records sr) k (sr_records sr ! k)"
      using wf k(1) by (auto simp: sr_wf_def records_ok_iff)
    moreover have "k \<noteq> 0 \<Longrightarrow> unat (of_nat ?n + 1 - 1 :: u64) < k"
      using restore_check_parent(2) [OF calculation _ k(1)] k(2) n by auto
    ultimately show False
      using k n succ_nonzero [OF n(1)]
      by (cases "k = 0") (auto simp: restore_check_def id_valid_def unat_of_nat)
  qed
  have old: "sr_children sr @ [[]] = children_upto (?n + 1) (sr_records sr)"
  proof (rule nth_equalityI)
    fix k assume "k < length (sr_children sr @ [[]])"
    then have "k < ?n + 1" using wf by (simp add: sr_wf_def)
    then consider "k < ?n" | "k = ?n" by linarith
    then show "(sr_children sr @ [[]]) ! k = children_upto (?n + 1) (sr_records sr) ! k"
    proof cases
      case 2
      have "filter (\<lambda>r. s_parent r = of_nat k + 1) (sr_records sr) = []"
        using last 2 by (auto simp: filter_empty_conv intro: rev_image_eqI)
      then show ?thesis using wf 2 by (simp add: sr_wf_def nth_append)
    qed (use wf in \<open>simp add: sr_wf_def nth_append\<close>)
  qed (use wf in \<open>simp add: sr_wf_def\<close>)
  have children: "sr_children sr' = children_upto (?n + 1) (sr_records sr @ [r])"
    using children_upto_snoc [of "?n + 1" r] n found(4) by (simp add: sr' old Let_def r)
  have index: "map_of (sr_index sr') = path_map (sr_records sr @ [r])"
    using new fresh wf by (auto simp: path_map_snoc sr' sr_wf_def om_emplace_def r fun_eq_iff)
  show ?thesis
    using wf ok children index bound n(2) by (auto simp: sr_wf_def sr')
qed

lemma sr_wf_add_child:
  assumes "sr_wf sr"
  shows "sr_wf (snd (snd (add_child parent kind name sr)))"
proof -
  obtain d created sr' where run: "add_child parent kind name sr = (d, created, sr')"
    by (cases "add_child parent kind name sr")
  note root = sr_wf_ensure_root [OF assms]
  show ?thesis
  proof (cases "allowed d")
    case False
    then show ?thesis using run root by (auto simp: add_child_def Let_def split: option.splits if_splits)
  next
    case True
    with run obtain parent_record where "sr_find (ensure_root sr) parent = Some parent_record"
      by (auto simp: add_child_def Let_def split: option.splits)
    with run True show ?thesis
      by (auto simp: add_child_def Let_def not_le not_less split: if_splits intro: sr_wf_append [OF root])
  qed
qed

text \<open>An accepted child: a fresh identity, found under its path, below its parent.\<close>

lemma add_child_accepted:
  assumes wf: "sr_wf sr" and run: "add_child parent kind name sr = (d, created, sr')" and ok: "allowed d"
  shows "created = of_nat (length (sr_records (ensure_root sr))) + 1"
    and "\<exists>parent_record r. sr_find (ensure_root sr) parent = Some parent_record \<and>
      sr_records sr' = sr_records (ensure_root sr) @ [r] \<and> s_id r = created \<and> s_parent r = parent \<and>
      s_kind r = kind \<and> s_name r = name \<and> s_path r = child_path parent_record kind name \<and>
      s_generation r = 1 \<and> s_depth r = s_depth parent_record + 1 \<and>
      find_path (ensure_root sr) (s_path r) = None \<and>
      find_path sr' (s_path r) = Some created"
  using run ok
  by (auto simp: add_child_def Let_def find_path_def om_emplace_def split: option.splits if_splits)

lemma add_child_refused:
  "add_child parent kind name sr = (d, created, sr') \<Longrightarrow> \<not> allowed d \<Longrightarrow>
   created = 0 \<and> sr' = ensure_root sr"
  by (auto simp: add_child_def Let_def split: option.splits if_splits)

lemma sr_wf_added: "sr_wf sr \<Longrightarrow> add_child p k n sr = (d, created, sr') \<Longrightarrow> sr_wf sr'"
  using sr_wf_add_child [of sr p k n] by simp

lemma sr_wf_segment_step:
  "sr_wf sr \<Longrightarrow> segment_step a pre current segment sr = (r, pre', current', sr') \<Longrightarrow> sr_wf sr'"
  by (auto simp: segment_step_def Let_def split: option.splits prod.splits if_splits
      intro: sr_wf_added)

lemma sr_wf_ensure_segments:
  "sr_wf sr \<Longrightarrow> sr_wf (snd (snd (ensure_segments a pre current path sr)))"
proof (induction a pre current path sr rule: ensure_segments.induct)
  case (1 a pre current path sr)
  obtain r pre' current' sr' where
    step: "segment_step a pre current (takeWhile (\<lambda>c. c \<noteq> CHR ''/'') path) sr = (r, pre', current', sr')"
    by (metis prod_cases4)
  have "sr_wf sr'" using sr_wf_segment_step [OF "1.prems" step] .
  then show ?case
    using "1.IH" [OF refl refl step [symmetric] _ refl refl]
    by (subst ensure_segments.simps) (cases r; simp add: step)
qed

lemma sr_wf_ensure_path: "sr_wf sr \<Longrightarrow> sr_wf (snd (snd (ensure_path path sr)))"
  using sr_wf_ensure_segments [of "ensure_root sr"]
  by (auto simp: ensure_path_def Let_def split: option.splits)

text \<open>Rewriting the generations alone keeps everything else.\<close>

definition shape :: "scope_record \<Rightarrow> scope_record" where
  "shape r = r\<lparr>s_generation := 1\<rparr>"

lemma shape_fields [simp]:
  "s_id (shape r) = s_id r" "s_parent (shape r) = s_parent r" "s_kind (shape r) = s_kind r"
  "s_name (shape r) = s_name r" "s_path (shape r) = s_path r" "s_depth (shape r) = s_depth r"
  by (simp_all add: shape_def)

lemma shape_eqD:
  assumes "shape a = shape b"
  shows "s_id a = s_id b \<and> s_parent a = s_parent b \<and> s_kind a = s_kind b \<and> s_name a = s_name b \<and>
    s_path a = s_path b \<and> s_depth a = s_depth b"
  using assms by (metis shape_fields)

lemma same_shape_nth:
  assumes "map shape xs = map shape ys" and "k < length ys"
  shows "shape (xs ! k) = shape (ys ! k)"
  using assms by (metis length_map nth_map)

lemma restore_check_shape:
  assumes check: "restore_check recs i r" and shapes: "map shape recs' = map shape recs"
    and r: "shape r' = shape r" and valid: "id_valid (s_generation r')" and "i < length recs"
    and "length recs < 2 ^ 64"
  shows "restore_check recs' i r'"
proof -
  have len: "length recs' = length recs" using shapes by (metis length_map)
  show ?thesis
  proof (cases "i = 0")
    case True
    then show ?thesis
      using check shape_eqD [OF r] valid by (simp add: restore_check_def scope_bounds)
  next
    case False
    have "unat (s_parent r - 1) < length recs"
      using restore_check_parent [OF check False] assms(5,6) by simp
    note parent = shape_eqD [OF same_shape_nth [OF shapes this]]
    then show ?thesis
      using check shape_eqD [OF r] valid False len
      by (auto simp: restore_check_def Let_def child_path_def)
  qed
qed

lemma sr_wf_regenerated:
  assumes wf: "sr_wf sr" and shapes: "map shape recs = map shape (sr_records sr)"
    and valid: "\<forall>r \<in> set recs. id_valid (s_generation r)"
  shows "sr_wf (sr\<lparr>sr_records := recs\<rparr>)"
proof -
  have len: "length recs = length (sr_records sr)" using shapes by (metis length_map)
  have bound: "length (sr_records sr) < 2 ^ 64" using wf by (simp add: sr_wf_def)
  have via: "map f recs = map f (sr_records sr)" if "\<And>r. f (shape r) = f r" for f :: "scope_record \<Rightarrow> 'b"
  proof -
    have "map f (map shape recs) = map f (map shape (sr_records sr))" using shapes by simp
    then show ?thesis by (simp add: that o_def)
  qed
  have "restore_check recs k (recs ! k)" if "k < length recs" for k
    using that wf valid len bound same_shape_nth [OF shapes, of k]
    by (intro restore_check_shape [OF _ shapes]) (auto simp: sr_wf_def records_ok_iff)
  moreover have "path_map recs = path_map (sr_records sr)"
    using via [of "\<lambda>r. (s_path r, s_id r)"] by (simp add: path_map_def)
  moreover have "map s_id (filter (\<lambda>r. s_parent r = p) recs)
      = map s_id (filter (\<lambda>r. s_parent r = p) (sr_records sr))" for p
  proof -
    have conv: "map s_id (filter (\<lambda>r. s_parent r = p) l) =
        map snd (filter (\<lambda>e. fst e = p) (map (\<lambda>r. (s_parent r, s_id r)) l))" for l
      by (induction l) auto
    have "map (\<lambda>r. (s_parent r, s_id r)) recs = map (\<lambda>r. (s_parent r, s_id r)) (sr_records sr)"
      by (rule via) simp
    then show ?thesis by (simp only: conv)
  qed
  ultimately show ?thesis
    using wf via [of s_path] len by (auto simp: sr_wf_def records_ok_iff children_upto_def)
qed

lemma sr_wf_touch [simp, intro]:
  assumes "sr_wf sr"
  shows "sr_wf (touch i sr)"
proof (cases "sr_find sr i")
  case None
  then show ?thesis using assms by (simp add: touch_def)
next
  case (Some r)
  note found = sr_find_Some [OF assms Some]
  have "\<forall>r \<in> set (sr_records sr). id_valid (s_generation r)"
    using assms by (auto simp: sr_wf_def records_ok_iff restore_check_def in_set_conv_nth)
  then have "sr_wf (sr\<lparr>sr_records := (sr_records sr)[unat (i - 1) :=
      r\<lparr>s_generation := next_generation (s_generation r)\<rparr>]\<rparr>)"
    using found by (intro sr_wf_regenerated [OF assms])
      (auto simp: map_update list_update_same_conv shape_def dest!: set_update_subset_insert [THEN subsetD])
  then show ?thesis using Some by (simp add: touch_def)
qed

section \<open>Walking to the root\<close>

lemma found_parent:
  assumes wf: "sr_wf sr" and r: "sr_find sr i = Some r" and "s_parent r \<noteq> 0"
  shows "\<exists>pr. sr_find sr (s_parent r) = Some pr \<and> s_depth r = s_depth pr + 1 \<and>
    unat (s_parent r - 1) < unat (i - 1)"
proof -
  note found = sr_find_Some [OF wf r]
  have "unat (i - 1) \<noteq> 0"
    using found(6) assms(3) by (auto simp: restore_check_def id_valid_def split: if_splits)
  moreover have "length (sr_records sr) < 2 ^ 64" using wf by (simp add: sr_wf_def)
  ultimately have "unat (s_parent r - 1) < unat (i - 1)"
    using restore_check_parent(2) [OF found(6) _ found(4)] by simp
  then show ?thesis
    using found assms(3) by (auto simp: sr_find_def id_valid_def restore_check_def Let_def)
qed

lemma found_root:
  assumes "sr_wf sr" and "sr_find sr i = Some r"
  shows "s_parent r = 0 \<longleftrightarrow> i = 1" and "s_parent r = 0 \<Longrightarrow> s_depth r = 0"
proof -
  note found = sr_find_Some [OF assms]
  have "unat (i - 1) = 0 \<longleftrightarrow> i = 1" by (simp add: unat_eq_0)
  moreover have "s_parent r = 0 \<longleftrightarrow> unat (i - 1) = 0"
    using found(6) by (auto simp: restore_check_def id_valid_def split: if_splits)
  ultimately show "s_parent r = 0 \<longleftrightarrow> i = 1" by simp
  show "s_parent r = 0 \<Longrightarrow> s_depth r = 0"
    using found(6) by (auto simp: restore_check_def id_valid_def split: if_splits)
qed

lemma found_depth:
  assumes "sr_wf sr"
  shows "sr_find sr i = Some r \<Longrightarrow> s_depth r \<le> unat (i - 1) \<and> s_depth r \<le> kMaxScopeDepth"
proof (induction "unat (i - 1)" arbitrary: i r rule: less_induct)
  case less
  note found = sr_find_Some [OF assms less.prems]
  show ?case
  proof (cases "s_parent r = 0")
    case True
    then show ?thesis using found_root [OF assms less.prems] by simp
  next
    case False
    obtain pr where pr: "sr_find sr (s_parent r) = Some pr" "s_depth r = s_depth pr + 1"
        "unat (s_parent r - 1) < unat (i - 1)"
      using found_parent [OF assms less.prems False] by blast
    have "s_depth r \<le> kMaxScopeDepth"
      using found(6) pr(3) by (auto simp: restore_check_def Let_def split: if_splits)
    then show ?thesis using less.hyps [OF pr(3,1)] pr(2,3) by simp
  qed
qed

lemma chain_up_fuel:
  assumes "sr_wf sr"
  shows "sr_find sr i = Some r \<Longrightarrow> s_depth r < m \<Longrightarrow> s_depth r < n \<Longrightarrow>
    chain_up m sr (Some r) = chain_up n sr (Some r)"
proof (induction "s_depth r" arbitrary: i r m n)
  case 0
  then have "s_parent r = 0" using found_parent [OF assms] by fastforce
  with 0(3,4) show ?case by (cases m; cases n) simp_all
next
  case (Suc d)
  obtain m' n' where mn: "m = Suc m'" "n = Suc n'"
    using Suc.prems(2,3) by (cases m; cases n) simp_all
  have "s_parent r \<noteq> 0" using Suc.hyps(2) found_root [OF assms Suc.prems(1)] by auto
  then obtain pr where pr: "sr_find sr (s_parent r) = Some pr" "s_depth r = s_depth pr + 1"
    using found_parent [OF assms Suc.prems(1)] by blast
  have "chain_up m' sr (Some pr) = chain_up n' sr (Some pr)"
    by (rule Suc.hyps(1) [OF _ pr(1)]) (use Suc.prems Suc.hyps(2) pr(2) mn in simp_all)
  then show ?case by (simp add: mn pr(1))
qed

text \<open>The chain of a scope is the chain of its parent followed by the scope itself.\<close>

lemma chain_complete:
  assumes wf: "sr_wf sr" and r: "sr_find sr i = Some r"
  shows "chain sr i = (if i = 1 then [1] else chain sr (s_parent r) @ [i])"
proof -
  note found = sr_find_Some [OF wf r]
  obtain n where n: "length (sr_records sr) = Suc n" using found(4) by (cases "length (sr_records sr)") auto
  show ?thesis
  proof (cases "i = 1")
    case True
    then show ?thesis
      using found_root [OF wf r] found(2) r by (simp add: chain_def n del: One_nat_def)
  next
    case False
    then have "s_parent r \<noteq> 0" using found_root [OF wf r] by simp
    then obtain pr where pr: "sr_find sr (s_parent r) = Some pr" "s_depth r = s_depth pr + 1"
      using found_parent [OF wf r] by blast
    have "s_depth r < length (sr_records sr)"
      using found_depth [OF wf r] found(4) by simp
    then have "chain_up n sr (Some pr) = chain_up (Suc n) sr (Some pr)"
      using pr n by (intro chain_up_fuel [OF wf pr(1)]) auto
    then show ?thesis
      using False \<open>s_parent r \<noteq> 0\<close> found(2) by (simp add: chain_def r n pr(1) id_valid_def)
  qed
qed

lemma chain_unknown: "sr_find sr i = None \<Longrightarrow> chain sr i = []"
  by (cases "length (sr_records sr)") (simp_all add: chain_def)

lemma chain_nonzero:
  assumes "sr_wf sr"
  shows "0 \<notin> set (chain sr i)"
proof (induction "unat (i - 1)" arbitrary: i rule: less_induct)
  case less
  show ?case
  proof (cases "sr_find sr i")
    case None
    then show ?thesis by (simp add: chain_unknown)
  next
    case (Some r)
    then show ?thesis
      using chain_complete [OF assms Some] found_parent [OF assms Some] found_root(1) [OF assms Some]
        sr_find_Some(3) [OF assms Some] less.hyps by auto
  qed
qed

lemma ancestor_walk_chain:
  assumes "sr_wf sr"
  shows "sr_find sr i = Some r \<Longrightarrow> a \<noteq> 0 \<Longrightarrow> s_depth r + g \<le> kMaxScopeDepth + 1 \<Longrightarrow>
    ancestor_walk sr a g (Some r) \<longleftrightarrow> s_parent r \<noteq> 0 \<and> a \<in> set (chain sr (s_parent r))"
proof (induction "s_depth r" arbitrary: i r g)
  case 0
  then have "s_parent r = 0" using found_parent [OF assms] by fastforce
  then show ?case by simp
next
  case (Suc d)
  have "s_parent r \<noteq> 0" using Suc found_root [OF assms Suc.prems(1)] by auto
  then obtain pr where pr: "sr_find sr (s_parent r) = Some pr" "s_depth r = s_depth pr + 1"
    using found_parent [OF assms Suc.prems(1)] by blast
  have IH: "ancestor_walk sr a (g + 1) (Some pr) \<longleftrightarrow> s_parent pr \<noteq> 0 \<and> a \<in> set (chain sr (s_parent pr))"
    by (rule Suc.hyps(1) [OF _ pr(1)]) (use Suc.prems Suc.hyps(2) pr(2) in simp_all)
  have root: "s_parent pr = 0 \<longleftrightarrow> s_parent r = 1" using found_root [OF assms pr(1)] by simp
  have chain: "chain sr (s_parent r) =
      (if s_parent r = 1 then [1] else chain sr (s_parent pr) @ [s_parent r])"
    by (rule chain_complete [OF assms pr(1)])
  have guard: "\<not> kMaxScopeDepth + 1 < g + 1" using Suc.prems(3) Suc.hyps(2) by simp
  have "ancestor_walk sr a g (Some r) \<longleftrightarrow> s_parent r = a \<or> ancestor_walk sr a (g + 1) (Some pr)"
    using guard \<open>s_parent r \<noteq> 0\<close> pr(1) by (simp add: id_valid_def)
  then show ?case
    using IH root chain \<open>s_parent r \<noteq> 0\<close> by (auto split: if_splits)
qed

lemma ancestor_iff_chain:
  assumes wf: "sr_wf sr" and "a \<noteq> 0"
  shows "is_ancestor_or_self sr a i \<longleftrightarrow> (i \<noteq> 0 \<and> a = i) \<or> a \<in> set (chain sr i)"
proof (cases "sr_find sr i")
  case None
  then show ?thesis using assms(2) by (auto simp: is_ancestor_or_self_def id_valid_def chain_unknown)
next
  case (Some r)
  have "s_depth r + 0 \<le> kMaxScopeDepth + 1" using found_depth [OF wf Some] by simp
  note walk = ancestor_walk_chain [OF wf Some assms(2) this]
  show ?thesis
    using walk chain_complete [OF wf Some] found_root [OF wf Some] sr_find_Some(3) [OF wf Some] Some assms(2)
    by (auto simp: is_ancestor_or_self_def id_valid_def)
qed

section \<open>What a consistent tree is\<close>

text \<open>
  The specification of a tree of scopes, stated over the whole list rather than record by record:
  \<open>descends recs segs r\<close> says that \<open>r\<close> hangs below a root of the list through parents created
  before it, and that \<open>segs\<close> are the kinds and names on the way down. Depth and path are then
  functions of that descent, and the bounds are bounds on it.
\<close>

definition scope_path_text :: "(scope_kind \<times> string) list \<Rightarrow> string" where
  "scope_path_text segs =
     ''global'' @ concat (map (\<lambda>(kind, name). ''/'' @ to_string_scope_kind kind @ '':'' @ name) segs)"

inductive descends :: "scope_record list \<Rightarrow> (scope_kind \<times> string) list \<Rightarrow> scope_record \<Rightarrow> bool"
  for recs where
  top: "r \<in> set recs \<Longrightarrow> s_parent r = 0 \<Longrightarrow> descends recs [] r"
| below: "descends recs segs q \<Longrightarrow> r \<in> set recs \<Longrightarrow> s_parent r = s_id q \<Longrightarrow> s_id q < s_id r \<Longrightarrow>
    descends recs (segs @ [(s_kind r, s_name r)]) r"

definition scope_fits :: "scope_record list \<Rightarrow> scope_record \<Rightarrow> bool" where
  "scope_fits recs r \<longleftrightarrow> 1 \<le> s_generation r \<and> length (s_path r) \<le> 1024 \<and>
     1 \<le> length (s_name r) \<and> length (s_name r) \<le> 64 \<and>
     (\<forall>c \<in> set (s_name r). is_alnum c \<or> c \<in> {CHR ''.'', CHR ''_'', CHR ''-''}) \<and>
     (\<exists>segs. descends recs segs r \<and> length segs \<le> 32 \<and> s_depth r = length segs \<and>
        s_path r = scope_path_text segs)"

text \<open>
  Identities count from one, no two scopes share a path, the first record is the one root and is
  global, and every record descends from it and fits.
\<close>

definition consistent_tree :: "scope_record list \<Rightarrow> bool" where
  "consistent_tree recs \<longleftrightarrow>
     recs \<noteq> [] \<and> map s_id recs = map of_nat [1..<Suc (length recs)] \<and>
     distinct (map s_path recs) \<and> s_kind (hd recs) = SK_Global \<and>
     filter (\<lambda>r. s_parent r = 0) recs = [hd recs] \<and> (\<forall>r \<in> set recs. scope_fits recs r)"

lemma scope_path_text_snoc [simp]:
  "scope_path_text [] = ''global''"
  "scope_path_text (segs @ [(kind, name)]) =
     scope_path_text segs @ ''/'' @ to_string_scope_kind kind @ '':'' @ name"
  by (simp_all add: scope_path_text_def)

lemma descends_in: "descends recs segs r \<Longrightarrow> r \<in> set recs"
  by (induction rule: descends.induct)

lemma descends_unique:
  assumes "descends recs segs r" and "descends recs segs' r"
    and ids: "inj_on s_id (set recs)" "\<forall>r \<in> set recs. s_id r \<noteq> 0"
  shows "segs = segs'"
  using assms(1,2)
proof (induction arbitrary: segs' rule: descends.induct)
  case (top r)
  from top.prems show ?case
  proof (cases rule: descends.cases)
    case (below segs q)
    then have "s_id q = 0" using \<open>s_parent r = 0\<close> by simp
    then show ?thesis using ids(2) descends_in [OF below(2)] by blast
  qed simp
next
  case (below segs q r)
  from below.prems show ?case
  proof (cases rule: descends.cases)
    case top
    then have "s_id q = 0" using below.hyps by simp
    then show ?thesis using ids(2) descends_in [OF below.hyps(1)] by blast
  next
    case (below segs0 q0)
    then have "s_id q0 = s_id q" using \<open>s_parent r = s_id q\<close> by simp
    then have "q0 = q"
      using inj_onD [OF ids(1)] descends_in [OF below(2)] descends_in [OF \<open>descends recs segs q\<close>] by blast
    then have "segs = segs0" using below(2) \<open>\<And>segs'. descends recs segs' q \<Longrightarrow> segs = segs'\<close> by blast
    then show ?thesis using below(1) by simp
  qed
qed

lemma valid_scope_name_iff:
  "valid_scope_name name \<longleftrightarrow> 1 \<le> length name \<and> length name \<le> 64 \<and>
     (\<forall>c \<in> set name. is_alnum c \<or> c \<in> {CHR ''.'', CHR ''_'', CHR ''-''})"
  by (cases name) (auto simp: valid_scope_name_def kMaxScopeNameLength_def list_all_iff)

lemma records_ok_ids:
  assumes "length recs < 2 ^ 64" and "i < length recs" and "s_id (recs ! i) = of_nat i + 1"
  shows "s_id (recs ! i) \<noteq> 0" and "unat (s_id (recs ! i)) = i + 1"
  using assms by (simp_all add: unat_word_ariths unat_of_nat succ_nonzero)

lemma tree_ids:
  "map s_id recs = map of_nat [1..<Suc (length recs)] \<longleftrightarrow>
     (\<forall>i < length recs. s_id (recs ! i) = of_nat i + 1)"
proof -
  have nth: "map of_nat [1..<Suc (length recs)] ! i = (of_nat i + 1 :: u64)" if "i < length recs" for i
    using that by (simp add: add.commute del: upt_Suc)
  have "map s_id recs ! i = s_id (recs ! i)" if "i < length recs" for i using that by simp
  then show ?thesis
    unfolding list_eq_iff_nth_eq using nth by (metis One_nat_def diff_Suc_1 length_map length_upt)
qed

lemma word_one_le_iff: "(1 :: u64) \<le> x \<longleftrightarrow> x \<noteq> 0"
  by (auto simp: word_le_nat_alt unat_gt_0 Suc_le_eq)

text \<open>Every record of an accepted list descends from the root, and its path and depth tell how.\<close>

lemma records_ok_fits:
  assumes ok: "records_ok recs" and small: "length recs < 2 ^ 64"
  shows "i < length recs \<Longrightarrow> scope_fits recs (recs ! i)"
proof (induction i rule: less_induct)
  case (less i)
  have check: "restore_check recs i (recs ! i)"
    using ok less.prems by (simp add: records_ok_def list_all_iff)
  have "\<exists>segs. descends recs segs (recs ! i) \<and> length segs \<le> 32 \<and> s_depth (recs ! i) = length segs \<and>
      s_path (recs ! i) = scope_path_text segs"
  proof (cases "i = 0")
    case True
    then show ?thesis
      using check less.prems descends.top [of "recs ! i" recs]
      by (intro exI [of _ "[]"]) (simp add: restore_check_def id_valid_def)
  next
    case False
    let ?j = "unat (s_parent (recs ! i) - 1)"
    note p = restore_check_parent [OF check False less.prems small]
    then have j: "?j < length recs" using less.prems by simp
    obtain segs where segs: "descends recs segs (recs ! ?j)" "s_depth (recs ! ?j) = length segs"
        "s_path (recs ! ?j) = scope_path_text segs"
      using less.IH [OF p(2) j] by (auto simp: scope_fits_def)
    have "restore_check recs ?j (recs ! ?j)" using ok j by (simp add: records_ok_def list_all_iff)
    then have id: "s_parent (recs ! i) = s_id (recs ! ?j)" by (simp add: restore_check_def)
    have "s_parent (recs ! i) < s_id (recs ! i)" using check False unfolding restore_check_def if_not_P [OF False] by blast
    then have "descends recs (segs @ [(s_kind (recs ! i), s_name (recs ! i))]) (recs ! i)"
      using less.prems id by (intro descends.below [OF segs(1)]) (simp_all only: nth_mem)
    then show ?thesis
      using check False segs
      by (intro exI [of _ "segs @ [(s_kind (recs ! i), s_name (recs ! i))]"])
        (simp add: restore_check_def kMaxScopeDepth_def child_path_def Let_def)
  qed
  then show ?case
    using check unfolding scope_fits_def
    by (simp add: restore_check_def id_valid_def kMaxScopePathLength_def valid_scope_name_iff word_one_le_iff)
qed

lemma records_ok_consistent:
  assumes ok: "records_ok recs" and small: "length recs < 2 ^ 64" and "recs \<noteq> []"
  shows "consistent_tree recs"
proof -
  obtain r rest where recs: "recs = r # rest" using \<open>recs \<noteq> []\<close> by (cases recs) auto
  have check: "i < length recs \<Longrightarrow> restore_check recs i (recs ! i)" for i
    using ok by (simp add: records_ok_def list_all_iff)
  have "s_parent (rest ! k) \<noteq> 0" if "k < length rest" for k
    using restore_check_parent(1) [OF check [of "Suc k"] _ _ small] that recs by simp
  then have "filter (\<lambda>r. s_parent r = 0) rest = []"
    by (auto simp: filter_empty_conv in_set_conv_nth)
  moreover have "s_parent r = 0" "s_kind r = SK_Global"
    using check [of 0] recs by (auto simp: restore_check_def id_valid_def)
  moreover have "\<forall>r \<in> set recs. scope_fits recs r"
    using records_ok_fits [OF ok small] by (auto simp: in_set_conv_nth)
  moreover have "\<forall>i < length recs. s_id (recs ! i) = of_nat i + 1"
    using check by (auto simp: restore_check_def)
  ultimately show ?thesis
    using ok \<open>recs \<noteq> []\<close> recs unfolding consistent_tree_def tree_ids by (simp add: records_ok_def)
qed

lemma consistent_records_ok:
  assumes tree: "consistent_tree recs" and small: "length recs < 2 ^ 64"
  shows "records_ok recs"
proof -
  have id: "i < length recs \<Longrightarrow> s_id (recs ! i) = of_nat i + 1" for i
    using tree unfolding consistent_tree_def tree_ids by blast
  have nat: "i < length recs \<Longrightarrow> unat (s_id (recs ! i)) = i + 1" for i
    using records_ok_ids(2) [OF small _ id] by blast
  have inj: "inj_on s_id (set recs)"
  proof (rule inj_onI)
    fix x y assume "x \<in> set recs" "y \<in> set recs" "s_id x = s_id y"
    then obtain i j where ij: "i < length recs" "x = recs ! i" "j < length recs" "y = recs ! j"
      by (auto simp: in_set_conv_nth)
    then have "i + 1 = j + 1" using nat [OF ij(1)] nat [OF ij(3)] \<open>s_id x = s_id y\<close> by metis
    then show "x = y" using ij by simp
  qed
  have nonzero: "\<forall>r \<in> set recs. s_id r \<noteq> 0"
    using records_ok_ids(1) [OF small _ id] by (auto simp: in_set_conv_nth)
  have only: "filter (\<lambda>r. s_parent r = 0) recs = [hd recs]" and "recs \<noteq> []"
    using tree unfolding consistent_tree_def by blast+
  then have "hd recs \<in> set (filter (\<lambda>r. s_parent r = 0) recs)" by simp
  then have "s_parent (hd recs) = 0" by (simp only: set_filter mem_Collect_eq)
  then have root: "s_parent (recs ! 0) = 0" "s_kind (recs ! 0) = SK_Global" "recs \<noteq> []"
    using tree \<open>recs \<noteq> []\<close> unfolding consistent_tree_def by (simp_all add: hd_conv_nth)
  have fits: "i < length recs \<Longrightarrow> scope_fits recs (recs ! i)" for i
    using tree by (simp add: consistent_tree_def)
  have other: "s_parent (recs ! i) \<noteq> 0" if "i \<noteq> 0" "i < length recs" for i
  proof
    assume "s_parent (recs ! i) = 0"
    then have "recs ! i \<in> set (filter (\<lambda>r. s_parent r = 0) recs)" using that by simp
    then have "recs ! i = recs ! 0" unfolding only using root(3) by (simp add: hd_conv_nth)
    then show False using nat [of i] nat [of 0] that root(3) by simp
  qed
  have "restore_check recs i (recs ! i)" if i: "i < length recs" for i
  proof -
    obtain segs where segs: "descends recs segs (recs ! i)" "length segs \<le> 32"
        "s_depth (recs ! i) = length segs" "s_path (recs ! i) = scope_path_text segs"
      using fits [OF i] by (auto simp: scope_fits_def)
    have plain: "id_valid (s_generation (recs ! i))" "length (s_path (recs ! i)) \<le> kMaxScopePathLength"
        "valid_scope_name (s_name (recs ! i))" "s_path (recs ! i) \<noteq> []"
      using fits [OF i] segs(4) unfolding scope_fits_def valid_scope_name_iff word_one_le_iff
      by (simp_all add: id_valid_def kMaxScopePathLength_def scope_path_text_def)
    from segs(1) show ?thesis
    proof (cases rule: descends.cases)
      case top
      then show ?thesis
        using plain root other i id [OF i] segs by (auto simp: restore_check_def id_valid_def)
    next
      case (below segs0 q)
      then obtain j where j: "j < length recs" "q = recs ! j"
        using descends_in by (metis in_set_conv_nth)
      have "segs0 = segs1" if "descends recs segs1 q" for segs1
        using descends_unique [OF below(2) that inj nonzero] .
      then have q: "s_depth q = length segs0" "s_path q = scope_path_text segs0"
        using fits [OF j(1)] j(2) unfolding scope_fits_def by auto
      have "s_parent (recs ! i) = of_nat j + 1" using below(4) id [OF j(1)] j(2) by simp
      then have pos: "unat (s_parent (recs ! i) - 1) = j" "unat (s_parent (recs ! i)) = j + 1"
        using nat [OF j(1)] id [OF j(1)] j(1) small by (simp_all add: unat_of_nat)
      have "i \<noteq> 0"
      proof
        assume "i = 0"
        then have "s_id (recs ! j) = 0" using root(1) below(4) j(2) by simp
        then show False using records_ok_ids(1) [OF small j(1) id [OF j(1)]] by simp
      qed
      then show ?thesis
        using plain below(1,4,5) q pos j segs id [OF i] other [OF _ i]
        by (simp add: restore_check_def id_valid_def Let_def kMaxScopeDepth_def child_path_def)
    qed
  qed
  then show ?thesis using tree by (simp add: records_ok_def list_all_iff consistent_tree_def)
qed

section \<open>Properties\<close>

text \<open>A registry with two scopes, for the examples.\<close>

definition sample_scopes :: scope_registry where
  "sample_scopes = snd (snd (add_child 1 SK_Region ''eu'' empty_scopes))"

lemma sr_wf_sample: "sr_wf sample_scopes"
  unfolding sample_scopes_def using sr_wf_empty [of 4096]
  by (intro sr_wf_add_child) (simp add: empty_scopes_def)

lemma sample_scopes_records:
  "map s_path (sr_records sample_scopes) = [''global'', ''global/region:eu'']"
  "sr_max sample_scopes = 4096"
  by code_simp+

text \<open>
  C17 Recovery of the scope tree is exact. Restoring the records of a well-formed registry
  rebuilds that registry, children and path index included; and restoring any record list
  succeeds exactly when it is rooted at identity 1, within the bound of the registry, and a
  consistent tree: identities count from one, paths are distinct, the first record is the one
  root and global, every other record descends from it through earlier parents to a depth of at
  most 32, with its depth the length and its path the text of that descent, a valid name, a path
  of at most 1024 characters and a generation from 1. (A record below the root may itself be of
  kind global, which \<open>add_child\<close> refuses and restoring does not.)
\<close>

theorem restore_scopes_exact:
  assumes "sr_wf sr" and "sr_records sr \<noteq> []" and "sr_max base = sr_max sr"
  shows "restore_scopes (sr_records sr) (sr_root sr) base = Some sr \<and>
    (\<forall>recs root. restore_scopes recs root base \<noteq> None \<longleftrightarrow>
      root = 1 \<and> length recs \<le> sr_max base \<and> consistent_tree recs)"
proof -
  have bound: "sr_max base < 2 ^ 64" using assms(1,3) by (simp add: sr_wf_def)
  have "root = 1 \<and> length recs \<le> sr_max base \<and> consistent_tree recs"
    if accepted: "restore_scopes recs root base \<noteq> None" for recs root
  proof -
    have "recs \<noteq> [] \<and> root = 1 \<and> length recs \<le> sr_max base \<and> records_ok recs"
      using restore_scopes_wf [OF _ bound, of recs root] accepted by (fastforce simp: sr_wf_def)
    then show ?thesis using records_ok_consistent [of recs] bound by simp
  qed
  moreover have "restore_scopes recs 1 base \<noteq> None"
    if "length recs \<le> sr_max base" and "consistent_tree recs" for recs
  proof (rule restore_scopes_accepts)
    show "records_ok recs" using consistent_records_ok [OF that(2)] that(1) bound by simp
    show "recs \<noteq> []" using that(2) by (simp add: consistent_tree_def)
  qed (rule that(1))
  ultimately show ?thesis using restore_scopes_round_trip [OF assms] by blast
qed

lemma restore_scopes_exact_witness:
  "restore_scopes (sr_records sample_scopes) (sr_root sample_scopes) empty_scopes = Some sample_scopes \<and>
   (\<forall>recs root. restore_scopes recs root empty_scopes \<noteq> None \<longleftrightarrow>
      root = 1 \<and> length recs \<le> sr_max empty_scopes \<and> consistent_tree recs)"
proof (rule restore_scopes_exact [OF sr_wf_sample])
  show "sr_records sample_scopes \<noteq> []" and "sr_max empty_scopes = sr_max sample_scopes"
    using sample_scopes_records by (auto simp: empty_scopes_def)
qed

text \<open>
  Every operation that changes the scope tree keeps it well formed: identities stay
  1-based positions, parents precede their children, depths and paths follow the parent,
  paths are unique, and the children lists and the path index agree with the records.
\<close>

theorem scope_operations_keep_tree:
  assumes "sr_wf sr"
  shows "sr_wf (snd (snd (ensure_path path sr))) \<and> sr_wf (snd (snd (add_child parent kind name sr))) \<and>
    sr_wf (touch i sr) \<and> sr_wf (ensure_root sr)"
  using sr_wf_ensure_path [OF assms] sr_wf_add_child [OF assms] sr_wf_touch [OF assms]
    sr_wf_ensure_root [OF assms] by blast

lemma scope_operations_keep_tree_witness:
  "sr_wf (snd (snd (ensure_path ''global/region:us/cluster:c1'' sample_scopes))) \<and>
   sr_wf (snd (snd (add_child 2 SK_Cluster ''c1'' sample_scopes))) \<and>
   sr_wf (touch 2 sample_scopes) \<and> sr_wf (ensure_root sample_scopes)"
  by (rule scope_operations_keep_tree [OF sr_wf_sample])

text \<open>
  In a well-formed tree \<open>is_ancestor_or_self\<close> answers exactly whether the first scope is
  on the root-first chain of the second, so the guard of its loop never stops a search that
  would have succeeded; and the chain of a registered scope runs from the root to it.
\<close>

theorem ancestor_is_on_chain:
  assumes "sr_wf sr" and "sr_find sr i = Some r"
  shows "(is_ancestor_or_self sr a i \<longleftrightarrow> a \<in> set (chain sr i)) \<and>
    chain sr i = (if i = 1 then [1] else chain sr (s_parent r) @ [i])"
proof (cases "a = 0")
  case True
  then show ?thesis
    using chain_nonzero [OF assms(1), of i] chain_complete [OF assms]
    by (auto simp: is_ancestor_or_self_def)
next
  case False
  show ?thesis
    using ancestor_iff_chain [OF assms(1) False] chain_complete [OF assms] by auto
qed

lemma ancestor_is_on_chain_witness:
  "(is_ancestor_or_self sample_scopes 1 2 \<longleftrightarrow> 1 \<in> set (chain sample_scopes 2)) \<and>
   chain sample_scopes 2 =
     (if (2::u64) = 1 then [1] else chain sample_scopes (s_parent (sr_records sample_scopes ! 1)) @ [2])"
proof (rule ancestor_is_on_chain [OF sr_wf_sample])
  show "sr_find sample_scopes 2 = Some (sr_records sample_scopes ! 1)" by code_simp
qed

end
