(* ===== verification/Mlf_Authority.thy ===== *)
theory Mlf_Authority
  imports Mlf_Scope Mlf_Lifecycle
begin

text \<open>
  The authority table of include/mlf/authority.hpp and src/authority.cpp: which model
  generation holds a scope, exclusively or beside another. The table keeps superseded
  bindings as history; the invariant \<open>at_wf\<close> says that every binding is filed under its
  own scope with valid identities and that no scope has two live exclusive bindings.
\<close>

section \<open>Bindings\<close>

datatype authority_kind = AK_Exclusive | AK_Canary | AK_SplitTraffic | AK_RollbackRetained | AK_Draining

primrec to_string_authority_kind :: "authority_kind \<Rightarrow> string" where
  "to_string_authority_kind AK_Exclusive = ''EXCLUSIVE''"
| "to_string_authority_kind AK_Canary = ''CANARY''"
| "to_string_authority_kind AK_SplitTraffic = ''SPLIT_TRAFFIC''"
| "to_string_authority_kind AK_RollbackRetained = ''ROLLBACK_RETAINED''"
| "to_string_authority_kind AK_Draining = ''DRAINING''"

record authority_binding =
  b_scope :: u64
  b_scope_generation :: u64
  b_model :: u64
  b_version :: u64
  b_model_generation :: u64
  b_artifact_set :: u64
  b_artifact_generation :: u64
  b_lifecycle_state :: lifecycle_state
  b_kind :: authority_kind
  b_rollout :: u64
  b_rollout_generation :: u64
  b_stage :: u64
  b_stage_generation :: u64
  b_promotion :: u64
  b_promotion_generation :: u64
  b_rollback :: u64
  b_rollback_generation :: u64
  b_epoch :: u64
  b_evidence_generation :: u64
  b_granted_sequence :: u64
  b_superseded :: bool

definition empty_binding :: authority_binding where
  "empty_binding = \<lparr>b_scope = 0, b_scope_generation = 0, b_model = 0, b_version = 0,
     b_model_generation = 0, b_artifact_set = 0, b_artifact_generation = 0,
     b_lifecycle_state = LS_REGISTERED, b_kind = AK_Exclusive, b_rollout = 0,
     b_rollout_generation = 0, b_stage = 0, b_stage_generation = 0, b_promotion = 0,
     b_promotion_generation = 0, b_rollback = 0, b_rollback_generation = 0, b_epoch = 0,
     b_evidence_generation = 0, b_granted_sequence = 0, b_superseded = False\<rparr>"

definition same_generation_as :: "authority_binding \<Rightarrow> authority_binding \<Rightarrow> bool" where
  "same_generation_as a b \<longleftrightarrow> b_model a = b_model b \<and> b_version a = b_version b \<and>
     b_model_generation a = b_model_generation b"

section \<open>The table\<close>

record authority_table =
  at_bindings :: "(u64, authority_binding list) omap"
  at_max :: nat

definition at_size :: "authority_table \<Rightarrow> nat" where
  "at_size t = sum_list (map (\<lambda>e. length (snd e)) (at_bindings t))"

definition live_count :: "authority_table \<Rightarrow> nat" where
  "live_count t = sum_list (map (\<lambda>e. length (filter (\<lambda>b. \<not> b_superseded b) (snd e))) (at_bindings t))"

definition live_exclusive :: "authority_binding \<Rightarrow> bool" where
  "live_exclusive b \<longleftrightarrow> \<not> b_superseded b \<and> b_kind b = AK_Exclusive"

definition has_conflict :: "authority_table \<Rightarrow> bool" where
  "has_conflict t \<longleftrightarrow> list_ex (\<lambda>e. 1 < length (filter live_exclusive (snd e))) (at_bindings t)"

definition bindings_for :: "authority_table \<Rightarrow> u64 \<Rightarrow> authority_binding list" where
  "bindings_for t scope = (case map_of (at_bindings t) scope of None \<Rightarrow> [] | Some bs \<Rightarrow> bs)"

definition live_bindings_for :: "authority_table \<Rightarrow> u64 \<Rightarrow> authority_binding list" where
  "live_bindings_for t scope = filter (\<lambda>b. \<not> b_superseded b) (bindings_for t scope)"

definition bindings_for_version :: "authority_table \<Rightarrow> u64 \<Rightarrow> u64 \<Rightarrow> authority_binding list" where
  "bindings_for_version t model version =
     concat (map (\<lambda>e. filter (\<lambda>b. b_model b = model \<and> b_version b = version) (snd e)) (at_bindings t))"

definition subtree_bindings :: "authority_table \<Rightarrow> scope_registry \<Rightarrow> u64 \<Rightarrow> authority_binding list" where
  "subtree_bindings t scopes root =
     concat (map (\<lambda>e. if is_ancestor_or_self scopes root (fst e)
                      then filter (\<lambda>b. \<not> b_superseded b) (snd e) else []) (at_bindings t))"

text \<open>The loop of \<open>grant\<close> over the bindings already filed for the scope.\<close>

fun grant_conflict :: "authority_binding \<Rightarrow> bool \<Rightarrow> authority_binding list \<Rightarrow> decision option" where
  "grant_conflict binding allow_coexistence [] = None"
| "grant_conflict binding allow_coexistence (current # rest) =
     (if b_superseded current then grant_conflict binding allow_coexistence rest
      else if b_kind binding = AK_Exclusive \<and> b_kind current = AK_Exclusive then
        Some (refuse OC_CONFLICT (Pol PolicyDeniesCoexistence)
          ''scope already holds exclusive authority for another generation'')
      else if b_kind binding \<noteq> AK_Exclusive \<and> b_kind binding \<noteq> AK_RollbackRetained \<and>
          \<not> allow_coexistence then
        Some (refuse OC_CONFLICT (Pol PolicyDeniesCoexistence)
          ''policy does not permit coexistence in this scope'')
      else grant_conflict binding allow_coexistence rest)"

definition push_binding :: "authority_binding \<Rightarrow> authority_table \<Rightarrow> authority_table" where
  "push_binding b t =
     t\<lparr>at_bindings := om_put (b_scope b) (bindings_for t (b_scope b) @ [b]) (at_bindings t)\<rparr>"

definition grant :: "authority_binding \<Rightarrow> bool \<Rightarrow> authority_table \<Rightarrow> decision \<times> authority_table" where
  "grant binding allow_coexistence t =
     (if \<not> id_valid (b_scope binding) then
        (refuse OC_Rejected (Reg UnknownScope) ''authority binding has no scope'', t)
      else if \<not> id_valid (b_version binding) \<or> \<not> id_valid (b_model binding) then
        (refuse OC_Rejected (Reg UnknownVersion) ''authority binding has no model version'', t)
      else if \<not> id_valid (b_model_generation binding) then
        (refuse OC_Rejected (Ord ModelGenerationMismatch)
           ''authority binding has no model generation'', t)
      else if \<not> id_valid (b_scope_generation binding) then
        (refuse OC_Rejected (Ord ScopeGenerationMismatch)
           ''authority binding has no scope generation'', t)
      else case map_of (at_bindings t) (b_scope binding) of
          Some current \<Rightarrow>
            (case grant_conflict binding allow_coexistence current of
               Some refusal \<Rightarrow> (refusal, t)
             | None \<Rightarrow> (new_decision OC_Accepted, push_binding binding t))
        | None \<Rightarrow>
            if at_max t \<le> at_size t then
              (refuse OC_BOUNDS_EXCEEDED (Bnd BoundsHistoryCount) ''authority binding bound reached'', t)
            else (new_decision OC_Accepted, push_binding binding t))"

text \<open>The loop of \<open>replace_exclusive\<close>: supersede the first live exclusive binding and stop.\<close>

fun supersede_first_exclusive ::
  "authority_binding list \<Rightarrow> authority_binding list \<times> authority_binding option" where
  "supersede_first_exclusive [] = ([], None)"
| "supersede_first_exclusive (current # rest) =
     (if b_superseded current \<or> b_kind current \<noteq> AK_Exclusive then
        (case supersede_first_exclusive rest of (rest', found) \<Rightarrow> (current # rest', found))
      else let current' = current\<lparr>b_superseded := True\<rparr> in (current' # rest, Some current'))"

definition replace_exclusive ::
  "authority_binding \<Rightarrow> authority_table \<Rightarrow> decision \<times> authority_binding \<times> authority_table" where
  "replace_exclusive binding t =
     (let replacement = binding\<lparr>b_kind := AK_Exclusive\<rparr> in
      case grant replacement True t of (d, t') \<Rightarrow>
        if \<not> allowed d then
          (if has_reason d (Pol PolicyDeniesCoexistence) then
             (case map_of (at_bindings t') (b_scope replacement) of
                None \<Rightarrow> (new_decision OC_Accepted, empty_binding, push_binding replacement t')
              | Some current \<Rightarrow>
                  (case supersede_first_exclusive current of (current', found) \<Rightarrow>
                     (new_decision OC_Accepted,
                      case found of None \<Rightarrow> empty_binding | Some b \<Rightarrow> b,
                      push_binding replacement
                        (t'\<lparr>at_bindings := om_put (b_scope replacement) current' (at_bindings t')\<rparr>))))
           else (d, empty_binding, t'))
        else (d, empty_binding, t'))"

definition supersede :: "authority_binding \<Rightarrow> authority_binding" where
  "supersede b = b\<lparr>b_superseded := True\<rparr>"

text \<open>The three marking loops: how many bindings changed, and the table.\<close>

definition count_live :: "(authority_binding \<Rightarrow> bool) \<Rightarrow> authority_binding list \<Rightarrow> nat" where
  "count_live P bs = length (filter (\<lambda>b. \<not> b_superseded b \<and> P b) bs)"

definition mark_live ::
  "(authority_binding \<Rightarrow> bool) \<Rightarrow> (authority_binding \<Rightarrow> authority_binding) \<Rightarrow>
     authority_binding list \<Rightarrow> authority_binding list" where
  "mark_live P f bs = map (\<lambda>b. if \<not> b_superseded b \<and> P b then f b else b) bs"

definition supersede_scope :: "u64 \<Rightarrow> authority_table \<Rightarrow> nat \<times> authority_table" where
  "supersede_scope scope t =
     (case map_of (at_bindings t) scope of
        None \<Rightarrow> (0, t)
      | Some bs \<Rightarrow> (count_live (\<lambda>b. True) bs,
          t\<lparr>at_bindings := om_put scope (mark_live (\<lambda>b. True) supersede bs) (at_bindings t)\<rparr>))"

definition supersede_rollout :: "u64 \<Rightarrow> u64 \<Rightarrow> authority_table \<Rightarrow> nat \<times> authority_table" where
  "supersede_rollout rollout generation t =
     (let P = (\<lambda>b. b_rollout b = rollout \<and> b_rollout_generation b = generation) in
      (sum_list (map (\<lambda>e. count_live P (snd e)) (at_bindings t)),
       t\<lparr>at_bindings := om_map (mark_live P supersede) (at_bindings t)\<rparr>))"

definition mark_draining :: "u64 \<Rightarrow> u64 \<Rightarrow> u64 \<Rightarrow> authority_table \<Rightarrow> nat \<times> authority_table" where
  "mark_draining model version scope t =
     (let P = (\<lambda>b. b_model b = model \<and> b_version b = version \<and>
                   b_kind b \<noteq> AK_Draining \<and> b_kind b \<noteq> AK_RollbackRetained) in
      case map_of (at_bindings t) scope of
        None \<Rightarrow> (0, t)
      | Some bs \<Rightarrow> (count_live P bs,
          t\<lparr>at_bindings :=
             om_put scope (mark_live P (\<lambda>b. b\<lparr>b_kind := AK_Draining\<rparr>) bs) (at_bindings t)\<rparr>))"

definition restore_binding_ok :: "u64 \<Rightarrow> authority_binding \<Rightarrow> bool" where
  "restore_binding_ok key b \<longleftrightarrow>
     b_scope b = key \<and> id_valid (b_scope b) \<and> id_valid (b_model b) \<and> id_valid (b_version b) \<and>
     id_valid (b_model_generation b) \<and> id_valid (b_scope_generation b) \<and> \<not> b_superseded b"

definition restore_authority ::
  "(u64, authority_binding list) omap \<Rightarrow> authority_table \<Rightarrow> authority_table option" where
  "restore_authority bindings t =
     (if list_all (\<lambda>e. fst e \<noteq> 0 \<and> list_all (restore_binding_ok (fst e)) (snd e) \<and>
            length (filter (\<lambda>b. b_kind b = AK_Exclusive) (snd e)) \<le> 1) bindings \<and>
         sum_list (map (\<lambda>e. length (snd e)) bindings) \<le> at_max t
      then Some (t\<lparr>at_bindings := bindings\<rparr>) else None)"

section \<open>The invariant\<close>

definition binding_ok :: "u64 \<Rightarrow> authority_binding \<Rightarrow> bool" where
  "binding_ok key b \<longleftrightarrow>
     b_scope b = key \<and> id_valid (b_scope b) \<and> id_valid (b_model b) \<and> id_valid (b_version b) \<and>
     id_valid (b_model_generation b) \<and> id_valid (b_scope_generation b)"

definition scope_ok :: "u64 \<Rightarrow> authority_binding list \<Rightarrow> bool" where
  "scope_ok key bs \<longleftrightarrow> key \<noteq> 0 \<and> list_all (binding_ok key) bs \<and> length (filter live_exclusive bs) \<le> 1"

definition at_wf :: "authority_table \<Rightarrow> bool" where
  "at_wf t \<longleftrightarrow> om_wf (at_bindings t) \<and> list_all (\<lambda>e. scope_ok (fst e) (snd e)) (at_bindings t)"

lemma bindings_ok: "at_wf t \<Longrightarrow> scope \<noteq> 0 \<Longrightarrow> scope_ok scope (bindings_for t scope)"
  by (auto simp: at_wf_def bindings_for_def list_all_iff scope_ok_def split: option.splits
      dest!: map_of_SomeD)

lemma at_wf_put: "at_wf t \<Longrightarrow> scope_ok k bs \<Longrightarrow> at_wf (t\<lparr>at_bindings := om_put k bs (at_bindings t)\<rparr>)"
  using om.put_keeps_all [of "at_bindings t" scope_ok k bs] by (simp add: at_wf_def list_all_iff)

lemma at_wf_max [simp]: "at_wf (t\<lparr>at_max := n\<rparr>) = at_wf t"
  by (simp add: at_wf_def)

lemma at_wf_empty: "at_wf \<lparr>at_bindings = [], at_max = n\<rparr>"
  by (simp add: at_wf_def)

lemma at_wf_lookup: "at_wf t \<Longrightarrow> map_of (at_bindings t) s = Some bs \<Longrightarrow> scope_ok s bs"
  unfolding at_wf_def list_all_iff using map_of_SomeD [of "at_bindings t" s bs] by fastforce

lemma bindings_for_put [simp]:
  "bindings_for (t\<lparr>at_bindings := om_put k bs (at_bindings t)\<rparr>) s = (if s = k then bs else bindings_for t s)"
  by (simp add: bindings_for_def)

lemma bindings_for_push [simp]:
  "bindings_for (push_binding b t) s = (if s = b_scope b then bindings_for t s @ [b] else bindings_for t s)"
  by (simp add: push_binding_def)

lemma bindings_for_map:
  "f [] = [] \<Longrightarrow>
   bindings_for (t\<lparr>at_bindings := om_map f (at_bindings t)\<rparr>) s = f (bindings_for t s)"
  by (auto simp: bindings_for_def split: option.splits)

text \<open>No conflict is found exactly when the kinds are compatible.\<close>

lemma grant_conflict_None:
  "grant_conflict b allow bs = None \<longleftrightarrow>
     (\<forall>c \<in> set bs. b_superseded c \<or>
        (if b_kind b = AK_Exclusive then b_kind c \<noteq> AK_Exclusive
         else b_kind b = AK_RollbackRetained \<or> allow))"
  by (induction bs) auto

lemma grant_conflict_Some:
  assumes "grant_conflict b allow bs = Some d"
  shows "\<not> allowed d" and "has_reason d (Pol PolicyDeniesCoexistence)"
    and "\<exists>c \<in> set bs. \<not> b_superseded c \<and>
      (if b_kind b = AK_Exclusive then b_kind c = AK_Exclusive
       else b_kind b \<noteq> AK_RollbackRetained \<and> \<not> allow)"
  using assms by (induction bs) (auto split: if_splits)

text \<open>The exact condition under which a grant is accepted, and what it does.\<close>

definition grantable :: "authority_binding \<Rightarrow> bool \<Rightarrow> authority_table \<Rightarrow> bool" where
  "grantable b allow t \<longleftrightarrow>
     binding_ok (b_scope b) b \<and>
     (if map_of (at_bindings t) (b_scope b) = None then at_size t < at_max t
      else \<forall>c \<in> set (live_bindings_for t (b_scope b)).
        (if b_kind b = AK_Exclusive then b_kind c \<noteq> AK_Exclusive
         else b_kind b = AK_RollbackRetained \<or> allow))"

lemma grant_cases:
  "grant b allow t =
     (if grantable b allow t then (new_decision OC_Accepted, push_binding b t)
      else (fst (grant b allow t), t))"
  "allowed (fst (grant b allow t)) \<longleftrightarrow> grantable b allow t"
  by (auto simp: grant_def grantable_def binding_ok_def live_bindings_for_def bindings_for_def
      grant_conflict_None split: option.splits if_splits dest: grant_conflict_Some)

lemma scope_ok_snoc:
  "scope_ok k bs \<Longrightarrow> binding_ok k b \<Longrightarrow>
   (live_exclusive b \<Longrightarrow> filter live_exclusive bs = []) \<Longrightarrow> scope_ok k (bs @ [b])"
  by (auto simp: scope_ok_def)

lemma at_wf_push:
  assumes "at_wf t" and "binding_ok (b_scope b) b"
    and "live_exclusive b \<Longrightarrow> filter live_exclusive (bindings_for t (b_scope b)) = []"
  shows "at_wf (push_binding b t)"
  using assms bindings_ok [OF assms(1), of "b_scope b"] unfolding push_binding_def
  by (intro at_wf_put scope_ok_snoc) (auto simp: binding_ok_def id_valid_def)

lemma at_wf_grant: "at_wf t \<Longrightarrow> at_wf (snd (grant b allow t))"
proof (cases "grantable b allow t")
  case True
  assume wf: "at_wf t"
  have "at_wf (push_binding b t)"
  proof (rule at_wf_push [OF wf])
    show "binding_ok (b_scope b) b" using True by (simp add: grantable_def)
    show "live_exclusive b \<Longrightarrow> filter live_exclusive (bindings_for t (b_scope b)) = []"
      using True by (auto simp: grantable_def live_exclusive_def live_bindings_for_def bindings_for_def
          filter_empty_conv split: option.splits if_splits)
  qed
  then show ?thesis using True by (subst grant_cases) simp
next
  case False
  assume "at_wf t"
  then show ?thesis using False by (subst grant_cases) simp
qed

lemma mark_live_length [simp]: "length (mark_live P f bs) = length bs"
  by (simp add: mark_live_def)

lemma scope_ok_mark:
  assumes "scope_ok k bs" and "\<And>b. binding_ok k b \<Longrightarrow> binding_ok k (f b)"
    and "\<And>b. \<not> live_exclusive (f b)"
  shows "scope_ok k (mark_live P f bs)"
proof -
  have "length (filter live_exclusive (mark_live P f bs)) \<le> length (filter live_exclusive bs)"
    using assms(3) by (induction bs) (auto simp: mark_live_def)
  then show ?thesis
    using assms by (auto simp: scope_ok_def list_all_iff mark_live_def)
qed

lemma scope_ok_supersede: "scope_ok k bs \<Longrightarrow> scope_ok k (mark_live P supersede bs)"
  by (rule scope_ok_mark) (auto simp: binding_ok_def supersede_def live_exclusive_def)

lemma at_wf_supersede_scope: "at_wf t \<Longrightarrow> at_wf (snd (supersede_scope s t))"
  by (cases "map_of (at_bindings t) s")
     (auto simp: supersede_scope_def intro!: at_wf_put scope_ok_supersede dest: at_wf_lookup)

lemma om_map_all: "list_all (\<lambda>e. P (fst e) (snd e)) m \<Longrightarrow> (\<And>k v. P k v \<Longrightarrow> P k (f v)) \<Longrightarrow>
    list_all (\<lambda>e. P (fst e) (snd e)) (om_map f m)"
  by (induction m) (auto simp: om_map_def)

lemma at_wf_supersede_rollout: "at_wf t \<Longrightarrow> at_wf (snd (supersede_rollout r g t))"
  by (auto simp: supersede_rollout_def at_wf_def Let_def intro!: om_map_all scope_ok_supersede)

lemma at_wf_mark_draining: "at_wf t \<Longrightarrow> at_wf (snd (mark_draining m v s t))"
  by (cases "map_of (at_bindings t) s")
     (auto simp: mark_draining_def Let_def binding_ok_def live_exclusive_def
        intro!: at_wf_put scope_ok_mark dest: at_wf_lookup)

lemma supersede_first_exclusive_spec:
  "supersede_first_exclusive bs = (bs', found) \<Longrightarrow>
   (list_all (binding_ok k) bs \<longrightarrow> list_all (binding_ok k) bs') \<and>
   length (filter live_exclusive bs') = length (filter live_exclusive bs) - 1"
  by (induction bs arbitrary: bs' found)
     (auto simp: live_exclusive_def binding_ok_def Let_def split: prod.splits if_splits)

lemma at_wf_replace_exclusive: "at_wf t \<Longrightarrow> at_wf (snd (snd (replace_exclusive b t)))"
proof -
  assume wf: "at_wf t"
  let ?r = "b\<lparr>b_kind := AK_Exclusive\<rparr>"
  have refused: "grant ?r True t = (fst (grant ?r True t), t)" if "\<not> allowed (fst (grant ?r True t))"
    using that grant_cases [of ?r True t] by (auto split: if_splits)
  show ?thesis
  proof (cases "allowed (fst (grant ?r True t)) \<or> \<not> has_reason (fst (grant ?r True t)) (Pol PolicyDeniesCoexistence)")
    case True
    then show ?thesis
      using at_wf_grant [OF wf, of ?r True] by (auto simp: replace_exclusive_def Let_def split: prod.splits)
  next
    case False
    have ok: "binding_ok (b_scope b) ?r" and some: "map_of (at_bindings t) (b_scope b) \<noteq> None"
      using False by (auto simp: grant_def binding_ok_def split: if_splits option.splits)
    then obtain bs where bs: "map_of (at_bindings t) (b_scope b) = Some bs" by auto
    obtain bs' found where split: "supersede_first_exclusive bs = (bs', found)" by fastforce
    have prior: "scope_ok (b_scope b) bs" using at_wf_lookup [OF wf bs] .
    have "scope_ok (b_scope b) bs'" and none: "filter live_exclusive bs' = []"
      using supersede_first_exclusive_spec [OF split, of "b_scope b"] prior
      by (auto simp: scope_ok_def simp flip: length_0_conv)
    then have "at_wf (push_binding ?r (t\<lparr>at_bindings := om_put (b_scope b) bs' (at_bindings t)\<rparr>))"
      using ok wf by (intro at_wf_push at_wf_put) auto
    then show ?thesis
      using False refused bs split
      by (cases "grant ?r True t") (simp add: replace_exclusive_def Let_def)
  qed
qed

text \<open>Recovery: whatever is accepted satisfies the invariant, and nothing else changes.\<close>

lemma restore_authority_wf:
  assumes "restore_authority bindings t = Some t'" and "om_wf bindings"
  shows "at_wf t'"
proof -
  have "scope_ok k bs"
    if "k \<noteq> 0" "list_all (restore_binding_ok k) bs" "length (filter (\<lambda>b. b_kind b = AK_Exclusive) bs) \<le> 1"
    for k bs
  proof -
    have "filter live_exclusive bs = filter (\<lambda>b. b_kind b = AK_Exclusive) bs"
      using that(2) by (intro filter_cong) (auto simp: list_all_iff restore_binding_ok_def live_exclusive_def)
    then show ?thesis
      using that by (simp add: scope_ok_def list_all_iff restore_binding_ok_def binding_ok_def id_valid_def)
  qed
  note ok = this
  have "list_all (\<lambda>e. fst e \<noteq> 0 \<and> list_all (restore_binding_ok (fst e)) (snd e) \<and>
      length (filter (\<lambda>b. b_kind b = AK_Exclusive) (snd e)) \<le> 1) bindings"
    using assms(1) by (simp add: restore_authority_def split: if_splits)
  then have "list_all (\<lambda>e. scope_ok (fst e) (snd e)) bindings"
    by (rule list.pred_mono_strong) (blast intro: ok)
  then show ?thesis
    using assms by (simp add: restore_authority_def at_wf_def split: if_splits) auto
qed

text \<open>The invariant rules conflicts out.\<close>

lemma at_wf_no_conflict: "at_wf t \<Longrightarrow> \<not> has_conflict t"
  by (auto simp: at_wf_def has_conflict_def list_ex_iff list_all_iff scope_ok_def)

section \<open>Properties\<close>

definition sample_binding :: authority_binding where
  "sample_binding = empty_binding\<lparr>b_scope := 1, b_scope_generation := 1, b_model := 1, b_version := 1,
     b_model_generation := 1, b_granted_sequence := 1\<rparr>"

definition sample_authority :: authority_table where
  "sample_authority = snd (grant sample_binding True \<lparr>at_bindings = [], at_max = 8\<rparr>)"

text \<open>
  C18 No operation of the authority table breaks its invariant: starting from a well-formed
  table, granting, replacing, superseding and draining leave every binding filed under its
  own scope with valid identities and no scope with two live exclusive bindings.
\<close>

theorem authority_operations_keep_exclusive:
  assumes "at_wf t"
  shows "t' \<in> {snd (grant b allow t), snd (snd (replace_exclusive b t)), snd (supersede_scope s t),
      snd (supersede_rollout r g t), snd (mark_draining m v s t)} \<Longrightarrow> at_wf t' \<and> \<not> has_conflict t'"
  using at_wf_grant [OF assms] at_wf_replace_exclusive [OF assms] at_wf_supersede_scope [OF assms]
    at_wf_supersede_rollout [OF assms] at_wf_mark_draining [OF assms] at_wf_no_conflict by auto

lemma authority_operations_keep_exclusive_witness:
  "at_wf (snd (grant (sample_binding\<lparr>b_version := 2\<rparr>) True sample_authority)) \<and>
   \<not> has_conflict (snd (grant (sample_binding\<lparr>b_version := 2\<rparr>) True sample_authority))"
proof (rule authority_operations_keep_exclusive)
  show "at_wf sample_authority"
    unfolding sample_authority_def by (rule at_wf_grant [OF at_wf_empty])
qed blast

end
