(* ===== verification/Mlf_Artifact.thy ===== *)
theory Mlf_Artifact
  imports Mlf_Status
begin

text \<open>
  Artifact identity of include/mlf/artifact.hpp and src/artifact.cpp: descriptors and
  bindings, the shape check of digests, and SHA-256 over a byte stream with its buffering
  and padding. Also the provenance classification of include/mlf/provenance.hpp.
\<close>

unbundle bit_operations_syntax

section \<open>Provenance, descriptors and bindings\<close>

datatype provenance = PV_Unknown | PV_Real | PV_Synthetic | PV_Unsupported

primrec to_string_provenance :: "provenance \<Rightarrow> string" where
  "to_string_provenance PV_Unknown = ''UNKNOWN''"
| "to_string_provenance PV_Real = ''REAL''"
| "to_string_provenance PV_Synthetic = ''SYNTHETIC''"
| "to_string_provenance PV_Unsupported = ''UNSUPPORTED''"

definition is_claim_of_physical_reality :: "provenance \<Rightarrow> bool" where
  "is_claim_of_physical_reality p \<longleftrightarrow> p = PV_Real"

record artifact_descriptor =
  ad_set_id :: u64
  ad_generation :: u64
  ad_digest :: string
  ad_locator :: string
  ad_format :: string
  ad_byte_size :: u64
  ad_provenance :: provenance

record artifact_binding =
  ab_set_id :: u64
  ab_generation :: u64
  ab_digest :: string

definition artifact_binding_valid :: "artifact_binding \<Rightarrow> bool" where
  "artifact_binding_valid b \<longleftrightarrow> id_valid (ab_set_id b) \<and> id_valid (ab_generation b)"

definition artifact_matches :: "artifact_binding \<Rightarrow> artifact_binding \<Rightarrow> bool" where
  "artifact_matches a b \<longleftrightarrow> ab_set_id a = ab_set_id b \<and> ab_generation a = ab_generation b \<and>
     ab_digest a = ab_digest b"

section \<open>Digest shape\<close>

definition is_hex :: "char \<Rightarrow> bool" where
  "is_hex c \<longleftrightarrow> (CHR ''0'' \<le> c \<and> c \<le> CHR ''9'') \<or> (CHR ''a'' \<le> c \<and> c \<le> CHR ''f'') \<or>
     (CHR ''A'' \<le> c \<and> c \<le> CHR ''F'')"

definition valid_digest :: "string \<Rightarrow> nat \<Rightarrow> bool" where
  "valid_digest digest max_length \<longleftrightarrow>
     (if digest = [] \<or> max_length < length digest then False
      else if take 7 digest = ''sha256:'' then
        length digest = 7 + 64 \<and> list_all is_hex (drop 7 digest)
      else list_all (\<lambda>c. is_alnum c \<or> c = CHR '':'' \<or> c = CHR ''_'' \<or> c = CHR ''-'' \<or> c = CHR ''.'')
             digest)"

section \<open>SHA-256\<close>

definition kSha256K :: "u32 list" where
  "kSha256K =
    concat [
      [0x428a2f98, 0x71374491, 0xb5c0fbcf, 0xe9b5dba5, 0x3956c25b, 0x59f111f1, 0x923f82a4],
      [0xab1c5ed5, 0xd807aa98, 0x12835b01, 0x243185be, 0x550c7dc3, 0x72be5d74, 0x80deb1fe],
      [0x9bdc06a7, 0xc19bf174, 0xe49b69c1, 0xefbe4786, 0x0fc19dc6, 0x240ca1cc, 0x2de92c6f],
      [0x4a7484aa, 0x5cb0a9dc, 0x76f988da, 0x983e5152, 0xa831c66d, 0xb00327c8, 0xbf597fc7],
      [0xc6e00bf3, 0xd5a79147, 0x06ca6351, 0x14292967, 0x27b70a85, 0x2e1b2138, 0x4d2c6dfc],
      [0x53380d13, 0x650a7354, 0x766a0abb, 0x81c2c92e, 0x92722c85, 0xa2bfe8a1, 0xa81a664b],
      [0xc24b8b70, 0xc76c51a3, 0xd192e819, 0xd6990624, 0xf40e3585, 0x106aa070, 0x19a4c116],
      [0x1e376c08, 0x2748774c, 0x34b0bcb5, 0x391c0cb3, 0x4ed8aa4a, 0x5b9cca4f, 0x682e6ff3],
      [0x748f82ee, 0x78a5636f, 0x84c87814, 0x8cc70208, 0x90befffa, 0xa4506ceb, 0xbef9a3f7],
      [0xc67178f2]]"

definition rotr :: "u32 \<Rightarrow> nat \<Rightarrow> u32" where
  "rotr v amount = drop_bit amount v OR push_bit ((32 - amount) mod 32) v"

type_synonym sha_words = "u32 \<times> u32 \<times> u32 \<times> u32 \<times> u32 \<times> u32 \<times> u32 \<times> u32"

record sha256 =
  sh_state :: sha_words
  sh_total :: u64
  sh_buffer :: "u8 list"

definition sha256_new :: sha256 where
  "sha256_new = \<lparr>sh_state = (0x6a09e667, 0xbb67ae85, 0x3c6ef372, 0xa54ff53a, 0x510e527f, 0x9b05688c,
     0x1f83d9ab, 0x5be0cd19), sh_total = 0, sh_buffer = []\<rparr>"

text \<open>The first sixteen schedule words, big-endian, and the forty-eight derived ones.\<close>

definition block_word :: "u8 list \<Rightarrow> nat \<Rightarrow> u32" where
  "block_word block i =
     push_bit 24 (ucast (block ! (i * 4))) OR push_bit 16 (ucast (block ! (i * 4 + 1))) OR
     push_bit 8 (ucast (block ! (i * 4 + 2))) OR ucast (block ! (i * 4 + 3))"

definition schedule_word :: "u32 list \<Rightarrow> nat \<Rightarrow> u32" where
  "schedule_word w i =
     (let s0 = rotr (w ! (i - 15)) 7 XOR rotr (w ! (i - 15)) 18 XOR drop_bit 3 (w ! (i - 15));
          s1 = rotr (w ! (i - 2)) 17 XOR rotr (w ! (i - 2)) 19 XOR drop_bit 10 (w ! (i - 2)) in
      w ! (i - 16) + s0 + w ! (i - 7) + s1)"

definition schedule :: "u8 list \<Rightarrow> u32 list" where
  "schedule block = fold (\<lambda>i w. w @ [schedule_word w i]) [16..<64] (map (block_word block) [0..<16])"

fun sha_round :: "u32 \<times> u32 \<Rightarrow> sha_words \<Rightarrow> sha_words" where
  "sha_round (k, w) (a, b, c, d, e, f, g, h) =
     (let s1 = rotr e 6 XOR rotr e 11 XOR rotr e 25;
          ch = (e AND f) XOR (NOT e AND g);
          temp1 = h + s1 + ch + k + w;
          s0 = rotr a 2 XOR rotr a 13 XOR rotr a 22;
          maj = (a AND b) XOR (a AND c) XOR (b AND c);
          temp2 = s0 + maj in
      (temp1 + temp2, a, b, c, d + temp1, e, f, g))"

fun add_words :: "sha_words \<Rightarrow> sha_words \<Rightarrow> sha_words" where
  "add_words (a, b, c, d, e, f, g, h) (a', b', c', d', e', f', g', h') =
     (a + a', b + b', c + c', d + d', e + e', f + f', g + g', h + h')"

definition compress :: "u8 list \<Rightarrow> sha_words \<Rightarrow> sha_words" where
  "compress block st = add_words st (fold sha_round (zip kSha256K (schedule block)) st)"

definition sha_byte :: "u8 \<Rightarrow> sha256 \<Rightarrow> sha256" where
  "sha_byte b h =
     (let buffer = sh_buffer h @ [b] in
      if length buffer = 64 then h\<lparr>sh_state := compress buffer (sh_state h), sh_buffer := []\<rparr>
      else h\<lparr>sh_buffer := buffer\<rparr>)"

definition sha_update :: "u8 list \<Rightarrow> sha256 \<Rightarrow> sha256" where
  "sha_update data h = fold sha_byte data (h\<lparr>sh_total := sh_total h + of_nat (length data)\<rparr>)"

text \<open>
  \<open>while (buffer_length_ != 56) update(&zero, 1)\<close>: at most 63 bytes are needed
  (\<open>sha_pad_done\<close>), so 64 steps of fuel never run out.
\<close>

fun sha_pad :: "nat \<Rightarrow> sha256 \<Rightarrow> sha256" where
  "sha_pad 0 h = h"
| "sha_pad (Suc fuel) h = (if length (sh_buffer h) \<noteq> 56 then sha_pad fuel (sha_update [0] h) else h)"

definition be_bytes64 :: "u64 \<Rightarrow> u8 list" where
  "be_bytes64 v = map (\<lambda>i. ucast (drop_bit (8 * i) v)) (rev [0..<8])"

definition be_bytes32 :: "u32 \<Rightarrow> u8 list" where
  "be_bytes32 v = [ucast (drop_bit 24 v), ucast (drop_bit 16 v), ucast (drop_bit 8 v), ucast v]"

fun words_bytes :: "sha_words \<Rightarrow> u8 list" where
  "words_bytes (a, b, c, d, e, f, g, h) =
     be_bytes32 a @ be_bytes32 b @ be_bytes32 c @ be_bytes32 d @
     be_bytes32 e @ be_bytes32 f @ be_bytes32 g @ be_bytes32 h"

definition sha_finish :: "sha256 \<Rightarrow> u8 list" where
  "sha_finish h =
     (let bit_length = sh_total h * 8 in
      words_bytes (sh_state (sha_update (be_bytes64 bit_length) (sha_pad 64 (sha_update [0x80] h)))))"

definition kHex :: string where
  "kHex = ''0123456789abcdef''"

definition hex_of :: "u8 list \<Rightarrow> string" where
  "hex_of digest = concat (map (\<lambda>b. [kHex ! unat (drop_bit 4 b), kHex ! unat (b AND 0x0f)]) digest)"

definition compute_buffer_digest :: "u8 list \<Rightarrow> string" where
  "compute_buffer_digest data =
     ''sha256:'' @ hex_of (sha_finish (if data \<noteq> [] then sha_update data sha256_new else sha256_new))"

text \<open>
  \<open>compute_file_digest\<close> reads the file in chunks; a chunk that is empty is not hashed. The
  file is the list of chunks the stream delivers, \<open>None\<close> when it cannot be opened or fails.
\<close>

definition compute_file_digest :: "u8 list list option \<Rightarrow> string option" where
  "compute_file_digest chunks =
     (case chunks of
        None \<Rightarrow> None
      | Some cs \<Rightarrow>
          Some (''sha256:'' @ hex_of (sha_finish
            (fold (\<lambda>c h. if 0 < length c then sha_update c h else h) cs sha256_new))))"

section \<open>Buffering and padding\<close>

lemma sha_byte_total [simp]: "sh_total (sha_byte b h) = sh_total h"
  by (simp add: sha_byte_def Let_def)

lemma sha_byte_set_total: "sha_byte b (h\<lparr>sh_total := n\<rparr>) = (sha_byte b h)\<lparr>sh_total := n\<rparr>"
  by (simp add: sha_byte_def Let_def)

lemma sha_bytes_set_total: "fold sha_byte data (h\<lparr>sh_total := n\<rparr>) = (fold sha_byte data h)\<lparr>sh_total := n\<rparr>"
  by (induction data arbitrary: h) (simp_all add: sha_byte_set_total)

lemma sha_bytes_total: "sh_total (fold sha_byte data h) = sh_total h"
  by (induction data arbitrary: h) simp_all

lemma sha_update_append: "sha_update (xs @ ys) h = sha_update ys (sha_update xs h)"
  by (simp add: sha_update_def sha_bytes_set_total sha_bytes_total ac_simps)

lemma sha_update_Nil [simp]: "sha_update [] h = h"
  by (simp add: sha_update_def)

lemma sha_buffer_length:
  "length (sh_buffer h) < 64 \<Longrightarrow>
   length (sh_buffer (sha_update data h)) = (length (sh_buffer h) + length data) mod 64"
proof -
  have one: "length (sh_buffer h) < 64 \<Longrightarrow>
      length (sh_buffer (sha_byte b h)) = (length (sh_buffer h) + 1) mod 64" for b h
    by (auto simp: sha_byte_def Let_def)
  have "length (sh_buffer h) < 64 \<Longrightarrow>
      length (sh_buffer (fold sha_byte data h)) = (length (sh_buffer h) + length data) mod 64"
    by (induction data arbitrary: h) (simp_all add: one mod_simps)
  then show "length (sh_buffer h) < 64 \<Longrightarrow> ?thesis"
    by (simp add: sha_update_def sha_bytes_set_total)
qed

lemma sha_pad_done:
  "length (sh_buffer h) < 64 \<Longrightarrow> (56 + 64 - length (sh_buffer h)) mod 64 < fuel \<Longrightarrow>
   length (sh_buffer (sha_pad fuel h)) = 56"
proof (induction fuel arbitrary: h)
  case (Suc fuel)
  show ?case
  proof (cases "length (sh_buffer h) = 56")
    case False
    let ?h = "sha_update [0] h"
    have len: "length (sh_buffer ?h) = (length (sh_buffer h) + 1) mod 64"
      using sha_buffer_length [OF Suc.prems(1), of "[0]"] by simp
    have "(56 + 64 - length (sh_buffer ?h)) mod 64 < fuel"
      using Suc.prems False unfolding len by (auto simp: mod_if split: if_splits)
    then have "length (sh_buffer (sha_pad fuel ?h)) = 56"
      by (intro Suc.IH) (simp add: len)
    then show ?thesis using False by simp
  qed simp
qed simp

text \<open>Padding leaves exactly room for the length field, whatever was hashed before.\<close>

lemma sha_finish_whole_blocks:
  assumes "length (sh_buffer h) < 64"
  shows "sh_buffer (sha_update (be_bytes64 n) (sha_pad 64 (sha_update [0x80] h))) = []"
proof -
  have "length (sh_buffer (sha_update [0x80] h)) < 64"
    using sha_buffer_length [OF assms, of "[0x80]"] by simp
  then have "length (sh_buffer (sha_pad 64 (sha_update [0x80] h))) = 56"
    by (intro sha_pad_done) simp_all
  then show ?thesis
    using sha_buffer_length [of "sha_pad 64 (sha_update [0x80] h)" "be_bytes64 n"]
    by (simp add: be_bytes64_def)
qed

lemma sha_chunks: "fold (\<lambda>c h. if 0 < length c then sha_update c h else h) cs h = sha_update (concat cs) h"
  by (induction cs arbitrary: h) (auto simp: sha_update_append)

lemma words_bytes_length: "length (words_bytes w) = 32"
  by (cases w rule: words_bytes.cases) (simp add: be_bytes32_def)

lemma hex_digit: "n < 16 \<Longrightarrow> is_hex (kHex ! n)"
  by (auto simp: kHex_def is_hex_def less_eq_char_def less_Suc_eq numeral_eq_Suc)

lemma hex_of_shape: "length (hex_of bs) = 2 * length bs \<and> list_all is_hex (hex_of bs)"
proof (induction bs)
  case (Cons b bs)
  have "unat (drop_bit 4 b) < 16"
    using unsigned_less [where w = b and 'a = nat] by (simp add: unsigned_drop_bit_eq drop_bit_eq_div unat_div)
  moreover have "unat (b AND 0x0f) < 16"
    using word_and_le1 [of b "0x0f"] by (simp add: word_le_nat_alt)
  ultimately show ?case using Cons by (simp add: hex_of_def hex_digit)
qed (simp add: hex_of_def)

section \<open>Properties\<close>

text \<open>
  Hashing a file in whatever chunks the stream delivers gives the digest of its whole
  contents, and every digest computed here has the shape \<open>valid_digest\<close> accepts, so a
  computed digest is never refused where a digest of that length is allowed.
\<close>

theorem digest_stream_and_shape:
  "compute_file_digest (Some chunks) = Some (compute_buffer_digest (concat chunks)) \<and>
   length (compute_buffer_digest data) = 71 \<and>
   (valid_digest (compute_buffer_digest data) max_length \<longleftrightarrow> 71 \<le> max_length)"
proof -
  have digest: "compute_buffer_digest d = ''sha256:'' @ hex_of (sha_finish (sha_update d sha256_new))" for d
    by (simp add: compute_buffer_digest_def)
  have "length (sha_finish h) = 32" for h
    by (simp add: sha_finish_def words_bytes_length Let_def)
  then have hex: "length (hex_of (sha_finish h)) = 64" "list_all is_hex (hex_of (sha_finish h))" for h
    using hex_of_shape [of "sha_finish h"] by auto
  have "compute_file_digest (Some chunks) = Some (compute_buffer_digest (concat chunks))"
    by (simp only: compute_file_digest_def option.case sha_chunks digest)
  then show ?thesis
    by (simp add: digest hex valid_digest_def not_less)
qed

end
