(* ===== verification/Mlf_Evidence.thy ===== *)
theory Mlf_Evidence
  imports Mlf_Artifact Mlf_Identity
begin

text \<open>
  The evidence store of include/mlf/evidence.hpp and src/evidence.cpp: records filed by
  model version and kind in publication order, a watermark every publication must advance,
  bounded growth by evicting the oldest record, and the resolution that decides whether a
  record is usable for a subject now. Values of type \<open>double\<close> are kept as their 64 bits.
\<close>

section \<open>Kinds, verdicts, currentness\<close>

datatype evidence_kind =
    EK_ArtifactIntegrity | EK_RuntimeCompatibility | EK_BackendCompatibility |
    EK_HardwareCapability | EK_TokenizerMatch | EK_AdapterCompatibility | EK_Warmup |
    EK_Readiness | EK_ReplicaReady | EK_ResidencyReady | EK_HealthCheck | EK_ErrorRate |
    EK_Latency | EK_Throughput | EK_Correctness | EK_VerificationOutcome |
    EK_ResourcePressure | EK_CrashRate | EK_TestResult | EK_PolicyApproval |
    EK_ManualApproval | EK_Signature

definition kEvidenceKindNames :: "(evidence_kind \<times> string) list" where
  "kEvidenceKindNames =
    [(EK_ArtifactIntegrity, ''ARTIFACT_INTEGRITY''),
     (EK_RuntimeCompatibility, ''RUNTIME_COMPATIBILITY''),
     (EK_BackendCompatibility, ''BACKEND_COMPATIBILITY''),
     (EK_HardwareCapability, ''HARDWARE_CAPABILITY''),
     (EK_TokenizerMatch, ''TOKENIZER_MATCH''),
     (EK_AdapterCompatibility, ''ADAPTER_COMPATIBILITY''),
     (EK_Warmup, ''WARMUP''), (EK_Readiness, ''READINESS''),
     (EK_ReplicaReady, ''REPLICA_READY''), (EK_ResidencyReady, ''RESIDENCY_READY''),
     (EK_HealthCheck, ''HEALTH_CHECK''), (EK_ErrorRate, ''ERROR_RATE''),
     (EK_Latency, ''LATENCY''), (EK_Throughput, ''THROUGHPUT''),
     (EK_Correctness, ''CORRECTNESS''), (EK_VerificationOutcome, ''VERIFICATION_OUTCOME''),
     (EK_ResourcePressure, ''RESOURCE_PRESSURE''), (EK_CrashRate, ''CRASH_RATE''),
     (EK_TestResult, ''TEST_RESULT''), (EK_PolicyApproval, ''POLICY_APPROVAL''),
     (EK_ManualApproval, ''MANUAL_APPROVAL''), (EK_Signature, ''SIGNATURE'')]"

definition kEvidenceKindCount :: nat where "kEvidenceKindCount = 22"

text \<open>The enumerator's value: its position in the declaration, which the table repeats.\<close>

primrec evidence_kind_index :: "evidence_kind \<Rightarrow> nat" where
  "evidence_kind_index EK_ArtifactIntegrity = 0"
| "evidence_kind_index EK_RuntimeCompatibility = 1"
| "evidence_kind_index EK_BackendCompatibility = 2"
| "evidence_kind_index EK_HardwareCapability = 3"
| "evidence_kind_index EK_TokenizerMatch = 4"
| "evidence_kind_index EK_AdapterCompatibility = 5"
| "evidence_kind_index EK_Warmup = 6"
| "evidence_kind_index EK_Readiness = 7"
| "evidence_kind_index EK_ReplicaReady = 8"
| "evidence_kind_index EK_ResidencyReady = 9"
| "evidence_kind_index EK_HealthCheck = 10"
| "evidence_kind_index EK_ErrorRate = 11"
| "evidence_kind_index EK_Latency = 12"
| "evidence_kind_index EK_Throughput = 13"
| "evidence_kind_index EK_Correctness = 14"
| "evidence_kind_index EK_VerificationOutcome = 15"
| "evidence_kind_index EK_ResourcePressure = 16"
| "evidence_kind_index EK_CrashRate = 17"
| "evidence_kind_index EK_TestResult = 18"
| "evidence_kind_index EK_PolicyApproval = 19"
| "evidence_kind_index EK_ManualApproval = 20"
| "evidence_kind_index EK_Signature = 21"

lemma evidence_kind_of_index: "fst (kEvidenceKindNames ! evidence_kind_index k) = k"
  by (cases k) (simp_all add: kEvidenceKindNames_def)

lemma evidence_kind_index_inj: "evidence_kind_index a = evidence_kind_index b \<longleftrightarrow> a = b"
  by (metis evidence_kind_of_index)

lemma evidence_kind_index_bound: "evidence_kind_index k < kEvidenceKindCount"
  by (cases k) (simp_all add: kEvidenceKindCount_def)

instantiation evidence_kind :: linorder
begin

definition less_eq_evidence_kind :: "evidence_kind \<Rightarrow> evidence_kind \<Rightarrow> bool" where
  "less_eq_evidence_kind a b \<longleftrightarrow> evidence_kind_index a \<le> evidence_kind_index b"

definition less_evidence_kind :: "evidence_kind \<Rightarrow> evidence_kind \<Rightarrow> bool" where
  "less_evidence_kind a b \<longleftrightarrow> evidence_kind_index a < evidence_kind_index b"

instance
  by standard (auto simp: less_eq_evidence_kind_def less_evidence_kind_def evidence_kind_index_inj)

end

definition to_string_evidence_kind :: "evidence_kind \<Rightarrow> string" where
  "to_string_evidence_kind kind =
     (case find (\<lambda>entry. fst entry = kind) kEvidenceKindNames of
        Some entry \<Rightarrow> snd entry
      | None \<Rightarrow> ''UNKNOWN_KIND'')"

definition parse_evidence_kind :: "string \<Rightarrow> evidence_kind option" where
  "parse_evidence_kind txt = map_option fst (find (\<lambda>entry. snd entry = txt) kEvidenceKindNames)"

datatype evidence_verdict = EV_Unknown | EV_Satisfied | EV_Unsatisfied

primrec to_string_verdict :: "evidence_verdict \<Rightarrow> string" where
  "to_string_verdict EV_Unknown = ''UNKNOWN''"
| "to_string_verdict EV_Satisfied = ''SATISFIED''"
| "to_string_verdict EV_Unsatisfied = ''UNSATISFIED''"

datatype evidence_currentness =
    EC_Current | EC_Missing | EC_SubjectMismatch | EC_GenerationStale | EC_PublisherStale |
    EC_Expired | EC_Conflicting | EC_UnknownProvenance

primrec to_string_currentness :: "evidence_currentness \<Rightarrow> string" where
  "to_string_currentness EC_Current = ''CURRENT''"
| "to_string_currentness EC_Missing = ''MISSING''"
| "to_string_currentness EC_SubjectMismatch = ''SUBJECT_MISMATCH''"
| "to_string_currentness EC_GenerationStale = ''GENERATION_STALE''"
| "to_string_currentness EC_PublisherStale = ''PUBLISHER_STALE''"
| "to_string_currentness EC_Expired = ''EXPIRED''"
| "to_string_currentness EC_Conflicting = ''CONFLICTING''"
| "to_string_currentness EC_UnknownProvenance = ''UNKNOWN_PROVENANCE''"

section \<open>Subjects and records\<close>

record evidence_subject =
  es_model :: u64
  es_version :: u64
  es_model_generation :: u64
  es_artifact_set :: u64
  es_artifact_generation :: u64
  es_scope :: u64
  es_rollout :: u64
  es_rollout_generation :: u64
  es_stage :: u64
  es_stage_generation :: u64
  es_compatibility_generation :: u64

definition empty_subject :: evidence_subject where
  "empty_subject = \<lparr>es_model = 0, es_version = 0, es_model_generation = 0, es_artifact_set = 0,
     es_artifact_generation = 0, es_scope = 0, es_rollout = 0, es_rollout_generation = 0,
     es_stage = 0, es_stage_generation = 0, es_compatibility_generation = 0\<rparr>"

definition key_fields :: "evidence_subject \<Rightarrow> u64 list" where
  "key_fields s = [es_model s, es_version s, es_model_generation s, es_artifact_set s,
     es_artifact_generation s, es_scope s, es_rollout s, es_rollout_generation s, es_stage s,
     es_stage_generation s, es_compatibility_generation s]"

fun join_colon :: "bool \<Rightarrow> u64 list \<Rightarrow> string" where
  "join_colon first [] = []"
| "join_colon first (f # fs) = (if first then [] else '':'') @ show_u64 f @ join_colon False fs"

definition subject_key :: "evidence_subject \<Rightarrow> string" where
  "subject_key s = join_colon True (key_fields s)"

record evidence_record =
  e_id :: u64
  e_generation :: u64
  e_kind :: evidence_kind
  e_verdict :: evidence_verdict
  e_subject :: evidence_subject
  e_provenance :: provenance
  e_worker :: u64
  e_boot :: u64
  e_epoch :: u64
  e_policy_generation :: u64
  e_value :: u64
  e_unit :: string
  e_tick :: u64
  e_detail :: string

record evidence_requirement =
  er_kind :: evidence_kind
  er_required_verdict :: evidence_verdict
  er_require_exact_subject :: bool
  er_require_current_publisher :: bool

type_synonym evidence_key = "string \<times> nat"

record evidence_store =
  ev_records :: "(evidence_key, evidence_record list) omap"
  ev_order :: "(u64, evidence_key) omap"
  ev_count :: nat
  ev_max :: nat
  ev_dropped :: u64
  ev_watermark :: u64

definition empty_evidence :: "nat \<Rightarrow> evidence_store" where
  "empty_evidence n = \<lparr>ev_records = [], ev_order = [], ev_count = 0, ev_max = n, ev_dropped = 0,
     ev_watermark = 0\<rparr>"

definition make_key :: "evidence_subject \<Rightarrow> evidence_kind \<Rightarrow> evidence_key" where
  "make_key s kind = (show_u64 (es_model s) @ '':'' @ show_u64 (es_version s), evidence_kind_index kind)"

definition bucket :: "evidence_key \<Rightarrow> evidence_store \<Rightarrow> evidence_record list" where
  "bucket k st = (case map_of (ev_records st) k of None \<Rightarrow> [] | Some b \<Rightarrow> b)"

section \<open>Publication\<close>

text \<open>
  The loop that makes room: the records of the oldest generation leave the bucket of their
  key, an emptied bucket is erased, and the loss is counted. \<open>order\<close> is the eviction order
  still to consume.
\<close>

definition evict_one :: "u64 \<Rightarrow> evidence_key \<Rightarrow> evidence_record list \<Rightarrow> evidence_store \<Rightarrow> evidence_store" where
  "evict_one generation victim found st =
     (let kept = filter (\<lambda>c. e_generation c \<noteq> generation) found;
          removed = length found - length kept in
      st\<lparr>ev_records := (if kept = [] then om_erase victim (ev_records st)
                        else om_put victim kept (ev_records st)),
         ev_count := ev_count st - removed,
         ev_dropped := ev_dropped st + of_nat removed\<rparr>)"

fun evict :: "(u64, evidence_key) omap \<Rightarrow> evidence_store \<Rightarrow> evidence_store" where
  "evict [] st = st\<lparr>ev_order := []\<rparr>"
| "evict ((generation, victim) # order) st =
     (if ev_count st < ev_max st then st\<lparr>ev_order := (generation, victim) # order\<rparr>
      else case map_of (ev_records st) victim of
          None \<Rightarrow> evict order st
        | Some found \<Rightarrow> evict order (evict_one generation victim found st))"

definition publish_evidence :: "evidence_record \<Rightarrow> evidence_store \<Rightarrow> decision \<times> evidence_store" where
  "publish_evidence r st =
     (let key = make_key (e_subject r) (e_kind r); old = bucket key st in
      if kEvidenceKindCount \<le> evidence_kind_index (e_kind r) then
        (refuse OC_Rejected (Prt ProtocolUnknownType) ''evidence kind out of range'', st)
      else if \<not> id_valid (es_version (e_subject r)) then
        (refuse OC_Rejected (Reg UnknownVersion) ''evidence subject has no model version'', st)
      else if \<not> id_valid (e_generation r) then
        (refuse OC_Rejected (Evd EvidenceGenerationMismatch) ''evidence generation must be non-zero'', st)
      else if 256 < length (e_detail r) \<or> 32 < length (e_unit r) then
        (refuse OC_BOUNDS_EXCEEDED (Bnd BoundsStringLength) ''evidence metadata oversized'', st)
      else if old \<noteq> [] \<and> e_generation r < e_generation (last old) then
        (refuse OC_CONFLICT (Evd EvidenceGenerationMismatch)
           ''evidence generation is older than the stored record'', st)
      else if old \<noteq> [] \<and> e_generation r = e_generation (last old) \<and>
          e_verdict r \<noteq> e_verdict (last old) then
        (refuse OC_CONFLICT (Evd EvidenceConflicting)
           ''two verdicts published for the same evidence generation'', st)
      else if old \<noteq> [] \<and> e_generation r = e_generation (last old) then
        (refuse OC_CONFLICT (Evd EvidenceGenerationMismatch)
           ''duplicate evidence generation for the same subject'', st)
      else if id_valid (ev_watermark st) \<and> e_generation r \<le> ev_watermark st then
        (refuse OC_CONFLICT (Ord SequenceRegression)
           ''evidence generation does not advance the store watermark'', st)
      else let st' = evict (ev_order st) st in
        (new_decision OC_Accepted,
         st'\<lparr>ev_records := om_put key (bucket key st' @ [r]) (ev_records st'),
             ev_order := om_emplace (e_generation r) key (ev_order st'),
             ev_count := ev_count st' + 1,
             ev_watermark := e_generation r\<rparr>))"

section \<open>Resolution\<close>

definition classify_mismatch :: "evidence_subject \<Rightarrow> evidence_subject \<Rightarrow> evidence_currentness" where
  "classify_mismatch stored requested =
     (let stale = (\<lambda>b. if b then EC_GenerationStale else EC_SubjectMismatch) in
      if es_model_generation stored \<noteq> es_model_generation requested then
        stale (es_model_generation stored < es_model_generation requested)
      else if es_artifact_generation stored \<noteq> es_artifact_generation requested \<or>
          es_artifact_set stored \<noteq> es_artifact_set requested then
        stale (es_artifact_generation stored < es_artifact_generation requested)
      else if es_scope stored \<noteq> es_scope requested then EC_SubjectMismatch
      else if es_rollout stored \<noteq> es_rollout requested \<or>
          es_rollout_generation stored \<noteq> es_rollout_generation requested then
        stale (es_rollout_generation stored < es_rollout_generation requested)
      else if es_stage stored \<noteq> es_stage requested \<or>
          es_stage_generation stored \<noteq> es_stage_generation requested then
        stale (es_stage_generation stored < es_stage_generation requested)
      else if es_compatibility_generation stored \<noteq> es_compatibility_generation requested then
        stale (es_compatibility_generation stored < es_compatibility_generation requested)
      else EC_SubjectMismatch)"

text \<open>
  The reverse scan of the bucket. The result is the candidate with its position from the
  end of the scanned list, or the classification of the newest mismatch.
\<close>

fun pick_candidate ::
  "bool \<Rightarrow> evidence_subject \<Rightarrow> evidence_record list \<Rightarrow> evidence_currentness option \<Rightarrow>
     evidence_currentness + evidence_record" where
  "pick_candidate exact subject [] fallback =
     Inl (case fallback of Some c \<Rightarrow> c | None \<Rightarrow> EC_Missing)"
| "pick_candidate exact subject (r # older) fallback =
     (if e_subject r = subject then Inr r
      else case fallback of
          Some c \<Rightarrow> pick_candidate exact subject older fallback
        | None \<Rightarrow>
            if \<not> exact then Inr r
            else pick_candidate exact subject older (Some (classify_mismatch (e_subject r) subject)))"

record evidence_lookup =
  el_currentness :: evidence_currentness
  el_record :: "evidence_record option"

definition usable :: "evidence_lookup \<Rightarrow> bool" where
  "usable l \<longleftrightarrow> el_currentness l = EC_Current \<and> el_record l \<noteq> None"

text \<open>
  The scan for conflicting publications skips the candidate itself; a record equal to the
  candidate has the same verdict, so skipping by address and by value agree.
\<close>

definition resolve ::
  "evidence_requirement \<Rightarrow> evidence_subject \<Rightarrow> u64 \<Rightarrow> bool \<Rightarrow> u64 \<Rightarrow> u64 \<Rightarrow> evidence_store \<Rightarrow> evidence_lookup" where
  "resolve requirement subject publisher_boot publisher_must_be_current now_tick max_age_ticks st =
     (let b = bucket (make_key subject (er_kind requirement)) st in
      if es_version subject = 0 \<or> b = [] then \<lparr>el_currentness = EC_Missing, el_record = None\<rparr>
      else case pick_candidate (er_require_exact_subject requirement) subject (rev b) None of
          Inl c \<Rightarrow> \<lparr>el_currentness = c, el_record = None\<rparr>
        | Inr candidate \<Rightarrow>
            (let found = (\<lambda>c. \<lparr>el_currentness = c, el_record = Some candidate\<rparr>) in
             if list_ex (\<lambda>r. e_generation r = e_generation candidate \<and> e_subject r = subject \<and>
                  e_verdict r \<noteq> e_verdict candidate) b then found EC_Conflicting
             else if e_provenance candidate = PV_Unknown then found EC_UnknownProvenance
             else if (publisher_must_be_current \<or> er_require_current_publisher requirement) \<and>
                 id_valid (e_boot candidate) \<and> e_boot candidate \<noteq> publisher_boot then
               found EC_PublisherStale
             else if 0 < max_age_ticks \<and> e_tick candidate < now_tick \<and>
                 max_age_ticks < now_tick - e_tick candidate then found EC_Expired
             else found EC_Current))"

definition latest :: "evidence_subject \<Rightarrow> evidence_kind \<Rightarrow> evidence_store \<Rightarrow> evidence_record option" where
  "latest subject kind st =
     (let b = bucket (make_key subject kind) st in if b = [] then None else Some (last b))"

definition evidence_history :: "evidence_subject \<Rightarrow> evidence_store \<Rightarrow> evidence_record list" where
  "evidence_history subject st =
     concat (map snd (filter (\<lambda>e. fst (fst e) = fst (make_key subject EK_HealthCheck)) (ev_records st)))"

definition evidence_size :: "evidence_store \<Rightarrow> nat" where
  "evidence_size st = length (ev_records st)"

section \<open>Invalidation and recovery\<close>

text \<open>
  The common shape of the three removals: drop the records that satisfy \<open>P\<close>, erase the
  buckets left empty, adjust the counters, and erase the eviction entries whose bucket is
  gone.
\<close>

definition total_records :: "(evidence_key, evidence_record list) omap \<Rightarrow> nat" where
  "total_records m = sum_list (map (\<lambda>e. length (snd e)) m)"

definition drop_records ::
  "(evidence_key \<Rightarrow> evidence_record \<Rightarrow> bool) \<Rightarrow> evidence_store \<Rightarrow> nat \<times> evidence_store" where
  "drop_records P st =
     (let kept = filter (\<lambda>e. snd e \<noteq> []) (map (\<lambda>(k, b). (k, filter (\<lambda>r. \<not> P k r) b)) (ev_records st));
          removed = total_records (ev_records st) - total_records kept in
      (removed,
       st\<lparr>ev_records := kept, ev_count := ev_count st - removed,
          ev_dropped := ev_dropped st + of_nat removed,
          ev_order := filter (\<lambda>e. map_of kept (snd e) \<noteq> None) (ev_order st)\<rparr>))"

definition invalidate_model_generation :: "u64 \<Rightarrow> u64 \<Rightarrow> evidence_store \<Rightarrow> nat \<times> evidence_store" where
  "invalidate_model_generation version current =
     drop_records (\<lambda>k r. es_version (e_subject r) = version \<and> es_model_generation (e_subject r) < current)"

definition invalidate_publisher_boot :: "u64 \<Rightarrow> evidence_store \<Rightarrow> nat \<times> evidence_store" where
  "invalidate_publisher_boot boot st =
     (if \<not> id_valid boot then (0, st) else drop_records (\<lambda>k r. e_boot r = boot) st)"

definition remove_kinds :: "evidence_kind list \<Rightarrow> evidence_store \<Rightarrow> nat \<times> evidence_store" where
  "remove_kinds kinds = drop_records (\<lambda>k r. snd k \<in> evidence_kind_index ` set kinds)"

fun restore_evidence_loop ::
  "evidence_record list \<Rightarrow> (evidence_key, evidence_record list) omap \<Rightarrow> (u64, evidence_key) omap \<Rightarrow>
     ((evidence_key, evidence_record list) omap \<times> (u64, evidence_key) omap) option" where
  "restore_evidence_loop [] rebuilt order = Some (rebuilt, order)"
| "restore_evidence_loop (r # rs) rebuilt order =
     (if kEvidenceKindCount \<le> evidence_kind_index (e_kind r) then None
      else if \<not> id_valid (es_version (e_subject r)) then None
      else if \<not> id_valid (e_generation r) then None
      else if 256 < length (e_detail r) \<or> 32 < length (e_unit r) then None
      else let key = make_key (e_subject r) (e_kind r);
               filed = (case map_of rebuilt key of None \<Rightarrow> [] | Some b \<Rightarrow> b) @ [r] in
        if map_of order (e_generation r) \<noteq> None \<and> length filed < 2 then None
        else restore_evidence_loop rs (om_put key filed rebuilt) (om_emplace (e_generation r) key order))"

definition restore_evidence :: "evidence_record list \<Rightarrow> u64 \<Rightarrow> evidence_store \<Rightarrow> evidence_store option" where
  "restore_evidence records dropped st =
     (case restore_evidence_loop records [] [] of
        None \<Rightarrow> None
      | Some (rebuilt, order) \<Rightarrow>
          if ev_max st < length records then None
          else let sorted = om_map (sort_key e_generation) rebuilt in
            Some (st\<lparr>ev_records := sorted, ev_order := order, ev_count := length records,
                     ev_dropped := dropped,
                     ev_watermark := fold (\<lambda>e w. if snd e \<noteq> [] \<and> w < e_generation (last (snd e))
                                                 then e_generation (last (snd e)) else w) sorted 0\<rparr>))"

section \<open>Invariants\<close>

text \<open>
  \<open>ev_base\<close> concerns the buckets and the count; \<open>covers\<close> says that an eviction order lists
  every stored record under its bucket, which publication alone guarantees.
\<close>

definition bucket_ok :: "evidence_key \<Rightarrow> evidence_record list \<Rightarrow> bool" where
  "bucket_ok k b \<longleftrightarrow> b \<noteq> [] \<and> sorted (map e_generation b) \<and>
     list_all (\<lambda>r. make_key (e_subject r) (e_kind r) = k \<and> id_valid (e_generation r)) b"

definition ev_base :: "evidence_store \<Rightarrow> bool" where
  "ev_base st \<longleftrightarrow> om_wf (ev_records st) \<and> list_all (\<lambda>e. bucket_ok (fst e) (snd e)) (ev_records st) \<and>
     ev_count st = total_records (ev_records st)"

definition below_watermark :: "evidence_store \<Rightarrow> bool" where
  "below_watermark st \<longleftrightarrow> (\<forall>k. \<forall>r \<in> set (bucket k st). e_generation r \<le> ev_watermark st)"

definition covers :: "(u64, evidence_key) omap \<Rightarrow> evidence_store \<Rightarrow> bool" where
  "covers order st \<longleftrightarrow> om_wf order \<and> (\<forall>k. \<forall>r \<in> set (bucket k st). map_of order (e_generation r) = Some k)"

definition ev_wf :: "evidence_store \<Rightarrow> bool" where
  "ev_wf st \<longleftrightarrow> ev_base st \<and> below_watermark st \<and> covers (ev_order st) st \<and>
     (\<forall>e \<in> set (ev_order st). fst e \<le> ev_watermark st)"

lemma bucket_put: "bucket k (st\<lparr>ev_records := om_put j b (ev_records st)\<rparr>) = (if k = j then b else bucket k st)"
  by (simp add: bucket_def)

lemma bucket_erase: "bucket k (st\<lparr>ev_records := om_erase j (ev_records st)\<rparr>) = (if k = j then [] else bucket k st)"
  by (simp add: bucket_def)

lemma bucket_update [simp]:
  "bucket k (st\<lparr>ev_order := a\<rparr>) = bucket k st" "bucket k (st\<lparr>ev_count := n\<rparr>) = bucket k st"
  "bucket k (st\<lparr>ev_dropped := d\<rparr>) = bucket k st" "bucket k (st\<lparr>ev_watermark := w\<rparr>) = bucket k st"
  by (simp_all add: bucket_def)

lemma om_put_total:
  "om_wf m \<Longrightarrow> total_records (om_put k b m) + (case map_of m k of None \<Rightarrow> 0 | Some b' \<Rightarrow> length b') =
     total_records m + length b"
proof (induction m)
  case (Cons e m)
  obtain a x where e: "e = (a, x)" by (cases e)
  have "k < a \<Longrightarrow> map_of m k = None"
    using Cons.prems by (force simp: e map_of_eq_None_iff)
  then show ?case using Cons by (auto simp: e total_records_def)
qed (simp add: total_records_def)

lemma om_erase_total:
  "om_wf m \<Longrightarrow> total_records (om_erase k m) + (case map_of m k of None \<Rightarrow> 0 | Some b \<Rightarrow> length b) =
     total_records m"
proof (induction m)
  case (Cons e m)
  obtain a x where e: "e = (a, x)" by (cases e)
  have "k = a \<Longrightarrow> map_of m k = None" "k = a \<Longrightarrow> om_erase k m = m"
    using Cons.prems by (force simp: e map_of_eq_None_iff om_erase_def filter_id_conv)+
  then show ?case using Cons by (auto simp: e total_records_def om_erase_def split: option.splits)
qed (simp add: total_records_def om_erase_def)

lemma ev_base_bucket:
  "ev_base st \<Longrightarrow> map_of (ev_records st) k = Some b \<Longrightarrow> bucket_ok k b"
  unfolding ev_base_def list_all_iff using map_of_SomeD [of "ev_records st" k b] by fastforce

lemma ev_base_put:
  assumes "ev_base st" and "bucket_ok k b" and "n + length (bucket k st) = ev_count st + length b"
  shows "ev_base (st\<lparr>ev_records := om_put k b (ev_records st), ev_count := n\<rparr>)"
proof -
  have "n = total_records (om_put k b (ev_records st))"
    using om_put_total [of "ev_records st" k b] assms
    by (simp add: ev_base_def bucket_def split: option.splits)
  then show ?thesis
    using assms om.put_keeps_all [of "ev_records st" bucket_ok k b]
    by (simp add: ev_base_def list_all_iff)
qed

lemma ev_base_erase:
  assumes "ev_base st" and "n + length (bucket k st) = ev_count st"
  shows "ev_base (st\<lparr>ev_records := om_erase k (ev_records st), ev_count := n\<rparr>)"
proof -
  have "n = total_records (om_erase k (ev_records st))"
    using om_erase_total [of "ev_records st" k] assms
    by (simp add: ev_base_def bucket_def split: option.splits)
  then show ?thesis
    using assms om_wf_erase [of "ev_records st" k]
    by (simp add: ev_base_def list_all_iff) (auto simp: om_erase_def)
qed

lemma ev_base_frame [simp]:
  "ev_base (st\<lparr>ev_order := a\<rparr>) = ev_base st" "ev_base (st\<lparr>ev_dropped := d\<rparr>) = ev_base st"
  "ev_base (st\<lparr>ev_watermark := w\<rparr>) = ev_base st"
  by (simp_all add: ev_base_def)

lemma bucket_evict_one:
  "map_of (ev_records st) victim = Some found \<Longrightarrow>
   bucket k (evict_one g victim found st) =
     (if k = victim then filter (\<lambda>c. e_generation c \<noteq> g) (bucket k st) else bucket k st)"
  by (auto simp: evict_one_def Let_def bucket_def)

lemma evict_one_fields [simp]:
  "ev_max (evict_one g v b st) = ev_max st" "ev_watermark (evict_one g v b st) = ev_watermark st"
  by (simp_all add: evict_one_def Let_def)

lemma removed_bound:
  assumes "ev_base st" and "map_of (ev_records st) victim = Some found"
  shows "length found \<le> ev_count st"
  using om_erase_total [of "ev_records st" victim] assms by (simp add: ev_base_def)

lemma ev_base_evict_one:
  assumes base: "ev_base st" and found: "map_of (ev_records st) victim = Some found"
  shows "ev_base (evict_one g victim found st)"
proof -
  let ?kept = "filter (\<lambda>c. e_generation c \<noteq> g) found"
  have ok: "bucket_ok victim found" by (rule ev_base_bucket [OF base found])
  have bound: "length found \<le> ev_count st" by (rule removed_bound [OF base found])
  have len: "length ?kept \<le> length found" by simp
  have b: "bucket victim st = found" using found by (simp add: bucket_def)
  show ?thesis
  proof (cases "?kept = []")
    case True
    then have "ev_base (st\<lparr>ev_records := om_erase victim (ev_records st), ev_count := ev_count st - length found\<rparr>)"
      using bound b by (intro ev_base_erase [OF base]) simp
    then show ?thesis using True by (simp add: evict_one_def Let_def ev_base_def)
  next
    case False
    have "bucket_ok victim ?kept"
      using ok False by (auto simp: bucket_ok_def list_all_iff intro: sorted_filter)
    then have "ev_base (st\<lparr>ev_records := om_put victim ?kept (ev_records st),
        ev_count := ev_count st - (length found - length ?kept)\<rparr>)"
      using bound b len by (intro ev_base_put [OF base]) simp_all
    then show ?thesis using False by (simp add: evict_one_def Let_def ev_base_def)
  qed
qed

lemma conserve:
  assumes "r \<le> n"
  shows "of_nat (n - r) + (d + of_nat r) = of_nat n + (d :: u64)"
proof -
  have "of_nat n = of_nat (n - r) + (of_nat r :: u64)"
    by (simp only: of_nat_add [symmetric] le_add_diff_inverse2 [OF assms])
  then show ?thesis by (simp only: ac_simps)
qed

lemma evict_one_conserves:
  assumes "ev_base st" and "map_of (ev_records st) victim = Some found"
  shows "of_nat (ev_count (evict_one g victim found st)) + ev_dropped (evict_one g victim found st) =
    of_nat (ev_count st) + ev_dropped st"
proof -
  define removed where "removed = length found - length (filter (\<lambda>c. e_generation c \<noteq> g) found)"
  have count: "ev_count (evict_one g victim found st) = ev_count st - removed"
    and dropped: "ev_dropped (evict_one g victim found st) = ev_dropped st + of_nat removed"
    by (simp_all only: evict_one_def Let_def removed_def) simp_all
  have "removed \<le> ev_count st"
    using removed_bound [OF assms] by (simp add: removed_def)
  then show ?thesis by (simp only: count dropped conserve)
qed

lemma covers_evict_one:
  assumes "covers ((g, v) # order) st" and "map_of (ev_records st) v = Some found"
  shows "covers order (evict_one g v found st)"
  using assms by (auto simp: covers_def bucket_evict_one split: if_splits)

lemma covers_skip:
  assumes "covers ((g, v) # order) st" and "map_of (ev_records st) v = None"
  shows "covers order st"
  unfolding covers_def
proof (intro conjI allI ballI)
  fix k r assume r: "r \<in> set (bucket k st)"
  have "k \<noteq> v" using assms(2) r by (auto simp: bucket_def)
  have "map_of ((g, v) # order) (e_generation r) = Some k"
    using assms(1) r unfolding covers_def by blast
  then show "map_of order (e_generation r) = Some k"
    using \<open>k \<noteq> v\<close> by (auto split: if_splits)
qed (use assms(1) in \<open>simp add: covers_def\<close>)

lemma covers_order [simp]: "covers a (st\<lparr>ev_order := b\<rparr>) = covers a st"
  by (simp add: covers_def)

lemma total_records_zero:
  assumes "ev_base st" and "covers [] st"
  shows "ev_count st = 0"
proof -
  have "ev_records st = []"
  proof (rule ccontr)
    assume "ev_records st \<noteq> []"
    then obtain k b rest where kb: "ev_records st = (k, b) # rest" by (metis neq_Nil_conv surj_pair)
    then have "map_of (ev_records st) k = Some b" by simp
    then have "b \<noteq> []" and "bucket k st = b"
      using ev_base_bucket [OF assms(1)] by (auto simp: bucket_ok_def bucket_def)
    then have "hd b \<in> set (bucket k st)" by simp
    then show False using assms(2) unfolding covers_def by fastforce
  qed
  then show ?thesis using assms(1) by (simp add: ev_base_def total_records_def)
qed

lemma evict_spec:
  assumes "ev_base st" and "covers order st"
  shows "ev_base (evict order st) \<and> covers (ev_order (evict order st)) (evict order st) \<and>
    (ev_count (evict order st) < ev_max st \<or> ev_count (evict order st) = 0) \<and>
    ev_max (evict order st) = ev_max st \<and> ev_watermark (evict order st) = ev_watermark st \<and>
    of_nat (ev_count (evict order st)) + ev_dropped (evict order st) = of_nat (ev_count st) + ev_dropped st \<and>
    (\<forall>k. set (bucket k (evict order st)) \<subseteq> set (bucket k st)) \<and>
    set (ev_order (evict order st)) \<subseteq> set order"
  using assms
proof (induction order arbitrary: st)
  case Nil
  then show ?case using total_records_zero [OF Nil] by simp
next
  case (Cons gv order)
  obtain g v where gv: "gv = (g, v)" by (cases gv)
  show ?case
  proof (cases "ev_count st < ev_max st")
    case True
    then show ?thesis using Cons.prems by (simp add: gv)
  next
    case full: False
    show ?thesis
    proof (cases "map_of (ev_records st) v")
      case None
      have "covers order st" using covers_skip Cons.prems(2) None by (simp add: gv)
      then show ?thesis using Cons.IH [OF Cons.prems(1)] full None by (simp add: gv) blast
    next
      case (Some found)
      let ?st = "evict_one g v found st"
      have base: "ev_base ?st" by (rule ev_base_evict_one [OF Cons.prems(1) Some])
      have cov: "covers order ?st" using covers_evict_one [of g v order st] Cons.prems(2) Some by (simp add: gv)
      have sub: "set (bucket k ?st) \<subseteq> set (bucket k st)" for k
        by (auto simp: bucket_evict_one [OF Some])
      have "\<forall>k. set (bucket k (evict order ?st)) \<subseteq> set (bucket k st)"
        using Cons.IH [OF base cov] sub by blast
      then show ?thesis
        using Cons.IH [OF base cov] full Some evict_one_conserves [OF Cons.prems(1) Some, of g]
        by (simp add: gv) blast
    qed
  qed
qed

lemma ev_wf_empty: "ev_wf (empty_evidence n)"
  by (simp add: ev_wf_def empty_evidence_def ev_base_def below_watermark_def covers_def bucket_def
      total_records_def)

text \<open>The gate of \<open>publish\<close>: under the invariant the watermark subsumes the bucket checks.\<close>

definition publishable :: "evidence_record \<Rightarrow> evidence_store \<Rightarrow> bool" where
  "publishable r st \<longleftrightarrow> id_valid (es_version (e_subject r)) \<and> length (e_detail r) \<le> 256 \<and>
     length (e_unit r) \<le> 32 \<and> ev_watermark st < e_generation r"

definition file_record :: "evidence_record \<Rightarrow> evidence_store \<Rightarrow> evidence_store" where
  "file_record r st =
     (let key = make_key (e_subject r) (e_kind r) in
      st\<lparr>ev_records := om_put key (bucket key st @ [r]) (ev_records st),
         ev_order := om_emplace (e_generation r) key (ev_order st),
         ev_count := ev_count st + 1, ev_watermark := e_generation r\<rparr>)"

lemma bucket_generations:
  assumes "ev_wf st" and "r \<in> set (bucket k st)"
  shows "e_generation r \<noteq> 0" and "e_generation r \<le> ev_watermark st"
proof -
  obtain b where b: "map_of (ev_records st) k = Some b" "r \<in> set b"
    using assms(2) by (cases "map_of (ev_records st) k") (auto simp: bucket_def)
  then have "bucket_ok k b" using assms(1) ev_base_bucket [of st k b] by (simp add: ev_wf_def)
  with b(2) show "e_generation r \<noteq> 0" by (auto simp: bucket_ok_def list_all_iff id_valid_def)
  show "e_generation r \<le> ev_watermark st"
    using assms unfolding ev_wf_def below_watermark_def by blast
qed

lemma publish_evidence_cases:
  assumes wf: "ev_wf st"
  shows "publish_evidence r st =
    (if publishable r st then (new_decision OC_Accepted, file_record r (evict (ev_order st) st))
     else (fst (publish_evidence r st), st))"
    and "allowed (fst (publish_evidence r st)) \<longleftrightarrow> publishable r st"
proof -
  let ?old = "bucket (make_key (e_subject r) (e_kind r)) st"
  have last: "?old \<noteq> [] \<Longrightarrow> e_generation (last ?old) \<noteq> 0 \<and> e_generation (last ?old) \<le> ev_watermark st"
    using bucket_generations [OF wf, of "last ?old" "make_key (e_subject r) (e_kind r)"] by simp
  have new: "?old \<noteq> [] \<Longrightarrow> ev_watermark st < e_generation r \<Longrightarrow> e_generation (last ?old) < e_generation r"
    using last by (metis order_le_less_trans)
  have zero: "ev_watermark st < e_generation r \<Longrightarrow> e_generation r \<noteq> 0" by auto
  have bound: "\<not> kEvidenceKindCount \<le> evidence_kind_index (e_kind r)"
    using evidence_kind_index_bound by (simp add: not_le)
  have pass: "publish_evidence r st = (new_decision OC_Accepted, file_record r (evict (ev_order st) st))"
    if "publishable r st"
    using that bound new zero
    by (auto simp: publish_evidence_def publishable_def file_record_def Let_def id_valid_def not_less
        not_le)
  have fail: "snd (publish_evidence r st) = st \<and> \<not> allowed (fst (publish_evidence r st))"
    if "\<not> publishable r st"
  proof (cases "id_valid (es_version (e_subject r)) \<and> length (e_detail r) \<le> 256 \<and> length (e_unit r) \<le> 32")
    case True
    then have "e_generation r \<le> ev_watermark st" using that by (auto simp: publishable_def)
    moreover have "ev_watermark st = 0 \<Longrightarrow> ?old = [] \<and> e_generation r = 0"
      using last calculation by auto
    ultimately show ?thesis
      by (auto simp: publish_evidence_def Let_def id_valid_def)
  qed (auto simp: publish_evidence_def Let_def)
  show "publish_evidence r st =
    (if publishable r st then (new_decision OC_Accepted, file_record r (evict (ev_order st) st))
     else (fst (publish_evidence r st), st))"
    using pass fail by (cases "publish_evidence r st") auto
  show "allowed (fst (publish_evidence r st)) \<longleftrightarrow> publishable r st"
    using pass fail by auto
qed

lemma bucket_file_record:
  "bucket k (file_record r st) =
     (if k = make_key (e_subject r) (e_kind r) then bucket k st @ [r] else bucket k st)"
  by (auto simp: file_record_def Let_def bucket_def)

lemma file_record_wf:
  assumes base: "ev_base st" and cov: "covers (ev_order st) st" and valid: "id_valid (e_generation r)"
    and below: "\<And>k x. x \<in> set (bucket k st) \<Longrightarrow> e_generation x < e_generation r"
    and order: "\<forall>e \<in> set (ev_order st). fst e < e_generation r"
  shows "ev_wf (file_record r st)"
proof -
  define key where "key = make_key (e_subject r) (e_kind r)"
  let ?b = "bucket key st @ [r]"
  have "bucket_ok key ?b"
  proof (cases "map_of (ev_records st) key")
    case None
    then show ?thesis using valid by (simp add: bucket_def bucket_ok_def key_def)
  next
    case (Some b)
    then have "bucket_ok key b" using ev_base_bucket [OF base] by simp
    moreover have "bucket key st = b" using Some by (simp add: bucket_def)
    ultimately show ?thesis
      using valid below [of _ key] by (auto simp: bucket_ok_def key_def sorted_append order_le_less)
  qed
  then have "ev_base (st\<lparr>ev_records := om_put key ?b (ev_records st), ev_count := ev_count st + 1\<rparr>)"
    by (intro ev_base_put [OF base]) simp_all
  then have "ev_base (file_record r st)"
    by (simp add: file_record_def Let_def ev_base_def key_def)
  moreover have fresh: "map_of (ev_order st) (e_generation r) = None"
    using order by (force simp: map_of_eq_None_iff)
  have "covers (ev_order (file_record r st)) (file_record r st)"
    unfolding covers_def
  proof (intro conjI allI ballI)
    show "om_wf (ev_order (file_record r st))"
      using cov by (simp add: covers_def file_record_def Let_def)
    fix k x assume "x \<in> set (bucket k (file_record r st))"
    then consider "x = r" "k = key" | "x \<in> set (bucket k st)"
      by (auto simp: bucket_file_record key_def split: if_splits)
    then show "map_of (ev_order (file_record r st)) (e_generation x) = Some k"
    proof cases
      case 1
      then show ?thesis using fresh by (simp add: file_record_def Let_def om_emplace_def key_def)
    next
      case 2
      then have "e_generation x < e_generation r" and "map_of (ev_order st) (e_generation x) = Some k"
        using below cov unfolding covers_def by blast+
      then show ?thesis using fresh by (auto simp: file_record_def Let_def om_emplace_def)
    qed
  qed
  moreover have "below_watermark (file_record r st)"
    unfolding below_watermark_def
  proof (intro allI ballI)
    fix k x assume "x \<in> set (bucket k (file_record r st))"
    then have "x = r \<or> x \<in> set (bucket k st)" by (auto simp: bucket_file_record split: if_splits)
    then have "e_generation x \<le> e_generation r" using below order_less_imp_le by blast
    then show "e_generation x \<le> ev_watermark (file_record r st)" by (simp add: file_record_def Let_def)
  qed
  moreover have "\<forall>e \<in> set (ev_order (file_record r st)). fst e \<le> ev_watermark (file_record r st)"
  proof
    fix e assume "e \<in> set (ev_order (file_record r st))"
    then have "e \<in> set (om_put (e_generation r) key (ev_order st))"
      using fresh by (simp add: file_record_def Let_def om_emplace_def key_def)
    then have "e = (e_generation r, key) \<or> e \<in> set (ev_order st)" 
      using om_put_subset [of "e_generation r" key "ev_order st"] by blast
    then have "fst e \<le> e_generation r"
    proof
      assume "e \<in> set (ev_order st)"
      then have "fst e < e_generation r" using order by blast
      then show ?thesis by simp
    qed simp
    then show "fst e \<le> ev_watermark (file_record r st)" by (simp add: file_record_def Let_def)
  qed
  ultimately show ?thesis by (simp add: ev_wf_def)
qed

lemma ev_wf_publish:
  assumes wf: "ev_wf st" and ok: "publishable r st"
  shows "ev_wf (file_record r (evict (ev_order st) st))"
    and "ev_count (file_record r (evict (ev_order st) st)) \<le> max 1 (ev_max st)"
    and "of_nat (ev_count (file_record r (evict (ev_order st) st))) +
        ev_dropped (file_record r (evict (ev_order st) st)) = of_nat (ev_count st) + ev_dropped st + 1"
proof -
  let ?st = "evict (ev_order st) st"
  have base: "ev_base st" and cov: "covers (ev_order st) st"
    and order: "\<forall>e \<in> set (ev_order st). fst e \<le> ev_watermark st" using wf by (auto simp: ev_wf_def)
  note evicted = evict_spec [OF base cov]
  have gen: "ev_watermark st < e_generation r" using ok by (simp add: publishable_def)
  then have "id_valid (e_generation r)" by (auto simp: id_valid_def)
  moreover have "e_generation x < e_generation r" if "x \<in> set (bucket k ?st)" for k x
  proof -
    have "x \<in> set (bucket k st)" using that evicted by blast
    from order_le_less_trans [OF bucket_generations(2) [OF wf this] gen] show ?thesis .
  qed
  moreover have "\<forall>e \<in> set (ev_order ?st). fst e < e_generation r"
  proof
    fix e assume "e \<in> set (ev_order ?st)"
    then have "fst e \<le> ev_watermark st" using order evicted by blast
    from order_le_less_trans [OF this gen] show "fst e < e_generation r" .
  qed
  ultimately show "ev_wf (file_record r ?st)"
    using evicted by (intro file_record_wf) auto
  show "ev_count (file_record r ?st) \<le> max 1 (ev_max st)"
    using evicted by (auto simp: file_record_def Let_def)
  have "of_nat (ev_count ?st) + ev_dropped ?st = of_nat (ev_count st) + ev_dropped st"
    using evicted by blast
  moreover have "(of_nat (ev_count ?st) + 1) + ev_dropped ?st = (of_nat (ev_count ?st) + ev_dropped ?st) + 1"
    by (simp only: ac_simps)
  ultimately have "(1 + of_nat (ev_count ?st)) + ev_dropped ?st = of_nat (ev_count st) + ev_dropped st + 1"
    by (simp only: add.commute [of 1 "of_nat (ev_count ?st)"])
  then show "of_nat (ev_count (file_record r ?st)) + ev_dropped (file_record r ?st) =
      of_nat (ev_count st) + ev_dropped st + 1"
    by (simp only: file_record_def Let_def evidence_store.simps of_nat_add of_nat_1)
      (simp add: ac_simps)
qed

section \<open>Resolution finds the newest exact record\<close>

definition newest_exact :: "evidence_subject \<Rightarrow> evidence_record list \<Rightarrow> evidence_record option" where
  "newest_exact subject b = find (\<lambda>r. e_subject r = subject) (rev b)"

lemma pick_candidate_exact:
  "pick_candidate True subject rs fallback = Inr c \<longleftrightarrow> find (\<lambda>r. e_subject r = subject) rs = Some c"
  by (induction True subject rs fallback rule: pick_candidate.induct) (auto split: option.splits)

lemma find_Some_split:
  "find P xs = Some x \<Longrightarrow> \<exists>ys zs. xs = ys @ x # zs \<and> P x \<and> (\<forall>y \<in> set ys. \<not> P y)"
proof (induction xs)
  case (Cons a xs)
  show ?case
  proof (cases "P a")
    case True
    then show ?thesis using Cons.prems by (intro exI [of _ "[]"] exI [of _ xs]) auto
  next
    case False
    then obtain ys zs where "xs = ys @ x # zs \<and> P x \<and> (\<forall>y \<in> set ys. \<not> P y)" using Cons by auto
    then show ?thesis using False by (intro exI [of _ "a # ys"] exI [of _ zs]) auto
  qed
qed simp

text \<open>In a bucket sorted by generation it has the greatest generation of its subject.\<close>

lemma newest_exact_max:
  assumes "newest_exact subject b = Some c" and "sorted (map e_generation b)"
  shows "c \<in> set b" and "e_subject c = subject"
    and "r \<in> set b \<Longrightarrow> e_subject r = subject \<Longrightarrow> e_generation r \<le> e_generation c"
proof -
  obtain ys zs where split: "rev b = ys @ c # zs" and c: "e_subject c = subject"
    and none: "\<forall>y \<in> set ys. e_subject y \<noteq> subject"
    using find_Some_split [OF assms(1) [unfolded newest_exact_def]] by blast
  have b: "b = rev zs @ c # rev ys" using arg_cong [OF split, of rev] by simp
  show "c \<in> set b" "e_subject c = subject" using b c by auto
  show "r \<in> set b \<Longrightarrow> e_subject r = subject \<Longrightarrow> e_generation r \<le> e_generation c"
    using assms(2) none by (auto simp: b sorted_append)
qed

section \<open>Removal keeps the invariant\<close>

lemma bucket_dropped:
  assumes "om_wf m"
  shows "map_of (filter (\<lambda>e. snd e \<noteq> []) (map (\<lambda>(k, b). (k, f k b)) m)) k =
    (case map_of m k of None \<Rightarrow> None | Some b \<Rightarrow> if f k b = [] then None else Some (f k b))"
  using assms
proof (induction m)
  case (Cons e m)
  obtain a x where e: "e = (a, x)" by (cases e)
  have "map_of m a = None" using Cons.prems by (force simp: e map_of_eq_None_iff)
  then show ?case using Cons by (auto simp: e split: option.splits)
qed simp

lemma om_wf_filter: "om_wf m \<Longrightarrow> om_wf (filter P m)"
  by (induction m) auto

lemma om_wf_keep_keys: "om_wf m \<Longrightarrow> om_wf (map (\<lambda>(k, b). (k, f k b)) m)"
  by (induction m) auto

lemma total_records_filter:
  "total_records (filter (\<lambda>e. snd e \<noteq> []) (map (\<lambda>(k, b). (k, filter (P k) b)) m)) \<le> total_records m"
  by (induction m) (auto simp: total_records_def intro: add_mono trans_le_add2)

lemma ev_wf_drop_records:
  assumes wf: "ev_wf st"
  shows "ev_wf (snd (drop_records P st))"
    and "bucket k (snd (drop_records P st)) = filter (\<lambda>r. \<not> P k r) (bucket k st)"
    and "of_nat (ev_count (snd (drop_records P st))) + ev_dropped (snd (drop_records P st)) =
      of_nat (ev_count st) + ev_dropped st"
proof -
  let ?st = "snd (drop_records P st)"
  define kept where "kept = filter (\<lambda>e. snd e \<noteq> []) (map (\<lambda>(k, b). (k, filter (\<lambda>r. \<not> P k r) b)) (ev_records st))"
  define removed where "removed = total_records (ev_records st) - total_records kept"
  have st: "?st = st\<lparr>ev_records := kept, ev_count := ev_count st - removed,
      ev_dropped := ev_dropped st + of_nat removed,
      ev_order := filter (\<lambda>e. map_of kept (snd e) \<noteq> None) (ev_order st)\<rparr>"
    by (simp add: drop_records_def kept_def removed_def Let_def)
  have base: "ev_base st" and omwf: "om_wf (ev_records st)" using wf by (auto simp: ev_wf_def ev_base_def)
  have le: "total_records kept \<le> total_records (ev_records st)"
    unfolding kept_def by (rule total_records_filter)
  have find: "map_of kept k = (case map_of (ev_records st) k of None \<Rightarrow> None
      | Some b \<Rightarrow> if filter (\<lambda>r. \<not> P k r) b = [] then None else Some (filter (\<lambda>r. \<not> P k r) b))" for k
    unfolding kept_def by (rule bucket_dropped [OF omwf])
  show bucket: "bucket k ?st = filter (\<lambda>r. \<not> P k r) (bucket k st)" for k
    by (auto simp: st bucket_def find split: option.splits)
  have kept_wf: "om_wf kept"
    unfolding kept_def by (intro om_wf_filter om_wf_keep_keys omwf)
  have "list_all (\<lambda>e. bucket_ok (fst e) (snd e)) kept"
    unfolding list_all_iff
  proof
    fix e assume "e \<in> set kept"
    then have "map_of kept (fst e) = Some (snd e)" using om_entry_find [OF kept_wf, of "fst e" "snd e"] by simp
    then obtain b where b: "map_of (ev_records st) (fst e) = Some b" "snd e = filter (\<lambda>r. \<not> P (fst e) r) b"
        "snd e \<noteq> []" by (auto simp: find split: option.splits if_splits)
    then show "bucket_ok (fst e) (snd e)"
      using ev_base_bucket [OF base b(1)] by (auto simp: bucket_ok_def list_all_iff intro: sorted_filter)
  qed
  moreover have count: "ev_count st = total_records (ev_records st)" using base by (simp add: ev_base_def)
  ultimately have "ev_base ?st"
    using kept_wf le by (simp add: st ev_base_def removed_def)
  moreover have "below_watermark ?st"
    using wf unfolding ev_wf_def below_watermark_def bucket by (simp add: st del: split_paired_All) blast
  moreover have "covers (ev_order ?st) ?st"
    unfolding covers_def
  proof (intro conjI allI ballI)
    show "om_wf (ev_order ?st)" using wf by (simp add: st ev_wf_def covers_def om_wf_filter)
    fix k r assume r: "r \<in> set (bucket k ?st)"
    then have "r \<in> set (bucket k st)" by (simp add: bucket)
    then have old: "map_of (ev_order st) (e_generation r) = Some k"
      using wf unfolding ev_wf_def covers_def by blast
    have "map_of kept k \<noteq> None" using r by (cases "map_of kept k") (auto simp: st bucket_def)
    moreover have order: "om_wf (ev_order st)" using wf by (simp add: ev_wf_def covers_def)
    then have "(e_generation r, k) \<in> set (ev_order st)" using old by (simp add: om_entry_find)
    ultimately have "(e_generation r, k) \<in> set (ev_order ?st)" by (simp add: st)
    moreover have "om_wf (ev_order ?st)" using order by (simp add: st om_wf_filter)
    ultimately show "map_of (ev_order ?st) (e_generation r) = Some k"
      by (simp add: om_entry_find)
  qed
  moreover have "\<forall>e \<in> set (ev_order ?st). fst e \<le> ev_watermark ?st"
    using wf by (auto simp: st ev_wf_def)
  ultimately show "ev_wf ?st" by (simp add: ev_wf_def)
  have "removed \<le> ev_count st" using count by (simp add: removed_def)
  from conserve [OF this, of "ev_dropped st"] show "of_nat (ev_count ?st) + ev_dropped ?st = of_nat (ev_count st) + ev_dropped st"
    by (subst (1 2) st) simp
qed

section \<open>Properties\<close>

definition sample_subject :: evidence_subject where
  "sample_subject = empty_subject\<lparr>es_model := 1, es_version := 1, es_model_generation := 1\<rparr>"

definition sample_evidence :: evidence_record where
  "sample_evidence = \<lparr>e_id = 1, e_generation = 1, e_kind = EK_HealthCheck, e_verdict = EV_Satisfied,
     e_subject = sample_subject, e_provenance = PV_Synthetic, e_worker = 0, e_boot = 0, e_epoch = 1,
     e_policy_generation = 1, e_value = 0, e_unit = [], e_tick = 0, e_detail = []\<rparr>"

text \<open>
  C19 Publishing evidence. A record is accepted exactly when it names a version, keeps the
  length bounds and advances the watermark; then it is the latest of its subject and kind,
  the store stays well formed and within its bound, and a record either is still stored or
  has been counted as dropped. A refused record changes nothing.
\<close>

theorem evidence_publish_bounded:
  assumes "ev_wf st" and "publish_evidence r st = (d, st')"
  shows "ev_wf st' \<and> (allowed d \<longleftrightarrow> publishable r st) \<and>
    (if publishable r st
     then latest (e_subject r) (e_kind r) st' = Some r \<and> ev_watermark st' = e_generation r \<and>
       ev_count st' \<le> max 1 (ev_max st) \<and>
       of_nat (ev_count st') + ev_dropped st' = of_nat (ev_count st) + ev_dropped st + 1
     else st' = st)"
proof (cases "publishable r st")
  case True
  then have st': "st' = file_record r (evict (ev_order st) st)"
    using publish_evidence_cases(1) [OF assms(1), of r] assms(2) by simp
  have "latest (e_subject r) (e_kind r) st' = Some r"
    by (simp add: latest_def Let_def st' bucket_file_record)
  moreover have "ev_watermark st' = e_generation r" by (simp add: st' file_record_def Let_def)
  ultimately show ?thesis
    using ev_wf_publish [OF assms(1) True] publish_evidence_cases(2) [OF assms(1), of r] True assms(2)
    by (simp add: st')
next
  case False
  then show ?thesis
    using publish_evidence_cases [OF assms(1), of r] assms by simp
qed

lemma evidence_publish_bounded_witness:
  "ev_wf (snd (publish_evidence sample_evidence (empty_evidence 4))) \<and>
   (allowed (fst (publish_evidence sample_evidence (empty_evidence 4))) \<longleftrightarrow>
      publishable sample_evidence (empty_evidence 4)) \<and>
   (if publishable sample_evidence (empty_evidence 4)
    then latest (e_subject sample_evidence) (e_kind sample_evidence)
        (snd (publish_evidence sample_evidence (empty_evidence 4))) = Some sample_evidence \<and>
      ev_watermark (snd (publish_evidence sample_evidence (empty_evidence 4))) = e_generation sample_evidence \<and>
      ev_count (snd (publish_evidence sample_evidence (empty_evidence 4))) \<le> max 1 (ev_max (empty_evidence 4)) \<and>
      of_nat (ev_count (snd (publish_evidence sample_evidence (empty_evidence 4)))) +
        ev_dropped (snd (publish_evidence sample_evidence (empty_evidence 4))) =
        of_nat (ev_count (empty_evidence 4)) + ev_dropped (empty_evidence 4) + 1
    else snd (publish_evidence sample_evidence (empty_evidence 4)) = empty_evidence 4)"
  by (rule evidence_publish_bounded [OF ev_wf_empty]) simp

text \<open>
  C20 Resolving evidence for an exact subject. The lookup is usable exactly when the bucket
  holds a record of that very subject, and the newest such record has a known provenance, a
  current publisher where one is asked for, is not too old and is not contradicted; the
  record returned is that newest record, so no record of another subject and no superseded
  record is ever usable.
\<close>

theorem evidence_resolve_exact:
  assumes "er_require_exact_subject req"
    and "b = bucket (make_key subject (er_kind req)) st"
    and "l = resolve req subject boot must_be_current now max_age st"
  shows "usable l \<longleftrightarrow>
    es_version subject \<noteq> 0 \<and>
    (\<exists>c. newest_exact subject b = Some c \<and> el_record l = Some c \<and>
      \<not> list_ex (\<lambda>r. e_generation r = e_generation c \<and> e_subject r = subject \<and>
           e_verdict r \<noteq> e_verdict c) b \<and>
      e_provenance c \<noteq> PV_Unknown \<and>
      \<not> ((must_be_current \<or> er_require_current_publisher req) \<and> id_valid (e_boot c) \<and> e_boot c \<noteq> boot) \<and>
      \<not> (0 < max_age \<and> e_tick c < now \<and> max_age < now - e_tick c))"
proof (cases "pick_candidate True subject (rev b) None")
  case (Inl a)
  then have "newest_exact subject b = None"
    using pick_candidate_exact [of subject "rev b" None] unfolding newest_exact_def
    by (cases "find (\<lambda>r. e_subject r = subject) (rev b)") auto
  then show ?thesis
    using Inl assms by (auto simp: resolve_def usable_def Let_def)
next
  case (Inr c)
  then have c: "newest_exact subject b = Some c"
    using pick_candidate_exact [of subject "rev b" None c] unfolding newest_exact_def by simp
  then have "b \<noteq> []" by (auto simp: newest_exact_def)
  then show ?thesis
    using Inr assms c by (auto simp: resolve_def usable_def Let_def)
qed

definition sample_requirement :: evidence_requirement where
  "sample_requirement = \<lparr>er_kind = EK_HealthCheck, er_required_verdict = EV_Satisfied,
     er_require_exact_subject = True, er_require_current_publisher = False\<rparr>"

lemma evidence_resolve_exact_witness:
  "usable (resolve sample_requirement sample_subject 0 False 0 0 (empty_evidence 4)) \<longleftrightarrow>
    es_version sample_subject \<noteq> 0 \<and>
    (\<exists>c. newest_exact sample_subject (bucket (make_key sample_subject EK_HealthCheck) (empty_evidence 4)) = Some c \<and>
      el_record (resolve sample_requirement sample_subject 0 False 0 0 (empty_evidence 4)) = Some c \<and>
      \<not> list_ex (\<lambda>r. e_generation r = e_generation c \<and> e_subject r = sample_subject \<and>
           e_verdict r \<noteq> e_verdict c)
          (bucket (make_key sample_subject EK_HealthCheck) (empty_evidence 4)) \<and>
      e_provenance c \<noteq> PV_Unknown \<and>
      \<not> ((False \<or> er_require_current_publisher sample_requirement) \<and> id_valid (e_boot c) \<and> e_boot c \<noteq> 0) \<and>
      \<not> (0 < (0::u64) \<and> e_tick c < 0 \<and> 0 < 0 - e_tick c))"
  by (rule evidence_resolve_exact) (simp_all add: sample_requirement_def)

end
