(* ===== verification/Mlf_Compat.thy ===== *)
theory Mlf_Compat
  imports Mlf_Artifact
begin

text \<open>
  Compatibility of include/mlf/compatibility.hpp and src/compatibility.cpp: the outcomes,
  the comparison of dotted versions, the evaluation of declared requirements against an
  environment, and the registry of published facts.
\<close>

section \<open>Outcomes\<close>

datatype compatibility_outcome =
    CO_COMPATIBLE | CO_COMPATIBLE_WITH_REBUILD | CO_COMPATIBLE_WITH_RECOMPILE |
    CO_COMPATIBLE_WITH_CONVERSION | CO_INCOMPATIBLE_ARTIFACT | CO_INCOMPATIBLE_RUNTIME |
    CO_INCOMPATIBLE_BACKEND | CO_INCOMPATIBLE_ARCHITECTURE | CO_INCOMPATIBLE_PRECISION |
    CO_INCOMPATIBLE_TOKENIZER | CO_INCOMPATIBLE_ADAPTER | CO_INCOMPATIBLE_POLICY |
    CO_UNKNOWN | CO_STALE_EVIDENCE | CO_UNSUPPORTED

definition kCompatibilityOutcomeNames :: "(compatibility_outcome \<times> string) list" where
  "kCompatibilityOutcomeNames =
    [(CO_COMPATIBLE, ''COMPATIBLE''),
     (CO_COMPATIBLE_WITH_REBUILD, ''COMPATIBLE_WITH_REBUILD''),
     (CO_COMPATIBLE_WITH_RECOMPILE, ''COMPATIBLE_WITH_RECOMPILE''),
     (CO_COMPATIBLE_WITH_CONVERSION, ''COMPATIBLE_WITH_CONVERSION''),
     (CO_INCOMPATIBLE_ARTIFACT, ''INCOMPATIBLE_ARTIFACT''),
     (CO_INCOMPATIBLE_RUNTIME, ''INCOMPATIBLE_RUNTIME''),
     (CO_INCOMPATIBLE_BACKEND, ''INCOMPATIBLE_BACKEND''),
     (CO_INCOMPATIBLE_ARCHITECTURE, ''INCOMPATIBLE_ARCHITECTURE''),
     (CO_INCOMPATIBLE_PRECISION, ''INCOMPATIBLE_PRECISION''),
     (CO_INCOMPATIBLE_TOKENIZER, ''INCOMPATIBLE_TOKENIZER''),
     (CO_INCOMPATIBLE_ADAPTER, ''INCOMPATIBLE_ADAPTER''),
     (CO_INCOMPATIBLE_POLICY, ''INCOMPATIBLE_POLICY''),
     (CO_UNKNOWN, ''UNKNOWN''), (CO_STALE_EVIDENCE, ''STALE_EVIDENCE''),
     (CO_UNSUPPORTED, ''UNSUPPORTED'')]"

definition to_string_compatibility :: "compatibility_outcome \<Rightarrow> string" where
  "to_string_compatibility outcome =
     (case find (\<lambda>entry. fst entry = outcome) kCompatibilityOutcomeNames of
        Some entry \<Rightarrow> snd entry
      | None \<Rightarrow> ''UNKNOWN'')"

definition parse_compatibility_outcome :: "string \<Rightarrow> compatibility_outcome option" where
  "parse_compatibility_outcome txt =
     map_option fst (find (\<lambda>entry. snd entry = txt) kCompatibilityOutcomeNames)"

definition is_serving_compatible :: "compatibility_outcome \<Rightarrow> bool" where
  "is_serving_compatible c \<longleftrightarrow> c = CO_COMPATIBLE"

definition is_conditionally_compatible :: "compatibility_outcome \<Rightarrow> bool" where
  "is_conditionally_compatible c \<longleftrightarrow> c = CO_COMPATIBLE_WITH_REBUILD \<or>
     c = CO_COMPATIBLE_WITH_RECOMPILE \<or> c = CO_COMPATIBLE_WITH_CONVERSION"

primrec reason_for :: "compatibility_outcome \<Rightarrow> reason_code" where
  "reason_for CO_COMPATIBLE = NoReason"
| "reason_for CO_COMPATIBLE_WITH_REBUILD = (Cmp CompatibilityRequiresRebuild)"
| "reason_for CO_COMPATIBLE_WITH_RECOMPILE = (Cmp CompatibilityRequiresRecompile)"
| "reason_for CO_COMPATIBLE_WITH_CONVERSION = (Cmp CompatibilityRequiresConversion)"
| "reason_for CO_INCOMPATIBLE_ARTIFACT = (Cmp IncompatibleArtifact)"
| "reason_for CO_INCOMPATIBLE_RUNTIME = (Cmp IncompatibleRuntime)"
| "reason_for CO_INCOMPATIBLE_BACKEND = (Cmp IncompatibleBackend)"
| "reason_for CO_INCOMPATIBLE_ARCHITECTURE = (Cmp IncompatibleArchitecture)"
| "reason_for CO_INCOMPATIBLE_PRECISION = (Cmp IncompatiblePrecision)"
| "reason_for CO_INCOMPATIBLE_TOKENIZER = (Cmp IncompatibleTokenizer)"
| "reason_for CO_INCOMPATIBLE_ADAPTER = (Cmp IncompatibleAdapter)"
| "reason_for CO_INCOMPATIBLE_POLICY = (Cmp IncompatiblePolicy)"
| "reason_for CO_UNKNOWN = (Cmp CompatibilityUnknown)"
| "reason_for CO_STALE_EVIDENCE = (Cmp CompatibilityStale)"
| "reason_for CO_UNSUPPORTED = (Txn UnsupportedCapability)"

lemma reason_for_NoReason: "reason_for c = NoReason \<longleftrightarrow> c = CO_COMPATIBLE"
  by (cases c) simp_all

section \<open>Requirements and environments\<close>

record model_requirements =
  rq_runtime :: string
  rq_runtime_min_version :: string
  rq_backend :: string
  rq_architecture :: string
  rq_precision :: string
  rq_tokenizer_generation :: string
  rq_adapter_set :: string

definition empty_requirements :: model_requirements where
  "empty_requirements = \<lparr>rq_runtime = [], rq_runtime_min_version = [], rq_backend = [],
     rq_architecture = [], rq_precision = [], rq_tokenizer_generation = [], rq_adapter_set = []\<rparr>"

definition requirements_empty :: "model_requirements \<Rightarrow> bool" where
  "requirements_empty r \<longleftrightarrow> rq_runtime r = [] \<and> rq_backend r = [] \<and> rq_architecture r = [] \<and>
     rq_precision r = []"

text \<open>The set of supported precisions is a duplicate-free list.\<close>

record environment_profile =
  en_key :: string
  en_runtime :: string
  en_runtime_version :: string
  en_backend :: string
  en_backend_version :: string
  en_architecture :: string
  en_precisions :: "string list"
  en_tokenizer_generation :: string
  en_adapter_set :: string
  en_compute_capability :: u32
  en_provenance :: provenance

definition environment_valid :: "environment_profile \<Rightarrow> bool" where
  "environment_valid e \<longleftrightarrow> en_key e \<noteq> [] \<and> length (en_key e) \<le> 128"

section \<open>Version comparison\<close>

definition is_decimal :: "char \<Rightarrow> bool" where
  "is_decimal c \<longleftrightarrow> CHR ''0'' \<le> c \<and> c \<le> CHR ''9''"

definition split_component :: "string \<Rightarrow> string \<times> string" where
  "split_component component = (takeWhile is_decimal component, dropWhile is_decimal component)"

text \<open>Skip leading zeros, keeping the last digit.\<close>

fun skip_zeros :: "string \<Rightarrow> string" where
  "skip_zeros (c # d # rest) = (if c = CHR ''0'' then skip_zeros (d # rest) else c # d # rest)"
| "skip_zeros s = s"

definition compare_numeric :: "string \<Rightarrow> string \<Rightarrow> int" where
  "compare_numeric a b =
     (let na = skip_zeros a; nb = skip_zeros b in
      if length na \<noteq> length nb then (if length na < length nb then - 1 else 1)
      else if na \<noteq> nb then (if na < nb then - 1 else 1)
      else 0)"

definition compare_component :: "string \<Rightarrow> string \<Rightarrow> int" where
  "compare_component pa pb =
     (let (na, ra) = split_component pa; (nb, rb) = split_component pb in
      if na \<noteq> [] \<and> nb \<noteq> [] then
        (let numeric = compare_numeric na nb in
         if numeric \<noteq> 0 then numeric
         else if ra \<noteq> rb then
           (if ra = [] then 1 else if rb = [] then - 1 else if ra < rb then - 1 else 1)
         else 0)
      else if pa \<noteq> pb then (if pa < pb then - 1 else 1)
      else 0)"

lemma dropWhile_tl_shorter: "dropWhile P a \<noteq> [] \<Longrightarrow> length (tl (dropWhile P a)) < length a"
  using length_dropWhile_le [of P a] by (cases "dropWhile P a") auto

text \<open>The loop of \<open>compare_versions\<close>; the arguments are the texts from the two cursors on.\<close>

function compare_versions :: "string \<Rightarrow> string \<Rightarrow> int" where
  "compare_versions a b =
     (if a = [] \<and> b = [] then 0
      else
        let component = compare_component (takeWhile (\<lambda>c. c \<noteq> CHR ''.'') a) (takeWhile (\<lambda>c. c \<noteq> CHR ''.'') b);
            a_rest = dropWhile (\<lambda>c. c \<noteq> CHR ''.'') a; b_rest = dropWhile (\<lambda>c. c \<noteq> CHR ''.'') b in
        if component \<noteq> 0 then component
        else if a_rest = [] \<and> b_rest = [] then 0
        else if a_rest = [] then - 1
        else if b_rest = [] then 1
        else compare_versions (tl a_rest) (tl b_rest))"
  by pat_completeness auto
termination
proof (relation "measure (\<lambda>(a, b). length a + length b)", goal_cases)
  case (2 a b x xa xb)
  then have "length (tl xa) < length a" "length (tl xb) < length b"
    using dropWhile_tl_shorter by blast+
  then show ?case by simp
qed simp

declare compare_versions.simps [simp del]

definition cuda_architecture_token :: "u32 \<Rightarrow> u32 \<Rightarrow> string" where
  "cuda_architecture_token major minor = ''sm_'' @ show_nat (unat major) @ show_nat (unat minor)"

section \<open>Evaluation\<close>

text \<open>
  The evaluation collects, in order, incompatibilities (an outcome with its reason) and
  unknowns; \<open>finding\<close> is one entry of either list.
\<close>

datatype finding = Fail compatibility_outcome reason | Unsure reason

definition fail_with :: "compatibility_outcome \<Rightarrow> reason_code \<Rightarrow> string \<Rightarrow> finding list" where
  "fail_with outcome code detail = [Fail outcome (Reason code detail)]"

definition unsure :: "string \<Rightarrow> finding list" where
  "unsure detail = [Unsure (Reason (Cmp CompatibilityUnknown) detail)]"

definition check_runtime :: "model_requirements \<Rightarrow> environment_profile \<Rightarrow> finding list" where
  "check_runtime rq en =
     (if rq_runtime rq = [] then []
      else if en_runtime en = [] then unsure ''environment reports no runtime identity''
      else if en_runtime en \<noteq> rq_runtime rq then
        fail_with CO_INCOMPATIBLE_RUNTIME (Cmp IncompatibleRuntime)
          (''environment runtime '' @ [CHR 0x27] @ en_runtime en @ [CHR 0x27] @ '' != required '' @
           [CHR 0x27] @ rq_runtime rq @ [CHR 0x27])
      else if rq_runtime_min_version rq = [] then []
      else if en_runtime_version en = [] then unsure ''environment reports no runtime version''
      else if compare_versions (en_runtime_version en) (rq_runtime_min_version rq) < 0 then
        fail_with CO_INCOMPATIBLE_RUNTIME (Cmp IncompatibleRuntime)
          (''runtime version '' @ en_runtime_version en @ '' < required '' @ rq_runtime_min_version rq)
      else [])"

definition check_backend :: "model_requirements \<Rightarrow> environment_profile \<Rightarrow> finding list" where
  "check_backend rq en =
     (if rq_backend rq = [] then []
      else if en_backend en = [] then unsure ''environment reports no backend identity''
      else if en_backend en \<noteq> rq_backend rq then
        fail_with CO_INCOMPATIBLE_BACKEND (Cmp IncompatibleBackend)
          (''environment backend '' @ [CHR 0x27] @ en_backend en @ [CHR 0x27] @ '' != required '' @
           [CHR 0x27] @ rq_backend rq @ [CHR 0x27])
      else [])"

definition acceptable_architectures :: "environment_profile \<Rightarrow> string list" where
  "acceptable_architectures en =
     (if en_architecture en \<noteq> [] then [en_architecture en] else []) @
     (if en_compute_capability en \<noteq> 0
      then [cuda_architecture_token (en_compute_capability en div 100) (en_compute_capability en mod 100)]
      else [])"

definition check_architecture :: "model_requirements \<Rightarrow> environment_profile \<Rightarrow> finding list" where
  "check_architecture rq en =
     (if rq_architecture rq = [] then []
      else if acceptable_architectures en = [] then
        unsure ''environment reports no architecture or compute capability''
      else if rq_architecture rq \<notin> set (acceptable_architectures en) then
        fail_with CO_INCOMPATIBLE_ARCHITECTURE (Cmp IncompatibleArchitecture)
          (''required architecture '' @ [CHR 0x27] @ rq_architecture rq @ [CHR 0x27] @
           '' not in environment set'')
      else [])"

definition check_precision :: "model_requirements \<Rightarrow> environment_profile \<Rightarrow> finding list" where
  "check_precision rq en =
     (if rq_precision rq = [] then []
      else if en_precisions en = [] then unsure ''environment reports no supported precisions''
      else if rq_precision rq \<notin> set (en_precisions en) then
        fail_with CO_INCOMPATIBLE_PRECISION (Cmp IncompatiblePrecision)
          (''required precision '' @ [CHR 0x27] @ rq_precision rq @ [CHR 0x27] @
           '' unsupported by environment'')
      else [])"

definition check_tokenizer :: "model_requirements \<Rightarrow> environment_profile \<Rightarrow> finding list" where
  "check_tokenizer rq en =
     (if rq_tokenizer_generation rq = [] then []
      else if en_tokenizer_generation en = [] then unsure ''environment reports no tokenizer generation''
      else if en_tokenizer_generation en \<noteq> rq_tokenizer_generation rq then
        fail_with CO_INCOMPATIBLE_TOKENIZER (Cmp IncompatibleTokenizer) ''tokenizer generation mismatch''
      else [])"

definition check_adapter :: "model_requirements \<Rightarrow> environment_profile \<Rightarrow> finding list" where
  "check_adapter rq en =
     (if rq_adapter_set rq = [] then []
      else if en_adapter_set en = [] then unsure ''environment reports no adapter set''
      else if en_adapter_set en \<noteq> rq_adapter_set rq then
        fail_with CO_INCOMPATIBLE_ADAPTER (Cmp IncompatibleAdapter) ''adapter set mismatch''
      else [])"

definition findings_of :: "model_requirements \<Rightarrow> environment_profile \<Rightarrow> finding list" where
  "findings_of rq en =
     (if requirements_empty rq then
        unsure ''model version declares no runtime, backend, architecture or precision requirement''
      else []) @
     check_runtime rq en @ check_backend rq en @ check_architecture rq en @ check_precision rq en @
     check_tokenizer rq en @ check_adapter rq en"

fun failures :: "finding list \<Rightarrow> (compatibility_outcome \<times> reason) list" where
  "failures [] = []"
| "failures (Fail c r # fs) = (c, r) # failures fs"
| "failures (Unsure r # fs) = failures fs"

fun unknowns :: "finding list \<Rightarrow> reason list" where
  "unknowns [] = []"
| "unknowns (Fail c r # fs) = unknowns fs"
| "unknowns (Unsure r # fs) = r # unknowns fs"

definition evaluate_requirements ::
  "model_requirements \<Rightarrow> environment_profile \<Rightarrow> compatibility_outcome \<times> decision" where
  "evaluate_requirements rq en =
     (if \<not> environment_valid en then
        (CO_UNKNOWN, refuse OC_UNSUPPORTED (Cmp CompatibilityUnknown) ''environment profile missing or invalid'')
      else let fs = failures (findings_of rq en); us = unknowns (findings_of rq en) in
        if fs \<noteq> [] then
          (fst (hd fs), normalize_decision (add_reasons (new_decision OC_INCOMPATIBLE) (map snd fs)))
        else if us \<noteq> [] then
          (CO_UNKNOWN, normalize_decision (add_reasons (new_decision OC_UNSUPPORTED) us))
        else (CO_COMPATIBLE, new_decision OC_Ok))"

section \<open>The registry of facts\<close>

record compatibility_fact =
  cf_model :: u64
  cf_version :: u64
  cf_model_generation :: u64
  cf_artifact_set :: u64
  cf_artifact_generation :: u64
  cf_generation :: u64
  cf_environment_key :: string
  cf_outcome :: compatibility_outcome
  cf_detail :: string
  cf_provenance :: provenance
  cf_sequence :: u64

record compatibility_registry =
  cr_facts :: "(u64 \<times> string, compatibility_fact) omap"
  cr_max :: nat

definition publish_fact ::
  "compatibility_fact \<Rightarrow> u64 \<Rightarrow> compatibility_registry \<Rightarrow> decision \<times> compatibility_registry" where
  "publish_fact cfact assigned cr =
     (let key = (cf_version cfact, cf_environment_key cfact);
          store = (new_decision OC_Accepted,
            cr\<lparr>cr_facts := om_put key (cfact\<lparr>cf_generation := assigned\<rparr>) (cr_facts cr)\<rparr>) in
      if \<not> id_valid (cf_version cfact) then
        (refuse OC_Rejected (Reg UnknownVersion) ''compatibility fact has no model version'', cr)
      else if cf_environment_key cfact = [] \<or> 128 < length (cf_environment_key cfact) then
        (refuse OC_Rejected (Reg InvalidName) ''environment key must be 1..128 characters'', cr)
      else if \<not> id_valid assigned then
        (refuse OC_Rejected (Cmp CompatibilityGenerationMismatch)
           ''assigned compatibility generation must be non-zero'', cr)
      else case map_of (cr_facts cr) key of
          Some current \<Rightarrow>
            if assigned \<le> cf_generation current then
              (refuse OC_CONFLICT (Cmp CompatibilityGenerationMismatch)
                 ''published generation does not advance the stored generation'', cr)
            else if cf_model_generation cfact < cf_model_generation current then
              (refuse OC_CONFLICT (Ord ModelGenerationMismatch)
                 ''fact targets a model generation older than the stored fact'', cr)
            else if cf_model_generation current = cf_model_generation cfact \<and>
                cf_artifact_generation cfact < cf_artifact_generation current then
              (refuse OC_CONFLICT (Art ArtifactGenerationMismatch)
                 ''fact targets an artifact generation older than the stored fact'', cr)
            else store
        | None \<Rightarrow>
            if cr_max cr \<le> length (cr_facts cr) then
              (refuse OC_BOUNDS_EXCEEDED (Bnd BoundsModelCount) ''compatibility fact bound reached'', cr)
            else store)"

definition lookup_fact :: "u64 \<Rightarrow> string \<Rightarrow> compatibility_registry \<Rightarrow> compatibility_fact option" where
  "lookup_fact version key cr = map_of (cr_facts cr) (version, key)"

definition facts_for :: "u64 \<Rightarrow> compatibility_registry \<Rightarrow> compatibility_fact list" where
  "facts_for version cr = map snd (filter (\<lambda>e. fst (fst e) = version) (cr_facts cr))"

definition latest_generation :: "u64 \<Rightarrow> compatibility_registry \<Rightarrow> u64" where
  "latest_generation version cr =
     fold (\<lambda>e best. if fst (fst e) \<noteq> version then best
                    else if best < cf_generation (snd e) then cf_generation (snd e) else best)
       (cr_facts cr) 0"

definition invalidate_version :: "u64 \<Rightarrow> compatibility_registry \<Rightarrow> nat \<times> compatibility_registry" where
  "invalidate_version version cr =
     (length (filter (\<lambda>e. fst (fst e) = version) (cr_facts cr)),
      cr\<lparr>cr_facts := filter (\<lambda>e. fst (fst e) \<noteq> version) (cr_facts cr)\<rparr>)"

definition restore_fact_ok :: "(u64 \<times> string) \<Rightarrow> compatibility_fact \<Rightarrow> bool" where
  "restore_fact_ok key cfact \<longleftrightarrow>
     fst key = cf_version cfact \<and> snd key = cf_environment_key cfact \<and> id_valid (cf_version cfact) \<and>
     cf_environment_key cfact \<noteq> [] \<and> length (cf_environment_key cfact) \<le> 128 \<and>
     id_valid (cf_generation cfact) \<and> id_valid (cf_model_generation cfact) \<and>
     id_valid (cf_artifact_generation cfact)"

definition restore_facts ::
  "(u64 \<times> string, compatibility_fact) omap \<Rightarrow> compatibility_registry \<Rightarrow> compatibility_registry option" where
  "restore_facts facts cr =
     (if cr_max cr < length facts then None
      else if list_all (\<lambda>e. restore_fact_ok (fst e) (snd e)) facts then Some (cr\<lparr>cr_facts := facts\<rparr>)
      else None)"

section \<open>Version comparison is a linear order on keys\<close>

definition order_sign :: "'a::linorder \<Rightarrow> 'a \<Rightarrow> int" where
  "order_sign a b = (if a < b then - 1 else if a = b then 0 else 1)"

text \<open>
  The key of a component. A component that starts with a digit is a number: compared by
  the length and the digits of its value, then by its remainder, where no remainder (a
  release) is greatest. Any other component compares as text, below or above all numbers
  according to its first character.
\<close>

type_synonym component_key = "nat \<times> nat \<times> string \<times> bool \<times> string"

definition component_key :: "string \<Rightarrow> component_key" where
  "component_key p =
     (let (n, r) = split_component p in
      if n \<noteq> [] then (1, length (skip_zeros n), skip_zeros n, r = [], r)
      else (if p = [] \<or> hd p < CHR ''0'' then 0 else 2, 0, p, False, []))"

function version_key :: "string \<Rightarrow> component_key list" where
  "version_key a =
     (let rest = dropWhile (\<lambda>c. c \<noteq> CHR ''.'') a in
      component_key (takeWhile (\<lambda>c. c \<noteq> CHR ''.'') a) # (if rest = [] then [] else version_key (tl rest)))"
  by pat_completeness auto
termination
proof (relation "measure length", goal_cases)
  case (2 a x)
  then have "length (tl x) < length a" using dropWhile_tl_shorter by blast
  then show ?case by simp
qed simp

declare version_key.simps [simp del]

lemma numeric_head: "takeWhile is_decimal p \<noteq> [] \<longleftrightarrow> p \<noteq> [] \<and> is_decimal (hd p)"
  by (cases p) auto

lemma skip_zeros_Nil [simp]: "skip_zeros s = [] \<longleftrightarrow> s = []"
  by (induction s rule: skip_zeros.induct) auto

text \<open>A number and a text compare by the first character of the text.\<close>

lemma text_below_number:
  assumes "p = [] \<or> hd p < CHR ''0''" and "q \<noteq> []" and "is_decimal (hd q)"
  shows "p < q" and "\<not> q < p" and "p \<noteq> q"
proof -
  show "p < q"
    using assms by (cases p; cases q) (auto simp: is_decimal_def)
  then show "\<not> q < p" "p \<noteq> q" by auto
qed

lemma text_above_number:
  assumes "p \<noteq> []" and "\<not> hd p < CHR ''0''" and "\<not> is_decimal (hd p)" and "q \<noteq> []" and "is_decimal (hd q)"
  shows "q < p" and "\<not> p < q" and "p \<noteq> q"
proof -
  show "q < p"
    using assms by (cases p; cases q) (auto simp: is_decimal_def)
  then show "\<not> p < q" "p \<noteq> q" by auto
qed

lemma order_sign_same [simp]: "order_sign a a = 0"
  by (simp add: order_sign_def)

lemma order_sign_pair:
  "order_sign (a, b) (c, d) = (if order_sign a c \<noteq> 0 then order_sign a c else order_sign b d)"
  by (auto simp: order_sign_def less_prod_def')

lemma compare_numeric_sign:
  "compare_numeric a b =
     (if order_sign (length (skip_zeros a)) (length (skip_zeros b)) \<noteq> 0
      then order_sign (length (skip_zeros a)) (length (skip_zeros b))
      else order_sign (skip_zeros a) (skip_zeros b))"
  by (simp add: compare_numeric_def order_sign_def Let_def)

lemma remainder_sign:
  "(if ra \<noteq> rb then (if ra = [] then 1 else if rb = [] then - 1 else if ra < rb then - 1 else 1) else 0) =
    order_sign (ra = [], ra) (rb = [], rb :: string)"
  by (simp add: order_sign_pair) (simp add: order_sign_def)

lemma compare_component_key: "compare_component p q = order_sign (component_key p) (component_key q)"
proof (cases "takeWhile is_decimal p = []"; cases "takeWhile is_decimal q = []")
  assume "takeWhile is_decimal p \<noteq> []" "takeWhile is_decimal q \<noteq> []"
  then show ?thesis
    unfolding compare_component_def component_key_def split_component_def Let_def
    by (simp only: prod.case compare_numeric_sign remainder_sign order_sign_pair order_sign_same
        simp_thms if_True if_False) simp
next
  assume p: "takeWhile is_decimal p = []" and q: "takeWhile is_decimal q \<noteq> []"
  then show ?thesis
    using text_below_number [of p q] text_above_number [of p q] numeric_head [of p] numeric_head [of q]
    by (auto simp: compare_component_def component_key_def split_component_def order_sign_def Let_def
        less_prod_def')
next
  assume p: "takeWhile is_decimal p \<noteq> []" and q: "takeWhile is_decimal q = []"
  then show ?thesis
    using text_below_number [of q p] text_above_number [of q p] numeric_head [of p] numeric_head [of q]
    by (auto simp: compare_component_def component_key_def split_component_def order_sign_def Let_def
        less_prod_def')
next
  assume "takeWhile is_decimal p = []" "takeWhile is_decimal q = []"
  then show ?thesis
    using numeric_head [of p] numeric_head [of q]
    by (cases p; cases q)
       (auto simp: compare_component_def component_key_def split_component_def order_sign_def Let_def
        less_prod_def' is_decimal_def)
qed

lemma version_key_nonempty: "version_key a \<noteq> []"
  by (subst version_key.simps) (simp add: Let_def)

lemma order_sign_Cons: "order_sign (x # xs) (y # ys) =
    (if order_sign x y \<noteq> 0 then order_sign x y else order_sign xs ys)"
  by (auto simp: order_sign_def)

lemma order_sign_Nil: "ys \<noteq> [] \<Longrightarrow> order_sign [] ys = - 1" "ys \<noteq> [] \<Longrightarrow> order_sign ys [] = 1"
  by (cases ys; simp add: order_sign_def)+

text \<open>
  C21 The comparison of dotted versions is the lexicographic order of their component keys:
  so it is reflexive, antisymmetric and transitive, and two versions compare equal exactly
  when their components agree up to leading zeros.
\<close>

theorem compare_versions_order:
  "compare_versions a b = order_sign (version_key a) (version_key b)"
proof (induction a b rule: compare_versions.induct)
  case (1 a b)
  let ?pa = "takeWhile (\<lambda>c. c \<noteq> CHR ''.'') a" let ?pb = "takeWhile (\<lambda>c. c \<noteq> CHR ''.'') b"
  let ?ra = "dropWhile (\<lambda>c. c \<noteq> CHR ''.'') a" let ?rb = "dropWhile (\<lambda>c. c \<noteq> CHR ''.'') b"
  have a: "version_key a = component_key ?pa # (if ?ra = [] then [] else version_key (tl ?ra))"
    by (subst version_key.simps) (simp only: Let_def)
  have b: "version_key b = component_key ?pb # (if ?rb = [] then [] else version_key (tl ?rb))"
    by (subst version_key.simps) (simp only: Let_def)
  show ?case
  proof (cases "a = [] \<and> b = []")
    case True
    then show ?thesis by (simp add: compare_versions.simps order_sign_def)
  next
    case False
    have run: "compare_versions a b =
        (if compare_component ?pa ?pb \<noteq> 0 then compare_component ?pa ?pb
         else if ?ra = [] \<and> ?rb = [] then 0 else if ?ra = [] then - 1 else if ?rb = [] then 1
         else compare_versions (tl ?ra) (tl ?rb))"
      by (subst compare_versions.simps) (simp only: False Let_def if_False)
    consider "compare_component ?pa ?pb \<noteq> 0" | "compare_component ?pa ?pb = 0" "?ra = []" "?rb = []"
      | "compare_component ?pa ?pb = 0" "?ra = []" "?rb \<noteq> []" | "compare_component ?pa ?pb = 0" "?ra \<noteq> []" "?rb = []"
      | "compare_component ?pa ?pb = 0" "?ra \<noteq> []" "?rb \<noteq> []" by blast
    then show ?thesis
    proof cases
      case 5
      have "compare_versions (tl ?ra) (tl ?rb) = order_sign (version_key (tl ?ra)) (version_key (tl ?rb))"
        by (rule "1.IH" [OF False refl refl refl]) (use 5 in auto)
      then show ?thesis
        unfolding run a b order_sign_Cons compare_component_key [symmetric] using 5
        by (simp del: dropWhile_eq_Nil_conv)
    qed (unfold run a b order_sign_Cons compare_component_key [symmetric],
        simp_all add: order_sign_Nil version_key_nonempty del: dropWhile_eq_Nil_conv)
  qed
qed

section \<open>The registry\<close>

lemma check_runtime_clean:
  "check_runtime rq en = [] \<longleftrightarrow> rq_runtime rq = [] \<or>
    (en_runtime en = rq_runtime rq \<and>
     (rq_runtime_min_version rq = [] \<or>
       (en_runtime_version en \<noteq> [] \<and>
        0 \<le> compare_versions (en_runtime_version en) (rq_runtime_min_version rq))))"
  by (auto simp: check_runtime_def fail_with_def unsure_def)

lemma check_item_clean:
  "check_backend rq en = [] \<longleftrightarrow> rq_backend rq = [] \<or> en_backend en = rq_backend rq"
  "check_architecture rq en = [] \<longleftrightarrow>
     rq_architecture rq = [] \<or> rq_architecture rq \<in> set (acceptable_architectures en)"
  "check_precision rq en = [] \<longleftrightarrow> rq_precision rq = [] \<or> rq_precision rq \<in> set (en_precisions en)"
  "check_tokenizer rq en = [] \<longleftrightarrow>
     rq_tokenizer_generation rq = [] \<or> en_tokenizer_generation en = rq_tokenizer_generation rq"
  "check_adapter rq en = [] \<longleftrightarrow> rq_adapter_set rq = [] \<or> en_adapter_set en = rq_adapter_set rq"
  by (auto simp: fail_with_def unsure_def check_backend_def check_architecture_def check_precision_def
      check_tokenizer_def check_adapter_def)

lemma check_item_wrong:
  "CO_COMPATIBLE \<notin> fst ` set (failures (check_runtime rq en))"
  "CO_COMPATIBLE \<notin> fst ` set (failures (check_backend rq en))"
  "CO_COMPATIBLE \<notin> fst ` set (failures (check_architecture rq en))"
  "CO_COMPATIBLE \<notin> fst ` set (failures (check_precision rq en))"
  "CO_COMPATIBLE \<notin> fst ` set (failures (check_tokenizer rq en))"
  "CO_COMPATIBLE \<notin> fst ` set (failures (check_adapter rq en))"
  by (simp_all add: fail_with_def unsure_def check_runtime_def check_backend_def check_architecture_def
      check_precision_def check_tokenizer_def check_adapter_def)

text \<open>
  An environment satisfies a version's declared requirements, with outcome COMPATIBLE and
  an allowed decision, exactly when it is valid, something is required, and every declared
  item is reported and matches (the runtime version compared as above).
\<close>

theorem compatible_iff_all_match:
  "fst (evaluate_requirements rq en) = CO_COMPATIBLE \<longleftrightarrow>
    environment_valid en \<and> \<not> requirements_empty rq \<and>
    (rq_runtime rq = [] \<or>
      (en_runtime en = rq_runtime rq \<and>
       (rq_runtime_min_version rq = [] \<or>
         (en_runtime_version en \<noteq> [] \<and>
          0 \<le> compare_versions (en_runtime_version en) (rq_runtime_min_version rq))))) \<and>
    (rq_backend rq = [] \<or> en_backend en = rq_backend rq) \<and>
    (rq_architecture rq = [] \<or> rq_architecture rq \<in> set (acceptable_architectures en)) \<and>
    (rq_precision rq = [] \<or> rq_precision rq \<in> set (en_precisions en)) \<and>
    (rq_tokenizer_generation rq = [] \<or> en_tokenizer_generation en = rq_tokenizer_generation rq) \<and>
    (rq_adapter_set rq = [] \<or> en_adapter_set en = rq_adapter_set rq)"
proof -
  have split: "failures (xs @ ys) = failures xs @ failures ys" "unknowns (xs @ ys) = unknowns xs @ unknowns ys"
    for xs ys by (induction xs rule: failures.induct) auto
  have none: "failures fs = [] \<and> unknowns fs = [] \<longleftrightarrow> fs = []" for fs
    by (cases fs rule: failures.cases) auto
  have "CO_COMPATIBLE \<notin> fst ` set (failures (findings_of rq en))"
    unfolding findings_of_def split set_append image_Un Un_iff
    by (simp add: check_item_wrong unsure_def)
  then have wrong: "failures (findings_of rq en) \<noteq> [] \<Longrightarrow>
      fst (hd (failures (findings_of rq en))) \<noteq> CO_COMPATIBLE"
    by (metis hd_in_set imageI)
  have "fst (evaluate_requirements rq en) = CO_COMPATIBLE \<longleftrightarrow>
      environment_valid en \<and> findings_of rq en = []"
    using wrong none [of "findings_of rq en"] by (auto simp: evaluate_requirements_def Let_def)
  also have "\<dots> \<longleftrightarrow> environment_valid en \<and> \<not> requirements_empty rq \<and> check_runtime rq en = [] \<and>
      check_backend rq en = [] \<and> check_architecture rq en = [] \<and> check_precision rq en = [] \<and>
      check_tokenizer rq en = [] \<and> check_adapter rq en = []"
    by (auto simp: findings_of_def unsure_def)
  finally show ?thesis unfolding check_runtime_clean check_item_clean .
qed

definition cr_wf :: "compatibility_registry \<Rightarrow> bool" where
  "cr_wf cr \<longleftrightarrow> om_wf (cr_facts cr) \<and> length (cr_facts cr) \<le> cr_max cr \<and>
     list_all (\<lambda>e. fst e = (cf_version (snd e), cf_environment_key (snd e)) \<and>
       id_valid (cf_version (snd e)) \<and> cf_environment_key (snd e) \<noteq> [] \<and>
       length (cf_environment_key (snd e)) \<le> 128 \<and> id_valid (cf_generation (snd e))) (cr_facts cr)"

lemma om_put_size: "om_wf m \<Longrightarrow> length (om_put k v m) = (if map_of m k = None then length m + 1 else length m)"
proof (induction m)
  case (Cons e m)
  obtain a x where e: "e = (a, x)" by (cases e)
  have "k < a \<Longrightarrow> map_of m k = None" using Cons.prems by (force simp: e map_of_eq_None_iff)
  then show ?case using Cons by (auto simp: e)
qed simp

text \<open>
  Publishing a compatibility fact never overwrites newer truth. The registry stays well
  formed and bounded; an accepted fact is the one looked up afterwards, at the assigned
  generation, and no other entry changes; and it is accepted only when that generation
  advances the stored one and the model and artifact generations do not move back.
\<close>

theorem publish_fact_monotone:
  assumes "cr_wf cr" and "publish_fact f g cr = (d, cr')"
  shows "cr_wf cr' \<and> (allowed d \<or> cr' = cr) \<and>
    (allowed d \<longleftrightarrow> id_valid (cf_version f) \<and> cf_environment_key f \<noteq> [] \<and>
       length (cf_environment_key f) \<le> 128 \<and> id_valid g \<and>
       (case lookup_fact (cf_version f) (cf_environment_key f) cr of
          None \<Rightarrow> length (cr_facts cr) < cr_max cr
        | Some old \<Rightarrow> cf_generation old < g \<and> cf_model_generation old \<le> cf_model_generation f \<and>
            (cf_model_generation old < cf_model_generation f \<or>
             cf_artifact_generation old \<le> cf_artifact_generation f))) \<and>
    (\<forall>v k. lookup_fact v k cr' =
       (if allowed d \<and> v = cf_version f \<and> k = cf_environment_key f then Some (f\<lparr>cf_generation := g\<rparr>)
        else lookup_fact v k cr))"
proof -
  let ?key = "(cf_version f, cf_environment_key f)"
  let ?put = "cr\<lparr>cr_facts := om_put ?key (f\<lparr>cf_generation := g\<rparr>) (cr_facts cr)\<rparr>"
  have stored: "cr_wf ?put"
    if "id_valid (cf_version f)" "cf_environment_key f \<noteq> []" "length (cf_environment_key f) \<le> 128" "id_valid g"
      "map_of (cr_facts cr) ?key = None \<Longrightarrow> length (cr_facts cr) < cr_max cr"
  proof -
    have wf: "om_wf (cr_facts cr)" using assms(1) by (simp add: cr_wf_def)
    have "set (om_put ?key (f\<lparr>cf_generation := g\<rparr>) (cr_facts cr)) \<subseteq>
        insert (?key, f\<lparr>cf_generation := g\<rparr>) (set (cr_facts cr))" by (rule om_put_subset)
    then show ?thesis
      using assms(1) that om_put_size [OF wf, of ?key] by (auto simp: cr_wf_def list_all_iff)
  qed
  show ?thesis
    using assms stored
    by (auto simp: publish_fact_def Let_def lookup_fact_def id_valid_def not_le not_less
        split: if_splits option.splits)
qed

definition sample_fact :: compatibility_fact where
  "sample_fact = \<lparr>cf_model = 1, cf_version = 1, cf_model_generation = 1, cf_artifact_set = 1,
     cf_artifact_generation = 1, cf_generation = 0, cf_environment_key = ''env'',
     cf_outcome = CO_COMPATIBLE, cf_detail = [], cf_provenance = PV_Real, cf_sequence = 1\<rparr>"

definition sample_facts :: compatibility_registry where
  "sample_facts = \<lparr>cr_facts = [], cr_max = 4\<rparr>"

lemma publish_fact_monotone_witness:
  "cr_wf (snd (publish_fact sample_fact 1 sample_facts)) \<and>
   (allowed (fst (publish_fact sample_fact 1 sample_facts)) \<or>
      snd (publish_fact sample_fact 1 sample_facts) = sample_facts) \<and>
   (allowed (fst (publish_fact sample_fact 1 sample_facts)) \<longleftrightarrow>
      id_valid (cf_version sample_fact) \<and> cf_environment_key sample_fact \<noteq> [] \<and>
       length (cf_environment_key sample_fact) \<le> 128 \<and> id_valid 1 \<and>
       (case lookup_fact (cf_version sample_fact) (cf_environment_key sample_fact) sample_facts of
          None \<Rightarrow> length (cr_facts sample_facts) < cr_max sample_facts
        | Some old \<Rightarrow> cf_generation old < 1 \<and> cf_model_generation old \<le> cf_model_generation sample_fact \<and>
            (cf_model_generation old < cf_model_generation sample_fact \<or>
             cf_artifact_generation old \<le> cf_artifact_generation sample_fact))) \<and>
   (\<forall>v k. lookup_fact v k (snd (publish_fact sample_fact 1 sample_facts)) =
       (if allowed (fst (publish_fact sample_fact 1 sample_facts)) \<and> v = cf_version sample_fact \<and>
           k = cf_environment_key sample_fact
        then Some (sample_fact\<lparr>cf_generation := 1\<rparr>) else lookup_fact v k sample_facts))"
proof (rule publish_fact_monotone)
  show "cr_wf sample_facts" by (simp add: cr_wf_def sample_facts_def)
qed simp

end
