(* ===== verification/Mlf_Policy.thy ===== *)
theory Mlf_Policy
  imports Mlf_Scope Mlf_Evidence
begin

text \<open>
  Lifecycle policy of include/mlf/policy.hpp and src/policy.cpp: the base policy, the
  refinements attached to scopes, and the effective policy of a scope, resolved along its
  chain from the root down. An \<open>int8\<close> refinement is an integer; negative means inherit.
\<close>

record lifecycle_policy =
  lp_generation :: u64
  lp_max_active_generations_per_scope :: u32
  lp_allow_split_traffic :: bool
  lp_require_rollback_target :: bool
  lp_allow_automatic_rollback :: bool
  lp_require_manual_approval_for_promotion :: bool
  lp_max_blast_radius_percent :: u32
  lp_require_evidence_for_stage_advance :: bool
  lp_max_evidence_age_ticks :: u64
  lp_require_residency_before_stage_entry :: bool
  lp_require_drain_after_stage_commit :: bool
  lp_allow_immediate_cutover :: bool
  lp_promotable_scope_kinds :: "scope_kind list"
  lp_globally_required_evidence :: "evidence_kind list"
  lp_allow_retirement_without_drain :: bool
  lp_rollback_retention_generations :: u32
  lp_supersede_inflight_rollout_on_new_promotion :: bool
  lp_allow_version_label_reuse_after_retirement :: bool

definition default_policy :: lifecycle_policy where
  "default_policy = \<lparr>lp_generation = 1, lp_max_active_generations_per_scope = 2,
     lp_allow_split_traffic = True, lp_require_rollback_target = True,
     lp_allow_automatic_rollback = False, lp_require_manual_approval_for_promotion = False,
     lp_max_blast_radius_percent = 100, lp_require_evidence_for_stage_advance = True,
     lp_max_evidence_age_ticks = 0, lp_require_residency_before_stage_entry = False,
     lp_require_drain_after_stage_commit = False, lp_allow_immediate_cutover = True,
     lp_promotable_scope_kinds = [], lp_globally_required_evidence = [],
     lp_allow_retirement_without_drain = False, lp_rollback_retention_generations = 1,
     lp_supersede_inflight_rollout_on_new_promotion = True,
     lp_allow_version_label_reuse_after_retirement = False\<rparr>"

record scope_policy_override =
  po_scope :: u64
  po_permits_child_override :: bool
  po_max_active_generations_per_scope :: u32
  po_require_rollback_target :: int
  po_require_evidence_for_stage_advance :: int
  po_require_residency_before_stage_entry :: int
  po_additional_required_evidence :: "evidence_kind list"
  po_additional_promotable_scope_kinds :: "scope_kind list"

record policy_set =
  ps_base :: lifecycle_policy
  ps_overrides :: "(u64, scope_policy_override) omap"

definition set_base :: "lifecycle_policy \<Rightarrow> policy_set \<Rightarrow> policy_set" where
  "set_base p ps = ps\<lparr>ps_base := p\<rparr>"

definition set_override :: "scope_policy_override \<Rightarrow> policy_set \<Rightarrow> decision \<times> policy_set" where
  "set_override o' ps =
     (if \<not> id_valid (po_scope o') then
        (refuse OC_Rejected (Reg UnknownScope) ''policy override needs a scope identity'', ps)
      else if kEvidenceKindCount < length (po_additional_required_evidence o') then
        (refuse OC_BOUNDS_EXCEEDED (Bnd BoundsEvidenceCount) ''too many required evidence kinds'', ps)
      else
        (new_decision OC_Accepted,
         ps\<lparr>ps_overrides := om_put (po_scope o')
              (o'\<lparr>po_additional_required_evidence := sort_unique (po_additional_required_evidence o'),
                  po_additional_promotable_scope_kinds :=
                    sort_unique (po_additional_promotable_scope_kinds o')\<rparr>) (ps_overrides ps)\<rparr>))"

text \<open>One refinement applied to the policy, and the walk along the chain.\<close>

definition refine :: "scope_policy_override \<Rightarrow> lifecycle_policy \<Rightarrow> lifecycle_policy" where
  "refine o' p = p\<lparr>
     lp_max_active_generations_per_scope :=
       (if po_max_active_generations_per_scope o' \<noteq> 0 then po_max_active_generations_per_scope o'
        else lp_max_active_generations_per_scope p),
     lp_require_rollback_target :=
       (if 0 \<le> po_require_rollback_target o' then po_require_rollback_target o' \<noteq> 0
        else lp_require_rollback_target p),
     lp_require_evidence_for_stage_advance :=
       (if 0 \<le> po_require_evidence_for_stage_advance o' then po_require_evidence_for_stage_advance o' \<noteq> 0
        else lp_require_evidence_for_stage_advance p),
     lp_require_residency_before_stage_entry :=
       (if 0 \<le> po_require_residency_before_stage_entry o'
        then po_require_residency_before_stage_entry o' \<noteq> 0
        else lp_require_residency_before_stage_entry p),
     lp_globally_required_evidence :=
       lp_globally_required_evidence p @ po_additional_required_evidence o',
     lp_promotable_scope_kinds :=
       lp_promotable_scope_kinds p @ po_additional_promotable_scope_kinds o'\<rparr>"

fun resolve_chain ::
  "(u64, scope_policy_override) omap \<Rightarrow> u64 list \<Rightarrow> bool \<Rightarrow> lifecycle_policy \<Rightarrow> lifecycle_policy" where
  "resolve_chain overrides [] may_refine p = p"
| "resolve_chain overrides (node # chain') may_refine p =
     (case map_of overrides node of
        None \<Rightarrow> resolve_chain overrides chain' may_refine p
      | Some o' \<Rightarrow>
          if \<not> may_refine then resolve_chain overrides chain' may_refine p
          else resolve_chain overrides chain' (po_permits_child_override o') (refine o' p))"

definition effective :: "policy_set \<Rightarrow> scope_registry \<Rightarrow> u64 \<Rightarrow> lifecycle_policy" where
  "effective ps scopes scope =
     (let p = resolve_chain (ps_overrides ps) (chain scopes scope) True (ps_base ps) in
      p\<lparr>lp_globally_required_evidence := sort_unique (lp_globally_required_evidence p),
        lp_promotable_scope_kinds := sort_unique (lp_promotable_scope_kinds p)\<rparr>)"

definition restore_policy ::
  "(u64, scope_policy_override) omap \<Rightarrow> lifecycle_policy \<Rightarrow> policy_set \<Rightarrow> policy_set option" where
  "restore_policy overrides base ps =
     (if \<not> id_valid (lp_generation base) then None
      else if lp_max_active_generations_per_scope base = 0 then None
      else if 64 < lp_max_active_generations_per_scope base then None
      else if 100 < lp_max_blast_radius_percent base then None
      else if kEvidenceKindCount < length (lp_globally_required_evidence base) then None
      else if list_all (\<lambda>e. fst e \<noteq> 0 \<and> po_scope (snd e) = fst e \<and>
          length (po_additional_required_evidence (snd e)) \<le> kEvidenceKindCount) overrides
      then Some (ps\<lparr>ps_overrides := overrides, ps_base := base\<rparr>) else None)"

section \<open>Inheritance\<close>

text \<open>The refinements that apply: up to and including the first one that closes the chain.\<close>

fun applied_overrides :: "(u64, scope_policy_override) omap \<Rightarrow> u64 list \<Rightarrow> scope_policy_override list" where
  "applied_overrides overrides [] = []"
| "applied_overrides overrides (node # chain') =
     (case map_of overrides node of
        None \<Rightarrow> applied_overrides overrides chain'
      | Some o' \<Rightarrow>
          o' # (if po_permits_child_override o' then applied_overrides overrides chain' else []))"

lemma resolve_chain_closed: "resolve_chain overrides nodes False p = p"
  by (induction nodes) (auto split: option.splits)

lemma resolve_chain_applied:
  "resolve_chain overrides nodes True p = fold refine (applied_overrides overrides nodes) p"
  by (induction nodes arbitrary: p) (auto simp: resolve_chain_closed split: option.splits)

lemma fold_refine_evidence:
  "set (lp_globally_required_evidence (fold refine os p)) =
     set (lp_globally_required_evidence p) \<union> (\<Union>o' \<in> set os. set (po_additional_required_evidence o'))"
  by (induction os arbitrary: p) (auto simp: refine_def)

lemma fold_refine_split: "lp_allow_split_traffic (fold refine os p) = lp_allow_split_traffic p"
  by (induction os arbitrary: p) (auto simp: refine_def)

lemma fold_refine_active:
  "lp_max_active_generations_per_scope p \<noteq> 0 \<Longrightarrow> lp_max_active_generations_per_scope (fold refine os p) \<noteq> 0"
  by (induction os arbitrary: p) (auto simp: refine_def)

text \<open>
  A scope inherits policy and can never weaken what it inherits silently. The effective
  policy is the base refined, in order from the root, by exactly the overrides up to the
  first one that forbids further refinement; the evidence it requires is that of the base
  together with what those overrides add, as a sorted duplicate-free list; and a closed
  ancestor makes every override below it irrelevant.
\<close>

theorem effective_policy_inherits:
  assumes "os = applied_overrides (ps_overrides ps) (chain scopes scope)"
    and "p = fold refine os (ps_base ps)"
    and "map_of (ps_overrides ps) node = Some o'" and "\<not> po_permits_child_override o'"
  shows "effective ps scopes scope = p\<lparr>
      lp_globally_required_evidence := sort_unique (lp_globally_required_evidence p),
      lp_promotable_scope_kinds := sort_unique (lp_promotable_scope_kinds p)\<rparr> \<and>
    set (lp_globally_required_evidence (effective ps scopes scope)) =
      set (lp_globally_required_evidence (ps_base ps)) \<union>
      (\<Union>x \<in> set os. set (po_additional_required_evidence x)) \<and>
    applied_overrides (ps_overrides ps) (upper @ node # lower) =
      applied_overrides (ps_overrides ps) (upper @ [node])"
proof (intro conjI)
  show "applied_overrides (ps_overrides ps) (upper @ node # lower) =
      applied_overrides (ps_overrides ps) (upper @ [node])"
    using assms(3,4) by (induction upper) (auto split: option.splits)
qed (simp_all add: assms(1,2) effective_def Let_def resolve_chain_applied fold_refine_evidence)

definition sample_override :: scope_policy_override where
  "sample_override = \<lparr>po_scope = 1, po_permits_child_override = False,
     po_max_active_generations_per_scope = 1, po_require_rollback_target = - 1,
     po_require_evidence_for_stage_advance = - 1, po_require_residency_before_stage_entry = 1,
     po_additional_required_evidence = [EK_Readiness], po_additional_promotable_scope_kinds = []\<rparr>"

definition sample_policies :: policy_set where
  "sample_policies = \<lparr>ps_base = default_policy, ps_overrides = [(1, sample_override)]\<rparr>"

lemma effective_policy_inherits_witness:
  "effective sample_policies sample_scopes 2 = (refine sample_override default_policy)\<lparr>
      lp_globally_required_evidence :=
        sort_unique (lp_globally_required_evidence (refine sample_override default_policy)),
      lp_promotable_scope_kinds :=
        sort_unique (lp_promotable_scope_kinds (refine sample_override default_policy))\<rparr> \<and>
    set (lp_globally_required_evidence (effective sample_policies sample_scopes 2)) =
      set (lp_globally_required_evidence (ps_base sample_policies)) \<union>
      (\<Union>x \<in> set [sample_override]. set (po_additional_required_evidence x)) \<and>
    applied_overrides (ps_overrides sample_policies) ([] @ 1 # [2]) =
      applied_overrides (ps_overrides sample_policies) ([] @ [1])"
proof (rule effective_policy_inherits)
  have "chain sample_scopes 2 = [1, 2]" by code_simp
  then show "[sample_override] =
      applied_overrides (ps_overrides sample_policies) (chain sample_scopes 2)"
    by (simp add: sample_policies_def sample_override_def)
  show "refine sample_override default_policy = fold refine [sample_override] (ps_base sample_policies)"
    by (simp add: sample_policies_def)
  show "map_of (ps_overrides sample_policies) 1 = Some sample_override"
    by (simp add: sample_policies_def)
  show "\<not> po_permits_child_override sample_override"
    by (simp add: sample_override_def)
qed

end
