(* ===== verification/Mlf_Rollout.thy ===== *)
theory Mlf_Rollout
  imports Mlf_Policy
begin

text \<open>
  Rollout plans of include/mlf/rollout.hpp and src/rollout.cpp: strategies, cohorts, ordered
  stages, the append-only stage history, and the scopes a plan reaches. Criteria compare
  \<open>double\<close> values; they are kept as their 64 bits, and the IEEE 754 comparison on bits is
  written out (a NaN compares false, the two zeros are equal).
\<close>

unbundle bit_operations_syntax

section \<open>Comparison of doubles\<close>

definition f64_magnitude :: "u64 \<Rightarrow> u64" where
  "f64_magnitude w = w AND 0x7fffffffffffffff"

definition f64_is_nan :: "u64 \<Rightarrow> bool" where
  "f64_is_nan w \<longleftrightarrow> 0x7ff0000000000000 < f64_magnitude w"

definition f64_key :: "u64 \<Rightarrow> int" where
  "f64_key w = (if bit w 63 then - int (unat (f64_magnitude w)) else int (unat (f64_magnitude w)))"

definition f64_le :: "u64 \<Rightarrow> u64 \<Rightarrow> bool" where
  "f64_le a b \<longleftrightarrow> \<not> f64_is_nan a \<and> \<not> f64_is_nan b \<and> f64_key a \<le> f64_key b"

section \<open>Strategies and decisions\<close>

datatype rollout_strategy =
    RS_Canary | RS_Percentage | RS_ScopeByScope | RS_BlueGreen | RS_ManualStages |
    RS_ImmediateCutover

definition kStrategyNames :: "(rollout_strategy \<times> string) list" where
  "kStrategyNames =
    [(RS_Canary, ''canary''), (RS_Percentage, ''percentage''), (RS_ScopeByScope, ''scope-by-scope''),
     (RS_BlueGreen, ''blue-green''), (RS_ManualStages, ''manual-stages''),
     (RS_ImmediateCutover, ''immediate-cutover'')]"

definition to_string_strategy :: "rollout_strategy \<Rightarrow> string" where
  "to_string_strategy strategy =
     (case find (\<lambda>entry. fst entry = strategy) kStrategyNames of
        Some entry \<Rightarrow> snd entry
      | None \<Rightarrow> ''unknown'')"

definition parse_rollout_strategy :: "string \<Rightarrow> rollout_strategy option" where
  "parse_rollout_strategy txt = map_option fst (find (\<lambda>entry. snd entry = txt) kStrategyNames)"

datatype stage_decision = SD_Pending | SD_Entered | SD_Advanced | SD_Failed | SD_RolledBack | SD_Superseded

primrec to_string_stage_decision :: "stage_decision \<Rightarrow> string" where
  "to_string_stage_decision SD_Pending = ''PENDING''"
| "to_string_stage_decision SD_Entered = ''ENTERED''"
| "to_string_stage_decision SD_Advanced = ''ADVANCED''"
| "to_string_stage_decision SD_Failed = ''FAILED''"
| "to_string_stage_decision SD_RolledBack = ''ROLLED_BACK''"
| "to_string_stage_decision SD_Superseded = ''SUPERSEDED''"

datatype criterion_comparison = CC_AtLeast | CC_AtMost

primrec to_string_comparison :: "criterion_comparison \<Rightarrow> string" where
  "to_string_comparison CC_AtLeast = ''at-least''"
| "to_string_comparison CC_AtMost = ''at-most''"

section \<open>Plans\<close>

record criterion =
  ct_kind :: evidence_kind
  ct_comparison :: criterion_comparison
  ct_threshold :: u64

record stage_record =
  sh_stage :: u64
  sh_generation :: u64
  sh_entered_sequence :: u64
  sh_decided_sequence :: u64
  sh_decision :: stage_decision
  sh_reasons :: "reason list"

record cohort_definition =
  ch_id :: u64
  ch_name :: string
  ch_scopes :: "u64 list"
  ch_traffic_percent :: u32
  ch_max_blast_radius_percent :: u32

record stage_definition =
  sg_id :: u64
  sg_name :: string
  sg_cohorts :: "u64 list"
  sg_required_evidence :: "evidence_requirement list"
  sg_acceptance :: "criterion list"
  sg_failure :: "criterion list"
  sg_require_residency_before_entry :: bool
  sg_require_drain_after_commit :: bool

record rollout_plan =
  pl_id :: u64
  pl_generation :: u64
  pl_model :: u64
  pl_candidate :: u64
  pl_candidate_generation :: u64
  pl_candidate_artifact_set :: u64
  pl_candidate_artifact_generation :: u64
  pl_previous :: u64
  pl_previous_generation :: u64
  pl_compatibility_generation :: u64
  pl_policy_generation :: u64
  pl_evidence_generation :: u64
  pl_root_scope :: u64
  pl_root_scope_generation :: u64
  pl_strategy :: rollout_strategy
  pl_promotion :: u64
  pl_promotion_generation :: u64
  pl_cohorts :: "cohort_definition list"
  pl_stages :: "stage_definition list"
  pl_rollback_target :: u64
  pl_rollback_target_generation :: u64
  pl_max_blast_radius_percent :: u32
  pl_manual_progression :: bool
  pl_current_stage_index :: nat
  pl_current_stage_generation :: u64
  pl_stage_entered :: bool
  pl_history :: "stage_record list"
  pl_completed :: bool
  pl_failed :: bool
  pl_superseded :: bool
  pl_last_rollback :: u64
  pl_last_rollback_generation :: u64
  pl_created_sequence :: u64
  pl_updated_sequence :: u64
  pl_provenance :: provenance

definition stage_at :: "rollout_plan \<Rightarrow> nat \<Rightarrow> stage_definition option" where
  "stage_at p index = (if index < length (pl_stages p) then Some (pl_stages p ! index) else None)"

definition cohort :: "rollout_plan \<Rightarrow> u64 \<Rightarrow> cohort_definition option" where
  "cohort p i = find (\<lambda>c. ch_id c = i) (pl_cohorts p)"

definition live :: "rollout_plan \<Rightarrow> bool" where
  "live p \<longleftrightarrow> \<not> pl_completed p \<and> \<not> pl_failed p \<and> \<not> pl_superseded p"

definition stage_scopes :: "rollout_plan \<Rightarrow> stage_definition \<Rightarrow> u64 list" where
  "stage_scopes p s =
     concat (map (\<lambda>i. case cohort p i of None \<Rightarrow> [] | Some c \<Rightarrow> ch_scopes c) (sg_cohorts s))"

definition scopes_through :: "rollout_plan \<Rightarrow> nat \<Rightarrow> u64 list" where
  "scopes_through p index =
     sort_unique (concat (map (stage_scopes p) (take (min (index + 1) (length (pl_stages p))) (pl_stages p))))"

definition committed_scopes :: "rollout_plan \<Rightarrow> u64 list" where
  "committed_scopes p =
     sort_unique (concat (map (\<lambda>r. if sh_decision r \<noteq> SD_Advanced then []
       else concat (map (\<lambda>s. if sg_id s \<noteq> sh_stage r then [] else stage_scopes p s) (pl_stages p)))
       (pl_history p)))"

text \<open>What a stage reaches grows with the stages, and nothing committed lies outside the plan.\<close>

lemma scopes_through_mono:
  assumes "i \<le> j"
  shows "set (scopes_through p i) \<subseteq> set (scopes_through p j)"
proof -
  have "set (take (min (i + 1) (length (pl_stages p))) (pl_stages p))
      \<subseteq> set (take (min (j + 1) (length (pl_stages p))) (pl_stages p))"
    using assms by (intro set_take_subset_set_take) simp
  then show ?thesis by (auto simp: scopes_through_def)
qed

lemma committed_within_plan: "set (committed_scopes p) \<subseteq> set (scopes_through p (length (pl_stages p)))"
  by (auto simp: committed_scopes_def scopes_through_def split: if_splits)

end
