(* ===== verification/Mlf_State.thy ===== *)
theory Mlf_State
  imports Mlf_Authority Mlf_Compat Mlf_Rollout
begin

text \<open>
  The engine's state and shared helpers: the records of include/mlf/model_record.hpp and
  include/mlf/engine.hpp, \<open>EngineState\<close> of src/engine_impl.hpp, and the routines of
  src/engine_registry.cpp that every operation uses. The engine serialises its operations
  with one mutex, so each is a function of the state. A C++ reference to a version record
  or a plan is the record's key; the record is read from the state where the code reads it.
\<close>

section \<open>Records\<close>

record model_record =
  mr_id :: u64
  mr_name :: string
  mr_family :: string
  mr_provenance :: provenance
  mr_created_sequence :: u64

record version_record =
  vr_model :: u64
  vr_version :: u64
  vr_label :: string
  vr_generation :: u64
  vr_predecessor :: u64
  vr_predecessor_generation :: u64
  vr_artifact :: artifact_binding
  vr_requirements :: model_requirements
  vr_state :: lifecycle_state
  vr_lifecycle_generation :: u64
  vr_last_promotion :: u64
  vr_promotion_generation :: u64
  vr_rollout :: u64
  vr_rollout_generation :: u64
  vr_current_stage :: u64
  vr_current_stage_generation :: u64
  vr_compatibility_generation :: u64
  vr_last_rollback :: u64
  vr_rollback_generation :: u64
  vr_provenance :: provenance
  vr_created_sequence :: u64
  vr_updated_sequence :: u64

definition retired :: "version_record \<Rightarrow> bool" where
  "retired r \<longleftrightarrow> vr_state r = LS_RETIRED"

definition failed_version :: "version_record \<Rightarrow> bool" where
  "failed_version r \<longleftrightarrow> vr_state r = LS_FAILED"

definition has_compatibility :: "version_record \<Rightarrow> bool" where
  "has_compatibility r \<longleftrightarrow> id_valid (vr_compatibility_generation r)"

datatype attempt_kind =
    AT_Warm | AT_Activate | AT_Drain | AT_Rollback | AT_Rehydrate | AT_StartCanaryReplicas |
    AT_PromoteReplicaGroup | AT_EvictRetired

definition kAttemptKindNames :: "(attempt_kind \<times> string) list" where
  "kAttemptKindNames =
    [(AT_Warm, ''WARM''), (AT_Activate, ''ACTIVATE''), (AT_Drain, ''DRAIN''),
     (AT_Rollback, ''ROLLBACK''), (AT_Rehydrate, ''REHYDRATE''),
     (AT_StartCanaryReplicas, ''START_CANARY_REPLICAS''),
     (AT_PromoteReplicaGroup, ''PROMOTE_REPLICA_GROUP''), (AT_EvictRetired, ''EVICT_RETIRED'')]"

definition to_string_attempt_kind :: "attempt_kind \<Rightarrow> string" where
  "to_string_attempt_kind kind =
     (case find (\<lambda>entry. fst entry = kind) kAttemptKindNames of
        Some entry \<Rightarrow> snd entry
      | None \<Rightarrow> ''UNKNOWN'')"

definition parse_attempt_kind :: "string \<Rightarrow> attempt_kind option" where
  "parse_attempt_kind txt = map_option fst (find (\<lambda>entry. snd entry = txt) kAttemptKindNames)"

datatype attempt_state =
    AS_Dispatched | AS_Completed | AS_Failed | AS_OutcomeUnknown | AS_ReconcileRequired | AS_Abandoned

primrec to_string_attempt_state :: "attempt_state \<Rightarrow> string" where
  "to_string_attempt_state AS_Dispatched = ''DISPATCHED''"
| "to_string_attempt_state AS_Completed = ''COMPLETED''"
| "to_string_attempt_state AS_Failed = ''FAILED''"
| "to_string_attempt_state AS_OutcomeUnknown = ''OUTCOME_UNKNOWN''"
| "to_string_attempt_state AS_ReconcileRequired = ''RECONCILE_REQUIRED''"
| "to_string_attempt_state AS_Abandoned = ''ABANDONED''"

record attempt =
  ap_id :: u64
  ap_kind :: attempt_kind
  ap_worker :: u64
  ap_boot :: u64
  ap_epoch :: u64
  ap_model :: u64
  ap_version :: u64
  ap_model_generation :: u64
  ap_artifact_generation :: u64
  ap_scope :: u64
  ap_scope_generation :: u64
  ap_rollout :: u64
  ap_rollout_generation :: u64
  ap_stage :: u64
  ap_stage_generation :: u64
  ap_residency_generation :: u64
  ap_state :: attempt_state
  ap_idempotent :: bool
  ap_issued_sequence :: u64
  ap_settled_sequence :: u64
  ap_detail :: string

record worker_lease =
  wl_id :: u64
  wl_boot :: u64
  wl_epoch :: u64
  wl_scopes :: "u64 list"
  wl_fenced :: bool
  wl_registered_sequence :: u64
  wl_fenced_sequence :: u64
  wl_detail :: string

record registry_bounds =
  rb_max_models :: nat
  rb_max_versions_per_model :: nat
  rb_max_scopes :: nat
  rb_max_rollouts :: nat
  rb_max_stages_per_rollout :: nat
  rb_max_cohorts_per_rollout :: nat
  rb_max_workers :: nat
  rb_max_evidence :: nat
  rb_max_attempts :: nat
  rb_max_history_per_rollout :: nat
  rb_max_authority_bindings :: nat
  rb_max_payload_bytes :: nat
  rb_max_name_length :: nat
  rb_max_digest_length :: nat
  rb_max_query_results :: nat
  rb_max_connections :: nat
  rb_max_requeued_frames :: nat

definition default_bounds :: registry_bounds where
  "default_bounds = \<lparr>rb_max_models = 4096, rb_max_versions_per_model = 256, rb_max_scopes = 4096,
     rb_max_rollouts = 1024, rb_max_stages_per_rollout = 32, rb_max_cohorts_per_rollout = 64,
     rb_max_workers = 256, rb_max_evidence = 65536, rb_max_attempts = 8192,
     rb_max_history_per_rollout = 4096, rb_max_authority_bindings = 16384,
     rb_max_payload_bytes = 262144, rb_max_name_length = 128, rb_max_digest_length = 128,
     rb_max_query_results = 1024, rb_max_connections = 64, rb_max_requeued_frames = 64\<rparr>"

record engine_config =
  ec_bounds :: registry_bounds
  ec_policy :: lifecycle_policy
  ec_default_provenance :: provenance

definition default_config :: engine_config where
  "default_config = \<lparr>ec_bounds = default_bounds, ec_policy = default_policy,
     ec_default_provenance = PV_Synthetic\<rparr>"

record engine =
  st_scopes :: scope_registry
  st_models :: "(u64, model_record) omap"
  st_model_names :: "(string, u64) omap"
  st_versions :: "(u64 \<times> u64, version_record) omap"
  st_version_labels :: "(u64 \<times> string, u64) omap"
  st_version_index :: "(u64, u64 \<times> u64) omap"
  st_compatibility :: compatibility_registry
  st_evidence :: evidence_store
  st_policy :: policy_set
  st_rollouts :: "(u64, rollout_plan) omap"
  st_authority :: authority_table
  st_attempts :: "(u64, attempt) omap"
  st_workers :: "(u64, worker_lease) omap"
  st_worker_liveness :: "(u64, bool) omap"
  st_rollout_driver_boot :: "(u64, u64) omap"
  st_committed_promotions :: "(u64, unit) omap"
  st_committed_rollbacks :: "(u64 \<times> u64, unit) omap"
  st_next_model_id :: u64
  st_next_version_id :: u64
  st_next_rollout_id :: u64
  st_next_stage_id :: u64
  st_next_cohort_id :: u64
  st_next_promotion_id :: u64
  st_next_rollback_id :: u64
  st_next_attempt_id :: u64
  st_next_worker_id :: u64
  st_next_evidence_id :: u64
  st_next_evidence_generation :: u64
  st_next_compatibility_generation :: u64
  st_sequence :: u64
  st_epoch :: u64
  st_snapshot_generation :: u64
  st_requeued_frames :: u64

text \<open>The constructor \<open>LifecycleEngine(config)\<close>.\<close>

definition new_engine :: "engine_config \<Rightarrow> engine" where
  "new_engine cfg = \<lparr>
     st_scopes = ensure_root (empty_scopes\<lparr>sr_max := rb_max_scopes (ec_bounds cfg)\<rparr>),
     st_models = [], st_model_names = [], st_versions = [], st_version_labels = [],
     st_version_index = [], st_compatibility = \<lparr>cr_facts = [], cr_max = 8192\<rparr>,
     st_evidence = empty_evidence (rb_max_evidence (ec_bounds cfg)),
     st_policy = \<lparr>ps_base = ec_policy cfg, ps_overrides = []\<rparr>, st_rollouts = [],
     st_authority = \<lparr>at_bindings = [], at_max = rb_max_authority_bindings (ec_bounds cfg)\<rparr>,
     st_attempts = [], st_workers = [], st_worker_liveness = [], st_rollout_driver_boot = [],
     st_committed_promotions = [], st_committed_rollbacks = [], st_next_model_id = 1,
     st_next_version_id = 1, st_next_rollout_id = 1, st_next_stage_id = 1, st_next_cohort_id = 1,
     st_next_promotion_id = 1, st_next_rollback_id = 1, st_next_attempt_id = 1,
     st_next_worker_id = 1, st_next_evidence_id = 1, st_next_evidence_generation = 1,
     st_next_compatibility_generation = 1, st_sequence = 1, st_epoch = 1,
     st_snapshot_generation = 0, st_requeued_frames = 0\<rparr>"

section \<open>Lookups and sequence\<close>

definition version_of :: "engine \<Rightarrow> u64 \<Rightarrow> u64 \<Rightarrow> version_record option" where
  "version_of st model version = map_of (st_versions st) (model, version)"

definition version_of_id :: "engine \<Rightarrow> u64 \<Rightarrow> version_record option" where
  "version_of_id st version =
     (case map_of (st_version_index st) version of
        None \<Rightarrow> None
      | Some key \<Rightarrow> version_of st (fst key) (snd key))"

definition rollout_of :: "engine \<Rightarrow> u64 \<Rightarrow> rollout_plan option" where
  "rollout_of st i = map_of (st_rollouts st) i"

definition worker_of :: "engine \<Rightarrow> u64 \<Rightarrow> worker_lease option" where
  "worker_of st i = map_of (st_workers st) i"

definition bump_sequence :: "engine \<Rightarrow> engine" where
  "bump_sequence st = st\<lparr>st_sequence := next_generation (st_sequence st)\<rparr>"

text \<open>A write through a record reference: the record under the key is replaced.\<close>

definition put_version :: "version_record \<Rightarrow> engine \<Rightarrow> engine" where
  "put_version r st = st\<lparr>st_versions := om_put (vr_model r, vr_version r) r (st_versions st)\<rparr>"

definition put_rollout :: "rollout_plan \<Rightarrow> engine \<Rightarrow> engine" where
  "put_rollout p st = st\<lparr>st_rollouts := om_put (pl_id p) p (st_rollouts st)\<rparr>"

section \<open>Shared checks\<close>

definition valid_token :: "string \<Rightarrow> nat \<Rightarrow> bool" where
  "valid_token txt max_length \<longleftrightarrow> txt \<noteq> [] \<and> length txt \<le> max_length \<and>
     list_all (\<lambda>c. is_alnum c \<or> c = CHR ''.'' \<or> c = CHR ''_'' \<or> c = CHR ''-'' \<or> c = CHR '':'' \<or>
       c = CHR ''/'' \<or> c = CHR ''+'' \<or> c = CHR ''@'') txt"

definition check_epoch :: "engine \<Rightarrow> u64 \<Rightarrow> decision" where
  "check_epoch st expected =
     (if id_valid expected \<and> expected \<noteq> st_epoch st then
        refuse OC_CONFLICT (Ord CoordinatorEpochStale) ''frame carries a superseded coordinator epoch''
      else new_decision OC_Accepted)"

definition check_policy_generation :: "engine \<Rightarrow> u64 \<Rightarrow> decision" where
  "check_policy_generation st expected =
     (if id_valid expected \<and> expected \<noteq> lp_generation (ps_base (st_policy st)) then
        refuse OC_STALE_PLAN (Pol PolicyGenerationMismatch)
          ''request cites a superseded lifecycle policy generation''
      else new_decision OC_Accepted)"

definition check_worker :: "engine \<Rightarrow> u64 \<Rightarrow> u64 \<Rightarrow> u64 \<Rightarrow> decision" where
  "check_worker st worker boot expected_epoch =
     (if \<not> id_valid worker then new_decision OC_Accepted
      else case worker_of st worker of
          None \<Rightarrow> refuse OC_Rejected (Wrk WorkerUnknown) ''worker is not registered with this coordinator''
        | Some lease \<Rightarrow>
            if wl_fenced lease then refuse OC_Rejected (Wrk WorkerBootStale) ''worker lease is fenced''
            else if \<not> id_valid boot \<or> wl_boot lease \<noteq> boot then
              refuse OC_Rejected (Wrk WorkerBootStale)
                ''worker boot identity is not the current boot for this worker''
            else if id_valid expected_epoch \<and> wl_epoch lease \<noteq> expected_epoch then
              refuse OC_CONFLICT (Wrk CoordinatorEpochMismatch)
                ''worker lease belongs to a different coordinator epoch''
            else new_decision OC_Accepted)"

definition check_scope :: "engine \<Rightarrow> u64 \<Rightarrow> u64 \<Rightarrow> decision" where
  "check_scope st scope expected =
     (case sr_find (st_scopes st) scope of
        None \<Rightarrow> refuse OC_Rejected (Reg UnknownScope) ''scope is not registered''
      | Some r \<Rightarrow>
          if id_valid expected \<and> expected \<noteq> s_generation r then
            refuse OC_STALE_PLAN (Ord ScopeGenerationMismatch)
              ''scope generation advanced since the request was formed''
          else new_decision OC_Accepted)"

definition version_subject :: "version_record \<Rightarrow> u64 \<Rightarrow> evidence_subject" where
  "version_subject r scope = empty_subject\<lparr>es_model := vr_model r, es_version := vr_version r,
     es_model_generation := vr_generation r, es_artifact_set := ab_set_id (vr_artifact r),
     es_artifact_generation := ab_generation (vr_artifact r), es_scope := scope,
     es_compatibility_generation := vr_compatibility_generation r\<rparr>"

definition stage_subject :: "version_record \<Rightarrow> rollout_plan \<Rightarrow> stage_definition \<Rightarrow> u64 \<Rightarrow> evidence_subject" where
  "stage_subject r plan stage scope = (version_subject r scope)\<lparr>es_rollout := pl_id plan,
     es_rollout_generation := pl_generation plan, es_stage := sg_id stage,
     es_stage_generation := pl_current_stage_generation plan\<rparr>"

text \<open>The reason an evidence lookup contributes: the switch of \<open>check_evidence_list\<close>.\<close>

definition evidence_fault ::
  "evidence_requirement \<Rightarrow> evidence_lookup \<Rightarrow> (outcome_code \<times> reason_code \<times> string) option" where
  "evidence_fault requirement l =
     (let name = to_string_evidence_kind (er_kind requirement) in
      case el_currentness l of
        EC_Current \<Rightarrow>
          (case el_record l of
             None \<Rightarrow> None
           | Some r \<Rightarrow>
               if e_verdict r \<noteq> er_required_verdict requirement then
                 Some (OC_STALE_EVIDENCE, (Evd EvidenceUnsatisfiedCriteria),
                   name @ '' verdict is '' @ to_string_verdict (e_verdict r))
               else None)
      | EC_Missing \<Rightarrow> Some (OC_STALE_EVIDENCE, (Evd EvidenceMissing), name)
      | EC_SubjectMismatch \<Rightarrow> Some (OC_STALE_EVIDENCE, (Evd EvidenceSubjectMismatch), name)
      | EC_GenerationStale \<Rightarrow>
          Some (OC_STALE_EVIDENCE, (Evd EvidenceSubjectModelGenerationMismatch), name)
      | EC_PublisherStale \<Rightarrow> Some (OC_STALE_EVIDENCE, (Evd EvidencePublisherBootStale), name)
      | EC_Expired \<Rightarrow> Some (OC_STALE_EVIDENCE, (Evd EvidenceStale), name)
      | EC_Conflicting \<Rightarrow> Some (OC_AMBIGUOUS, (Evd EvidenceConflicting), name)
      | EC_UnknownProvenance \<Rightarrow> Some (OC_STALE_EVIDENCE, (Evd EvidenceUnknownProvenance), name))"

fun check_evidence_loop ::
  "engine \<Rightarrow> evidence_subject \<Rightarrow> evidence_requirement list \<Rightarrow> decision \<Rightarrow> decision" where
  "check_evidence_loop st subject [] d = d"
| "check_evidence_loop st subject (requirement # rest) d =
     (let l = resolve requirement subject 0 (er_require_current_publisher requirement) 0
                (lp_max_evidence_age_ticks (ps_base (st_policy st))) (st_evidence st) in
      check_evidence_loop st subject rest
        (case evidence_fault requirement l of
           None \<Rightarrow> d
         | Some (code, reason, detail) \<Rightarrow> add_reason (set_outcome d code) reason detail))"

definition check_evidence_list ::
  "engine \<Rightarrow> evidence_requirement list \<Rightarrow> evidence_subject \<Rightarrow> decision" where
  "check_evidence_list st requirements subject =
     normalize_decision (check_evidence_loop st subject requirements (new_decision OC_Accepted))"

definition resolve_compatibility_for ::
  "engine \<Rightarrow> version_record \<Rightarrow> string \<Rightarrow> environment_profile option \<Rightarrow> compatibility_outcome \<times> decision" where
  "resolve_compatibility_for st r environment_key environment =
     (let key = (if environment_key = [] then
                   (case environment of Some en \<Rightarrow> en_key en | None \<Rightarrow> [])
                 else environment_key);
          published = (if key = [] then None else lookup_fact (vr_version r) key (st_compatibility st)) in
      case published of
        Some f \<Rightarrow>
          if cf_model_generation f \<noteq> vr_generation r \<or>
              cf_artifact_generation f \<noteq> ab_generation (vr_artifact r) then
            (CO_STALE_EVIDENCE, refuse OC_STALE_EVIDENCE (Cmp CompatibilityStale)
               ''published compatibility targets an older model or artifact generation'')
          else if is_serving_compatible (cf_outcome f) then (cf_outcome f, new_decision OC_Ok)
          else (cf_outcome f, refuse OC_INCOMPATIBLE (reason_for (cf_outcome f)) (cf_detail f))
      | None \<Rightarrow>
          (case environment of
             Some en \<Rightarrow> evaluate_requirements (vr_requirements r) en
           | None \<Rightarrow>
               (CO_UNKNOWN, refuse OC_STALE_EVIDENCE (Cmp CompatibilityMissing)
                  (if key = [] then ''no compatibility fact and no environment profile supplied''
                   else ''no compatibility fact published for environment '' @ key))))"

record criterion_result =
  cx_satisfied :: bool
  cx_present :: bool
  cx_value :: u64
  cx_detail :: string

definition evaluate_criterion :: "engine \<Rightarrow> criterion \<Rightarrow> evidence_subject \<Rightarrow> criterion_result" where
  "evaluate_criterion st c subject =
     (let requirement = \<lparr>er_kind = ct_kind c, er_required_verdict = EV_Satisfied,
            er_require_exact_subject = True, er_require_current_publisher = False\<rparr>;
          l = resolve requirement subject 0 False 0
                (lp_max_evidence_age_ticks (ps_base (st_policy st))) (st_evidence st) in
      case el_record l of
        Some r \<Rightarrow>
          if el_currentness l \<noteq> EC_Current then
            \<lparr>cx_satisfied = False, cx_present = False, cx_value = 0,
             cx_detail = to_string_currentness (el_currentness l)\<rparr>
          else
            \<lparr>cx_satisfied = (if ct_comparison c = CC_AtLeast then f64_le (ct_threshold c) (e_value r)
                             else f64_le (e_value r) (ct_threshold c)),
             cx_present = True, cx_value = e_value r, cx_detail = []\<rparr>
      | None \<Rightarrow>
          \<lparr>cx_satisfied = False, cx_present = False, cx_value = 0,
           cx_detail = to_string_currentness (el_currentness l)\<rparr>)"

text \<open>Why a plan binding no longer matches registry truth; \<open>None\<close> when it still does.\<close>

definition check_plan_bindings :: "engine \<Rightarrow> rollout_plan \<Rightarrow> (reason_code \<times> string) option" where
  "check_plan_bindings st plan =
     (case version_of st (pl_model plan) (pl_candidate plan) of
        None \<Rightarrow> Some ((Reg UnknownVersion), ''plan candidate no longer exists'')
      | Some r \<Rightarrow>
          if retired r then Some ((Prm PromotionCandidateRetired), ''plan candidate was retired'')
          else if vr_generation r \<noteq> pl_candidate_generation plan then
            Some ((Ord ModelGenerationMismatch), ''candidate model generation advanced'')
          else if ab_set_id (vr_artifact r) \<noteq> pl_candidate_artifact_set plan \<or>
              ab_generation (vr_artifact r) \<noteq> pl_candidate_artifact_generation plan then
            Some ((Art ArtifactGenerationMismatch), ''candidate artifact generation advanced'')
          else if vr_compatibility_generation r \<noteq> pl_compatibility_generation plan then
            Some ((Cmp CompatibilityStale), ''compatibility generation advanced or was invalidated'')
          else if lp_generation (ps_base (st_policy st)) \<noteq> pl_policy_generation plan then
            Some ((Pol PolicyGenerationMismatch), ''lifecycle policy generation advanced'')
          else case sr_find (st_scopes st) (pl_root_scope plan) of
              None \<Rightarrow> Some ((Reg UnknownScope), ''plan root scope no longer exists'')
            | Some root \<Rightarrow>
                if s_generation root \<noteq> pl_root_scope_generation plan then
                  Some ((Ord ScopeGenerationMismatch), ''plan root scope generation advanced'')
                else None)"

section \<open>Lifecycle transitions\<close>

definition transition :: "lifecycle_state \<Rightarrow> version_record \<Rightarrow> decision \<times> version_record" where
  "transition to_state r =
     (if vr_state r = to_state then
        (refuse OC_Rejected (Lfc InvalidLifecycleTransition) ''already in the target state'', r)
      else if \<not> is_transition_allowed (vr_state r) to_state then
        (refuse OC_Rejected (Lfc InvalidLifecycleTransition)
           (to_string_state (vr_state r) @ '' -> '' @ to_string_state to_state), r)
      else (new_decision OC_Accepted,
        r\<lparr>vr_state := to_state, vr_lifecycle_generation := next_generation (vr_lifecycle_generation r)\<rparr>))"

fun apply_path :: "lifecycle_state list \<Rightarrow> version_record \<Rightarrow> decision \<times> version_record" where
  "apply_path [] r = (new_decision OC_Accepted, r)"
| "apply_path (step # steps) r =
     (case transition step r of (stepped, r') \<Rightarrow>
        if \<not> allowed stepped then (stepped, r') else apply_path steps r')"

definition advance_lifecycle_to :: "lifecycle_state \<Rightarrow> version_record \<Rightarrow> decision \<times> version_record" where
  "advance_lifecycle_to target r =
     (if vr_state r = target then (new_decision OC_Accepted, r)
      else if is_terminal (vr_state r) then
        (refuse OC_Rejected (Lfc VersionRetired) ''a retired generation cannot change lifecycle state'', r)
      else case search successors target [vr_state r] [vr_state r] [] of
          None \<Rightarrow>
            (refuse OC_Rejected (Lfc InvalidLifecycleTransition)
               (to_string_state (vr_state r) @ '' -> '' @ to_string_state target @ '' has no legal path''), r)
        | Some previous \<Rightarrow>
            (case walk_back (Suc (length previous)) previous (vr_state r) target [] of
               None \<Rightarrow>
                 (refuse OC_Rejected (Lfc InvalidLifecycleTransition)
                    ''lifecycle path reconstruction failed'', r)
             | Some path \<Rightarrow> apply_path path r))"

definition advance_version :: "u64 \<Rightarrow> u64 \<Rightarrow> lifecycle_state \<Rightarrow> engine \<Rightarrow> decision \<times> engine" where
  "advance_version model version target st =
     (case version_of st model version of
        None \<Rightarrow> (new_decision OC_Accepted, st)
      | Some r \<Rightarrow> (case advance_lifecycle_to target r of (d, r') \<Rightarrow> (d, put_version r' st)))"

section \<open>Authority\<close>

definition holds_live_authority :: "engine \<Rightarrow> u64 \<Rightarrow> u64 \<Rightarrow> bool \<Rightarrow> bool" where
  "holds_live_authority st model version include_canary \<longleftrightarrow>
     list_ex (\<lambda>b. \<not> b_superseded b \<and>
       (b_kind b = AK_Exclusive \<or>
        (include_canary \<and> (b_kind b = AK_Canary \<or> b_kind b = AK_SplitTraffic)) \<or>
        (include_canary \<and> b_kind b = AK_Draining)))
       (bindings_for_version (st_authority st) model version)"

definition live_plans_for :: "engine \<Rightarrow> u64 \<Rightarrow> rollout_plan list" where
  "live_plans_for st version =
     filter (\<lambda>p. pl_candidate p = version \<and> live p) (map snd (st_rollouts st))"

text \<open>What the caller of \<open>grant_authority\<close> passes beside the record and the scope.\<close>

record grant_request =
  gq_kind :: authority_kind
  gq_plan :: "rollout_plan option"
  gq_stage :: "stage_definition option"
  gq_promotion :: u64
  gq_promotion_generation :: u64
  gq_rollback :: u64
  gq_rollback_generation :: u64
  gq_supersede_existing :: bool
  gq_retention_target :: u64
  gq_retention_generation :: u64

text \<open>
  The binding both branches of \<open>grant_authority\<close> fill in, from the state after
  \<open>bump_sequence\<close>.
\<close>

definition make_binding :: "engine \<Rightarrow> version_record \<Rightarrow> u64 \<Rightarrow> u64 \<Rightarrow> authority_kind \<Rightarrow> grant_request \<Rightarrow> authority_binding" where
  "make_binding st r scope scope_generation kind q = empty_binding\<lparr>
     b_scope := scope, b_scope_generation := scope_generation, b_model := vr_model r,
     b_version := vr_version r, b_model_generation := vr_generation r,
     b_artifact_set := ab_set_id (vr_artifact r),
     b_artifact_generation := ab_generation (vr_artifact r),
     b_lifecycle_state := vr_state r, b_kind := kind,
     b_promotion := gq_promotion q, b_promotion_generation := gq_promotion_generation q,
     b_rollback := gq_rollback q, b_rollback_generation := gq_rollback_generation q,
     b_epoch := st_epoch st,
     b_evidence_generation := (if 0 < st_next_evidence_generation st
                               then st_next_evidence_generation st - 1 else 0),
     b_granted_sequence := st_sequence st,
     b_rollout := (case gq_plan q of Some p \<Rightarrow> pl_id p | None \<Rightarrow> 0),
     b_rollout_generation := (case gq_plan q of Some p \<Rightarrow> pl_generation p | None \<Rightarrow> 0),
     b_stage := (case gq_plan q of None \<Rightarrow> 0
                 | Some p \<Rightarrow> (case gq_stage q of Some s \<Rightarrow> sg_id s | None \<Rightarrow> 0)),
     b_stage_generation := (case gq_plan q of None \<Rightarrow> 0
                 | Some p \<Rightarrow> (case gq_stage q of Some s \<Rightarrow> pl_current_stage_generation p | None \<Rightarrow> 0))\<rparr>"

definition copy_refusal :: "decision \<Rightarrow> decision" where
  "copy_refusal d = add_reasons (new_decision (d_outcome d)) (d_reasons d)"

text \<open>
  The tail of \<open>grant_authority\<close>: the displaced generation is retained when it is the named
  rollback target, and leaves CURRENT when it no longer holds the exclusive authority it had.
\<close>

definition retention_binding ::
  "engine \<Rightarrow> authority_binding \<Rightarrow> version_record \<Rightarrow> u64 \<Rightarrow> u64 \<Rightarrow> authority_binding" where
  "retention_binding st old previous scope scope_generation = empty_binding\<lparr>
     b_scope := scope, b_scope_generation := scope_generation, b_model := b_model old,
     b_version := b_version old, b_model_generation := b_model_generation old,
     b_artifact_set := b_artifact_set old, b_artifact_generation := b_artifact_generation old,
     b_lifecycle_state := vr_state previous, b_kind := AK_RollbackRetained,
     b_epoch := st_epoch st, b_granted_sequence := st_sequence st,
     b_rollout := b_rollout old, b_rollout_generation := b_rollout_generation old\<rparr>"

definition settle_displaced ::
  "u64 \<Rightarrow> u64 \<Rightarrow> grant_request \<Rightarrow> authority_binding \<Rightarrow> engine \<Rightarrow> decision \<times> engine" where
  "settle_displaced scope scope_generation q old st =
     (if \<not> id_valid (b_version old) then (new_decision OC_Accepted, st)
      else case version_of st (b_model old) (b_version old) of
          None \<Rightarrow> (new_decision OC_Accepted, st)
        | Some previous \<Rightarrow>
            if retired previous then (new_decision OC_Accepted, st)
            else
              let is_target = (id_valid (gq_retention_target q) \<and> gq_retention_target q = b_version old \<and>
                    (\<not> id_valid (gq_retention_generation q) \<or>
                     gq_retention_generation q = b_model_generation old));
                  (retained, st1) =
                    (if is_target then
                       (let st0 = bump_sequence st in
                        case grant (retention_binding st0 old previous scope scope_generation) True
                               (st_authority st0) of
                          (d, auth) \<Rightarrow> (d, st0\<lparr>st_authority := auth\<rparr>))
                     else (new_decision OC_Accepted, st)) in
              if \<not> allowed retained then (copy_refusal retained, st1)
              else if \<not> holds_live_authority st1 (vr_model previous) (vr_version previous) False then
                (new_decision OC_Accepted,
                 snd (advance_version (b_model old) (b_version old) LS_DRAINING st1))
              else if vr_state previous = LS_CURRENT then
                (new_decision OC_Accepted,
                 snd (advance_version (b_model old) (b_version old) LS_PARTIALLY_PROMOTED st1))
              else (new_decision OC_Accepted, st1))"

definition grant_authority ::
  "u64 \<Rightarrow> u64 \<Rightarrow> u64 \<Rightarrow> grant_request \<Rightarrow> engine \<Rightarrow> decision \<times> engine" where
  "grant_authority model version scope q st =
     (case version_of st model version of
        None \<Rightarrow> (refuse OC_Rejected (Reg UnknownVersion) ''version is not registered'', st)
      | Some r \<Rightarrow>
          if retired r then
            (refuse OC_Rejected (Prm PromotionCandidateRetired)
               ''a retired generation can never be granted authority'', st)
          else case sr_find (st_scopes st) scope of
              None \<Rightarrow> (refuse OC_Rejected (Reg UnknownScope) ''authority target scope is not registered'', st)
            | Some scope_record \<Rightarrow>
                let st0 = bump_sequence st;
                    (granted, old, auth) =
                      (if gq_supersede_existing q then
                         replace_exclusive
                           (make_binding st0 r scope (s_generation scope_record) AK_Exclusive q) (st_authority st0)
                       else
                         (let allow_coexistence =
                                lp_allow_split_traffic (effective (st_policy st0) (st_scopes st0) scope) in
                          case grant (make_binding st0 r scope (s_generation scope_record) (gq_kind q) q)
                                 allow_coexistence (st_authority st0) of
                            (d, auth) \<Rightarrow> (d, empty_binding, auth)));
                    st1 = st0\<lparr>st_authority := auth\<rparr> in
                if \<not> allowed granted then (copy_refusal granted, st1)
                else case settle_displaced scope (s_generation scope_record) q old st1 of
                    (settled, st2) \<Rightarrow>
                      if \<not> allowed settled then (settled, st2)
                      else (new_decision OC_Accepted, st2\<lparr>st_scopes := touch scope (st_scopes st2)\<rparr>))"

end
