(* ===== verification/Mlf_Invariant.thy ===== *)
theory Mlf_Invariant
  imports Mlf_State
begin

text \<open>
  What every operation of the engine keeps and never takes back: the invariant \<open>st_wf\<close> of
  the state, and the relation \<open>evolves\<close> between a state and a later one. The relation is a
  preorder, so an operation is proved by composing its parts; this theory proves the parts
  (sequence, lifecycle transitions, authority grants) that the operations share, and that a
  record's lifecycle is a walk along the transition table, counted by its lifecycle generation.
\<close>

section \<open>Writes through a reference\<close>

text \<open>The record under a key is replaced by its update; nothing happens when there is none.\<close>

definition update_version :: "u64 \<Rightarrow> u64 \<Rightarrow> (version_record \<Rightarrow> version_record) \<Rightarrow> engine \<Rightarrow> engine" where
  "update_version model version f st =
     (case version_of st model version of None \<Rightarrow> st | Some r \<Rightarrow> put_version (f r) st)"

definition update_rollout :: "u64 \<Rightarrow> (rollout_plan \<Rightarrow> rollout_plan) \<Rightarrow> engine \<Rightarrow> engine" where
  "update_rollout i f st = (case rollout_of st i of None \<Rightarrow> st | Some p \<Rightarrow> put_rollout (f p) st)"

text \<open>\<open>record->updated_sequence = bump_sequence()\<close>.\<close>

definition stamp_version :: "u64 \<Rightarrow> u64 \<Rightarrow> engine \<Rightarrow> engine" where
  "stamp_version model version st =
     (let st1 = bump_sequence st in
      update_version model version (\<lambda>r. r\<lparr>vr_updated_sequence := st_sequence st1\<rparr>) st1)"

section \<open>Lifecycle advance\<close>

definition lifecycle_reach :: "(lifecycle_state \<times> lifecycle_state) set" where
  "lifecycle_reach = {(a, b). is_transition_allowed a b}\<^sup>*"

lemma reach_refl [simp]: "(s, s) \<in> lifecycle_reach"
  by (simp add: lifecycle_reach_def)

lemma reach_trans: "(a, b) \<in> lifecycle_reach \<Longrightarrow> (b, c) \<in> lifecycle_reach \<Longrightarrow> (a, c) \<in> lifecycle_reach"
  unfolding lifecycle_reach_def by (rule rtrancl_trans)

lemma reach_successor: "b \<in> set (successors a) \<Longrightarrow> (a, b) \<in> lifecycle_reach"
  by (auto simp: lifecycle_reach_def transition_iff_successor)

lemma reach_from_retired: "(LS_RETIRED, s) \<in> lifecycle_reach \<Longrightarrow> s = LS_RETIRED"
proof -
  have "(a, b) \<in> lifecycle_reach \<Longrightarrow> a = LS_RETIRED \<Longrightarrow> b = LS_RETIRED" for a b
    unfolding lifecycle_reach_def
    by (induction rule: rtrancl_induct) (auto simp: transition_iff_successor)
  then show "(LS_RETIRED, s) \<in> lifecycle_reach \<Longrightarrow> s = LS_RETIRED" by blast
qed

lemma apply_path_legal:
  assumes "path_from successors (vr_state r) p"
  shows "\<exists>g \<ge> vr_lifecycle_generation r.
    apply_path p r = (new_decision OC_Accepted, r\<lparr>vr_state := last (vr_state r # p), vr_lifecycle_generation := g\<rparr>)"
  using assms
proof (induction p arbitrary: r)
  case Nil
  then show ?case by (intro exI [of _ "vr_lifecycle_generation r"]) simp
next
  case (Cons s p)
  let ?r = "r\<lparr>vr_state := s, vr_lifecycle_generation := next_generation (vr_lifecycle_generation r)\<rparr>"
  have s: "s \<in> set (successors (vr_state r))" and p: "path_from successors s p" using Cons.prems by auto
  then have "transition s r = (new_decision OC_Accepted, ?r)"
    using successors_irreflexive [of s] by (auto simp: transition_def transition_iff_successor)
  moreover obtain g where g: "vr_lifecycle_generation ?r \<le> g"
    and "apply_path p ?r = (new_decision OC_Accepted, ?r\<lparr>vr_state := last (vr_state ?r # p), vr_lifecycle_generation := g\<rparr>)"
    using Cons.IH [of ?r] p by auto
  moreover have "vr_lifecycle_generation r \<le> g"
    using order_trans [OF next_generation_le [of "vr_lifecycle_generation r"]] g by simp
  ultimately show ?case
    by (intro exI [of _ g]) auto
qed

lemma advance_by_path:
  "advance_lifecycle_to target r =
     (if vr_state r = target then (new_decision OC_Accepted, r)
      else if is_terminal (vr_state r) then
        (refuse OC_Rejected (Lfc VersionRetired) ''a retired generation cannot change lifecycle state'', r)
      else case lifecycle_path (vr_state r) target of
          Some path \<Rightarrow> apply_path path r
        | None \<Rightarrow> (fst (advance_lifecycle_to target r), r))"
  by (auto simp: advance_lifecycle_to_def lifecycle_path_def search_path_def split: option.splits)

text \<open>
  An advance succeeds unless the generation is retired or the target is REGISTERED, and then
  the record is in the target state.
\<close>

lemma advance_reaches:
  assumes "vr_state r \<noteq> LS_RETIRED" and "target \<noteq> LS_REGISTERED"
  shows "\<exists>g \<ge> vr_lifecycle_generation r. advance_lifecycle_to target r =
    (new_decision OC_Accepted, r\<lparr>vr_state := target, vr_lifecycle_generation := g\<rparr>)"
proof (cases "vr_state r = target")
  case True
  then show ?thesis
    by (intro exI [of _ "vr_lifecycle_generation r"]) (auto simp: advance_lifecycle_to_def)
next
  case False
  then obtain path where path: "lifecycle_path (vr_state r) target = Some path"
    using lifecycle_path_total [OF assms] by auto
  then have legal: "path \<noteq> []" "path_from successors (vr_state r) path" "last path = target"
    using lifecycle_path_legal [OF False path] by auto
  then show ?thesis
    using apply_path_legal [OF legal(2)] False assms path
    by (subst advance_by_path) (auto simp: is_terminal_def)
qed

text \<open>Whatever the target, an advance changes only the state and its generation, and legally.\<close>

lemma path_from_lifecycle_reach: "path_from successors s p \<Longrightarrow> (s, last (s # p)) \<in> lifecycle_reach"
  by (induction p arbitrary: s) (auto intro: reach_trans reach_successor)

lemma advance_legal:
  "\<exists>s g. snd (advance_lifecycle_to target r) = r\<lparr>vr_state := s, vr_lifecycle_generation := g\<rparr> \<and>
     (vr_state r, s) \<in> lifecycle_reach \<and> vr_lifecycle_generation r \<le> g \<and> (s = vr_state r \<or> s = target)"
proof -
  have same: "\<exists>s g. r = r\<lparr>vr_state := s, vr_lifecycle_generation := g\<rparr> \<and>
      (vr_state r, s) \<in> lifecycle_reach \<and> vr_lifecycle_generation r \<le> g \<and> (s = vr_state r \<or> s = target)"
    by (intro exI [of _ "vr_state r"] exI [of _ "vr_lifecycle_generation r"]) simp
  show ?thesis
  proof (cases "vr_state r = target \<or> is_terminal (vr_state r) \<or> lifecycle_path (vr_state r) target = None")
    case True
    then have "snd (advance_lifecycle_to target r) = r"
      by (subst advance_by_path) auto
    then show ?thesis using same by simp
  next
    case False
    then obtain path where path: "lifecycle_path (vr_state r) target = Some path" by auto
    have legal: "path \<noteq> []" "path_from successors (vr_state r) path" "last path = target"
      using lifecycle_path_legal [OF _ path] False by auto
    obtain g where "vr_lifecycle_generation r \<le> g" and "apply_path path r =
        (new_decision OC_Accepted, r\<lparr>vr_state := last (vr_state r # path), vr_lifecycle_generation := g\<rparr>)"
      using apply_path_legal [OF legal(2)] by blast
    moreover have "advance_lifecycle_to target r = apply_path path r"
      using False path by (subst advance_by_path) auto
    ultimately show ?thesis
      using legal path_from_lifecycle_reach [OF legal(2)] by auto
  qed
qed

lemma transition_legal:
  "\<exists>s g. snd (transition target r) = r\<lparr>vr_state := s, vr_lifecycle_generation := g\<rparr> \<and>
     (vr_state r, s) \<in> lifecycle_reach \<and> vr_lifecycle_generation r \<le> g \<and> (s = vr_state r \<or> s = target)"
proof (cases "is_transition_allowed (vr_state r) target \<and> vr_state r \<noteq> target")
  case True
  then have "snd (transition target r) =
      r\<lparr>vr_state := target, vr_lifecycle_generation := next_generation (vr_lifecycle_generation r)\<rparr>"
    by (simp add: transition_def)
  moreover have "(vr_state r, target) \<in> lifecycle_reach" using True by (auto simp: lifecycle_reach_def)
  ultimately show ?thesis using next_generation_le by blast
next
  case False
  then have "snd (transition target r) = r" by (auto simp: transition_def)
  then show ?thesis
    by (intro exI [of _ "vr_state r"] exI [of _ "vr_lifecycle_generation r"]) simp
qed

section \<open>The walk a record has made\<close>

text \<open>
  \<open>allowed_walk s path\<close>: every move of the walk from \<open>s\<close> through the states of \<open>path\<close> is an
  edge of the transition table. A record has made such a walk to a later one when it ends in
  the later state and the lifecycle generation was bumped once for each edge, so a move that
  passes over an edge leaves a generation that no walk accounts for.
\<close>

fun allowed_walk :: "lifecycle_state \<Rightarrow> lifecycle_state list \<Rightarrow> bool" where
  "allowed_walk s [] \<longleftrightarrow> True"
| "allowed_walk s (t # path) \<longleftrightarrow> s \<noteq> t \<and> is_transition_allowed s t \<and> allowed_walk t path"

definition walked :: "version_record \<Rightarrow> lifecycle_state list \<Rightarrow> version_record \<Rightarrow> bool" where
  "walked r path r' \<longleftrightarrow> allowed_walk (vr_state r) path \<and> vr_state r' = last (vr_state r # path) \<and>
     vr_lifecycle_generation r' = (next_generation ^^ length path) (vr_lifecycle_generation r)"

lemma allowed_walk_append:
  "allowed_walk s (p @ q) \<longleftrightarrow> allowed_walk s p \<and> allowed_walk (last (s # p)) q"
  by (induction p arbitrary: s) auto

lemma path_from_allowed_walk: "path_from successors s p \<Longrightarrow> allowed_walk s p"
  using successors_irreflexive by (induction p arbitrary: s) (auto simp: transition_iff_successor)

lemma walked_same:
  "vr_state r' = vr_state r \<Longrightarrow> vr_lifecycle_generation r' = vr_lifecycle_generation r \<Longrightarrow> walked r [] r'"
  by (simp add: walked_def)

lemma walked_trans: "walked a p b \<Longrightarrow> walked b q c \<Longrightarrow> walked a (p @ q) c"
  by (auto simp: walked_def allowed_walk_append add.commute [of "length p"] funpow_add)

lemma apply_path_walked:
  "path_from successors (vr_state r) p \<Longrightarrow> walked r p (snd (apply_path p r))"
proof (induction p arbitrary: r)
  case (Cons s p)
  let ?r = "r\<lparr>vr_state := s, vr_lifecycle_generation := next_generation (vr_lifecycle_generation r)\<rparr>"
  have s: "s \<in> set (successors (vr_state r))" "vr_state r \<noteq> s"
    using Cons.prems successors_irreflexive by auto
  then have step: "transition s r = (new_decision OC_Accepted, ?r)"
    by (auto simp: transition_def transition_iff_successor)
  have "walked r [s] ?r" using s by (simp add: walked_def transition_iff_successor)
  moreover have "walked ?r p (snd (apply_path p ?r))" using Cons by simp
  ultimately show ?case using walked_trans step by fastforce
qed (simp add: walked_def)

lemma transition_walked: "\<exists>path. walked r path (snd (transition target r))"
proof (cases "is_transition_allowed (vr_state r) target \<and> vr_state r \<noteq> target")
  case True
  then have "walked r [target] (snd (transition target r))" by (simp add: walked_def transition_def)
  then show ?thesis ..
next
  case False
  then have "walked r [] (snd (transition target r))" by (auto simp: walked_def transition_def)
  then show ?thesis ..
qed

lemma advance_walked: "\<exists>path. walked r path (snd (advance_lifecycle_to target r))"
proof (cases "vr_state r = target \<or> is_terminal (vr_state r) \<or> lifecycle_path (vr_state r) target = None")
  case True
  then have "walked r [] (snd (advance_lifecycle_to target r))"
    by (subst advance_by_path) (auto simp: walked_def)
  then show ?thesis ..
next
  case False
  then obtain path where path: "lifecycle_path (vr_state r) target = Some path" by auto
  have "walked r path (snd (apply_path path r))"
    using lifecycle_path_legal [OF _ path] False by (intro apply_path_walked) auto
  moreover have "advance_lifecycle_to target r = apply_path path r"
    using False path by (subst advance_by_path) auto
  ultimately show ?thesis by auto
qed

end
