(* ===== verification/Mlf_Registry.thy ===== *)
theory Mlf_Registry
  imports Mlf_Invariant
begin

text \<open>
  Registration of models, versions and scopes, revision of a version, and policy changes:
  the second half of src/engine_registry.cpp. Each operation takes the engine
  configuration, its request and the state, and returns the decision, the identity it hands
  out (0 where it hands out none) and the new state.
\<close>

record register_version_request =
  rv_model :: u64
  rv_label :: string
  rv_artifact :: artifact_binding
  rv_requirements :: model_requirements
  rv_predecessor :: u64
  rv_provenance :: provenance

record revise_version_request =
  re_model :: u64
  re_version :: u64
  re_expected_generation :: u64
  re_artifact :: artifact_binding
  re_requirements :: model_requirements
  re_provenance :: provenance

definition concrete_artifact :: "artifact_binding \<Rightarrow> bool" where
  "concrete_artifact a \<longleftrightarrow> id_valid (ab_set_id a) \<and> id_valid (ab_generation a)"

definition default_provenance :: "engine_config \<Rightarrow> provenance \<Rightarrow> provenance" where
  "default_provenance cfg p = (if p = PV_Unknown then ec_default_provenance cfg else p)"

definition register_model ::
  "engine_config \<Rightarrow> string \<Rightarrow> string \<Rightarrow> provenance \<Rightarrow> engine \<Rightarrow> decision \<times> u64 \<times> engine" where
  "register_model cfg name family p st =
     (if \<not> valid_token name (rb_max_name_length (ec_bounds cfg)) then
        (refuse OC_Rejected (Reg InvalidName) ''model name must be a bounded token'', 0, st)
      else if family \<noteq> [] \<and> \<not> valid_token family (rb_max_name_length (ec_bounds cfg)) then
        (refuse OC_Rejected (Reg InvalidName) ''model family must be a bounded token'', 0, st)
      else if map_of (st_model_names st) name \<noteq> None then
        (refuse OC_CONFLICT (Reg DuplicateModel) name, 0, st)
      else if rb_max_models (ec_bounds cfg) \<le> length (st_models st) then
        (refuse OC_BOUNDS_EXCEEDED (Bnd BoundsModelCount) ''model registry bound reached'', 0, st)
      else
        let i = st_next_model_id st;
            st1 = bump_sequence (st\<lparr>st_next_model_id := i + 1\<rparr>);
            r = \<lparr>mr_id = i, mr_name = name, mr_family = family,
                 mr_provenance = default_provenance cfg p, mr_created_sequence = st_sequence st1\<rparr> in
        (new_decision OC_Accepted, i,
         st1\<lparr>st_model_names := om_emplace name i (st_model_names st1),
             st_models := om_emplace i r (st_models st1)\<rparr>))"

definition versions_of_model :: "engine \<Rightarrow> u64 \<Rightarrow> nat" where
  "versions_of_model st model = length (filter (\<lambda>e. fst (fst e) = model) (st_versions st))"

definition new_version :: "engine_config \<Rightarrow> register_version_request \<Rightarrow> engine \<Rightarrow> u64 \<Rightarrow> u64 \<Rightarrow> version_record" where
  "new_version cfg q st i at_sequence = \<lparr>vr_model = rv_model q, vr_version = i, vr_label = rv_label q,
     vr_generation = 1, vr_predecessor = rv_predecessor q,
     vr_predecessor_generation =
       (if id_valid (rv_predecessor q) then
          (case version_of st (rv_model q) (rv_predecessor q) of
             Some p \<Rightarrow> vr_generation p | None \<Rightarrow> 0)
        else 0),
     vr_artifact = rv_artifact q, vr_requirements = rv_requirements q, vr_state = LS_REGISTERED,
     vr_lifecycle_generation = 1, vr_last_promotion = 0, vr_promotion_generation = 0, vr_rollout = 0,
     vr_rollout_generation = 0, vr_current_stage = 0, vr_current_stage_generation = 0,
     vr_compatibility_generation = 0, vr_last_rollback = 0, vr_rollback_generation = 0,
     vr_provenance = default_provenance cfg (rv_provenance q), vr_created_sequence = at_sequence,
     vr_updated_sequence = at_sequence\<rparr>"

definition predecessor_fault ::
  "engine_config \<Rightarrow> register_version_request \<Rightarrow> engine \<Rightarrow> decision option" where
  "predecessor_fault cfg q st =
     (if \<not> id_valid (rv_predecessor q) then None
      else case version_of st (rv_model q) (rv_predecessor q) of
          None \<Rightarrow> Some (refuse OC_Rejected (Reg ParentVersionMissing)
            ''declared predecessor is not registered for this model'')
        | Some p \<Rightarrow>
            if retired p \<and> \<not> lp_allow_version_label_reuse_after_retirement (ec_policy cfg) then
              Some (refuse OC_Rejected (Lfc VersionRetired)
                ''predecessor is retired; policy forbids extending a retired lineage'')
            else None)"

definition register_version ::
  "engine_config \<Rightarrow> register_version_request \<Rightarrow> engine \<Rightarrow> decision \<times> u64 \<times> engine" where
  "register_version cfg q st =
     (if map_of (st_models st) (rv_model q) = None then
        (refuse OC_Rejected (Reg UnknownModel) ''model is not registered'', 0, st)
      else if \<not> valid_token (rv_label q) (rb_max_name_length (ec_bounds cfg)) then
        (refuse OC_Rejected (Reg InvalidVersionLabel) ''version label must be a bounded token'', 0, st)
      else if \<not> concrete_artifact (rv_artifact q) then
        (refuse OC_Rejected (Art ArtifactSetMissing)
           ''version must bind a concrete artifact set and generation'', 0, st)
      else if \<not> valid_digest (ab_digest (rv_artifact q)) (rb_max_digest_length (ec_bounds cfg)) then
        (refuse OC_Rejected (Reg InvalidDigest) ''artifact digest is empty or malformed'', 0, st)
      else if map_of (st_version_labels st) (rv_model q, rv_label q) \<noteq> None then
        (refuse OC_CONFLICT (Reg DuplicateVersion) (rv_label q), 0, st)
      else if rb_max_versions_per_model (ec_bounds cfg) \<le> versions_of_model st (rv_model q) then
        (refuse OC_BOUNDS_EXCEEDED (Bnd BoundsVersionCount) ''per-model version bound reached'', 0, st)
      else case predecessor_fault cfg q st of
          Some d \<Rightarrow> (d, 0, st)
        | None \<Rightarrow>
            let i = st_next_version_id st;
                st1 = bump_sequence (st\<lparr>st_next_version_id := i + 1\<rparr>);
                r = new_version cfg q st i (st_sequence st1) in
            (new_decision OC_Accepted, i,
             st1\<lparr>st_version_labels := om_emplace (rv_model q, rv_label q) i (st_version_labels st1),
                 st_version_index := om_emplace i (rv_model q, i) (st_version_index st1),
                 st_versions := om_emplace (rv_model q, i) r (st_versions st1)\<rparr>))"

text \<open>
  The test that nothing material changed. It compares every requirement but the minimum
  runtime version.
\<close>

definition same_requirements :: "model_requirements \<Rightarrow> model_requirements \<Rightarrow> bool" where
  "same_requirements a b \<longleftrightarrow> rq_runtime a = rq_runtime b \<and> rq_backend a = rq_backend b \<and>
     rq_architecture a = rq_architecture b \<and> rq_precision a = rq_precision b \<and>
     rq_tokenizer_generation a = rq_tokenizer_generation b \<and> rq_adapter_set a = rq_adapter_set b"

text \<open>
  The loop over the rollouts: every live plan for the version is superseded, and the
  bindings it granted with it. The identities are those of the map before the loop, which
  the loop does not change.
\<close>

definition supersede_plan :: "u64 \<Rightarrow> u64 \<Rightarrow> engine \<Rightarrow> engine" where
  "supersede_plan version i st =
     (case rollout_of st i of
        None \<Rightarrow> st
      | Some p \<Rightarrow>
          if pl_candidate p \<noteq> version \<or> \<not> live p then st
          else
            let st1 = bump_sequence st in
            (put_rollout (p\<lparr>pl_superseded := True, pl_updated_sequence := st_sequence st1\<rparr>) st1)
              \<lparr>st_authority := snd (supersede_rollout (pl_id p) (pl_generation p) (st_authority st1))\<rparr>)"

definition supersede_plans :: "u64 \<Rightarrow> engine \<Rightarrow> engine" where
  "supersede_plans version st = fold (supersede_plan version) (map fst (st_rollouts st)) st"

definition apply_revision :: "revise_version_request \<Rightarrow> version_record \<Rightarrow> engine \<Rightarrow> engine" where
  "apply_revision q r st =
     (let st1 = bump_sequence st;
          r' = r\<lparr>vr_generation := next_generation (vr_generation r), vr_artifact := re_artifact q,
                 vr_requirements := re_requirements q, vr_compatibility_generation := 0,
                 vr_updated_sequence := st_sequence st1\<rparr> in
      (put_version r' st1)
        \<lparr>st_compatibility := snd (invalidate_version (vr_version r) (st_compatibility st1)),
         st_evidence := snd (invalidate_model_generation (vr_version r) (vr_generation r') (st_evidence st1))\<rparr>)"

definition revise_version ::
  "engine_config \<Rightarrow> revise_version_request \<Rightarrow> engine \<Rightarrow> decision \<times> engine" where
  "revise_version cfg q st =
     (case version_of st (re_model q) (re_version q) of
        None \<Rightarrow> (refuse OC_Rejected (Reg UnknownVersion) ''version is not registered'', st)
      | Some r \<Rightarrow>
          if retired r then
            (refuse OC_Rejected (Lfc VersionRetired) ''a retired generation cannot be revised'', st)
          else if id_valid (re_expected_generation q) \<and> re_expected_generation q \<noteq> vr_generation r then
            (refuse OC_CONFLICT (Ord ModelGenerationMismatch)
               ''revision expected a different model generation'', st)
          else if \<not> concrete_artifact (re_artifact q) then
            (refuse OC_Rejected (Art ArtifactSetMissing) ''revision requires a concrete artifact'', st)
          else if \<not> valid_digest (ab_digest (re_artifact q)) (rb_max_digest_length (ec_bounds cfg)) then
            (refuse OC_Rejected (Reg InvalidDigest) ''artifact digest is empty or malformed'', st)
          else if artifact_matches (re_artifact q) (vr_artifact r) \<and>
              same_requirements (re_requirements q) (vr_requirements r) then
            (new_decision OC_Accepted, st)
          else if is_terminal (vr_state r) then
            (refuse OC_Rejected (Lfc VersionRetired) ''cannot revise a terminal generation'',
             apply_revision q r st)
          else
            let st1 = supersede_plans (vr_version r) (apply_revision q r st) in
            (new_decision OC_Accepted,
             if vr_state r \<noteq> LS_REGISTERED \<and> vr_state r \<noteq> LS_VALIDATING \<and>
                 vr_state r \<noteq> LS_REVALIDATION_REQUIRED \<and> vr_state r \<noteq> LS_PROMOTION_BLOCKED then
               update_version (re_model q) (re_version q) (\<lambda>v. snd (transition LS_REVALIDATION_REQUIRED v)) st1
             else st1))"

definition register_scope :: "string \<Rightarrow> engine \<Rightarrow> decision \<times> u64 \<times> engine" where
  "register_scope path st =
     (case ensure_path path (st_scopes st) of
        (d, i, scopes) \<Rightarrow> (d, i, st\<lparr>st_scopes := scopes\<rparr>))"

text \<open>
  The enumerations of the policy are datatypes here, so the code's two checks that a kind is
  within its enumeration always pass and are left out.
\<close>

definition set_policy :: "lifecycle_policy \<Rightarrow> engine \<Rightarrow> decision \<times> engine" where
  "set_policy p st =
     (if \<not> id_valid (lp_generation p) then
        (refuse OC_Rejected (Pol PolicyGenerationMismatch) ''policy generation must be non-zero'', st)
      else if lp_max_active_generations_per_scope p = 0 \<or> 64 < lp_max_active_generations_per_scope p then
        (refuse OC_Rejected (Bnd BoundsModelCount) ''max active generations per scope must be 1..64'', st)
      else if lp_max_blast_radius_percent p = 0 \<or> 100 < lp_max_blast_radius_percent p then
        (refuse OC_Rejected (Pol BlastRadiusExceeded) ''blast radius must be 1..100 percent'', st)
      else if lp_generation p \<le> lp_generation (ps_base (st_policy st)) then
        (refuse OC_CONFLICT (Pol PolicyGenerationMismatch) ''policy generations must strictly increase'', st)
      else (new_decision OC_Accepted, bump_sequence (st\<lparr>st_policy := set_base p (st_policy st)\<rparr>)))"

definition set_scope_policy :: "scope_policy_override \<Rightarrow> engine \<Rightarrow> decision \<times> engine" where
  "set_scope_policy o' st =
     (if sr_find (st_scopes st) (po_scope o') = None then
        (refuse OC_Rejected (Reg UnknownScope) ''policy override targets an unknown scope'', st)
      else case set_override o' (st_policy st) of
          (applied, ps) \<Rightarrow>
            if \<not> allowed applied then (applied, st)
            else (new_decision OC_Accepted, bump_sequence (st\<lparr>st_policy := ps\<rparr>)))"

end
