(* ===== verification/Mlf_Workers.thy ===== *)
theory Mlf_Workers
  imports Mlf_Registry
begin

text \<open>
  The operations of src/engine_authority.cpp: the coordinator epoch, publication and
  resolution of compatibility facts, publication and expiry of evidence, worker leases and
  their fencing, and the authority query.
\<close>

section \<open>Statistics and epoch\<close>

record store_stats =
  ss_models :: nat
  ss_versions :: nat
  ss_scopes :: nat
  ss_rollouts :: nat
  ss_evidence :: nat
  ss_evidence_dropped :: u64
  ss_attempts :: nat
  ss_workers :: nat
  ss_authority_bindings :: nat
  ss_compatibility_facts :: nat
  ss_committed_promotions :: nat
  ss_committed_rollbacks :: nat
  ss_requeued_frames :: u64

definition stats :: "engine \<Rightarrow> store_stats" where
  "stats st = \<lparr>ss_models = length (st_models st), ss_versions = length (st_versions st),
     ss_scopes = length (sr_records (st_scopes st)), ss_rollouts = length (st_rollouts st),
     ss_evidence = evidence_size (st_evidence st), ss_evidence_dropped = ev_dropped (st_evidence st),
     ss_attempts = length (st_attempts st), ss_workers = length (st_workers st),
     ss_authority_bindings = sum_list (map (\<lambda>e. length (snd e)) (at_bindings (st_authority st))),
     ss_compatibility_facts = length (cr_facts (st_compatibility st)),
     ss_committed_promotions = length (st_committed_promotions st),
     ss_committed_rollbacks = length (st_committed_rollbacks st),
     ss_requeued_frames = st_requeued_frames st\<rparr>"

definition advance_epoch :: "u64 \<Rightarrow> engine \<Rightarrow> decision \<times> u64 \<times> engine" where
  "advance_epoch expected_current st =
     (if id_valid expected_current \<and> expected_current \<noteq> st_epoch st then
        (refuse OC_CONFLICT (Ord CoordinatorEpochStale)
           ''epoch precondition does not match the current epoch'', st_epoch st, st)
      else
        let e = next_generation (st_epoch st) in
        (new_decision OC_Accepted, e, bump_sequence (st\<lparr>st_epoch := e\<rparr>)))"

section \<open>Compatibility\<close>

text \<open>The scan for the first record with the version identity, in key order.\<close>

definition scan_version :: "engine \<Rightarrow> u64 \<Rightarrow> version_record option" where
  "scan_version st version =
     map_option snd (find (\<lambda>e. vr_version (snd e) = version) (st_versions st))"

definition engine_evaluate_requirements ::
  "engine \<Rightarrow> u64 \<Rightarrow> environment_profile \<Rightarrow> compatibility_outcome \<times> decision" where
  "engine_evaluate_requirements st version environment =
     (case scan_version st version of
        None \<Rightarrow> (CO_UNKNOWN, refuse OC_UNSUPPORTED (Reg UnknownVersion) ''version is not registered'')
      | Some r \<Rightarrow> evaluate_requirements (vr_requirements r) environment)"

definition fact_of ::
  "engine_config \<Rightarrow> version_record \<Rightarrow> environment_profile \<Rightarrow> compatibility_outcome \<Rightarrow> string \<Rightarrow> provenance \<Rightarrow>
     u64 \<Rightarrow> compatibility_fact" where
  "fact_of cfg r environment outcome detail_text p at_sequence = \<lparr>cf_model = vr_model r,
     cf_version = vr_version r, cf_model_generation = vr_generation r,
     cf_artifact_set = ab_set_id (vr_artifact r), cf_artifact_generation = ab_generation (vr_artifact r),
     cf_generation = 0, cf_environment_key = en_key environment, cf_outcome = outcome,
     cf_detail = clamp_detail kMaxRecordDetail detail_text,
     cf_provenance = default_provenance cfg p, cf_sequence = at_sequence\<rparr>"

definition publish_compatibility ::
  "engine_config \<Rightarrow> u64 \<Rightarrow> environment_profile \<Rightarrow> compatibility_outcome \<Rightarrow> string \<Rightarrow> provenance \<Rightarrow> engine \<Rightarrow>
     decision \<times> engine" where
  "publish_compatibility cfg version environment outcome detail_text p st =
     (case scan_version st version of
        None \<Rightarrow> (refuse OC_Rejected (Reg UnknownVersion) ''compatibility fact targets an unknown version'', st)
      | Some r \<Rightarrow>
          if retired r then
            (refuse OC_Rejected (Lfc VersionRetired)
               ''compatibility cannot be published for a retired generation'', st)
          else if \<not> environment_valid environment then
            (refuse OC_Rejected (Reg InvalidName) ''environment key must be a bounded non-empty token'', st)
          else
            let st1 = bump_sequence st;
                assigned = st_next_compatibility_generation st1 in
            case publish_fact (fact_of cfg r environment outcome detail_text p (st_sequence st1)) assigned
                   (st_compatibility st1) of
              (published, cr) \<Rightarrow>
                if \<not> allowed published then (copy_refusal published, st1)
                else
                  let r' = r\<lparr>vr_compatibility_generation := assigned, vr_updated_sequence := st_sequence st1\<rparr>;
                      r'' = (if vr_state r' = LS_REGISTERED then snd (transition LS_VALIDATING r') else r') in
                  (new_decision OC_Accepted,
                   put_version r'' (st1\<lparr>st_compatibility := cr,
                     st_next_compatibility_generation := assigned + 1\<rparr>)))"

definition resolve_compatibility ::
  "engine \<Rightarrow> u64 \<Rightarrow> environment_profile \<Rightarrow> u64 \<Rightarrow> compatibility_outcome \<times> decision" where
  "resolve_compatibility st version environment required =
     (case scan_version st version of
        None \<Rightarrow> (CO_UNKNOWN, refuse OC_UNSUPPORTED (Reg UnknownVersion) ''version is not registered'')
      | Some r \<Rightarrow>
          (case lookup_fact version (en_key environment) (st_compatibility st) of
             None \<Rightarrow> (CO_UNKNOWN, refuse OC_UNSUPPORTED (Cmp CompatibilityMissing)
               ''no compatibility fact published for this environment'')
           | Some f \<Rightarrow>
               if id_valid required \<and> cf_generation f \<noteq> required then
                 (CO_STALE_EVIDENCE, refuse OC_STALE_EVIDENCE (Cmp CompatibilityGenerationMismatch)
                    ''published compatibility generation does not match the required one'')
               else if cf_model_generation f \<noteq> vr_generation r \<or>
                   cf_artifact_generation f \<noteq> ab_generation (vr_artifact r) then
                 (CO_STALE_EVIDENCE, refuse OC_STALE_EVIDENCE (Cmp CompatibilityStale)
                    ''published compatibility targets an older generation'')
               else if is_serving_compatible (cf_outcome f) then (cf_outcome f, new_decision OC_Ok)
               else (cf_outcome f, refuse OC_INCOMPATIBLE (reason_for (cf_outcome f)) (cf_detail f))))"

section \<open>Evidence\<close>

text \<open>\<open>publish_evidence\<close> fills the record in place; the model returns it.\<close>

definition resolve_subject_model :: "engine \<Rightarrow> evidence_record \<Rightarrow> evidence_record" where
  "resolve_subject_model st e =
     (let s = e_subject e in
      if \<not> id_valid (es_model s) \<and> id_valid (es_version s) then
        (case version_of_id st (es_version s) of
           None \<Rightarrow> e
         | Some r \<Rightarrow> e\<lparr>e_subject := s\<lparr>es_model := vr_model r\<rparr>\<rparr>)
      else e)"

definition or_default :: "u64 \<Rightarrow> u64 \<Rightarrow> u64" where
  "or_default v d = (if id_valid v then v else d)"

definition complete_subject :: "version_record \<Rightarrow> evidence_subject \<Rightarrow> evidence_subject" where
  "complete_subject owner s = s\<lparr>
     es_model_generation := or_default (es_model_generation s) (vr_generation owner),
     es_artifact_set := or_default (es_artifact_set s) (ab_set_id (vr_artifact owner)),
     es_artifact_generation := or_default (es_artifact_generation s) (ab_generation (vr_artifact owner)),
     es_compatibility_generation :=
       or_default (es_compatibility_generation s) (vr_compatibility_generation owner)\<rparr>"

definition stamp_evidence :: "engine \<Rightarrow> evidence_record \<Rightarrow> evidence_record" where
  "stamp_evidence st e = e\<lparr>
     e_detail := clamp_detail kMaxRecordDetail (e_detail e), e_unit := clamp_detail 32 (e_unit e),
     e_id := st_next_evidence_id st, e_generation := st_next_evidence_generation st,
     e_epoch := st_epoch st,
     e_policy_generation :=
       or_default (e_policy_generation e) (lp_generation (ps_base (st_policy st)))\<rparr>"

definition engine_publish_evidence ::
  "evidence_record \<Rightarrow> engine \<Rightarrow> decision \<times> evidence_record \<times> engine" where
  "engine_publish_evidence e0 st =
     (let e = resolve_subject_model st e0 in
      case version_of st (es_model (e_subject e)) (es_version (e_subject e)) of
        None \<Rightarrow> (refuse OC_Rejected (Reg UnknownVersion) ''evidence subject version is not registered'', e, st)
      | Some owner \<Rightarrow>
          let e1 = e\<lparr>e_subject := complete_subject owner (e_subject e)\<rparr> in
          if e_provenance e1 = PV_Unknown then
            (refuse OC_Rejected (Evd EvidenceUnknownProvenance)
               ''evidence must declare REAL, SYNTHETIC or UNSUPPORTED provenance'', e1, st)
          else
            let e2 = stamp_evidence st e1 in
            case publish_evidence e2 (st_evidence st) of
              (published, store) \<Rightarrow>
                if \<not> allowed published then
                  (copy_refusal published, e2\<lparr>e_id := 0, e_generation := 0\<rparr>, st)
                else (new_decision OC_Accepted, e2,
                  st\<lparr>st_evidence := store, st_next_evidence_id := e_id e2 + 1,
                     st_next_evidence_generation := e_generation e2 + 1\<rparr>))"

definition check_evidence :: "engine \<Rightarrow> evidence_requirement \<Rightarrow> evidence_subject \<Rightarrow> evidence_lookup" where
  "check_evidence st requirement subject =
     resolve requirement subject 0 (er_require_current_publisher requirement) 0
       (lp_max_evidence_age_ticks (ps_base (st_policy st))) (st_evidence st)"

definition expire_publisher_evidence :: "u64 \<Rightarrow> engine \<Rightarrow> nat \<times> engine" where
  "expire_publisher_evidence boot st =
     (case invalidate_publisher_boot boot (st_evidence st) of
        (removed, store) \<Rightarrow>
          (removed, (if 0 < removed then bump_sequence else (\<lambda>s. s)) (st\<lparr>st_evidence := store\<rparr>)))"

section \<open>Workers\<close>

record worker_registration =
  wg_id :: u64
  wg_boot :: u64
  wg_epoch :: u64
  wg_scopes :: "u64 list"
  wg_provenance :: provenance

definition register_worker :: "engine_config \<Rightarrow> worker_registration \<Rightarrow> engine \<Rightarrow> decision \<times> engine" where
  "register_worker cfg q st =
     (if \<not> id_valid (wg_id q) \<or> \<not> id_valid (wg_boot q) then
        (refuse OC_Rejected (Wrk WorkerUnknown) ''worker identity and boot must be non-zero'', st)
      else if id_valid (wg_epoch q) \<and> wg_epoch q \<noteq> st_epoch st then
        (refuse OC_CONFLICT (Ord CoordinatorEpochStale)
           ''worker registered against a superseded coordinator epoch'', st)
      else if list_ex (\<lambda>s. sr_find (st_scopes st) s = None) (wg_scopes q) then
        (refuse OC_Rejected (Reg UnknownScope) ''worker claims an unregistered scope'', st)
      else if worker_of st (wg_id q) = None \<and> rb_max_workers (ec_bounds cfg) \<le> length (st_workers st) then
        (refuse OC_BOUNDS_EXCEEDED (Bnd BoundsWorkerCount) ''worker bound reached'', st)
      else if (case worker_of st (wg_id q) of
            None \<Rightarrow> False | Some l \<Rightarrow> \<not> wl_fenced l \<and> wl_boot l \<noteq> wg_boot q) then
        (refuse OC_CONFLICT (Wrk WorkerBootStale)
           ''an unfenced worker boot already holds this worker identity; fence it first so replacement requires an explicit decision'', st)
      else
        let st1 = bump_sequence st;
            lease = \<lparr>wl_id = wg_id q, wl_boot = wg_boot q, wl_epoch = st_epoch st1,
              wl_scopes = sort_unique (wg_scopes q), wl_fenced = False,
              wl_registered_sequence = st_sequence st1, wl_fenced_sequence = 0, wl_detail = []\<rparr> in
        (new_decision OC_Accepted,
         st1\<lparr>st_workers := om_put (wg_id q) lease (st_workers st1),
             st_worker_liveness := om_put (wg_id q) True (st_worker_liveness st1)\<rparr>))"

text \<open>The loop over the attempts of a fenced boot, by identity in key order.\<close>

definition fence_attempt :: "u64 \<Rightarrow> u64 \<Rightarrow> engine \<Rightarrow> engine" where
  "fence_attempt boot i st =
     (case map_of (st_attempts st) i of
        None \<Rightarrow> st
      | Some a \<Rightarrow>
          if ap_boot a \<noteq> boot \<or> ap_state a \<noteq> AS_Dispatched then st
          else
            let st1 = bump_sequence st in
            st1\<lparr>st_attempts := om_put i (a\<lparr>ap_state := AS_OutcomeUnknown,
              ap_detail := ''performer boot was fenced before the attempt settled'',
              ap_settled_sequence := st_sequence st1\<rparr>) (st_attempts st1)\<rparr>)"

definition fence_worker :: "u64 \<Rightarrow> u64 \<Rightarrow> u64 \<Rightarrow> string \<Rightarrow> engine \<Rightarrow> decision \<times> engine" where
  "fence_worker i boot epoch reason_text st =
     (case worker_of st i of
        None \<Rightarrow> (refuse OC_Rejected (Wrk WorkerUnknown) ''worker is not registered'', st)
      | Some lease \<Rightarrow>
          if id_valid boot \<and> wl_boot lease \<noteq> boot then
            (refuse OC_CONFLICT (Wrk WorkerBootStale)
               ''fence targets a boot that is not the registered boot'', st)
          else if id_valid epoch \<and> epoch < st_epoch st then
            (refuse OC_CONFLICT (Ord CoordinatorEpochStale)
               ''fence request originates from a superseded epoch'', st)
          else if wl_fenced lease then (new_decision OC_Accepted, st)
          else
            let st1 = bump_sequence st;
                lease' = lease\<lparr>wl_fenced := True, wl_fenced_sequence := st_sequence st1,
                  wl_detail := clamp_detail kMaxReasonDetail reason_text\<rparr>;
                st2 = st1\<lparr>st_workers := om_put i lease' (st_workers st1),
                  st_worker_liveness := om_put i False (st_worker_liveness st1),
                  st_evidence := snd (invalidate_publisher_boot (wl_boot lease) (st_evidence st1))\<rparr> in
            (new_decision OC_Accepted,
             fold (fence_attempt (wl_boot lease)) (map fst (st_attempts st2)) st2))"

definition set_worker_liveness :: "u64 \<Rightarrow> bool \<Rightarrow> engine \<Rightarrow> decision \<times> engine" where
  "set_worker_liveness i connected st =
     (if map_of (st_workers st) i = None then
        (refuse OC_Rejected (Wrk WorkerUnknown) ''worker is not registered'', st)
      else (new_decision OC_Accepted,
        st\<lparr>st_worker_liveness := om_put i connected (st_worker_liveness st)\<rparr>))"

definition worker_boot_current :: "engine \<Rightarrow> u64 \<Rightarrow> u64 \<Rightarrow> bool" where
  "worker_boot_current st i boot =
     (case worker_of st i of None \<Rightarrow> False | Some l \<Rightarrow> \<not> wl_fenced l \<and> wl_boot l = boot)"

section \<open>Authority queries\<close>

record authority_query_result =
  aq_outcome :: outcome_code
  aq_scope :: u64
  aq_scope_generation :: u64
  aq_binding :: "authority_binding option"
  aq_inherited :: bool
  aq_inherited_scope :: u64
  aq_overlays :: "authority_binding list"
  aq_retained :: "authority_binding list"
  aq_explanation :: explanation

text \<open>What one node of the chain contributes, in the order the loop tests it.\<close>

definition exclusives_at :: "engine \<Rightarrow> u64 \<Rightarrow> authority_binding list" where
  "exclusives_at st node = filter (\<lambda>b. b_kind b = AK_Exclusive) (live_bindings_for (st_authority st) node)"

definition overlays_at :: "engine \<Rightarrow> u64 \<Rightarrow> authority_binding list" where
  "overlays_at st node =
     filter (\<lambda>b. b_kind b = AK_Canary \<or> b_kind b = AK_SplitTraffic) (live_bindings_for (st_authority st) node)"

definition retained_at :: "engine \<Rightarrow> u64 \<Rightarrow> authority_binding list" where
  "retained_at st node =
     filter (\<lambda>b. b_kind b = AK_RollbackRetained) (live_bindings_for (st_authority st) node)"

definition authority_facts ::
  "engine \<Rightarrow> scope_record \<Rightarrow> u64 \<Rightarrow> u64 \<Rightarrow> authority_binding \<Rightarrow> version_record \<Rightarrow> nat \<Rightarrow> nat \<Rightarrow>
     (string \<times> string) list" where
  "authority_facts st sr scope node b r overlays retained =
     [(''scope'', path_of (st_scopes st) scope),
      (''scope_generation'', show_u64 (s_generation sr)),
      (''authoritative_scope'', path_of (st_scopes st) node),
      (''inherited'', show_bool (node \<noteq> scope)),
      (''model_id'', show_u64 (b_model b)),
      (''model_version_id'', show_u64 (b_version b)),
      (''model_version_label'', vr_label r),
      (''model_generation'', show_u64 (b_model_generation b)),
      (''artifact_set_id'', show_u64 (b_artifact_set b)),
      (''artifact_generation'', show_u64 (b_artifact_generation b)),
      (''lifecycle_state'', to_string_state (vr_state r)),
      (''authority_kind'', to_string_authority_kind (b_kind b)),
      (''granted_sequence'', show_u64 (b_granted_sequence b))] @
     (if id_valid (b_rollout b) then
        [(''rollout_id'', show_u64 (b_rollout b)),
         (''rollout_generation'', show_u64 (b_rollout_generation b)),
         (''rollout_stage_id'', show_u64 (b_stage b)),
         (''rollout_stage_generation'', show_u64 (b_stage_generation b))] else []) @
     (if id_valid (b_promotion b) then
        [(''promotion_id'', show_u64 (b_promotion b)),
         (''promotion_generation'', show_u64 (b_promotion_generation b))] else []) @
     [(''canary_overlays'', show_nat overlays), (''rollback_retained'', show_nat retained)]"

fun query_chain ::
  "engine \<Rightarrow> scope_record \<Rightarrow> u64 \<Rightarrow> u64 list \<Rightarrow> authority_query_result \<Rightarrow> authority_query_result" where
  "query_chain st sr scope [] q =
     q\<lparr>aq_outcome := OC_NO_AUTHORITATIVE_MODEL,
       aq_explanation := x_add (Rbk NoCurrentAuthority)
         ''no scope in the ancestor chain holds a live exclusive binding''
         (x_set_all [(''scope'', path_of (st_scopes st) scope),
            (''scope_generation'', show_u64 (s_generation sr)),
            (''canary_overlays'', show_nat (length (aq_overlays q)))]
            ((aq_explanation q)\<lparr>x_outcome := OC_NO_AUTHORITATIVE_MODEL\<rparr>))\<rparr>"
| "query_chain st sr scope (node # higher) q =
     (let exclusives = exclusives_at st node in
      if 1 < length exclusives then
        q\<lparr>aq_outcome := OC_AMBIGUOUS,
          aq_explanation := x_add (Pol PolicyDeniesCoexistence)
            ''more than one exclusive authority binding exists for a scope''
            (x_set_all [(''scope'', path_of (st_scopes st) scope),
               (''conflicting_scope'', path_of (st_scopes st) node),
               (''exclusive_bindings'', show_nat (length exclusives))]
               ((aq_explanation q)\<lparr>x_outcome := OC_AMBIGUOUS\<rparr>))\<rparr>
      else
        let q1 = (if node = scope then
                    q\<lparr>aq_overlays := aq_overlays q @ overlays_at st node,
                      aq_retained := aq_retained q @ retained_at st node\<rparr>
                  else q) in
        case exclusives of
          [] \<Rightarrow> query_chain st sr scope higher q1
        | b # _ \<Rightarrow>
            (case version_of st (b_model b) (b_version b) of
               Some r \<Rightarrow>
                 if retired r then
                   q1\<lparr>aq_outcome := OC_NO_AUTHORITATIVE_MODEL,
                      aq_explanation := x_add (Lfc VersionRetired)
                        ''committed authority points at a generation that no longer exists or is retired''
                        (x_set ''scope'' (path_of (st_scopes st) scope)
                          ((aq_explanation q1)\<lparr>x_outcome := OC_NO_AUTHORITATIVE_MODEL\<rparr>))\<rparr>
                 else
                   q1\<lparr>aq_outcome := OC_Ok, aq_binding := Some b, aq_inherited := node \<noteq> scope,
                      aq_inherited_scope := node,
                      aq_explanation :=
                        (if node \<noteq> scope then
                           x_add (Pol PolicyScopeNotTargetable)
                             ''no authority is committed at this scope; the answer is inherited from the nearest ancestor that holds one''
                         else (\<lambda>x. x))
                          (x_set_all (authority_facts st sr scope node b r (length (aq_overlays q1))
                                        (length (aq_retained q1)))
                             ((aq_explanation q1)\<lparr>x_outcome := OC_Ok\<rparr>))\<rparr>
             | None \<Rightarrow>
                 q1\<lparr>aq_outcome := OC_NO_AUTHORITATIVE_MODEL,
                    aq_explanation := x_add (Lfc VersionRetired)
                      ''committed authority points at a generation that no longer exists or is retired''
                      (x_set ''scope'' (path_of (st_scopes st) scope)
                        ((aq_explanation q1)\<lparr>x_outcome := OC_NO_AUTHORITATIVE_MODEL\<rparr>))\<rparr>))"

definition query_authority :: "engine \<Rightarrow> u64 \<Rightarrow> authority_query_result" where
  "query_authority st scope =
     (let q = \<lparr>aq_outcome = OC_NO_AUTHORITATIVE_MODEL, aq_scope = scope, aq_scope_generation = 0,
                aq_binding = None, aq_inherited = False, aq_inherited_scope = 0, aq_overlays = [],
                aq_retained = [], aq_explanation = new_explanation OC_NO_AUTHORITATIVE_MODEL\<rparr> in
      case sr_find (st_scopes st) scope of
        None \<Rightarrow> q\<lparr>aq_explanation :=
          x_add (Reg UnknownScope) ''scope is not registered'' (aq_explanation q)\<rparr>
      | Some sr \<Rightarrow>
          query_chain st sr scope (rev (chain (st_scopes st) scope))
            (q\<lparr>aq_scope_generation := s_generation sr\<rparr>))"

definition authority_bindings :: "engine \<Rightarrow> u64 \<Rightarrow> u64 \<Rightarrow> authority_binding list" where
  "authority_bindings st model version = bindings_for_version (st_authority st) model version"

definition all_authority_bindings :: "engine \<Rightarrow> authority_binding list" where
  "all_authority_bindings st = concat (map snd (at_bindings (st_authority st)))"

end
