(* ===== verification/Mlf_Promotion.thy ===== *)
theory Mlf_Promotion
  imports Mlf_Workers
begin

text \<open>
  Promotion: src/engine_promotion.cpp. \<open>evaluate_promotion\<close> collects every hard fault of a
  request behind the severity gate and explains itself; \<open>promote\<close> re-evaluates, supersedes
  rollouts in flight, and either cuts over at once or starts the canary.
\<close>

record promotion_request =
  pq_model :: u64
  pq_candidate :: u64
  pq_candidate_generation :: u64
  pq_artifact_generation :: u64
  pq_compatibility_generation :: u64
  pq_policy_generation :: u64
  pq_epoch :: u64
  pq_scope :: u64
  pq_scope_generation :: u64
  pq_strategy :: rollout_strategy
  pq_rollback_target :: u64
  pq_rollback_target_generation :: u64
  pq_evidence_generation :: u64
  pq_worker :: u64
  pq_boot :: u64
  pq_administrative_approval :: bool
  pq_request_immediate_cutover :: bool
  pq_environment_key :: string
  pq_environment :: "environment_profile option"

record promotion_outcome =
  po_decision :: decision
  po_promotion :: u64
  po_promotion_generation :: u64
  po_rollout :: u64
  po_rollout_generation :: u64
  po_immediate :: bool

section \<open>The gate\<close>

definition promotion_rank :: "outcome_code \<Rightarrow> nat" where
  "promotion_rank code =
     (case code of
        OC_PROMOTION_ALLOWED \<Rightarrow> 0
      | OC_Rejected \<Rightarrow> 1
      | OC_PROMOTION_BLOCKED \<Rightarrow> 2
      | OC_NOT_FOUND \<Rightarrow> 3
      | OC_CONFLICT \<Rightarrow> 4
      | OC_BOUNDS_EXCEEDED \<Rightarrow> 5
      | OC_STALE_PLAN \<Rightarrow> 6
      | OC_STALE_EVIDENCE \<Rightarrow> 7
      | OC_REVALIDATION_REQUIRED \<Rightarrow> 8
      | OC_AMBIGUOUS \<Rightarrow> 9
      | OC_INCOMPATIBLE \<Rightarrow> 10
      | _ \<Rightarrow> 2)"

interpretation pg: severity_gate promotion_rank "\<lambda>c. c = OC_PROMOTION_ALLOWED"
  by unfold_locales (auto simp: promotion_rank_def split: outcome_code.splits)

abbreviation pfault :: "bool \<Rightarrow> outcome_code \<Rightarrow> reason_code \<Rightarrow> string \<Rightarrow> gate \<Rightarrow> gate" where
  "pfault \<equiv> fault_when promotion_rank"

definition promotion_caller :: "engine \<Rightarrow> promotion_request \<Rightarrow> gate \<Rightarrow> gate" where
  "promotion_caller st q g =
     fault_decision promotion_rank (check_worker st (pq_worker q) (pq_boot q) (pq_epoch q))
       (fault_decision promotion_rank (check_policy_generation st (pq_policy_generation q))
         (fault_decision promotion_rank (check_epoch st (pq_epoch q)) g))"

definition promotion_eligibility :: "promotion_request \<Rightarrow> version_record \<Rightarrow> gate \<Rightarrow> gate" where
  "promotion_eligibility q r g =
     pfault (id_valid (pq_artifact_generation q) \<and> pq_artifact_generation q \<noteq> ab_generation (vr_artifact r))
       OC_STALE_PLAN (Art ArtifactGenerationMismatch) ''request cites a superseded artifact generation''
     (pfault (\<not> artifact_binding_valid (vr_artifact r))
       OC_INCOMPATIBLE (Art ArtifactSetMissing) ''candidate has no artifact-set binding''
     (pfault (id_valid (pq_candidate_generation q) \<and> pq_candidate_generation q \<noteq> vr_generation r)
       OC_STALE_PLAN (Ord ModelGenerationMismatch) ''request cites a superseded model generation''
     (pfault (\<not> is_promotable_from (vr_state r))
       OC_CONFLICT (Lfc VersionNotPromotionEligible) (''candidate is in state '' @ to_string_state (vr_state r))
     (pfault (retired r)
       OC_INCOMPATIBLE (Prm PromotionCandidateRetired)
       ''candidate generation is retired and can never regain authority'' g))))"

definition promotion_policy :: "engine \<Rightarrow> promotion_request \<Rightarrow> lifecycle_policy" where
  "promotion_policy st q =
     (if sr_find (st_scopes st) (pq_scope q) \<noteq> None then effective (st_policy st) (st_scopes st) (pq_scope q)
      else ps_base (st_policy st))"

definition promotion_scope :: "engine \<Rightarrow> promotion_request \<Rightarrow> gate \<Rightarrow> gate" where
  "promotion_scope st q g =
     (case sr_find (st_scopes st) (pq_scope q) of
        None \<Rightarrow> fault promotion_rank OC_NOT_FOUND (Reg UnknownScope) ''target scope is not registered'' g
      | Some sr \<Rightarrow>
          let kinds = lp_promotable_scope_kinds (promotion_policy st q) in
          pfault (kinds \<noteq> [] \<and> s_kind sr \<notin> set kinds)
            OC_INCOMPATIBLE (Pol PolicyScopeNotTargetable)
            ''policy does not permit promotion into this scope kind''
          (pfault (id_valid (pq_scope_generation q) \<and> pq_scope_generation q \<noteq> s_generation sr)
            OC_STALE_PLAN (Ord ScopeGenerationMismatch)
            ''target scope generation advanced since the request was formed'' g))"

fun note_details :: "reason list \<Rightarrow> gate \<Rightarrow> gate" where
  "note_details [] g = g"
| "note_details (r # rs) g =
     note_details rs (if r_detail r = [] then g else g_note (r_code r) (r_detail r) g)"

definition promotion_compatibility :: "engine \<Rightarrow> promotion_request \<Rightarrow> version_record \<Rightarrow> gate \<Rightarrow> gate" where
  "promotion_compatibility st q r g =
     (case resolve_compatibility_for st r (pq_environment_key q) (pq_environment q) of
        (outcome, d) \<Rightarrow>
          pfault (id_valid (pq_compatibility_generation q) \<and>
              pq_compatibility_generation q \<noteq> vr_compatibility_generation r)
            OC_STALE_PLAN (Cmp CompatibilityGenerationMismatch)
            ''request cites a superseded compatibility generation''
          (if is_serving_compatible outcome then g
           else note_details (d_reasons d)
             (if outcome = CO_UNKNOWN then
                fault promotion_rank OC_INCOMPATIBLE (Cmp CompatibilityUnknown)
                  ''compatibility could not be established for the candidate'' g
              else if outcome = CO_STALE_EVIDENCE then
                fault promotion_rank OC_STALE_EVIDENCE (Cmp CompatibilityStale)
                  ''published compatibility no longer matches the candidate generation'' g
              else
                fault promotion_rank OC_INCOMPATIBLE (reason_for outcome)
                  ''candidate is not compatible with the target environment'' g)))"

definition holds_generation :: "version_record \<Rightarrow> authority_binding \<Rightarrow> bool" where
  "holds_generation r b \<longleftrightarrow>
     b_model b = vr_model r \<and> b_version b = vr_version r \<and> b_model_generation b = vr_generation r"

definition displaces_authority :: "engine \<Rightarrow> u64 \<Rightarrow> version_record \<Rightarrow> bool" where
  "displaces_authority st scope r \<longleftrightarrow>
     list_ex (\<lambda>b. b_kind b = AK_Exclusive \<and> \<not> holds_generation r b)
       (live_bindings_for (st_authority st) scope)"

definition promotion_rollback_target :: "engine \<Rightarrow> promotion_request \<Rightarrow> version_record \<Rightarrow> gate \<Rightarrow> gate" where
  "promotion_rollback_target st q r g =
     (if id_valid (pq_rollback_target q) then
        (case version_of st (pq_model q) (pq_rollback_target q) of
           None \<Rightarrow> fault promotion_rank OC_NOT_FOUND (Rbk RollbackTargetUnknown)
             ''declared rollback target is not registered'' g
         | Some t \<Rightarrow>
             if retired t then
               fault promotion_rank OC_INCOMPATIBLE (Rbk RollbackTargetRetired)
                 ''declared rollback target is retired'' g
             else if \<not> artifact_binding_valid (vr_artifact t) then
               fault promotion_rank OC_INCOMPATIBLE (Rbk RollbackTargetArtifactMissing)
                 ''declared rollback target has no artifact binding'' g
             else if \<not> has_compatibility t then
               fault promotion_rank OC_INCOMPATIBLE (Rbk RollbackTargetIncompatible)
                 ''declared rollback target has no current compatibility'' g
             else
               pfault (id_valid (pq_rollback_target_generation q) \<and>
                   pq_rollback_target_generation q \<noteq> vr_generation t)
                 OC_STALE_PLAN (Ord ModelGenerationMismatch) ''rollback target generation advanced'' g)
      else
        g_set ''displaces_authority'' (show_bool (displaces_authority st (pq_scope q) r))
          (pfault (displaces_authority st (pq_scope q) r \<and>
              lp_require_rollback_target (promotion_policy st q))
            OC_PROMOTION_BLOCKED (Rbk RollbackTargetRequired)
            ''policy requires a valid rollback target when replacing a serving generation'' g))"

definition satisfied_requirement :: "evidence_kind \<Rightarrow> evidence_requirement" where
  "satisfied_requirement kind = \<lparr>er_kind = kind, er_required_verdict = EV_Satisfied,
     er_require_exact_subject = True, er_require_current_publisher = False\<rparr>"

definition promotion_evidence :: "engine \<Rightarrow> promotion_request \<Rightarrow> version_record \<Rightarrow> gate \<Rightarrow> gate" where
  "promotion_evidence st q r g =
     (let p = promotion_policy st q in
      pfault (lp_require_manual_approval_for_promotion p \<and> \<not> pq_administrative_approval q)
        OC_PROMOTION_BLOCKED (Pol PolicyRequiresApproval)
        ''policy requires an explicit administrative approval for promotion''
      (if lp_globally_required_evidence p = [] then g
       else fault_decision promotion_rank
         (check_evidence_list st (map satisfied_requirement (lp_globally_required_evidence p))
            (version_subject r (pq_scope q))) g))"

text \<open>How many generations the scope would hold, rollback retention aside.\<close>

definition projected_generations :: "engine \<Rightarrow> u64 \<Rightarrow> version_record \<Rightarrow> nat" where
  "projected_generations st scope r =
     (let serving = filter (\<lambda>b. b_kind b \<noteq> AK_RollbackRetained) (live_bindings_for (st_authority st) scope);
          others = sort_unique (map (\<lambda>b. (b_model b, b_version b, b_model_generation b))
                     (filter (\<lambda>b. \<not> holds_generation r b) serving)) in
      length others + (if list_ex (holds_generation r) serving then 0 else 1))"

definition promotion_coexistence :: "engine \<Rightarrow> promotion_request \<Rightarrow> version_record \<Rightarrow> gate \<Rightarrow> gate" where
  "promotion_coexistence st q r g =
     (if sr_find (st_scopes st) (pq_scope q) = None then g
      else
        let p = promotion_policy st q; projected = projected_generations st (pq_scope q) r in
        pfault (1 < projected \<and> \<not> lp_allow_split_traffic p \<and>
            \<not> (pq_request_immediate_cutover q \<and> 1 \<le> lp_max_active_generations_per_scope p))
          OC_CONFLICT (Pol PolicyDeniesCoexistence) ''policy forbids split traffic in this scope''
        (pfault (unat (lp_max_active_generations_per_scope p) < projected)
          OC_CONFLICT (Pol CoexistenceLimitExceeded)
          ''scope would hold more authoritative generations than policy permits'' g))"

definition promotion_cutover ::
  "engine_config \<Rightarrow> engine \<Rightarrow> promotion_request \<Rightarrow> version_record \<Rightarrow> gate \<Rightarrow> gate" where
  "promotion_cutover cfg st q r g =
     (let p = promotion_policy st q in
      pfault (rb_max_models (ec_bounds cfg) = 0 \<or> rb_max_versions_per_model (ec_bounds cfg) = 0)
        OC_BOUNDS_EXCEEDED (Bnd BoundsModelCount) ''registry is configured with zero capacity''
      (pfault (id_valid (pq_model q) \<and> vr_model r \<noteq> pq_model q)
        OC_NOT_FOUND (Reg UnknownModel) ''candidate version does not belong to the requested model''
      (pfault (pq_strategy q = RS_ImmediateCutover \<and> \<not> lp_allow_immediate_cutover p)
        OC_PROMOTION_BLOCKED (Pol PolicyDeniesPromotion) ''policy forbids the immediate-cutover strategy''
      (pfault (pq_request_immediate_cutover q \<and> \<not> lp_allow_immediate_cutover p)
        OC_PROMOTION_BLOCKED (Pol PolicyDeniesPromotion) ''policy forbids immediate cutover'' g))))"

definition promotion_facts :: "engine \<Rightarrow> promotion_request \<Rightarrow> version_record \<Rightarrow> (string \<times> string) list" where
  "promotion_facts st q r =
     [(''candidate_model_id'', show_u64 (vr_model r)),
      (''candidate_version_id'', show_u64 (vr_version r)),
      (''candidate_label'', vr_label r),
      (''candidate_model_generation'', show_u64 (vr_generation r)),
      (''candidate_artifact_set_id'', show_u64 (ab_set_id (vr_artifact r))),
      (''candidate_artifact_generation'', show_u64 (ab_generation (vr_artifact r))),
      (''candidate_lifecycle_state'', to_string_state (vr_state r)),
      (''candidate_lifecycle_generation'', show_u64 (vr_lifecycle_generation r)),
      (''compatibility_generation'', show_u64 (vr_compatibility_generation r)),
      (''policy_generation'', show_u64 (lp_generation (promotion_policy st q))),
      (''coordinator_epoch'', show_u64 (st_epoch st)),
      (''requested_strategy'', to_string_strategy (pq_strategy q))] @
     (case sr_find (st_scopes st) (pq_scope q) of
        None \<Rightarrow> []
      | Some sr \<Rightarrow> [(''scope'', s_path sr), (''scope_generation'', show_u64 (s_generation sr))]) @
     (if \<not> id_valid (pq_rollback_target q) then []
      else (''rollback_target_version_id'', show_u64 (pq_rollback_target q)) #
        (case version_of st (pq_model q) (pq_rollback_target q) of
           None \<Rightarrow> []
         | Some t \<Rightarrow> [(''rollback_target_generation'', show_u64 (vr_generation t)),
                      (''rollback_target_state'', to_string_state (vr_state t))]))"

definition promotion_gate ::
  "engine_config \<Rightarrow> engine \<Rightarrow> promotion_request \<Rightarrow> version_record \<Rightarrow> gate" where
  "promotion_gate cfg st q r =
     promotion_cutover cfg st q r
       (promotion_coexistence st q r
         (promotion_evidence st q r
           (promotion_rollback_target st q r
             (promotion_compatibility st q r
               (promotion_scope st q
                 (promotion_eligibility q r
                   (promotion_caller st q (open_gate OC_PROMOTION_ALLOWED))))))))"

definition evaluate_promotion ::
  "engine_config \<Rightarrow> promotion_request \<Rightarrow> engine \<Rightarrow> decision \<times> explanation" where
  "evaluate_promotion cfg q st =
     (case version_of st (pq_model q) (pq_candidate q) of
        None \<Rightarrow>
          (let g = fault promotion_rank OC_NOT_FOUND (Reg UnknownVersion)
                     ''candidate version is not registered for this model''
                     (promotion_caller st q (open_gate OC_PROMOTION_ALLOWED)) in
           (g_decision g, normalize_explanation (g_local g)))
      | Some r \<Rightarrow> close_gate (g_set_all (promotion_facts st q r) (promotion_gate cfg st q r)))"

section \<open>Promotion\<close>

definition current_stage_id :: "rollout_plan \<Rightarrow> u64" where
  "current_stage_id p =
     (case stage_at p (pl_current_stage_index p) of Some s \<Rightarrow> sg_id s | None \<Rightarrow> 0)"

text \<open>Another live rollout of the model is superseded: history, bindings, lifecycle.\<close>

definition supersede_inflight :: "u64 \<Rightarrow> u64 \<Rightarrow> u64 \<Rightarrow> engine \<Rightarrow> engine" where
  "supersede_inflight model candidate i st =
     (case rollout_of st i of
        None \<Rightarrow> st
      | Some p \<Rightarrow>
          if \<not> live p \<or> pl_model p \<noteq> model \<or> pl_candidate p = candidate then st
          else
            let st1 = bump_sequence st;
                entry = \<lparr>sh_stage = current_stage_id p, sh_generation = pl_current_stage_generation p,
                  sh_entered_sequence = pl_created_sequence p, sh_decided_sequence = st_sequence st1,
                  sh_decision = SD_Superseded,
                  sh_reasons = [Reason (Reg VersionSuperseded) ''a newer promotion superseded this rollout'']\<rparr>;
                p' = p\<lparr>pl_superseded := True, pl_stage_entered := False,
                  pl_updated_sequence := st_sequence st1, pl_history := pl_history p @ [entry]\<rparr>;
                st2 = (put_rollout p' st1)
                  \<lparr>st_authority := snd (supersede_rollout (pl_id p) (pl_generation p) (st_authority st1))\<rparr> in
            case version_of st2 (pl_model p) (pl_candidate p) of
              None \<Rightarrow> st2
            | Some v \<Rightarrow> if retired v then st2
                        else snd (advance_version (pl_model p) (pl_candidate p) LS_DRAINING st2))"

definition promotion_immediate :: "promotion_request \<Rightarrow> bool" where
  "promotion_immediate q \<longleftrightarrow> pq_request_immediate_cutover q \<or> pq_strategy q = RS_ImmediateCutover"

definition refused_promotion :: "decision \<Rightarrow> promotion_outcome" where
  "refused_promotion d = \<lparr>po_decision = d, po_promotion = 0, po_promotion_generation = 0, po_rollout = 0,
     po_rollout_generation = 0, po_immediate = False\<rparr>"

text \<open>The authority request of an immediate cutover.\<close>

definition cutover_grant :: "promotion_request \<Rightarrow> u64 \<Rightarrow> u64 \<Rightarrow> grant_request" where
  "cutover_grant q promotion generation = \<lparr>gq_kind = AK_Exclusive, gq_plan = None, gq_stage = None,
     gq_promotion = promotion, gq_promotion_generation = generation, gq_rollback = 0,
     gq_rollback_generation = 0, gq_supersede_existing = True,
     gq_retention_target = pq_rollback_target q, gq_retention_generation = pq_rollback_target_generation q\<rparr>"

definition commit_promotion :: "promotion_request \<Rightarrow> u64 \<Rightarrow> u64 \<Rightarrow> engine \<Rightarrow> engine" where
  "commit_promotion q promotion generation st =
     (let st1 = bump_sequence st;
          st2 = update_version (pq_model q) (pq_candidate q)
                  (\<lambda>r. r\<lparr>vr_last_promotion := promotion, vr_promotion_generation := generation,
                     vr_updated_sequence := st_sequence st1\<rparr>) st1 in
      st2\<lparr>st_next_promotion_id := promotion + 1,
          st_committed_promotions := om_put promotion () (st_committed_promotions st2)\<rparr>)"

definition duplicate_rollout :: "engine \<Rightarrow> u64 \<Rightarrow> bool" where
  "duplicate_rollout st version \<longleftrightarrow>
     list_ex (\<lambda>e. live (snd e) \<and> pl_candidate (snd e) = version) (st_rollouts st)"

definition promote :: "engine_config \<Rightarrow> promotion_request \<Rightarrow> engine \<Rightarrow> promotion_outcome \<times> engine" where
  "promote cfg q st =
     (let verdict = fst (evaluate_promotion cfg q st) in
      if \<not> allowed verdict then (refused_promotion verdict, st)
      else case version_of st (pq_model q) (pq_candidate q) of
          None \<Rightarrow> (refused_promotion (refuse OC_NOT_FOUND (Reg UnknownVersion)
                    ''candidate vanished during promotion''), st)
        | Some r \<Rightarrow>
            if duplicate_rollout st (vr_version r) then
              (refused_promotion (refuse OC_CONFLICT (Prm PromotionCommitDuplicate)
                 ''candidate already has a live rollout under another promotion''), st)
            else
              let policy = effective (st_policy st) (st_scopes st) (pq_scope q);
                  st1 = (if lp_supersede_inflight_rollout_on_new_promotion policy then
                           fold (supersede_inflight (vr_model r) (vr_version r)) (map fst (st_rollouts st)) st
                         else st);
                  promotion = st_next_promotion_id st1;
                  generation = next_generation (vr_promotion_generation r);
                  committed = (\<lambda>b. \<lparr>po_decision = new_decision OC_PROMOTION_ALLOWED, po_promotion = promotion,
                    po_promotion_generation = generation, po_rollout = 0, po_rollout_generation = 0,
                    po_immediate = b\<rparr>) in
              if promotion_immediate q then
                (case advance_version (pq_model q) (pq_candidate q) LS_CURRENT st1 of
                  (advanced, st2) \<Rightarrow>
                    if \<not> allowed advanced then (refused_promotion advanced, st2)
                    else case grant_authority (pq_model q) (pq_candidate q) (pq_scope q)
                                (cutover_grant q promotion generation) st2 of
                      (granted, st3) \<Rightarrow>
                        if \<not> allowed granted then
                          (refused_promotion granted,
                           snd (advance_version (pq_model q) (pq_candidate q) LS_PROMOTION_BLOCKED st3))
                        else (committed True, commit_promotion q promotion generation st3))
              else
                (case advance_version (pq_model q) (pq_candidate q) LS_CANARY_PENDING st1 of
                  (advanced, st2) \<Rightarrow>
                    if \<not> allowed advanced then (refused_promotion advanced, st2)
                    else (committed False, commit_promotion q promotion generation st2)))"

end
