(* ===== verification/Mlf_Rollback.thy ===== *)
theory Mlf_Rollback
  imports Mlf_Promotion
begin

text \<open>
  Rollback: src/engine_rollback.cpp. A rollback fences whatever serves the scope, grants the
  named target exclusive authority there, and records the rollback with the candidate and
  with the rollout it came from.
\<close>

record rollback_request =
  kq_model :: u64
  kq_candidate :: u64
  kq_candidate_generation :: u64
  kq_rollout :: u64
  kq_rollout_generation :: u64
  kq_target :: u64
  kq_target_generation :: u64
  kq_target_artifact_generation :: u64
  kq_scope :: u64
  kq_scope_generation :: u64
  kq_policy_generation :: u64
  kq_epoch :: u64
  kq_worker :: u64
  kq_boot :: u64
  kq_automatic :: bool
  kq_detail :: string

record rollback_outcome =
  ko_decision :: decision
  ko_rollback :: u64
  ko_rollback_generation :: u64
  ko_restored_scopes :: "u64 list"

definition rollback_rank :: "outcome_code \<Rightarrow> nat" where
  "rollback_rank code =
     (case code of
        OC_ROLLBACK_ALLOWED \<Rightarrow> 0
      | OC_Rejected \<Rightarrow> 1
      | OC_ROLLBACK_BLOCKED \<Rightarrow> 2
      | OC_NOT_FOUND \<Rightarrow> 3
      | OC_CONFLICT \<Rightarrow> 4
      | OC_STALE_PLAN \<Rightarrow> 5
      | OC_STALE_EVIDENCE \<Rightarrow> 6
      | OC_REVALIDATION_REQUIRED \<Rightarrow> 7
      | OC_AMBIGUOUS \<Rightarrow> 8
      | OC_INCOMPATIBLE \<Rightarrow> 9
      | _ \<Rightarrow> 2)"

interpretation rbg: severity_gate rollback_rank "\<lambda>c. c = OC_ROLLBACK_ALLOWED"
  by unfold_locales (auto simp: rollback_rank_def split: outcome_code.splits)

abbreviation rfault :: "bool \<Rightarrow> outcome_code \<Rightarrow> reason_code \<Rightarrow> string \<Rightarrow> gate \<Rightarrow> gate" where
  "rfault \<equiv> fault_when rollback_rank"

section \<open>The gate\<close>

definition rollback_caller :: "engine \<Rightarrow> rollback_request \<Rightarrow> version_record \<Rightarrow> gate \<Rightarrow> gate" where
  "rollback_caller st q c g =
     fault_decision rollback_rank (check_worker st (kq_worker q) (kq_boot q) (kq_epoch q))
       (fault_decision rollback_rank (check_policy_generation st (kq_policy_generation q))
         (fault_decision rollback_rank (check_epoch st (kq_epoch q))
           (rfault (id_valid (kq_candidate_generation q) \<and> kq_candidate_generation q \<noteq> vr_generation c)
              OC_STALE_PLAN (Ord ModelGenerationMismatch)
              ''rollback cites a superseded candidate generation'' g)))"

definition candidate_holds :: "engine \<Rightarrow> u64 \<Rightarrow> version_record \<Rightarrow> bool" where
  "candidate_holds st scope c \<longleftrightarrow> sr_find (st_scopes st) scope \<noteq> None \<and>
     list_ex (\<lambda>b. b_model b = vr_model c \<and> b_version b = vr_version c \<and> b_kind b \<noteq> AK_RollbackRetained)
       (live_bindings_for (st_authority st) scope)"

definition rollback_scope :: "engine \<Rightarrow> rollback_request \<Rightarrow> version_record \<Rightarrow> gate \<Rightarrow> gate" where
  "rollback_scope st q c g =
     rfault (\<not> candidate_holds st (kq_scope q) c) OC_ROLLBACK_BLOCKED (Rbk NoCurrentAuthority)
       ''the candidate holds no live authority in the rollback scope''
     (case sr_find (st_scopes st) (kq_scope q) of
        None \<Rightarrow> fault rollback_rank OC_NOT_FOUND (Reg UnknownScope) ''rollback scope is not registered'' g
      | Some sr \<Rightarrow>
          rfault (id_valid (kq_scope_generation q) \<and> kq_scope_generation q \<noteq> s_generation sr)
            OC_STALE_PLAN (Ord ScopeGenerationMismatch)
            ''rollback cites a superseded scope generation'' g)"

definition rollback_plan :: "engine \<Rightarrow> rollback_request \<Rightarrow> version_record \<Rightarrow> gate \<Rightarrow> gate" where
  "rollback_plan st q c g =
     (if \<not> id_valid (kq_rollout q) then g
      else case rollout_of st (kq_rollout q) of
          None \<Rightarrow> fault rollback_rank OC_NOT_FOUND (Reg UnknownVersion)
            ''rollback cites an unknown rollout'' g
        | Some p \<Rightarrow>
            rfault (id_valid (pl_last_rollback p)) OC_CONFLICT (Rbk RollbackCommitDuplicate)
              ''this rollout already committed a rollback''
            (rfault (pl_candidate p \<noteq> vr_version c) OC_CONFLICT (Rbk RollbackSupersededByNewerGeneration)
              ''rollback cites a rollout for a different candidate generation''
            (rfault (id_valid (kq_rollout_generation q) \<and> kq_rollout_generation q \<noteq> pl_generation p)
              OC_STALE_PLAN (Ord RolloutGenerationMismatch)
              ''rollback cites a superseded rollout generation'' g)))"

definition rollback_target :: "engine \<Rightarrow> rollback_request \<Rightarrow> version_record \<Rightarrow> gate \<Rightarrow> gate" where
  "rollback_target st q c g =
     (case version_of st (kq_model q) (kq_target q) of
        None \<Rightarrow> fault rollback_rank OC_NOT_FOUND (Rbk RollbackTargetUnknown)
          ''rollback target is not registered for this model'' g
      | Some t \<Rightarrow>
          rfault (vr_version t = vr_version c) OC_Rejected (Rbk RollbackTargetUnknown)
            ''rollback target is the candidate itself''
          (rfault (\<not> has_compatibility t) OC_INCOMPATIBLE (Rbk RollbackTargetIncompatible)
            ''rollback target has no current compatibility binding''
          (rfault (id_valid (kq_target_generation q) \<and> kq_target_generation q \<noteq> vr_generation t)
            OC_STALE_PLAN (Ord ModelGenerationMismatch)
            ''rollback cites a superseded target model generation''
          (rfault (id_valid (kq_target_artifact_generation q) \<and>
              kq_target_artifact_generation q \<noteq> ab_generation (vr_artifact t))
            OC_STALE_PLAN (Art ArtifactGenerationMismatch)
            ''rollback cites a superseded target artifact generation''
          (rfault (\<not> artifact_binding_valid (vr_artifact t)) OC_INCOMPATIBLE (Rbk RollbackTargetArtifactMissing)
            ''rollback target has no artifact binding''
          (rfault (retired t) OC_INCOMPATIBLE (Rbk RollbackTargetRetired)
            ''rollback target is retired and cannot be restored'' g))))))"

definition rollback_policy_of :: "engine \<Rightarrow> rollback_request \<Rightarrow> lifecycle_policy" where
  "rollback_policy_of st q =
     (if sr_find (st_scopes st) (kq_scope q) \<noteq> None then effective (st_policy st) (st_scopes st) (kq_scope q)
      else ps_base (st_policy st))"

definition rollback_policy :: "engine \<Rightarrow> rollback_request \<Rightarrow> gate \<Rightarrow> gate" where
  "rollback_policy st q g =
     rfault (\<not> lp_require_rollback_target (rollback_policy_of st q) \<and> \<not> id_valid (kq_target q))
       OC_ROLLBACK_BLOCKED (Rbk RollbackTargetRequired)
       ''a rollback requires an explicit target generation''
     (rfault (kq_automatic q \<and> \<not> lp_allow_automatic_rollback (rollback_policy_of st q))
       OC_ROLLBACK_BLOCKED (Pol PolicyDeniesAutoRollback)
       ''policy does not authorize automatic rollback'' g)"

definition rollback_facts :: "engine \<Rightarrow> rollback_request \<Rightarrow> version_record \<Rightarrow> (string \<times> string) list" where
  "rollback_facts st q c =
     [(''candidate_model_generation'', show_u64 (vr_generation c)),
      (''candidate_lifecycle_state'', to_string_state (vr_state c))] @
     (case version_of st (kq_model q) (kq_target q) of
        None \<Rightarrow> []
      | Some t \<Rightarrow>
          [(''target_version_id'', show_u64 (vr_version t)), (''target_label'', vr_label t),
           (''target_model_generation'', show_u64 (vr_generation t)),
           (''target_lifecycle_state'', to_string_state (vr_state t)),
           (''target_artifact_generation'', show_u64 (ab_generation (vr_artifact t))),
           (''target_compatibility_generation'', show_u64 (vr_compatibility_generation t))]) @
     (case sr_find (st_scopes st) (kq_scope q) of None \<Rightarrow> [] | Some sr \<Rightarrow> [(''scope'', s_path sr)]) @
     (if \<not> id_valid (kq_rollout q) then []
      else case rollout_of st (kq_rollout q) of
          None \<Rightarrow> []
        | Some p \<Rightarrow> [(''rollout_id'', show_u64 (pl_id p)), (''rollout_generation'', show_u64 (pl_generation p)),
                     (''rollout_failed'', show_bool (pl_failed p))]) @
     [(''automatic'', show_bool (kq_automatic q)),
      (''policy_generation'', show_u64 (lp_generation (rollback_policy_of st q))),
      (''coordinator_epoch'', show_u64 (st_epoch st))]"

definition rollback_gate :: "engine \<Rightarrow> rollback_request \<Rightarrow> version_record \<Rightarrow> gate" where
  "rollback_gate st q c =
     rollback_policy st q
       (rollback_target st q c
         (rollback_plan st q c
           (rollback_scope st q c
             (rollback_caller st q c (open_gate OC_ROLLBACK_ALLOWED)))))"

definition evaluate_rollback :: "rollback_request \<Rightarrow> engine \<Rightarrow> decision \<times> explanation" where
  "evaluate_rollback q st =
     (case version_of st (kq_model q) (kq_candidate q) of
        None \<Rightarrow>
          (let g = fault rollback_rank OC_NOT_FOUND (Reg UnknownVersion)
                     ''rollback candidate is not registered'' (open_gate OC_ROLLBACK_ALLOWED) in
           (g_decision g, normalize_explanation (g_local g)))
      | Some c \<Rightarrow> close_gate (g_set_all (rollback_facts st q c) (rollback_gate st q c)))"

section \<open>Rollback\<close>

definition refused_rollback :: "decision \<Rightarrow> rollback_outcome" where
  "refused_rollback d = \<lparr>ko_decision = d, ko_rollback = 0, ko_rollback_generation = 0, ko_restored_scopes = []\<rparr>"

definition rollback_grant :: "u64 \<Rightarrow> u64 \<Rightarrow> grant_request" where
  "rollback_grant i generation = \<lparr>gq_kind = AK_Exclusive, gq_plan = None, gq_stage = None, gq_promotion = 0,
     gq_promotion_generation = 0, gq_rollback = i, gq_rollback_generation = generation,
     gq_supersede_existing = True, gq_retention_target = 0, gq_retention_generation = 0\<rparr>"

text \<open>Step 3: the candidate leaves the scope, and the rollback is recorded with it.\<close>

definition settle_candidate :: "u64 \<Rightarrow> u64 \<Rightarrow> u64 \<Rightarrow> u64 \<Rightarrow> u64 \<Rightarrow> engine \<Rightarrow> engine" where
  "settle_candidate model candidate scope i generation st =
     (let st1 = st\<lparr>st_authority := snd (mark_draining model candidate scope (st_authority st))\<rparr>;
          st2 = snd (advance_version model candidate
                  (if \<not> holds_live_authority st1 model candidate True then LS_ROLLED_BACK
                   else LS_PARTIALLY_PROMOTED) st1);
          st3 = bump_sequence st2 in
      update_version model candidate
        (\<lambda>c. c\<lparr>vr_last_rollback := i, vr_rollback_generation := generation,
               vr_updated_sequence := st_sequence st3\<rparr>) st3)"

text \<open>Step 4: a live rollout fails, and the rollback is recorded with it.\<close>

definition close_rolled_back :: "u64 \<Rightarrow> engine \<Rightarrow> engine" where
  "close_rolled_back i st =
     (case rollout_of st i of
        None \<Rightarrow> st
      | Some p \<Rightarrow>
          if \<not> live p then st
          else
            let st1 = bump_sequence st;
                entry = \<lparr>sh_stage = current_stage_id p, sh_generation = pl_current_stage_generation p,
                  sh_entered_sequence = pl_created_sequence p, sh_decided_sequence = st_sequence st1,
                  sh_decision = SD_RolledBack,
                  sh_reasons = [Reason (Rlt RolloutSuperseded) ''rollback committed against this rollout'']\<rparr> in
            put_rollout (p\<lparr>pl_failed := True, pl_stage_entered := False,
              pl_history := pl_history p @ [entry]\<rparr>) st1)"

definition record_rollback :: "u64 \<Rightarrow> u64 \<Rightarrow> u64 \<Rightarrow> engine \<Rightarrow> engine" where
  "record_rollback rollout i generation st =
     (if \<not> id_valid rollout \<or> rollout_of st rollout = None then st
      else
        let st1 = bump_sequence (close_rolled_back rollout st) in
        update_rollout rollout (\<lambda>p. p\<lparr>pl_last_rollback := i, pl_last_rollback_generation := generation,
          pl_updated_sequence := st_sequence st1\<rparr>) st1)"

definition rollback :: "rollback_request \<Rightarrow> engine \<Rightarrow> rollback_outcome \<times> engine" where
  "rollback q st =
     (let verdict = fst (evaluate_rollback q st) in
      if \<not> allowed verdict then (refused_rollback verdict, st)
      else case (version_of st (kq_model q) (kq_candidate q), version_of st (kq_model q) (kq_target q)) of
          (Some c, Some t) \<Rightarrow>
            (let i = st_next_rollback_id st;
                 generation = next_generation (vr_rollback_generation c);
                 st1 = st\<lparr>st_authority := snd (supersede_scope (kq_scope q) (st_authority st))\<rparr> in
             case grant_authority (kq_model q) (kq_target q) (kq_scope q) (rollback_grant i generation) st1 of
               (granted, st2) \<Rightarrow>
                 if \<not> allowed granted then (refused_rollback granted, st2)
                 else
                   let st3 = stamp_version (kq_model q) (kq_target q)
                               (snd (advance_version (kq_model q) (kq_target q) LS_CURRENT st2));
                       st4 = settle_candidate (kq_model q) (kq_candidate q) (kq_scope q) i generation st3;
                       st5 = record_rollback (kq_rollout q) i generation st4 in
                   (\<lparr>ko_decision = new_decision OC_ROLLBACK_ALLOWED, ko_rollback = i,
                     ko_rollback_generation = generation, ko_restored_scopes = [kq_scope q]\<rparr>,
                    st5\<lparr>st_next_rollback_id := i + 1,
                        st_committed_rollbacks :=
                          om_put (kq_rollout q, generation) () (st_committed_rollbacks st5),
                        st_scopes := touch (kq_scope q) (st_scopes st5)\<rparr>))
        | _ \<Rightarrow> (refused_rollback (refuse OC_NOT_FOUND (Reg UnknownVersion)
                 ''rollback participants vanished''), st))"

end
