(* ===== verification/Mlf_Reconcile.thy ===== *)
theory Mlf_Reconcile
  imports Mlf_Rollback
begin

text \<open>
  Retirement, revalidation, external attempts and reconciliation: src/engine_reconcile.cpp.
\<close>

record retirement_request =
  tq_model :: u64
  tq_version :: u64
  tq_generation :: u64
  tq_policy_generation :: u64
  tq_epoch :: u64

record revalidation_request =
  vq_model :: u64
  vq_version :: u64
  vq_generation :: u64
  vq_cause :: reason_code
  vq_detail :: string

section \<open>Retirement\<close>

definition retirement_rank :: "outcome_code \<Rightarrow> nat" where
  "retirement_rank code =
     (case code of
        OC_RETIREMENT_ALLOWED \<Rightarrow> 0
      | OC_Rejected \<Rightarrow> 1
      | OC_RETIREMENT_BLOCKED \<Rightarrow> 2
      | OC_NOT_FOUND \<Rightarrow> 3
      | OC_CONFLICT \<Rightarrow> 4
      | OC_STALE_PLAN \<Rightarrow> 5
      | OC_STALE_EVIDENCE \<Rightarrow> 6
      | _ \<Rightarrow> 2)"

interpretation rtg: severity_gate retirement_rank "\<lambda>c. c = OC_RETIREMENT_ALLOWED"
  by unfold_locales (auto simp: retirement_rank_def split: outcome_code.splits)

abbreviation tfault :: "bool \<Rightarrow> outcome_code \<Rightarrow> reason_code \<Rightarrow> string \<Rightarrow> gate \<Rightarrow> gate" where
  "tfault \<equiv> fault_when retirement_rank"

definition retirement_caller :: "engine \<Rightarrow> retirement_request \<Rightarrow> version_record \<Rightarrow> gate \<Rightarrow> gate" where
  "retirement_caller st q r g =
     fault_decision retirement_rank (check_policy_generation st (tq_policy_generation q))
       (fault_decision retirement_rank (check_epoch st (tq_epoch q))
         (tfault (id_valid (tq_generation q) \<and> tq_generation q \<noteq> vr_generation r)
            OC_STALE_PLAN (Ord ModelGenerationMismatch) ''retirement cites a superseded model generation''
         (tfault (retired r) OC_CONFLICT (Ret RetirementAlreadyRetired)
            ''generation is already retired'' g)))"

fun retirement_rollouts :: "u64 \<Rightarrow> rollout_plan list \<Rightarrow> gate \<Rightarrow> gate" where
  "retirement_rollouts version [] g = g"
| "retirement_rollouts version (p # ps) g =
     retirement_rollouts version ps
       (tfault (live p \<and> pl_rollback_target p = version)
          OC_RETIREMENT_BLOCKED (Ret RetirementRetentionUnsatisfied)
          ''a live rollout still names this generation as its rollback target''
       (tfault (live p \<and> pl_candidate p = version)
          OC_RETIREMENT_BLOCKED (Ret RetirementRolloutActive)
          ''a live rollout still targets this generation'' g))"

definition retirement_rollout_checks :: "engine \<Rightarrow> version_record \<Rightarrow> gate \<Rightarrow> gate" where
  "retirement_rollout_checks st r g =
     retirement_rollouts (vr_version r) (map snd (st_rollouts st))
       (tfault (id_valid (vr_rollout r) \<and>
            (case rollout_of st (vr_rollout r) of None \<Rightarrow> False | Some p \<Rightarrow> live p))
          OC_RETIREMENT_BLOCKED (Ret RetirementRolloutActive)
          ''the generation still has a live rollout'' g)"

definition live_of_kind :: "engine \<Rightarrow> version_record \<Rightarrow> authority_kind list \<Rightarrow> nat" where
  "live_of_kind st r kinds =
     length (filter (\<lambda>b. \<not> b_superseded b \<and> b_kind b \<in> set kinds)
       (bindings_for_version (st_authority st) (vr_model r) (vr_version r)))"

definition retirement_bindings :: "engine \<Rightarrow> version_record \<Rightarrow> gate \<Rightarrow> gate" where
  "retirement_bindings st r g =
     tfault (0 < live_of_kind st r [AK_RollbackRetained] \<and>
         \<not> lp_allow_retirement_without_drain (ps_base (st_policy st)))
       OC_RETIREMENT_BLOCKED (Ret RetirementDrainIncomplete)
       ''rollback retention is still outstanding in at least one scope''
     (tfault (0 < live_of_kind st r [AK_Draining])
       OC_RETIREMENT_BLOCKED (Ret RetirementDrainIncomplete)
       ''the generation is still draining in at least one scope''
     (tfault (0 < live_of_kind st r [AK_Exclusive] \<or> 0 < live_of_kind st r [AK_Canary, AK_SplitTraffic])
       OC_RETIREMENT_BLOCKED (Ret RetirementScopeDependency)
       ''the generation still holds live authoritative scope bindings'' g))"

definition unsettled :: "attempt \<Rightarrow> bool" where
  "unsettled a \<longleftrightarrow> ap_state a = AS_Dispatched \<or> ap_state a = AS_OutcomeUnknown \<or>
     ap_state a = AS_ReconcileRequired"

fun retirement_attempts :: "u64 \<Rightarrow> attempt list \<Rightarrow> gate \<Rightarrow> gate" where
  "retirement_attempts version [] g = g"
| "retirement_attempts version (a # as) g =
     retirement_attempts version as
       (tfault (ap_version a = version \<and> unsettled a)
          OC_RETIREMENT_BLOCKED (Ret RetirementDependencyUnresolved)
          ''an external attempt against this generation has not settled'' g)"

definition retirement_facts :: "engine \<Rightarrow> version_record \<Rightarrow> (string \<times> string) list" where
  "retirement_facts st r =
     [(''version_id'', show_u64 (vr_version r)), (''label'', vr_label r),
      (''model_generation'', show_u64 (vr_generation r)),
      (''lifecycle_state'', to_string_state (vr_state r)),
      (''exclusive_bindings'', show_nat (live_of_kind st r [AK_Exclusive])),
      (''canary_bindings'', show_nat (live_of_kind st r [AK_Canary, AK_SplitTraffic])),
      (''retained_bindings'', show_nat (live_of_kind st r [AK_RollbackRetained])),
      (''draining_bindings'', show_nat (live_of_kind st r [AK_Draining])),
      (''rollback_retention_generations'',
        show_nat (unat (lp_rollback_retention_generations (ps_base (st_policy st))))),
      (''allow_retirement_without_drain'',
        show_bool (lp_allow_retirement_without_drain (ps_base (st_policy st))))]"

definition retirement_gate :: "engine \<Rightarrow> retirement_request \<Rightarrow> version_record \<Rightarrow> gate" where
  "retirement_gate st q r =
     retirement_attempts (vr_version r) (map snd (st_attempts st))
       (retirement_bindings st r
         (retirement_rollout_checks st r
           (retirement_caller st q r (open_gate OC_RETIREMENT_ALLOWED))))"

definition evaluate_retirement :: "retirement_request \<Rightarrow> engine \<Rightarrow> decision \<times> explanation" where
  "evaluate_retirement q st =
     (case version_of st (tq_model q) (tq_version q) of
        None \<Rightarrow>
          (let g = fault retirement_rank OC_NOT_FOUND (Reg UnknownVersion) ''version is not registered''
                     (open_gate OC_RETIREMENT_ALLOWED) in
           (g_decision g, normalize_explanation (g_local g)))
      | Some r \<Rightarrow> close_gate (g_set_all (retirement_facts st r) (retirement_gate st q r)))"

text \<open>Fencing every live binding of the generation, then touching each scope it appears in.\<close>

definition fence_version :: "u64 \<Rightarrow> u64 \<Rightarrow> authority_table \<Rightarrow> authority_table" where
  "fence_version model version t =
     t\<lparr>at_bindings := om_map (mark_live (\<lambda>b. b_model b = model \<and> b_version b = version) supersede)
        (at_bindings t)\<rparr>"

definition touch_bound_scopes :: "u64 \<Rightarrow> u64 \<Rightarrow> engine \<Rightarrow> engine" where
  "touch_bound_scopes model version st =
     st\<lparr>st_scopes := fold (\<lambda>b. touch (b_scope b))
        (bindings_for_version (st_authority st) model version) (st_scopes st)\<rparr>"

definition retire_plan :: "u64 \<Rightarrow> u64 \<Rightarrow> engine \<Rightarrow> engine" where
  "retire_plan version i st =
     (case rollout_of st i of
        None \<Rightarrow> st
      | Some p \<Rightarrow>
          if pl_candidate p \<noteq> version then st
          else
            let st1 = bump_sequence st in
            put_rollout (p\<lparr>pl_superseded := True, pl_stage_entered := False,
              pl_updated_sequence := st_sequence st1\<rparr>) st1)"

definition retire :: "retirement_request \<Rightarrow> engine \<Rightarrow> decision \<times> engine" where
  "retire q st =
     (let verdict = fst (evaluate_retirement q st) in
      if \<not> allowed verdict then (verdict, st)
      else case version_of st (tq_model q) (tq_version q) of
          None \<Rightarrow> (refuse OC_NOT_FOUND (Reg UnknownVersion) ''version vanished during retirement'', st)
        | Some r \<Rightarrow>
            let st1 = st\<lparr>st_authority := fence_version (vr_model r) (vr_version r) (st_authority st)\<rparr>;
                st2 = touch_bound_scopes (vr_model r) (vr_version r) st1;
                st3 = fold (retire_plan (vr_version r)) (map fst (st_rollouts st2)) st2 in
            case advance_version (tq_model q) (tq_version q) LS_RETIRED st3 of
              (advanced, st4) \<Rightarrow>
                if \<not> allowed advanced then (advanced, st4)
                else (new_decision OC_RETIREMENT_ALLOWED,
                      stamp_version (tq_model q) (tq_version q) st4))"

section \<open>Revalidation\<close>

text \<open>
  The loop reads the kind and the mark of each binding of the version as it reaches it, and
  supersedes the whole scope of every live one that is not exclusive.
\<close>

definition withdraw_scope :: "u64 \<Rightarrow> u64 \<Rightarrow> u64 \<Rightarrow> authority_table \<Rightarrow> authority_table" where
  "withdraw_scope model version scope t =
     (if list_ex (\<lambda>b. b_model b = model \<and> b_version b = version \<and> b_kind b \<noteq> AK_Exclusive)
           (live_bindings_for t scope)
      then snd (supersede_scope scope t) else t)"

definition revalidate :: "revalidation_request \<Rightarrow> engine \<Rightarrow> decision \<times> engine" where
  "revalidate q st =
     (case version_of st (vq_model q) (vq_version q) of
        None \<Rightarrow> (refuse OC_NOT_FOUND (Reg UnknownVersion) ''version is not registered'', st)
      | Some r \<Rightarrow>
          if retired r then
            (refuse OC_Rejected (Lfc VersionRetired) ''a retired generation cannot be revalidated'', st)
          else if id_valid (vq_generation q) \<and> vq_generation q \<noteq> vr_generation r then
            (refuse OC_STALE_PLAN (Ord ModelGenerationMismatch)
               ''revalidation cites a superseded model generation'', st)
          else
            let st1 = (put_version (r\<lparr>vr_compatibility_generation := 0\<rparr>) st)
                  \<lparr>st_compatibility := snd (invalidate_version (vr_version r) (st_compatibility st)),
                   st_evidence := snd (invalidate_model_generation (vr_version r)
                     (next_generation (vr_generation r)) (st_evidence st)),
                   st_authority := fold (withdraw_scope (vr_model r) (vr_version r))
                     (map fst (at_bindings (st_authority st))) (st_authority st)\<rparr>;
                st2 = snd (advance_version (vq_model q) (vq_version q) LS_REVALIDATION_REQUIRED st1) in
            (add_reason (new_decision OC_REVALIDATION_REQUIRED) (vq_cause q)
               (clamp_detail kMaxReasonDetail (vq_detail q)),
             stamp_version (vq_model q) (vq_version q) st2))"

section \<open>External attempts\<close>

record attempt_request =
  aqr_kind :: attempt_kind
  aqr_worker :: u64
  aqr_boot :: u64
  aqr_epoch :: u64
  aqr_model :: u64
  aqr_version :: u64
  aqr_model_generation :: u64
  aqr_artifact_generation :: u64
  aqr_scope :: u64
  aqr_rollout :: u64
  aqr_rollout_generation :: u64
  aqr_stage :: u64
  aqr_stage_generation :: u64
  aqr_idempotent :: bool
  aqr_detail :: string

record completion_record =
  cm_attempt :: u64
  cm_worker :: u64
  cm_boot :: u64
  cm_epoch :: u64
  cm_success :: bool
  cm_confirmed :: bool
  cm_detail :: string

record attempt_outcome =
  ao_decision :: decision
  ao_attempt :: u64
  ao_reconciliation_required :: bool

definition refused_attempt :: "decision \<Rightarrow> attempt_outcome" where
  "refused_attempt d = \<lparr>ao_decision = d, ao_attempt = 0, ao_reconciliation_required = False\<rparr>"

text \<open>
  The kind is a datatype, so the code's test that it lies within its enumeration always
  passes and is left out.
\<close>

definition attempt_rollout_fault :: "attempt_request \<Rightarrow> engine \<Rightarrow> decision option" where
  "attempt_rollout_fault q st =
     (if \<not> id_valid (aqr_rollout q) then None
      else case rollout_of st (aqr_rollout q) of
          None \<Rightarrow> Some (refuse OC_NOT_FOUND (Reg UnknownVersion) ''attempt targets an unknown rollout'')
        | Some p \<Rightarrow>
            if id_valid (aqr_rollout_generation q) \<and> aqr_rollout_generation q \<noteq> pl_generation p then
              Some (refuse OC_STALE_PLAN (Ord RolloutGenerationMismatch)
                ''attempt targets a superseded rollout generation'')
            else None)"

definition new_attempt :: "attempt_request \<Rightarrow> version_record \<Rightarrow> engine \<Rightarrow> attempt" where
  "new_attempt q r st = \<lparr>ap_id = st_next_attempt_id st, ap_kind = aqr_kind q, ap_worker = aqr_worker q,
     ap_boot = aqr_boot q, ap_epoch = st_epoch st, ap_model = vr_model r, ap_version = vr_version r,
     ap_model_generation = vr_generation r, ap_artifact_generation = ab_generation (vr_artifact r),
     ap_scope = aqr_scope q,
     ap_scope_generation =
       (case sr_find (st_scopes st) (aqr_scope q) of
          Some sr \<Rightarrow> if id_valid (aqr_scope q) then s_generation sr else 0 | None \<Rightarrow> 0),
     ap_rollout = aqr_rollout q, ap_rollout_generation = aqr_rollout_generation q,
     ap_stage = aqr_stage q, ap_stage_generation = aqr_stage_generation q,
     ap_residency_generation = st_next_attempt_id st, ap_state = AS_Dispatched,
     ap_idempotent = aqr_idempotent q, ap_issued_sequence = st_sequence st, ap_settled_sequence = 0,
     ap_detail = clamp_detail kMaxReasonDetail (aqr_detail q)\<rparr>"

definition begin_attempt :: "engine_config \<Rightarrow> attempt_request \<Rightarrow> engine \<Rightarrow> attempt_outcome \<times> engine" where
  "begin_attempt cfg q st =
     (if rb_max_attempts (ec_bounds cfg) \<le> length (st_attempts st) then
        (refused_attempt (refuse OC_BOUNDS_EXCEEDED (Bnd BoundsAttemptCount)
           ''pending attempt bound reached''), st)
      else if \<not> allowed (check_epoch st (aqr_epoch q)) then
        (refused_attempt (check_epoch st (aqr_epoch q)), st)
      else if \<not> allowed (check_worker st (aqr_worker q) (aqr_boot q) (aqr_epoch q)) then
        (refused_attempt (check_worker st (aqr_worker q) (aqr_boot q) (aqr_epoch q)), st)
      else case version_of st (aqr_model q) (aqr_version q) of
          None \<Rightarrow> (refused_attempt (refuse OC_NOT_FOUND (Reg UnknownVersion)
            ''attempt targets an unregistered version''), st)
        | Some r \<Rightarrow>
            if retired r then
              (refused_attempt (refuse OC_Rejected (Lfc VersionRetired)
                 ''attempt targets a retired generation''), st)
            else if id_valid (aqr_model_generation q) \<and> aqr_model_generation q \<noteq> vr_generation r then
              (refused_attempt (refuse OC_STALE_PLAN (Ord ModelGenerationMismatch)
                 ''attempt targets a superseded model generation''), st)
            else if id_valid (aqr_scope q) \<and> sr_find (st_scopes st) (aqr_scope q) = None then
              (refused_attempt (refuse OC_Rejected (Reg UnknownScope)
                 ''attempt targets an unknown scope''), st)
            else case attempt_rollout_fault q st of
                Some d \<Rightarrow> (refused_attempt d, st)
              | None \<Rightarrow>
                  let st1 = bump_sequence st; a = new_attempt q r st1 in
                  (\<lparr>ao_decision = new_decision OC_Accepted, ao_attempt = ap_id a,
                    ao_reconciliation_required = False\<rparr>,
                   st1\<lparr>st_next_attempt_id := ap_id a + 1,
                       st_attempts := om_emplace (ap_id a) a (st_attempts st1)\<rparr>))"

definition put_attempt :: "u64 \<Rightarrow> attempt \<Rightarrow> engine \<Rightarrow> engine" where
  "put_attempt i a st = st\<lparr>st_attempts := om_put i a (st_attempts st)\<rparr>"

text \<open>The attempt moves to a state, stamped with the next sequence.\<close>

definition settle_attempt :: "u64 \<Rightarrow> attempt \<Rightarrow> attempt_state \<Rightarrow> string \<Rightarrow> engine \<Rightarrow> engine" where
  "settle_attempt i a state detail_text st =
     (let st1 = bump_sequence st in
      put_attempt i (a\<lparr>ap_state := state, ap_settled_sequence := st_sequence st1,
        ap_detail := clamp_detail kMaxReasonDetail detail_text\<rparr>) st1)"

definition completion_subject_fault :: "attempt \<Rightarrow> engine \<Rightarrow> decision option" where
  "completion_subject_fault a st =
     (case version_of st (ap_model a) (ap_version a) of
        None \<Rightarrow> Some (refuse OC_Rejected (Lfc VersionRetired)
          ''attempt subject is gone or retired; the completion is fenced'')
      | Some r \<Rightarrow>
          if retired r then
            Some (refuse OC_Rejected (Lfc VersionRetired)
              ''attempt subject is gone or retired; the completion is fenced'')
          else if vr_generation r \<noteq> ap_model_generation a then
            Some (refuse OC_STALE_PLAN (Ord ModelGenerationMismatch)
              ''attempt targeted a superseded model generation'')
          else if id_valid (ap_rollout a) \<and>
              (case rollout_of st (ap_rollout a) of
                 None \<Rightarrow> True | Some p \<Rightarrow> pl_generation p \<noteq> ap_rollout_generation a) then
            Some (refuse OC_STALE_PLAN (Ord RolloutGenerationMismatch)
              ''attempt targeted a superseded rollout generation'')
          else None)"

definition complete_attempt :: "completion_record \<Rightarrow> engine \<Rightarrow> decision \<times> engine" where
  "complete_attempt c st =
     (case map_of (st_attempts st) (cm_attempt c) of
        None \<Rightarrow> (refuse OC_NOT_FOUND (Wrk AttemptUnknown) ''attempt is not registered'', st)
      | Some a \<Rightarrow>
          if ap_state a = AS_Completed \<or> ap_state a = AS_Failed then
            (refuse OC_CONFLICT
               (if (ap_state a = AS_Completed) \<noteq> cm_success c then (Wrk AttemptConflictingCompletion)
                else (Wrk AttemptAlreadyCompleted)) ''attempt already settled'', st)
          else if ap_state a = AS_Abandoned then
            (refuse OC_CONFLICT (Wrk AttemptAlreadyCompleted) ''attempt was abandoned'', st)
          else if id_valid (cm_epoch c) \<and> cm_epoch c \<noteq> st_epoch st then
            (refuse OC_CONFLICT (Ord CoordinatorEpochStale)
               ''completion arrives from a superseded coordinator epoch'', st)
          else if id_valid (cm_worker c) \<and> (cm_worker c \<noteq> ap_worker a \<or> cm_boot c \<noteq> ap_boot a) then
            (refuse OC_Rejected (Wrk WorkerBootStale)
               ''completion originates from a boot that did not receive the attempt'', st)
          else if \<not> allowed (check_worker st (ap_worker a) (ap_boot a) 0) then
            (copy_refusal (check_worker st (ap_worker a) (ap_boot a) 0), st)
          else case completion_subject_fault a st of
              Some d \<Rightarrow> (d, st)
            | None \<Rightarrow>
                if \<not> cm_confirmed c then
                  (refuse OC_OUTCOME_UNKNOWN (Wrk AttemptOutcomeUnknown)
                     ''external effect completion is unconfirmed; reconciliation is required'',
                   settle_attempt (cm_attempt c) a AS_OutcomeUnknown
                     (if cm_detail c = [] then ''acknowledgement lost or unconfirmed'' else cm_detail c) st)
                else
                  (new_decision OC_Accepted,
                   settle_attempt (cm_attempt c) a (if cm_success c then AS_Completed else AS_Failed)
                     (if cm_detail c = [] then ap_detail a else cm_detail c) st))"

definition reconcile_attempt ::
  "u64 \<Rightarrow> bool \<Rightarrow> u64 \<Rightarrow> string \<Rightarrow> engine \<Rightarrow> attempt_outcome \<times> engine" where
  "reconcile_attempt i side_effect_observed epoch detail_text st =
     (case map_of (st_attempts st) i of
        None \<Rightarrow> (refused_attempt (refuse OC_NOT_FOUND (Wrk AttemptUnknown) ''attempt is not registered''), st)
      | Some a \<Rightarrow>
          if ap_state a = AS_Completed \<or> ap_state a = AS_Failed \<or> ap_state a = AS_Abandoned then
            (refused_attempt (refuse OC_CONFLICT (Wrk AttemptAlreadyCompleted)
               ''attempt is already settled''), st)
          else if ap_state a = AS_Dispatched then
            (refused_attempt (refuse OC_CONFLICT (Rcn UnreconciledAttempt)
               ''attempt is still dispatched; it must be settled or fenced first''), st)
          else if id_valid epoch \<and> epoch < st_epoch st then
            (refused_attempt (refuse OC_CONFLICT (Ord CoordinatorEpochStale)
               ''reconciliation from a superseded epoch''), st)
          else if side_effect_observed then
            (\<lparr>ao_decision = new_decision OC_Accepted, ao_attempt = ap_id a,
              ao_reconciliation_required = False\<rparr>, settle_attempt i a AS_Completed detail_text st)
          else if \<not> ap_idempotent a then
            (\<lparr>ao_decision = refuse OC_RECONCILIATION_REQUIRED (Rcn UnreconciledAttempt)
                ''side effect was not observed and the action is not idempotent'',
              ao_attempt = ap_id a, ao_reconciliation_required = True\<rparr>,
             settle_attempt i a AS_ReconcileRequired detail_text st)
          else
            (\<lparr>ao_decision = new_decision OC_Accepted, ao_attempt = ap_id a,
              ao_reconciliation_required = False\<rparr>, settle_attempt i a AS_Failed detail_text st))"

end
