(* ===== verification/Mlf_Findings.thy ===== *)
theory Mlf_Findings
  imports Mlf_Reconcile "HOL-Library.Multiset"
begin

text \<open>
  \<open>LifecycleEngine::reconcile\<close> of src/engine_reconcile.cpp: the comparison of what the
  registry believes with what replicas, residency reports and live workers show. It changes
  nothing and returns its findings in one canonical order.
\<close>

record replica_observation =
  ro_replica :: u64
  ro_generation :: u64
  ro_model :: u64
  ro_version :: u64
  ro_model_generation :: u64
  ro_artifact_generation :: u64
  ro_scope :: u64
  ro_resident :: bool
  ro_ready :: bool
  ro_worker :: u64
  ro_boot :: u64
  ro_provenance :: provenance

record residency_observation =
  so_model :: u64
  so_version :: u64
  so_model_generation :: u64
  so_artifact_generation :: u64
  so_scope :: u64
  so_generation :: u64
  so_resident :: bool
  so_ready :: bool
  so_replica :: u64
  so_replica_generation :: u64
  so_boot :: u64
  so_provenance :: provenance

datatype finding_kind =
    FK_Clean | FK_ExpectedResidentMissing | FK_RetiredModelStillResident |
    FK_RolloutStageWithoutWorkers | FK_AuthorityWithoutReplicas |
    FK_ReplicaForNonAuthoritativeGeneration | FK_ArtifactGenerationChanged |
    FK_CompatibilityChanged | FK_UnreconciledAttempt | FK_FencedWorkerStillPublishing |
    FK_StalePlanBinding

primrec finding_kind_index :: "finding_kind \<Rightarrow> nat" where
  "finding_kind_index FK_Clean = 0"
| "finding_kind_index FK_ExpectedResidentMissing = 1"
| "finding_kind_index FK_RetiredModelStillResident = 2"
| "finding_kind_index FK_RolloutStageWithoutWorkers = 3"
| "finding_kind_index FK_AuthorityWithoutReplicas = 4"
| "finding_kind_index FK_ReplicaForNonAuthoritativeGeneration = 5"
| "finding_kind_index FK_ArtifactGenerationChanged = 6"
| "finding_kind_index FK_CompatibilityChanged = 7"
| "finding_kind_index FK_UnreconciledAttempt = 8"
| "finding_kind_index FK_FencedWorkerStillPublishing = 9"
| "finding_kind_index FK_StalePlanBinding = 10"

record lifecycle_finding =
  fi_kind :: finding_kind
  fi_reason :: reason_code
  fi_scope :: u64
  fi_model :: u64
  fi_version :: u64
  fi_model_generation :: u64
  fi_detail :: string

record reconciliation_input =
  ri_replicas :: "replica_observation list"
  ri_residency :: "residency_observation list"
  ri_live_workers :: "u64 list"
  ri_worker_liveness_known :: bool

definition mk_finding ::
  "finding_kind \<Rightarrow> reason_code \<Rightarrow> u64 \<Rightarrow> u64 \<Rightarrow> u64 \<Rightarrow> u64 \<Rightarrow> string \<Rightarrow> lifecycle_finding" where
  "mk_finding kind why scope model version generation detail_text = \<lparr>fi_kind = kind, fi_reason = why,
     fi_scope = scope, fi_model = model, fi_version = version, fi_model_generation = generation,
     fi_detail = clamp_detail kMaxRecordDetail detail_text\<rparr>"

section \<open>The seven comparisons\<close>

definition observed_resident :: "reconciliation_input \<Rightarrow> u64 \<Rightarrow> u64 \<Rightarrow> u64 \<Rightarrow> u64 \<Rightarrow> bool" where
  "observed_resident input model version generation scope \<longleftrightarrow>
     list_ex (\<lambda>o'. so_model o' = model \<and> so_version o' = version \<and> so_model_generation o' = generation \<and>
       so_scope o' = scope \<and> so_resident o' \<and> so_ready o') (ri_residency input) \<or>
     list_ex (\<lambda>o'. ro_model o' = model \<and> ro_version o' = version \<and> ro_model_generation o' = generation \<and>
       ro_scope o' = scope \<and> ro_resident o' \<and> ro_ready o') (ri_replicas input)"

definition unsupported_authority :: "reconciliation_input \<Rightarrow> engine \<Rightarrow> lifecycle_finding list" where
  "unsupported_authority input st =
     map (\<lambda>b. mk_finding FK_AuthorityWithoutReplicas (Rcn ExpectedResidentMissing) (b_scope b) (b_model b)
            (b_version b) (b_model_generation b)
            ''no resident ready replica or residency observation supports the committed authority'')
       (filter (\<lambda>b. \<not> b_superseded b \<and> (b_kind b = AK_Exclusive \<or> b_kind b = AK_Canary) \<and>
            \<not> observed_resident input (b_model b) (b_version b) (b_model_generation b) (b_scope b))
         (all_authority_bindings st))"

definition known_retired :: "engine \<Rightarrow> u64 \<Rightarrow> u64 \<Rightarrow> bool" where
  "known_retired st model version \<longleftrightarrow>
     (case version_of st model version of None \<Rightarrow> False | Some r \<Rightarrow> retired r)"

definition resident_retired :: "reconciliation_input \<Rightarrow> engine \<Rightarrow> lifecycle_finding list" where
  "resident_retired input st =
     map (\<lambda>o'. mk_finding FK_RetiredModelStillResident (Rcn RetiredModelStillResident) (so_scope o')
            (so_model o') (so_version o') (so_model_generation o')
            ''a retired generation is still reported resident'')
       (filter (\<lambda>o'. known_retired st (so_model o') (so_version o') \<and> so_resident o') (ri_residency input)) @
     map (\<lambda>o'. mk_finding FK_RetiredModelStillResident (Rcn RetiredModelStillResident) (ro_scope o')
            (ro_model o') (ro_version o') (ro_model_generation o')
            ''a retired generation is still reported resident by a replica'')
       (filter (\<lambda>o'. known_retired st (ro_model o') (ro_version o') \<and> ro_resident o') (ri_replicas input))"

definition stage_supported :: "reconciliation_input \<Rightarrow> engine \<Rightarrow> bool" where
  "stage_supported input st \<longleftrightarrow>
     list_ex (\<lambda>e. \<not> wl_fenced (snd e) \<and> wl_id (snd e) \<in> set (ri_live_workers input)) (st_workers st)"

definition unsupported_stages :: "reconciliation_input \<Rightarrow> engine \<Rightarrow> lifecycle_finding list" where
  "unsupported_stages input st =
     concat (map (\<lambda>p.
       if \<not> live p \<or> \<not> pl_stage_entered p then []
       else if \<not> ri_worker_liveness_known input then
         [mk_finding FK_RolloutStageWithoutWorkers (Rcn ReplicaEvidenceMissing) (pl_root_scope p)
            (pl_model p) (pl_candidate p) (pl_candidate_generation p)
            ''worker liveness is unknown: the runtime will not assume the stage is supported'']
       else if stage_supported input st then []
       else
         [mk_finding FK_RolloutStageWithoutWorkers (Rcn RolloutStageWithoutWorkers) (pl_root_scope p)
            (pl_model p) (pl_candidate p) (pl_candidate_generation p)
            ''the persisted stage is entered but no live worker supports it''])
       (map snd (st_rollouts st)))"

text \<open>The first live exclusive binding up the chain, nearest scope first.\<close>

definition nearest_exclusive :: "engine \<Rightarrow> u64 \<Rightarrow> authority_binding option" where
  "nearest_exclusive st scope =
     find (\<lambda>b. b_kind b = AK_Exclusive)
       (concat (map (live_bindings_for (st_authority st)) (rev (chain (st_scopes st) scope))))"

definition diverged_replicas :: "reconciliation_input \<Rightarrow> engine \<Rightarrow> lifecycle_finding list" where
  "diverged_replicas input st =
     map (\<lambda>o'. mk_finding FK_ReplicaForNonAuthoritativeGeneration (Rcn ExternalStateDiverged) (ro_scope o')
            (ro_model o') (ro_version o') (ro_model_generation o')
            ''a resident replica serves a generation that is not authoritative in its scope'')
       (filter (\<lambda>o'. (ro_resident o' \<or> ro_ready o') \<and>
            (case nearest_exclusive st (ro_scope o') of
               None \<Rightarrow> False
             | Some b \<Rightarrow> \<not> (b_model b = ro_model o' \<and> b_version b = ro_version o' \<and>
                 b_model_generation b = ro_model_generation o')))
         (ri_replicas input))"

definition unsettled_attempts :: "engine \<Rightarrow> lifecycle_finding list" where
  "unsettled_attempts st =
     map (\<lambda>a. mk_finding FK_UnreconciledAttempt (Rcn UnreconciledAttempt) (ap_scope a) (ap_model a)
            (ap_version a) (ap_model_generation a)
            (''attempt '' @ show_u64 (ap_id a) @ '' is '' @ to_string_attempt_state (ap_state a)))
       (filter unsettled (map snd (st_attempts st)))"

definition stale_kind :: "reason_code \<Rightarrow> finding_kind" where
  "stale_kind why =
     (if why = (Art ArtifactGenerationMismatch) then FK_ArtifactGenerationChanged
      else if why = (Cmp CompatibilityStale) then FK_CompatibilityChanged
      else FK_StalePlanBinding)"

definition stale_plans :: "engine \<Rightarrow> lifecycle_finding list" where
  "stale_plans st =
     concat (map (\<lambda>p.
       if \<not> live p then []
       else case check_plan_bindings st p of
           None \<Rightarrow> []
         | Some (why, detail_text) \<Rightarrow>
             [mk_finding (stale_kind why) why (pl_root_scope p) (pl_model p) (pl_candidate p)
                (pl_candidate_generation p) (''live rollout plan binding went stale: '' @ detail_text)])
       (map snd (st_rollouts st)))"

definition fenced_publishers :: "engine \<Rightarrow> lifecycle_finding list" where
  "fenced_publishers st =
     concat (map (\<lambda>l.
       if \<not> wl_fenced l then []
       else map (\<lambda>e. mk_finding FK_FencedWorkerStillPublishing (Evd EvidencePublisherBootStale)
                (es_scope (e_subject e)) (es_model (e_subject e)) (es_version (e_subject e))
                (es_model_generation (e_subject e))
                ''evidence published by a fenced boot is still retained'')
              (filter (\<lambda>e. e_boot e = wl_boot l) (concat (map snd (ev_records (st_evidence st))))))
       (map snd (st_workers st)))"

section \<open>Canonical order\<close>

type_synonym finding_key = "nat \<times> u64 \<times> u64 \<times> u64 \<times> u64 \<times> string"

definition finding_key :: "lifecycle_finding \<Rightarrow> finding_key" where
  "finding_key f = (finding_kind_index (fi_kind f), fi_scope f, fi_model f, fi_version f,
     fi_model_generation f, fi_detail f)"

text \<open>\<open>std::unique\<close>: an element is kept when its key differs from the last one kept.\<close>

fun unique_by :: "('a \<Rightarrow> 'k) \<Rightarrow> 'a list \<Rightarrow> 'a list" where
  "unique_by key [] = []"
| "unique_by key [x] = [x]"
| "unique_by key (x # y # xs) =
     (if key x = key y then unique_by key (x # xs) else x # unique_by key (y # xs))"

definition raw_findings :: "reconciliation_input \<Rightarrow> engine \<Rightarrow> lifecycle_finding list" where
  "raw_findings input st =
     unsupported_authority input st @ resident_retired input st @ unsupported_stages input st @
     diverged_replicas input st @ unsettled_attempts st @ stale_plans st @ fenced_publishers st"

text \<open>
  \<open>std::sort\<close> is modelled by the stable sort. Findings with the same key name the same kind
  and text, so which one of them survives does not matter.
\<close>

definition reconcile :: "reconciliation_input \<Rightarrow> engine \<Rightarrow> lifecycle_finding list" where
  "reconcile input st = unique_by finding_key (sort_key finding_key (raw_findings input st))"

lemma map_unique_by: "map key (unique_by key xs) = remdups_adj (map key xs)"
  by (induction key xs rule: unique_by.induct) auto

lemma reconcile_keys:
  "map finding_key (reconcile input st) = sort_unique (map finding_key (raw_findings input st))"
proof -
  have "map finding_key (sort_key finding_key xs) = sort (map finding_key xs)" for xs
    by (rule properties_for_sort [symmetric]) auto
  then show ?thesis by (simp add: reconcile_def map_unique_by sort_unique_def)
qed

end
