(* ===== verification/Mlf_Rollout_Ops.thy ===== *)
theory Mlf_Rollout_Ops
  imports Mlf_Reconcile
begin

text \<open>
  Staged rollouts: src/engine_rollout.cpp. A plan is created from a request, its first stage
  is entered, each stage is advanced or failed on evidence, and a plan can be superseded.
\<close>

section \<open>Requests\<close>

record cohort_spec =
  hq_name :: string
  hq_scopes :: "u64 list"
  hq_traffic_percent :: u32
  hq_max_blast_radius_percent :: u32

record stage_spec =
  gs_name :: string
  gs_cohort_indices :: "nat list"
  gs_required_evidence :: "evidence_requirement list"
  gs_acceptance :: "criterion list"
  gs_failure :: "criterion list"
  gs_require_residency_before_entry :: bool
  gs_require_drain_after_commit :: bool

record rollout_plan_request =
  nq_model :: u64
  nq_candidate :: u64
  nq_candidate_generation :: u64
  nq_artifact_generation :: u64
  nq_compatibility_generation :: u64
  nq_policy_generation :: u64
  nq_root_scope :: u64
  nq_root_scope_generation :: u64
  nq_strategy :: rollout_strategy
  nq_previous :: u64
  nq_previous_generation :: u64
  nq_rollback_target :: u64
  nq_rollback_target_generation :: u64
  nq_max_blast_radius_percent :: u32
  nq_manual_progression :: bool
  nq_cohorts :: "cohort_spec list"
  nq_stages :: "stage_spec list"
  nq_epoch :: u64
  nq_worker :: u64
  nq_boot :: u64
  nq_promotion :: u64
  nq_promotion_generation :: u64

record progress_request =
  xq_rollout :: u64
  xq_rollout_generation :: u64
  xq_stage :: u64
  xq_stage_generation :: u64
  xq_scope_generation :: u64
  xq_epoch :: u64
  xq_worker :: u64
  xq_boot :: u64
  xq_administrative_approval :: bool
  xq_detail :: string

text \<open>The scopes a stage moves, sorted and without duplicates, and its share of the root.\<close>

definition staged_scopes :: "rollout_plan \<Rightarrow> stage_definition \<Rightarrow> u64 list" where
  "staged_scopes p s = sort_unique (stage_scopes p s)"

definition stage_blast_radius :: "rollout_plan \<Rightarrow> stage_definition \<Rightarrow> u32" where
  "stage_blast_radius p s =
     (let total = fold (\<lambda>i t. case cohort p i of
            None \<Rightarrow> t
          | Some c \<Rightarrow> t + (if ch_traffic_percent c \<noteq> 0 then ch_traffic_percent c else 100))
          (sg_cohorts s) 0 in
      if 100 < total then 100 else total)"

section \<open>Creating a plan\<close>

definition plan_subject_fault :: "rollout_plan_request \<Rightarrow> version_record \<Rightarrow> decision option" where
  "plan_subject_fault q r =
     (if retired r then
        Some (refuse OC_Rejected (Prm PromotionCandidateRetired)
          ''cannot plan a rollout for a retired generation'')
      else if id_valid (nq_promotion q) \<and> vr_last_promotion r \<noteq> nq_promotion q then
        Some (refuse OC_CONFLICT (Ord PromotionGenerationMismatch)
          ''plan cites a promotion that is not the candidate's current promotion'')
      else if id_valid (nq_promotion_generation q) \<and>
          vr_promotion_generation r \<noteq> nq_promotion_generation q then
        Some (refuse OC_CONFLICT (Ord PromotionGenerationMismatch)
          ''plan cites a superseded promotion generation'')
      else if \<not> id_valid (vr_last_promotion r) \<and> \<not> id_valid (nq_promotion q) then
        Some (refuse OC_Rejected (Prm PromotionNotAuthorized)
          ''a rollout plan requires a committed promotion'')
      else if vr_state r \<noteq> LS_CANARY_PENDING \<and> vr_state r \<noteq> LS_ROLLOUT_ACTIVE \<and>
          vr_state r \<noteq> LS_PARTIALLY_PROMOTED then
        Some (refuse OC_CONFLICT (Lfc VersionNotPromotionEligible) ''candidate is not awaiting a canary'')
      else if id_valid (nq_candidate_generation q) \<and> nq_candidate_generation q \<noteq> vr_generation r then
        Some (refuse OC_STALE_PLAN (Ord ModelGenerationMismatch) ''plan cites an old model generation'')
      else if id_valid (nq_artifact_generation q) \<and>
          nq_artifact_generation q \<noteq> ab_generation (vr_artifact r) then
        Some (refuse OC_STALE_PLAN (Art ArtifactGenerationMismatch)
          ''plan cites an old artifact generation'')
      else if id_valid (nq_compatibility_generation q) \<and>
          nq_compatibility_generation q \<noteq> vr_compatibility_generation r then
        Some (refuse OC_STALE_PLAN (Cmp CompatibilityGenerationMismatch)
          ''plan cites an old compatibility generation'')
      else None)"

definition plan_caller_fault :: "rollout_plan_request \<Rightarrow> engine \<Rightarrow> decision option" where
  "plan_caller_fault q st =
     (if \<not> allowed (check_policy_generation st (nq_policy_generation q)) then
        Some (check_policy_generation st (nq_policy_generation q))
      else if \<not> allowed (check_epoch st (nq_epoch q)) then Some (check_epoch st (nq_epoch q))
      else if \<not> allowed (check_worker st (nq_worker q) (nq_boot q) (nq_epoch q)) then
        Some (check_worker st (nq_worker q) (nq_boot q) (nq_epoch q))
      else None)"

definition plan_shape_fault ::
  "engine_config \<Rightarrow> rollout_plan_request \<Rightarrow> version_record \<Rightarrow> engine \<Rightarrow> decision option" where
  "plan_shape_fault cfg q r st =
     (case sr_find (st_scopes st) (nq_root_scope q) of
        None \<Rightarrow> Some (refuse OC_NOT_FOUND (Reg UnknownScope) ''plan root scope is not registered'')
      | Some root \<Rightarrow>
          if id_valid (nq_root_scope_generation q) \<and> nq_root_scope_generation q \<noteq> s_generation root then
            Some (refuse OC_STALE_PLAN (Ord ScopeGenerationMismatch)
              ''plan root scope generation advanced'')
          else if nq_max_blast_radius_percent q = 0 \<or>
              lp_max_blast_radius_percent (effective (st_policy st) (st_scopes st) (nq_root_scope q))
                < nq_max_blast_radius_percent q then
            Some (refuse OC_Rejected (Pol BlastRadiusExceeded)
              ''plan blast radius exceeds the policy ceiling'')
          else if nq_cohorts q = [] \<or> nq_stages q = [] then
            Some (refuse OC_Rejected (Rlt StageOrderViolation) ''plan requires cohorts and stages'')
          else if rb_max_stages_per_rollout (ec_bounds cfg) < length (nq_stages q) then
            Some (refuse OC_BOUNDS_EXCEEDED (Bnd BoundsStageCount) ''stage bound reached'')
          else if rb_max_cohorts_per_rollout (ec_bounds cfg) < length (nq_cohorts q) then
            Some (refuse OC_BOUNDS_EXCEEDED (Bnd BoundsCohortCount) ''cohort bound reached'')
          else if rb_max_rollouts (ec_bounds cfg) \<le> length (st_rollouts st) then
            Some (refuse OC_BOUNDS_EXCEEDED (Bnd BoundsRolloutCount) ''rollout bound reached'')
          else if duplicate_rollout st (vr_version r) then
            Some (refuse OC_CONFLICT (Prm PromotionCommitDuplicate)
              ''the candidate already has a live rollout plan'')
          else None)"

text \<open>The generation a plan replaces: the one named, or the first exclusive one in the subtree.\<close>

definition plan_previous :: "rollout_plan_request \<Rightarrow> version_record \<Rightarrow> engine \<Rightarrow> u64 \<times> u64" where
  "plan_previous q r st =
     (if id_valid (nq_previous q) then
        (nq_previous q,
         case version_of st (nq_model q) (nq_previous q) of Some p \<Rightarrow> vr_generation p | None \<Rightarrow> 0)
      else case find (\<lambda>b. b_kind b = AK_Exclusive \<and> b_model b = vr_model r \<and> b_version b \<noteq> vr_version r)
                  (subtree_bindings (st_authority st) (st_scopes st) (nq_root_scope q)) of
          Some b \<Rightarrow> (b_version b, b_model_generation b)
        | None \<Rightarrow> (0, 0))"

text \<open>The first scope of a cohort that is unknown or outside the plan's root.\<close>

fun cohort_scopes_fault :: "u64 \<Rightarrow> u64 list \<Rightarrow> engine \<Rightarrow> decision option" where
  "cohort_scopes_fault root [] st = None"
| "cohort_scopes_fault root (scope # scopes) st =
     (if sr_find (st_scopes st) scope = None then
        Some (refuse OC_Rejected (Reg UnknownScope) ''cohort references an unregistered scope'')
      else if \<not> is_ancestor_or_self (st_scopes st) root scope then
        Some (refuse OC_Rejected (Rlt CohortScopeInvalid) ''cohort scope lies outside the plan root scope'')
      else cohort_scopes_fault root scopes st)"

text \<open>The two build loops. A refusal keeps the identities already allocated.\<close>

fun build_cohorts ::
  "engine_config \<Rightarrow> u64 \<Rightarrow> cohort_spec list \<Rightarrow> string list \<Rightarrow> cohort_definition list \<Rightarrow> engine \<Rightarrow>
     (decision + cohort_definition list) \<times> engine" where
  "build_cohorts cfg root [] names built st = (Inr built, st)"
| "build_cohorts cfg root (spec # specs) names built st =
     (if \<not> valid_token (hq_name spec) (rb_max_name_length (ec_bounds cfg)) then
        (Inl (refuse OC_Rejected (Reg InvalidName) ''cohort name must be a bounded token''), st)
      else if hq_name spec \<in> set names then
        (Inl (refuse OC_CONFLICT (Reg InvalidName) ''cohort names must be unique within a plan''), st)
      else if hq_scopes spec = [] then
        (Inl (refuse OC_Rejected (Rlt CohortScopeInvalid) ''cohort has no scopes''), st)
      else
        let i = st_next_cohort_id st; st1 = st\<lparr>st_next_cohort_id := i + 1\<rparr> in
        case cohort_scopes_fault root (hq_scopes spec) st1 of
          Some d \<Rightarrow> (Inl d, st1)
        | None \<Rightarrow>
            if 100 < hq_traffic_percent spec then
              (Inl (refuse OC_Rejected (Pol BlastRadiusExceeded) ''cohort traffic percent exceeds 100''), st1)
            else
              build_cohorts cfg root specs (names @ [hq_name spec])
                (built @ [\<lparr>ch_id = i, ch_name = hq_name spec, ch_scopes = sort_unique (hq_scopes spec),
                   ch_traffic_percent = hq_traffic_percent spec,
                   ch_max_blast_radius_percent = hq_max_blast_radius_percent spec\<rparr>]) st1)"

fun stage_cohorts ::
  "cohort_definition list \<Rightarrow> nat list \<Rightarrow> u64 list \<Rightarrow> u64 list \<Rightarrow> decision + (u64 list \<times> u64 list)" where
  "stage_cohorts cohorts [] used chosen = Inr (used, chosen)"
| "stage_cohorts cohorts (index # indices) used chosen =
     (if length cohorts \<le> index then
        Inl (refuse OC_Rejected (Rlt StageOrderViolation) ''stage references an unknown cohort'')
      else if ch_id (cohorts ! index) \<in> set used then
        Inl (refuse OC_Rejected (Rlt StageOrderViolation) ''a cohort may belong to exactly one stage'')
      else stage_cohorts cohorts indices (ch_id (cohorts ! index) # used)
             (chosen @ [ch_id (cohorts ! index)]))"

text \<open>
  Evidence kinds are a datatype, so the code's test that a required kind lies within its
  enumeration always passes and is left out.
\<close>

fun build_stages ::
  "engine_config \<Rightarrow> cohort_definition list \<Rightarrow> stage_spec list \<Rightarrow> u64 list \<Rightarrow> stage_definition list \<Rightarrow>
     engine \<Rightarrow> (decision + stage_definition list) \<times> engine" where
  "build_stages cfg cohorts [] used built st = (Inr built, st)"
| "build_stages cfg cohorts (spec # specs) used built st =
     (if \<not> valid_token (gs_name spec) (rb_max_name_length (ec_bounds cfg)) then
        (Inl (refuse OC_Rejected (Reg InvalidName) ''stage name must be a bounded token''), st)
      else if gs_cohort_indices spec = [] then
        (Inl (refuse OC_Rejected (Rlt StageOrderViolation) ''stage references no cohort''), st)
      else
        let i = st_next_stage_id st; st1 = st\<lparr>st_next_stage_id := i + 1\<rparr> in
        case stage_cohorts cohorts (gs_cohort_indices spec) used [] of
          Inl d \<Rightarrow> (Inl d, st1)
        | Inr (used', chosen) \<Rightarrow>
            build_stages cfg cohorts specs used'
              (built @ [\<lparr>sg_id = i, sg_name = gs_name spec, sg_cohorts = chosen,
                 sg_required_evidence = gs_required_evidence spec, sg_acceptance = gs_acceptance spec,
                 sg_failure = gs_failure spec,
                 sg_require_residency_before_entry = gs_require_residency_before_entry spec,
                 sg_require_drain_after_commit = gs_require_drain_after_commit spec\<rparr>]) st1)"

definition new_plan ::
  "engine_config \<Rightarrow> rollout_plan_request \<Rightarrow> version_record \<Rightarrow> engine \<Rightarrow> cohort_definition list \<Rightarrow>
     stage_definition list \<Rightarrow> u64 \<Rightarrow> rollout_plan" where
  "new_plan cfg q r st cohorts stages at_sequence = \<lparr>pl_id = st_next_rollout_id st,
     pl_generation = next_generation (vr_rollout_generation r), pl_model = vr_model r,
     pl_candidate = vr_version r, pl_candidate_generation = vr_generation r,
     pl_candidate_artifact_set = ab_set_id (vr_artifact r),
     pl_candidate_artifact_generation = ab_generation (vr_artifact r),
     pl_previous = fst (plan_previous q r st), pl_previous_generation = snd (plan_previous q r st),
     pl_compatibility_generation = vr_compatibility_generation r,
     pl_policy_generation =
       lp_generation (effective (st_policy st) (st_scopes st) (nq_root_scope q)),
     pl_evidence_generation =
       (if 0 < st_next_evidence_generation st then st_next_evidence_generation st - 1 else 0),
     pl_root_scope = nq_root_scope q,
     pl_root_scope_generation =
       (case sr_find (st_scopes st) (nq_root_scope q) of Some root \<Rightarrow> s_generation root | None \<Rightarrow> 0),
     pl_strategy = nq_strategy q, pl_promotion = vr_last_promotion r,
     pl_promotion_generation = vr_promotion_generation r, pl_cohorts = cohorts, pl_stages = stages,
     pl_rollback_target = nq_rollback_target q,
     pl_rollback_target_generation = nq_rollback_target_generation q,
     pl_max_blast_radius_percent = nq_max_blast_radius_percent q,
     pl_manual_progression = nq_manual_progression q, pl_current_stage_index = 0,
     pl_current_stage_generation = 0, pl_stage_entered = False, pl_history = [], pl_completed = False,
     pl_failed = False, pl_superseded = False, pl_last_rollback = 0, pl_last_rollback_generation = 0,
     pl_created_sequence = at_sequence, pl_updated_sequence = 0,
     pl_provenance = ec_default_provenance cfg\<rparr>"

definition commit_plan :: "rollout_plan \<Rightarrow> engine \<Rightarrow> engine" where
  "commit_plan p st =
     (let st1 = bump_sequence st;
          st2 = update_version (pl_model p) (pl_candidate p)
                  (\<lambda>r. r\<lparr>vr_rollout := pl_id p, vr_rollout_generation := pl_generation p,
                         vr_updated_sequence := st_sequence st1\<rparr>) st1 in
      st2\<lparr>st_next_rollout_id := pl_id p + 1,
          st_rollouts := om_emplace (pl_id p) p (st_rollouts st2)\<rparr>)"

definition create_rollout ::
  "engine_config \<Rightarrow> rollout_plan_request \<Rightarrow> engine \<Rightarrow> decision \<times> u64 \<times> u64 \<times> engine" where
  "create_rollout cfg q st =
     (case version_of st (nq_model q) (nq_candidate q) of
        None \<Rightarrow> (refuse OC_NOT_FOUND (Reg UnknownVersion) ''rollout candidate is not registered'', 0, 0, st)
      | Some r \<Rightarrow>
          (case plan_subject_fault q r of
             Some d \<Rightarrow> (d, 0, 0, st)
           | None \<Rightarrow>
          (case plan_caller_fault q st of
             Some d \<Rightarrow> (d, 0, 0, st)
           | None \<Rightarrow>
          (case plan_shape_fault cfg q r st of
             Some d \<Rightarrow> (d, 0, 0, st)
           | None \<Rightarrow>
             (let st1 = bump_sequence st in
              case build_cohorts cfg (nq_root_scope q) (nq_cohorts q) [] [] st1 of
                (Inl d, st2) \<Rightarrow> (d, 0, 0, st2)
              | (Inr cohorts, st2) \<Rightarrow>
                  (case build_stages cfg cohorts (nq_stages q) [] [] st2 of
                     (Inl d, st3) \<Rightarrow> (d, 0, 0, st3)
                   | (Inr stages, st3) \<Rightarrow>
                       if rb_max_rollouts (ec_bounds cfg) \<le> length (st_rollouts st3) then
                         (refuse OC_BOUNDS_EXCEEDED (Bnd BoundsRolloutCount) ''rollout bound reached'', 0, 0, st3)
                       else
                         let p = new_plan cfg q r st cohorts stages (st_sequence st1) in
                         (new_decision OC_Accepted, pl_id p, pl_generation p, commit_plan p st3)))))))"

section \<open>Beginning a rollout\<close>

text \<open>
  The evidence a scope must show before the first stage is entered: the reasons for a
  refusal, in the order of the scopes.
\<close>

fun entry_fault ::
  "engine \<Rightarrow> version_record \<Rightarrow> stage_definition \<Rightarrow> bool \<Rightarrow> u64 list \<Rightarrow> reason list option" where
  "entry_fault st r stage residency_required [] = None"
| "entry_fault st r stage residency_required (scope # scopes) =
     (let subject = version_subject r scope;
          evidence = check_evidence_list st (sg_required_evidence stage) subject;
          residency = check_evidence_list st [satisfied_requirement EK_ResidencyReady] subject in
      if \<not> allowed evidence then Some (d_reasons evidence)
      else if residency_required \<and> \<not> allowed residency then
        Some (map (\<lambda>x. Reason (Rdy ResidencyNotResident) (r_detail x)) (d_reasons residency))
      else entry_fault st r stage residency_required scopes)"

text \<open>
  Granting authority scope by scope. The first refusal stops the loop; what was granted
  before it stays. \<open>after\<close> is what the loop does once a scope is granted.
\<close>

fun grant_scopes ::
  "u64 \<Rightarrow> u64 \<Rightarrow> grant_request \<Rightarrow> (u64 \<Rightarrow> engine \<Rightarrow> engine) \<Rightarrow> u64 list \<Rightarrow> engine \<Rightarrow> decision \<times> engine" where
  "grant_scopes model version q after [] st = (new_decision OC_Accepted, st)"
| "grant_scopes model version q after (scope # scopes) st =
     (case grant_authority model version scope q st of
        (granted, st1) \<Rightarrow>
          if \<not> allowed granted then (granted, st1)
          else grant_scopes model version q after scopes (after scope st1))"

definition stage_grant :: "authority_kind \<Rightarrow> bool \<Rightarrow> rollout_plan \<Rightarrow> stage_definition \<Rightarrow> grant_request" where
  "stage_grant kind supersede_existing p stage = \<lparr>gq_kind = kind, gq_plan = Some p, gq_stage = Some stage,
     gq_promotion = pl_promotion p, gq_promotion_generation = pl_promotion_generation p, gq_rollback = 0,
     gq_rollback_generation = 0, gq_supersede_existing = supersede_existing,
     gq_retention_target = pl_rollback_target p, gq_retention_generation = pl_rollback_target_generation p\<rparr>"

definition refresh_root :: "u64 \<Rightarrow> engine \<Rightarrow> engine" where
  "refresh_root i st =
     update_rollout i (\<lambda>p. case sr_find (st_scopes st) (pl_root_scope p) of
        None \<Rightarrow> p | Some root \<Rightarrow> p\<lparr>pl_root_scope_generation := s_generation root\<rparr>) st"

text \<open>A stage becomes the entered one: a new stage generation and its history entry.\<close>

definition enter_stage :: "nat \<Rightarrow> stage_definition \<Rightarrow> rollout_plan \<Rightarrow> engine \<Rightarrow> rollout_plan \<times> engine" where
  "enter_stage index stage p st =
     (let st1 = bump_sequence st; generation = next_generation (pl_current_stage_generation p);
          entry = \<lparr>sh_stage = sg_id stage, sh_generation = generation,
            sh_entered_sequence = st_sequence st1, sh_decided_sequence = 0, sh_decision = SD_Entered,
            sh_reasons = []\<rparr>;
          p' = p\<lparr>pl_current_stage_index := index, pl_current_stage_generation := generation,
            pl_stage_entered := True, pl_updated_sequence := st_sequence st1,
            pl_history := pl_history p @ [entry]\<rparr> in
      (p', put_rollout p' st1))"

definition begin_guard :: "progress_request \<Rightarrow> rollout_plan \<Rightarrow> engine \<Rightarrow> decision option" where
  "begin_guard q p st =
     (if id_valid (xq_rollout_generation q) \<and> xq_rollout_generation q \<noteq> pl_generation p then
        Some (refuse OC_STALE_PLAN (Ord RolloutGenerationMismatch)
          ''request cites a superseded rollout generation'')
      else if \<not> allowed (check_epoch st (xq_epoch q)) then Some (check_epoch st (xq_epoch q))
      else if \<not> allowed (check_worker st (xq_worker q) (xq_boot q) (xq_epoch q)) then
        Some (check_worker st (xq_worker q) (xq_boot q) (xq_epoch q))
      else if pl_superseded p then
        Some (refuse OC_STALE_PLAN (Rlt RolloutSuperseded) ''rollout was superseded'')
      else if pl_completed p \<or> pl_failed p then
        Some (refuse OC_Rejected (Rlt RolloutAlreadyComplete) ''rollout is no longer live'')
      else if pl_stage_entered p then
        Some (refuse OC_CONFLICT (Rlt StageOrderViolation) ''a stage is already entered'')
      else if pl_current_stage_index p \<noteq> 0 then
        Some (refuse OC_CONFLICT (Rlt StageOrderViolation) ''rollout did not begin at the first stage'')
      else case check_plan_bindings st p of
          Some (why, detail_text) \<Rightarrow> Some (refuse OC_STALE_PLAN (Rlt RolloutPlanStale) detail_text)
        | None \<Rightarrow> None)"

text \<open>A plan always has a first stage; without one the code would read past its vector.\<close>

definition begin_rollout :: "progress_request \<Rightarrow> engine \<Rightarrow> decision \<times> engine" where
  "begin_rollout q st =
     (case rollout_of st (xq_rollout q) of
        None \<Rightarrow> (refuse OC_NOT_FOUND (Reg UnknownVersion) ''rollout is not registered'', st)
      | Some p \<Rightarrow>
          (case begin_guard q p st of
             Some d \<Rightarrow> (d, st)
           | None \<Rightarrow>
          (case (version_of st (pl_model p) (pl_candidate p), stage_at p 0) of
             (Some r, Some stage) \<Rightarrow>
               (let scopes = staged_scopes p stage;
                    policy = effective (st_policy st) (st_scopes st) (pl_root_scope p) in
                case entry_fault st r stage
                       (sg_require_residency_before_entry stage \<or>
                        lp_require_residency_before_stage_entry policy) scopes of
                  Some reasons \<Rightarrow>
                    (normalize_decision (add_reasons (new_decision OC_CANARY_BLOCKED) reasons), st)
                | None \<Rightarrow>
                    (case enter_stage 0 stage p st of
                       (p', st1) \<Rightarrow>
                    (case advance_version (pl_model p) (pl_candidate p) LS_CANARY_ACTIVE st1 of
                       (advanced, st2) \<Rightarrow>
                         if \<not> allowed advanced then (advanced, st2)
                         else
                           let st3 = bump_sequence st2;
                               st4 = update_version (pl_model p) (pl_candidate p)
                                 (\<lambda>v. v\<lparr>vr_current_stage := sg_id stage,
                                    vr_current_stage_generation := pl_current_stage_generation p',
                                    vr_updated_sequence := st_sequence st3\<rparr>) st3 in
                           case grant_scopes (pl_model p) (pl_candidate p)
                                  (stage_grant AK_Canary False p' stage) (\<lambda>_ s. s) scopes st4 of
                             (granted, st5) \<Rightarrow>
                               if \<not> allowed granted then (copy_refusal granted, st5)
                               else (new_decision OC_CANARY_ALLOWED, refresh_root (pl_id p) st5))))
           | _ \<Rightarrow> (refuse OC_NOT_FOUND (Reg UnknownVersion) ''rollout candidate is not registered'', st))))"

end
