(* ===== verification/Mlf_Stages.thy ===== *)
theory Mlf_Stages
  imports Mlf_Rollout_Ops
begin

text \<open>
  Advancing, failing and superseding a rollout: the second half of src/engine_rollout.cpp.
\<close>

section \<open>The stage gate\<close>

definition stage_rank :: "outcome_code \<Rightarrow> nat" where
  "stage_rank code =
     (case code of
        OC_STAGE_ADVANCE_ALLOWED \<Rightarrow> 0
      | OC_CANARY_ALLOWED \<Rightarrow> 0
      | OC_Rejected \<Rightarrow> 1
      | OC_STAGE_ADVANCE_BLOCKED \<Rightarrow> 2
      | OC_CANARY_BLOCKED \<Rightarrow> 2
      | OC_CONFLICT \<Rightarrow> 3
      | OC_BOUNDS_EXCEEDED \<Rightarrow> 4
      | OC_STALE_PLAN \<Rightarrow> 5
      | OC_STALE_EVIDENCE \<Rightarrow> 6
      | OC_REVALIDATION_REQUIRED \<Rightarrow> 7
      | OC_ROLLBACK_DECISION_REQUIRED \<Rightarrow> 8
      | OC_AMBIGUOUS \<Rightarrow> 9
      | OC_INCOMPATIBLE \<Rightarrow> 10
      | _ \<Rightarrow> 2)"

interpretation sgg: severity_gate stage_rank "\<lambda>c. c = OC_STAGE_ADVANCE_ALLOWED \<or> c = OC_CANARY_ALLOWED"
  by unfold_locales (auto simp: stage_rank_def split: outcome_code.splits)

abbreviation sfault :: "bool \<Rightarrow> outcome_code \<Rightarrow> reason_code \<Rightarrow> string \<Rightarrow> gate \<Rightarrow> gate" where
  "sfault \<equiv> fault_when stage_rank"

definition stage_position :: "progress_request \<Rightarrow> rollout_plan \<Rightarrow> gate \<Rightarrow> gate" where
  "stage_position q p g =
     fold (\<lambda>e. sfault (sh_generation e = pl_current_stage_generation p \<and> sh_decision e \<noteq> SD_Entered)
         OC_CONFLICT (Rlt StageCompletionDuplicate)
         ''this stage generation already has a committed decision'') (pl_history p)
     (sfault (id_valid (xq_stage_generation q) \<and> xq_stage_generation q \<noteq> pl_current_stage_generation p)
       OC_STALE_PLAN (Ord RolloutStageGenerationMismatch) ''request cites a superseded stage generation''
     ((case stage_at p (pl_current_stage_index p) of
        None \<Rightarrow> fault stage_rank OC_Rejected (Rlt StageOrderViolation) ''current stage index is invalid''
      | Some stage \<Rightarrow> sfault (id_valid (xq_stage q) \<and> xq_stage q \<noteq> sg_id stage)
          OC_Rejected (Rlt StageOrderViolation) ''request names a stage that is not the current stage'')
     (sfault (\<not> pl_stage_entered p) OC_Rejected (Rlt StageOrderViolation) ''no stage is currently entered''
     (sfault (pl_completed p \<or> pl_failed p)
       OC_Rejected (Rlt RolloutAlreadyComplete) ''rollout is no longer live''
     (sfault (pl_superseded p) OC_STALE_PLAN (Rlt RolloutSuperseded) ''rollout was superseded'' g)))))"

definition stage_caller :: "engine \<Rightarrow> progress_request \<Rightarrow> gate \<Rightarrow> gate" where
  "stage_caller st q g =
     fault_decision stage_rank (check_worker st (xq_worker q) (xq_boot q) (xq_epoch q))
       (fault_decision stage_rank (check_epoch st (xq_epoch q)) g)"

definition stage_bindings :: "engine \<Rightarrow> progress_request \<Rightarrow> rollout_plan \<Rightarrow> gate \<Rightarrow> gate" where
  "stage_bindings st q p g =
     (case sr_find (st_scopes st) (pl_root_scope p) of
        None \<Rightarrow> fault stage_rank OC_NOT_FOUND (Reg UnknownScope) ''plan root scope no longer exists''
      | Some root \<Rightarrow> sfault (id_valid (xq_scope_generation q) \<and> xq_scope_generation q \<noteq> s_generation root)
          OC_STALE_PLAN (Ord ScopeGenerationMismatch)
          ''scope generation advanced since the request was formed'')
     ((case check_plan_bindings st p of
        None \<Rightarrow> (\<lambda>g. g)
      | Some (why, detail_text) \<Rightarrow> fault stage_rank OC_STALE_PLAN (Rlt RolloutPlanStale) detail_text) g)"

definition stage_policy :: "engine \<Rightarrow> rollout_plan \<Rightarrow> lifecycle_policy" where
  "stage_policy st p = effective (st_policy st) (st_scopes st) (pl_root_scope p)"

definition radius_exceeded :: "engine \<Rightarrow> rollout_plan \<Rightarrow> bool" where
  "radius_exceeded st p \<longleftrightarrow>
     (case stage_at p (pl_current_stage_index p) of
        None \<Rightarrow> False
      | Some stage \<Rightarrow>
          pl_max_blast_radius_percent p < stage_blast_radius p stage \<or>
          lp_max_blast_radius_percent (stage_policy st p) < stage_blast_radius p stage)"

definition stage_limits :: "engine \<Rightarrow> progress_request \<Rightarrow> rollout_plan \<Rightarrow> gate \<Rightarrow> gate" where
  "stage_limits st q p g =
     sfault (radius_exceeded st p) OC_STAGE_ADVANCE_BLOCKED (Pol BlastRadiusExceeded)
       ''stage blast radius exceeds the authorized ceiling''
     (sfault (pl_manual_progression p \<and> \<not> xq_administrative_approval q)
       OC_STAGE_ADVANCE_BLOCKED (Pol PolicyRequiresApproval)
       ''plan requires explicit administrative progression'' g)"

definition tripped :: "criterion \<Rightarrow> u64 \<Rightarrow> bool" where
  "tripped c v \<longleftrightarrow> (if ct_comparison c = CC_AtLeast then f64_le (ct_threshold c) v else f64_le v (ct_threshold c))"

definition failure_check :: "engine \<Rightarrow> evidence_subject \<Rightarrow> criterion \<Rightarrow> gate \<Rightarrow> gate" where
  "failure_check st subject c g =
     (let result = evaluate_criterion st c subject; name = to_string_evidence_kind (ct_kind c) in
      if \<not> cx_present result then
        fault stage_rank OC_STAGE_ADVANCE_BLOCKED (Rlt StageFeedbackIncomplete)
          (''failure criterion '' @ name @ '' has no current evidence'') g
      else
        sfault (tripped c (cx_value result)) OC_STAGE_ADVANCE_BLOCKED (Rlt StageFailureThresholdExceeded)
          (''failure criterion '' @ name @ '' was met'') g)"

definition acceptance_check :: "engine \<Rightarrow> evidence_subject \<Rightarrow> criterion \<Rightarrow> gate \<Rightarrow> gate" where
  "acceptance_check st subject c g =
     (let result = evaluate_criterion st c subject; name = to_string_evidence_kind (ct_kind c) in
      if \<not> cx_present result then
        fault stage_rank OC_STAGE_ADVANCE_BLOCKED (Rlt StageFeedbackIncomplete)
          (''acceptance criterion '' @ name @ '' has no current evidence'') g
      else
        sfault (\<not> cx_satisfied result) OC_STAGE_ADVANCE_BLOCKED (Rlt StageAcceptanceNotMet)
          (''acceptance criterion '' @ name @ '' was not met'') g)"

definition scope_checks ::
  "engine \<Rightarrow> version_record \<Rightarrow> rollout_plan \<Rightarrow> stage_definition \<Rightarrow> u64 \<Rightarrow> gate \<Rightarrow> gate" where
  "scope_checks st r p stage scope g =
     (let subject = stage_subject r p stage scope in
      fold (acceptance_check st subject) (sg_acceptance stage)
        (fold (failure_check st subject) (sg_failure stage)
          (if lp_require_evidence_for_stage_advance (stage_policy st p) then
             fault_decision stage_rank (check_evidence_list st (sg_required_evidence stage) subject) g
           else g)))"

definition stage_evidence :: "engine \<Rightarrow> rollout_plan \<Rightarrow> gate \<Rightarrow> gate" where
  "stage_evidence st p g =
     (case version_of st (pl_model p) (pl_candidate p) of
        None \<Rightarrow> fault stage_rank OC_NOT_FOUND (Reg UnknownVersion) ''rollout candidate is not registered'' g
      | Some r \<Rightarrow>
          (case stage_at p (pl_current_stage_index p) of
             None \<Rightarrow> g
           | Some stage \<Rightarrow> fold (scope_checks st r p stage) (staged_scopes p stage) g))"

definition stage_facts :: "engine \<Rightarrow> rollout_plan \<Rightarrow> (string \<times> string) list" where
  "stage_facts st p =
     [(''rollout_id'', show_u64 (pl_id p)), (''rollout_generation'', show_u64 (pl_generation p)),
      (''strategy'', to_string_strategy (pl_strategy p)),
      (''stage_index'', show_nat (pl_current_stage_index p))] @
     (case stage_at p (pl_current_stage_index p) of
        None \<Rightarrow> []
      | Some stage \<Rightarrow>
          [(''stage_id'', show_u64 (sg_id stage)), (''stage_name'', sg_name stage),
           (''stage_generation'', show_u64 (pl_current_stage_generation p)),
           (''stage_blast_radius_percent'', show_nat (unat (stage_blast_radius p stage)))]) @
     [(''candidate_model_generation'', show_u64 (pl_candidate_generation p)),
      (''candidate_artifact_generation'', show_u64 (pl_candidate_artifact_generation p)),
      (''plan_compatibility_generation'', show_u64 (pl_compatibility_generation p)),
      (''policy_generation'', show_u64 (lp_generation (stage_policy st p))),
      (''coordinator_epoch'', show_u64 (st_epoch st))]"

definition stage_gate :: "engine \<Rightarrow> progress_request \<Rightarrow> rollout_plan \<Rightarrow> gate" where
  "stage_gate st q p =
     stage_evidence st p
       (stage_limits st q p
         (stage_bindings st q p
           (stage_caller st q
             (stage_position q p (open_gate OC_STAGE_ADVANCE_ALLOWED)))))"

text \<open>The two early returns hand the accumulators back as they are.\<close>

definition evaluate_stage_advance :: "progress_request \<Rightarrow> engine \<Rightarrow> decision \<times> explanation" where
  "evaluate_stage_advance q st =
     (case rollout_of st (xq_rollout q) of
        None \<Rightarrow>
          (let g = fault stage_rank OC_NOT_FOUND (Reg UnknownVersion) ''rollout is not registered''
                     (open_gate OC_STAGE_ADVANCE_ALLOWED) in
           (g_decision g, g_local g))
      | Some p \<Rightarrow>
          if id_valid (xq_rollout_generation q) \<and> xq_rollout_generation q \<noteq> pl_generation p then
            (let g = fault stage_rank OC_STALE_PLAN (Ord RolloutGenerationMismatch)
                       ''request cites a superseded rollout generation'' (open_gate OC_STAGE_ADVANCE_ALLOWED) in
             (g_decision g, g_local g))
          else close_gate (g_set_all (stage_facts st p) (stage_gate st q p)))"

section \<open>The failure path of an advance\<close>

definition stage_outcome :: "rollout_plan \<Rightarrow> stage_definition \<Rightarrow> u64 \<Rightarrow> stage_decision \<Rightarrow> reason list \<Rightarrow> stage_record" where
  "stage_outcome p stage decided verdict reasons = \<lparr>sh_stage = sg_id stage,
     sh_generation = pl_current_stage_generation p, sh_entered_sequence = pl_updated_sequence p,
     sh_decided_sequence = decided, sh_decision = verdict, sh_reasons = reasons\<rparr>"

text \<open>
  The plan fails: its history, its bindings, the candidate's lifecycle. The advance leaves
  \<open>stage_entered\<close> set, \<open>fail_stage\<close> clears it.
\<close>

definition fail_plan :: "rollout_plan \<Rightarrow> stage_definition \<Rightarrow> bool \<Rightarrow> reason list \<Rightarrow> engine \<Rightarrow> engine" where
  "fail_plan p stage entered reasons st =
     (let st1 = bump_sequence st; st2 = bump_sequence st1;
          p' = p\<lparr>pl_history := pl_history p @ [stage_outcome p stage (st_sequence st1) SD_Failed reasons],
            pl_failed := True, pl_stage_entered := entered, pl_updated_sequence := st_sequence st2\<rparr>;
          st3 = (put_rollout p' st2)
            \<lparr>st_authority := snd (supersede_rollout (pl_id p) (pl_generation p) (st_authority st2))\<rparr> in
      stamp_version (pl_model p) (pl_candidate p)
        (snd (advance_version (pl_model p) (pl_candidate p) LS_CANARY_FAILED st3)))"

definition automatic_rollback :: "progress_request \<Rightarrow> rollout_plan \<Rightarrow> version_record \<Rightarrow> u64 \<Rightarrow> rollback_request" where
  "automatic_rollback q p r policy_generation = \<lparr>kq_model = pl_model p, kq_candidate = pl_candidate p,
     kq_candidate_generation = vr_generation r, kq_rollout = pl_id p,
     kq_rollout_generation = pl_generation p, kq_target = pl_rollback_target p,
     kq_target_generation = pl_rollback_target_generation p, kq_target_artifact_generation = 0,
     kq_scope = pl_root_scope p, kq_scope_generation = pl_root_scope_generation p,
     kq_policy_generation = policy_generation, kq_epoch = xq_epoch q, kq_worker = xq_worker q,
     kq_boot = xq_boot q, kq_automatic = True,
     kq_detail = ''policy-authorized automatic rollback after stage failure''\<rparr>"

definition failure_grant :: "u64 \<Rightarrow> u64 \<Rightarrow> rollback_request \<Rightarrow> grant_request" where
  "failure_grant i generation k = (rollback_grant i generation)
     \<lparr>gq_retention_target := kq_target k, gq_retention_generation := kq_target_generation k\<rparr>"

text \<open>
  The rollback committed inside the failing advance. As in the code, the binding is granted
  to the candidate's record, and a refused grant is not noticed.
\<close>

definition commit_automatic_rollback :: "rollback_request \<Rightarrow> version_record \<Rightarrow> engine \<Rightarrow> engine" where
  "commit_automatic_rollback k r st =
     (let i = st_next_rollback_id st; generation = next_generation (vr_rollback_generation r);
          st1 = st\<lparr>st_authority := snd (supersede_scope (kq_scope k) (st_authority st))\<rparr>;
          st2 = snd (grant_authority (kq_model k) (kq_candidate k) (kq_scope k) (failure_grant i generation k) st1);
          st3 = (if version_of st2 (kq_model k) (kq_target k) = None then st2
                 else stamp_version (kq_model k) (kq_target k)
                   (snd (advance_version (kq_model k) (kq_target k) LS_CURRENT st2)));
          st4 = update_version (kq_model k) (kq_candidate k)
                  (\<lambda>v. v\<lparr>vr_last_rollback := i, vr_rollback_generation := generation\<rparr>) st3;
          st5 = update_rollout (kq_rollout k)
                  (\<lambda>p. p\<lparr>pl_last_rollback := i, pl_last_rollback_generation := generation\<rparr>) st4;
          st6 = st5\<lparr>st_next_rollback_id := i + 1,
            st_committed_rollbacks := om_put (kq_rollout k, generation) () (st_committed_rollbacks st5)\<rparr>;
          st7 = snd (advance_version (kq_model k) (kq_candidate k) LS_ROLLED_BACK st6) in
      st7\<lparr>st_scopes := touch (kq_scope k) (st_scopes st7)\<rparr>)"

definition advance_failed ::
  "progress_request \<Rightarrow> rollout_plan \<Rightarrow> stage_definition \<Rightarrow> decision \<Rightarrow> engine \<Rightarrow> decision \<times> engine" where
  "advance_failed q p stage verdict st =
     (let st1 = fail_plan p stage (pl_stage_entered p) (d_reasons verdict) st;
          policy = stage_policy st1 p;
          blocked = add_reasons (new_decision OC_STAGE_ADVANCE_BLOCKED) (d_reasons verdict) in
      case version_of st1 (pl_model p) (pl_candidate p) of
        None \<Rightarrow> (blocked, st1)
      | Some r \<Rightarrow>
          if lp_allow_automatic_rollback policy then
            (let k = automatic_rollback q p r (lp_generation policy);
                 verdict' = fst (evaluate_rollback k st1) in
             if allowed verdict' then
               (if version_of st1 (kq_model k) (kq_target k) = None then (normalize_decision blocked, st1)
                else (normalize_decision (set_outcome blocked OC_ROLLBACK_ALLOWED),
                      commit_automatic_rollback k r st1))
             else (normalize_decision (add_reasons blocked (d_reasons verdict')), st1))
          else
            (normalize_decision (add_reason (set_outcome blocked OC_ROLLBACK_DECISION_REQUIRED)
               (Pol PolicyDeniesAutoRollback) ''stage failure requires an explicit rollback decision''), st1))"

section \<open>The success path of an advance\<close>

definition drain_previous :: "rollout_plan \<Rightarrow> stage_definition \<Rightarrow> u64 \<Rightarrow> engine \<Rightarrow> engine" where
  "drain_previous p stage scope st =
     (if sg_require_drain_after_commit stage \<or>
          lp_require_drain_after_stage_commit (stage_policy st p) then
        (let st1 = st\<lparr>st_authority :=
               snd (mark_draining (pl_model p) (pl_previous p) scope (st_authority st))\<rparr> in
         case version_of st1 (pl_model p) (pl_previous p) of
           None \<Rightarrow> st1
         | Some v \<Rightarrow> if retired v then st1
                     else snd (advance_version (pl_model p) (pl_previous p) LS_DRAINING st1))
      else st)"

text \<open>The common end: the plan's root binding is refreshed and the candidate is stamped.\<close>

definition finish_advance :: "rollout_plan \<Rightarrow> engine \<Rightarrow> decision \<times> engine" where
  "finish_advance p st =
     (new_decision OC_STAGE_ADVANCE_ALLOWED,
      stamp_version (pl_model p) (pl_candidate p) (refresh_root (pl_id p) st))"

definition complete_plan :: "rollout_plan \<Rightarrow> engine \<Rightarrow> decision \<times> engine" where
  "complete_plan p st =
     (let st1 = bump_sequence st;
          st2 = put_rollout (p\<lparr>pl_completed := True, pl_stage_entered := False,
                  pl_updated_sequence := st_sequence st1\<rparr>) st1 in
      finish_advance p (snd (advance_version (pl_model p) (pl_candidate p) LS_CURRENT st2)))"

definition next_stage :: "rollout_plan \<Rightarrow> stage_definition \<Rightarrow> engine \<Rightarrow> decision \<times> engine" where
  "next_stage p stage st =
     (case enter_stage (pl_current_stage_index p + 1) stage p st of
        (p', st1) \<Rightarrow>
          (let st2 = snd (advance_version (pl_model p) (pl_candidate p) LS_PARTIALLY_PROMOTED st1);
               st3 = update_version (pl_model p) (pl_candidate p)
                       (\<lambda>v. v\<lparr>vr_current_stage := sg_id stage,
                          vr_current_stage_generation := pl_current_stage_generation p'\<rparr>) st2 in
           case grant_scopes (pl_model p) (pl_candidate p) (stage_grant AK_Canary False p' stage)
                  (\<lambda>_ s. s) (staged_scopes p' stage) st3 of
             (granted, st4) \<Rightarrow>
               if \<not> allowed granted then (copy_refusal granted, st4) else finish_advance p' st4))"

definition advance_succeeded :: "rollout_plan \<Rightarrow> stage_definition \<Rightarrow> engine \<Rightarrow> decision \<times> engine" where
  "advance_succeeded p stage st =
     (let st1 = bump_sequence st; st2 = bump_sequence st1;
          p' = p\<lparr>pl_history := pl_history p @ [stage_outcome p stage (st_sequence st1) SD_Advanced []],
            pl_updated_sequence := st_sequence st2\<rparr> in
      case grant_scopes (pl_model p) (pl_candidate p) (stage_grant AK_Exclusive True p' stage)
             (drain_previous p' stage) (staged_scopes p stage) (put_rollout p' st2) of
        (granted, st3) \<Rightarrow>
          if \<not> allowed granted then (copy_refusal granted, st3)
          else case stage_at p (pl_current_stage_index p + 1) of
              None \<Rightarrow> complete_plan p' st3
            | Some following \<Rightarrow> next_stage p' following st3)"

text \<open>
  The advance. A tripped failure criterion takes the failure path whatever else the gate
  found. The current stage index always names a stage of the plan; where it did not, the
  code would read past its vector.
\<close>

definition advance_stage :: "progress_request \<Rightarrow> engine \<Rightarrow> decision \<times> engine" where
  "advance_stage q st =
     (let verdict = fst (evaluate_stage_advance q st);
          stage_failed = has_reason verdict (Rlt StageFailureThresholdExceeded) in
      case rollout_of st (xq_rollout q) of
        None \<Rightarrow> (verdict, st)
      | Some p \<Rightarrow>
          if \<not> allowed verdict \<and> \<not> stage_failed then (verdict, st)
          else case (version_of st (pl_model p) (pl_candidate p), stage_at p (pl_current_stage_index p)) of
              (Some r, Some stage) \<Rightarrow>
                if stage_failed then advance_failed q p stage verdict st else advance_succeeded p stage st
            | _ \<Rightarrow> (refuse OC_NOT_FOUND (Reg UnknownVersion) ''rollout candidate is not registered'', st))"

section \<open>Failing and superseding\<close>

definition fail_guard :: "progress_request \<Rightarrow> rollout_plan \<Rightarrow> engine \<Rightarrow> decision option" where
  "fail_guard q p st =
     (if id_valid (xq_rollout_generation q) \<and> xq_rollout_generation q \<noteq> pl_generation p then
        Some (refuse OC_STALE_PLAN (Ord RolloutGenerationMismatch)
          ''request cites a superseded rollout generation'')
      else if id_valid (xq_stage_generation q) \<and> xq_stage_generation q \<noteq> pl_current_stage_generation p then
        Some (refuse OC_STALE_PLAN (Ord RolloutStageGenerationMismatch)
          ''request cites a superseded stage generation'')
      else if \<not> allowed (check_epoch st (xq_epoch q)) then Some (check_epoch st (xq_epoch q))
      else if \<not> allowed (check_worker st (xq_worker q) (xq_boot q) (xq_epoch q)) then
        Some (check_worker st (xq_worker q) (xq_boot q) (xq_epoch q))
      else if pl_superseded p then
        Some (refuse OC_STALE_PLAN (Rlt RolloutSuperseded) ''rollout was superseded'')
      else if pl_completed p \<or> pl_failed p then
        Some (refuse OC_Rejected (Rlt RolloutAlreadyComplete) ''rollout is no longer live'')
      else if \<not> pl_stage_entered p then
        Some (refuse OC_CONFLICT (Rlt StageOrderViolation) ''no stage is currently entered'')
      else if list_ex (\<lambda>e. sh_generation e = pl_current_stage_generation p \<and> sh_decision e \<noteq> SD_Entered)
          (pl_history p) then
        Some (refuse OC_CONFLICT (Rlt StageCompletionDuplicate)
          ''this stage generation already has a committed decision'')
      else None)"

definition fail_stage :: "progress_request \<Rightarrow> engine \<Rightarrow> decision \<times> engine" where
  "fail_stage q st =
     (case rollout_of st (xq_rollout q) of
        None \<Rightarrow> (refuse OC_NOT_FOUND (Reg UnknownVersion) ''rollout is not registered'', st)
      | Some p \<Rightarrow>
          (case fail_guard q p st of
             Some d \<Rightarrow> (d, st)
           | None \<Rightarrow>
               (case (version_of st (pl_model p) (pl_candidate p), stage_at p (pl_current_stage_index p)) of
                  (Some r, Some stage) \<Rightarrow>
                    (new_decision OC_Accepted,
                     fail_plan p stage False
                       (if xq_detail q = [] then []
                        else [Reason (Rlt StageFailureThresholdExceeded)
                                (clamp_detail kMaxReasonDetail (xq_detail q))]) st)
                | _ \<Rightarrow> (refuse OC_NOT_FOUND (Reg UnknownVersion) ''rollout candidate is not registered'', st))))"

definition engine_supersede_rollout :: "u64 \<Rightarrow> u64 \<Rightarrow> u64 \<Rightarrow> string \<Rightarrow> engine \<Rightarrow> decision \<times> engine" where
  "engine_supersede_rollout i generation epoch why st =
     (case rollout_of st i of
        None \<Rightarrow> (refuse OC_NOT_FOUND (Reg UnknownVersion) ''rollout is not registered'', st)
      | Some p \<Rightarrow>
          if id_valid generation \<and> generation \<noteq> pl_generation p then
            (refuse OC_STALE_PLAN (Ord RolloutGenerationMismatch)
               ''a superseded generation cannot supersede a newer plan'', st)
          else if id_valid epoch \<and> epoch < st_epoch st then
            (refuse OC_CONFLICT (Ord CoordinatorEpochStale)
               ''supersession request originates from a superseded epoch'', st)
          else if pl_superseded p then (new_decision OC_Accepted, st)
          else
            let st1 = bump_sequence st;
                entry = \<lparr>sh_stage = current_stage_id p, sh_generation = pl_current_stage_generation p,
                  sh_entered_sequence = pl_created_sequence p, sh_decided_sequence = st_sequence st1,
                  sh_decision = SD_Superseded,
                  sh_reasons = (if why = [] then []
                    else [Reason (Rlt RolloutSuperseded) (clamp_detail kMaxReasonDetail why)])\<rparr>;
                p' = p\<lparr>pl_superseded := True, pl_stage_entered := False,
                  pl_updated_sequence := st_sequence st1, pl_history := pl_history p @ [entry]\<rparr>;
                st2 = (put_rollout p' st1)
                  \<lparr>st_authority := snd (supersede_rollout (pl_id p) (pl_generation p) (st_authority st1))\<rparr> in
            (new_decision OC_Accepted,
             case version_of st2 (pl_model p) (pl_candidate p) of
               None \<Rightarrow> st2
             | Some v \<Rightarrow>
                 if retired v then st2
                 else stamp_version (pl_model p) (pl_candidate p)
                   (snd (advance_version (pl_model p) (pl_candidate p) LS_DRAINING st2))))"

end
