(* ===== verification/Mlf_Snapshot.thy ===== *)
theory Mlf_Snapshot
  imports Mlf_Stages
begin

text \<open>
  Durable state: src/engine_snapshot.cpp and \<open>DurableState\<close> of include/mlf/state_store.hpp.
  \<open>export_durable_state\<close> keeps what survives a restart, \<open>import_durable_state\<close> validates a
  whole snapshot before it applies any of it, \<open>invalidate_volatile_state\<close> withdraws what a
  restart makes untrue.
\<close>

definition kStateFormatVersion :: u16 where "kStateFormatVersion = 1"

record durable_state =
  ds_format_version :: u16
  ds_generation :: u64
  ds_epoch :: u64
  ds_sequence :: u64
  ds_models :: "(u64, model_record) omap"
  ds_versions :: "(u64 \<times> u64, version_record) omap"
  ds_scopes :: "scope_record list"
  ds_root_scope :: u64
  ds_policy_overrides :: "(u64, scope_policy_override) omap"
  ds_base_policy :: lifecycle_policy
  ds_compatibility :: "(u64 \<times> string, compatibility_fact) omap"
  ds_rollouts :: "(u64, rollout_plan) omap"
  ds_authority :: "(u64, authority_binding list) omap"
  ds_worker_leases :: "(u64, worker_lease) omap"
  ds_evidence :: "evidence_record list"
  ds_unsettled_attempts :: "(u64, attempt) omap"
  ds_committed_promotions :: "(u64, unit) omap"
  ds_committed_rollbacks :: "(u64 \<times> u64, unit) omap"
  ds_next_model_id :: u64
  ds_next_version_id :: u64
  ds_next_rollout_id :: u64
  ds_next_stage_id :: u64
  ds_next_cohort_id :: u64
  ds_next_promotion_id :: u64
  ds_next_rollback_id :: u64
  ds_next_attempt_id :: u64
  ds_next_worker_id :: u64
  ds_next_evidence_id :: u64
  ds_next_evidence_generation :: u64
  ds_next_compatibility_generation :: u64

definition is_durable_evidence :: "evidence_kind \<Rightarrow> bool" where
  "is_durable_evidence kind \<longleftrightarrow> kind \<in> {EK_ArtifactIntegrity, EK_RuntimeCompatibility,
     EK_BackendCompatibility, EK_HardwareCapability, EK_TokenizerMatch, EK_AdapterCompatibility,
     EK_TestResult, EK_PolicyApproval, EK_ManualApproval, EK_Signature}"

definition is_settled :: "attempt_state \<Rightarrow> bool" where
  "is_settled s \<longleftrightarrow> s = AS_Completed \<or> s = AS_Failed \<or> s = AS_Abandoned"

section \<open>Export\<close>

definition live_authority ::
  "(u64, authority_binding list) omap \<Rightarrow> (u64, authority_binding list) omap" where
  "live_authority m =
     filter (\<lambda>e. snd e \<noteq> []) (om_map (filter (\<lambda>b. \<not> b_superseded b)) m)"

definition fence_lease :: "worker_lease \<Rightarrow> worker_lease" where
  "fence_lease l = l\<lparr>wl_fenced := True, wl_detail := ''fenced by coordinator restart''\<rparr>"

text \<open>The generations of the records are distinct, so any sort by generation is this one.\<close>

definition durable_evidence :: "evidence_store \<Rightarrow> evidence_record list" where
  "durable_evidence ev =
     sort_key e_generation (filter (\<lambda>e. is_durable_evidence (e_kind e)) (concat (map snd (ev_records ev))))"

definition export_durable_state :: "engine \<Rightarrow> durable_state" where
  "export_durable_state st = \<lparr>ds_format_version = kStateFormatVersion,
     ds_generation = next_generation (st_snapshot_generation st), ds_epoch = st_epoch st,
     ds_sequence = st_sequence st, ds_models = st_models st, ds_versions = st_versions st,
     ds_scopes = sr_records (st_scopes st), ds_root_scope = sr_root (st_scopes st),
     ds_policy_overrides = ps_overrides (st_policy st), ds_base_policy = ps_base (st_policy st),
     ds_compatibility = cr_facts (st_compatibility st), ds_rollouts = st_rollouts st,
     ds_authority = live_authority (at_bindings (st_authority st)),
     ds_worker_leases = om_map fence_lease (st_workers st),
     ds_evidence = durable_evidence (st_evidence st),
     ds_unsettled_attempts = filter (\<lambda>e. \<not> is_settled (ap_state (snd e))) (st_attempts st),
     ds_committed_promotions = st_committed_promotions st,
     ds_committed_rollbacks = st_committed_rollbacks st, ds_next_model_id = st_next_model_id st,
     ds_next_version_id = st_next_version_id st, ds_next_rollout_id = st_next_rollout_id st,
     ds_next_stage_id = st_next_stage_id st, ds_next_cohort_id = st_next_cohort_id st,
     ds_next_promotion_id = st_next_promotion_id st, ds_next_rollback_id = st_next_rollback_id st,
     ds_next_attempt_id = st_next_attempt_id st, ds_next_worker_id = st_next_worker_id st,
     ds_next_evidence_id = st_next_evidence_id st,
     ds_next_evidence_generation = st_next_evidence_generation st,
     ds_next_compatibility_generation = st_next_compatibility_generation st\<rparr>"

section \<open>Validation\<close>

text \<open>
  Each part of the snapshot is checked by one loop of the code; the first fault found is the
  refusal. A part that is rebuilt on the way is returned on the right.
\<close>

fun model_names_of ::
  "(u64 \<times> model_record) list \<Rightarrow> (string, u64) omap \<Rightarrow> decision + (string, u64) omap" where
  "model_names_of [] names = Inr names"
| "model_names_of ((key, m) # rest) names =
     (if \<not> id_valid (mr_id m) \<or> key \<noteq> mr_id m then
        Inl (refuse OC_Rejected (Reg DuplicateModel) ''durable model identity is inconsistent'')
      else if map_of names (mr_name m) \<noteq> None then
        Inl (refuse OC_Rejected (Reg DuplicateModel) ''durable model names are not unique'')
      else model_names_of rest (om_put (mr_name m) (mr_id m) names))"

definition per_model_count :: "(u64 \<times> u64, version_record) omap \<Rightarrow> u64 \<Rightarrow> nat" where
  "per_model_count versions model = length (filter (\<lambda>e. fst (fst e) = model) versions)"

definition per_model_limit :: "durable_state \<Rightarrow> nat" where
  "per_model_limit ds = fold (\<lambda>e m. max m (per_model_count (ds_versions ds) (fst e))) (ds_models ds) 0"

fun version_labels_of ::
  "durable_state \<Rightarrow> ((u64 \<times> u64) \<times> version_record) list \<Rightarrow> (u64 \<times> string, u64) omap \<Rightarrow>
     decision + (u64 \<times> string, u64) omap" where
  "version_labels_of ds [] labels = Inr labels"
| "version_labels_of ds ((key, r) # rest) labels =
     (if fst key \<noteq> vr_model r \<or> snd key \<noteq> vr_version r then
        Inl (refuse OC_Rejected (Reg DuplicateVersion) ''durable version key is inconsistent'')
      else if map_of (ds_models ds) (vr_model r) = None then
        Inl (refuse OC_Rejected (Reg UnknownModel) ''durable version references an unknown model'')
      else if \<not> id_valid (vr_generation r) \<or> \<not> id_valid (vr_lifecycle_generation r) then
        Inl (refuse OC_Rejected (Ord ModelGenerationMismatch) ''durable version carries a zero generation'')
      else if map_of labels (vr_model r, vr_label r) \<noteq> None then
        Inl (refuse OC_Rejected (Reg DuplicateVersion) ''durable version labels are not unique per model'')
      else version_labels_of ds rest (om_put (vr_model r, vr_label r) (vr_version r) labels))"

definition known_version :: "durable_state \<Rightarrow> u64 \<Rightarrow> u64 \<Rightarrow> version_record option" where
  "known_version ds model version = map_of (ds_versions ds) (model, version)"

definition compatibility_fault :: "durable_state \<Rightarrow> decision option" where
  "compatibility_fault ds =
     (let facts = map snd (ds_compatibility ds);
          newest = fold (\<lambda>f g. max g (cf_generation f)) facts 0 in
      if list_ex (\<lambda>f. known_version ds (cf_model f) (cf_version f) = None) facts then
        Some (refuse OC_Rejected (Reg UnknownVersion)
          ''durable compatibility fact references an unknown version'')
      else if ds_next_compatibility_generation ds \<le> newest then
        Some (refuse OC_Rejected (Cmp CompatibilityGenerationMismatch)
          ''durable compatibility allocator would regress'')
      else None)"

definition durable_binding_fault :: "durable_state \<Rightarrow> authority_binding \<Rightarrow> decision option" where
  "durable_binding_fault ds b =
     (case known_version ds (b_model b) (b_version b) of
        None \<Rightarrow> Some (refuse OC_Rejected (Reg UnknownVersion)
          ''durable authority references an unknown version'')
      | Some v \<Rightarrow>
          if retired v then
            Some (refuse OC_Rejected (Lfc VersionRetired)
              ''durable authority would resurrect a retired generation'')
          else if vr_generation v < b_model_generation b then
            Some (refuse OC_Rejected (Ord ModelGenerationMismatch)
              ''durable authority cites a future model generation'')
          else if ds_scopes ds = [] \<or> length (ds_scopes ds) < unat (b_scope b) then
            Some (refuse OC_Rejected (Reg UnknownScope) ''durable authority references an unknown scope'')
          else if id_valid (b_rollout b) \<and> map_of (ds_rollouts ds) (b_rollout b) = None then
            Some (refuse OC_Rejected (Reg UnknownVersion)
              ''durable authority references an unknown rollout'')
          else if id_valid (b_rollout b) \<and>
              (case map_of (ds_rollouts ds) (b_rollout b) of
                 None \<Rightarrow> False | Some p \<Rightarrow> pl_generation p \<noteq> b_rollout_generation b) then
            Some (refuse OC_Rejected (Ord RolloutGenerationMismatch)
              ''durable authority rollout generation does not match the plan'')
          else if \<not> id_valid (b_granted_sequence b) then
            Some (refuse OC_Rejected (Ord SequenceRegression)
              ''durable authority carries no granting sequence'')
          else None)"

fun first_fault :: "('a \<Rightarrow> decision option) \<Rightarrow> 'a list \<Rightarrow> decision option" where
  "first_fault f [] = None"
| "first_fault f (x # xs) = (case f x of Some d \<Rightarrow> Some d | None \<Rightarrow> first_fault f xs)"

definition durable_plan_fault :: "durable_state \<Rightarrow> u64 \<times> rollout_plan \<Rightarrow> decision option" where
  "durable_plan_fault ds e =
     (let p = snd e in
      if fst e \<noteq> pl_id p then
        Some (refuse OC_Rejected (Ord RolloutGenerationMismatch) ''durable rollout key is inconsistent'')
      else if known_version ds (pl_model p) (pl_candidate p) = None then
        Some (refuse OC_Rejected (Reg UnknownVersion) ''durable rollout references an unknown candidate'')
      else if pl_stages p = [] then
        Some (refuse OC_Rejected (Rlt StageOrderViolation) ''durable rollout has no stages'')
      else if live p \<and> length (pl_stages p) \<le> pl_current_stage_index p then
        Some (refuse OC_Rejected (Rlt StageOrderViolation) ''durable rollout stage index is out of range'')
      else None)"

definition highest_evaluation :: "durable_state \<Rightarrow> u64" where
  "highest_evaluation ds = fold (\<lambda>e g. max g (pl_generation (snd e))) (ds_rollouts ds) 0"

definition rollouts_fault :: "engine_config \<Rightarrow> durable_state \<Rightarrow> decision option" where
  "rollouts_fault cfg ds =
     (case first_fault (durable_plan_fault ds) (ds_rollouts ds) of
        Some d \<Rightarrow> Some d
      | None \<Rightarrow>
          if rb_max_rollouts (ec_bounds cfg) < length (ds_rollouts ds) then
            Some (refuse OC_BOUNDS_EXCEEDED (Bnd BoundsRolloutCount) ''durable rollout count exceeds bounds'')
          else if ds_next_rollout_id ds \<le> highest_evaluation ds then
            Some (refuse OC_Rejected (Ord RolloutGenerationMismatch)
              ''durable rollout allocator would regress'')
          else None)"

definition recovered_lease :: "durable_state \<Rightarrow> worker_lease \<Rightarrow> worker_lease" where
  "recovered_lease ds l = l\<lparr>wl_fenced := True,
     wl_fenced_sequence := (if wl_fenced_sequence l = 0 then ds_sequence ds else wl_fenced_sequence l)\<rparr>"

definition recovered_attempt :: "attempt \<Rightarrow> attempt" where
  "recovered_attempt a =
     (if ap_state a = AS_Dispatched then
        a\<lparr>ap_state := AS_OutcomeUnknown,
          ap_detail := ''coordinator restarted while the attempt was in flight''\<rparr>
      else a)"

definition holders_fault :: "engine_config \<Rightarrow> durable_state \<Rightarrow> decision option" where
  "holders_fault cfg ds =
     (if list_ex (\<lambda>e. fst e \<noteq> wl_id (snd e)) (ds_worker_leases ds) then
        Some (refuse OC_Rejected (Wrk WorkerUnknown) ''durable worker lease key is inconsistent'')
      else if rb_max_workers (ec_bounds cfg) < length (ds_worker_leases ds) then
        Some (refuse OC_BOUNDS_EXCEEDED (Bnd BoundsWorkerCount) ''durable worker count exceeds bounds'')
      else if list_ex (\<lambda>e. fst e \<noteq> ap_id (snd e)) (ds_unsettled_attempts ds) then
        Some (refuse OC_Rejected (Wrk AttemptUnknown) ''durable attempt key is inconsistent'')
      else if rb_max_attempts (ec_bounds cfg) < length (ds_unsettled_attempts ds) then
        Some (refuse OC_BOUNDS_EXCEEDED (Bnd BoundsAttemptCount) ''durable attempt count exceeds bounds'')
      else None)"

text \<open>The parts a valid snapshot rebuilds before anything is applied.\<close>

record recovered_parts =
  rp_scopes :: scope_registry
  rp_names :: "(string, u64) omap"
  rp_labels :: "(u64 \<times> string, u64) omap"
  rp_compatibility :: compatibility_registry
  rp_authority :: authority_table
  rp_evidence :: evidence_store
  rp_policy :: policy_set

definition recover_registry ::
  "engine_config \<Rightarrow> durable_state \<Rightarrow> decision + ((string, u64) omap \<times> (u64 \<times> string, u64) omap)" where
  "recover_registry cfg ds =
     (if rb_max_models (ec_bounds cfg) < length (ds_models ds) then
        Inl (refuse OC_BOUNDS_EXCEEDED (Bnd BoundsModelCount) ''durable model count exceeds bounds'')
      else case model_names_of (ds_models ds) [] of
          Inl d \<Rightarrow> Inl d
        | Inr names \<Rightarrow>
            if rb_max_versions_per_model (ec_bounds cfg) < per_model_limit ds then
              Inl (refuse OC_BOUNDS_EXCEEDED (Bnd BoundsVersionCount)
                ''durable per-model version count exceeds bounds'')
            else case version_labels_of ds (ds_versions ds) [] of
                Inl d \<Rightarrow> Inl d
              | Inr labels \<Rightarrow> Inr (names, labels))"

definition recover_stores ::
  "durable_state \<Rightarrow> engine \<Rightarrow> decision + (compatibility_registry \<times> authority_table \<times> evidence_store)" where
  "recover_stores ds st =
     (case restore_facts (ds_compatibility ds) \<lparr>cr_facts = [], cr_max = cr_max (st_compatibility st)\<rparr> of
        None \<Rightarrow> Inl (refuse OC_Rejected (Cmp CompatibilityGenerationMismatch)
          ''durable compatibility facts are inconsistent'')
      | Some compatibility \<Rightarrow>
     (case compatibility_fault ds of
        Some d \<Rightarrow> Inl d
      | None \<Rightarrow>
     (case restore_authority (ds_authority ds) \<lparr>at_bindings = [], at_max = at_max (st_authority st)\<rparr> of
        None \<Rightarrow> Inl (refuse OC_Rejected (Pol PolicyDeniesCoexistence)
          ''durable authority table violates the single-exclusive invariant'')
      | Some authority \<Rightarrow>
     (case first_fault (durable_binding_fault ds) (concat (map snd (ds_authority ds))) of
        Some d \<Rightarrow> Inl d
      | None \<Rightarrow>
     (case restore_evidence (ds_evidence ds) 0 (empty_evidence (ev_max (st_evidence st))) of
        None \<Rightarrow> Inl (refuse OC_Rejected (Evd EvidenceGenerationMismatch) ''durable evidence is inconsistent'')
      | Some evidence \<Rightarrow>
          if list_ex (\<lambda>e. \<not> is_durable_evidence (e_kind e)) (ds_evidence ds) then
            Inl (refuse OC_Rejected (Evd EvidenceStale) ''durable state carries a volatile evidence kind'')
          else Inr (compatibility, authority, evidence))))))"

definition recover_policy :: "durable_state \<Rightarrow> decision + policy_set" where
  "recover_policy ds =
     (case restore_policy (ds_policy_overrides ds) (ds_base_policy ds)
             \<lparr>ps_base = default_policy, ps_overrides = []\<rparr> of
        None \<Rightarrow> Inl (refuse OC_Rejected (Pol PolicyGenerationMismatch)
          ''durable policy structure is invalid'')
      | Some policy \<Rightarrow>
          if list_ex (\<lambda>e. fst e = 0 \<or> length (ds_scopes ds) < unat (fst e)) (ds_policy_overrides ds) then
            Inl (refuse OC_Rejected (Reg UnknownScope)
              ''durable policy override references an unknown scope'')
          else Inr policy)"

definition import_guard :: "durable_state \<Rightarrow> u64 \<Rightarrow> engine \<Rightarrow> decision option" where
  "import_guard ds new_epoch st =
     (if ds_format_version ds \<noteq> kStateFormatVersion then
        Some (refuse OC_Rejected (Ord SnapshotGenerationStale)
          ''durable state format version is not supported'')
      else if \<not> id_valid new_epoch then
        Some (refuse OC_Rejected (Ord CoordinatorEpochStale) ''a recovery epoch is required'')
      else if new_epoch \<le> ds_epoch ds then
        Some (refuse OC_CONFLICT (Ord CoordinatorEpochStale) ''recovery must advance the coordinator epoch'')
      else if ds_sequence ds \<le> st_sequence st \<and> id_valid (st_sequence st) \<and> st_models st \<noteq> [] then
        Some (refuse OC_CONFLICT (Ord SequenceRegression)
          ''durable state is older than the live engine state'')
      else None)"

definition recover_parts :: "engine_config \<Rightarrow> durable_state \<Rightarrow> engine \<Rightarrow> decision + recovered_parts" where
  "recover_parts cfg ds st =
     (case restore_scopes (ds_scopes ds) (ds_root_scope ds)
             (empty_scopes\<lparr>sr_max := rb_max_scopes (ec_bounds cfg)\<rparr>) of
        None \<Rightarrow> Inl (refuse OC_Rejected (Reg UnknownScope) ''durable scope tree is structurally invalid'')
      | Some scopes \<Rightarrow>
     (case recover_registry cfg ds of
        Inl d \<Rightarrow> Inl d
      | Inr (names, labels) \<Rightarrow>
     (case recover_stores ds st of
        Inl d \<Rightarrow> Inl d
      | Inr (compatibility, authority, evidence) \<Rightarrow>
     (case rollouts_fault cfg ds of
        Some d \<Rightarrow> Inl d
      | None \<Rightarrow>
     (case recover_policy ds of
        Inl d \<Rightarrow> Inl d
      | Inr policy \<Rightarrow>
     (case holders_fault cfg ds of
        Some d \<Rightarrow> Inl d
      | None \<Rightarrow> Inr \<lparr>rp_scopes = scopes, rp_names = names, rp_labels = labels,
          rp_compatibility = compatibility, rp_authority = authority, rp_evidence = evidence,
          rp_policy = policy\<rparr>))))))"

section \<open>Application\<close>

definition version_index_of :: "(u64 \<times> u64, version_record) omap \<Rightarrow> (u64, u64 \<times> u64) omap" where
  "version_index_of versions = fold (\<lambda>e. om_emplace (vr_version (snd e)) (fst e)) versions []"

definition apply_snapshot :: "durable_state \<Rightarrow> u64 \<Rightarrow> recovered_parts \<Rightarrow> engine \<Rightarrow> engine" where
  "apply_snapshot ds new_epoch parts st = bump_sequence (st\<lparr>
     st_models := ds_models ds, st_model_names := rp_names parts, st_versions := ds_versions ds,
     st_version_labels := rp_labels parts, st_version_index := version_index_of (ds_versions ds),
     st_scopes := rp_scopes parts, st_policy := rp_policy parts,
     st_compatibility := rp_compatibility parts, st_authority := rp_authority parts,
     st_evidence := rp_evidence parts, st_rollouts := ds_rollouts ds,
     st_workers := om_map (recovered_lease ds) (ds_worker_leases ds),
     st_worker_liveness := om_map (\<lambda>_. False) (ds_worker_leases ds),
     st_attempts := om_map recovered_attempt (ds_unsettled_attempts ds),
     st_rollout_driver_boot := [], st_committed_promotions := ds_committed_promotions ds,
     st_committed_rollbacks := ds_committed_rollbacks ds, st_next_model_id := ds_next_model_id ds,
     st_next_version_id := ds_next_version_id ds, st_next_rollout_id := ds_next_rollout_id ds,
     st_next_stage_id := ds_next_stage_id ds, st_next_cohort_id := ds_next_cohort_id ds,
     st_next_promotion_id := ds_next_promotion_id ds, st_next_rollback_id := ds_next_rollback_id ds,
     st_next_attempt_id := ds_next_attempt_id ds, st_next_worker_id := ds_next_worker_id ds,
     st_next_evidence_id := ds_next_evidence_id ds,
     st_next_evidence_generation := max (ds_next_evidence_generation ds) (ds_sequence ds + 1),
     st_next_compatibility_generation := ds_next_compatibility_generation ds,
     st_sequence := max (ds_sequence ds) (st_sequence st), st_epoch := new_epoch,
     st_snapshot_generation := ds_generation ds\<rparr>)"

definition import_durable_state ::
  "engine_config \<Rightarrow> durable_state \<Rightarrow> u64 \<Rightarrow> engine \<Rightarrow> decision \<times> engine" where
  "import_durable_state cfg ds new_epoch st =
     (case import_guard ds new_epoch st of
        Some d \<Rightarrow> (d, st)
      | None \<Rightarrow>
          (case recover_parts cfg ds st of
             Inl d \<Rightarrow> (d, st)
           | Inr parts \<Rightarrow> (new_decision OC_Accepted, apply_snapshot ds new_epoch parts st)))"

section \<open>Withdrawing volatile state\<close>

definition all_evidence_kinds :: "evidence_kind list" where
  "all_evidence_kinds = map fst kEvidenceKindNames"

definition stamp_entered_plan :: "u64 \<Rightarrow> engine \<Rightarrow> engine" where
  "stamp_entered_plan i st =
     (case rollout_of st i of
        None \<Rightarrow> st
      | Some p \<Rightarrow>
          if \<not> live p \<or> \<not> pl_stage_entered p then st
          else let st1 = bump_sequence st in
            put_rollout (p\<lparr>pl_updated_sequence := st_sequence st1\<rparr>) st1)"

definition invalidate_volatile_state :: "string \<Rightarrow> engine \<Rightarrow> engine" where
  "invalidate_volatile_state cause st =
     (let detail_text = clamp_detail kMaxReasonDetail cause;
          st1 = st\<lparr>
            st_workers := om_map (\<lambda>l. l\<lparr>wl_fenced := True,
              wl_detail := (if wl_detail l = [] then detail_text else wl_detail l)\<rparr>) (st_workers st),
            st_worker_liveness := om_map (\<lambda>_. False) (st_worker_liveness st),
            st_rollout_driver_boot := [],
            st_evidence := snd (remove_kinds (filter (\<lambda>k. \<not> is_durable_evidence k) all_evidence_kinds)
              (st_evidence st))\<rparr> in
      bump_sequence (fold stamp_entered_plan (map fst (st_rollouts st1)) st1))"

end
