(* ===== verification/Mlf_Evolve.thy ===== *)
theory Mlf_Evolve
  imports Mlf_Snapshot
begin

text \<open>
  The invariant of the engine state and the order in which it evolves. \<open>good st st'\<close> says
  that a well-formed state leads to a well-formed later one; it is a preorder, so an
  operation is good when its parts are. Here are the parts; the next theory has the
  operations.
\<close>

named_theorems good_intros \<open>steps that keep the invariant and evolve the state\<close>

section \<open>The invariant\<close>

definition versions_ok :: "engine \<Rightarrow> bool" where
  "versions_ok st \<longleftrightarrow> om_wf (st_versions st) \<and>
     (\<forall>m v r. version_of st m v = Some r \<longrightarrow> vr_model r = m \<and> vr_version r = v)"

text \<open>The vector of stages is never empty, and a live plan's index lies within it.\<close>

definition plan_ok :: "rollout_plan \<Rightarrow> bool" where
  "plan_ok p \<longleftrightarrow> pl_stages p \<noteq> [] \<and> (live p \<longrightarrow> pl_current_stage_index p < length (pl_stages p))"

definition rollouts_ok :: "engine \<Rightarrow> bool" where
  "rollouts_ok st \<longleftrightarrow> om_wf (st_rollouts st) \<and>
     (\<forall>i p. rollout_of st i = Some p \<longrightarrow> pl_id p = i \<and> plan_ok p)"

text \<open>A live binding names a registered generation that is not retired.\<close>

definition held :: "engine \<Rightarrow> authority_binding \<Rightarrow> bool" where
  "held st b \<longleftrightarrow> (\<exists>r. version_of st (b_model b) (b_version b) = Some r \<and> vr_state r \<noteq> LS_RETIRED \<and>
     b_model_generation b \<le> vr_generation r)"

definition bound_ok :: "engine \<Rightarrow> bool" where
  "bound_ok st \<longleftrightarrow> (\<forall>s b. b \<in> set (live_bindings_for (st_authority st) s) \<longrightarrow> held st b)"

definition st_wf :: "engine \<Rightarrow> bool" where
  "st_wf st \<longleftrightarrow> sr_wf (st_scopes st) \<and> at_wf (st_authority st) \<and> versions_ok st \<and> rollouts_ok st \<and>
     bound_ok st \<and> om_wf (st_attempts st) \<and> om_wf (st_workers st)"

section \<open>Evolution\<close>

text \<open>What a version record keeps for ever, and what only moves forward.\<close>

definition version_evolves :: "version_record \<Rightarrow> version_record \<Rightarrow> bool" where
  "version_evolves r r' \<longleftrightarrow> vr_model r' = vr_model r \<and> vr_version r' = vr_version r \<and>
     vr_label r' = vr_label r \<and> vr_predecessor r' = vr_predecessor r \<and>
     vr_created_sequence r' = vr_created_sequence r \<and> vr_generation r \<le> vr_generation r' \<and>
     vr_lifecycle_generation r \<le> vr_lifecycle_generation r' \<and>
     (vr_state r, vr_state r') \<in> lifecycle_reach \<and> (\<exists>path. walked r path r')"

text \<open>A plan's binding never changes, its history only grows, and once dead it stays dead.\<close>

definition plan_evolves :: "rollout_plan \<Rightarrow> rollout_plan \<Rightarrow> bool" where
  "plan_evolves p p' \<longleftrightarrow> pl_id p' = pl_id p \<and> pl_generation p' = pl_generation p \<and>
     pl_model p' = pl_model p \<and> pl_candidate p' = pl_candidate p \<and>
     pl_candidate_generation p' = pl_candidate_generation p \<and> pl_root_scope p' = pl_root_scope p \<and>
     pl_cohorts p' = pl_cohorts p \<and> pl_stages p' = pl_stages p \<and>
     pl_rollback_target p' = pl_rollback_target p \<and>
     pl_current_stage_index p \<le> pl_current_stage_index p' \<and>
     pl_current_stage_generation p \<le> pl_current_stage_generation p' \<and>
     (live p' \<longrightarrow> live p) \<and> (\<exists>h. pl_history p' = pl_history p @ h)"

definition evolves :: "engine \<Rightarrow> engine \<Rightarrow> bool" where
  "evolves st st' \<longleftrightarrow> st_sequence st \<le> st_sequence st' \<and> st_epoch st \<le> st_epoch st' \<and>
     (\<forall>m v r. version_of st m v = Some r \<longrightarrow>
        (\<exists>r'. version_of st' m v = Some r' \<and> version_evolves r r')) \<and>
     (\<forall>i p. rollout_of st i = Some p \<longrightarrow> (\<exists>p'. rollout_of st' i = Some p' \<and> plan_evolves p p')) \<and>
     (\<forall>i a. map_of (st_attempts st) i = Some a \<longrightarrow> is_settled (ap_state a) \<longrightarrow>
        map_of (st_attempts st') i = Some a)"

lemma version_evolves_refl [simp]: "version_evolves r r"
  by (auto simp: version_evolves_def intro: walked_same)

lemma version_evolves_trans: "version_evolves a b \<Longrightarrow> version_evolves b c \<Longrightarrow> version_evolves a c"
  by (auto simp: version_evolves_def intro: reach_trans walked_trans)

text \<open>A change of other fields: the identity stays, and the lifecycle has not moved.\<close>

lemma version_evolves_still:
  assumes "vr_model r' = vr_model r" "vr_version r' = vr_version r" "vr_label r' = vr_label r"
    and "vr_predecessor r' = vr_predecessor r" "vr_created_sequence r' = vr_created_sequence r"
    and "vr_generation r \<le> vr_generation r'"
    and "vr_lifecycle_generation r' = vr_lifecycle_generation r" "vr_state r' = vr_state r"
  shows "version_evolves r r'"
  using assms walked_same [of r' r] by (auto simp: version_evolves_def)

lemma plan_evolves_refl [simp]: "plan_evolves p p"
  by (simp add: plan_evolves_def)

lemma plan_evolves_trans: "plan_evolves a b \<Longrightarrow> plan_evolves b c \<Longrightarrow> plan_evolves a c"
  by (auto simp: plan_evolves_def)

lemma evolves_refl [simp]: "evolves st st"
  by (simp add: evolves_def)

lemma evolves_trans:
  assumes ab: "evolves a b" and bc: "evolves b c"
  shows "evolves a c"
  unfolding evolves_def
proof (intro conjI allI impI)
  show "st_sequence a \<le> st_sequence c" "st_epoch a \<le> st_epoch c"
    using ab bc unfolding evolves_def by auto
next
  fix m v r assume "version_of a m v = Some r"
  then obtain r' where r': "version_of b m v = Some r'" "version_evolves r r'"
    using ab unfolding evolves_def by blast
  then obtain r'' where "version_of c m v = Some r''" "version_evolves r' r''"
    using bc unfolding evolves_def by blast
  then show "\<exists>r'. version_of c m v = Some r' \<and> version_evolves r r'"
    using r' version_evolves_trans by blast
next
  fix i p assume "rollout_of a i = Some p"
  then obtain p' where p': "rollout_of b i = Some p'" "plan_evolves p p'"
    using ab unfolding evolves_def by blast
  then obtain p'' where "rollout_of c i = Some p''" "plan_evolves p' p''"
    using bc unfolding evolves_def by blast
  then show "\<exists>p'. rollout_of c i = Some p' \<and> plan_evolves p p'"
    using p' plan_evolves_trans by blast
next
  fix i x assume "map_of (st_attempts a) i = Some x" "is_settled (ap_state x)"
  then show "map_of (st_attempts c) i = Some x" using ab bc unfolding evolves_def by blast
qed

definition good :: "engine \<Rightarrow> engine \<Rightarrow> bool" where
  "good st st' \<longleftrightarrow> (st_wf st \<longrightarrow> st_wf st' \<and> evolves st st')"

lemma good_refl [simp, good_intros]: "good st st"
  by (simp add: good_def)

lemma good_trans: "good a b \<Longrightarrow> good b c \<Longrightarrow> good a c"
  by (auto simp: good_def intro: evolves_trans)

lemma good_fold: "(\<And>x st. good st (f x st)) \<Longrightarrow> good st (fold f xs st)"
  by (induction xs arbitrary: st) (auto intro: good_trans)

section \<open>Frames\<close>

text \<open>A change of anything the invariant does not read is good.\<close>

lemma good_frame:
  assumes "st_scopes st' = st_scopes st" and "st_authority st' = st_authority st"
    and "st_versions st' = st_versions st" and "st_rollouts st' = st_rollouts st"
    and "st_attempts st' = st_attempts st" and "st_workers st' = st_workers st"
    and "st_sequence st \<le> st_sequence st'" and "st_epoch st \<le> st_epoch st'"
  shows "good st st'"
proof -
  have same: "version_of st' = version_of st" "rollout_of st' = rollout_of st"
    using assms by (auto simp: version_of_def rollout_of_def fun_eq_iff)
  have "evolves st st'" using assms same by (simp add: evolves_def)
  moreover have "st_wf st' = st_wf st"
    using assms same by (simp add: st_wf_def versions_ok_def rollouts_ok_def bound_ok_def held_def)
  ultimately show ?thesis by (simp add: good_def)
qed

lemma bump_fields [simp]:
  "st_scopes (bump_sequence st) = st_scopes st" "st_authority (bump_sequence st) = st_authority st"
  "st_versions (bump_sequence st) = st_versions st" "st_rollouts (bump_sequence st) = st_rollouts st"
  "st_attempts (bump_sequence st) = st_attempts st" "st_workers (bump_sequence st) = st_workers st"
  "st_policy (bump_sequence st) = st_policy st" "st_epoch (bump_sequence st) = st_epoch st"
  "st_evidence (bump_sequence st) = st_evidence st" "st_models (bump_sequence st) = st_models st"
  "st_compatibility (bump_sequence st) = st_compatibility st"
  "st_sequence (bump_sequence st) = next_generation (st_sequence st)"
  "version_of (bump_sequence st) = version_of st" "rollout_of (bump_sequence st) = rollout_of st"
  by (auto simp: bump_sequence_def version_of_def rollout_of_def fun_eq_iff)

lemma good_bump [good_intros]: "good st (bump_sequence st)"
  by (rule good_frame) (simp_all add: next_generation_le)

lemma good_bumped [good_intros]: "good st st' \<Longrightarrow> good st (bump_sequence st')"
  by (rule good_trans [OF _ good_bump])

section \<open>Writing version records\<close>

lemma put_version_fields [simp]:
  "st_scopes (put_version r st) = st_scopes st" "st_authority (put_version r st) = st_authority st"
  "st_rollouts (put_version r st) = st_rollouts st" "st_attempts (put_version r st) = st_attempts st"
  "st_workers (put_version r st) = st_workers st" "st_sequence (put_version r st) = st_sequence st"
  "st_epoch (put_version r st) = st_epoch st" "rollout_of (put_version r st) = rollout_of st"
  "st_policy (put_version r st) = st_policy st" "st_evidence (put_version r st) = st_evidence st"
  "st_compatibility (put_version r st) = st_compatibility st"
  by (auto simp: put_version_def rollout_of_def fun_eq_iff)

lemma version_of_put [simp]:
  "version_of (put_version r st) m v = (if (m, v) = (vr_model r, vr_version r) then Some r else version_of st m v)"
  by (simp add: version_of_def put_version_def)

text \<open>
  Replacing a record by one it evolves to. Only a generation without live bindings may
  become retired.
\<close>

lemma good_put_version:
  assumes "version_of st m v = Some r" and "version_evolves r r'"
    and "vr_state r' = LS_RETIRED \<Longrightarrow> vr_state r = LS_RETIRED \<or>
      (\<forall>s. \<forall>b \<in> set (live_bindings_for (st_authority st) s). \<not> (b_model b = m \<and> b_version b = v))"
  shows "good st (put_version r' st)"
  unfolding good_def
proof
  assume wf: "st_wf st"
  have key: "vr_model r = m" "vr_version r = v"
    using wf assms(1) unfolding st_wf_def versions_ok_def by blast+
  have key': "vr_model r' = m" "vr_version r' = v"
    using key assms(2) unfolding version_evolves_def by simp_all
  have gen: "vr_generation r \<le> vr_generation r'"
    using assms(2) unfolding version_evolves_def by simp
  have "versions_ok (put_version r' st)"
    using wf key' unfolding st_wf_def versions_ok_def by (auto simp: put_version_def version_of_def)
  moreover have "bound_ok (put_version r' st)"
    unfolding bound_ok_def
  proof (intro allI impI)
    fix s b assume b: "b \<in> set (live_bindings_for (st_authority (put_version r' st)) s)"
    then have h: "held st b" using wf unfolding st_wf_def bound_ok_def by simp
    show "held (put_version r' st) b"
    proof (cases "b_model b = m \<and> b_version b = v")
      case True
      then have "vr_state r \<noteq> LS_RETIRED" "b_model_generation b \<le> vr_generation r"
        using h assms(1) unfolding held_def by auto
      then show ?thesis
        using True b assms(3) key' gen unfolding held_def by fastforce
    next
      case False
      then show ?thesis using h key' unfolding held_def by auto
    qed
  qed
  moreover have "evolves st (put_version r' st)"
    using assms key' unfolding evolves_def by auto
  ultimately show "st_wf (put_version r' st) \<and> evolves st (put_version r' st)"
    using wf unfolding st_wf_def rollouts_ok_def by simp
qed

lemma good_update_version [good_intros]:
  assumes "\<And>r. version_evolves r (f r)" and "\<And>r. vr_state (f r) = LS_RETIRED \<Longrightarrow> vr_state r = LS_RETIRED"
  shows "good st (update_version m v f st)"
  using good_put_version [of st m v _ "f _"] assms
  by (auto simp: update_version_def split: option.splits)

text \<open>The shapes the operations write: fields the invariant does not read.\<close>

lemma version_evolves_fields [simp]:
  "version_evolves r (r\<lparr>vr_updated_sequence := a\<rparr>)"
  "version_evolves r (r\<lparr>vr_last_promotion := a, vr_promotion_generation := b, vr_updated_sequence := c\<rparr>)"
  "version_evolves r (r\<lparr>vr_last_rollback := a, vr_rollback_generation := b\<rparr>)"
  "version_evolves r (r\<lparr>vr_last_rollback := a, vr_rollback_generation := b, vr_updated_sequence := c\<rparr>)"
  "version_evolves r (r\<lparr>vr_rollout := a, vr_rollout_generation := b, vr_updated_sequence := c\<rparr>)"
  "version_evolves r (r\<lparr>vr_current_stage := a, vr_current_stage_generation := b\<rparr>)"
  "version_evolves r (r\<lparr>vr_current_stage := a, vr_current_stage_generation := b, vr_updated_sequence := c\<rparr>)"
  "version_evolves r (r\<lparr>vr_compatibility_generation := a\<rparr>)"
  "version_evolves r (r\<lparr>vr_compatibility_generation := a, vr_updated_sequence := c\<rparr>)"
  by (simp_all add: version_evolves_still)

lemma good_stamp_version [good_intros]: "good st (stamp_version m v st)"
  unfolding stamp_version_def Let_def
  by (rule good_trans [OF good_bump good_update_version]) simp_all

lemma version_evolves_advance:
  "version_evolves r (snd (advance_lifecycle_to t r))"
  using advance_legal [of t r] advance_walked [of r t] by (auto simp: version_evolves_def)

lemma version_evolves_transition:
  "version_evolves r (snd (transition t r))"
  using transition_legal [of t r] transition_walked [of r t] by (auto simp: version_evolves_def)

lemma good_advance_version [good_intros]:
  assumes "t \<noteq> LS_RETIRED"
  shows "good st (snd (advance_version m v t st))"
proof (cases "version_of st m v")
  case (Some r)
  have "vr_state (snd (advance_lifecycle_to t r)) = LS_RETIRED \<Longrightarrow> vr_state r = LS_RETIRED"
    using advance_legal [of t r] assms by auto
  then have "good st (put_version (snd (advance_lifecycle_to t r)) st)"
    using Some version_evolves_advance by (intro good_put_version) auto
  then show ?thesis using Some by (simp add: advance_version_def case_prod_beta)
qed (simp add: advance_version_def)

lemma good_transition [good_intros]:
  assumes "t \<noteq> LS_RETIRED"
  shows "good st (update_version m v (\<lambda>r. snd (transition t r)) st)"
proof (rule good_update_version)
  show "vr_state (snd (transition t r)) = LS_RETIRED \<Longrightarrow> vr_state r = LS_RETIRED" for r
    using transition_legal [of t r] assms by auto
qed (rule version_evolves_transition)

section \<open>Writing plans\<close>

lemma put_rollout_fields [simp]:
  "st_scopes (put_rollout p st) = st_scopes st" "st_authority (put_rollout p st) = st_authority st"
  "st_versions (put_rollout p st) = st_versions st" "st_attempts (put_rollout p st) = st_attempts st"
  "st_workers (put_rollout p st) = st_workers st" "st_sequence (put_rollout p st) = st_sequence st"
  "st_epoch (put_rollout p st) = st_epoch st" "version_of (put_rollout p st) = version_of st"
  "st_policy (put_rollout p st) = st_policy st" "st_evidence (put_rollout p st) = st_evidence st"
  by (auto simp: put_rollout_def version_of_def fun_eq_iff)

lemma rollout_of_put [simp]:
  "rollout_of (put_rollout p st) i = (if i = pl_id p then Some p else rollout_of st i)"
  by (simp add: rollout_of_def put_rollout_def)

lemma good_put_rollout:
  assumes "rollout_of st i = Some p" and "plan_evolves p p'"
    and "live p' \<Longrightarrow> pl_current_stage_index p' < length (pl_stages p')"
  shows "good st (put_rollout p' st)"
  unfolding good_def
proof
  assume wf: "st_wf st"
  have p: "pl_id p = i" "plan_ok p"
    using wf assms(1) unfolding st_wf_def rollouts_ok_def by blast+
  have p': "pl_id p' = i" "plan_ok p'"
    using p assms(2,3) unfolding plan_ok_def plan_evolves_def by simp_all
  have "rollouts_ok (put_rollout p' st)"
    using wf p' unfolding st_wf_def rollouts_ok_def by (auto simp: put_rollout_def rollout_of_def)
  moreover have "evolves st (put_rollout p' st)"
    using assms p' unfolding evolves_def by auto
  ultimately show "st_wf (put_rollout p' st) \<and> evolves st (put_rollout p' st)"
    using wf unfolding st_wf_def versions_ok_def bound_ok_def held_def by simp
qed

text \<open>A plan whose stage index does not move.\<close>

lemma good_put_plan:
  assumes "rollout_of st i = Some p" and "plan_evolves p p'"
    and "pl_current_stage_index p' = pl_current_stage_index p"
  shows "good st (put_rollout p' st)"
proof (cases "st_wf st")
  case True
  then have "plan_ok p" using assms(1) unfolding st_wf_def rollouts_ok_def by blast
  then show ?thesis
    using assms by (intro good_put_rollout) (auto simp: plan_ok_def plan_evolves_def)
qed (simp add: good_def)

lemma good_update_rollout [good_intros]:
  assumes "\<And>p. plan_evolves p (f p)" and "\<And>p. pl_current_stage_index (f p) = pl_current_stage_index p"
  shows "good st (update_rollout i f st)"
  using good_put_plan [of st i _ "f _"] assms
  by (auto simp: update_rollout_def split: option.splits)

section \<open>Changing the authority table\<close>

text \<open>A table that only loses live bindings, up to their kind.\<close>

definition fewer_live :: "authority_table \<Rightarrow> authority_table \<Rightarrow> bool" where
  "fewer_live t t' \<longleftrightarrow> (\<forall>s. \<forall>b' \<in> set (live_bindings_for t' s). \<exists>b \<in> set (live_bindings_for t s).
     b_model b' = b_model b \<and> b_version b' = b_version b \<and> b_model_generation b' = b_model_generation b)"

lemma fewer_live_refl [simp]: "fewer_live t t"
  unfolding fewer_live_def by blast

lemma fewer_live_trans: "fewer_live a b \<Longrightarrow> fewer_live b c \<Longrightarrow> fewer_live a c"
  unfolding fewer_live_def by metis

lemma good_authority:
  assumes "at_wf (st_authority st) \<Longrightarrow> at_wf t"
    and "\<And>s b. st_wf st \<Longrightarrow> b \<in> set (live_bindings_for t s) \<Longrightarrow> held st b"
  shows "good st (st\<lparr>st_authority := t\<rparr>)"
proof -
  let ?st = "st\<lparr>st_authority := t\<rparr>"
  have same: "version_of ?st = version_of st" "rollout_of ?st = rollout_of st"
    by (auto simp: version_of_def rollout_of_def fun_eq_iff)
  have "evolves st ?st" using same by (simp add: evolves_def)
  moreover have "st_wf st \<Longrightarrow> st_wf ?st"
    using assms same by (simp add: st_wf_def versions_ok_def rollouts_ok_def bound_ok_def held_def)
  ultimately show ?thesis by (simp add: good_def)
qed

lemma good_fewer_live:
  assumes "at_wf (st_authority st) \<Longrightarrow> at_wf t" and "fewer_live (st_authority st) t"
  shows "good st (st\<lparr>st_authority := t\<rparr>)"
proof (rule good_authority [OF assms(1)])
  fix s b assume wf: "st_wf st" and "b \<in> set (live_bindings_for t s)"
  then obtain b0 where "b0 \<in> set (live_bindings_for (st_authority st) s)" "b_model b = b_model b0"
      "b_version b = b_version b0" "b_model_generation b = b_model_generation b0"
    using assms(2) unfolding fewer_live_def by blast
  then show "held st b" using wf unfolding st_wf_def bound_ok_def held_def by metis
qed

lemma live_mark:
  assumes "b' \<in> set (filter (\<lambda>b. \<not> b_superseded b) (mark_live P f bs))"
    and "\<And>b. b_model (f b) = b_model b \<and> b_version (f b) = b_version b \<and>
      b_model_generation (f b) = b_model_generation b"
  shows "\<exists>b \<in> set (filter (\<lambda>b. \<not> b_superseded b) bs).
    b_model b' = b_model b \<and> b_version b' = b_version b \<and> b_model_generation b' = b_model_generation b"
  using assms by (auto simp: mark_live_def split: if_splits)

lemma fewer_live_scope: "fewer_live t (snd (supersede_scope s t))"
proof (cases "map_of (at_bindings t) s")
  case (Some bs)
  then have "bindings_for t s = bs" by (simp add: bindings_for_def)
  then show ?thesis
    using Some by (auto simp: fewer_live_def live_bindings_for_def supersede_scope_def mark_live_def supersede_def
        split: if_splits)
qed (simp add: supersede_scope_def)

lemma fewer_live_map:
  "fewer_live t (t\<lparr>at_bindings := om_map (mark_live P supersede) (at_bindings t)\<rparr>)"
proof -
  have "mark_live P supersede [] = []" by (simp add: mark_live_def)
  note map = bindings_for_map [where f = "mark_live P supersede", OF this, of t]
  show ?thesis
    unfolding fewer_live_def live_bindings_for_def map
  proof (intro allI ballI)
    fix s b' assume "b' \<in> set (filter (\<lambda>b. \<not> b_superseded b) (mark_live P supersede (bindings_for t s)))"
    then show "\<exists>b \<in> set (filter (\<lambda>b. \<not> b_superseded b) (bindings_for t s)).
        b_model b' = b_model b \<and> b_version b' = b_version b \<and> b_model_generation b' = b_model_generation b"
      by (rule live_mark) (simp add: supersede_def)
  qed
qed

lemma fewer_live_rollout: "fewer_live t (snd (supersede_rollout r g t))"
  by (simp add: supersede_rollout_def Let_def fewer_live_map)

lemma fewer_live_fence: "fewer_live t (fence_version m v t)"
  by (simp add: fence_version_def fewer_live_map)

lemma at_wf_fence: "at_wf t \<Longrightarrow> at_wf (fence_version m v t)"
  by (auto simp: fence_version_def at_wf_def intro!: om_map_all scope_ok_supersede)

lemma fewer_live_draining: "fewer_live t (snd (mark_draining m v s t))"
proof (cases "map_of (at_bindings t) s")
  case (Some bs)
  define P where "P = (\<lambda>b :: authority_binding. b_model b = m \<and> b_version b = v \<and> b_kind b \<noteq> AK_Draining \<and>
    b_kind b \<noteq> AK_RollbackRetained)"
  define f where "f = (\<lambda>b :: authority_binding. b\<lparr>b_kind := AK_Draining\<rparr>)"
  have "snd (mark_draining m v s t) = t\<lparr>at_bindings := om_put s (mark_live P f bs) (at_bindings t)\<rparr>"
    using Some by (simp add: mark_draining_def P_def f_def Let_def)
  moreover have "bindings_for t s = bs" using Some by (simp add: bindings_for_def)
  moreover have "b_model (f b) = b_model b \<and> b_version (f b) = b_version b \<and>
      b_model_generation (f b) = b_model_generation b" for b by (simp add: f_def)
  ultimately show ?thesis
    unfolding fewer_live_def live_bindings_for_def using live_mark [of _ P f bs] by auto
qed (simp add: mark_draining_def Let_def)

lemma good_supersede_scope [good_intros]:
  "good st (st\<lparr>st_authority := snd (supersede_scope s (st_authority st))\<rparr>)"
  by (intro good_fewer_live at_wf_supersede_scope fewer_live_scope)

lemma good_supersede_rollout [good_intros]:
  "good st (st\<lparr>st_authority := snd (supersede_rollout r g (st_authority st))\<rparr>)"
  by (intro good_fewer_live at_wf_supersede_rollout fewer_live_rollout)

lemma good_mark_draining [good_intros]:
  "good st (st\<lparr>st_authority := snd (mark_draining m v s (st_authority st))\<rparr>)"
  by (intro good_fewer_live at_wf_mark_draining fewer_live_draining)

lemma good_fence_version [good_intros]:
  "good st (st\<lparr>st_authority := fence_version m v (st_authority st)\<rparr>)"
  by (intro good_fewer_live at_wf_fence fewer_live_fence)

section \<open>Scopes and attempts\<close>

lemma good_scopes:
  assumes "sr_wf (st_scopes st) \<Longrightarrow> sr_wf sr"
  shows "good st (st\<lparr>st_scopes := sr\<rparr>)"
proof -
  let ?st = "st\<lparr>st_scopes := sr\<rparr>"
  have same: "version_of ?st = version_of st" "rollout_of ?st = rollout_of st"
    by (auto simp: version_of_def rollout_of_def fun_eq_iff)
  then have "evolves st ?st" by (simp add: evolves_def)
  moreover have "st_wf st \<Longrightarrow> st_wf ?st"
    using assms same by (simp add: st_wf_def versions_ok_def rollouts_ok_def bound_ok_def held_def)
  ultimately show ?thesis by (simp add: good_def)
qed

lemma good_touch [good_intros]: "good st (st\<lparr>st_scopes := touch s (st_scopes st)\<rparr>)"
  by (intro good_scopes sr_wf_touch)

text \<open>An attempt may be written where there is none, or over one that is not settled.\<close>

lemma good_attempts:
  assumes "om_wf (st_attempts st) \<Longrightarrow> om_wf as"
    and "\<And>i a. map_of (st_attempts st) i = Some a \<Longrightarrow> is_settled (ap_state a) \<Longrightarrow> map_of as i = Some a"
  shows "good st (st\<lparr>st_attempts := as\<rparr>)"
proof -
  let ?st = "st\<lparr>st_attempts := as\<rparr>"
  have same: "version_of ?st = version_of st" "rollout_of ?st = rollout_of st"
    by (auto simp: version_of_def rollout_of_def fun_eq_iff)
  then have "evolves st ?st" using assms(2) by (simp add: evolves_def)
  moreover have "st_wf st \<Longrightarrow> st_wf ?st"
    using assms same by (simp add: st_wf_def versions_ok_def rollouts_ok_def bound_ok_def held_def)
  ultimately show ?thesis by (simp add: good_def)
qed

end
