(* ===== verification/Mlf_Steps.thy ===== *)
theory Mlf_Steps
  imports Mlf_Evolve Mlf_Findings
begin

text \<open>
  Every operation of the engine is a good step: it keeps the invariant, and the state
  evolves. The authority grant comes first, then one lemma per operation.
\<close>

section \<open>Granting authority\<close>

lemma live_push:
  "b' \<in> set (live_bindings_for (push_binding b t) s) \<Longrightarrow> b' \<in> set (live_bindings_for t s) \<or> b' = b"
  by (auto simp: live_bindings_for_def split: if_splits)

lemma live_grant:
  "b' \<in> set (live_bindings_for (snd (grant b allow t)) s) \<Longrightarrow> b' \<in> set (live_bindings_for t s) \<or> b' = b"
  using live_push [of b' b t s] by (subst (asm) grant_cases) (auto split: if_splits)

lemma supersede_first_live:
  "supersede_first_exclusive bs = (bs', found) \<Longrightarrow>
   set (filter (\<lambda>b. \<not> b_superseded b) bs') \<subseteq> set (filter (\<lambda>b. \<not> b_superseded b) bs) \<and>
   (\<forall>old. found = Some old \<longrightarrow> (\<exists>b \<in> set bs. \<not> b_superseded b \<and> old = supersede b))"
  by (induction bs arbitrary: bs' found)
     (auto simp: Let_def supersede_def split: if_splits prod.splits)

lemma no_reasons [simp]: "\<not> has_reason (new_decision c) r"
  by (simp add: has_reason_def new_decision_def)

lemma replace_exclusive_result:
  "replace_exclusive b t =
     (let replacement = b\<lparr>b_kind := AK_Exclusive\<rparr>; (d, t') = grant replacement True t in
      if allowed d then (d, empty_binding, t')
      else if \<not> has_reason d (Pol PolicyDeniesCoexistence) then (d, empty_binding, t)
      else (new_decision OC_Accepted,
        (case snd (supersede_first_exclusive (bindings_for t (b_scope b))) of
           None \<Rightarrow> empty_binding | Some old \<Rightarrow> old),
        push_binding replacement
          (t\<lparr>at_bindings := om_put (b_scope b)
             (fst (supersede_first_exclusive (bindings_for t (b_scope b)))) (at_bindings t)\<rparr>)))"
proof -
  let ?r = "b\<lparr>b_kind := AK_Exclusive\<rparr>"
  have unchanged: "t' = t" if "grant ?r True t = (d, t')" "\<not> allowed d" for d t'
    using that grant_cases(1) [of ?r True t] grant_cases(2) [of ?r True t]
    by (metis fst_conv snd_conv)
  have found: "\<exists>bs. map_of (at_bindings t) (b_scope b) = Some bs"
    if "grant ?r True t = (d, t')" "has_reason d (Pol PolicyDeniesCoexistence)" for d t'
    using that by (auto simp: grant_def split: if_splits option.splits)
  obtain d t' where g: "grant ?r True t = (d, t')" by fastforce
  show ?thesis
    using unchanged [OF g] found [OF g] g
    by (auto simp: replace_exclusive_def Let_def bindings_for_def split: prod.splits option.splits)
qed

lemma live_replace:
  assumes "replace_exclusive b t = (d, old, t')" and "b' \<in> set (live_bindings_for t' s)"
  shows "b' \<in> set (live_bindings_for t s) \<or> b' = b\<lparr>b_kind := AK_Exclusive\<rparr>"
proof -
  let ?r = "b\<lparr>b_kind := AK_Exclusive\<rparr>"
  obtain bs' found where sf: "supersede_first_exclusive (bindings_for t (b_scope b)) = (bs', found)"
    by fastforce
  have "t' = snd (grant ?r True t) \<or> t' = t \<or>
      t' = push_binding ?r (t\<lparr>at_bindings := om_put (b_scope b) bs' (at_bindings t)\<rparr>)"
    using assms(1) sf unfolding replace_exclusive_result Let_def by (auto split: prod.splits if_splits)
  then show ?thesis
  proof (elim disjE)
    assume "t' = push_binding ?r (t\<lparr>at_bindings := om_put (b_scope b) bs' (at_bindings t)\<rparr>)"
    then have "b' \<in> set (live_bindings_for (t\<lparr>at_bindings := om_put (b_scope b) bs' (at_bindings t)\<rparr>) s) \<or> b' = ?r"
      using live_push assms(2) by blast
    then show ?thesis
      using supersede_first_live [OF sf] unfolding live_bindings_for_def by (auto split: if_splits)
  qed (use assms(2) live_grant in auto)
qed

lemma replaced_binding:
  assumes "replace_exclusive b t = (d, old, t')"
  shows "old = empty_binding \<or> (\<exists>b0 \<in> set (live_bindings_for t (b_scope b)). old = supersede b0)"
proof -
  obtain bs' found where sf: "supersede_first_exclusive (bindings_for t (b_scope b)) = (bs', found)"
    by fastforce
  have "old = empty_binding \<or> found = Some old"
    using assms sf unfolding replace_exclusive_result Let_def
    by (auto split: prod.splits if_splits option.splits)
  then show ?thesis
    using supersede_first_live [OF sf] unfolding live_bindings_for_def by auto
qed

lemma held_fields [simp]:
  "held st (supersede b) = held st b" "held (bump_sequence st) b = held st b"
  "held (st\<lparr>st_authority := t\<rparr>) b = held st b"
  by (simp_all add: held_def supersede_def version_of_def)

lemma good_granted:
  assumes "held st b"
  shows "good st (st\<lparr>st_authority := snd (grant b allow (st_authority st))\<rparr>)"
proof (rule good_authority [OF at_wf_grant])
  fix s b' assume "st_wf st" "b' \<in> set (live_bindings_for (snd (grant b allow (st_authority st))) s)"
  then show "held st b'" using live_grant assms unfolding st_wf_def bound_ok_def by blast
qed assumption

lemma version_of_authority [simp]: "version_of (st\<lparr>st_authority := t\<rparr>) = version_of st"
  by (simp add: version_of_def fun_eq_iff)

lemma good_settle_displaced:
  assumes "id_valid (b_version old) \<Longrightarrow> held st old"
  shows "good st (snd (settle_displaced scope generation q old st))"
proof (cases "id_valid (b_version old)")
  case True
  then obtain r where r: "version_of st (b_model old) (b_version old) = Some r"
      "vr_state r \<noteq> LS_RETIRED" "b_model_generation old \<le> vr_generation r"
    using assms unfolding held_def by auto
  have nr: "\<not> retired r" using r(2) by (simp add: retired_def)
  define rb where "rb = retention_binding (bump_sequence st) old r scope generation"
  have held: "held st rb"
    using r unfolding held_def by (simp add: rb_def retention_binding_def)
  have "good st ((bump_sequence st)\<lparr>st_authority := snd (grant rb True (st_authority (bump_sequence st)))\<rparr>)"
    using held by (intro good_trans [OF good_bump good_granted]) simp
  then show ?thesis
    using r(1) nr
    by (auto simp: settle_displaced_def Let_def rb_def case_prod_beta
        intro: good_trans good_advance_version)
qed (simp add: settle_displaced_def)

lemma make_binding_fields [simp]:
  "b_model (make_binding st r s g k q) = vr_model r" "b_version (make_binding st r s g k q) = vr_version r"
  "b_model_generation (make_binding st r s g k q) = vr_generation r" "b_scope (make_binding st r s g k q) = s"
  "b_superseded (make_binding st r s g k q) = False" "b_kind (make_binding st r s g k q) = k"
  by (simp_all add: make_binding_def empty_binding_def)

text \<open>The table after the grant proper, and the exclusive binding it displaced.\<close>

definition granted_table ::
  "engine \<Rightarrow> version_record \<Rightarrow> u64 \<Rightarrow> u64 \<Rightarrow> grant_request \<Rightarrow> decision \<times> authority_binding \<times> authority_table" where
  "granted_table st r scope generation q =
     (if gq_supersede_existing q then
        replace_exclusive (make_binding st r scope generation AK_Exclusive q) (st_authority st)
      else
        (case grant (make_binding st r scope generation (gq_kind q) q)
                (lp_allow_split_traffic (effective (st_policy st) (st_scopes st) scope)) (st_authority st) of
           (d, auth) \<Rightarrow> (d, empty_binding, auth)))"

lemma grant_authority_cases:
  "grant_authority m v scope q st =
     (case version_of st m v of
        None \<Rightarrow> (refuse OC_Rejected (Reg UnknownVersion) ''version is not registered'', st)
      | Some r \<Rightarrow>
          if retired r then
            (refuse OC_Rejected (Prm PromotionCandidateRetired)
               ''a retired generation can never be granted authority'', st)
          else case sr_find (st_scopes st) scope of
              None \<Rightarrow> (refuse OC_Rejected (Reg UnknownScope) ''authority target scope is not registered'', st)
            | Some sr \<Rightarrow>
                (case granted_table (bump_sequence st) r scope (s_generation sr) q of
                   (d, old, auth) \<Rightarrow>
                     let st1 = (bump_sequence st)\<lparr>st_authority := auth\<rparr> in
                     if \<not> allowed d then (copy_refusal d, st1)
                     else case settle_displaced scope (s_generation sr) q old st1 of
                         (settled, st2) \<Rightarrow>
                           if \<not> allowed settled then (settled, st2)
                           else (new_decision OC_Accepted, st2\<lparr>st_scopes := touch scope (st_scopes st2)\<rparr>)))"
  by (simp add: grant_authority_def granted_table_def Let_def split: option.splits)

lemma good_granted_table:
  assumes "version_of st m v = Some r" and "\<not> retired r"
    and "granted_table st r scope generation q = (d, old, auth)"
  shows "good st (st\<lparr>st_authority := auth\<rparr>)" and "st_wf st \<Longrightarrow> id_valid (b_version old) \<Longrightarrow> held st old"
proof -
  let ?x = "make_binding st r scope generation AK_Exclusive q"
  have new: "st_wf st \<Longrightarrow> held st (make_binding st r scope generation k q)" for k
    using assms(1,2) unfolding st_wf_def versions_ok_def held_def retired_def by auto
  have new': "st_wf st \<Longrightarrow> held st (?x\<lparr>b_kind := AK_Exclusive\<rparr>)"
    using new [of AK_Exclusive] by (simp add: held_def)
  have auth: "auth = snd (snd (granted_table st r scope generation q))" using assms(3) by simp
  show "good st (st\<lparr>st_authority := auth\<rparr>)"
  proof (rule good_authority)
    show "at_wf (st_authority st) \<Longrightarrow> at_wf auth"
      unfolding auth granted_table_def
      by (auto simp: case_prod_beta intro: at_wf_grant at_wf_replace_exclusive)
  next
    fix s b assume wf: "st_wf st" and b: "b \<in> set (live_bindings_for auth s)"
    have old_held: "b \<in> set (live_bindings_for (st_authority st) s) \<Longrightarrow> held st b"
      using wf unfolding st_wf_def bound_ok_def by blast
    show "held st b"
    proof (cases "gq_supersede_existing q")
      case True
      then have "replace_exclusive ?x (st_authority st) = (d, old, auth)"
        using assms(3) by (simp add: granted_table_def)
      then show ?thesis using live_replace [OF _ b] old_held new' [OF wf] by blast
    next
      case False
      then show ?thesis
        using assms(3) b old_held new [OF wf] live_grant
        by (auto simp: granted_table_def split: prod.splits) (metis snd_conv)
    qed
  qed
  show "held st old" if wf: "st_wf st" and valid: "id_valid (b_version old)"
  proof (cases "gq_supersede_existing q")
    case True
    then have "replace_exclusive ?x (st_authority st) = (d, old, auth)"
      using assms(3) by (simp add: granted_table_def)
    then have "old = empty_binding \<or> (\<exists>b0 \<in> set (live_bindings_for (st_authority st) (b_scope ?x)). old = supersede b0)"
      by (rule replaced_binding)
    then show ?thesis
      using wf valid unfolding st_wf_def bound_ok_def by (auto simp: empty_binding_def)
  next
    case False
    then show ?thesis
      using assms(3) valid by (auto simp: granted_table_def empty_binding_def split: prod.splits)
  qed
qed

lemma good_grant_authority [good_intros]: "good st (snd (grant_authority m v scope q st))"
proof (cases "st_wf st")
  case wf: True
  show ?thesis
  proof (cases "version_of st m v")
    case (Some r)
    show ?thesis
    proof (cases "retired r \<or> sr_find (st_scopes st) scope = None")
      case True
      then show ?thesis using Some by (auto simp: grant_authority_cases)
    next
      case False
      then obtain sr where sr: "sr_find (st_scopes st) scope = Some sr" and nr: "\<not> retired r" by auto
      obtain d old auth where g: "granted_table (bump_sequence st) r scope (s_generation sr) q = (d, old, auth)"
        by (cases "granted_table (bump_sequence st) r scope (s_generation sr) q") auto
      let ?st1 = "(bump_sequence st)\<lparr>st_authority := auth\<rparr>"
      have version: "version_of (bump_sequence st) m v = Some r" using Some by simp
      note table = good_granted_table [OF version nr g]
      have st1: "good st ?st1" by (rule good_trans [OF good_bump table(1)])
      have wf0: "st_wf (bump_sequence st)" using good_bump wf unfolding good_def by blast
      have st2: "good st (snd (settle_displaced scope (s_generation sr) q old ?st1))"
        using table(2) [OF wf0] by (intro good_trans [OF st1 good_settle_displaced]) simp
      then have "good st ((snd (settle_displaced scope (s_generation sr) q old ?st1))
          \<lparr>st_scopes := touch scope (st_scopes (snd (settle_displaced scope (s_generation sr) q old ?st1)))\<rparr>)"
        by (rule good_trans [OF _ good_touch])
      then show ?thesis
        using Some sr nr g st1 st2 by (auto simp: grant_authority_cases Let_def case_prod_beta)
    qed
  qed (simp add: grant_authority_cases)
qed (simp add: good_def)

end
