(* ===== verification/Mlf_Operations.thy ===== *)
theory Mlf_Operations
  imports Mlf_Steps
begin

text \<open>
  One lemma per operation of the registry, the workers, promotion and rollback: it keeps the
  invariant and the state evolves, on every branch and for every argument.
\<close>

section \<open>Frames and fresh records\<close>

lemma good_then_frame:
  assumes "good st st1" and "st_scopes st2 = st_scopes st1" and "st_authority st2 = st_authority st1"
    and "st_versions st2 = st_versions st1" and "st_rollouts st2 = st_rollouts st1"
    and "st_attempts st2 = st_attempts st1" and "st_workers st2 = st_workers st1"
    and "st_sequence st1 \<le> st_sequence st2" and "st_epoch st1 \<le> st_epoch st2"
  shows "good st st2"
  by (rule good_trans [OF assms(1) good_frame]) (simp_all add: assms(2-))

lemma find_emplace:
  "map_of (om_emplace k v m) j = (if j = k \<and> map_of m k = None then Some v else map_of m j)"
  by (auto simp: om_emplace_def split: option.splits)

text \<open>A record emplaced under its own identity; an identity in use keeps its old record.\<close>

lemma good_emplace_version:
  assumes "k = (vr_model r, vr_version r)"
  shows "good st (st\<lparr>st_versions := om_emplace k r (st_versions st)\<rparr>)"
proof -
  let ?st = "st\<lparr>st_versions := om_emplace k r (st_versions st)\<rparr>"
  have v: "version_of ?st m v = (if (m, v) = k \<and> version_of st m v = None then Some r else version_of st m v)" for m v
    by (auto simp: version_of_def find_emplace)
  have p: "rollout_of ?st = rollout_of st" by (simp add: rollout_of_def fun_eq_iff)
  have keep: "version_of st m v = Some x \<Longrightarrow> version_of ?st m v = Some x" for m v x by (simp add: v)
  have "evolves st ?st" unfolding evolves_def p using keep by fastforce
  moreover have "st_wf ?st" if wf: "st_wf st"
  proof -
    have "om_wf (st_versions ?st)" using wf by (simp add: st_wf_def versions_ok_def)
    then have "versions_ok ?st"
      using wf assms v unfolding st_wf_def versions_ok_def by (auto split: if_splits)
    moreover have "bound_ok ?st"
      using wf keep unfolding st_wf_def bound_ok_def held_def by (simp add: live_bindings_for_def) blast
    ultimately show ?thesis using wf by (simp add: st_wf_def rollouts_ok_def p)
  qed
  ultimately show ?thesis by (simp add: good_def)
qed

lemma good_emplace_rollout:
  assumes "plan_ok p" and "i = pl_id p"
  shows "good st (st\<lparr>st_rollouts := om_emplace i p (st_rollouts st)\<rparr>)"
proof -
  let ?st = "st\<lparr>st_rollouts := om_emplace i p (st_rollouts st)\<rparr>"
  have r: "rollout_of ?st j = (if j = i \<and> rollout_of st i = None then Some p else rollout_of st j)" for j
    by (auto simp: rollout_of_def find_emplace)
  have v: "version_of ?st = version_of st" by (simp add: version_of_def fun_eq_iff)
  have "evolves st ?st" unfolding evolves_def v using r by fastforce
  moreover have "st_wf ?st" if wf: "st_wf st"
  proof -
    have "om_wf (st_rollouts ?st)" using wf by (simp add: st_wf_def rollouts_ok_def)
    then have "rollouts_ok ?st"
      using wf assms r unfolding st_wf_def rollouts_ok_def by (auto split: if_splits)
    then show ?thesis using wf by (simp add: st_wf_def versions_ok_def bound_ok_def held_def v)
  qed
  ultimately show ?thesis by (simp add: good_def)
qed

section \<open>Registry\<close>

lemma good_register_model [good_intros]: "good st (snd (snd (register_model cfg name family p st)))"
  by (auto simp: register_model_def Let_def intro: good_then_frame [OF good_bump] good_frame
      simp: bump_sequence_def next_generation_le)

lemma good_register_version [good_intros]: "good st (snd (snd (register_version cfg q st)))"
proof -
  let ?i = "st_next_version_id st"
  let ?st1 = "bump_sequence (st\<lparr>st_next_version_id := ?i + 1\<rparr>)"
  define r where "r = new_version cfg q st ?i (st_sequence ?st1)"
  have "good st ?st1" by (rule good_bumped [OF good_frame]) simp_all
  then have "good st (?st1\<lparr>st_versions := om_emplace (rv_model q, ?i) r (st_versions ?st1)\<rparr>)"
    by (rule good_trans [OF _ good_emplace_version]) (simp add: r_def new_version_def)
  then have "good st (?st1\<lparr>st_version_labels := a, st_version_index := b,
      st_versions := om_emplace (rv_model q, ?i) r (st_versions ?st1)\<rparr>)" for a b
    by (rule good_then_frame) simp_all
  then show ?thesis by (simp add: register_version_def Let_def r_def split: option.splits)
qed

lemma good_supersede_plan [good_intros]: "good st (supersede_plan version i st)"
proof (cases "rollout_of st i")
  case (Some p)
  let ?st1 = "bump_sequence st"
  let ?p = "p\<lparr>pl_superseded := True, pl_updated_sequence := st_sequence ?st1\<rparr>"
  have "plan_evolves p ?p" by (simp add: plan_evolves_def live_def)
  then have "good ?st1 (put_rollout ?p ?st1)"
    using Some by (intro good_put_plan [of _ i p]) simp_all
  then have "good st (put_rollout ?p ?st1)" by (rule good_trans [OF good_bump])
  then have "good st ((put_rollout ?p ?st1)
      \<lparr>st_authority := snd (supersede_rollout (pl_id p) (pl_generation p) (st_authority (put_rollout ?p ?st1)))\<rparr>)"
    by (rule good_trans [OF _ good_supersede_rollout])
  then show ?thesis using Some by (simp add: supersede_plan_def Let_def)
qed (simp add: supersede_plan_def)

lemma good_apply_revision:
  assumes "version_of st m v = Some r"
  shows "good st (apply_revision q r st)"
proof -
  let ?st1 = "bump_sequence st"
  let ?r = "r\<lparr>vr_generation := next_generation (vr_generation r), vr_artifact := re_artifact q,
    vr_requirements := re_requirements q, vr_compatibility_generation := 0,
    vr_updated_sequence := st_sequence ?st1\<rparr>"
  have "version_evolves r ?r" by (rule version_evolves_still) (simp_all add: next_generation_le)
  then have "good ?st1 (put_version ?r ?st1)"
    using assms by (intro good_put_version [of _ m v r]) simp_all
  then have "good st (put_version ?r ?st1)" by (rule good_trans [OF good_bump])
  then have "good st ((put_version ?r ?st1)\<lparr>st_compatibility := c, st_evidence := e\<rparr>)" for c e
    by (rule good_then_frame) simp_all
  then show ?thesis unfolding apply_revision_def Let_def .
qed

lemma good_revise_version [good_intros]: "good st (snd (revise_version cfg q st))"
proof (cases "version_of st (re_model q) (re_version q)")
  case (Some r)
  note revised = good_apply_revision [OF Some, of q]
  have plans: "good st (supersede_plans (vr_version r) (apply_revision q r st))"
    unfolding supersede_plans_def by (rule good_trans [OF revised good_fold]) (rule good_supersede_plan)
  then have "good st (update_version (re_model q) (re_version q) (\<lambda>v. snd (transition LS_REVALIDATION_REQUIRED v))
      (supersede_plans (vr_version r) (apply_revision q r st)))"
    by (rule good_trans [OF _ good_transition]) simp
  then show ?thesis using Some revised plans by (simp add: revise_version_def Let_def)
qed (simp add: revise_version_def)

lemma good_register_scope [good_intros]: "good st (snd (snd (register_scope path st)))"
  using sr_wf_ensure_path [of "st_scopes st" path]
  by (auto simp: register_scope_def split: prod.splits intro!: good_scopes)

lemma good_set_policy [good_intros]: "good st (snd (set_policy p st))"
  by (auto simp: set_policy_def intro!: good_bumped good_frame)

lemma good_set_scope_policy [good_intros]: "good st (snd (set_scope_policy p st))"
  by (auto simp: set_scope_policy_def split: prod.splits intro!: good_bumped good_frame)

section \<open>Compatibility, evidence and workers\<close>

lemma good_advance_epoch [good_intros]: "good st (snd (snd (advance_epoch e st)))"
  by (auto simp: advance_epoch_def Let_def next_generation_le intro!: good_bumped good_frame)

lemma scan_version_found:
  assumes "st_wf st" and "scan_version st v = Some r"
  shows "version_of st (vr_model r) (vr_version r) = Some r"
proof -
  obtain k where k: "(k, r) \<in> set (st_versions st)"
    using assms(2) by (auto simp: scan_version_def find_Some_iff) (metis nth_mem surj_pair)
  have wf: "om_wf (st_versions st)" using assms(1) by (simp add: st_wf_def versions_ok_def)
  obtain m w where mw: "k = (m, w)" by fastforce
  then have "version_of st m w = Some r" using k om_entry_find [OF wf] by (simp add: version_of_def)
  moreover from this have "vr_model r = m" "vr_version r = w"
    using assms(1) unfolding st_wf_def versions_ok_def by blast+
  ultimately show ?thesis by simp
qed

lemma good_publish_compatibility [good_intros]:
  "good st (snd (publish_compatibility cfg version env out txt p st))"
proof (cases "st_wf st \<and> scan_version st version \<noteq> None")
  case True
  then obtain r where r: "scan_version st version = Some r" and wf: "st_wf st" by blast
  let ?st1 = "bump_sequence st"
  let ?r = "\<lambda>a. r\<lparr>vr_compatibility_generation := a, vr_updated_sequence := st_sequence ?st1\<rparr>"
  let ?s = "\<lambda>a. if vr_state (?r a) = LS_REGISTERED then snd (transition LS_VALIDATING (?r a)) else ?r a"
  have found: "version_of ?st1 (vr_model r) (vr_version r) = Some r"
    using scan_version_found [OF wf r] by simp
  have "version_evolves r (?r a)" for a by simp
  then have "version_evolves r (?s a)" for a
    using version_evolves_trans [OF _ version_evolves_transition [of "?r a" LS_VALIDATING]] by simp
  moreover have "vr_state (?s a) = LS_RETIRED \<Longrightarrow> vr_state r = LS_RETIRED" for a
    using transition_legal [of LS_VALIDATING "?r a"] by (auto split: if_splits)
  ultimately have put: "good ?st1 (put_version (?s a) ?st1)" for a
    by (intro good_put_version [OF found]) blast+
  have "good st (put_version (?s a) ?st1)" for a by (rule good_trans [OF good_bump put])
  then have "good st (put_version (?s a) (?st1\<lparr>st_compatibility := cr, st_next_compatibility_generation := n\<rparr>))" for a cr n
    by (rule good_then_frame) (simp_all add: put_version_def)
  then show ?thesis
    using r good_bump by (auto simp: publish_compatibility_def Let_def split: prod.splits)
qed (auto simp: good_def publish_compatibility_def)

lemma good_publish_evidence [good_intros]: "good st (snd (snd (engine_publish_evidence e st)))"
  by (auto simp: engine_publish_evidence_def Let_def split: option.splits prod.splits intro!: good_frame)

lemma good_expire_evidence [good_intros]: "good st (snd (expire_publisher_evidence boot st))"
  by (auto simp: expire_publisher_evidence_def split: prod.splits intro!: good_bumped good_frame)

lemma good_workers:
  assumes "om_wf (st_workers st) \<Longrightarrow> om_wf ws"
  shows "good st (st\<lparr>st_workers := ws\<rparr>)"
proof -
  let ?st = "st\<lparr>st_workers := ws\<rparr>"
  have same: "version_of ?st = version_of st" "rollout_of ?st = rollout_of st"
    by (auto simp: version_of_def rollout_of_def fun_eq_iff)
  then have "evolves st ?st" by (simp add: evolves_def)
  moreover have "st_wf st \<Longrightarrow> st_wf ?st"
    using assms same by (simp add: st_wf_def versions_ok_def rollouts_ok_def bound_ok_def held_def)
  ultimately show ?thesis by (simp add: good_def)
qed

lemma good_put_worker: "good st (st\<lparr>st_workers := om_put i l (st_workers st)\<rparr>)"
  by (rule good_workers) simp

lemma good_register_worker [good_intros]: "good st (snd (register_worker cfg q st))"
proof -
  have "good st ((bump_sequence st)\<lparr>st_workers := om_put i l (st_workers (bump_sequence st)),
      st_worker_liveness := w\<rparr>)" for i l w
    by (rule good_then_frame [OF good_trans [OF good_bump good_put_worker]]) simp_all
  then show ?thesis by (simp add: register_worker_def Let_def)
qed

lemma good_put_attempt:
  assumes "map_of (st_attempts st) i = Some a" and "\<not> is_settled (ap_state a)"
  shows "good st (st\<lparr>st_attempts := om_put i b (st_attempts st)\<rparr>)"
  using assms by (intro good_attempts) auto

lemma good_fence_attempt [good_intros]: "good st (fence_attempt boot i st)"
proof (cases "map_of (st_attempts st) i")
  case (Some a)
  have "ap_state a = AS_Dispatched \<Longrightarrow> good (bump_sequence st)
      ((bump_sequence st)\<lparr>st_attempts := om_put i b (st_attempts (bump_sequence st))\<rparr>)" for b
    using Some by (intro good_put_attempt) (auto simp: is_settled_def)
  then show ?thesis
    using Some good_trans [OF good_bump] by (simp add: fence_attempt_def Let_def)
qed (simp add: fence_attempt_def)

lemma good_fence_worker [good_intros]: "good st (snd (fence_worker i boot epoch why st))"
proof (cases "worker_of st i")
  case (Some lease)
  have fence: "good st ((bump_sequence st)\<lparr>st_workers := om_put i l (st_workers (bump_sequence st)),
      st_worker_liveness := w, st_evidence := e\<rparr>)" for l w e
    by (rule good_then_frame [OF good_trans [OF good_bump good_put_worker]]) simp_all
  show ?thesis
    using Some good_trans [OF fence good_fold [where f = "fence_attempt (wl_boot lease)", OF good_fence_attempt]]
    by (simp add: fence_worker_def Let_def)
qed (simp add: fence_worker_def)

lemma good_set_worker_liveness [good_intros]: "good st (snd (set_worker_liveness i connected st))"
  by (auto simp: set_worker_liveness_def intro!: good_frame)

section \<open>Promotion and rollback\<close>

text \<open>A live plan that dies with one more history entry.\<close>

lemma good_supersede_inflight [good_intros]: "good st (supersede_inflight model candidate i st)"
proof (cases "rollout_of st i")
  case (Some p)
  let ?st1 = "bump_sequence st"
  let ?p = "\<lambda>h. p\<lparr>pl_superseded := True, pl_stage_entered := False,
    pl_updated_sequence := st_sequence ?st1, pl_history := pl_history p @ [h]\<rparr>"
  let ?st2 = "\<lambda>h. (put_rollout (?p h) ?st1)\<lparr>st_authority :=
    snd (supersede_rollout (pl_id p) (pl_generation p) (st_authority (put_rollout (?p h) ?st1)))\<rparr>"
  have "plan_evolves p (?p h)" for h by (simp add: plan_evolves_def live_def)
  then have "good ?st1 (put_rollout (?p h) ?st1)" for h
    using Some by (intro good_put_plan [of _ i p]) simp_all
  then have two: "good st (?st2 h)" for h
    by (rule good_trans [OF good_trans [OF good_bump] good_supersede_rollout])
  then have "good st (snd (advance_version m v LS_DRAINING (?st2 h)))" for h m v
    by (rule good_trans [OF _ good_advance_version]) simp
  then show ?thesis using Some two by (simp add: supersede_inflight_def Let_def split: option.splits)
qed (simp add: supersede_inflight_def)

lemma good_commit_promotion [good_intros]: "good st (commit_promotion q promotion generation st)"
proof -
  let ?st1 = "bump_sequence st"
  have "good st (update_version m v (\<lambda>r. r\<lparr>vr_last_promotion := a, vr_promotion_generation := b,
      vr_updated_sequence := c\<rparr>) ?st1)" for m v a b c
    by (rule good_trans [OF good_bump good_update_version]) simp_all
  then show ?thesis
    unfolding commit_promotion_def Let_def by (rule good_then_frame) simp+
qed

lemma good_promote [good_intros]: "good st (snd (promote cfg q st))"
proof -
  have advanced: "good st st1 \<Longrightarrow> t \<noteq> LS_RETIRED \<Longrightarrow> good st (snd (advance_version m v t st1))" for st1 t m v
    by (rule good_trans [OF _ good_advance_version])
  have granted: "good st st1 \<Longrightarrow> good st (snd (grant_authority m v s g st1))" for st1 m v s g
    by (rule good_trans [OF _ good_grant_authority])
  have committed: "good st st1 \<Longrightarrow> good st (commit_promotion q p g st1)" for st1 p g
    by (rule good_trans [OF _ good_commit_promotion])
  have inflight: "good st (fold (supersede_inflight m c) is st)" for m c "is"
    by (rule good_fold [OF good_supersede_inflight])
  show ?thesis
    by (auto simp: promote_def Let_def case_prod_beta split: option.splits
        intro!: advanced granted committed inflight)
qed

lemma good_record_rollback [good_intros]: "good st (record_rollback rollout i generation st)"
proof -
  have close: "good s (close_rolled_back rollout s)" for s
  proof (cases "rollout_of s rollout")
    case (Some p)
    have "plan_evolves p (p\<lparr>pl_failed := True, pl_stage_entered := False, pl_history := pl_history p @ [h]\<rparr>)" for h
      by (simp add: plan_evolves_def live_def)
    then have "good (bump_sequence s) (put_rollout (p\<lparr>pl_failed := True, pl_stage_entered := False,
        pl_history := pl_history p @ [h]\<rparr>) (bump_sequence s))" for h
      using Some by (intro good_put_plan [of _ rollout p]) simp_all
    then show ?thesis using Some good_trans [OF good_bump] by (simp add: close_rolled_back_def Let_def)
  qed (simp add: close_rolled_back_def)
  have "good st (update_rollout rollout (\<lambda>p. p\<lparr>pl_last_rollback := a, pl_last_rollback_generation := b,
      pl_updated_sequence := c\<rparr>) (bump_sequence (close_rolled_back rollout st)))" for a b c
    by (rule good_trans [OF good_bumped [OF close] good_update_rollout]) (simp_all add: plan_evolves_def live_def)
  then show ?thesis by (simp add: record_rollback_def Let_def)
qed

lemma good_settle_candidate [good_intros]: "good st (settle_candidate m c s i g st)"
proof -
  have "good st (snd (advance_version m c (if b then LS_ROLLED_BACK else LS_PARTIALLY_PROMOTED)
      (st\<lparr>st_authority := snd (mark_draining m c s (st_authority st))\<rparr>)))" for b
    by (rule good_trans [OF good_mark_draining good_advance_version]) simp
  then have "good st (update_version m c (\<lambda>c. c\<lparr>vr_last_rollback := x, vr_rollback_generation := y,
      vr_updated_sequence := z\<rparr>) (bump_sequence (snd (advance_version m c (if b then LS_ROLLED_BACK else LS_PARTIALLY_PROMOTED)
      (st\<lparr>st_authority := snd (mark_draining m c s (st_authority st))\<rparr>)))))" for b x y z
    by (rule good_trans [OF good_bumped good_update_version]) simp_all
  then show ?thesis by (simp only: settle_candidate_def Let_def)
qed

lemma good_rollback [good_intros]: "good st (snd (rollback q st))"
proof -
  let ?st1 = "st\<lparr>st_authority := snd (supersede_scope (kq_scope q) (st_authority st))\<rparr>"
  let ?st2 = "\<lambda>i g. snd (grant_authority (kq_model q) (kq_target q) (kq_scope q) (rollback_grant i g) ?st1)"
  let ?st5 = "\<lambda>i g. record_rollback (kq_rollout q) i g (settle_candidate (kq_model q) (kq_candidate q) (kq_scope q) i g
    (stamp_version (kq_model q) (kq_target q) (snd (advance_version (kq_model q) (kq_target q) LS_CURRENT (?st2 i g)))))"
  have two: "good st (?st2 i g)" for i g
    by (rule good_trans [OF good_supersede_scope good_grant_authority])
  have five: "good st (?st5 i g)" for i g
    by (intro good_trans [OF _ good_record_rollback] good_trans [OF _ good_settle_candidate]
        good_trans [OF _ good_stamp_version] good_trans [OF _ good_advance_version] two) simp
  have "good st ((?st5 i g)\<lparr>st_scopes := touch (kq_scope q) (st_scopes (?st5 i g))\<rparr>)" for i g
    by (rule good_trans [OF five good_touch])
  then have "good st ((?st5 i g)\<lparr>st_next_rollback_id := a, st_committed_rollbacks := c,
      st_scopes := touch (kq_scope q) (st_scopes (?st5 i g))\<rparr>)" for i g a c
    by (rule good_then_frame) simp+
  then show ?thesis
    using two by (simp add: rollback_def Let_def case_prod_beta split: option.splits)
qed

end
