(* ===== verification/Mlf_Plan_Steps.thy ===== *)
theory Mlf_Plan_Steps
  imports Mlf_Operations
begin

text \<open>
  The remaining operations keep the invariant and evolve the state: retirement, revalidation,
  attempts, the stages of a rollout and the withdrawal of volatile state.
\<close>

section \<open>Retirement and revalidation\<close>

lemma good_touch_bound [good_intros]: "good st (touch_bound_scopes m v st)"
proof -
  have "sr_wf (fold (\<lambda>b. touch (b_scope b)) bs sr)" if "sr_wf sr" for bs :: "authority_binding list" and sr
    using that by (induction bs arbitrary: sr) (auto intro: sr_wf_touch)
  then show ?thesis unfolding touch_bound_scopes_def by (intro good_scopes) blast
qed

lemma good_retire_plan [good_intros]: "good st (retire_plan version i st)"
proof (cases "rollout_of st i")
  case (Some p)
  let ?p = "p\<lparr>pl_superseded := True, pl_stage_entered := False,
    pl_updated_sequence := st_sequence (bump_sequence st)\<rparr>"
  have "plan_evolves p ?p" by (simp add: plan_evolves_def live_def)
  then have "good (bump_sequence st) (put_rollout ?p (bump_sequence st))"
    using Some by (intro good_put_plan [of _ i p]) simp_all
  then show ?thesis using Some good_trans [OF good_bump] by (simp add: retire_plan_def Let_def)
qed (simp add: retire_plan_def)

lemma retire_plan_fields [simp]:
  "st_authority (retire_plan version i st) = st_authority st"
  "version_of (retire_plan version i st) = version_of st"
  by (simp_all add: retire_plan_def Let_def split: option.splits)

lemma fold_retire_fields [simp]:
  "st_authority (fold (retire_plan version) is st) = st_authority st"
  "version_of (fold (retire_plan version) is st) = version_of st"
  by (induction "is" arbitrary: st) simp_all

lemma fenced_not_live:
  "b \<in> set (live_bindings_for (fence_version m v t) s) \<Longrightarrow> \<not> (b_model b = m \<and> b_version b = v)"
proof -
  assume b: "b \<in> set (live_bindings_for (fence_version m v t) s)"
  define f where "f = mark_live (\<lambda>b :: authority_binding. b_model b = m \<and> b_version b = v) supersede"
  have "bindings_for (fence_version m v t) s = f (bindings_for t s)"
    unfolding fence_version_def f_def by (rule bindings_for_map) (simp add: mark_live_def)
  then have "b \<in> set (f (bindings_for t s))" and live: "\<not> b_superseded b"
    using b by (simp_all add: live_bindings_for_def)
  then obtain b0 where "b = (if \<not> b_superseded b0 \<and> b_model b0 = m \<and> b_version b0 = v then supersede b0 else b0)"
    unfolding f_def mark_live_def set_map by blast
  then show ?thesis using live by (simp add: supersede_def split: if_splits)
qed

text \<open>Once fenced, a generation may become retired: no live binding names it.\<close>

lemma good_advance_fenced:
  assumes "\<And>s b. b \<in> set (live_bindings_for (st_authority st) s) \<Longrightarrow> \<not> (b_model b = m \<and> b_version b = v)"
  shows "good st (snd (advance_version m v t st))"
proof (cases "version_of st m v")
  case (Some r)
  have "good st (put_version (snd (advance_lifecycle_to t r)) st)"
    by (rule good_put_version [OF Some version_evolves_advance]) (use assms in blast)
  then show ?thesis using Some by (simp add: advance_version_def case_prod_beta)
qed (simp add: advance_version_def)

lemma good_retire [good_intros]: "good st (snd (retire q st))"
proof (cases "st_wf st \<and> version_of st (tq_model q) (tq_version q) \<noteq> None")
  case True
  then obtain r where r: "version_of st (tq_model q) (tq_version q) = Some r" by blast
  then have key: "vr_model r = tq_model q" "vr_version r = tq_version q"
    using True unfolding st_wf_def versions_ok_def by blast+
  let ?st1 = "st\<lparr>st_authority := fence_version (tq_model q) (tq_version q) (st_authority st)\<rparr>"
  let ?st2 = "touch_bound_scopes (tq_model q) (tq_version q) ?st1"
  let ?st3 = "\<lambda>is. fold (retire_plan (tq_version q)) is ?st2"
  have three: "good st (?st3 is)" for "is"
    by (rule good_trans [OF good_trans [OF good_fence_version good_touch_bound] good_fold [OF good_retire_plan]])
  have "st_authority (?st3 is) = fence_version (tq_model q) (tq_version q) (st_authority st)" for "is"
    by (simp add: touch_bound_scopes_def)
  then have "good (?st3 is) (snd (advance_version (tq_model q) (tq_version q) LS_RETIRED (?st3 is)))" for "is"
    by (intro good_advance_fenced) (metis fenced_not_live)
  then have four: "good st (snd (advance_version (tq_model q) (tq_version q) LS_RETIRED (?st3 is)))" for "is"
    by (rule good_trans [OF three])
  then have "good st (stamp_version m v (snd (advance_version (tq_model q) (tq_version q) LS_RETIRED (?st3 is))))" for m v "is"
    by (rule good_trans [OF _ good_stamp_version])
  then show ?thesis using r key four by (simp add: retire_def Let_def case_prod_beta)
next
  case False
  then show ?thesis by (auto simp: good_def retire_def Let_def)
qed

lemma fewer_live_withdraw: "fewer_live t (withdraw_scope m v s t)"
  by (simp add: withdraw_scope_def fewer_live_scope)

lemma at_wf_withdraw: "at_wf t \<Longrightarrow> at_wf (withdraw_scope m v s t)"
  by (simp add: withdraw_scope_def at_wf_supersede_scope)

lemma good_revalidate [good_intros]: "good st (snd (revalidate q st))"
proof (cases "version_of st (vq_model q) (vq_version q)")
  case (Some r)
  let ?r = "r\<lparr>vr_compatibility_generation := 0\<rparr>"
  define t where "t = fold (withdraw_scope (vr_model r) (vr_version r)) (map fst (at_bindings (st_authority st)))
    (st_authority st)"
  have fewer: "fewer_live a (fold (withdraw_scope m v) ss a)" for m v ss a
    by (induction ss arbitrary: a) (auto intro: fewer_live_trans fewer_live_withdraw)
  have wf: "at_wf a \<Longrightarrow> at_wf (fold (withdraw_scope m v) ss a)" for m v ss a
    by (induction ss arbitrary: a) (auto intro: at_wf_withdraw)
  have "good st (put_version ?r st)"
    by (rule good_put_version [OF Some]) (simp_all add: version_evolves_still)
  then have "good st ((put_version ?r st)\<lparr>st_authority := t\<rparr>)"
    by (rule good_trans [OF _ good_fewer_live]) (simp_all add: t_def fewer wf)
  then have "good st ((put_version ?r st)\<lparr>st_compatibility := c, st_evidence := e, st_authority := t\<rparr>)" for c e
    by (rule good_then_frame) simp+
  then have "good st (stamp_version m v (snd (advance_version m v LS_REVALIDATION_REQUIRED
      ((put_version ?r st)\<lparr>st_compatibility := c, st_evidence := e, st_authority := t\<rparr>))))" for m v c e
    by (intro good_trans [OF _ good_stamp_version] good_trans [OF _ good_advance_version]) simp_all
  then show ?thesis using Some by (simp add: revalidate_def Let_def t_def)
qed (simp add: revalidate_def)

section \<open>Attempts\<close>

lemma good_begin_attempt [good_intros]: "good st (snd (begin_attempt cfg q st))"
proof -
  have "good (bump_sequence st) ((bump_sequence st)\<lparr>st_attempts := om_emplace i a (st_attempts (bump_sequence st))\<rparr>)" for i a
    by (rule good_attempts) (auto simp: find_emplace)
  then have "good st ((bump_sequence st)\<lparr>st_attempts := om_emplace i a (st_attempts (bump_sequence st))\<rparr>)" for i a
    by (rule good_trans [OF good_bump])
  then have "good st ((bump_sequence st)\<lparr>st_next_attempt_id := n,
      st_attempts := om_emplace i a (st_attempts (bump_sequence st))\<rparr>)" for i a n
    by (rule good_then_frame) simp+
  then show ?thesis by (simp add: begin_attempt_def Let_def split: option.splits)
qed

lemma good_settle_attempt:
  assumes "map_of (st_attempts st) i = Some a" and "\<not> is_settled (ap_state a)"
  shows "good st (settle_attempt i b s d st)"
  unfolding settle_attempt_def Let_def put_attempt_def
  by (rule good_trans [OF good_bump good_put_attempt [of _ i a]]) (simp_all add: assms)

lemma good_complete_attempt [good_intros]: "good st (snd (complete_attempt c st))"
  by (auto simp: complete_attempt_def is_settled_def split: option.splits intro: good_settle_attempt)

lemma good_reconcile_attempt [good_intros]: "good st (snd (reconcile_attempt i seen epoch txt st))"
  by (auto simp: reconcile_attempt_def is_settled_def split: option.splits intro: good_settle_attempt)

section \<open>Rollouts\<close>

lemma grant_authority_rollouts [simp]:
  "st_rollouts (snd (grant_authority m v s q st)) = st_rollouts st"
proof -
  have advance: "st_rollouts (snd (advance_version m v t s)) = st_rollouts s" for m v t s
    by (simp add: advance_version_def put_version_def case_prod_beta split: option.splits)
  have "st_rollouts (snd (settle_displaced a g q b s)) = st_rollouts s" for a g b s
    by (simp add: settle_displaced_def Let_def case_prod_beta advance split: option.splits)
  then show ?thesis
    by (simp add: grant_authority_cases Let_def case_prod_beta split: option.splits)
qed

lemma advance_version_rollouts [simp]: "st_rollouts (snd (advance_version m v t st)) = st_rollouts st"
  by (simp add: advance_version_def put_version_def case_prod_beta split: option.splits)

lemma update_version_rollouts [simp]: "st_rollouts (update_version m v f st) = st_rollouts st"
  by (simp add: update_version_def put_version_def split: option.splits)

lemma drain_previous_rollouts [simp]: "st_rollouts (drain_previous p stage s st) = st_rollouts st"
  by (simp add: drain_previous_def Let_def split: option.splits)

lemma grant_scopes_rollouts:
  assumes "\<And>s st. st_rollouts (after s st) = st_rollouts st"
  shows "st_rollouts (snd (grant_scopes m v q after ss st)) = st_rollouts st"
  by (induction ss arbitrary: st) (simp_all add: case_prod_beta assms)

lemma good_grant_scopes:
  assumes "\<And>s st. good st (after s st)"
  shows "good st (snd (grant_scopes m v q after ss st))"
proof (induction ss arbitrary: st)
  case (Cons s ss)
  let ?st1 = "snd (grant_authority m v s q st)"
  have "good st (after s ?st1)" by (rule good_trans [OF good_grant_authority assms])
  then show ?case
    using good_trans [OF _ Cons.IH [of "after s ?st1"]] by (simp add: case_prod_beta good_grant_authority)
qed simp

lemma good_drain_previous [good_intros]: "good st (drain_previous p stage s st)"
proof -
  let ?st1 = "st\<lparr>st_authority := snd (mark_draining (pl_model p) (pl_previous p) s (st_authority st))\<rparr>"
  have "good st (snd (advance_version m v LS_DRAINING ?st1))" for m v
    by (rule good_trans [OF good_mark_draining good_advance_version]) simp
  then show ?thesis
    by (auto simp: drain_previous_def Let_def intro: good_mark_draining split: option.splits)
qed

lemma good_refresh_root [good_intros]: "good st (refresh_root i st)"
  unfolding refresh_root_def
  by (rule good_update_rollout) (auto simp: plan_evolves_def live_def split: option.splits)

lemma good_enter_stage:
  assumes "rollout_of st i = Some p" and "pl_current_stage_index p \<le> n" and "n < length (pl_stages p)"
  shows "good st (snd (enter_stage n stage p st))"
  unfolding enter_stage_def Let_def snd_conv
proof (rule good_trans [OF good_bump])
  show "good (bump_sequence st) (put_rollout (p\<lparr>pl_current_stage_index := n,
      pl_current_stage_generation := next_generation (pl_current_stage_generation p),
      pl_stage_entered := True, pl_updated_sequence := u, pl_history := pl_history p @ h\<rparr>) (bump_sequence st))" for u h
    using assms by (intro good_put_rollout [of _ i p]) (simp_all add: plan_evolves_def live_def next_generation_le)
qed

text \<open>The allocators of stage and cohort identities are outside the invariant.\<close>

lemma good_allocating [simp]:
  "good st (st\<lparr>st_next_cohort_id := i\<rparr>)" "good st (st\<lparr>st_next_stage_id := i\<rparr>)"
  by (rule good_frame; simp)+

lemmas good_allocated = good_trans [OF good_allocating(1)] good_trans [OF good_allocating(2)]

lemma good_build_cohorts: "good st (snd (build_cohorts cfg root specs names built st))"
proof (induction specs arbitrary: names built st)
  case (Cons spec specs)
  then show ?case by (auto simp: Let_def split: option.splits intro: good_allocated(1))
qed simp

lemma good_build_stages: "good st (snd (build_stages cfg cohorts specs used built st))"
proof (induction specs arbitrary: used built st)
  case (Cons spec specs)
  then show ?case by (auto simp: Let_def split: sum.splits intro: good_allocated(2))
qed simp

lemma build_stages_length:
  "fst (build_stages cfg cohorts specs used built st) = Inr stages \<Longrightarrow>
   length stages = length built + length specs"
  by (induction specs arbitrary: used built st) (auto simp: Let_def split: if_splits sum.splits)

lemma good_commit_plan:
  assumes "plan_ok p"
  shows "good st (commit_plan p st)"
proof -
  let ?st2 = "\<lambda>a b c. update_version (pl_model p) (pl_candidate p)
    (\<lambda>r. r\<lparr>vr_rollout := a, vr_rollout_generation := b, vr_updated_sequence := c\<rparr>) (bump_sequence st)"
  have two: "good st (?st2 a b c)" for a b c
    by (rule good_trans [OF good_bump good_update_version]) simp_all
  have "good st ((?st2 a b c)\<lparr>st_rollouts := om_emplace (pl_id p) p (st_rollouts (?st2 a b c))\<rparr>)" for a b c
    by (rule good_trans [OF two good_emplace_rollout [OF assms refl]])
  then have "good st ((?st2 a b c)\<lparr>st_next_rollout_id := n,
      st_rollouts := om_emplace (pl_id p) p (st_rollouts (?st2 a b c))\<rparr>)" for a b c n
    by (rule good_then_frame) simp+
  then show ?thesis unfolding commit_plan_def Let_def by simp
qed

lemma good_create_rollout [good_intros]: "good st (snd (snd (snd (create_rollout cfg q st))))"
proof (cases "version_of st (nq_model q) (nq_candidate q)")
  case (Some r)
  let ?st1 = "bump_sequence st"
  let ?c = "build_cohorts cfg (nq_root_scope q) (nq_cohorts q) [] [] ?st1"
  have two: "good st (snd ?c)" by (rule good_trans [OF good_bump good_build_cohorts])
  have three: "good st (snd (build_stages cfg cs (nq_stages q) [] [] (snd ?c)))" for cs
    by (rule good_trans [OF two good_build_stages])
  have "good st (commit_plan (new_plan cfg q r st cs ss n) (snd (build_stages cfg cs (nq_stages q) [] [] (snd ?c))))"
    if "ss \<noteq> []" for cs ss n
    by (rule good_trans [OF three good_commit_plan]) (use that in \<open>simp add: plan_ok_def new_plan_def\<close>)
  moreover have "ss \<noteq> []" if "plan_shape_fault cfg q r st = None"
      and "fst (build_stages cfg cs (nq_stages q) [] [] s) = Inr ss" for cs ss s
  proof -
    have "nq_stages q \<noteq> []" using that(1) by (auto simp: plan_shape_fault_def Let_def split: option.splits if_splits)
    then show ?thesis using build_stages_length [OF that(2)] by auto
  qed
  ultimately show ?thesis
    using Some two three
    by (auto simp: create_rollout_def Let_def case_prod_beta split: option.splits sum.splits)
qed (simp add: create_rollout_def)

lemma good_begin_rollout [good_intros]: "good st (snd (begin_rollout q st))"
proof (cases "\<exists>p r stage. rollout_of st (xq_rollout q) = Some p \<and> begin_guard q p st = None \<and>
    version_of st (pl_model p) (pl_candidate p) = Some r \<and> stage_at p 0 = Some stage")
  case True
  then obtain p r stage where found: "rollout_of st (xq_rollout q) = Some p" "begin_guard q p st = None"
      "version_of st (pl_model p) (pl_candidate p) = Some r" "stage_at p 0 = Some stage" by blast
  have zero: "pl_current_stage_index p = 0"
    using found(2) by (auto simp: begin_guard_def split: if_splits)
  have "0 < length (pl_stages p)" using found(4) by (auto simp: stage_at_def split: if_splits)
  then have one: "good st (snd (enter_stage 0 stage p st))"
    by (intro good_enter_stage [OF found(1)]) (simp_all add: zero)
  let ?st2 = "snd (advance_version (pl_model p) (pl_candidate p) LS_CANARY_ACTIVE (snd (enter_stage 0 stage p st)))"
  let ?st4 = "\<lambda>a b c. update_version (pl_model p) (pl_candidate p) (\<lambda>v. v\<lparr>vr_current_stage := a,
    vr_current_stage_generation := b, vr_updated_sequence := c\<rparr>) (bump_sequence ?st2)"
  have two: "good st ?st2" by (rule good_trans [OF one good_advance_version]) simp
  have four: "good st (?st4 a b c)" for a b c
    by (rule good_trans [OF good_bumped [OF two] good_update_version]) (simp_all add: version_evolves_still)
  have five: "good st (snd (grant_scopes m v g (\<lambda>_ s. s) ss (?st4 a b c)))" for a b c m v g ss
    by (rule good_trans [OF four good_grant_scopes]) simp
  then have "good st (refresh_root i (snd (grant_scopes m v g (\<lambda>_ s. s) ss (?st4 a b c))))" for a b c m v g ss i
    by (rule good_trans [OF _ good_refresh_root])
  then show ?thesis
    using found two five by (simp add: begin_rollout_def Let_def case_prod_beta split: option.splits)
next
  case False
  then show ?thesis by (auto simp: begin_rollout_def split: option.splits)
qed

end
