(* ===== verification/Mlf_Stage_Steps.thy ===== *)
theory Mlf_Stage_Steps
  imports Mlf_Plan_Steps
begin

text \<open>
  The stage operations keep the invariant and evolve the state: the two paths of an advance,
  the failure and the supersession of a rollout, and the withdrawal of volatile state.
\<close>

section \<open>Failing\<close>

lemma good_fail_plan:
  assumes "rollout_of st i = Some p"
  shows "good st (fail_plan p stage entered reasons st)"
proof -
  let ?st2 = "bump_sequence (bump_sequence st)"
  let ?p = "\<lambda>h u. p\<lparr>pl_history := pl_history p @ [h], pl_failed := True, pl_stage_entered := entered,
    pl_updated_sequence := u\<rparr>"
  let ?st3 = "\<lambda>h u. (put_rollout (?p h u) ?st2)\<lparr>st_authority :=
    snd (supersede_rollout (pl_id p) (pl_generation p) (st_authority (put_rollout (?p h u) ?st2)))\<rparr>"
  have "plan_evolves p (?p h u)" for h u by (simp add: plan_evolves_def live_def)
  then have "good ?st2 (put_rollout (?p h u) ?st2)" for h u
    using assms by (intro good_put_plan [of _ i p]) simp_all
  then have "good st (?st3 h u)" for h u
    by (rule good_trans [OF good_trans [OF good_bumped [OF good_bump]] good_supersede_rollout])
  then have "good st (stamp_version m v (snd (advance_version m v LS_CANARY_FAILED (?st3 h u))))" for m v h u
    by (intro good_trans [OF _ good_stamp_version] good_trans [OF _ good_advance_version]) simp_all
  then show ?thesis by (simp add: fail_plan_def Let_def)
qed

lemma good_commit_automatic_rollback [good_intros]: "good st (commit_automatic_rollback k r st)"
proof -
  let ?st1 = "st\<lparr>st_authority := snd (supersede_scope (kq_scope k) (st_authority st))\<rparr>"
  let ?st2 = "\<lambda>i g. snd (grant_authority (kq_model k) (kq_candidate k) (kq_scope k) (failure_grant i g k) ?st1)"
  let ?st3 = "\<lambda>i g. if version_of (?st2 i g) (kq_model k) (kq_target k) = None then ?st2 i g
    else stamp_version (kq_model k) (kq_target k)
      (snd (advance_version (kq_model k) (kq_target k) LS_CURRENT (?st2 i g)))"
  have two: "good st (?st2 i g)" for i g
    by (rule good_trans [OF good_supersede_scope good_grant_authority])
  have "good st (stamp_version m v (snd (advance_version m v LS_CURRENT (?st2 i g))))" for i g m v
    by (intro good_trans [OF _ good_stamp_version] good_trans [OF _ good_advance_version] two) simp
  then have three: "good st (?st3 i g)" for i g using two by simp
  have five: "good st (update_rollout (kq_rollout k)
      (\<lambda>p. p\<lparr>pl_last_rollback := a, pl_last_rollback_generation := b\<rparr>)
      (update_version (kq_model k) (kq_candidate k)
        (\<lambda>v. v\<lparr>vr_last_rollback := a, vr_rollback_generation := b\<rparr>) (?st3 i g)))" for i g a b
    by (intro good_trans [OF _ good_update_rollout] good_trans [OF _ good_update_version] three)
       (simp_all add: plan_evolves_def live_def)
  have six: "good st st5 \<Longrightarrow> good st (st5\<lparr>st_next_rollback_id := n, st_committed_rollbacks := c\<rparr>)" for st5 n c
    by (rule good_then_frame) simp+
  have seven: "good st st6 \<Longrightarrow> good st (snd (advance_version m v LS_ROLLED_BACK st6))" for st6 m v
    by (rule good_trans [OF _ good_advance_version]) simp_all
  have eight: "good st st7 \<Longrightarrow> good st (st7\<lparr>st_scopes := touch s (st_scopes st7)\<rparr>)" for st7 s
    by (rule good_trans [OF _ good_touch])
  show ?thesis
    unfolding commit_automatic_rollback_def Let_def by (intro eight seven six five)
qed

lemma good_advance_failed:
  assumes "rollout_of st i = Some p"
  shows "good st (snd (advance_failed q p stage verdict st))"
  using good_fail_plan [OF assms] good_trans [OF good_fail_plan [OF assms] good_commit_automatic_rollback]
  by (simp add: advance_failed_def Let_def split: option.splits)

section \<open>Succeeding\<close>

lemma good_finish_advance [good_intros]: "good st (snd (finish_advance p st))"
  by (simp add: finish_advance_def good_trans [OF good_refresh_root good_stamp_version])

lemma good_complete_plan:
  assumes "rollout_of st i = Some p"
  shows "good st (snd (complete_plan p st))"
proof -
  let ?p = "p\<lparr>pl_completed := True, pl_stage_entered := False,
    pl_updated_sequence := st_sequence (bump_sequence st)\<rparr>"
  have "plan_evolves p ?p" by (simp add: plan_evolves_def live_def)
  then have "good (bump_sequence st) (put_rollout ?p (bump_sequence st))"
    using assms by (intro good_put_plan [of _ i p]) simp_all
  then have "good st (put_rollout ?p (bump_sequence st))" by (rule good_trans [OF good_bump])
  then have "good st (snd (finish_advance p (snd (advance_version m v LS_CURRENT (put_rollout ?p (bump_sequence st))))))" for m v
    by (intro good_trans [OF _ good_finish_advance] good_trans [OF _ good_advance_version]) simp_all
  then show ?thesis by (simp add: complete_plan_def Let_def)
qed

lemma good_next_stage:
  assumes "rollout_of st i = Some p" and "stage_at p (pl_current_stage_index p + 1) = Some stage"
  shows "good st (snd (next_stage p stage st))"
proof -
  let ?n = "pl_current_stage_index p + 1"
  let ?st1 = "snd (enter_stage ?n stage p st)"
  let ?st3 = "\<lambda>a b. update_version (pl_model p) (pl_candidate p)
    (\<lambda>v. v\<lparr>vr_current_stage := a, vr_current_stage_generation := b\<rparr>)
    (snd (advance_version (pl_model p) (pl_candidate p) LS_PARTIALLY_PROMOTED ?st1))"
  have "?n < length (pl_stages p)" using assms(2) by (auto simp: stage_at_def split: if_splits)
  then have one: "good st ?st1" by (intro good_enter_stage [OF assms(1)]) simp_all
  have three: "good st (?st3 a b)" for a b
    by (intro good_trans [OF _ good_update_version] good_trans [OF _ good_advance_version] one) simp_all
  have four: "good st (snd (grant_scopes m v g (\<lambda>_ s. s) ss (?st3 a b)))" for a b m v g ss
    by (rule good_trans [OF three good_grant_scopes]) simp
  then have "good st (snd (finish_advance p' (snd (grant_scopes m v g (\<lambda>_ s. s) ss (?st3 a b)))))" for a b m v g ss p'
    by (rule good_trans [OF _ good_finish_advance])
  then show ?thesis using four by (simp add: next_stage_def Let_def case_prod_beta)
qed

lemma good_advance_succeeded:
  assumes "rollout_of st i = Some p" and "st_wf st"
  shows "good st (snd (advance_succeeded p stage st))"
proof -
  let ?st2 = "bump_sequence (bump_sequence st)"
  let ?p = "\<lambda>h u. p\<lparr>pl_history := pl_history p @ [h], pl_updated_sequence := u\<rparr>"
  have id: "pl_id p = i" using assms unfolding st_wf_def rollouts_ok_def by blast
  have "plan_evolves p (?p h u)" for h u by (simp add: plan_evolves_def live_def)
  then have "good ?st2 (put_rollout (?p h u) ?st2)" for h u
    using assms by (intro good_put_plan [of _ i p]) simp_all
  then have two: "good st (put_rollout (?p h u) ?st2)" for h u
    by (rule good_trans [OF good_bumped [OF good_bump]])
  define st3 where "st3 = (\<lambda>m v g h u h' u' ss. snd (grant_scopes m v g (drain_previous (?p h' u') stage) ss (put_rollout (?p h u) ?st2)))"
  have three: "good st (st3 m v g h u h' u' ss)" for m v g h u h' u' ss
    unfolding st3_def by (rule good_trans [OF two good_grant_scopes]) (rule good_drain_previous)
  have "st_rollouts (st3 m v g h u h' u' ss) = st_rollouts (put_rollout (?p h u) ?st2)" for m v g h u h' u' ss
    unfolding st3_def by (rule grant_scopes_rollouts) simp
  then have there: "rollout_of (st3 m v g h u h' u' ss) i = Some (?p h u)" for m v g h u h' u' ss
    by (simp add: rollout_of_def put_rollout_def id)
  have complete: "good st (snd (complete_plan (?p h u) (st3 m v g h u h' u' ss)))" for m v g h u h' u' ss
    by (rule good_trans [OF three good_complete_plan [OF there]])
  have "stage_at (?p h u) n = stage_at p n" for h u n by (simp add: stage_at_def)
  then have further: "good st (snd (next_stage (?p h u) s (st3 m v g h u h' u' ss)))"
    if "stage_at p (pl_current_stage_index p + 1) = Some s" for s m v g h u h' u' ss
    by (intro good_trans [OF three good_next_stage [OF there]]) (use that in simp)
  show ?thesis
    using three complete further
    unfolding advance_succeeded_def Let_def st3_def by (simp add: case_prod_beta split: option.splits)
qed

lemma good_advance_stage [good_intros]: "good st (snd (advance_stage q st))"
proof (cases "st_wf st")
  case True
  show ?thesis
  proof (cases "rollout_of st (xq_rollout q)")
    case (Some p)
    then show ?thesis
      using good_advance_failed [OF Some] good_advance_succeeded [OF Some True]
      by (simp add: advance_stage_def Let_def split: option.splits)
  qed (simp add: advance_stage_def Let_def)
qed (simp add: good_def)

lemma good_fail_stage [good_intros]: "good st (snd (fail_stage q st))"
proof (cases "rollout_of st (xq_rollout q)")
  case (Some p)
  then show ?thesis
    using good_fail_plan [OF Some] by (simp add: fail_stage_def split: option.splits)
qed (simp add: fail_stage_def)

lemma good_engine_supersede_rollout [good_intros]:
  "good st (snd (engine_supersede_rollout i generation epoch why st))"
proof (cases "rollout_of st i")
  case (Some p)
  let ?st1 = "bump_sequence st"
  let ?p = "\<lambda>h. p\<lparr>pl_superseded := True, pl_stage_entered := False,
    pl_updated_sequence := st_sequence ?st1, pl_history := pl_history p @ [h]\<rparr>"
  let ?st2 = "\<lambda>h. (put_rollout (?p h) ?st1)\<lparr>st_authority :=
    snd (supersede_rollout (pl_id p) (pl_generation p) (st_authority (put_rollout (?p h) ?st1)))\<rparr>"
  have "plan_evolves p (?p h)" for h by (simp add: plan_evolves_def live_def)
  then have "good ?st1 (put_rollout (?p h) ?st1)" for h
    using Some by (intro good_put_plan [of _ i p]) simp_all
  then have two: "good st (?st2 h)" for h
    by (rule good_trans [OF good_trans [OF good_bump] good_supersede_rollout])
  then have "good st (stamp_version m v (snd (advance_version m v LS_DRAINING (?st2 h))))" for h m v
    by (intro good_trans [OF _ good_stamp_version] good_trans [OF _ good_advance_version]) simp_all
  then show ?thesis
    using Some two by (simp add: engine_supersede_rollout_def Let_def split: option.splits)
qed (simp add: engine_supersede_rollout_def)

section \<open>Withdrawing volatile state\<close>

lemma good_stamp_entered_plan [good_intros]: "good st (stamp_entered_plan i st)"
proof (cases "rollout_of st i")
  case (Some p)
  let ?p = "p\<lparr>pl_updated_sequence := st_sequence (bump_sequence st)\<rparr>"
  have "plan_evolves p ?p" by (simp add: plan_evolves_def live_def)
  then have "good (bump_sequence st) (put_rollout ?p (bump_sequence st))"
    using Some by (intro good_put_plan [of _ i p]) simp_all
  then show ?thesis using Some good_trans [OF good_bump] by (simp add: stamp_entered_plan_def Let_def)
qed (simp add: stamp_entered_plan_def)

lemma good_invalidate_volatile_state [good_intros]: "good st (invalidate_volatile_state cause st)"
proof -
  have "good st (st\<lparr>st_workers := om_map f (st_workers st)\<rparr>)" for f by (rule good_workers) simp
  then have "good st (st\<lparr>st_workers := om_map f (st_workers st), st_worker_liveness := l,
      st_rollout_driver_boot := b, st_evidence := e\<rparr>)" for f l b e
    by (rule good_then_frame) simp+
  then have "good st (fold stamp_entered_plan is (st\<lparr>st_workers := om_map f (st_workers st),
      st_worker_liveness := l, st_rollout_driver_boot := b, st_evidence := e\<rparr>))" for f l b e "is"
    by (rule good_trans [OF _ good_fold [OF good_stamp_entered_plan]])
  then show ?thesis unfolding invalidate_volatile_state_def Let_def by (intro good_bumped)
qed

end
