(* ===== verification/Mlf_Engine.thy ===== *)
theory Mlf_Engine
  imports Mlf_Stage_Steps
begin

text \<open>
  The engine as a state machine: its public operations as commands, the states they reach
  from a fresh engine or from a recovered snapshot, and what holds of every such state.
\<close>

section \<open>Commands\<close>

text \<open>One constructor per operation of the class that changes state.\<close>

datatype engine_command =
    Register_Model string string provenance
  | Register_Version register_version_request
  | Revise_Version revise_version_request
  | Register_Scope string
  | Set_Policy lifecycle_policy
  | Set_Scope_Policy scope_policy_override
  | Publish_Compatibility u64 environment_profile compatibility_outcome string provenance
  | Publish_Evidence evidence_record
  | Expire_Publisher_Evidence u64
  | Register_Worker worker_registration
  | Fence_Worker u64 u64 u64 string
  | Set_Worker_Liveness u64 bool
  | Promote promotion_request
  | Create_Rollout rollout_plan_request
  | Begin_Rollout progress_request
  | Advance_Stage progress_request
  | Fail_Stage progress_request
  | Supersede_Rollout u64 u64 u64 string
  | Rollback rollback_request
  | Retire retirement_request
  | Revalidate revalidation_request
  | Begin_Attempt attempt_request
  | Complete_Attempt completion_record
  | Reconcile_Attempt u64 bool u64 string
  | Advance_Epoch u64
  | Invalidate_Volatile_State string

fun run_command :: "engine_config \<Rightarrow> engine_command \<Rightarrow> engine \<Rightarrow> engine" where
  "run_command cfg (Register_Model name family p) st = snd (snd (register_model cfg name family p st))"
| "run_command cfg (Register_Version q) st = snd (snd (register_version cfg q st))"
| "run_command cfg (Revise_Version q) st = snd (revise_version cfg q st)"
| "run_command cfg (Register_Scope path) st = snd (snd (register_scope path st))"
| "run_command cfg (Set_Policy p) st = snd (set_policy p st)"
| "run_command cfg (Set_Scope_Policy p) st = snd (set_scope_policy p st)"
| "run_command cfg (Publish_Compatibility v env out txt p) st = snd (publish_compatibility cfg v env out txt p st)"
| "run_command cfg (Publish_Evidence e) st = snd (snd (engine_publish_evidence e st))"
| "run_command cfg (Expire_Publisher_Evidence boot) st = snd (expire_publisher_evidence boot st)"
| "run_command cfg (Register_Worker q) st = snd (register_worker cfg q st)"
| "run_command cfg (Fence_Worker i boot epoch why) st = snd (fence_worker i boot epoch why st)"
| "run_command cfg (Set_Worker_Liveness i connected) st = snd (set_worker_liveness i connected st)"
| "run_command cfg (Promote q) st = snd (promote cfg q st)"
| "run_command cfg (Create_Rollout q) st = snd (snd (snd (create_rollout cfg q st)))"
| "run_command cfg (Begin_Rollout q) st = snd (begin_rollout q st)"
| "run_command cfg (Advance_Stage q) st = snd (advance_stage q st)"
| "run_command cfg (Fail_Stage q) st = snd (fail_stage q st)"
| "run_command cfg (Supersede_Rollout i g e why) st = snd (engine_supersede_rollout i g e why st)"
| "run_command cfg (Rollback q) st = snd (rollback q st)"
| "run_command cfg (Retire q) st = snd (retire q st)"
| "run_command cfg (Revalidate q) st = snd (revalidate q st)"
| "run_command cfg (Begin_Attempt q) st = snd (begin_attempt cfg q st)"
| "run_command cfg (Complete_Attempt c) st = snd (complete_attempt c st)"
| "run_command cfg (Reconcile_Attempt i seen e txt) st = snd (reconcile_attempt i seen e txt st)"
| "run_command cfg (Advance_Epoch e) st = snd (snd (advance_epoch e st))"
| "run_command cfg (Invalidate_Volatile_State cause) st = invalidate_volatile_state cause st"

lemma good_run_command: "good st (run_command cfg c st)"
  by (cases c) (simp_all add: good_intros)

lemma good_run_commands: "good st (fold (run_command cfg) cs st)"
  by (rule good_fold) (rule good_run_command)

section \<open>A fresh engine and a recovered one\<close>

lemma sr_wf_new: "n < 2 ^ 64 \<Longrightarrow> 0 < n \<Longrightarrow> sr_wf (ensure_root (empty_scopes\<lparr>sr_max := n\<rparr>))"
  by (rule sr_wf_ensure_root)
     (simp add: sr_wf_def empty_scopes_def records_ok_iff children_upto_def path_map_def fun_eq_iff)

lemma st_wf_new:
  assumes "rb_max_scopes (ec_bounds cfg) < 2 ^ 64" and "0 < rb_max_scopes (ec_bounds cfg)"
  shows "st_wf (new_engine cfg)"
  using assms sr_wf_new [of "rb_max_scopes (ec_bounds cfg)"]
  by (simp add: st_wf_def new_engine_def versions_ok_def rollouts_ok_def bound_ok_def version_of_def
      rollout_of_def live_bindings_for_def bindings_for_def at_wf_def)

text \<open>The maps of a snapshot are maps: sorted by key, each key once.\<close>

definition durable_maps :: "durable_state \<Rightarrow> bool" where
  "durable_maps ds \<longleftrightarrow> om_wf (ds_versions ds) \<and> om_wf (ds_rollouts ds) \<and> om_wf (ds_authority ds) \<and>
     om_wf (ds_worker_leases ds) \<and> om_wf (ds_unsettled_attempts ds)"

lemma first_fault_None: "first_fault f xs = None \<longleftrightarrow> (\<forall>x \<in> set xs. f x = None)"
  by (induction xs) (auto split: option.splits)

lemma version_labels_keys:
  "version_labels_of ds es labels = Inr labels' \<Longrightarrow>
   \<forall>(k, r) \<in> set es. fst k = vr_model r \<and> snd k = vr_version r"
  by (induction ds es labels rule: version_labels_of.induct) (auto split: if_splits)

lemma durable_binding_held:
  "durable_binding_fault ds b = None \<Longrightarrow>
   \<exists>r. known_version ds (b_model b) (b_version b) = Some r \<and> \<not> retired r \<and> b_model_generation b \<le> vr_generation r"
  by (auto simp: durable_binding_fault_def not_less split: option.splits if_splits)

lemma recovered_parts_ok:
  assumes "recover_parts cfg ds st = Inr parts" and "durable_maps ds"
    and "rb_max_scopes (ec_bounds cfg) < 2 ^ 64"
  shows "sr_wf (rp_scopes parts)" and "at_wf (rp_authority parts)"
    and "at_bindings (rp_authority parts) = ds_authority ds"
    and "\<forall>(k, r) \<in> set (ds_versions ds). fst k = vr_model r \<and> snd k = vr_version r"
    and "\<forall>e \<in> set (ds_rollouts ds). durable_plan_fault ds e = None"
    and "\<forall>e \<in> set (ds_authority ds). \<forall>b \<in> set (snd e). durable_binding_fault ds b = None"
proof -
  obtain scopes names labels compatibility authority evidence policy where parts:
      "restore_scopes (ds_scopes ds) (ds_root_scope ds) (empty_scopes\<lparr>sr_max := rb_max_scopes (ec_bounds cfg)\<rparr>)
         = Some scopes"
      "recover_registry cfg ds = Inr (names, labels)"
      "recover_stores ds st = Inr (compatibility, authority, evidence)"
      "rollouts_fault cfg ds = None"
      "rp_scopes parts = scopes" "rp_authority parts = authority"
    using assms(1) by (auto simp: recover_parts_def split: option.splits sum.splits)
  then show "sr_wf (rp_scopes parts)" using restore_scopes_wf [OF parts(1)] assms(3) by simp
  have auth: "restore_authority (ds_authority ds) \<lparr>at_bindings = [], at_max = at_max (st_authority st)\<rparr> = Some authority"
      "first_fault (durable_binding_fault ds) (concat (map snd (ds_authority ds))) = None"
    using parts(3) by (auto simp: recover_stores_def split: option.splits if_splits)
  then show "at_wf (rp_authority parts)"
    using restore_authority_wf assms(2) parts(6) by (simp add: durable_maps_def)
  show "at_bindings (rp_authority parts) = ds_authority ds"
    using auth(1) unfolding restore_authority_def parts(6) by (fastforce split: if_splits)
  show "\<forall>(k, r) \<in> set (ds_versions ds). fst k = vr_model r \<and> snd k = vr_version r"
    using parts(2) version_labels_keys
    by (auto simp: recover_registry_def split: if_splits sum.splits)
  show "\<forall>e \<in> set (ds_rollouts ds). durable_plan_fault ds e = None"
    using parts(4) by (auto simp: rollouts_fault_def first_fault_None split: option.splits)
  show "\<forall>e \<in> set (ds_authority ds). \<forall>b \<in> set (snd e). durable_binding_fault ds b = None"
    using auth(2) by (auto simp: first_fault_None)
qed

lemma st_wf_apply_snapshot:
  assumes "recover_parts cfg ds st = Inr parts" and "durable_maps ds"
    and "rb_max_scopes (ec_bounds cfg) < 2 ^ 64"
  shows "st_wf (apply_snapshot ds new_epoch parts st)"
proof -
  note ok = recovered_parts_ok [OF assms]
  let ?st = "apply_snapshot ds new_epoch parts st"
  have version: "version_of ?st m v = known_version ds m v" for m v
    by (simp add: version_of_def apply_snapshot_def known_version_def bump_sequence_def)
  have rollout: "rollout_of ?st i = map_of (ds_rollouts ds) i" for i
    by (simp add: rollout_of_def apply_snapshot_def bump_sequence_def)
  have versions: "versions_ok ?st"
    unfolding versions_ok_def version known_version_def
  proof (intro conjI allI impI)
    show "om_wf (st_versions ?st)" using assms(2) by (simp add: apply_snapshot_def durable_maps_def)
  next
    fix m v r assume "map_of (ds_versions ds) (m, v) = Some r"
    then have "((m, v), r) \<in> set (ds_versions ds)" by (rule map_of_SomeD)
    then show "vr_model r = m" "vr_version r = v" using ok(4) by fastforce+
  qed
  have rollouts: "rollouts_ok ?st"
    unfolding rollouts_ok_def rollout
  proof (intro conjI allI impI)
    show "om_wf (st_rollouts ?st)" using assms(2) by (simp add: apply_snapshot_def durable_maps_def)
  next
    fix i p assume "map_of (ds_rollouts ds) i = Some p"
    then have "durable_plan_fault ds (i, p) = None" using ok(5) map_of_SomeD by fastforce
    then show "pl_id p = i" "plan_ok p"
      by (auto simp: durable_plan_fault_def Let_def plan_ok_def split: if_splits)
  qed
  have "held ?st b" if "b \<in> set (live_bindings_for (st_authority ?st) s)" for s b
  proof -
    have "b \<in> set (bindings_for (rp_authority parts) s)"
      using that by (simp add: live_bindings_for_def apply_snapshot_def)
    then obtain bs where "map_of (ds_authority ds) s = Some bs" "b \<in> set bs"
      unfolding bindings_for_def ok(3) by (cases "map_of (ds_authority ds) s") simp_all
    then have "(s, bs) \<in> set (ds_authority ds)" "b \<in> set bs" by (simp_all add: map_of_SomeD)
    then have "durable_binding_fault ds b = None" using ok(6) by fastforce
    then show ?thesis
      using durable_binding_held [of ds b] by (auto simp: held_def version retired_def)
  qed
  then show ?thesis
    using versions rollouts ok(1,2) assms(2)
    by (simp add: st_wf_def bound_ok_def apply_snapshot_def durable_maps_def)
qed

section \<open>Reachable states\<close>

inductive reachable :: "engine_config \<Rightarrow> engine \<Rightarrow> bool" where
  fresh: "reachable cfg (new_engine cfg)"
| command: "reachable cfg st \<Longrightarrow> reachable cfg (run_command cfg c st)"
| recovery: "reachable cfg st \<Longrightarrow> durable_maps ds \<Longrightarrow>
    reachable cfg (snd (import_durable_state cfg ds new_epoch st))"

inductive_cases reachableE [elim]: "reachable cfg st"

definition scope_bound_ok :: "engine_config \<Rightarrow> bool" where
  "scope_bound_ok cfg \<longleftrightarrow> 0 < rb_max_scopes (ec_bounds cfg) \<and> rb_max_scopes (ec_bounds cfg) < 2 ^ 64"

lemma reachable_wf:
  assumes "reachable cfg st" and "scope_bound_ok cfg"
  shows "st_wf st"
  using assms
proof induction
  case fresh
  then show ?case by (simp add: st_wf_new scope_bound_ok_def)
next
  case (command cfg st c)
  then show ?case using good_run_command by (auto simp: good_def)
next
  case (recovery cfg st ds new_epoch)
  then show ?case
    by (auto simp: import_durable_state_def scope_bound_ok_def split: option.splits sum.splits
        intro: st_wf_apply_snapshot)
qed

lemma reachable_commands: "reachable cfg st \<Longrightarrow> reachable cfg (fold (run_command cfg) cs st)"
  by (induction cs arbitrary: st) (auto intro: command)

end
