(* ===== verification/Mlf_Safety.thy ===== *)
theory Mlf_Safety
  imports Mlf_Engine
begin

text \<open>
  What holds of the engine over time, read off the invariant and the evolution order: safety
  of the authority table, the lifecycle, rollout histories, attempts, clocks and recovery.
\<close>

section \<open>A sample engine\<close>

definition sample_registration :: register_version_request where
  "sample_registration = \<lparr>rv_model = 1, rv_label = ''v1'',
     rv_artifact = \<lparr>ab_set_id = 1, ab_generation = 1, ab_digest = ''d''\<rparr>,
     rv_requirements = empty_requirements, rv_predecessor = 0, rv_provenance = PV_Synthetic\<rparr>"

definition sample_version :: "u64 \<Rightarrow> lifecycle_state \<Rightarrow> version_record" where
  "sample_version v s =
     (new_version default_config sample_registration (new_engine default_config) v 1)
       \<lparr>vr_label := (if v = 1 then ''v1'' else if v = 2 then ''v2'' else ''v3''), vr_state := s\<rparr>"

definition sample_stage :: stage_definition where
  "sample_stage = \<lparr>sg_id = 1, sg_name = ''s'', sg_cohorts = [1], sg_required_evidence = [],
     sg_acceptance = [], sg_failure = [], sg_require_residency_before_entry = False,
     sg_require_drain_after_commit = False\<rparr>"

definition sample_plan :: "u64 \<Rightarrow> bool \<Rightarrow> rollout_plan" where
  "sample_plan i failed = \<lparr>pl_id = i, pl_generation = 1, pl_model = 1, pl_candidate = 3,
     pl_candidate_generation = 1, pl_candidate_artifact_set = 1, pl_candidate_artifact_generation = 1,
     pl_previous = 1, pl_previous_generation = 1, pl_compatibility_generation = 0,
     pl_policy_generation = 1, pl_evidence_generation = 0, pl_root_scope = 1,
     pl_root_scope_generation = 1, pl_strategy = RS_Canary, pl_promotion = 1,
     pl_promotion_generation = 1,
     pl_cohorts = [\<lparr>ch_id = 1, ch_name = ''c'', ch_scopes = [1], ch_traffic_percent = 10,
       ch_max_blast_radius_percent = 10\<rparr>],
     pl_stages = [sample_stage], pl_rollback_target = 1, pl_rollback_target_generation = 1,
     pl_max_blast_radius_percent = 10, pl_manual_progression = False, pl_current_stage_index = 0,
     pl_current_stage_generation = 1, pl_stage_entered = True,
     pl_history = [\<lparr>sh_stage = 1, sh_generation = 1, sh_entered_sequence = 1, sh_decided_sequence = 0,
       sh_decision = SD_Entered, sh_reasons = []\<rparr>],
     pl_completed = False, pl_failed = failed, pl_superseded = False, pl_last_rollback = 0,
     pl_last_rollback_generation = 0, pl_created_sequence = 1, pl_updated_sequence = 1,
     pl_provenance = PV_Synthetic\<rparr>"

definition sample_attempt :: attempt where
  "sample_attempt = \<lparr>ap_id = 1, ap_kind = AT_Warm, ap_worker = 1, ap_boot = 1, ap_epoch = 1,
     ap_model = 1, ap_version = 1, ap_model_generation = 1, ap_artifact_generation = 1, ap_scope = 1,
     ap_scope_generation = 1, ap_rollout = 0, ap_rollout_generation = 0, ap_stage = 0,
     ap_stage_generation = 0, ap_residency_generation = 1, ap_state = AS_Completed,
     ap_idempotent = True, ap_issued_sequence = 1, ap_settled_sequence = 1, ap_detail = []\<rparr>"

text \<open>
  Two scopes, a current generation that holds the root scope exclusively, a retired one, a
  canary with a live plan and a failed one, and a completed attempt.
\<close>

definition sample_engine :: engine where
  "sample_engine = (new_engine default_config)\<lparr>st_scopes := sample_scopes,
     st_models := [(1, \<lparr>mr_id = 1, mr_name = ''m'', mr_family = [], mr_provenance = PV_Synthetic,
       mr_created_sequence = 1\<rparr>)], st_model_names := [(''m'', 1)], st_authority := sample_authority,
     st_versions := [((1, 1), sample_version 1 LS_CURRENT), ((1, 2), sample_version 2 LS_RETIRED),
       ((1, 3), sample_version 3 LS_CANARY_ACTIVE)],
     st_rollouts := [(1, sample_plan 1 False), (2, sample_plan 2 True)],
     st_attempts := [(1, sample_attempt)], st_next_rollout_id := 3, st_sequence := 9\<rparr>"

lemma sample_version_fields [simp]:
  "vr_model (sample_version v s) = 1" "vr_version (sample_version v s) = v"
  "vr_state (sample_version v s) = s" "vr_generation (sample_version v s) = 1"
  "vr_label (sample_version 1 s) = ''v1''" "vr_lifecycle_generation (sample_version v s) = 1"
  by (simp_all add: sample_version_def new_version_def sample_registration_def)

lemma sample_lookups [simp]:
  "version_of sample_engine 1 1 = Some (sample_version 1 LS_CURRENT)"
  "version_of sample_engine 1 2 = Some (sample_version 2 LS_RETIRED)"
  "version_of sample_engine 1 3 = Some (sample_version 3 LS_CANARY_ACTIVE)"
  "rollout_of sample_engine 1 = Some (sample_plan 1 False)"
  "rollout_of sample_engine 2 = Some (sample_plan 2 True)"
  "map_of (st_attempts sample_engine) 1 = Some sample_attempt"
  "st_authority sample_engine = sample_authority" "st_scopes sample_engine = sample_scopes"
  by (simp_all add: sample_engine_def version_of_def rollout_of_def)

lemma sample_authority_live [simp]:
  "live_bindings_for sample_authority s = (if s = 1 then [sample_binding] else [])"
  by (simp add: sample_authority_def grant_def push_binding_def live_bindings_for_def bindings_for_def
      sample_binding_def empty_binding_def id_valid_def at_size_def)

lemma sample_keys:
  "version_of sample_engine m v = Some r \<Longrightarrow>
     m = 1 \<and> (v = 1 \<or> v = 2 \<or> v = 3) \<and> vr_model r = m \<and> vr_version r = v"
  "rollout_of sample_engine i = Some p \<Longrightarrow> pl_id p = i \<and> plan_ok p"
  by (auto simp: sample_engine_def version_of_def rollout_of_def sample_plan_def plan_ok_def
      split: if_splits)

lemma st_wf_sample: "st_wf sample_engine"
proof -
  have "om_wf (st_versions sample_engine)" "om_wf (st_rollouts sample_engine)"
      "om_wf (st_attempts sample_engine)" "om_wf (st_workers sample_engine)"
    by (simp_all add: sample_engine_def new_engine_def)
  moreover have "at_wf sample_authority"
    unfolding sample_authority_def by (rule at_wf_grant [OF at_wf_empty])
  moreover have "bound_ok sample_engine"
    by (auto simp: bound_ok_def held_def sample_binding_def empty_binding_def split: if_splits)
  ultimately show ?thesis
    using sr_wf_sample sample_keys by (auto simp: st_wf_def versions_ok_def rollouts_ok_def)
qed

lemma at_wf_single:
  assumes "at_wf t"
  shows "length (filter (\<lambda>b. b_kind b = AK_Exclusive) (live_bindings_for t s)) \<le> 1"
proof (cases "map_of (at_bindings t) s")
  case (Some bs)
  then have "scope_ok s bs" using assms map_of_SomeD unfolding at_wf_def list_all_iff by fastforce
  then show ?thesis
    using Some by (simp add: scope_ok_def live_bindings_for_def bindings_for_def live_exclusive_def [abs_def] conj_commute)
qed (simp add: live_bindings_for_def bindings_for_def)

section \<open>Properties\<close>

text \<open>
  C1 The engine's invariant holds in every state it can reach, from a fresh engine through any
  sequence of operations with any arguments and any recoveries from snapshots. In particular no
  scope ever has two live exclusive bindings, so authority is never ambiguous.
\<close>

theorem reachable_states_sound:
  assumes "reachable cfg st" and "scope_bound_ok cfg"
  shows "st_wf st \<and> length (filter (\<lambda>b. b_kind b = AK_Exclusive) (live_bindings_for (st_authority st) s)) \<le> 1"
proof -
  have wf: "st_wf st" using reachable_wf [OF assms] .
  then have "at_wf (st_authority st)" by (simp add: st_wf_def)
  then show ?thesis using wf at_wf_single [of "st_authority st" s] by simp
qed

lemma reachable_states_sound_witness:
  "st_wf (fold (run_command default_config) [Register_Model ''m'' [] PV_Synthetic,
       Register_Version sample_registration] (new_engine default_config)) \<and>
   length (filter (\<lambda>b. b_kind b = AK_Exclusive) (live_bindings_for (st_authority
     (fold (run_command default_config) [Register_Model ''m'' [] PV_Synthetic,
       Register_Version sample_registration] (new_engine default_config))) 1)) \<le> 1"
  by (rule reachable_states_sound [OF reachable_commands [OF fresh]])
     (simp add: scope_bound_ok_def default_config_def default_bounds_def)

text \<open>
  A live binding always names a registered generation that is not retired, and never a
  later generation than the registered one.
\<close>

theorem live_authority_is_registered:
  assumes "st_wf st" and "b \<in> set (live_bindings_for (st_authority st) s)"
  shows "\<exists>r. version_of st (b_model b) (b_version b) = Some r \<and> vr_state r \<noteq> LS_RETIRED \<and>
    b_model_generation b \<le> vr_generation r"
  using assms unfolding st_wf_def bound_ok_def held_def by blast

lemma live_authority_is_registered_witness:
  "\<exists>r. version_of sample_engine 1 1 = Some r \<and> vr_state r \<noteq> LS_RETIRED \<and> 1 \<le> vr_generation r"
  using live_authority_is_registered [OF st_wf_sample, of sample_binding 1]
  by (simp add: sample_binding_def)

text \<open>
  The stage a live plan stands at is one of its stages, so no stage operation reads outside
  the plan's vector.
\<close>

theorem live_plan_stage_in_range:
  assumes "st_wf st" and "rollout_of st i = Some p" and "live p"
  shows "stage_at p (pl_current_stage_index p) = Some (pl_stages p ! pl_current_stage_index p) \<and> pl_id p = i"
proof -
  have "plan_ok p" "pl_id p = i" using assms(1,2) unfolding st_wf_def rollouts_ok_def by blast+
  then show ?thesis using assms(3) by (simp add: plan_ok_def stage_at_def)
qed

lemma live_plan_stage_in_range_witness:
  "stage_at (sample_plan 1 False) 0 = Some (pl_stages (sample_plan 1 False) ! 0) \<and> pl_id (sample_plan 1 False) = 1"
  using live_plan_stage_in_range [OF st_wf_sample, of 1 "sample_plan 1 False"]
  by (simp add: live_def sample_plan_def)

text \<open>
  C8 Every sequence of operations moves a version edge by edge along the transition table.
  Whatever it was and whatever it becomes, there is a walk between the two whose every move is
  an allowed transition to a different state, and the lifecycle generation was advanced exactly
  once for each edge of that walk (\<open>next_generation\<close> stops at the top value, as in the code).
  So no operation writes a target state directly, passing over the states between; and in
  particular a version that has not moved keeps its lifecycle generation. Its identity, label
  and predecessor never change and its generation never decreases.
\<close>

theorem lifecycle_follows_table:
  assumes "st_wf st" and "version_of st m v = Some r"
  shows "\<exists>r'. version_of (fold (run_command cfg) cs st) m v = Some r' \<and>
    (vr_state r, vr_state r') \<in> {(a, b). is_transition_allowed a b}\<^sup>* \<and>
    (\<exists>path. allowed_walk (vr_state r) path \<and> vr_state r' = last (vr_state r # path) \<and>
       vr_lifecycle_generation r' = (next_generation ^^ length path) (vr_lifecycle_generation r)) \<and>
    vr_model r' = vr_model r \<and> vr_version r' = vr_version r \<and> vr_label r' = vr_label r \<and>
    vr_predecessor r' = vr_predecessor r \<and> vr_generation r \<le> vr_generation r'"
proof -
  have "evolves st (fold (run_command cfg) cs st)"
    using good_run_commands [of st cfg cs] assms(1) by (simp add: good_def)
  then show ?thesis
    using assms(2) unfolding evolves_def version_evolves_def lifecycle_reach_def walked_def by blast
qed

lemma lifecycle_follows_table_witness:
  "\<exists>r'. version_of (fold (run_command default_config) [Advance_Epoch 0] sample_engine) 1 1 = Some r' \<and>
    (LS_CURRENT, vr_state r') \<in> {(a, b). is_transition_allowed a b}\<^sup>* \<and>
    (\<exists>path. allowed_walk LS_CURRENT path \<and> vr_state r' = last (LS_CURRENT # path) \<and>
       vr_lifecycle_generation r' = (next_generation ^^ length path) 1) \<and>
    vr_model r' = 1 \<and> vr_version r' = 1 \<and> vr_label r' = ''v1'' \<and>
    vr_predecessor r' = vr_predecessor (sample_version 1 LS_CURRENT) \<and> 1 \<le> vr_generation r'"
  using lifecycle_follows_table [OF st_wf_sample sample_lookups(1), of default_config "[Advance_Epoch 0]"]
  by simp

text \<open>
  C3 Retirement is final: whatever operations follow, a retired generation stays retired and
  no live binding in any scope names it.
\<close>

theorem retired_forever:
  assumes "st_wf st" and "version_of st m v = Some r" and "vr_state r = LS_RETIRED"
  shows "(\<exists>r'. version_of (fold (run_command cfg) cs st) m v = Some r' \<and> vr_state r' = LS_RETIRED) \<and>
    filter (\<lambda>b. b_model b = m \<and> b_version b = v)
      (live_bindings_for (st_authority (fold (run_command cfg) cs st)) s) = []"
proof -
  let ?st = "fold (run_command cfg) cs st"
  have later: "evolves st ?st" and wf: "st_wf ?st"
    using good_run_commands [of st cfg cs] assms(1) by (simp_all add: good_def)
  obtain r' where r': "version_of ?st m v = Some r'" "(vr_state r, vr_state r') \<in> lifecycle_reach"
    using later assms(2) unfolding evolves_def version_evolves_def by blast
  then have "vr_state r' = LS_RETIRED" using reach_from_retired assms(3) by simp
  moreover have "\<not> (b_model b = m \<and> b_version b = v)"
    if "b \<in> set (live_bindings_for (st_authority ?st) s)" for b
    using wf that r'(1) calculation unfolding st_wf_def bound_ok_def held_def by force
  ultimately show ?thesis using r'(1) by (auto simp: filter_empty_conv)
qed

lemma retired_forever_witness:
  "(\<exists>r'. version_of (fold (run_command default_config) [Advance_Epoch 0] sample_engine) 1 2 = Some r' \<and>
      vr_state r' = LS_RETIRED) \<and>
   filter (\<lambda>b. b_model b = 1 \<and> b_version b = 2)
     (live_bindings_for (st_authority (fold (run_command default_config) [Advance_Epoch 0] sample_engine)) 1) = []"
  using retired_forever [OF st_wf_sample sample_lookups(2), of default_config "[Advance_Epoch 0]" 1] by simp

text \<open>
  C13 Every rollout plan, live or not, keeps its identity and what it was bound to - the plan
  generation, the model, the candidate and its generation, the root scope, the cohorts, the
  stages and the rollback target - under every sequence of operations. Its history is
  append-only: the decisions recorded are still there, in place, followed by later ones. The
  stage index and the stage generation never go back, and a plan that is completed, failed or
  superseded never becomes live again.
\<close>

theorem plan_history_append_only:
  assumes "st_wf st" and "rollout_of st i = Some p"
  shows "\<exists>p'. rollout_of (fold (run_command cfg) cs st) i = Some p' \<and>
    (live p' \<longrightarrow> live p) \<and> (\<exists>h. pl_history p' = pl_history p @ h) \<and>
    pl_id p' = pl_id p \<and> pl_generation p' = pl_generation p \<and> pl_model p' = pl_model p \<and>
    pl_candidate p' = pl_candidate p \<and> pl_candidate_generation p' = pl_candidate_generation p \<and>
    pl_root_scope p' = pl_root_scope p \<and> pl_cohorts p' = pl_cohorts p \<and> pl_stages p' = pl_stages p \<and>
    pl_rollback_target p' = pl_rollback_target p \<and>
    pl_current_stage_index p \<le> pl_current_stage_index p' \<and>
    pl_current_stage_generation p \<le> pl_current_stage_generation p'"
proof -
  have "evolves st (fold (run_command cfg) cs st)"
    using good_run_commands [of st cfg cs] assms(1) by (simp add: good_def)
  then obtain p' where "rollout_of (fold (run_command cfg) cs st) i = Some p'" "plan_evolves p p'"
    using assms(2) unfolding evolves_def by blast
  then show ?thesis unfolding plan_evolves_def by (intro exI [of _ p']) blast
qed

text \<open>The live plan of the sample engine and a command that supersedes it.\<close>

lemma plan_history_append_only_witness:
  "live (sample_plan 1 False) \<and>
   (\<exists>p'. rollout_of (fold (run_command default_config) [Supersede_Rollout 1 1 1 ''replaced''] sample_engine) 1 = Some p' \<and>
    (\<exists>h. pl_history p' = pl_history (sample_plan 1 False) @ h) \<and>
    pl_id p' = 1 \<and> pl_generation p' = 1 \<and> pl_model p' = 1 \<and> pl_candidate p' = 3 \<and>
    pl_candidate_generation p' = 1 \<and> pl_root_scope p' = 1 \<and>
    pl_stages p' = [sample_stage] \<and> pl_rollback_target p' = 1)"
proof -
  have "live (sample_plan 1 False)" by (simp add: live_def sample_plan_def)
  then show ?thesis
    using plan_history_append_only [OF st_wf_sample sample_lookups(4), of default_config "[Supersede_Rollout 1 1 1 ''replaced'']"]
    by (auto simp: sample_plan_def)
qed

text \<open>
  C14 An external attempt settles once: after it completed, failed or was abandoned, no
  operation changes anything of it.
\<close>

theorem settled_attempt_final:
  assumes "st_wf st" and "map_of (st_attempts st) i = Some a" and "is_settled (ap_state a)"
  shows "map_of (st_attempts (fold (run_command cfg) cs st)) i = Some a"
  using good_run_commands [of st cfg cs] assms unfolding good_def evolves_def by blast

lemma settled_attempt_final_witness:
  "map_of (st_attempts (fold (run_command default_config) [Reconcile_Attempt 1 False 0 ''x''] sample_engine)) 1
     = Some sample_attempt"
  using settled_attempt_final [OF st_wf_sample sample_lookups(6),
      of default_config "[Reconcile_Attempt 1 False 0 ''x'']"]
  by (simp add: is_settled_def sample_attempt_def)

text \<open>The sequence and the coordinator epoch never move backwards.\<close>

theorem clocks_monotone:
  assumes "st_wf st"
  shows "st_sequence st \<le> st_sequence (fold (run_command cfg) cs st) \<and>
    st_epoch st \<le> st_epoch (fold (run_command cfg) cs st)"
  using good_run_commands [of st cfg cs] assms unfolding good_def evolves_def by blast

lemma clocks_monotone_witness:
  "st_sequence sample_engine \<le> st_sequence (fold (run_command default_config) [Advance_Epoch 0] sample_engine) \<and>
    st_epoch sample_engine \<le> st_epoch (fold (run_command default_config) [Advance_Epoch 0] sample_engine)"
  by (rule clocks_monotone [OF st_wf_sample])

end
