(* ===== verification/Mlf_Recovery.thy ===== *)
theory Mlf_Recovery
  imports Mlf_Safety
begin

text \<open>
  Recovery of an engine from a snapshot: an import is all or nothing, what it accepts is a
  sound state that trusts no worker, and what an export wrote is what an import reads.
\<close>

section \<open>Refusals\<close>

text \<open>Every fault of the validation is a refusal.\<close>

lemma fault_refused:
  "import_guard ds e st = Some d \<Longrightarrow> \<not> allowed d"
  "compatibility_fault ds = Some d \<Longrightarrow> \<not> allowed d"
  "durable_binding_fault ds b = Some d \<Longrightarrow> \<not> allowed d"
  "durable_plan_fault ds p = Some d \<Longrightarrow> \<not> allowed d"
  "holders_fault cfg ds = Some d \<Longrightarrow> \<not> allowed d"
  by (auto simp: import_guard_def compatibility_fault_def durable_binding_fault_def Let_def
      durable_plan_fault_def holders_fault_def is_positive_def split: if_splits option.splits)

lemma first_fault_refused:
  "first_fault f xs = Some d \<Longrightarrow> (\<And>x d. f x = Some d \<Longrightarrow> \<not> allowed d) \<Longrightarrow> \<not> allowed d"
  by (induction xs) (auto split: option.splits)

lemma faults_refused:
  "first_fault (durable_binding_fault ds) bs = Some d \<Longrightarrow> \<not> allowed d"
  "first_fault (durable_plan_fault ds) es = Some d \<Longrightarrow> \<not> allowed d"
  by (erule first_fault_refused, erule fault_refused)+

lemma model_names_refused: "model_names_of ms names = Inl d \<Longrightarrow> \<not> allowed d"
  by (induction ms names rule: model_names_of.induct) (auto simp: is_positive_def split: if_splits)

lemma version_labels_refused: "version_labels_of ds es labels = Inl d \<Longrightarrow> \<not> allowed d"
  by (induction ds es labels rule: version_labels_of.induct) (auto simp: is_positive_def split: if_splits)

lemma recover_refused:
  "recover_registry cfg ds = Inl d \<Longrightarrow> \<not> allowed d"
  "recover_stores ds st = Inl d \<Longrightarrow> \<not> allowed d"
  "recover_policy ds = Inl d \<Longrightarrow> \<not> allowed d"
  "rollouts_fault cfg ds = Some d \<Longrightarrow> \<not> allowed d"
  using model_names_refused version_labels_refused fault_refused(2) faults_refused
  by (auto simp: recover_registry_def recover_stores_def recover_policy_def rollouts_fault_def is_positive_def
      split: if_splits option.splits sum.splits)

lemma recover_parts_refused: "recover_parts cfg ds st = Inl d \<Longrightarrow> \<not> allowed d"
  using recover_refused fault_refused
  by (auto simp: recover_parts_def is_positive_def split: option.splits sum.splits)

lemma import_accepted:
  "allowed (fst (import_durable_state cfg ds e st)) \<longleftrightarrow>
     (\<exists>parts. import_guard ds e st = None \<and> recover_parts cfg ds st = Inr parts \<and>
        snd (import_durable_state cfg ds e st) = apply_snapshot ds e parts st)"
  using fault_refused(1) recover_parts_refused
  by (auto simp: import_durable_state_def is_positive_def split: option.splits sum.splits)

section \<open>What an export keeps\<close>

lemma live_authority_find:
  assumes "om_wf m"
  shows "filter (\<lambda>b. \<not> b_superseded b) (case map_of (live_authority m) s of None \<Rightarrow> [] | Some bs \<Rightarrow> bs) =
    filter (\<lambda>b. \<not> b_superseded b) (case map_of m s of None \<Rightarrow> [] | Some bs \<Rightarrow> bs)"
  using assms
proof (induction m)
  case (Cons e m)
  obtain k bs where e: "e = (k, bs)" by fastforce
  have "map_of (live_authority m) k = None"
  proof -
    have "k \<notin> fst ` set m" using Cons.prems e by auto
    moreover have "fst ` set (live_authority m) \<subseteq> fst ` set m"
      by (force simp: live_authority_def om_map_def)
    ultimately show ?thesis by (auto simp: map_of_eq_None_iff)
  qed
  then show ?case
    using Cons e by (auto simp: live_authority_def om_map_def o_def split: option.splits)
qed (simp add: live_authority_def om_map_def)

lemma om_wf_live_authority: "om_wf m \<Longrightarrow> om_wf (live_authority m)"
  by (simp add: live_authority_def om_wf_filter)

lemma durable_maps_export: "st_wf st \<Longrightarrow> durable_maps (export_durable_state st)"
  by (simp add: durable_maps_def export_durable_state_def st_wf_def versions_ok_def rollouts_ok_def
      at_wf_def om_wf_live_authority om_wf_filter)

section \<open>Properties\<close>

text \<open>
  C15 An import that is refused, for whatever reason and at whatever point of the validation,
  leaves the engine exactly as it was.
\<close>

theorem refused_import_changes_nothing:
  assumes "\<not> allowed (fst (import_durable_state cfg ds e st))"
  shows "snd (import_durable_state cfg ds e st) = st"
  using assms by (auto simp: import_durable_state_def is_positive_def split: option.splits sum.splits)

lemma refused_import_changes_nothing_witness:
  "snd (import_durable_state default_config (export_durable_state sample_engine) 1 sample_engine) = sample_engine"
  by (rule refused_import_changes_nothing)
     (simp add: import_durable_state_def import_guard_def export_durable_state_def sample_engine_def
       new_engine_def is_positive_def id_valid_def)

text \<open>
  C10 An accepted import, of any snapshot whose maps are maps, yields a state that satisfies the
  invariant, at an epoch later than the snapshot's, in which every worker is fenced and not
  live, and no attempt still counts as dispatched.
\<close>

theorem accepted_import_is_sound:
  assumes "allowed (fst (import_durable_state cfg ds e st))" and "durable_maps ds" and "scope_bound_ok cfg"
    and "st' = snd (import_durable_state cfg ds e st)"
  shows "st_wf st' \<and> st_epoch st' = e \<and> ds_epoch ds < e \<and> list_all (wl_fenced \<circ> snd) (st_workers st') \<and>
    list_all (\<lambda>w. \<not> snd w) (st_worker_liveness st') \<and>
    list_all (\<lambda>a. ap_state (snd a) \<noteq> AS_Dispatched) (st_attempts st')"
proof -
  obtain parts where parts: "import_guard ds e st = None" "recover_parts cfg ds st = Inr parts"
      "st' = apply_snapshot ds e parts st"
    using assms(1,4) import_accepted by metis
  have "st_wf st'"
    using st_wf_apply_snapshot [OF parts(2) assms(2)] assms(3) parts(3) by (simp add: scope_bound_ok_def)
  moreover have "ds_epoch ds < e"
    using parts(1) by (auto simp: import_guard_def not_le split: if_splits)
  moreover have "st_epoch st' = e" "list_all (wl_fenced \<circ> snd) (st_workers st')"
      "list_all (\<lambda>w. \<not> snd w) (st_worker_liveness st')"
      "list_all (\<lambda>a. ap_state (snd a) \<noteq> AS_Dispatched) (st_attempts st')"
    by (auto simp: parts(3) apply_snapshot_def bump_sequence_def om_map_def list_all_iff
        recovered_lease_def recovered_attempt_def split: if_splits)
  ultimately show ?thesis by simp
qed

text \<open>
  C9 Recovery loses nothing that is authoritative: when the snapshot of a well-formed engine is
  accepted, the recovered engine has the same models, versions, rollout plans, scope records,
  base policy and overrides, and the same live bindings in every scope.
\<close>

theorem recovery_keeps_authority:
  assumes "st_wf st" and "allowed (fst (import_durable_state cfg (export_durable_state st) e st0))"
    and "st' = snd (import_durable_state cfg (export_durable_state st) e st0)" and "scope_bound_ok cfg"
  shows "st_models st' = st_models st \<and> version_of st' = version_of st \<and> rollout_of st' = rollout_of st \<and>
    sr_records (st_scopes st') = sr_records (st_scopes st) \<and>
    ps_base (st_policy st') = ps_base (st_policy st) \<and>
    ps_overrides (st_policy st') = ps_overrides (st_policy st) \<and>
    live_bindings_for (st_authority st') s = live_bindings_for (st_authority st) s"
proof -
  let ?ds = "export_durable_state st"
  obtain parts where parts: "recover_parts cfg ?ds st0 = Inr parts" "st' = apply_snapshot ?ds e parts st0"
    using assms(2,3) import_accepted by metis
  have "rb_max_scopes (ec_bounds cfg) < 2 ^ 64" using assms(4) by (simp add: scope_bound_ok_def)
  note ok = recovered_parts_ok [OF parts(1) durable_maps_export [OF assms(1)] this]
  have scopes: "sr_records (rp_scopes parts) = sr_records (st_scopes st)"
    and policy: "ps_base (rp_policy parts) = ps_base (st_policy st)"
      "ps_overrides (rp_policy parts) = ps_overrides (st_policy st)"
  proof -
    have restored: "restore_scopes (sr_records (st_scopes st)) (sr_root (st_scopes st))
        (empty_scopes\<lparr>sr_max := rb_max_scopes (ec_bounds cfg)\<rparr>) = Some (rp_scopes parts)"
      and "recover_policy ?ds = Inr (rp_policy parts)"
      using parts(1) by (auto simp: recover_parts_def export_durable_state_def split: option.splits sum.splits)
    then show "sr_records (rp_scopes parts) = sr_records (st_scopes st)"
      using restore_scopes_wf [OF restored] assms(4) by (simp add: scope_bound_ok_def)
    have "rp_policy parts = \<lparr>ps_base = ps_base (st_policy st), ps_overrides = ps_overrides (st_policy st)\<rparr>"
      using \<open>recover_policy ?ds = Inr (rp_policy parts)\<close>
      by (auto simp: recover_policy_def restore_policy_def export_durable_state_def split: if_splits option.splits)
    then show "ps_base (rp_policy parts) = ps_base (st_policy st)"
        "ps_overrides (rp_policy parts) = ps_overrides (st_policy st)" by simp_all
  qed
  have "om_wf (at_bindings (st_authority st))" using assms(1) by (simp add: st_wf_def at_wf_def)
  then have "live_bindings_for (st_authority st') s = live_bindings_for (st_authority st) s"
    using live_authority_find [of "at_bindings (st_authority st)" s] ok(3)
    by (simp add: parts(2) apply_snapshot_def live_bindings_for_def bindings_for_def export_durable_state_def)
  then show ?thesis
    using scopes policy
    by (simp add: parts(2) apply_snapshot_def bump_sequence_def version_of_def rollout_of_def fun_eq_iff
        export_durable_state_def)
qed

lemma sample_export:
  "ds_versions (export_durable_state sample_engine) = st_versions sample_engine"
  "ds_rollouts (export_durable_state sample_engine) = st_rollouts sample_engine"
  by (simp_all add: export_durable_state_def)

lemma sample_import_accepted:
  "allowed (fst (import_durable_state default_config (export_durable_state sample_engine) 2
     (new_engine default_config)))"
proof -
  let ?ds = "export_durable_state sample_engine"
  have guard: "import_guard ?ds 2 (new_engine default_config) = None"
    by (simp add: import_guard_def export_durable_state_def sample_engine_def new_engine_def id_valid_def
        word_le_nat_alt)
  have scopes: "restore_scopes (ds_scopes ?ds) (ds_root_scope ?ds)
      (empty_scopes\<lparr>sr_max := rb_max_scopes (ec_bounds default_config)\<rparr>) = Some sample_scopes"
    using restore_scopes_round_trip [OF sr_wf_sample] sample_scopes_records
    by (auto simp: export_durable_state_def default_config_def default_bounds_def)
  have registry: "\<exists>x. recover_registry default_config ?ds = Inr x"
    by (simp add: recover_registry_def export_durable_state_def sample_engine_def default_config_def
        default_bounds_def id_valid_def per_model_limit_def per_model_count_def sample_version_def
        new_version_def sample_registration_def)
  have live: "live_authority (at_bindings sample_authority) = [(1, [sample_binding])]"
    by (simp add: sample_authority_def grant_def push_binding_def live_authority_def om_map_def bindings_for_def
        sample_binding_def empty_binding_def id_valid_def at_size_def)
  have "length (sr_records sample_scopes) = 2"
    using arg_cong [OF sample_scopes_records(1), of length] by simp
  moreover from this have "sr_records sample_scopes \<noteq> []" by auto
  ultimately have stores: "\<exists>x. recover_stores ?ds (new_engine default_config) = Inr x"
    by (simp add: Let_def is_settled_def sample_attempt_def om_map_def recover_stores_def export_durable_state_def sample_engine_def new_engine_def live
        restore_facts_def compatibility_fault_def restore_authority_def restore_binding_ok_def id_valid_def
        sample_binding_def empty_binding_def durable_binding_fault_def known_version_def retired_def
        durable_evidence_def empty_evidence_def restore_evidence_def default_config_def default_bounds_def)
  have rollouts: "rollouts_fault default_config ?ds = None"
    by (simp add: rollouts_fault_def export_durable_state_def sample_engine_def durable_plan_fault_def
        sample_plan_def known_version_def live_def highest_evaluation_def default_config_def default_bounds_def
        word_le_nat_alt)
  have policy: "\<exists>x. recover_policy ?ds = Inr x"
    by (simp add: recover_policy_def export_durable_state_def sample_engine_def new_engine_def restore_policy_def
        default_config_def default_policy_def id_valid_def)
  have holders: "holders_fault default_config ?ds = None"
    by (simp add: om_map_def holders_fault_def export_durable_state_def sample_engine_def new_engine_def is_settled_def
        sample_attempt_def default_config_def default_bounds_def)
  show ?thesis
    using guard scopes registry stores rollouts policy holders
    by (auto simp: import_durable_state_def recover_parts_def is_positive_def)
qed

lemma default_bound_ok: "scope_bound_ok default_config"
  by (simp add: scope_bound_ok_def default_config_def default_bounds_def)

lemma accepted_import_is_sound_witness:
  "st_wf (snd (import_durable_state default_config (export_durable_state sample_engine) 2 (new_engine default_config))) \<and>
   st_epoch (snd (import_durable_state default_config (export_durable_state sample_engine) 2 (new_engine default_config))) = 2"
  using accepted_import_is_sound [OF sample_import_accepted durable_maps_export [OF st_wf_sample] default_bound_ok refl]
  by blast

lemma recovery_keeps_authority_witness:
  "version_of (snd (import_durable_state default_config (export_durable_state sample_engine) 2
      (new_engine default_config))) 1 1 = Some (sample_version 1 LS_CURRENT) \<and>
   live_bindings_for (st_authority (snd (import_durable_state default_config (export_durable_state sample_engine) 2
      (new_engine default_config)))) 1 = [sample_binding]"
  using recovery_keeps_authority [OF st_wf_sample sample_import_accepted refl default_bound_ok, of 1] by simp

end
