(* ===== verification/Mlf_Gates.thy ===== *)
theory Mlf_Gates
  imports Mlf_Safety
begin

text \<open>
  What each of the four gates demands. A gate is a chain of parts; a part passes on what it is
  given and adds its faults, so a gate allows exactly when the condition of every part holds.
  The algebra of parts is proved once for any severity order, and the conditions of promotion,
  rollback, retirement and stage advance are read off it.
\<close>

section \<open>Parts of a gate\<close>

context severity_gate begin

definition part :: "(gate \<Rightarrow> gate) \<Rightarrow> bool \<Rightarrow> bool" where
  "part f P \<longleftrightarrow> (\<forall>g. (clean (f g) \<longleftrightarrow> clean g \<and> P) \<and> (sound g \<longrightarrow> sound (f g)))"

lemma part_id: "part (\<lambda>g. g) True"
  by (simp add: part_def)

lemma part_cong: "part f P \<Longrightarrow> (P \<longleftrightarrow> Q) \<Longrightarrow> part f Q"
  by simp

lemma part_fault: "\<not> is_positive code \<Longrightarrow> part f P \<Longrightarrow> part (\<lambda>g. fault rank code r t (f g)) False"
  using positive_is_positive by (auto simp: part_def clean_fault intro: sound_fault)

lemma part_when:
  "\<not> is_positive code \<Longrightarrow> part f P \<Longrightarrow> part (\<lambda>g. fault_when rank b code r t (f g)) (P \<and> \<not> b)"
  using positive_is_positive clean_fault_when [of code b r t] by (auto simp: part_def intro: sound_fault_when)

lemma part_decision:
  "(\<not> allowed d \<Longrightarrow> d_reasons d \<noteq> []) \<Longrightarrow> part f P \<Longrightarrow>
   part (\<lambda>g. fault_decision rank d (f g)) (P \<and> allowed d)"
  by (auto simp: part_def clean_fault_decision intro: sound_fault_decision)

lemma part_set: "part f P \<Longrightarrow> part (\<lambda>g. g_set k v (f g)) P"
  by (simp add: part_def)

lemma part_comp: "part f P \<Longrightarrow> part h Q \<Longrightarrow> part (\<lambda>g. f (h g)) (Q \<and> P)"
  by (auto simp: part_def)

lemma part_if: "part f P \<Longrightarrow> part h Q \<Longrightarrow> part (\<lambda>g. if b then f g else h g) (if b then P else Q)"
  by (simp add: part_def)

lemma part_option:
  "part f P \<Longrightarrow> (\<And>x. part (h x) (Q x)) \<Longrightarrow>
   part (\<lambda>g. case y of None \<Rightarrow> f g | Some x \<Rightarrow> h x g) (case y of None \<Rightarrow> P | Some x \<Rightarrow> Q x)"
  by (cases y) simp_all

lemma part_fold: "(\<And>x. part (f x) (P x)) \<Longrightarrow> part (fold f xs) (list_all P xs)"
  by (induction xs) (auto simp: part_def)

lemma part_closes:
  assumes "part f P" and "positive c"
  shows "allowed (fst (close_gate (g_set_all kvs (f (open_gate c))))) \<longleftrightarrow> P"
proof -
  have "sound (g_set_all kvs (f (open_gate c)))" using assms sound_open by (simp add: part_def)
  then show ?thesis using assms close_allowed clean_open by (simp add: part_def)
qed

lemma fault_refuses:
  assumes "\<not> is_positive code" and "sound g"
  shows "\<not> allowed (g_decision (fault rank code r t g))"
  using sound_fault [OF assms, of r t] clean_fault [of code r t g] positive_is_positive assms(1)
  by (auto simp: sound_def allowed_def)

lemmas part_rules = part_when part_fault part_decision part_set part_id

end

lemma negative_codes:
  "\<not> is_positive OC_NOT_FOUND" "\<not> is_positive OC_CONFLICT" "\<not> is_positive OC_STALE_PLAN"
  "\<not> is_positive OC_STALE_EVIDENCE" "\<not> is_positive OC_INCOMPATIBLE" "\<not> is_positive OC_Rejected"
  "\<not> is_positive OC_PROMOTION_BLOCKED" "\<not> is_positive OC_ROLLBACK_BLOCKED"
  "\<not> is_positive OC_RETIREMENT_BLOCKED" "\<not> is_positive OC_STAGE_ADVANCE_BLOCKED"
  "\<not> is_positive OC_BOUNDS_EXCEEDED"
  by (simp_all add: is_positive_def)

section \<open>The shared checks\<close>

text \<open>A cited generation is optional; when it is given it has to be the current one.\<close>

definition cites :: "u64 \<Rightarrow> u64 \<Rightarrow> bool" where
  "cites cited current \<longleftrightarrow> (id_valid cited \<longrightarrow> cited = current)"

definition current_lease :: "engine \<Rightarrow> u64 \<Rightarrow> u64 \<Rightarrow> u64 \<Rightarrow> bool" where
  "current_lease st worker boot epoch \<longleftrightarrow>
     (id_valid worker \<longrightarrow> (\<exists>l. worker_of st worker = Some l \<and> \<not> wl_fenced l \<and> id_valid boot \<and>
        wl_boot l = boot \<and> cites epoch (wl_epoch l)))"

lemma check_epoch_allowed: "allowed (check_epoch st e) \<longleftrightarrow> cites e (st_epoch st)"
  by (simp add: check_epoch_def cites_def is_positive_def)

lemma check_policy_allowed:
  "allowed (check_policy_generation st e) \<longleftrightarrow> cites e (lp_generation (ps_base (st_policy st)))"
  by (simp add: check_policy_generation_def cites_def is_positive_def)

lemma check_worker_allowed: "allowed (check_worker st w b e) \<longleftrightarrow> current_lease st w b e"
  by (auto simp: check_worker_def current_lease_def cites_def is_positive_def split: option.splits)

lemma refuse_reasons [simp]: "r \<noteq> NoReason \<Longrightarrow> d_reasons (refuse c r t) \<noteq> []"
  by (simp add: refuse_def add_reason_def)

lemma check_reasons:
  "\<not> allowed (check_epoch st e) \<Longrightarrow> d_reasons (check_epoch st e) \<noteq> []"
  "\<not> allowed (check_policy_generation st e) \<Longrightarrow> d_reasons (check_policy_generation st e) \<noteq> []"
  "\<not> allowed (check_worker st w b e) \<Longrightarrow> d_reasons (check_worker st w b e) \<noteq> []"
  by (auto simp: check_epoch_def check_policy_generation_def check_worker_def is_positive_def
      split: option.splits if_splits)

text \<open>Evidence meets a requirement when the lookup is current and has the required verdict.\<close>

definition evidence_met :: "engine \<Rightarrow> evidence_subject \<Rightarrow> evidence_requirement \<Rightarrow> bool" where
  "evidence_met st subject q \<longleftrightarrow>
     (let l = resolve q subject 0 (er_require_current_publisher q) 0
                (lp_max_evidence_age_ticks (ps_base (st_policy st))) (st_evidence st) in
      el_currentness l = EC_Current \<and>
      (case el_record l of None \<Rightarrow> True | Some r \<Rightarrow> e_verdict r = er_required_verdict q))"

lemma evidence_fault_met:
  "evidence_fault q (resolve q subject 0 (er_require_current_publisher q) 0
     (lp_max_evidence_age_ticks (ps_base (st_policy st))) (st_evidence st)) = None \<longleftrightarrow> evidence_met st subject q"
  by (auto simp: evidence_fault_def evidence_met_def Let_def split: evidence_currentness.splits option.splits)

lemma evidence_fault_negative: "evidence_fault q l = Some (c, r, t) \<Longrightarrow> \<not> is_positive c \<and> r \<noteq> NoReason"
  by (auto simp: evidence_fault_def Let_def is_positive_def split: evidence_currentness.splits option.splits if_splits)

lemma check_evidence_loop_allowed:
  "allowed (check_evidence_loop st subject qs d) \<longleftrightarrow> allowed d \<and> list_all (evidence_met st subject) qs"
  "(\<not> allowed d \<Longrightarrow> d_reasons d \<noteq> []) \<Longrightarrow> \<not> allowed (check_evidence_loop st subject qs d) \<Longrightarrow>
     d_reasons (check_evidence_loop st subject qs d) \<noteq> []"
proof (induction qs arbitrary: d)
  case (Cons q qs)
  let ?f = "evidence_fault q (resolve q subject 0 (er_require_current_publisher q) 0
    (lp_max_evidence_age_ticks (ps_base (st_policy st))) (st_evidence st))"
  {
    case 1
    show ?case
    proof (cases ?f)
      case (Some x)
      then obtain c r t where "?f = Some (c, r, t)" by (cases x) auto
      then show ?thesis
        using Cons.IH(1) evidence_fault_met [of q subject st] evidence_fault_negative
        by (simp add: Let_def allowed_def set_outcome_def)
    qed (use Cons.IH(1) evidence_fault_met [of q subject st] in \<open>simp add: Let_def\<close>)
  next
    case 2
    show ?case
    proof (cases ?f)
      case (Some x)
      then obtain c r t where f: "?f = Some (c, r, t)" by (cases x) auto
      then have "d_reasons (add_reason (set_outcome d c) r t) \<noteq> []"
        using evidence_fault_negative by (simp add: add_reason_def)
      then show ?thesis using Cons.IH(2) [of "add_reason (set_outcome d c) r t"] 2 f by (simp add: Let_def)
    qed (use Cons.IH(2) 2 in \<open>simp add: Let_def\<close>)
  }
qed simp_all

lemma check_evidence_allowed:
  "allowed (check_evidence_list st qs subject) \<longleftrightarrow> list_all (evidence_met st subject) qs"
  by (simp add: check_evidence_list_def check_evidence_loop_allowed(1) is_positive_def)

lemma check_evidence_reasons:
  assumes "\<not> allowed (check_evidence_list st qs subject)"
  shows "d_reasons (check_evidence_list st qs subject) \<noteq> []"
proof -
  let ?d = "check_evidence_loop st subject qs (new_decision OC_Accepted)"
  have "\<not> allowed ?d" using assms by (simp add: check_evidence_list_def)
  then have "d_reasons ?d \<noteq> []"
    using check_evidence_loop_allowed(2) [of "new_decision OC_Accepted" st subject qs] by (simp add: is_positive_def)
  then have "sort_unique (d_reasons ?d) \<noteq> []" by (metis set_sort_unique set_empty)
  then show ?thesis by (simp add: check_evidence_list_def normalize_decision_def)
qed

lemmas check_rules = check_epoch_allowed check_policy_allowed check_worker_allowed check_evidence_allowed

section \<open>Promotion\<close>

text \<open>What promotion demands of the candidate, in the order of the code.\<close>

definition eligible_candidate :: "promotion_request \<Rightarrow> version_record \<Rightarrow> bool" where
  "eligible_candidate q r \<longleftrightarrow> \<not> retired r \<and> is_promotable_from (vr_state r) \<and>
     artifact_binding_valid (vr_artifact r) \<and> cites (pq_candidate_generation q) (vr_generation r) \<and>
     cites (pq_artifact_generation q) (ab_generation (vr_artifact r)) \<and>
     cites (pq_compatibility_generation q) (vr_compatibility_generation r) \<and>
     (id_valid (pq_model q) \<longrightarrow> vr_model r = pq_model q)"

definition open_scope :: "engine \<Rightarrow> promotion_request \<Rightarrow> bool" where
  "open_scope st q \<longleftrightarrow> (\<exists>sr. sr_find (st_scopes st) (pq_scope q) = Some sr \<and>
     cites (pq_scope_generation q) (s_generation sr) \<and>
     (lp_promotable_scope_kinds (promotion_policy st q) \<noteq> [] \<longrightarrow>
        s_kind sr \<in> set (lp_promotable_scope_kinds (promotion_policy st q))))"

text \<open>A declared target has to be restorable; none may be missing where one is displaced.\<close>

definition rollback_planned :: "engine \<Rightarrow> promotion_request \<Rightarrow> version_record \<Rightarrow> bool" where
  "rollback_planned st q r \<longleftrightarrow>
     (if id_valid (pq_rollback_target q) then
        (\<exists>t. version_of st (pq_model q) (pq_rollback_target q) = Some t \<and> \<not> retired t \<and>
           artifact_binding_valid (vr_artifact t) \<and> has_compatibility t \<and>
           cites (pq_rollback_target_generation q) (vr_generation t))
      else lp_require_rollback_target (promotion_policy st q) \<longrightarrow> \<not> displaces_authority st (pq_scope q) r)"

definition evidence_complete :: "engine \<Rightarrow> promotion_request \<Rightarrow> version_record \<Rightarrow> bool" where
  "evidence_complete st q r \<longleftrightarrow>
     list_all (evidence_met st (version_subject r (pq_scope q)))
       (map satisfied_requirement (lp_globally_required_evidence (promotion_policy st q))) \<and>
     (lp_require_manual_approval_for_promotion (promotion_policy st q) \<longrightarrow> pq_administrative_approval q)"

definition coexistence_allowed :: "engine \<Rightarrow> promotion_request \<Rightarrow> version_record \<Rightarrow> bool" where
  "coexistence_allowed st q r \<longleftrightarrow>
     projected_generations st (pq_scope q) r \<le> unat (lp_max_active_generations_per_scope (promotion_policy st q)) \<and>
     (1 < projected_generations st (pq_scope q) r \<longrightarrow> lp_allow_split_traffic (promotion_policy st q) \<or>
        (pq_request_immediate_cutover q \<and> 1 \<le> lp_max_active_generations_per_scope (promotion_policy st q)))"

definition promotable :: "engine_config \<Rightarrow> engine \<Rightarrow> promotion_request \<Rightarrow> version_record \<Rightarrow> bool" where
  "promotable cfg st q r \<longleftrightarrow>
     cites (pq_epoch q) (st_epoch st) \<and>
     cites (pq_policy_generation q) (lp_generation (ps_base (st_policy st))) \<and>
     current_lease st (pq_worker q) (pq_boot q) (pq_epoch q) \<and>
     eligible_candidate q r \<and> open_scope st q \<and>
     is_serving_compatible (fst (resolve_compatibility_for st r (pq_environment_key q) (pq_environment q))) \<and>
     rollback_planned st q r \<and> evidence_complete st q r \<and> coexistence_allowed st q r \<and>
     (promotion_immediate q \<longrightarrow> lp_allow_immediate_cutover (promotion_policy st q)) \<and>
     rb_max_models (ec_bounds cfg) \<noteq> 0 \<and> rb_max_versions_per_model (ec_bounds cfg) \<noteq> 0"

lemma promotion_caller_part:
  "pg.part (promotion_caller st q) (cites (pq_epoch q) (st_epoch st) \<and>
     cites (pq_policy_generation q) (lp_generation (ps_base (st_policy st))) \<and>
     current_lease st (pq_worker q) (pq_boot q) (pq_epoch q))"
  unfolding promotion_caller_def [abs_def]
  by (rule pg.part_cong, (rule pg.part_rules check_reasons negative_codes | assumption)+) (auto simp: check_rules)

lemma promotion_eligibility_part:
  "pg.part (promotion_eligibility q r) (\<not> retired r \<and> is_promotable_from (vr_state r) \<and>
     artifact_binding_valid (vr_artifact r) \<and> cites (pq_candidate_generation q) (vr_generation r) \<and>
     cites (pq_artifact_generation q) (ab_generation (vr_artifact r)))"
  unfolding promotion_eligibility_def [abs_def]
  by (rule pg.part_cong, (rule pg.part_rules negative_codes)+) (auto simp: cites_def)

lemma promotion_scope_part: "pg.part (promotion_scope st q) (open_scope st q)"
  unfolding promotion_scope_def [abs_def] Let_def
  by (rule pg.part_cong, (rule pg.part_rules pg.part_option negative_codes)+)
     (auto simp: open_scope_def cites_def split: option.splits)

lemma note_details_part: "pg.part f P \<Longrightarrow> pg.part (\<lambda>g. note_details rs (f g)) P"
proof -
  have "pg.clean (note_details rs g) = pg.clean g \<and> pg.sound (note_details rs g) = pg.sound g" for g
    by (induction rs arbitrary: g) auto
  then show "pg.part f P \<Longrightarrow> pg.part (\<lambda>g. note_details rs (f g)) P" by (simp add: pg.part_def)
qed

lemma promotion_compatibility_part:
  "pg.part (promotion_compatibility st q r)
     (cites (pq_compatibility_generation q) (vr_compatibility_generation r) \<and>
      is_serving_compatible (fst (resolve_compatibility_for st r (pq_environment_key q) (pq_environment q))))"
proof -
  obtain outcome d where d: "resolve_compatibility_for st r (pq_environment_key q) (pq_environment q) = (outcome, d)"
    by fastforce
  show ?thesis
    unfolding promotion_compatibility_def [abs_def] d prod.case
    by (rule pg.part_cong, (rule pg.part_rules pg.part_if note_details_part negative_codes)+)
       (auto simp: d cites_def)
qed

lemma promotion_rollback_target_part:
  "pg.part (promotion_rollback_target st q r) (rollback_planned st q r)"
  unfolding promotion_rollback_target_def [abs_def]
  by (rule pg.part_cong, (rule pg.part_rules pg.part_if pg.part_option negative_codes)+)
     (auto simp: rollback_planned_def cites_def split: option.splits)

lemma promotion_evidence_part: "pg.part (promotion_evidence st q r) (evidence_complete st q r)"
  unfolding promotion_evidence_def [abs_def] Let_def
  by (rule pg.part_cong, (rule pg.part_rules pg.part_if check_evidence_reasons negative_codes | assumption)+)
     (auto simp: evidence_complete_def check_rules)

lemma promotion_coexistence_part:
  "pg.part (promotion_coexistence st q r)
     (sr_find (st_scopes st) (pq_scope q) \<noteq> None \<longrightarrow> coexistence_allowed st q r)"
  unfolding promotion_coexistence_def [abs_def] Let_def
  by (rule pg.part_cong, (rule pg.part_rules pg.part_if negative_codes)+)
     (auto simp: coexistence_allowed_def not_less)

lemma promotion_cutover_part:
  "pg.part (promotion_cutover cfg st q r)
     ((promotion_immediate q \<longrightarrow> lp_allow_immediate_cutover (promotion_policy st q)) \<and>
      (id_valid (pq_model q) \<longrightarrow> vr_model r = pq_model q) \<and>
      rb_max_models (ec_bounds cfg) \<noteq> 0 \<and> rb_max_versions_per_model (ec_bounds cfg) \<noteq> 0)"
  unfolding promotion_cutover_def [abs_def] Let_def
  by (rule pg.part_cong, (rule pg.part_rules negative_codes)+) (auto simp: promotion_immediate_def)

lemma promotion_gate_part:
  "pg.part (\<lambda>g. promotion_cutover cfg st q r (promotion_coexistence st q r (promotion_evidence st q r
     (promotion_rollback_target st q r (promotion_compatibility st q r (promotion_scope st q
       (promotion_eligibility q r (promotion_caller st q g)))))))) (promotable cfg st q r)"
  by (rule pg.part_cong, rule pg.part_comp [OF promotion_cutover_part], rule pg.part_comp [OF promotion_coexistence_part],
      rule pg.part_comp [OF promotion_evidence_part], rule pg.part_comp [OF promotion_rollback_target_part],
      rule pg.part_comp [OF promotion_compatibility_part], rule pg.part_comp [OF promotion_scope_part],
      rule pg.part_comp [OF promotion_eligibility_part promotion_caller_part])
     (auto simp: promotable_def eligible_candidate_def open_scope_def)

text \<open>
  C2 The promotion gate is exact: it allows a promotion precisely when the candidate is
  registered, the caller is current, the candidate is eligible and compatible, the scope is
  open to it, a rollback is planned where authority is displaced, the required evidence is
  there, and the policy admits the coexistence and the cutover it asks for.
\<close>

theorem promotion_gate_exact:
  "allowed (fst (evaluate_promotion cfg q st)) \<longleftrightarrow>
     (\<exists>r. version_of st (pq_model q) (pq_candidate q) = Some r \<and> promotable cfg st q r)"
proof (cases "version_of st (pq_model q) (pq_candidate q)")
  case None
  have "pg.sound (promotion_caller st q (open_gate OC_PROMOTION_ALLOWED))"
    using promotion_caller_part [of st q] pg.sound_open by (simp add: pg.part_def)
  then show ?thesis
    using None pg.fault_refuses [OF negative_codes(1)] by (simp add: evaluate_promotion_def Let_def)
next
  case (Some r)
  then show ?thesis
    using pg.part_closes [OF promotion_gate_part [of cfg st q r], of OC_PROMOTION_ALLOWED]
    by (simp add: evaluate_promotion_def promotion_gate_def)
qed

section \<open>Rollback\<close>

definition restorable :: "engine \<Rightarrow> rollback_request \<Rightarrow> version_record \<Rightarrow> bool" where
  "restorable st q c \<longleftrightarrow> (\<exists>t. version_of st (kq_model q) (kq_target q) = Some t \<and> \<not> retired t \<and>
     vr_version t \<noteq> vr_version c \<and> artifact_binding_valid (vr_artifact t) \<and> has_compatibility t \<and>
     cites (kq_target_generation q) (vr_generation t) \<and>
     cites (kq_target_artifact_generation q) (ab_generation (vr_artifact t)))"

definition rollout_open :: "engine \<Rightarrow> rollback_request \<Rightarrow> version_record \<Rightarrow> bool" where
  "rollout_open st q c \<longleftrightarrow> (id_valid (kq_rollout q) \<longrightarrow>
     (\<exists>p. rollout_of st (kq_rollout q) = Some p \<and> \<not> id_valid (pl_last_rollback p) \<and>
        pl_candidate p = vr_version c \<and> cites (kq_rollout_generation q) (pl_generation p)))"

definition revertible :: "engine \<Rightarrow> rollback_request \<Rightarrow> version_record \<Rightarrow> bool" where
  "revertible st q c \<longleftrightarrow>
     cites (kq_candidate_generation q) (vr_generation c) \<and> cites (kq_epoch q) (st_epoch st) \<and>
     cites (kq_policy_generation q) (lp_generation (ps_base (st_policy st))) \<and>
     current_lease st (kq_worker q) (kq_boot q) (kq_epoch q) \<and>
     (\<exists>sr. sr_find (st_scopes st) (kq_scope q) = Some sr \<and> cites (kq_scope_generation q) (s_generation sr)) \<and>
     candidate_holds st (kq_scope q) c \<and> rollout_open st q c \<and> restorable st q c \<and>
     (kq_automatic q \<longrightarrow> lp_allow_automatic_rollback (rollback_policy_of st q)) \<and>
     (lp_require_rollback_target (rollback_policy_of st q) \<or> id_valid (kq_target q))"

lemma rollback_gate_part:
  "rbg.part (\<lambda>g. rollback_policy st q (rollback_target st q c (rollback_plan st q c
     (rollback_scope st q c (rollback_caller st q c g))))) (revertible st q c)"
proof -
  have caller: "rbg.part (rollback_caller st q c) (cites (kq_candidate_generation q) (vr_generation c) \<and>
      cites (kq_epoch q) (st_epoch st) \<and> cites (kq_policy_generation q) (lp_generation (ps_base (st_policy st))) \<and>
      current_lease st (kq_worker q) (kq_boot q) (kq_epoch q))"
    unfolding rollback_caller_def [abs_def]
    by (rule rbg.part_cong, (rule rbg.part_rules check_reasons negative_codes | assumption)+)
       (auto simp: check_rules cites_def)
  have scope: "rbg.part (rollback_scope st q c)
      ((\<exists>sr. sr_find (st_scopes st) (kq_scope q) = Some sr \<and> cites (kq_scope_generation q) (s_generation sr)) \<and>
       candidate_holds st (kq_scope q) c)"
    unfolding rollback_scope_def [abs_def]
    by (rule rbg.part_cong, (rule rbg.part_rules rbg.part_option negative_codes)+)
       (auto simp: cites_def split: option.splits)
  have plan: "rbg.part (rollback_plan st q c) (rollout_open st q c)"
    unfolding rollback_plan_def [abs_def]
    by (rule rbg.part_cong, (rule rbg.part_rules rbg.part_if rbg.part_option negative_codes)+)
       (auto simp: rollout_open_def cites_def split: option.splits)
  have target: "rbg.part (rollback_target st q c) (restorable st q c)"
    unfolding rollback_target_def [abs_def]
    by (rule rbg.part_cong, (rule rbg.part_rules rbg.part_option negative_codes)+)
       (auto simp: restorable_def cites_def split: option.splits)
  have policy: "rbg.part (rollback_policy st q)
      ((kq_automatic q \<longrightarrow> lp_allow_automatic_rollback (rollback_policy_of st q)) \<and>
       (lp_require_rollback_target (rollback_policy_of st q) \<or> id_valid (kq_target q)))"
    unfolding rollback_policy_def [abs_def]
    by (rule rbg.part_cong, (rule rbg.part_rules negative_codes)+) auto
  show ?thesis
    by (rule rbg.part_cong, rule rbg.part_comp [OF policy], rule rbg.part_comp [OF target],
        rule rbg.part_comp [OF plan], rule rbg.part_comp [OF scope caller])
       (auto simp: revertible_def)
qed

text \<open>
  C4 The rollback gate is exact: it allows a rollback precisely when the candidate is
  registered, every generation the request cites is current, the candidate holds live authority
  in the scope, the cited rollout is the candidate's and has not been rolled back, the target is
  a different version that can be restored, and the policy admits it.
\<close>

theorem rollback_gate_exact:
  "allowed (fst (evaluate_rollback q st)) \<longleftrightarrow>
     (\<exists>c. version_of st (kq_model q) (kq_candidate q) = Some c \<and> revertible st q c)"
proof (cases "version_of st (kq_model q) (kq_candidate q)")
  case None
  then show ?thesis
    using rbg.fault_refuses [OF negative_codes(1) rbg.sound_open] by (simp add: evaluate_rollback_def Let_def)
next
  case (Some c)
  then show ?thesis
    using rbg.part_closes [OF rollback_gate_part [of st q c], of OC_ROLLBACK_ALLOWED]
    by (simp add: evaluate_rollback_def rollback_gate_def)
qed

section \<open>Retirement\<close>

definition unneeded :: "engine \<Rightarrow> version_record \<Rightarrow> bool" where
  "unneeded st r \<longleftrightarrow>
     list_all (\<lambda>p. live p \<longrightarrow> pl_candidate p \<noteq> vr_version r \<and> pl_rollback_target p \<noteq> vr_version r)
       (map snd (st_rollouts st)) \<and>
     (id_valid (vr_rollout r) \<longrightarrow>
       (case rollout_of st (vr_rollout r) of None \<Rightarrow> True | Some p \<Rightarrow> \<not> live p)) \<and>
     list_all (\<lambda>a. ap_version a = vr_version r \<longrightarrow> \<not> unsettled a) (map snd (st_attempts st))"

definition drained :: "engine \<Rightarrow> version_record \<Rightarrow> bool" where
  "drained st r \<longleftrightarrow> live_of_kind st r [AK_Exclusive] = 0 \<and> live_of_kind st r [AK_Canary, AK_SplitTraffic] = 0 \<and>
     live_of_kind st r [AK_Draining] = 0 \<and>
     (live_of_kind st r [AK_RollbackRetained] = 0 \<or> lp_allow_retirement_without_drain (ps_base (st_policy st)))"

definition retirable :: "engine \<Rightarrow> retirement_request \<Rightarrow> version_record \<Rightarrow> bool" where
  "retirable st q r \<longleftrightarrow> \<not> retired r \<and> cites (tq_generation q) (vr_generation r) \<and>
     cites (tq_epoch q) (st_epoch st) \<and>
     cites (tq_policy_generation q) (lp_generation (ps_base (st_policy st))) \<and> unneeded st r \<and> drained st r"

lemma retirement_rollouts_part:
  "rtg.part (retirement_rollouts version ps)
     (list_all (\<lambda>p. live p \<longrightarrow> pl_candidate p \<noteq> version \<and> pl_rollback_target p \<noteq> version) ps)"
proof (induction ps)
  case (Cons p ps)
  have "rtg.part (\<lambda>g. retirement_rollouts version (p # ps) g) ((live p \<longrightarrow> pl_candidate p \<noteq> version \<and>
      pl_rollback_target p \<noteq> version) \<and>
      list_all (\<lambda>p. live p \<longrightarrow> pl_candidate p \<noteq> version \<and> pl_rollback_target p \<noteq> version) ps)"
    unfolding retirement_rollouts.simps
    by (rule rtg.part_cong, rule rtg.part_comp [OF Cons.IH], (rule rtg.part_rules negative_codes)+) auto
  then show ?case by simp
qed (simp add: rtg.part_def)

lemma retirement_attempts_part:
  "rtg.part (retirement_attempts version as) (list_all (\<lambda>a. ap_version a = version \<longrightarrow> \<not> unsettled a) as)"
proof (induction "as")
  case (Cons a as)
  have "rtg.part (\<lambda>g. retirement_attempts version (a # as) g) ((ap_version a = version \<longrightarrow> \<not> unsettled a) \<and>
      list_all (\<lambda>a. ap_version a = version \<longrightarrow> \<not> unsettled a) as)"
    unfolding retirement_attempts.simps
    by (rule rtg.part_cong, rule rtg.part_comp [OF Cons.IH], (rule rtg.part_rules negative_codes)+) auto
  then show ?case by simp
qed (simp add: rtg.part_def)

lemma retirement_gate_part:
  "rtg.part (\<lambda>g. retirement_attempts (vr_version r) (map snd (st_attempts st)) (retirement_bindings st r
     (retirement_rollout_checks st r (retirement_caller st q r g)))) (retirable st q r)"
proof -
  have caller: "rtg.part (retirement_caller st q r) (\<not> retired r \<and> cites (tq_generation q) (vr_generation r) \<and>
      cites (tq_epoch q) (st_epoch st) \<and> cites (tq_policy_generation q) (lp_generation (ps_base (st_policy st))))"
    unfolding retirement_caller_def [abs_def]
    by (rule rtg.part_cong, (rule rtg.part_rules check_reasons negative_codes | assumption)+)
       (auto simp: check_rules cites_def)
  have rollouts: "rtg.part (retirement_rollout_checks st r)
      (list_all (\<lambda>p. live p \<longrightarrow> pl_candidate p \<noteq> vr_version r \<and> pl_rollback_target p \<noteq> vr_version r)
         (map snd (st_rollouts st)) \<and>
       (id_valid (vr_rollout r) \<longrightarrow> (case rollout_of st (vr_rollout r) of None \<Rightarrow> True | Some p \<Rightarrow> \<not> live p)))"
    unfolding retirement_rollout_checks_def [abs_def]
    by (rule rtg.part_cong, rule rtg.part_comp [OF retirement_rollouts_part], (rule rtg.part_rules negative_codes)+)
       (auto split: option.splits)
  have bindings: "rtg.part (retirement_bindings st r) (drained st r)"
    unfolding retirement_bindings_def [abs_def]
    by (rule rtg.part_cong, (rule rtg.part_rules negative_codes)+) (auto simp: drained_def)
  show ?thesis
    by (rule rtg.part_cong, rule rtg.part_comp [OF retirement_attempts_part], rule rtg.part_comp [OF bindings],
        rule rtg.part_comp [OF rollouts caller])
       (auto simp: retirable_def unneeded_def)
qed

text \<open>
  C12 The retirement gate is exact: a generation may be retired precisely when it is registered
  and not retired, no live rollout carries it or names it as its rollback target, it holds no
  live authority beyond rollback retention the policy waives, and no external attempt against
  it is unsettled.
\<close>

theorem retirement_gate_exact:
  "allowed (fst (evaluate_retirement q st)) \<longleftrightarrow>
     (\<exists>r. version_of st (tq_model q) (tq_version q) = Some r \<and> retirable st q r)"
proof (cases "version_of st (tq_model q) (tq_version q)")
  case None
  then show ?thesis
    using rtg.fault_refuses [OF negative_codes(1) rtg.sound_open] by (simp add: evaluate_retirement_def Let_def)
next
  case (Some r)
  then show ?thesis
    using rtg.part_closes [OF retirement_gate_part [of r st q], of OC_RETIREMENT_ALLOWED]
    by (simp add: evaluate_retirement_def retirement_gate_def)
qed

section \<open>Stage advance\<close>

definition at_stage :: "progress_request \<Rightarrow> rollout_plan \<Rightarrow> stage_definition \<Rightarrow> bool" where
  "at_stage q p stage \<longleftrightarrow> live p \<and> pl_stage_entered p \<and> stage_at p (pl_current_stage_index p) = Some stage \<and>
     cites (xq_stage q) (sg_id stage) \<and> cites (xq_stage_generation q) (pl_current_stage_generation p) \<and>
     list_all (\<lambda>e. sh_generation e = pl_current_stage_generation p \<longrightarrow> sh_decision e = SD_Entered) (pl_history p)"

text \<open>What a scope of the stage has to show: required evidence, no failure, every acceptance.\<close>

definition scope_passes :: "engine \<Rightarrow> version_record \<Rightarrow> rollout_plan \<Rightarrow> stage_definition \<Rightarrow> u64 \<Rightarrow> bool" where
  "scope_passes st r p stage scope \<longleftrightarrow>
     (let subject = stage_subject r p stage scope; found = (\<lambda>c. evaluate_criterion st c subject) in
      (lp_require_evidence_for_stage_advance (stage_policy st p) \<longrightarrow>
         list_all (evidence_met st subject) (sg_required_evidence stage)) \<and>
      list_all (\<lambda>c. cx_present (found c) \<and> \<not> tripped c (cx_value (found c))) (sg_failure stage) \<and>
      list_all (\<lambda>c. cx_present (found c) \<and> cx_satisfied (found c)) (sg_acceptance stage))"

definition advanceable :: "engine \<Rightarrow> progress_request \<Rightarrow> rollout_plan \<Rightarrow> bool" where
  "advanceable st q p \<longleftrightarrow> (\<exists>stage r root.
     at_stage q p stage \<and> cites (xq_rollout_generation q) (pl_generation p) \<and>
     cites (xq_epoch q) (st_epoch st) \<and> current_lease st (xq_worker q) (xq_boot q) (xq_epoch q) \<and>
     check_plan_bindings st p = None \<and>
     sr_find (st_scopes st) (pl_root_scope p) = Some root \<and> cites (xq_scope_generation q) (s_generation root) \<and>
     (pl_manual_progression p \<longrightarrow> xq_administrative_approval q) \<and>
     stage_blast_radius p stage \<le> pl_max_blast_radius_percent p \<and>
     stage_blast_radius p stage \<le> lp_max_blast_radius_percent (stage_policy st p) \<and>
     version_of st (pl_model p) (pl_candidate p) = Some r \<and>
     list_all (scope_passes st r p stage) (staged_scopes p stage))"

lemma stage_position_part:
  "sgg.part (stage_position q p)
     (live p \<and> pl_stage_entered p \<and>
      (\<exists>stage. stage_at p (pl_current_stage_index p) = Some stage \<and> cites (xq_stage q) (sg_id stage)) \<and>
      cites (xq_stage_generation q) (pl_current_stage_generation p) \<and>
      list_all (\<lambda>e. sh_generation e = pl_current_stage_generation p \<longrightarrow> sh_decision e = SD_Entered) (pl_history p))"
proof -
  have history: "sgg.part (fold (\<lambda>e. sfault (sh_generation e = pl_current_stage_generation p \<and> sh_decision e \<noteq> SD_Entered)
         OC_CONFLICT (Rlt StageCompletionDuplicate)
         ''this stage generation already has a committed decision'') (pl_history p))
      (list_all (\<lambda>e. True \<and> \<not> (sh_generation e = pl_current_stage_generation p \<and> sh_decision e \<noteq> SD_Entered))
         (pl_history p))"
    by (rule sgg.part_fold, (rule sgg.part_rules negative_codes)+)
  have stage: "sgg.part (case stage_at p (pl_current_stage_index p) of
        None \<Rightarrow> fault stage_rank OC_Rejected (Rlt StageOrderViolation) ''current stage index is invalid''
      | Some stage \<Rightarrow> sfault (id_valid (xq_stage q) \<and> xq_stage q \<noteq> sg_id stage)
          OC_Rejected (Rlt StageOrderViolation) ''request names a stage that is not the current stage'')
      (\<exists>stage. stage_at p (pl_current_stage_index p) = Some stage \<and> cites (xq_stage q) (sg_id stage))"
  proof (cases "stage_at p (pl_current_stage_index p)")
    case (Some x)
    then show ?thesis
      unfolding Some option.case
      by (intro sgg.part_cong [OF sgg.part_when [OF negative_codes(6) sgg.part_id]]) (simp add: cites_def Some)
  qed (simp add: sgg.part_fault [OF negative_codes(6) sgg.part_id])
  show ?thesis
    unfolding stage_position_def [abs_def]
    by (rule sgg.part_cong, rule sgg.part_comp [OF history], (rule sgg.part_when negative_codes)+,
        rule sgg.part_comp [OF stage], (rule sgg.part_rules negative_codes)+)
       (auto simp: live_def cites_def list_all_iff)
qed

lemma stage_caller_part:
  "sgg.part (stage_caller st q) (cites (xq_epoch q) (st_epoch st) \<and> current_lease st (xq_worker q) (xq_boot q) (xq_epoch q))"
  unfolding stage_caller_def [abs_def]
  by (rule sgg.part_cong, (rule sgg.part_rules check_reasons negative_codes | assumption)+) (auto simp: check_rules)

lemma stage_bindings_part:
  "sgg.part (stage_bindings st q p) (check_plan_bindings st p = None \<and>
     (\<exists>root. sr_find (st_scopes st) (pl_root_scope p) = Some root \<and> cites (xq_scope_generation q) (s_generation root)))"
proof -
  have root: "sgg.part (case sr_find (st_scopes st) (pl_root_scope p) of
        None \<Rightarrow> fault stage_rank OC_NOT_FOUND (Reg UnknownScope) ''plan root scope no longer exists''
      | Some root \<Rightarrow> sfault (id_valid (xq_scope_generation q) \<and> xq_scope_generation q \<noteq> s_generation root)
          OC_STALE_PLAN (Ord ScopeGenerationMismatch)
          ''scope generation advanced since the request was formed'')
      (\<exists>root. sr_find (st_scopes st) (pl_root_scope p) = Some root \<and> cites (xq_scope_generation q) (s_generation root))"
  proof (cases "sr_find (st_scopes st) (pl_root_scope p)")
    case (Some x)
    then show ?thesis
      unfolding Some option.case
      by (intro sgg.part_cong [OF sgg.part_when [OF negative_codes(3) sgg.part_id]]) (simp add: cites_def Some)
  qed (simp add: sgg.part_fault [OF negative_codes(1) sgg.part_id])
  have plan: "sgg.part (case check_plan_bindings st p of
        None \<Rightarrow> (\<lambda>g. g)
      | Some (why, detail_text) \<Rightarrow> fault stage_rank OC_STALE_PLAN (Rlt RolloutPlanStale) detail_text)
      (check_plan_bindings st p = None)"
    using sgg.part_fault [OF negative_codes(3) sgg.part_id] sgg.part_id by (simp split: option.splits prod.splits)
  show ?thesis
    unfolding stage_bindings_def [abs_def]
    by (rule sgg.part_cong, rule sgg.part_comp [OF root plan]) simp
qed

lemma stage_limits_part:
  "sgg.part (stage_limits st q p) ((pl_manual_progression p \<longrightarrow> xq_administrative_approval q) \<and> \<not> radius_exceeded st p)"
  unfolding stage_limits_def [abs_def]
  by (rule sgg.part_cong, (rule sgg.part_rules negative_codes)+) auto

lemma scope_checks_part: "sgg.part (scope_checks st r p stage scope) (scope_passes st r p stage scope)"
proof -
  have failure: "sgg.part (failure_check st subject c) (cx_present (evaluate_criterion st c subject) \<and>
      \<not> tripped c (cx_value (evaluate_criterion st c subject)))" for subject c
    unfolding failure_check_def [abs_def] Let_def
    by (rule sgg.part_cong, (rule sgg.part_rules sgg.part_if negative_codes)+) auto
  have acceptance: "sgg.part (acceptance_check st subject c) (cx_present (evaluate_criterion st c subject) \<and>
      cx_satisfied (evaluate_criterion st c subject))" for subject c
    unfolding acceptance_check_def [abs_def] Let_def
    by (rule sgg.part_cong, (rule sgg.part_rules sgg.part_if negative_codes)+) auto
  show ?thesis
    unfolding scope_checks_def [abs_def] Let_def
    by (rule sgg.part_cong, rule sgg.part_comp [OF sgg.part_fold [OF acceptance]],
        rule sgg.part_comp [OF sgg.part_fold [OF failure]],
        (rule sgg.part_rules sgg.part_if check_evidence_reasons | assumption)+)
       (auto simp: scope_passes_def Let_def check_rules)
qed

lemma stage_evidence_part:
  "sgg.part (stage_evidence st p) (\<exists>r. version_of st (pl_model p) (pl_candidate p) = Some r \<and>
     (case stage_at p (pl_current_stage_index p) of None \<Rightarrow> True
      | Some stage \<Rightarrow> list_all (scope_passes st r p stage) (staged_scopes p stage)))"
  unfolding stage_evidence_def [abs_def]
  by (rule sgg.part_cong, (rule sgg.part_rules sgg.part_option sgg.part_fold scope_checks_part negative_codes)+)
     (auto split: option.splits)

lemma stage_gate_part:
  assumes "cites (xq_rollout_generation q) (pl_generation p)"
  shows "sgg.part (\<lambda>g. stage_evidence st p (stage_limits st q p (stage_bindings st q p (stage_caller st q
    (stage_position q p g))))) (advanceable st q p)"
  by (rule sgg.part_cong, rule sgg.part_comp [OF stage_evidence_part], rule sgg.part_comp [OF stage_limits_part],
      rule sgg.part_comp [OF stage_bindings_part], rule sgg.part_comp [OF stage_caller_part stage_position_part])
     (use assms in \<open>auto simp: advanceable_def at_stage_def radius_exceeded_def not_less\<close>)

text \<open>
  C11 The stage gate is exact: a rollout may advance precisely when it stands live and entered at
  the stage the request means, nothing it was bound to has changed, the caller is current, the
  blast radius and the manual approval are respected, and every scope of the stage shows the
  required evidence, no tripped failure criterion and every acceptance criterion.
\<close>

theorem stage_gate_exact:
  "allowed (fst (evaluate_stage_advance q st)) \<longleftrightarrow>
     (\<exists>p. rollout_of st (xq_rollout q) = Some p \<and> advanceable st q p)"
proof (cases "rollout_of st (xq_rollout q)")
  case None
  then show ?thesis
    using sgg.fault_refuses [OF negative_codes(1) sgg.sound_open] by (simp add: evaluate_stage_advance_def Let_def)
next
  case (Some p)
  show ?thesis
  proof (cases "cites (xq_rollout_generation q) (pl_generation p)")
    case True
    then show ?thesis
      using Some sgg.part_closes [OF stage_gate_part [OF True, of st], of OC_STAGE_ADVANCE_ALLOWED]
      by (auto simp: evaluate_stage_advance_def stage_gate_def cites_def)
  next
    case False
    then show ?thesis
      using Some sgg.fault_refuses [OF negative_codes(3) sgg.sound_open]
      by (auto simp: evaluate_stage_advance_def Let_def advanceable_def cites_def)
  qed
qed

end
