(* ===== verification/Mlf_Bytes.thy ===== *)
theory Mlf_Bytes
  imports Mlf_Prelude
begin

text \<open>
  The byte codec shared by the wire protocol and the state file: \<open>PayloadWriter\<close> and
  \<open>PayloadReader\<close> of include/mlf/protocol.hpp and src/protocol.cpp (the \<open>ByteWriter\<close> and
  \<open>ByteReader\<close> of src/state_store.cpp have the same operations). A writer appends, so what an
  operation writes is a byte list. A reader holds the bytes it has not consumed and a flag that
  stays false after a failed read, and every later read then returns a default.

  The locale \<open>codec\<close> is the contract of a pair of a writer and a reader: reading what was
  written gives the value back and leaves exactly the bytes that followed it.
\<close>

named_theorems read_simps \<open>what a reader returns on what a writer wrote\<close>

section \<open>Writer\<close>

type_synonym bytes = "u8 list"

definition put_u8 :: "u8 \<Rightarrow> bytes" where
  "put_u8 value = [value]"

definition put_bool :: "bool \<Rightarrow> bytes" where
  "put_bool value = put_u8 (if value then 1 else 0)"

definition low_byte :: "nat \<Rightarrow> 'w::len word \<Rightarrow> u8" where
  "low_byte i value = ucast (and (drop_bit (8 * i) value) 0xff)"

definition put_u16 :: "u16 \<Rightarrow> bytes" where
  "put_u16 value = put_u8 (low_byte 0 value) @ put_u8 (low_byte 1 value)"

definition put_u32 :: "u32 \<Rightarrow> bytes" where
  "put_u32 value = concat (map (\<lambda>i. put_u8 (low_byte i value)) [0..<4])"

definition put_u64 :: "u64 \<Rightarrow> bytes" where
  "put_u64 value = concat (map (\<lambda>i. put_u8 (low_byte i value)) [0..<8])"

definition put_i8 :: "int \<Rightarrow> bytes" where
  "put_i8 value = put_u8 (word_of_int value)"

text \<open>A double is carried as its bit pattern, here and in the records.\<close>

definition put_f64 :: "u64 \<Rightarrow> bytes" where
  "put_f64 bits = put_u64 bits"

definition put_str :: "string \<Rightarrow> bytes" where
  "put_str value = put_u32 (of_nat (length value)) @ concat (map (\<lambda>c. put_u8 (of_nat (of_char c))) value)"

lemma put_str_length: "length (put_str s) = 4 + length s"
  by (simp add: put_str_def put_u32_def put_u8_def length_concat comp_def sum_list_triv)

text \<open>A counted sequence: the number of elements, then each of them.\<close>

definition put_count :: "'a list \<Rightarrow> bytes" where
  "put_count xs = put_u32 (of_nat (length xs))"

definition put_all :: "('a \<Rightarrow> bytes) \<Rightarrow> 'a list \<Rightarrow> bytes" where
  "put_all put xs = concat (map put xs)"

section \<open>Reader\<close>

record reader =
  r_rest :: bytes
  r_ok :: bool

definition reader_of :: "bytes \<Rightarrow> reader" where
  "reader_of data = \<lparr>r_rest = data, r_ok = True\<rparr>"

definition exhausted :: "reader \<Rightarrow> bool" where
  "exhausted r \<longleftrightarrow> r_rest r = []"

definition reader_fail :: "reader \<Rightarrow> reader" where
  "reader_fail r = r\<lparr>r_ok := False\<rparr>"

definition get_u8 :: "reader \<Rightarrow> u8 \<times> reader" where
  "get_u8 r =
     (if \<not> r_ok r \<or> length (r_rest r) < 1 then (0, reader_fail r)
      else (hd (r_rest r), r\<lparr>r_rest := tl (r_rest r)\<rparr>))"

definition get_bool :: "reader \<Rightarrow> bool \<times> reader" where
  "get_bool r = (let (b, r) = get_u8 r in (b \<noteq> 0, r))"

text \<open>The loop \<open>for i: value |= u8() << (8 * i)\<close>.\<close>

fun get_le :: "nat \<Rightarrow> nat \<Rightarrow> 'w::len word \<Rightarrow> reader \<Rightarrow> 'w word \<times> reader" where
  "get_le i 0 value r = (value, r)"
| "get_le i (Suc n) value r =
     (let (b, r) = get_u8 r in get_le (Suc i) n (or value (push_bit (8 * i) (ucast b))) r)"

definition get_u16 :: "reader \<Rightarrow> u16 \<times> reader" where
  "get_u16 r = get_le 0 2 0 r"

definition get_u32 :: "reader \<Rightarrow> u32 \<times> reader" where
  "get_u32 r = get_le 0 4 0 r"

definition get_u64 :: "reader \<Rightarrow> u64 \<times> reader" where
  "get_u64 r = get_le 0 8 0 r"

definition get_i8 :: "reader \<Rightarrow> int \<times> reader" where
  "get_i8 r = (let (b, r) = get_u8 r in (sint b, r))"

definition get_f64 :: "reader \<Rightarrow> u64 \<times> reader" where
  "get_f64 r = get_u64 r"

definition get_str :: "nat \<Rightarrow> reader \<Rightarrow> string \<times> reader" where
  "get_str max_length r =
     (let (n, r) = get_u32 r in
      if \<not> r_ok r \<or> length (r_rest r) < unat n then ([], reader_fail r)
      else if max_length < unat n then ([], reader_fail r)
      else (map (\<lambda>b. char_of (unat b)) (take (unat n) (r_rest r)), r\<lparr>r_rest := drop (unat n) (r_rest r)\<rparr>))"

text \<open>\<open>n\<close> elements, read by a reader that cannot stop early and by one that can.\<close>

fun get_n :: "(reader \<Rightarrow> 'a \<times> reader) \<Rightarrow> nat \<Rightarrow> reader \<Rightarrow> 'a list \<times> reader" where
  "get_n get 0 r = ([], r)"
| "get_n get (Suc n) r = (let (x, r) = get r; (xs, r) = get_n get n r in (x # xs, r))"

fun get_each :: "(reader \<Rightarrow> 'e + 'a \<times> reader) \<Rightarrow> nat \<Rightarrow> reader \<Rightarrow> 'e + 'a list \<times> reader" where
  "get_each get 0 r = Inr ([], r)"
| "get_each get (Suc n) r =
     (case get r of
        Inl e \<Rightarrow> Inl e
      | Inr (x, r) \<Rightarrow> (case get_each get n r of Inl e \<Rightarrow> Inl e | Inr (xs, r) \<Rightarrow> Inr (x # xs, r)))"

section \<open>The contract of a codec\<close>

locale codec =
  fixes put :: "'a \<Rightarrow> bytes" and get :: "reader \<Rightarrow> 'a \<times> reader" and fits :: "'a \<Rightarrow> bool"
  assumes get_put: "fits x \<Longrightarrow> get (reader_of (put x @ rest)) = (x, reader_of rest)"
begin

lemma get_n_put_all:
  "list_all fits xs \<Longrightarrow> get_n get (length xs) (reader_of (put_all put xs @ rest)) = (xs, reader_of rest)"
  by (induction xs) (simp_all add: put_all_def get_put)

lemma injective:
  assumes "fits x" and "fits y" and "put x @ xs = put y @ ys"
  shows "x = y \<and> xs = ys"
  using get_put [OF assms(1), of xs] get_put [OF assms(2), of ys] assms(3)
  by (simp add: reader_of_def)

end

locale checked_codec =
  fixes put :: "'a \<Rightarrow> bytes" and get :: "reader \<Rightarrow> 'e + 'a \<times> reader" and fits :: "'a \<Rightarrow> bool"
  assumes get_put: "fits x \<Longrightarrow> get (reader_of (put x @ rest)) = Inr (x, reader_of rest)"
begin

lemma get_each_put_all:
  "list_all fits xs \<Longrightarrow>
   get_each get (length xs) (reader_of (put_all put xs @ rest)) = Inr (xs, reader_of rest)"
  by (induction xs) (simp_all add: put_all_def get_put)

end

section \<open>The primitive codecs\<close>

lemma reader_of_ok [simp]: "r_ok (reader_of bs)"
  by (simp add: reader_of_def)

lemma reader_of_rest [simp]: "r_rest (reader_of bs) = bs"
  by (simp add: reader_of_def)

lemma exhausted_reader_of [simp]: "exhausted (reader_of bs) \<longleftrightarrow> bs = []"
  by (simp add: exhausted_def)

lemma get_u8_Cons [read_simps]: "get_u8 (reader_of (b # rest)) = (b, reader_of rest)"
  by (simp add: get_u8_def reader_of_def)

lemma get_u8_put [read_simps]: "get_u8 (reader_of (put_u8 b @ rest)) = (b, reader_of rest)"
  by (simp add: put_u8_def get_u8_Cons)

lemma get_bool_put [read_simps]: "get_bool (reader_of (put_bool b @ rest)) = (b, reader_of rest)"
  by (simp add: get_bool_def put_bool_def get_u8_put)

lemma bit_low_byte:
  "bit (low_byte i (w :: 'w::len word)) k \<longleftrightarrow> k < 8 \<and> bit w (8 * i + k)"
proof -
  have mask: "(0xff :: 'w word) = mask 8"
    by (simp add: mask_eq_exp_minus_1)
  show ?thesis
    by (auto simp: low_byte_def mask bit_simps ac_simps dest: bit_imp_le_length)
qed

lemma get_le_bits:
  "length bs = n \<Longrightarrow>
   get_le i n v (reader_of (bs @ rest)) = (w, r) \<Longrightarrow>
   r = reader_of rest \<and> (\<forall>k < LENGTH('w). bit (w :: 'w::len word) k \<longleftrightarrow>
     bit v k \<or> (8 * i \<le> k \<and> k < 8 * (i + n) \<and> bit (bs ! (k div 8 - i)) (k mod 8)))"
proof (induction n arbitrary: i v bs)
  case (Suc n)
  then obtain b bs' where bs: "bs = b # bs'" "length bs' = n" by (cases bs) auto
  have step: "get_le (Suc i) n (or v (push_bit (8 * i) (ucast b))) (reader_of (bs' @ rest)) = (w, r)"
    using Suc.prems(2) by (simp add: bs(1) get_u8_Cons)
  note IH = Suc.IH [OF bs(2) step]
  have "bit w k \<longleftrightarrow> bit v k \<or> (8 * i \<le> k \<and> k < 8 * (i + Suc n) \<and> bit (bs ! (k div 8 - i)) (k mod 8))"
    if "k < LENGTH('w)" for k
  proof -
    consider "k < 8 * i" | "8 * i \<le> k" "k < 8 * Suc i" | "8 * Suc i \<le> k" by linarith
    then show ?thesis
    proof cases
      case 1
      then show ?thesis using IH that by (simp add: bit_simps)
    next
      case 2
      then have "k div 8 = i" "k mod 8 = k - 8 * i" by (auto simp: div_nat_eqI modulo_nat_def)
      moreover have "k - 8 * i < LENGTH('w)" using that by linarith
      ultimately show ?thesis using 2 IH that by (simp add: bit_simps bs(1))
    next
      case 3
      then have "Suc i \<le> k div 8" by (simp add: less_eq_div_iff_mult_less_eq)
      then have "k div 8 - i = Suc (k div 8 - Suc i)" by linarith
      moreover have "\<not> bit b (k - 8 * i)" using 3 by (auto dest: bit_imp_le_length)
      ultimately show ?thesis using 3 IH that by (auto simp: bit_simps bs(1))
    qed
  qed
  then show ?case using IH by blast
qed auto

lemma get_le_put:
  assumes "LENGTH('w::len) = 8 * n"
  shows "get_le 0 n 0 (reader_of (map (\<lambda>i. low_byte i (w :: 'w word)) [0..<n] @ rest)) = (w, reader_of rest)"
    (is "?read = _")
proof -
  obtain v r where read: "?read = (v, r)" by (cases ?read)
  have "r = reader_of rest \<and> (\<forall>k < LENGTH('w). bit v k \<longleftrightarrow> bit w k)"
    using get_le_bits [OF _ read] assms
    by (auto simp: bit_low_byte less_mult_imp_div_less)
  then show ?thesis using read by (simp add: bit_word_eqI)
qed

lemma put_words:
  "put_u16 v = map (\<lambda>i. low_byte i v) [0..<2]"
  "put_u32 w = map (\<lambda>i. low_byte i w) [0..<4]"
  "put_u64 x = map (\<lambda>i. low_byte i x) [0..<8]"
  by (simp_all add: put_u16_def put_u32_def put_u64_def put_u8_def upt_rec)

lemma length_put [simp]:
  "length (put_u8 b) = 1" "length (put_u16 v) = 2" "length (put_u32 w) = 4" "length (put_u64 x) = 8"
  by (simp_all add: put_words put_u8_def)

lemma get_word_put [read_simps]:
  "get_u16 (reader_of (put_u16 v @ rest)) = (v, reader_of rest)"
  "get_u32 (reader_of (put_u32 w @ rest)) = (w, reader_of rest)"
  "get_u64 (reader_of (put_u64 x @ rest)) = (x, reader_of rest)"
  "get_f64 (reader_of (put_f64 x @ rest)) = (x, reader_of rest)"
  by (simp_all add: get_u16_def get_u32_def get_u64_def get_f64_def put_f64_def put_words get_le_put)

definition i8_fits :: "int \<Rightarrow> bool" where
  "i8_fits z \<longleftrightarrow> - 128 \<le> z \<and> z < 128"

lemma get_i8_put [read_simps]:
  "i8_fits z \<Longrightarrow> get_i8 (reader_of (put_i8 z @ rest)) = (z, reader_of rest)"
  by (simp add: get_i8_def put_i8_def get_u8_put i8_fits_def int_word_sint)

text \<open>A string is carried exactly when the reader's bound and the 32-bit length admit it.\<close>

definition str_fits :: "nat \<Rightarrow> string \<Rightarrow> bool" where
  "str_fits m s \<longleftrightarrow> length s \<le> m \<and> length s < 2 ^ 32"

lemma put_chars: "concat (map (\<lambda>c. put_u8 (of_nat (of_char c))) s) = map (\<lambda>c. of_nat (of_char c)) s"
  by (induction s) (simp_all add: put_u8_def)

lemma char_of_byte: "char_of (unat (of_nat (of_char c) :: u8)) = c"
proof -
  have "of_char c < (256 :: nat)" by (rule nat_of_char_less_256)
  then show ?thesis by (simp add: unat_of_nat)
qed

lemma get_str_put [read_simps]:
  "str_fits m s \<Longrightarrow> get_str m (reader_of (put_str s @ rest)) = (s, reader_of rest)"
  by (simp add: get_str_def put_str_def get_word_put str_fits_def unat_of_nat put_chars o_def char_of_byte)

text \<open>A count is carried when it fits 32 bits.\<close>

lemma get_count_put [read_simps]:
  "get_u32 (reader_of (put_count xs @ rest)) = (of_nat (length xs), reader_of rest)"
  by (simp add: put_count_def get_word_put)

interpretation u8: codec put_u8 get_u8 "\<lambda>_. True"
  by unfold_locales (simp add: get_u8_put)

interpretation u32: codec put_u32 get_u32 "\<lambda>_. True"
  by unfold_locales (simp add: get_word_put)

interpretation u64: codec put_u64 get_u64 "\<lambda>_. True"
  by unfold_locales (simp add: get_word_put)

interpretation str: codec put_str "get_str m" "str_fits m" for m
  by unfold_locales (simp add: get_str_put)

end
