(* ===== verification/Mlf_Crc.thy ===== *)
theory Mlf_Crc
  imports Mlf_Bytes
begin

text \<open>
  The integrity check of frames and state files: \<open>crc32\<close> of src/state_store.cpp, driven by a
  table of 256 entries. It is related to the bitwise algorithm without a table, and through the
  linearity of the shift register to what it detects.
\<close>

definition crc_shift :: "u32 \<Rightarrow> u32" where
  "crc_shift value =
     (if and value 1 \<noteq> 0 then xor 0xEDB88320 (drop_bit 1 value) else drop_bit 1 value)"

definition crc_table_entry :: "u32 \<Rightarrow> u32" where
  "crc_table_entry index = (crc_shift ^^ 8) index"

definition crc_table :: "u32 list" where
  "crc_table = map (\<lambda>n. crc_table_entry (of_nat n)) [0..<256]"

definition crc_update :: "u32 \<Rightarrow> u8 \<Rightarrow> u32" where
  "crc_update value b =
     xor (crc_table ! unat (and (xor value (ucast b)) 0xFF)) (drop_bit 8 value)"

definition crc32 :: "bytes \<Rightarrow> u32" where
  "crc32 data = xor (foldl crc_update 0xFFFFFFFF data) 0xFFFFFFFF"

section \<open>The bitwise algorithm\<close>

definition crc_bitwise :: "bytes \<Rightarrow> u32" where
  "crc_bitwise data = not (foldl (\<lambda>v b. (crc_shift ^^ 8) (xor v (ucast b))) (not 0) data)"

section \<open>The shift register is linear and injective\<close>

lemma xor_cancel: "xor a b = xor a c \<longleftrightarrow> b = (c :: 'w::len word)" "xor b a = xor c a \<longleftrightarrow> b = c"
proof -
  have "xor a (xor a b) = b" for b by (simp flip: xor.assoc)
  then show "xor a b = xor a c \<longleftrightarrow> b = c" by metis
  then show "xor b a = xor c a \<longleftrightarrow> b = c" by (simp add: xor.commute)
qed

lemma crc_shift_alt: "crc_shift v = xor (if odd v then 0xEDB88320 else 0) (drop_bit 1 v)"
  by (simp add: crc_shift_def and_one_eq odd_iff_mod_2_eq_one)

lemma drop_bit_xor: "drop_bit n (xor a b) = xor (drop_bit n a) (drop_bit n (b :: 'w::len word))"
  by (rule bit_word_eqI) (simp add: bit_simps)

lemma odd_xor: "odd (xor a b) \<longleftrightarrow> odd a \<noteq> odd (b :: 'w::len word)"
  using bit_xor_iff [of a b 0] by (simp add: bit_0)

lemma crc_shift_xor: "crc_shift (xor a b) = xor (crc_shift a) (crc_shift b)"
  by (auto simp: crc_shift_alt drop_bit_xor odd_xor ac_simps xor.left_commute)

lemma crc_shifts_xor: "(crc_shift ^^ n) (xor a b) = xor ((crc_shift ^^ n) a) ((crc_shift ^^ n) b)"
  by (induction n) (simp_all add: crc_shift_xor)

lemma bit_31_shift: "bit (crc_shift v) 31 \<longleftrightarrow> bit v 0"
proof -
  have "\<not> bit (drop_bit 1 v) 31" by (auto simp: bit_simps dest: bit_imp_le_length)
  moreover have "bit (0xEDB88320 :: u32) 31" by simp
  ultimately show ?thesis by (auto simp: crc_shift_alt bit_xor_iff bit_0)
qed

lemma crc_shift_inject: "crc_shift a = crc_shift b \<longleftrightarrow> a = b"
proof
  assume eq: "crc_shift a = crc_shift b"
  then have "bit a 0 = bit b 0" using bit_31_shift by metis
  then have odd: "odd a = odd b" by (simp add: bit_0)
  then have "drop_bit 1 a = drop_bit 1 b" using eq by (simp add: crc_shift_alt xor_cancel)
  then have "bit a (Suc n) = bit b (Suc n)" for n
    by (metis bit_drop_bit_eq comp_apply plus_1_eq_Suc)
  then have "bit a n = bit b n" for n
    using \<open>bit a 0 = bit b 0\<close> by (cases n) auto
  then show "a = b" by (simp add: bit_eq_iff)
qed simp

lemma crc_shifts_inject: "(crc_shift ^^ n) a = (crc_shift ^^ n) b \<longleftrightarrow> a = b"
  by (induction n) (simp_all add: crc_shift_inject)

lemma crc_shifts_zeros: "(\<And>k. k < n \<Longrightarrow> \<not> bit v k) \<Longrightarrow> (crc_shift ^^ n) v = drop_bit n v"
proof (induction n)
  case (Suc n)
  then have "(crc_shift ^^ n) v = drop_bit n v" by simp
  moreover have "\<not> odd (drop_bit n v)" using Suc.prems [of n] by (simp add: bit_iff_odd_drop_bit)
  then have "crc_shift (drop_bit n v) = drop_bit (Suc n) v" by (simp add: crc_shift_alt)
  ultimately show ?case by simp
qed simp

section \<open>The table is the bitwise algorithm\<close>

lemma crc_table_nth: "n < 256 \<Longrightarrow> crc_table ! n = (crc_shift ^^ 8) (of_nat n)"
  by (simp add: crc_table_def crc_table_entry_def)

lemma low_byte_index: "unat (and x 0xFF :: u32) < 256"
proof -
  have mask: "(0xFF :: u32) = mask 8" by (simp add: mask_eq_exp_minus_1)
  have "and x 0xFF = take_bit 8 x" unfolding mask by (rule take_bit_eq_mask [symmetric])
  then have "unat (and x 0xFF) = take_bit 8 (unat x)" by (simp only: unsigned_take_bit_eq)
  then show ?thesis by (simp add: take_bit_eq_mod)
qed

lemma crc_update_bitwise: "crc_update v b = (crc_shift ^^ 8) (xor v (ucast b))"
proof -
  define x where "x = xor v (ucast b)"
  have mask: "(0xFF :: u32) = mask 8" by (simp add: mask_eq_exp_minus_1)
  have split: "x = xor (and x 0xFF) (and x (not 0xFF))"
    by (rule bit_word_eqI) (auto simp: bit_simps mask)
  have low: "\<not> bit (and x (not 0xFF)) k" if "k < 8" for k
    using that by (simp add: bit_simps mask)
  have high: "drop_bit 8 (and x (not 0xFF)) = drop_bit 8 v"
    by (rule bit_word_eqI) (auto simp: x_def bit_simps mask dest: bit_imp_le_length)
  have "(crc_shift ^^ 8) x = xor ((crc_shift ^^ 8) (and x 0xFF)) ((crc_shift ^^ 8) (and x (not 0xFF)))"
    using split by (metis crc_shifts_xor)
  also have "\<dots> = xor (crc_table ! unat (and x 0xFF)) (drop_bit 8 v)"
    using crc_table_nth [OF low_byte_index [of x]] crc_shifts_zeros [OF low] high by simp
  finally show ?thesis by (simp add: crc_update_def x_def)
qed

lemma not_zero_u32: "(0xFFFFFFFF :: u32) = not 0"
  by simp

section \<open>What a checksum detects\<close>

lemma crc_fold_inject: "foldl crc_update a data = foldl crc_update b data \<longleftrightarrow> a = b"
proof (induction data arbitrary: a b)
  case (Cons x data)
  then show ?case by (simp add: crc_update_bitwise crc_shifts_inject xor_cancel)
qed simp

text \<open>Four bytes at once are one 32-bit shift of the state mixed with them.\<close>

fun burst_word :: "nat \<Rightarrow> bytes \<Rightarrow> u32" where
  "burst_word i [] = 0"
| "burst_word i (b # bs) = xor (push_bit (8 * i) (ucast b)) (burst_word (Suc i) bs)"

lemma crc_shift_bytes:
  assumes "i < 4"
  shows "(crc_shift ^^ (8 * i)) (push_bit (8 * i) (ucast (b :: u8))) = ucast b"
proof -
  have "(crc_shift ^^ (8 * i)) (push_bit (8 * i) (ucast b)) = drop_bit (8 * i) (push_bit (8 * i) (ucast b))"
    by (rule crc_shifts_zeros) (simp add: bit_simps)
  also have "\<dots> = ucast b"
    using assms by (intro bit_word_eqI) (auto simp: bit_simps dest: bit_imp_le_length)
  finally show ?thesis .
qed

lemma crc_burst:
  "i + length bs \<le> 4 \<Longrightarrow>
   foldl crc_update ((crc_shift ^^ (8 * i)) v) bs = (crc_shift ^^ (8 * (i + length bs))) (xor v (burst_word i bs))"
proof (induction bs arbitrary: i v)
  case (Cons b bs)
  have "crc_update ((crc_shift ^^ (8 * i)) v) b = (crc_shift ^^ (8 * Suc i)) (xor v (push_bit (8 * i) (ucast b)))"
    using Cons.prems crc_shift_bytes [of i b]
    by (simp add: crc_update_bitwise crc_shifts_xor funpow_add del: funpow.simps)
  then show ?case using Cons.IH [of "Suc i"] Cons.prems by (simp add: xor.assoc)
qed simp

lemma burst_word_high: "bit (burst_word i bs) k \<Longrightarrow> 8 * i \<le> k"
  by (induction i bs arbitrary: k rule: burst_word.induct) (fastforce simp: bit_simps)+

lemma burst_word_inject:
  "length as = length bs \<Longrightarrow> i + length bs \<le> 4 \<Longrightarrow> burst_word i as = burst_word i bs \<Longrightarrow> as = bs"
proof (induction as bs arbitrary: i rule: list_induct2)
  case (Cons a as b bs)
  have "bit a k = bit b k" if "k < 8" for k
  proof -
    have "\<not> bit (burst_word (Suc i) cs) (8 * i + k)" for cs
      using burst_word_high [of "Suc i" cs "8 * i + k"] that by auto
    moreover have "bit (burst_word i (a # as)) (8 * i + k) = bit (burst_word i (b # bs)) (8 * i + k)"
      using Cons.prems by simp
    moreover have "8 * i + k < 32" using Cons.prems that by simp
    ultimately show ?thesis by (simp add: bit_simps)
  qed
  then have "a = b" by (intro bit_word_eqI) simp
  then show ?case using Cons.IH [of "Suc i"] Cons.prems by (simp add: xor_cancel)
qed simp

lemma crc_fold_burst:
  assumes "length old = length new" and "length old \<le> 4"
  shows "foldl crc_update v old = foldl crc_update v new \<longleftrightarrow> old = new"
proof
  assume "foldl crc_update v old = foldl crc_update v new"
  then have "burst_word 0 old = burst_word 0 new"
    using crc_burst [of 0 old v] crc_burst [of 0 new v] assms by (simp add: crc_shifts_inject xor_cancel)
  then show "old = new" using burst_word_inject [of old new 0] assms by simp
qed simp

lemma crc32_burst:
  assumes "length old = length new" and "length old \<le> 4"
  shows "crc32 (before @ old @ rest) = crc32 (before @ new @ rest) \<longleftrightarrow> old = new"
  using crc_fold_burst [OF assms] by (simp add: crc32_def xor_cancel crc_fold_inject)

section \<open>Properties\<close>

text \<open>
  The table-driven checksum is the bitwise CRC-32, and it detects every corruption confined to
  four consecutive bytes, wherever it lies in the data.
\<close>

theorem crc_table_correct:
  assumes "length old = length new" and "length old \<le> 4"
  shows "crc32 data = crc_bitwise data \<and>
    (crc32 (before @ old @ rest) = crc32 (before @ new @ rest) \<longleftrightarrow> old = new)"
proof -
  have "foldl crc_update v data = foldl (\<lambda>v b. (crc_shift ^^ 8) (xor v (ucast b))) v data" for v
    by (induction data arbitrary: v) (simp_all add: crc_update_bitwise)
  then have "crc32 data = crc_bitwise data"
    unfolding crc32_def crc_bitwise_def not_zero_u32 by (simp add: not_eq_complement)
  then show ?thesis using crc32_burst [OF assms] by simp
qed

lemma crc_table_correct_witness:
  "crc32 [49, 50, 51] = crc_bitwise [49, 50, 51] \<and>
   (crc32 ([49] @ [50, 51] @ []) = crc32 ([49] @ [50, 52] @ []) \<longleftrightarrow> [50, 51] = [50, 52 :: u8])"
  by (rule crc_table_correct) simp_all

end
