(* ===== verification/Mlf_Frame.thy ===== *)
theory Mlf_Frame
  imports Mlf_Crc Mlf_Status
begin

text \<open>
  Frames of the wire protocol: src/protocol.cpp and include/mlf/protocol.hpp. A frame is a
  16-byte header, a bounded payload and a checksum over both. \<open>encode_frame\<close> and \<open>decode_frame\<close>
  are the two ends; \<open>frame_decoder\<close> is the incremental decoder that is fed whatever the socket
  delivers, \<open>frame_queue\<close> the bounded outbound queue, and \<open>channel_receive\<close> the loop that feeds the
  decoder until a frame is complete.

  A message type outside the enumeration exists in the code only through a cast, so the check of
  the encoder against it has no counterpart here; the decoder's has.
\<close>

section \<open>Message types\<close>

datatype message_type =
    MT_HELLO | MT_HELLO_ACK | MT_REGISTER_WORKER | MT_REGISTER_MODEL | MT_REGISTER_VERSION
  | MT_PUBLISH_COMPATIBILITY | MT_PUBLISH_READINESS | MT_PUBLISH_HEALTH | MT_REQUEST_WARM
  | MT_REQUEST_ACTIVATE | MT_REQUEST_DRAIN | MT_REQUEST_ROLLBACK | MT_ACK_ATTEMPT
  | MT_PUBLISH_COMPLETION | MT_QUERY_STATE | MT_QUERY_AUTHORITY | MT_FENCE | MT_PROMOTE
  | MT_REGISTER_ROLLOUT_PLAN | MT_BEGIN_ROLLOUT | MT_ADVANCE_STAGE | MT_FAIL_STAGE | MT_RETIRE
  | MT_REVALIDATE | MT_ROLLBACK | MT_RECONCILE | MT_SUPERSEDE_ROLLOUT | MT_REPLY | MT_COMMAND
  | MT_REGISTER_SCOPE

definition kMessageNames :: "(message_type \<times> string) list" where
  "kMessageNames = [(MT_HELLO, ''HELLO''), (MT_HELLO_ACK, ''HELLO_ACK''),
     (MT_REGISTER_WORKER, ''REGISTER_WORKER''), (MT_REGISTER_MODEL, ''REGISTER_MODEL''),
     (MT_REGISTER_VERSION, ''REGISTER_VERSION''), (MT_PUBLISH_COMPATIBILITY, ''PUBLISH_COMPATIBILITY''),
     (MT_PUBLISH_READINESS, ''PUBLISH_READINESS''), (MT_PUBLISH_HEALTH, ''PUBLISH_HEALTH''),
     (MT_REQUEST_WARM, ''REQUEST_WARM''), (MT_REQUEST_ACTIVATE, ''REQUEST_ACTIVATE''),
     (MT_REQUEST_DRAIN, ''REQUEST_DRAIN''), (MT_REQUEST_ROLLBACK, ''REQUEST_ROLLBACK''),
     (MT_ACK_ATTEMPT, ''ACK_ATTEMPT''), (MT_PUBLISH_COMPLETION, ''PUBLISH_COMPLETION''),
     (MT_QUERY_STATE, ''QUERY_STATE''), (MT_QUERY_AUTHORITY, ''QUERY_AUTHORITY''), (MT_FENCE, ''FENCE''),
     (MT_PROMOTE, ''PROMOTE''), (MT_REGISTER_ROLLOUT_PLAN, ''REGISTER_ROLLOUT_PLAN''),
     (MT_BEGIN_ROLLOUT, ''BEGIN_ROLLOUT''), (MT_ADVANCE_STAGE, ''ADVANCE_STAGE''),
     (MT_FAIL_STAGE, ''FAIL_STAGE''), (MT_RETIRE, ''RETIRE''), (MT_REVALIDATE, ''REVALIDATE''),
     (MT_ROLLBACK, ''ROLLBACK''), (MT_RECONCILE, ''RECONCILE''),
     (MT_SUPERSEDE_ROLLOUT, ''SUPERSEDE_ROLLOUT''), (MT_REPLY, ''REPLY''), (MT_COMMAND, ''COMMAND''),
     (MT_REGISTER_SCOPE, ''REGISTER_SCOPE'')]"

definition kMessageTypeCount :: nat where "kMessageTypeCount = 30"

definition to_string_message :: "message_type \<Rightarrow> string" where
  "to_string_message t = the (map_of kMessageNames t)"

definition parse_message_type :: "string \<Rightarrow> message_type option" where
  "parse_message_type s = map_of (map (\<lambda>(t, name). (name, t)) kMessageNames) s"

text \<open>The number of a type on the wire is its 1-based position in the enumeration.\<close>

fun position_of :: "'a \<Rightarrow> 'a list \<Rightarrow> nat" where
  "position_of x [] = 0"
| "position_of x (y # ys) = (if x = y then 0 else Suc (position_of x ys))"

definition message_types :: "message_type list" where
  "message_types = map fst kMessageNames"

definition message_type_index :: "message_type \<Rightarrow> u16" where
  "message_type_index t = of_nat (Suc (position_of t message_types))"

definition message_type_at :: "u16 \<Rightarrow> message_type" where
  "message_type_at raw = message_types ! (unat raw - 1)"

definition is_command :: "message_type \<Rightarrow> bool" where
  "is_command t \<longleftrightarrow> t = MT_REQUEST_WARM \<or> t = MT_REQUEST_ACTIVATE \<or> t = MT_REQUEST_DRAIN \<or>
     t = MT_REQUEST_ROLLBACK \<or> t = MT_COMMAND"

section \<open>Protocol statuses and limits\<close>

datatype protocol_status =
    PS_Ok | PS_NeedMoreData | PS_WrongMagic | PS_UnsupportedVersion | PS_UnknownType | PS_Oversized
  | PS_Truncated | PS_IntegrityFailure | PS_DecodeFailure | PS_EncodeFailure | PS_IoError
  | PS_TooManyPending | PS_Closed

primrec to_string_protocol_status :: "protocol_status \<Rightarrow> string" where
  "to_string_protocol_status PS_Ok = ''OK''"
| "to_string_protocol_status PS_NeedMoreData = ''NEED_MORE_DATA''"
| "to_string_protocol_status PS_WrongMagic = ''WRONG_MAGIC''"
| "to_string_protocol_status PS_UnsupportedVersion = ''UNSUPPORTED_VERSION''"
| "to_string_protocol_status PS_UnknownType = ''UNKNOWN_TYPE''"
| "to_string_protocol_status PS_Oversized = ''OVERSIZED''"
| "to_string_protocol_status PS_Truncated = ''TRUNCATED''"
| "to_string_protocol_status PS_IntegrityFailure = ''INTEGRITY_FAILURE''"
| "to_string_protocol_status PS_DecodeFailure = ''DECODE_FAILURE''"
| "to_string_protocol_status PS_EncodeFailure = ''ENCODE_FAILURE''"
| "to_string_protocol_status PS_IoError = ''IO_ERROR''"
| "to_string_protocol_status PS_TooManyPending = ''TOO_MANY_PENDING''"
| "to_string_protocol_status PS_Closed = ''CLOSED''"

fun protocol_reason_for :: "protocol_status \<Rightarrow> reason_code" where
  "protocol_reason_for PS_WrongMagic = Prt ProtocolWrongMagic"
| "protocol_reason_for PS_UnsupportedVersion = Prt ProtocolUnsupportedVersion"
| "protocol_reason_for PS_UnknownType = Prt ProtocolUnknownType"
| "protocol_reason_for PS_Oversized = Prt ProtocolOversized"
| "protocol_reason_for PS_Truncated = Prt ProtocolTruncated"
| "protocol_reason_for PS_IntegrityFailure = Prt ProtocolIntegrityFailure"
| "protocol_reason_for PS_DecodeFailure = Prt ProtocolDecodeFailure"
| "protocol_reason_for PS_TooManyPending = Bnd BoundsPayloadSize"
| "protocol_reason_for _ = Prt ProtocolDecodeFailure"

definition outcome_for :: "protocol_status \<Rightarrow> outcome_code" where
  "outcome_for s = (if s = PS_Oversized \<or> s = PS_TooManyPending then OC_BOUNDS_EXCEEDED else OC_Rejected)"

record protocol_limits =
  lm_version :: u16
  lm_max_payload_bytes :: nat
  lm_max_pending_frames :: nat
  lm_max_connections :: nat
  lm_max_string :: nat
  lm_max_digest :: nat
  lm_max_reasons :: nat
  lm_max_values :: nat

definition kProtocolVersion :: u16 where "kProtocolVersion = 1"

definition default_limits :: protocol_limits where
  "default_limits = \<lparr>lm_version = kProtocolVersion, lm_max_payload_bytes = 262144,
     lm_max_pending_frames = 64, lm_max_connections = 64, lm_max_string = 256, lm_max_digest = 128,
     lm_max_reasons = 32, lm_max_values = 64\<rparr>"

section \<open>Frames\<close>

definition kFrameHeaderSize :: nat where "kFrameHeaderSize = 16"

definition kFrameTrailerSize :: nat where "kFrameTrailerSize = 4"

definition kFrameMagic :: bytes where "kFrameMagic = [0x4D, 0x4C, 0x46, 0x50]"

record frame =
  f_type :: message_type
  f_flags :: u32
  f_payload :: bytes

definition frame_body :: "frame \<Rightarrow> protocol_limits \<Rightarrow> bytes" where
  "frame_body f limits =
     kFrameMagic @ put_u16 (lm_version limits) @ put_u16 (message_type_index (f_type f)) @
     put_u32 (f_flags f) @ put_u32 (of_nat (length (f_payload f))) @ f_payload f"

definition encode_frame :: "frame \<Rightarrow> protocol_limits \<Rightarrow> protocol_status + bytes" where
  "encode_frame f limits =
     (if lm_max_payload_bytes limits < length (f_payload f) then Inl PS_Oversized
      else let out = frame_body f limits in Inr (out @ put_u32 (crc32 out)))"

definition read16 :: "bytes \<Rightarrow> nat \<Rightarrow> u16" where
  "read16 data offset = fst (get_u16 (reader_of (drop offset data)))"

definition read32 :: "bytes \<Rightarrow> nat \<Rightarrow> u32" where
  "read32 data offset = fst (get_u32 (reader_of (drop offset data)))"

definition decode_frame :: "bytes \<Rightarrow> protocol_limits \<Rightarrow> protocol_status + frame \<times> nat" where
  "decode_frame data limits =
     (if length data < kFrameHeaderSize then Inl PS_NeedMoreData
      else if take 4 data \<noteq> kFrameMagic then Inl PS_WrongMagic
      else
        let version = read16 data 4; type = read16 data 6; flags = read32 data 8; len = read32 data 12 in
        if version \<noteq> lm_version limits then Inl PS_UnsupportedVersion
        else if type = 0 \<or> kMessageTypeCount < unat type then Inl PS_UnknownType
        else if lm_max_payload_bytes limits < unat len then Inl PS_Oversized
        else
          let total = kFrameHeaderSize + unat len + kFrameTrailerSize in
          if length data < total then Inl PS_NeedMoreData
          else
            let stored = read32 data (kFrameHeaderSize + unat len) in
            if stored \<noteq> crc32 (take (kFrameHeaderSize + unat len) data) then Inl PS_IntegrityFailure
            else Inr (\<lparr>f_type = message_type_at type, f_flags = flags,
                       f_payload = take (unat len) (drop kFrameHeaderSize data)\<rparr>, total))"

definition make_frame :: "message_type \<Rightarrow> bytes \<Rightarrow> frame" where
  "make_frame t payload = \<lparr>f_type = t, f_flags = 0, f_payload = payload\<rparr>"

section \<open>The incremental decoder\<close>

record frame_decoder =
  fd_limits :: protocol_limits
  fd_buffer :: bytes
  fd_position :: nat
  fd_failed :: bool
  fd_failure :: protocol_status

definition new_decoder :: "protocol_limits \<Rightarrow> frame_decoder" where
  "new_decoder limits = \<lparr>fd_limits = limits, fd_buffer = [], fd_position = 0, fd_failed = False,
     fd_failure = PS_Ok\<rparr>"

definition decoder_reset :: "frame_decoder \<Rightarrow> frame_decoder" where
  "decoder_reset d = d\<lparr>fd_buffer := [], fd_position := 0, fd_failed := False, fd_failure := PS_Ok\<rparr>"

definition frame_bound :: "protocol_limits \<Rightarrow> nat" where
  "frame_bound limits = lm_max_payload_bytes limits + kFrameHeaderSize + kFrameTrailerSize"

definition decoder_fail :: "protocol_status \<Rightarrow> frame_decoder \<Rightarrow> frame_decoder" where
  "decoder_fail status d = d\<lparr>fd_failed := True, fd_failure := status\<rparr>"

definition decoder_feed :: "bytes \<Rightarrow> frame_decoder \<Rightarrow> protocol_status \<times> frame_decoder" where
  "decoder_feed data d =
     (if fd_failed d then (fd_failure d, d)
      else if frame_bound (fd_limits d) < length data then (PS_Oversized, decoder_fail PS_Oversized d)
      else if frame_bound (fd_limits d) < length (fd_buffer d) + length data then
        (PS_Oversized, decoder_fail PS_Oversized d)
      else
        let d = (if 0 < fd_position d \<and> fd_position d = length (fd_buffer d)
                 then d\<lparr>fd_buffer := [], fd_position := 0\<rparr> else d) in
        (PS_Ok, d\<lparr>fd_buffer := fd_buffer d @ data\<rparr>))"

definition decoder_next :: "frame_decoder \<Rightarrow> (protocol_status + frame) \<times> frame_decoder" where
  "decoder_next d =
     (if fd_failed d then (Inl (fd_failure d), d)
      else if length (fd_buffer d) - fd_position d < kFrameHeaderSize then (Inl PS_NeedMoreData, d)
      else case decode_frame (drop (fd_position d) (fd_buffer d)) (fd_limits d) of
          Inr (f, consumed) \<Rightarrow>
            let d = d\<lparr>fd_position := fd_position d + consumed\<rparr> in
            (Inr f, if fd_position d = length (fd_buffer d) then d\<lparr>fd_buffer := [], fd_position := 0\<rparr> else d)
        | Inl status \<Rightarrow>
            (Inl status, if status \<noteq> PS_NeedMoreData then decoder_fail status d else d))"

section \<open>The outbound queue\<close>

record frame_queue =
  fq_queue :: "frame list"
  fq_capacity :: nat
  fq_rejected :: u64

definition queue_push :: "frame \<Rightarrow> frame_queue \<Rightarrow> protocol_status \<times> frame_queue" where
  "queue_push f q =
     (if fq_capacity q \<le> length (fq_queue q) then (PS_TooManyPending, q\<lparr>fq_rejected := fq_rejected q + 1\<rparr>)
      else (PS_Ok, q\<lparr>fq_queue := fq_queue q @ [f]\<rparr>))"

definition queue_pop :: "frame_queue \<Rightarrow> frame option \<times> frame_queue" where
  "queue_pop q =
     (case fq_queue q of [] \<Rightarrow> (None, q) | f # fs \<Rightarrow> (Some f, q\<lparr>fq_queue := fs\<rparr>))"

section \<open>Receiving\<close>

text \<open>
  What \<open>recv_some\<close> reports, one event per call: bytes, an orderly close or a failure. A receive
  that uses up the events without completing a frame is still waiting.
\<close>

datatype recv_event = Received bytes | Peer_Closed | Recv_Failed

fun channel_receive ::
  "frame_decoder \<Rightarrow> recv_event list \<Rightarrow> ((protocol_status + frame) \<times> frame_decoder \<times> recv_event list) option" where
  "channel_receive d events =
     (case decoder_next d of
        (Inr f, d) \<Rightarrow> Some (Inr f, d, events)
      | (Inl status, d) \<Rightarrow>
          if status \<noteq> PS_NeedMoreData then Some (Inl status, d, events)
          else case events of
              [] \<Rightarrow> None
            | Peer_Closed # events \<Rightarrow> Some (Inl PS_Closed, d, events)
            | Recv_Failed # events \<Rightarrow> Some (Inl PS_IoError, d, events)
            | Received data # events \<Rightarrow>
                (case decoder_feed data d of
                   (fed, d) \<Rightarrow> if fed \<noteq> PS_Ok then Some (Inl fed, d, events) else channel_receive d events))"

end
