(* ===== verification/Mlf_Stream.thy ===== *)
theory Mlf_Stream
  imports Mlf_Frame
begin

text \<open>
  What frames and the incremental decoder guarantee: an encoded frame decodes to itself from any
  continuation of it, no strict prefix of it decodes, and a stream of frames is delivered in order
  however the transport splits it.
\<close>

section \<open>Frames\<close>

lemma message_type_roundtrip [simp]:
  "message_type_at (message_type_index t) = t" "message_type_index t \<noteq> 0"
  "unat (message_type_index t) \<le> kMessageTypeCount"
  by (cases t; simp add: message_type_at_def message_type_index_def message_types_def kMessageNames_def
      kMessageTypeCount_def)+

lemma read_at:
  "length pre = n \<Longrightarrow> read16 (pre @ put_u16 v @ rest) n = v"
  "length pre = n \<Longrightarrow> read32 (pre @ put_u32 w @ rest) n = w"
  by (auto simp: read16_def read32_def read_simps)

definition frame_bytes :: "frame \<Rightarrow> protocol_limits \<Rightarrow> bytes" where
  "frame_bytes f limits = frame_body f limits @ put_u32 (crc32 (frame_body f limits))"

text \<open>A frame can be carried when its payload respects the bound and a 32-bit length.\<close>

definition frame_fits :: "protocol_limits \<Rightarrow> frame \<Rightarrow> bool" where
  "frame_fits limits f \<longleftrightarrow> length (f_payload f) \<le> lm_max_payload_bytes limits \<and> length (f_payload f) < 2 ^ 32"

lemma encode_frame_fits: "frame_fits limits f \<Longrightarrow> encode_frame f limits = Inr (frame_bytes f limits)"
  by (simp add: encode_frame_def frame_fits_def frame_bytes_def Let_def)

lemma length_frame_body: "length (frame_body f limits) = kFrameHeaderSize + length (f_payload f)"
  by (simp add: frame_body_def kFrameMagic_def kFrameHeaderSize_def)

lemma length_frame_bytes:
  "length (frame_bytes f limits) = kFrameHeaderSize + length (f_payload f) + kFrameTrailerSize"
  by (simp add: frame_bytes_def length_frame_body kFrameTrailerSize_def)

text \<open>The header as the decoder reads it.\<close>

lemma frame_header:
  assumes "frame_fits limits f"
  shows "take 4 (frame_body f limits @ rest) = kFrameMagic"
    and "read16 (frame_body f limits @ rest) 4 = lm_version limits"
    and "read16 (frame_body f limits @ rest) 6 = message_type_index (f_type f)"
    and "read32 (frame_body f limits @ rest) 8 = f_flags f"
    and "unat (read32 (frame_body f limits @ rest) 12) = length (f_payload f)"
proof -
  show "take 4 (frame_body f limits @ rest) = kFrameMagic" by (simp add: frame_body_def kFrameMagic_def)
  let ?m = "kFrameMagic" and ?v = "put_u16 (lm_version limits)"
    and ?t = "put_u16 (message_type_index (f_type f))" and ?f = "put_u32 (f_flags f)"
  have len: "length ?m = 4" by (simp add: kFrameMagic_def)
  show "read16 (frame_body f limits @ rest) 4 = lm_version limits"
    using read_at(1) [of ?m 4] len by (simp add: frame_body_def)
  show "read16 (frame_body f limits @ rest) 6 = message_type_index (f_type f)"
    using read_at(1) [of "?m @ ?v" 6] len by (simp add: frame_body_def)
  show "read32 (frame_body f limits @ rest) 8 = f_flags f"
    using read_at(2) [of "?m @ ?v @ ?t" 8] len by (simp add: frame_body_def)
  have "read32 (frame_body f limits @ rest) 12 = of_nat (length (f_payload f))"
    using read_at(2) [of "?m @ ?v @ ?t @ ?f" 12] len by (simp add: frame_body_def)
  then show "unat (read32 (frame_body f limits @ rest) 12) = length (f_payload f)"
    using assms by (simp add: frame_fits_def unat_of_nat)
qed

lemma decode_body:
  assumes "frame_fits limits f" and "length (rest :: bytes) \<ge> 4"
  shows "decode_frame (frame_body f limits @ rest) limits =
    (if read32 rest 0 = crc32 (frame_body f limits)
     then Inr (f, length (frame_body f limits) + kFrameTrailerSize) else Inl PS_IntegrityFailure)"
proof -
  let ?data = "frame_body f limits @ rest" and ?n = "length (f_payload f)"
  have n: "kFrameHeaderSize + ?n = length (frame_body f limits)" by (simp add: length_frame_body)
  have payload: "take ?n (drop kFrameHeaderSize ?data) = f_payload f"
    by (simp add: frame_body_def kFrameMagic_def kFrameHeaderSize_def)
  have stored: "read32 ?data (kFrameHeaderSize + ?n) = read32 rest 0"
    by (simp add: n read32_def)
  have body: "take (kFrameHeaderSize + ?n) ?data = frame_body f limits" by (simp add: n)
  have long: "\<not> length ?data < kFrameHeaderSize" "\<not> length ?data < kFrameHeaderSize + ?n + kFrameTrailerSize"
    using assms(2) by (simp_all add: length_frame_body kFrameTrailerSize_def)
  show ?thesis
    unfolding decode_frame_def Let_def frame_header [OF assms(1)] stored body payload
    using long assms(1) by (simp add: frame_fits_def length_frame_body linorder_not_less)
qed

lemma decode_frame_bytes:
  "frame_fits limits f \<Longrightarrow>
   decode_frame (frame_bytes f limits @ rest) limits = Inr (f, length (frame_bytes f limits))"
  using decode_body [of limits f "put_u32 (crc32 (frame_body f limits)) @ rest"] read_at(2) [of "[]" 0]
  by (simp add: frame_bytes_def kFrameTrailerSize_def)

lemma get_le_prefix:
  "n \<le> length xs \<Longrightarrow> fst (get_le i n v (reader_of (xs @ q))) = fst (get_le i n v (reader_of xs))"
proof (induction n arbitrary: i v xs)
  case (Suc n)
  then show ?case by (cases xs) (simp_all add: get_u8_Cons)
qed simp

lemma read_prefix:
  "n + 2 \<le> length p \<Longrightarrow> read16 (p @ q) n = read16 p n"
  "n + 4 \<le> length p \<Longrightarrow> read32 (p @ q) n = read32 p n"
  using get_le_prefix [of 2 "drop n p" 0 "0 :: u16" q] get_le_prefix [of 4 "drop n p" 0 "0 :: u32" q]
  by (simp_all add: read16_def read32_def get_u16_def get_u32_def)

text \<open>A strict prefix of a frame is never decoded, nor rejected: later data is asked for.\<close>

lemma decode_prefix:
  assumes "frame_fits limits f" and "p @ q = frame_bytes f limits" and "q \<noteq> []"
  shows "decode_frame p limits = Inl PS_NeedMoreData"
proof (cases "length p < kFrameHeaderSize")
  case False
  have short: "length p < kFrameHeaderSize + length (f_payload f) + kFrameTrailerSize"
    using assms(3) arg_cong [OF assms(2), of length] by (cases q) (simp_all add: length_frame_bytes)
  define body where "body = frame_body f limits @ put_u32 (crc32 (frame_body f limits))"
  have pq: "p @ q = body" using assms(2) by (simp add: body_def frame_bytes_def)
  have sixteen: "16 \<le> length p" using False by (simp add: kFrameHeaderSize_def)
  have "take 4 p = take 4 (p @ q)" using sixteen by simp
  then show ?thesis
    using False short frame_header [OF assms(1), of "put_u32 (crc32 (frame_body f limits))"] read_prefix [of _ p q]
      sixteen assms(1) pq
    by (simp add: decode_frame_def body_def frame_fits_def linorder_not_less Let_def)
qed (simp add: decode_frame_def)

section \<open>Streams\<close>

definition stream_of :: "protocol_limits \<Rightarrow> frame list \<Rightarrow> bytes" where
  "stream_of limits fs = concat (map (\<lambda>f. frame_bytes f limits) fs)"

text \<open>A decoder that has \<open>u\<close> still to decode and has not failed.\<close>

definition decoder_holds :: "protocol_limits \<Rightarrow> frame_decoder \<Rightarrow> bytes \<Rightarrow> bool" where
  "decoder_holds limits d u \<longleftrightarrow> fd_limits d = limits \<and> \<not> fd_failed d \<and>
     fd_position d \<le> length (fd_buffer d) \<and> drop (fd_position d) (fd_buffer d) = u"

lemma decoder_holds_new: "decoder_holds limits (new_decoder limits) []"
  by (simp add: decoder_holds_def new_decoder_def)

lemma decoder_next_frame:
  assumes "decoder_holds limits d (frame_bytes f limits @ u)" and "frame_fits limits f"
  shows "\<exists>d'. decoder_next d = (Inr f, d') \<and> decoder_holds limits d' u \<and>
    length (fd_buffer d') \<le> length (fd_buffer d)"
proof -
  have len: "length (fd_buffer d) = fd_position d + length (frame_bytes f limits) + length u"
  proof -
    have "length (drop (fd_position d) (fd_buffer d)) = length (frame_bytes f limits @ u)"
      and "fd_position d \<le> length (fd_buffer d)"
      using assms(1) by (simp_all add: decoder_holds_def)
    then show ?thesis by simp
  qed
  have "\<not> length (fd_buffer d) - fd_position d < kFrameHeaderSize"
    by (simp add: len length_frame_bytes)
  moreover have "drop (fd_position d + length (frame_bytes f limits)) (fd_buffer d) = u"
  proof -
    have "drop (length (frame_bytes f limits)) (drop (fd_position d) (fd_buffer d)) = u"
      using assms(1) by (simp add: decoder_holds_def del: drop_drop)
    then show ?thesis by (simp add: add.commute)
  qed
  moreover have "decode_frame (drop (fd_position d) (fd_buffer d)) (fd_limits d) = Inr (f, length (frame_bytes f limits))"
    using decode_frame_bytes [OF assms(2), of u] assms(1) by (simp add: decoder_holds_def)
  ultimately show ?thesis
    using assms(1) len by (simp add: decoder_next_def decoder_holds_def Let_def)
qed

lemma decoder_next_waits:
  assumes "decoder_holds limits d u" and "frame_fits limits f" and "u @ q = frame_bytes f limits" and "q \<noteq> []"
  shows "decoder_next d = (Inl PS_NeedMoreData, d)"
  using assms decode_prefix [OF assms(2,3,4)] by (simp add: decoder_next_def decoder_holds_def)

lemma decoder_feed_holds:
  assumes "decoder_holds limits d u" and "length (fd_buffer d) + length data \<le> frame_bound limits"
  shows "\<exists>d'. decoder_feed data d = (PS_Ok, d') \<and> decoder_holds limits d' (u @ data) \<and>
    length (fd_buffer d') \<le> length (fd_buffer d) + length data"
  using assms by (auto simp: decoder_feed_def decoder_holds_def Let_def)

lemma receive_next_frame:
  assumes "decoder_holds limits d u" and "frame_fits limits f"
    and "u @ concat cs = frame_bytes f limits @ later"
    and "length (fd_buffer d) + length (concat cs) \<le> frame_bound limits"
  shows "\<exists>d' u' cs'. channel_receive d (map Received cs) = Some (Inr f, d', map Received cs') \<and>
    decoder_holds limits d' u' \<and> u' @ concat cs' = later \<and>
    length (fd_buffer d') + length (concat cs') \<le> frame_bound limits"
  using assms
proof (induction cs arbitrary: d u)
  case Nil
  then have "decoder_holds limits d (frame_bytes f limits @ later)" by simp
  from decoder_next_frame [OF this Nil.prems(2)] show ?case
    using Nil.prems(4) by (fastforce intro!: exI [of _ "[]"])
next
  case (Cons c cs)
  show ?case
  proof (cases "length (frame_bytes f limits) \<le> length u")
    case True
    define u' where "u' = drop (length (frame_bytes f limits)) u"
    have "take (length (frame_bytes f limits)) u = frame_bytes f limits"
      using True arg_cong [OF Cons.prems(3), of "take (length (frame_bytes f limits))"] by simp
    then have u: "u = frame_bytes f limits @ u'" unfolding u'_def by (metis append_take_drop_id)
    then have later: "later = u' @ concat (c # cs)" using Cons.prems(3) by simp
    from decoder_next_frame [OF Cons.prems(1) [unfolded u] Cons.prems(2)] obtain d' where
      "decoder_next d = (Inr f, d')" "decoder_holds limits d' u'" "length (fd_buffer d') \<le> length (fd_buffer d)"
      by blast
    then show ?thesis using Cons.prems(4) later
      by (intro exI [of _ d'] exI [of _ u'] exI [of _ "c # cs"]) auto
  next
    case False
    define q where "q = drop (length u) (frame_bytes f limits)"
    have "take (length u) (frame_bytes f limits) = u"
      using False arg_cong [OF Cons.prems(3), of "take (length u)"] by simp
    then have q: "u @ q = frame_bytes f limits" "q \<noteq> []"
      using False unfolding q_def by (metis append_take_drop_id, simp)
    have waits: "decoder_next d = (Inl PS_NeedMoreData, d)"
      by (rule decoder_next_waits [OF Cons.prems(1,2) q])
    from decoder_feed_holds [OF Cons.prems(1), of c] obtain d' where fed:
      "decoder_feed c d = (PS_Ok, d')" "decoder_holds limits d' (u @ c)"
      "length (fd_buffer d') \<le> length (fd_buffer d) + length c"
      using Cons.prems(4) by auto
    have "channel_receive d (map Received (c # cs)) = channel_receive d' (map Received cs)"
      using waits fed(1) by simp
    moreover note Cons.IH [OF fed(2) Cons.prems(2)]
    ultimately show ?thesis using Cons.prems(3,4) fed(3) by simp
  qed
qed

fun receive_frames :: "nat \<Rightarrow> frame_decoder \<Rightarrow> recv_event list \<Rightarrow> frame list option" where
  "receive_frames 0 d events = Some []"
| "receive_frames (Suc n) d events =
     (case channel_receive d events of
        Some (Inr f, d, events) \<Rightarrow> map_option (\<lambda>fs. f # fs) (receive_frames n d events)
      | _ \<Rightarrow> None)"

lemma receive_frames_stream:
  assumes "list_all (frame_fits limits) fs" and "decoder_holds limits d u"
    and "u @ concat cs = stream_of limits fs @ later"
    and "length (fd_buffer d) + length (concat cs) \<le> frame_bound limits"
  shows "receive_frames (length fs) d (map Received cs) = Some fs"
  using assms
proof (induction fs arbitrary: d u cs)
  case (Cons f fs)
  then have "u @ concat cs = frame_bytes f limits @ stream_of limits fs @ later"
    by (simp add: stream_of_def)
  from receive_next_frame [OF Cons.prems(2) _ this Cons.prems(4)] Cons.prems(1)
  obtain d' u' cs' where
    "channel_receive d (map Received cs) = Some (Inr f, d', map Received cs')"
    "decoder_holds limits d' u'" "u' @ concat cs' = stream_of limits fs @ later"
    "length (fd_buffer d') + length (concat cs') \<le> frame_bound limits"
    by auto
  then show ?case using Cons.IH [of d' u' cs'] Cons.prems(1) by simp
qed simp

section \<open>Properties\<close>

text \<open>
  An encoded frame decodes to itself, whatever bytes follow it, and consumes exactly its own
  bytes; of any strict prefix of it the decoder asks for more data and never delivers or rejects.
\<close>

theorem frame_roundtrip:
  assumes "encode_frame f limits = Inr out" and "length (f_payload f) < 2 ^ 32" and "n < length out"
  shows "decode_frame (out @ rest) limits = Inr (f, length out) \<and>
    decode_frame (take n out) limits = Inl PS_NeedMoreData"
proof -
  have fits: "frame_fits limits f"
    using assms(1,2) by (simp add: encode_frame_def frame_fits_def Let_def split: if_splits)
  then have out: "out = frame_bytes f limits" using assms(1) encode_frame_fits by simp
  show ?thesis
    using decode_frame_bytes [OF fits] decode_prefix [OF fits, of "take n out" "drop n out"] assms(3) out
    by simp
qed

lemma frame_roundtrip_witness:
  "decode_frame (frame_bytes (make_frame MT_FENCE [7, 8]) default_limits @ [1]) default_limits
     = Inr (make_frame MT_FENCE [7, 8], length (frame_bytes (make_frame MT_FENCE [7, 8]) default_limits)) \<and>
   decode_frame (take 21 (frame_bytes (make_frame MT_FENCE [7, 8]) default_limits)) default_limits
     = Inl PS_NeedMoreData"
  by (rule frame_roundtrip)
     (simp_all add: encode_frame_def frame_bytes_def make_frame_def default_limits_def length_frame_body
        kFrameHeaderSize_def Let_def)

text \<open>
  Corruption of a frame's payload is detected: if up to four consecutive bytes of it arrive
  changed, the frame is rejected with an integrity failure and never delivered.
\<close>

theorem corrupted_payload_rejected:
  assumes "frame_fits limits f" and "f_payload f = before @ old @ after"
    and "length new = length old" and "length old \<le> 4" and "new \<noteq> old"
  shows "decode_frame (frame_body (f\<lparr>f_payload := before @ new @ after\<rparr>) limits @
      put_u32 (crc32 (frame_body f limits)) @ rest) limits = Inl PS_IntegrityFailure"
proof -
  let ?g = "f\<lparr>f_payload := before @ new @ after\<rparr>"
  let ?head = "kFrameMagic @ put_u16 (lm_version limits) @ put_u16 (message_type_index (f_type f)) @
     put_u32 (f_flags f) @ put_u32 (of_nat (length (f_payload f)))"
  have bodies: "frame_body f limits = (?head @ before) @ old @ after"
    "frame_body ?g limits = (?head @ before) @ new @ after"
    using assms(2,3) by (simp_all add: frame_body_def)
  have "crc32 (frame_body f limits) \<noteq> crc32 (frame_body ?g limits)"
    unfolding bodies using crc32_burst [of old new "?head @ before" after] assms(3-5) by metis
  moreover have "frame_fits limits ?g" using assms(1-3) by (simp add: frame_fits_def)
  ultimately show ?thesis
    using decode_body [of limits ?g "put_u32 (crc32 (frame_body f limits)) @ rest"]
      read_at(2) [of "[]" 0] by simp
qed

lemma corrupted_payload_rejected_witness:
  "decode_frame (frame_body ((make_frame MT_FENCE [7, 8, 9])\<lparr>f_payload := [7] @ [0] @ [9]\<rparr>) default_limits @
      put_u32 (crc32 (frame_body (make_frame MT_FENCE [7, 8, 9]) default_limits)) @ []) default_limits
     = Inl PS_IntegrityFailure"
  by (rule corrupted_payload_rejected [where old = "[8]"])
     (simp_all add: make_frame_def default_limits_def frame_fits_def)

text \<open>
  A stream of frames is delivered completely and in order, however the transport splits its
  bytes into reads, as long as the stream fits the decoder's buffer.
\<close>

theorem stream_delivered:
  assumes "list_all (frame_fits limits) fs" and "concat chunks = stream_of limits fs"
    and "length (stream_of limits fs) \<le> frame_bound limits"
  shows "receive_frames (length fs) (new_decoder limits) (map Received chunks) = Some fs"
  using receive_frames_stream [OF assms(1) decoder_holds_new, of chunks "[]"] assms(2,3)
  by (simp add: new_decoder_def)

lemma stream_delivered_witness:
  "receive_frames (length [make_frame MT_HELLO [], make_frame MT_FENCE [7]]) (new_decoder default_limits)
     (map Received (map (\<lambda>b. [b]) (stream_of default_limits [make_frame MT_HELLO [], make_frame MT_FENCE [7]])))
     = Some [make_frame MT_HELLO [], make_frame MT_FENCE [7]]"
proof (rule stream_delivered)
  show "concat (map (\<lambda>b. [b]) (stream_of default_limits [make_frame MT_HELLO [], make_frame MT_FENCE [7]]))
      = stream_of default_limits [make_frame MT_HELLO [], make_frame MT_FENCE [7]]"
    by simp
qed (simp_all add: frame_fits_def make_frame_def default_limits_def stream_of_def length_frame_bytes
      frame_bound_def kFrameHeaderSize_def kFrameTrailerSize_def)

text \<open>
  Beyond the buffer the decoder refuses legal streams: it counts bytes it has already consumed, so
  two frames that each respect the limits are rejected as oversized when a read boundary falls
  after the first byte of the second.
\<close>

theorem legal_stream_refused:
  assumes "frame_fits limits f" and "frame_fits limits g" and "frame_bytes g limits = b # bs"
    and "Suc (length (frame_bytes f limits)) \<le> frame_bound limits"
    and "frame_bound limits < length (frame_bytes f limits) + length (frame_bytes g limits)"
  shows "\<exists>d events. channel_receive (new_decoder limits) [Received (frame_bytes f limits @ [b]), Received bs]
      = Some (Inr f, d, events) \<and> (\<exists>d'. channel_receive d events = Some (Inl PS_Oversized, d', []))"
proof -
  let ?f = "frame_bytes f limits"
  have len: "kFrameHeaderSize \<le> length ?f" "length bs < frame_bound limits"
    using assms(2) arg_cong [OF assms(3), of length]
    by (simp_all add: length_frame_bytes frame_bound_def frame_fits_def)
  define d where "d = (new_decoder limits)\<lparr>fd_buffer := ?f @ [b], fd_position := length ?f\<rparr>"
  have "decoder_next (new_decoder limits) = (Inl PS_NeedMoreData, new_decoder limits)"
    by (simp add: decoder_next_def new_decoder_def kFrameHeaderSize_def)
  moreover have "decoder_feed (?f @ [b]) (new_decoder limits) = (PS_Ok, (new_decoder limits)\<lparr>fd_buffer := ?f @ [b]\<rparr>)"
    using assms(4) by (simp add: decoder_feed_def new_decoder_def)
  moreover have "decoder_next ((new_decoder limits)\<lparr>fd_buffer := ?f @ [b]\<rparr>) = (Inr f, d)"
    using len(1) decode_frame_bytes [OF assms(1), of "[b]"]
    by (simp add: decoder_next_def new_decoder_def d_def Let_def)
  ultimately have first: "channel_receive (new_decoder limits) [Received (?f @ [b]), Received bs]
      = Some (Inr f, d, [Received bs])"
    by simp
  have "decoder_next d = (Inl PS_NeedMoreData, d)"
    by (simp add: decoder_next_def d_def new_decoder_def kFrameHeaderSize_def)
  moreover have "decoder_feed bs d = (PS_Oversized, decoder_fail PS_Oversized d)"
    using assms(3,5) len(2) by (simp add: decoder_feed_def d_def new_decoder_def)
  ultimately have "channel_receive d [Received bs] = Some (Inl PS_Oversized, decoder_fail PS_Oversized d, [])"
    by simp
  then show ?thesis using first by blast
qed

end
