(* ===== verification/Mlf_Codecs.thy ===== *)
theory Mlf_Codecs
  imports Mlf_Frame Mlf_Snapshot
begin

text \<open>
  Enumerations as numbers. The code writes an enumerator as its position in the enumeration and
  reads it back by a cast after a range check; here the enumeration is the list of its
  constructors in the order of the source.
\<close>

definition enum_byte :: "'a list \<Rightarrow> 'a \<Rightarrow> u8" where
  "enum_byte xs x = of_nat (position_of x xs)"

definition enum_at :: "'a list \<Rightarrow> u8 \<Rightarrow> 'a" where
  "enum_at xs raw = xs ! unat raw"

definition evidence_kinds :: "evidence_kind list" where
  "evidence_kinds = map fst kEvidenceKindNames"

definition evidence_verdicts :: "evidence_verdict list" where
  "evidence_verdicts = [EV_Unknown, EV_Satisfied, EV_Unsatisfied]"

definition provenances :: "provenance list" where
  "provenances = [PV_Unknown, PV_Real, PV_Synthetic, PV_Unsupported]"

definition compatibility_outcomes :: "compatibility_outcome list" where
  "compatibility_outcomes = map fst kCompatibilityOutcomeNames"

definition kCompatibilityOutcomeCount :: nat where "kCompatibilityOutcomeCount = 15"

definition attempt_kinds :: "attempt_kind list" where
  "attempt_kinds = map fst kAttemptKindNames"

definition kAttemptKindCount :: nat where "kAttemptKindCount = 8"

definition rollout_strategies :: "rollout_strategy list" where
  "rollout_strategies = map fst kStrategyNames"

definition kRolloutStrategyCount :: nat where "kRolloutStrategyCount = 6"

definition criterion_comparisons :: "criterion_comparison list" where
  "criterion_comparisons = [CC_AtLeast, CC_AtMost]"

definition lifecycle_states :: "lifecycle_state list" where
  "lifecycle_states = map fst kStateNames"

definition scope_kinds :: "scope_kind list" where
  "scope_kinds = map fst kScopeKindNames"

definition kScopeKindCount :: nat where "kScopeKindCount = 9"

definition authority_kinds :: "authority_kind list" where
  "authority_kinds = [AK_Exclusive, AK_Canary, AK_SplitTraffic, AK_RollbackRetained, AK_Draining]"

definition stage_decisions :: "stage_decision list" where
  "stage_decisions = [SD_Pending, SD_Entered, SD_Advanced, SD_Failed, SD_RolledBack, SD_Superseded]"

definition attempt_states :: "attempt_state list" where
  "attempt_states = [AS_Dispatched, AS_Completed, AS_Failed, AS_OutcomeUnknown, AS_ReconcileRequired,
     AS_Abandoned]"

definition outcome_codes :: "outcome_code list" where
  "outcome_codes = [OC_Ok, OC_Accepted, OC_Rejected, OC_PROMOTION_ALLOWED, OC_PROMOTION_BLOCKED,
     OC_CANARY_ALLOWED, OC_CANARY_BLOCKED, OC_STAGE_ADVANCE_ALLOWED, OC_STAGE_ADVANCE_BLOCKED,
     OC_ROLLBACK_ALLOWED, OC_ROLLBACK_BLOCKED, OC_RETIREMENT_ALLOWED, OC_RETIREMENT_BLOCKED,
     OC_REVALIDATION_REQUIRED, OC_ROLLBACK_DECISION_REQUIRED, OC_STALE_PLAN, OC_STALE_EVIDENCE,
     OC_INCOMPATIBLE, OC_NO_AUTHORITATIVE_MODEL, OC_AMBIGUOUS, OC_OUTCOME_UNKNOWN,
     OC_RECONCILIATION_REQUIRED, OC_CONFLICT, OC_BOUNDS_EXCEEDED, OC_NOT_FOUND, OC_UNSUPPORTED]"

definition outcome_number :: "outcome_code \<Rightarrow> u16" where
  "outcome_number c = of_nat (position_of c outcome_codes)"

definition outcome_at :: "u16 \<Rightarrow> outcome_code" where
  "outcome_at raw = outcome_codes ! unat raw"

text \<open>
  Reason codes are cast without a range check. A number the enumeration does not list, which the
  code keeps as an unnamed enumerator, has no constructor here and is read as no reason.
\<close>

definition reason_number :: "reason_code \<Rightarrow> u16" where
  "reason_number c = of_nat (reason_index c)"

definition reason_at :: "u16 \<Rightarrow> reason_code" where
  "reason_at raw =
     (if unat raw < length kReasonNames then fst (kReasonNames ! unat raw) else NoReason)"

section \<open>Numbers read back\<close>

lemma enum_evidence_kind [read_simps]:
  "enum_at evidence_kinds (enum_byte evidence_kinds k) = k"
  "\<not> kEvidenceKindCount \<le> unat (enum_byte evidence_kinds k)"
  by (cases k; simp add: enum_at_def enum_byte_def evidence_kinds_def kEvidenceKindNames_def kEvidenceKindCount_def)+

lemma enum_verdict [read_simps]:
  "enum_at evidence_verdicts (enum_byte evidence_verdicts v) = v"
  "\<not> 2 < unat (enum_byte evidence_verdicts v)"
  by (cases v; simp add: enum_at_def enum_byte_def evidence_verdicts_def)+

lemma enum_provenance [read_simps]:
  "enum_at provenances (enum_byte provenances p) = p"
  "\<not> 3 < unat (enum_byte provenances p)"
  by (cases p; simp add: enum_at_def enum_byte_def provenances_def)+

lemma enum_compatibility [read_simps]:
  "enum_at compatibility_outcomes (enum_byte compatibility_outcomes c) = c"
  "\<not> kCompatibilityOutcomeCount \<le> unat (enum_byte compatibility_outcomes c)"
  by (cases c; simp add: enum_at_def enum_byte_def compatibility_outcomes_def kCompatibilityOutcomeNames_def
      kCompatibilityOutcomeCount_def)+

lemma enum_attempt_kind [read_simps]:
  "enum_at attempt_kinds (enum_byte attempt_kinds a) = a"
  "\<not> kAttemptKindCount \<le> unat (enum_byte attempt_kinds a)"
  by (cases a; simp add: enum_at_def enum_byte_def attempt_kinds_def kAttemptKindNames_def kAttemptKindCount_def)+

lemma enum_strategy [read_simps]:
  "enum_at rollout_strategies (enum_byte rollout_strategies s) = s"
  "\<not> kRolloutStrategyCount \<le> unat (enum_byte rollout_strategies s)"
  by (cases s; simp add: enum_at_def enum_byte_def rollout_strategies_def kStrategyNames_def
      kRolloutStrategyCount_def)+

lemma enum_comparison [read_simps]:
  "enum_at criterion_comparisons (enum_byte criterion_comparisons c) = c"
  "\<not> 1 < unat (enum_byte criterion_comparisons c)"
  by (cases c; simp add: enum_at_def enum_byte_def criterion_comparisons_def)+

lemma enum_state [read_simps]:
  "enum_at lifecycle_states (enum_byte lifecycle_states s) = s"
  "\<not> kLifecycleStateCount \<le> unat (enum_byte lifecycle_states s)"
  by (cases s; simp add: enum_at_def enum_byte_def lifecycle_states_def kStateNames_def kLifecycleStateCount_def)+

lemma enum_scope_kind [read_simps]:
  "enum_at scope_kinds (enum_byte scope_kinds k) = k"
  "\<not> kScopeKindCount \<le> unat (enum_byte scope_kinds k)"
  by (cases k; simp add: enum_at_def enum_byte_def scope_kinds_def kScopeKindNames_def kScopeKindCount_def)+

lemma enum_authority_kind [read_simps]:
  "enum_at authority_kinds (enum_byte authority_kinds k) = k"
  "\<not> 4 < unat (enum_byte authority_kinds k)"
  by (cases k; simp add: enum_at_def enum_byte_def authority_kinds_def)+

lemma enum_decision [read_simps]:
  "enum_at stage_decisions (enum_byte stage_decisions d) = d"
  "\<not> 5 < unat (enum_byte stage_decisions d)"
  by (cases d; simp add: enum_at_def enum_byte_def stage_decisions_def)+

lemma enum_attempt_state [read_simps]:
  "enum_at attempt_states (enum_byte attempt_states s) = s"
  "\<not> 5 < unat (enum_byte attempt_states s)"
  by (cases s; simp add: enum_at_def enum_byte_def attempt_states_def)+

lemma outcome_number_at [read_simps]:
  "outcome_at (outcome_number c) = c" "\<not> outcome_number OC_UNSUPPORTED < outcome_number c"
  by (cases c; simp add: outcome_at_def outcome_number_def outcome_codes_def)+

lemma reason_names_indexed: "map (\<lambda>e. reason_index (fst e)) kReasonNames = [0..<length kReasonNames]"
  by (simp add: kReasonNames_def upt_rec)

lemma reason_index_bound: "reason_index c < length kReasonNames"
proof -
  have "reason_index c \<le> 150"
  proof (cases c)
    case NoReason then show ?thesis by simp
  next
    case (Reg r) then show ?thesis by (cases r) simp_all
  next
    case (Bnd r) then show ?thesis by (cases r) simp_all
  next
    case (Lfc r) then show ?thesis by (cases r) simp_all
  next
    case (Art r) then show ?thesis by (cases r) simp_all
  next
    case (Cmp r) then show ?thesis by (cases r) simp_all
  next
    case (Pol r) then show ?thesis by (cases r) simp_all
  next
    case (Evd r) then show ?thesis by (cases r) simp_all
  next
    case (Ord r) then show ?thesis by (cases r) simp_all
  next
    case (Prm r) then show ?thesis by (cases r) simp_all
  next
    case (Rlt r) then show ?thesis by (cases r) simp_all
  next
    case (Rbk r) then show ?thesis by (cases r) simp_all
  next
    case (Ret r) then show ?thesis by (cases r) simp_all
  next
    case (Rdy r) then show ?thesis by (cases r) simp_all
  next
    case (Wrk r) then show ?thesis by (cases r) simp_all
  next
    case (Rcn r) then show ?thesis by (cases r) simp_all
  next
    case (Prt r) then show ?thesis by (cases r) simp_all
  next
    case (Txn r) then show ?thesis by (cases r) simp_all
  qed
  then show ?thesis by (simp add: kReasonNames_def)
qed

lemma reason_number_at [read_simps]: "reason_at (reason_number c) = c"
proof -
  have "length kReasonNames = 151" by (simp add: kReasonNames_def)
  then have n: "unat (reason_number c) = reason_index c"
    using reason_index_bound [of c] by (simp add: reason_number_def unat_of_nat)
  have "map (\<lambda>e. reason_index (fst e)) kReasonNames ! reason_index c = reason_index c"
    using reason_index_bound [of c] by (simp only: reason_names_indexed nth_upt)
  then have "reason_index (fst (kReasonNames ! reason_index c)) = reason_index c"
    using reason_index_bound [of c] by simp
  then show ?thesis using reason_index_bound [of c] by (simp add: reason_at_def n reason_index_inj)
qed

end
