(* ===== verification/Mlf_Wire.thy ===== *)
theory Mlf_Wire
  imports Mlf_Codecs
begin

text \<open>
  The payloads of the wire protocol: the message structures of include/mlf/protocol.hpp and their
  encoders and decoders of src/protocol.cpp, which all follow one scheme. An encoder appends the
  fields and refuses a payload above the bound; a decoder reads them in the same order, gives up
  at an out-of-range count or enumerator, and accepts only when every read succeeded and no byte
  is left over. \<open>x_fits\<close> is what a message \<open>x\<close> needs to be carried: its strings and counts respect
  the bounds its decoder applies, which the encoder does not check.
\<close>

section \<open>Shared parts\<close>

definition sealed :: "protocol_limits \<Rightarrow> bytes \<Rightarrow> protocol_status + bytes" where
  "sealed limits out = (if lm_max_payload_bytes limits < length out then Inl PS_Oversized else Inr out)"

lemma sealed_eq: "sealed limits bs = Inr out \<longleftrightarrow> length bs \<le> lm_max_payload_bytes limits \<and> out = bs"
  by (auto simp: sealed_def)

definition decode_or :: "reader \<Rightarrow> 'a \<Rightarrow> protocol_status + 'a" where
  "decode_or r value = (if \<not> r_ok r \<or> \<not> exhausted r then Inl PS_DecodeFailure else Inr value)"

lemma decode_or_end [read_simps]: "decode_or (reader_of []) value = Inr value"
  by (simp add: decode_or_def)

text \<open>The last field of a message has nothing after it.\<close>

lemma read_last [read_simps]:
  "get_u8 (reader_of (put_u8 b)) = (b, reader_of [])"
  "get_bool (reader_of (put_bool c)) = (c, reader_of [])"
  "get_u32 (reader_of (put_u32 w)) = (w, reader_of [])"
  "get_u64 (reader_of (put_u64 x)) = (x, reader_of [])"
  "str_fits m s \<Longrightarrow> get_str m (reader_of (put_str s)) = (s, reader_of [])"
  using get_u8_put [of b "[]"] get_bool_put [of c "[]"] get_word_put(2) [of w "[]"]
    get_word_put(3) [of x "[]"] get_str_put [of m s "[]"] by simp_all

text \<open>A sequence whose length the reader's bound and the 32-bit count admit.\<close>

definition counted :: "nat \<Rightarrow> 'a list \<Rightarrow> bool" where
  "counted n xs \<longleftrightarrow> length xs \<le> n \<and> length xs < 2 ^ 32"

lemma unat_count [read_simps]: "counted n xs \<Longrightarrow> unat (of_nat (length xs) :: u32) = length xs"
  by (simp add: counted_def unat_of_nat)

lemma counted_bound [read_simps]: "counted n xs \<Longrightarrow> \<not> n < length xs"
  by (simp add: counted_def)

lemma get_ids [read_simps]:
  "get_n get_u64 (length xs) (reader_of (put_all put_u64 xs @ rest)) = (xs, reader_of rest)"
  by (rule u64.get_n_put_all) (simp add: list_all_iff)

lemma get_strs [read_simps]:
  "list_all (str_fits m) xs \<Longrightarrow>
   get_n (get_str m) (length xs) (reader_of (put_all put_str xs @ rest)) = (xs, reader_of rest)"
  by (rule str.get_n_put_all)

definition put_binding :: "artifact_binding \<Rightarrow> bytes" where
  "put_binding b = put_u64 (ab_set_id b) @ put_u64 (ab_generation b) @ put_str (ab_digest b)"

definition get_binding :: "protocol_limits \<Rightarrow> reader \<Rightarrow> protocol_status + artifact_binding \<times> reader" where
  "get_binding limits r =
     (let (set_id, r) = get_u64 r; (generation, r) = get_u64 r; (digest, r) = get_str (lm_max_digest limits) r in
      if \<not> r_ok r then Inl PS_DecodeFailure
      else Inr (\<lparr>ab_set_id = set_id, ab_generation = generation, ab_digest = digest\<rparr>, r))"

definition binding_fits :: "protocol_limits \<Rightarrow> artifact_binding \<Rightarrow> bool" where
  "binding_fits limits b \<longleftrightarrow> str_fits (lm_max_digest limits) (ab_digest b)"

interpretation wire_binding: checked_codec put_binding "get_binding limits" "binding_fits limits" for limits
  by unfold_locales (simp add: put_binding_def get_binding_def binding_fits_def read_simps)

definition put_requirements :: "model_requirements \<Rightarrow> bytes" where
  "put_requirements q =
     put_str (rq_runtime q) @ put_str (rq_runtime_min_version q) @ put_str (rq_backend q) @
     put_str (rq_architecture q) @ put_str (rq_precision q) @ put_str (rq_tokenizer_generation q) @
     put_str (rq_adapter_set q)"

definition get_requirements :: "protocol_limits \<Rightarrow> reader \<Rightarrow> protocol_status + model_requirements \<times> reader" where
  "get_requirements limits r =
     (let (runtime, r) = get_str (lm_max_string limits) r;
          (runtime_min_version, r) = get_str (lm_max_string limits) r;
          (backend, r) = get_str (lm_max_string limits) r;
          (architecture, r) = get_str (lm_max_string limits) r;
          (precision, r) = get_str (lm_max_string limits) r;
          (tokenizer_generation, r) = get_str (lm_max_string limits) r;
          (adapter_set, r) = get_str (lm_max_string limits) r in
      if \<not> r_ok r then Inl PS_DecodeFailure
      else Inr (\<lparr>rq_runtime = runtime, rq_runtime_min_version = runtime_min_version,
        rq_backend = backend, rq_architecture = architecture, rq_precision = precision,
        rq_tokenizer_generation = tokenizer_generation, rq_adapter_set = adapter_set\<rparr>, r))"

definition requirements_fit :: "protocol_limits \<Rightarrow> model_requirements \<Rightarrow> bool" where
  "requirements_fit limits q \<longleftrightarrow> list_all (str_fits (lm_max_string limits))
     [rq_runtime q, rq_runtime_min_version q, rq_backend q, rq_architecture q, rq_precision q,
      rq_tokenizer_generation q, rq_adapter_set q]"

interpretation wire_requirements: checked_codec put_requirements "get_requirements limits" "requirements_fit limits"
  for limits
  by unfold_locales (simp add: put_requirements_def get_requirements_def requirements_fit_def read_simps)

text \<open>The precisions of an environment are a set of strings: sorted, without duplicates.\<close>

definition put_environment :: "environment_profile \<Rightarrow> bytes" where
  "put_environment en =
     put_str (en_key en) @ put_str (en_runtime en) @ put_str (en_runtime_version en) @
     put_str (en_backend en) @ put_str (en_backend_version en) @ put_str (en_architecture en) @
     put_count (en_precisions en) @ put_all put_str (en_precisions en) @
     put_str (en_tokenizer_generation en) @ put_str (en_adapter_set en) @
     put_u32 (en_compute_capability en) @ put_u8 (enum_byte provenances (en_provenance en))"

definition get_environment :: "protocol_limits \<Rightarrow> reader \<Rightarrow> protocol_status + environment_profile \<times> reader" where
  "get_environment limits r =
     (let (key, r) = get_str (lm_max_string limits) r;
          (runtime, r) = get_str (lm_max_string limits) r;
          (runtime_version, r) = get_str (lm_max_string limits) r;
          (backend, r) = get_str (lm_max_string limits) r;
          (backend_version, r) = get_str (lm_max_string limits) r;
          (architecture, r) = get_str (lm_max_string limits) r;
          (count, r) = get_u32 r in
      if \<not> r_ok r \<or> 64 < unat count then Inl PS_DecodeFailure
      else
        let (precisions, r) = get_n (get_str (lm_max_string limits)) (unat count) r;
            (tokenizer_generation, r) = get_str (lm_max_string limits) r;
            (adapter_set, r) = get_str (lm_max_string limits) r;
            (compute_capability, r) = get_u32 r;
            (provenance, r) = get_u8 r in
        if \<not> r_ok r \<or> 3 < unat provenance then Inl PS_DecodeFailure
        else Inr (\<lparr>en_key = key, en_runtime = runtime, en_runtime_version = runtime_version,
          en_backend = backend, en_backend_version = backend_version, en_architecture = architecture,
          en_precisions = sort_unique precisions, en_tokenizer_generation = tokenizer_generation,
          en_adapter_set = adapter_set, en_compute_capability = compute_capability,
          en_provenance = enum_at provenances provenance\<rparr>, r))"

definition environment_fits :: "protocol_limits \<Rightarrow> environment_profile \<Rightarrow> bool" where
  "environment_fits limits en \<longleftrightarrow> list_all (str_fits (lm_max_string limits))
     [en_key en, en_runtime en, en_runtime_version en, en_backend en, en_backend_version en,
      en_architecture en, en_tokenizer_generation en, en_adapter_set en] \<and>
     counted 64 (en_precisions en) \<and> list_all (str_fits (lm_max_string limits)) (en_precisions en) \<and>
     sort_unique (en_precisions en) = en_precisions en"

interpretation wire_environment: checked_codec put_environment "get_environment limits" "environment_fits limits"
  for limits
  by unfold_locales
     (clarsimp simp: put_environment_def get_environment_def environment_fits_def read_simps)

lemmas wire_parts [read_simps] =
  wire_binding.get_put wire_requirements.get_put wire_environment.get_put

section \<open>Sessions\<close>

record hello_message =
  hm_protocol_version :: u16
  hm_worker :: u64
  hm_boot :: u64
  hm_epoch :: u64
  hm_scopes :: "u64 list"
  hm_detail :: string

definition encode_hello ::
  "protocol_limits \<Rightarrow> hello_message \<Rightarrow> protocol_status + bytes" where
  "encode_hello limits m = sealed limits (
     put_u16 (hm_protocol_version m) @ put_u64 (hm_worker m) @ put_u64 (hm_boot m) @
     put_u64 (hm_epoch m) @ put_count (hm_scopes m) @ put_all put_u64 (hm_scopes m) @
     put_str (hm_detail m))"

definition decode_hello ::
  "protocol_limits \<Rightarrow> bytes \<Rightarrow> protocol_status + hello_message" where
  "decode_hello limits data =
     (let (protocol_version, r) = get_u16 (reader_of data); (worker, r) = get_u64 r;
         (boot, r) = get_u64 r; (epoch, r) = get_u64 r; (count, r) = get_u32 r in
     if \<not> r_ok r \<or> lm_max_connections limits * 4 < unat count then Inl PS_DecodeFailure
     else
       let (scopes, r) = get_n get_u64 (unat count) r;
           (detail, r) = get_str (lm_max_string limits) r in
       decode_or r \<lparr>hm_protocol_version = protocol_version, hm_worker = worker, hm_boot = boot,
         hm_epoch = epoch, hm_scopes = scopes, hm_detail = detail\<rparr>)"

definition hello_fits :: "protocol_limits \<Rightarrow> hello_message \<Rightarrow> bool" where
  "hello_fits limits m \<longleftrightarrow>
     counted (lm_max_connections limits * 4) (hm_scopes m) \<and>
     str_fits (lm_max_string limits) (hm_detail m)"

lemma hello_roundtrip:
  "encode_hello limits m = Inr out \<Longrightarrow> hello_fits limits m \<Longrightarrow> decode_hello limits out = Inr m"
  by (cases m) (auto simp: encode_hello_def decode_hello_def hello_fits_def read_simps sealed_eq)

record hello_ack_message =
  hk_protocol_version :: u16
  hk_epoch :: u64
  hk_worker :: u64
  hk_boot :: u64
  hk_accepted :: bool
  hk_scopes :: "u64 list"
  hk_detail :: string

definition encode_hello_ack ::
  "protocol_limits \<Rightarrow> hello_ack_message \<Rightarrow> protocol_status + bytes" where
  "encode_hello_ack limits m = sealed limits (
     put_u16 (hk_protocol_version m) @ put_u64 (hk_epoch m) @ put_u64 (hk_worker m) @
     put_u64 (hk_boot m) @ put_bool (hk_accepted m) @ put_count (hk_scopes m) @
     put_all put_u64 (hk_scopes m) @ put_str (hk_detail m))"

definition decode_hello_ack ::
  "protocol_limits \<Rightarrow> bytes \<Rightarrow> protocol_status + hello_ack_message" where
  "decode_hello_ack limits data =
     (let (protocol_version, r) = get_u16 (reader_of data); (epoch, r) = get_u64 r;
         (worker, r) = get_u64 r; (boot, r) = get_u64 r; (accepted, r) = get_bool r;
         (count, r) = get_u32 r in
     if \<not> r_ok r \<or> lm_max_connections limits * 4 < unat count then Inl PS_DecodeFailure
     else
       let (scopes, r) = get_n get_u64 (unat count) r;
           (detail, r) = get_str (lm_max_string limits) r in
       decode_or r \<lparr>hk_protocol_version = protocol_version, hk_epoch = epoch, hk_worker = worker,
         hk_boot = boot, hk_accepted = accepted, hk_scopes = scopes, hk_detail = detail\<rparr>)"

definition hello_ack_fits :: "protocol_limits \<Rightarrow> hello_ack_message \<Rightarrow> bool" where
  "hello_ack_fits limits m \<longleftrightarrow>
     counted (lm_max_connections limits * 4) (hk_scopes m) \<and>
     str_fits (lm_max_string limits) (hk_detail m)"

lemma hello_ack_roundtrip:
  "encode_hello_ack limits m = Inr out \<Longrightarrow> hello_ack_fits limits m \<Longrightarrow> decode_hello_ack limits out = Inr m"
  by (cases m) (auto simp: encode_hello_ack_def decode_hello_ack_def hello_ack_fits_def read_simps sealed_eq)

record fence_message =
  fm_worker :: u64
  fm_boot :: u64
  fm_reason :: string

definition encode_fence ::
  "protocol_limits \<Rightarrow> fence_message \<Rightarrow> protocol_status + bytes" where
  "encode_fence limits m = sealed limits (
     put_u64 (fm_worker m) @ put_u64 (fm_boot m) @ put_str (fm_reason m))"

definition decode_fence ::
  "protocol_limits \<Rightarrow> bytes \<Rightarrow> protocol_status + fence_message" where
  "decode_fence limits data =
     (let (worker, r) = get_u64 (reader_of data); (boot, r) = get_u64 r;
         (reason, r) = get_str (lm_max_string limits) r in
     decode_or r \<lparr>fm_worker = worker, fm_boot = boot, fm_reason = reason\<rparr>)"

definition fence_fits :: "protocol_limits \<Rightarrow> fence_message \<Rightarrow> bool" where
  "fence_fits limits m \<longleftrightarrow>
     str_fits (lm_max_string limits) (fm_reason m)"

lemma fence_roundtrip:
  "encode_fence limits m = Inr out \<Longrightarrow> fence_fits limits m \<Longrightarrow> decode_fence limits out = Inr m"
  by (cases m) (auto simp: encode_fence_def decode_fence_def fence_fits_def read_simps sealed_eq)

section \<open>Registry\<close>

record register_model_message =
  mm_name :: string
  mm_family :: string
  mm_provenance :: provenance

definition encode_register_model ::
  "protocol_limits \<Rightarrow> register_model_message \<Rightarrow> protocol_status + bytes" where
  "encode_register_model limits m = sealed limits (
     put_str (mm_name m) @ put_str (mm_family m) @
     put_u8 (enum_byte provenances (mm_provenance m)))"

definition decode_register_model ::
  "protocol_limits \<Rightarrow> bytes \<Rightarrow> protocol_status + register_model_message" where
  "decode_register_model limits data =
     (let (name, r) = get_str (lm_max_string limits) (reader_of data);
         (family, r) = get_str (lm_max_string limits) r; (provenance, r) = get_u8 r in
     if 3 < unat provenance then Inl PS_DecodeFailure
     else
       decode_or r \<lparr>mm_name = name, mm_family = family, mm_provenance = enum_at provenances provenance\<rparr>)"

definition register_model_fits :: "protocol_limits \<Rightarrow> register_model_message \<Rightarrow> bool" where
  "register_model_fits limits m \<longleftrightarrow>
     str_fits (lm_max_string limits) (mm_name m) \<and>
     str_fits (lm_max_string limits) (mm_family m)"

lemma register_model_roundtrip:
  "encode_register_model limits m = Inr out \<Longrightarrow> register_model_fits limits m \<Longrightarrow> decode_register_model limits out = Inr m"
  by (cases m) (auto simp: encode_register_model_def decode_register_model_def register_model_fits_def read_simps sealed_eq)

record register_version_message =
  rm_model :: u64
  rm_label :: string
  rm_artifact :: artifact_binding
  rm_requirements :: model_requirements
  rm_predecessor :: u64
  rm_provenance :: provenance

definition encode_register_version ::
  "protocol_limits \<Rightarrow> register_version_message \<Rightarrow> protocol_status + bytes" where
  "encode_register_version limits m = sealed limits (
     put_u64 (rm_model m) @ put_str (rm_label m) @ put_binding (rm_artifact m) @
     put_requirements (rm_requirements m) @ put_u64 (rm_predecessor m) @
     put_u8 (enum_byte provenances (rm_provenance m)))"

definition decode_register_version ::
  "protocol_limits \<Rightarrow> bytes \<Rightarrow> protocol_status + register_version_message" where
  "decode_register_version limits data =
     (let (model, r) = get_u64 (reader_of data); (label, r) = get_str (lm_max_string limits) r in
     case get_binding limits r of Inl e \<Rightarrow> Inl e
     | Inr (artifact, r) \<Rightarrow>
       case get_requirements limits r of Inl e \<Rightarrow> Inl e
       | Inr (requirements, r) \<Rightarrow>
         let (predecessor, r) = get_u64 r; (provenance, r) = get_u8 r in
         if 3 < unat provenance then Inl PS_DecodeFailure
         else
           decode_or r \<lparr>rm_model = model, rm_label = label, rm_artifact = artifact,
             rm_requirements = requirements, rm_predecessor = predecessor,
             rm_provenance = enum_at provenances provenance\<rparr>)"

definition register_version_fits :: "protocol_limits \<Rightarrow> register_version_message \<Rightarrow> bool" where
  "register_version_fits limits m \<longleftrightarrow>
     str_fits (lm_max_string limits) (rm_label m) \<and>
     binding_fits limits (rm_artifact m) \<and> requirements_fit limits (rm_requirements m)"

lemma register_version_roundtrip:
  "encode_register_version limits m = Inr out \<Longrightarrow> register_version_fits limits m \<Longrightarrow> decode_register_version limits out = Inr m"
  by (cases m) (auto simp: encode_register_version_def decode_register_version_def register_version_fits_def read_simps sealed_eq)

record publish_compatibility_message =
  pc_version :: u64
  pc_environment :: environment_profile
  pc_outcome :: compatibility_outcome
  pc_detail :: string
  pc_provenance :: provenance

definition encode_publish_compatibility ::
  "protocol_limits \<Rightarrow> publish_compatibility_message \<Rightarrow> protocol_status + bytes" where
  "encode_publish_compatibility limits m = sealed limits (
     put_u64 (pc_version m) @ put_environment (pc_environment m) @
     put_u8 (enum_byte compatibility_outcomes (pc_outcome m)) @ put_str (pc_detail m) @
     put_u8 (enum_byte provenances (pc_provenance m)))"

definition decode_publish_compatibility ::
  "protocol_limits \<Rightarrow> bytes \<Rightarrow> protocol_status + publish_compatibility_message" where
  "decode_publish_compatibility limits data =
     (let (version, r) = get_u64 (reader_of data) in
     case get_environment limits r of Inl e \<Rightarrow> Inl e
     | Inr (environment, r) \<Rightarrow>
       let (outcome, r) = get_u8 r in
       if kCompatibilityOutcomeCount \<le> unat outcome then Inl PS_DecodeFailure
       else
         let (detail, r) = get_str (lm_max_string limits) r; (provenance, r) = get_u8 r in
         if 3 < unat provenance then Inl PS_DecodeFailure
         else
           decode_or r \<lparr>pc_version = version, pc_environment = environment,
             pc_outcome = enum_at compatibility_outcomes outcome, pc_detail = detail,
             pc_provenance = enum_at provenances provenance\<rparr>)"

definition publish_compatibility_fits :: "protocol_limits \<Rightarrow> publish_compatibility_message \<Rightarrow> bool" where
  "publish_compatibility_fits limits m \<longleftrightarrow>
     environment_fits limits (pc_environment m) \<and>
     str_fits (lm_max_string limits) (pc_detail m)"

lemma publish_compatibility_roundtrip:
  "encode_publish_compatibility limits m = Inr out \<Longrightarrow> publish_compatibility_fits limits m \<Longrightarrow> decode_publish_compatibility limits out = Inr m"
  by (cases m) (auto simp: encode_publish_compatibility_def decode_publish_compatibility_def publish_compatibility_fits_def read_simps sealed_eq)

record publish_evidence_message =
  pe_version :: u64
  pe_model_generation :: u64
  pe_artifact_generation :: u64
  pe_scope :: u64
  pe_rollout :: u64
  pe_stage :: u64
  pe_kind :: evidence_kind
  pe_verdict :: evidence_verdict
  pe_value :: u64
  pe_unit :: string
  pe_tick :: u64
  pe_detail :: string
  pe_provenance :: provenance

definition encode_publish_evidence ::
  "protocol_limits \<Rightarrow> publish_evidence_message \<Rightarrow> protocol_status + bytes" where
  "encode_publish_evidence limits m = sealed limits (
     put_u64 (pe_version m) @ put_u64 (pe_model_generation m) @
     put_u64 (pe_artifact_generation m) @ put_u64 (pe_scope m) @ put_u64 (pe_rollout m) @
     put_u64 (pe_stage m) @ put_u8 (enum_byte evidence_kinds (pe_kind m)) @
     put_u8 (enum_byte evidence_verdicts (pe_verdict m)) @ put_f64 (pe_value m) @
     put_str (pe_unit m) @ put_u64 (pe_tick m) @ put_str (pe_detail m) @
     put_u8 (enum_byte provenances (pe_provenance m)))"

definition decode_publish_evidence ::
  "protocol_limits \<Rightarrow> bytes \<Rightarrow> protocol_status + publish_evidence_message" where
  "decode_publish_evidence limits data =
     (let (version, r) = get_u64 (reader_of data); (model_generation, r) = get_u64 r;
         (artifact_generation, r) = get_u64 r; (scope, r) = get_u64 r; (rollout, r) = get_u64 r;
         (stage, r) = get_u64 r; (kind, r) = get_u8 r in
     if kEvidenceKindCount \<le> unat kind then Inl PS_DecodeFailure
     else
       let (verdict, r) = get_u8 r in
       if 2 < unat verdict then Inl PS_DecodeFailure
       else
         let (value, r) = get_f64 r; (unit, r) = get_str 32 r; (tick, r) = get_u64 r;
             (detail, r) = get_str (lm_max_string limits) r; (provenance, r) = get_u8 r in
         if 3 < unat provenance then Inl PS_DecodeFailure
         else
           decode_or r \<lparr>pe_version = version, pe_model_generation = model_generation,
             pe_artifact_generation = artifact_generation, pe_scope = scope, pe_rollout = rollout,
             pe_stage = stage, pe_kind = enum_at evidence_kinds kind,
             pe_verdict = enum_at evidence_verdicts verdict, pe_value = value, pe_unit = unit,
             pe_tick = tick, pe_detail = detail, pe_provenance = enum_at provenances provenance\<rparr>)"

definition publish_evidence_fits :: "protocol_limits \<Rightarrow> publish_evidence_message \<Rightarrow> bool" where
  "publish_evidence_fits limits m \<longleftrightarrow>
     str_fits 32 (pe_unit m) \<and> str_fits (lm_max_string limits) (pe_detail m)"

lemma publish_evidence_roundtrip:
  "encode_publish_evidence limits m = Inr out \<Longrightarrow> publish_evidence_fits limits m \<Longrightarrow> decode_publish_evidence limits out = Inr m"
  by (cases m) (auto simp: encode_publish_evidence_def decode_publish_evidence_def publish_evidence_fits_def read_simps sealed_eq)

record register_scope_message =
  rs_path :: string

definition encode_register_scope ::
  "protocol_limits \<Rightarrow> register_scope_message \<Rightarrow> protocol_status + bytes" where
  "encode_register_scope limits m = sealed limits (
     put_str (rs_path m))"

definition decode_register_scope ::
  "protocol_limits \<Rightarrow> bytes \<Rightarrow> protocol_status + register_scope_message" where
  "decode_register_scope limits data =
     (let (path, r) = get_str (lm_max_string limits * 8) (reader_of data) in
     decode_or r \<lparr>rs_path = path\<rparr>)"

definition register_scope_fits :: "protocol_limits \<Rightarrow> register_scope_message \<Rightarrow> bool" where
  "register_scope_fits limits m \<longleftrightarrow>
     str_fits (lm_max_string limits * 8) (rs_path m)"

lemma register_scope_roundtrip:
  "encode_register_scope limits m = Inr out \<Longrightarrow> register_scope_fits limits m \<Longrightarrow> decode_register_scope limits out = Inr m"
  by (cases m) (auto simp: encode_register_scope_def decode_register_scope_def register_scope_fits_def read_simps sealed_eq)

section \<open>Attempts and commands\<close>

record attempt_request_message =
  am_kind :: attempt_kind
  am_worker :: u64
  am_boot :: u64
  am_model :: u64
  am_version :: u64
  am_model_generation :: u64
  am_scope :: u64
  am_rollout :: u64
  am_rollout_generation :: u64
  am_stage :: u64
  am_stage_generation :: u64
  am_idempotent :: bool
  am_detail :: string

definition encode_attempt_request ::
  "protocol_limits \<Rightarrow> attempt_request_message \<Rightarrow> protocol_status + bytes" where
  "encode_attempt_request limits m = sealed limits (
     put_u8 (enum_byte attempt_kinds (am_kind m)) @ put_u64 (am_worker m) @ put_u64 (am_boot m) @
     put_u64 (am_model m) @ put_u64 (am_version m) @ put_u64 (am_model_generation m) @
     put_u64 (am_scope m) @ put_u64 (am_rollout m) @ put_u64 (am_rollout_generation m) @
     put_u64 (am_stage m) @ put_u64 (am_stage_generation m) @ put_bool (am_idempotent m) @
     put_str (am_detail m))"

definition decode_attempt_request ::
  "protocol_limits \<Rightarrow> bytes \<Rightarrow> protocol_status + attempt_request_message" where
  "decode_attempt_request limits data =
     (let (kind, r) = get_u8 (reader_of data) in
     if kAttemptKindCount \<le> unat kind then Inl PS_DecodeFailure
     else
       let (worker, r) = get_u64 r; (boot, r) = get_u64 r; (model, r) = get_u64 r;
           (version, r) = get_u64 r; (model_generation, r) = get_u64 r; (scope, r) = get_u64 r;
           (rollout, r) = get_u64 r; (rollout_generation, r) = get_u64 r; (stage, r) = get_u64 r;
           (stage_generation, r) = get_u64 r; (idempotent, r) = get_bool r;
           (detail, r) = get_str (lm_max_string limits) r in
       decode_or r \<lparr>am_kind = enum_at attempt_kinds kind, am_worker = worker, am_boot = boot,
         am_model = model, am_version = version, am_model_generation = model_generation,
         am_scope = scope, am_rollout = rollout, am_rollout_generation = rollout_generation,
         am_stage = stage, am_stage_generation = stage_generation, am_idempotent = idempotent,
         am_detail = detail\<rparr>)"

definition attempt_request_fits :: "protocol_limits \<Rightarrow> attempt_request_message \<Rightarrow> bool" where
  "attempt_request_fits limits m \<longleftrightarrow>
     str_fits (lm_max_string limits) (am_detail m)"

lemma attempt_request_roundtrip:
  "encode_attempt_request limits m = Inr out \<Longrightarrow> attempt_request_fits limits m \<Longrightarrow> decode_attempt_request limits out = Inr m"
  by (cases m) (auto simp: encode_attempt_request_def decode_attempt_request_def attempt_request_fits_def read_simps sealed_eq)

record completion_message =
  cp_attempt :: u64
  cp_success :: bool
  cp_confirmed :: bool
  cp_detail :: string

definition encode_completion ::
  "protocol_limits \<Rightarrow> completion_message \<Rightarrow> protocol_status + bytes" where
  "encode_completion limits m = sealed limits (
     put_u64 (cp_attempt m) @ put_bool (cp_success m) @ put_bool (cp_confirmed m) @
     put_str (cp_detail m))"

definition decode_completion ::
  "protocol_limits \<Rightarrow> bytes \<Rightarrow> protocol_status + completion_message" where
  "decode_completion limits data =
     (let (attempt, r) = get_u64 (reader_of data); (success, r) = get_bool r;
         (confirmed, r) = get_bool r; (detail, r) = get_str (lm_max_string limits) r in
     decode_or r \<lparr>cp_attempt = attempt, cp_success = success, cp_confirmed = confirmed, cp_detail = detail\<rparr>)"

definition completion_fits :: "protocol_limits \<Rightarrow> completion_message \<Rightarrow> bool" where
  "completion_fits limits m \<longleftrightarrow>
     str_fits (lm_max_string limits) (cp_detail m)"

lemma completion_roundtrip:
  "encode_completion limits m = Inr out \<Longrightarrow> completion_fits limits m \<Longrightarrow> decode_completion limits out = Inr m"
  by (cases m) (auto simp: encode_completion_def decode_completion_def completion_fits_def read_simps sealed_eq)

record command_message =
  cd_kind :: attempt_kind
  cd_attempt :: u64
  cd_model :: u64
  cd_version :: u64
  cd_model_generation :: u64
  cd_artifact_generation :: u64
  cd_scope :: u64
  cd_rollout :: u64
  cd_rollout_generation :: u64
  cd_detail :: string

definition encode_command ::
  "protocol_limits \<Rightarrow> command_message \<Rightarrow> protocol_status + bytes" where
  "encode_command limits m = sealed limits (
     put_u8 (enum_byte attempt_kinds (cd_kind m)) @ put_u64 (cd_attempt m) @
     put_u64 (cd_model m) @ put_u64 (cd_version m) @ put_u64 (cd_model_generation m) @
     put_u64 (cd_artifact_generation m) @ put_u64 (cd_scope m) @ put_u64 (cd_rollout m) @
     put_u64 (cd_rollout_generation m) @ put_str (cd_detail m))"

definition decode_command ::
  "protocol_limits \<Rightarrow> bytes \<Rightarrow> protocol_status + command_message" where
  "decode_command limits data =
     (let (kind, r) = get_u8 (reader_of data) in
     if kAttemptKindCount \<le> unat kind then Inl PS_DecodeFailure
     else
       let (attempt, r) = get_u64 r; (model, r) = get_u64 r; (version, r) = get_u64 r;
           (model_generation, r) = get_u64 r; (artifact_generation, r) = get_u64 r;
           (scope, r) = get_u64 r; (rollout, r) = get_u64 r; (rollout_generation, r) = get_u64 r;
           (detail, r) = get_str (lm_max_string limits) r in
       decode_or r \<lparr>cd_kind = enum_at attempt_kinds kind, cd_attempt = attempt, cd_model = model,
         cd_version = version, cd_model_generation = model_generation,
         cd_artifact_generation = artifact_generation, cd_scope = scope, cd_rollout = rollout,
         cd_rollout_generation = rollout_generation, cd_detail = detail\<rparr>)"

definition command_fits :: "protocol_limits \<Rightarrow> command_message \<Rightarrow> bool" where
  "command_fits limits m \<longleftrightarrow>
     str_fits (lm_max_string limits) (cd_detail m)"

lemma command_roundtrip:
  "encode_command limits m = Inr out \<Longrightarrow> command_fits limits m \<Longrightarrow> decode_command limits out = Inr m"
  by (cases m) (auto simp: encode_command_def decode_command_def command_fits_def read_simps sealed_eq)

section \<open>Queries\<close>

record query_state_message =
  qs_model :: u64
  qs_version :: u64
  qs_scope :: u64

definition encode_query_state ::
  "protocol_limits \<Rightarrow> query_state_message \<Rightarrow> protocol_status + bytes" where
  "encode_query_state limits m = sealed limits (
     put_u64 (qs_model m) @ put_u64 (qs_version m) @ put_u64 (qs_scope m))"

definition decode_query_state ::
  "protocol_limits \<Rightarrow> bytes \<Rightarrow> protocol_status + query_state_message" where
  "decode_query_state limits data =
     (let (model, r) = get_u64 (reader_of data); (version, r) = get_u64 r;
         (scope, r) = get_u64 r in
     decode_or r \<lparr>qs_model = model, qs_version = version, qs_scope = scope\<rparr>)"

lemma query_state_roundtrip:
  "encode_query_state limits m = Inr out \<Longrightarrow> decode_query_state limits out = Inr m"
  by (cases m) (auto simp: encode_query_state_def decode_query_state_def read_simps sealed_eq)

record query_authority_message =
  qa_scope :: u64

definition encode_query_authority ::
  "protocol_limits \<Rightarrow> query_authority_message \<Rightarrow> protocol_status + bytes" where
  "encode_query_authority limits m = sealed limits (
     put_u64 (qa_scope m))"

definition decode_query_authority ::
  "protocol_limits \<Rightarrow> bytes \<Rightarrow> protocol_status + query_authority_message" where
  "decode_query_authority limits data =
     (let (scope, r) = get_u64 (reader_of data) in
     decode_or r \<lparr>qa_scope = scope\<rparr>)"

lemma query_authority_roundtrip:
  "encode_query_authority limits m = Inr out \<Longrightarrow> decode_query_authority limits out = Inr m"
  by (cases m) (auto simp: encode_query_authority_def decode_query_authority_def read_simps sealed_eq)

record reconcile_message =
  rc_flags :: u32

definition encode_reconcile ::
  "protocol_limits \<Rightarrow> reconcile_message \<Rightarrow> protocol_status + bytes" where
  "encode_reconcile limits m = sealed limits (
     put_u32 (rc_flags m))"

definition decode_reconcile ::
  "protocol_limits \<Rightarrow> bytes \<Rightarrow> protocol_status + reconcile_message" where
  "decode_reconcile limits data =
     (let (flags, r) = get_u32 (reader_of data) in
     decode_or r \<lparr>rc_flags = flags\<rparr>)"

lemma reconcile_roundtrip:
  "encode_reconcile limits m = Inr out \<Longrightarrow> decode_reconcile limits out = Inr m"
  by (cases m) (auto simp: encode_reconcile_def decode_reconcile_def read_simps sealed_eq)

section \<open>Lifecycle requests\<close>

definition encode_retire ::
  "protocol_limits \<Rightarrow> retirement_request \<Rightarrow> protocol_status + bytes" where
  "encode_retire limits m = sealed limits (
     put_u64 (tq_model m) @ put_u64 (tq_version m) @ put_u64 (tq_generation m) @
     put_u64 (tq_policy_generation m) @ put_u64 (tq_epoch m))"

definition decode_retire ::
  "protocol_limits \<Rightarrow> bytes \<Rightarrow> protocol_status + retirement_request" where
  "decode_retire limits data =
     (let (model, r) = get_u64 (reader_of data); (version, r) = get_u64 r;
         (generation, r) = get_u64 r; (policy_generation, r) = get_u64 r; (epoch, r) = get_u64 r in
     decode_or r \<lparr>tq_model = model, tq_version = version, tq_generation = generation,
       tq_policy_generation = policy_generation, tq_epoch = epoch\<rparr>)"

lemma retire_roundtrip:
  "encode_retire limits m = Inr out \<Longrightarrow> decode_retire limits out = Inr m"
  by (cases m) (auto simp: encode_retire_def decode_retire_def read_simps sealed_eq)

definition encode_revalidate ::
  "protocol_limits \<Rightarrow> revalidation_request \<Rightarrow> protocol_status + bytes" where
  "encode_revalidate limits m = sealed limits (
     put_u64 (vq_model m) @ put_u64 (vq_version m) @ put_u64 (vq_generation m) @
     put_u16 (reason_number (vq_cause m)) @ put_str (vq_detail m))"

definition decode_revalidate ::
  "protocol_limits \<Rightarrow> bytes \<Rightarrow> protocol_status + revalidation_request" where
  "decode_revalidate limits data =
     (let (model, r) = get_u64 (reader_of data); (version, r) = get_u64 r;
         (generation, r) = get_u64 r; (cause, r) = get_u16 r;
         (detail, r) = get_str (lm_max_string limits) r in
     decode_or r \<lparr>vq_model = model, vq_version = version, vq_generation = generation,
       vq_cause = reason_at cause, vq_detail = detail\<rparr>)"

definition revalidate_fits :: "protocol_limits \<Rightarrow> revalidation_request \<Rightarrow> bool" where
  "revalidate_fits limits m \<longleftrightarrow>
     str_fits (lm_max_string limits) (vq_detail m)"

lemma revalidate_roundtrip:
  "encode_revalidate limits m = Inr out \<Longrightarrow> revalidate_fits limits m \<Longrightarrow> decode_revalidate limits out = Inr m"
  by (cases m) (auto simp: encode_revalidate_def decode_revalidate_def revalidate_fits_def read_simps sealed_eq)

definition encode_rollback ::
  "protocol_limits \<Rightarrow> rollback_request \<Rightarrow> protocol_status + bytes" where
  "encode_rollback limits m = sealed limits (
     put_u64 (kq_model m) @ put_u64 (kq_candidate m) @ put_u64 (kq_candidate_generation m) @
     put_u64 (kq_rollout m) @ put_u64 (kq_rollout_generation m) @ put_u64 (kq_target m) @
     put_u64 (kq_target_generation m) @ put_u64 (kq_target_artifact_generation m) @
     put_u64 (kq_scope m) @ put_u64 (kq_scope_generation m) @ put_u64 (kq_policy_generation m) @
     put_u64 (kq_epoch m) @ put_u64 (kq_worker m) @ put_u64 (kq_boot m) @
     put_bool (kq_automatic m) @ put_str (kq_detail m))"

definition decode_rollback ::
  "protocol_limits \<Rightarrow> bytes \<Rightarrow> protocol_status + rollback_request" where
  "decode_rollback limits data =
     (let (model, r) = get_u64 (reader_of data); (candidate, r) = get_u64 r;
         (candidate_generation, r) = get_u64 r; (rollout, r) = get_u64 r;
         (rollout_generation, r) = get_u64 r; (target, r) = get_u64 r;
         (target_generation, r) = get_u64 r; (target_artifact_generation, r) = get_u64 r;
         (scope, r) = get_u64 r; (scope_generation, r) = get_u64 r;
         (policy_generation, r) = get_u64 r; (epoch, r) = get_u64 r; (worker, r) = get_u64 r;
         (boot, r) = get_u64 r; (automatic, r) = get_bool r;
         (detail, r) = get_str (lm_max_string limits) r in
     decode_or r \<lparr>kq_model = model, kq_candidate = candidate, kq_candidate_generation = candidate_generation,
       kq_rollout = rollout, kq_rollout_generation = rollout_generation, kq_target = target,
       kq_target_generation = target_generation,
       kq_target_artifact_generation = target_artifact_generation, kq_scope = scope,
       kq_scope_generation = scope_generation, kq_policy_generation = policy_generation,
       kq_epoch = epoch, kq_worker = worker, kq_boot = boot, kq_automatic = automatic,
       kq_detail = detail\<rparr>)"

definition rollback_fits :: "protocol_limits \<Rightarrow> rollback_request \<Rightarrow> bool" where
  "rollback_fits limits m \<longleftrightarrow>
     str_fits (lm_max_string limits) (kq_detail m)"

lemma rollback_roundtrip:
  "encode_rollback limits m = Inr out \<Longrightarrow> rollback_fits limits m \<Longrightarrow> decode_rollback limits out = Inr m"
  by (cases m) (auto simp: encode_rollback_def decode_rollback_def rollback_fits_def read_simps sealed_eq)

record supersede_message =
  su_rollout :: u64
  su_generation :: u64
  su_detail :: string

definition encode_supersede ::
  "protocol_limits \<Rightarrow> supersede_message \<Rightarrow> protocol_status + bytes" where
  "encode_supersede limits m = sealed limits (
     put_u64 (su_rollout m) @ put_u64 (su_generation m) @ put_str (su_detail m))"

definition decode_supersede ::
  "protocol_limits \<Rightarrow> bytes \<Rightarrow> protocol_status + supersede_message" where
  "decode_supersede limits data =
     (let (rollout, r) = get_u64 (reader_of data); (generation, r) = get_u64 r;
         (detail, r) = get_str (lm_max_string limits) r in
     decode_or r \<lparr>su_rollout = rollout, su_generation = generation, su_detail = detail\<rparr>)"

definition supersede_fits :: "protocol_limits \<Rightarrow> supersede_message \<Rightarrow> bool" where
  "supersede_fits limits m \<longleftrightarrow>
     str_fits (lm_max_string limits) (su_detail m)"

lemma supersede_roundtrip:
  "encode_supersede limits m = Inr out \<Longrightarrow> supersede_fits limits m \<Longrightarrow> decode_supersede limits out = Inr m"
  by (cases m) (auto simp: encode_supersede_def decode_supersede_def supersede_fits_def read_simps sealed_eq)

definition put_progress :: "progress_request \<Rightarrow> bytes" where
  "put_progress m =
     put_u64 (xq_rollout m) @ put_u64 (xq_rollout_generation m) @ put_u64 (xq_stage m) @
     put_u64 (xq_stage_generation m) @ put_u64 (xq_scope_generation m) @ put_u64 (xq_epoch m) @
     put_u64 (xq_worker m) @ put_u64 (xq_boot m) @ put_bool (xq_administrative_approval m) @
     put_str (xq_detail m)"

definition get_progress :: "protocol_limits \<Rightarrow> reader \<Rightarrow> progress_request \<times> reader" where
  "get_progress limits r =
     (let (rollout, r) = get_u64 r; (rollout_generation, r) = get_u64 r;
         (stage, r) = get_u64 r; (stage_generation, r) = get_u64 r;
         (scope_generation, r) = get_u64 r; (epoch, r) = get_u64 r; (worker, r) = get_u64 r;
         (boot, r) = get_u64 r; (administrative_approval, r) = get_bool r;
         (detail, r) = get_str (lm_max_string limits) r in
     (\<lparr>xq_rollout = rollout, xq_rollout_generation = rollout_generation, xq_stage = stage,
       xq_stage_generation = stage_generation, xq_scope_generation = scope_generation,
       xq_epoch = epoch, xq_worker = worker, xq_boot = boot,
       xq_administrative_approval = administrative_approval, xq_detail = detail\<rparr>, r))"

definition encode_progress ::
  "protocol_limits \<Rightarrow> progress_request \<Rightarrow> protocol_status + bytes" where
  "encode_progress limits m = sealed limits (put_progress m)"

definition decode_progress ::
  "protocol_limits \<Rightarrow> bytes \<Rightarrow> protocol_status + progress_request" where
  "decode_progress limits data =
     (let (m, r) = get_progress limits (reader_of data) in decode_or r m)"

definition progress_fits :: "protocol_limits \<Rightarrow> progress_request \<Rightarrow> bool" where
  "progress_fits limits m \<longleftrightarrow>
     str_fits (lm_max_string limits) (xq_detail m)"

lemma progress_roundtrip:
  "encode_progress limits m = Inr out \<Longrightarrow> progress_fits limits m \<Longrightarrow> decode_progress limits out = Inr m"
  by (cases m) (auto simp: encode_progress_def decode_progress_def put_progress_def get_progress_def progress_fits_def read_simps sealed_eq)

section \<open>Promotion\<close>

definition put_promotion :: "promotion_request \<Rightarrow> bytes" where
  "put_promotion q =
     put_u64 (pq_model q) @ put_u64 (pq_candidate q) @ put_u64 (pq_candidate_generation q) @
     put_u64 (pq_artifact_generation q) @ put_u64 (pq_compatibility_generation q) @
     put_u64 (pq_policy_generation q) @ put_u64 (pq_epoch q) @ put_u64 (pq_scope q) @
     put_u64 (pq_scope_generation q) @ put_u8 (enum_byte rollout_strategies (pq_strategy q)) @
     put_u64 (pq_rollback_target q) @ put_u64 (pq_rollback_target_generation q) @
     put_u64 (pq_evidence_generation q) @ put_u64 (pq_worker q) @ put_u64 (pq_boot q) @
     put_bool (pq_administrative_approval q) @ put_bool (pq_request_immediate_cutover q) @
     put_str (pq_environment_key q) @ put_bool (pq_environment q \<noteq> None) @
     (case pq_environment q of None \<Rightarrow> [] | Some en \<Rightarrow> put_environment en)"

definition get_promotion :: "protocol_limits \<Rightarrow> reader \<Rightarrow> protocol_status + promotion_request \<times> reader" where
  "get_promotion limits r =
     (let (model, r) = get_u64 r; (candidate, r) = get_u64 r; (candidate_generation, r) = get_u64 r;
          (artifact_generation, r) = get_u64 r; (compatibility_generation, r) = get_u64 r;
          (policy_generation, r) = get_u64 r; (epoch, r) = get_u64 r; (scope, r) = get_u64 r;
          (scope_generation, r) = get_u64 r; (strategy, r) = get_u8 r in
      if \<not> r_ok r \<or> kRolloutStrategyCount \<le> unat strategy then Inl PS_DecodeFailure
      else
        let (rollback_target, r) = get_u64 r; (rollback_target_generation, r) = get_u64 r;
            (evidence_generation, r) = get_u64 r; (worker, r) = get_u64 r; (boot, r) = get_u64 r;
            (administrative_approval, r) = get_bool r; (request_immediate_cutover, r) = get_bool r;
            (environment_key, r) = get_str (lm_max_string limits) r;
            (has_environment, r) = get_bool r;
            request = \<lparr>pq_model = model, pq_candidate = candidate,
              pq_candidate_generation = candidate_generation, pq_artifact_generation = artifact_generation,
              pq_compatibility_generation = compatibility_generation,
              pq_policy_generation = policy_generation, pq_epoch = epoch, pq_scope = scope,
              pq_scope_generation = scope_generation, pq_strategy = enum_at rollout_strategies strategy,
              pq_rollback_target = rollback_target,
              pq_rollback_target_generation = rollback_target_generation,
              pq_evidence_generation = evidence_generation, pq_worker = worker, pq_boot = boot,
              pq_administrative_approval = administrative_approval,
              pq_request_immediate_cutover = request_immediate_cutover,
              pq_environment_key = environment_key, pq_environment = None\<rparr> in
        if \<not> r_ok r then Inl PS_DecodeFailure
        else if has_environment then
          (case get_environment limits r of
             Inl e \<Rightarrow> Inl e
           | Inr (en, r) \<Rightarrow> Inr (request\<lparr>pq_environment := Some en\<rparr>, r))
        else Inr (request, r))"

definition promotion_fits :: "protocol_limits \<Rightarrow> promotion_request \<Rightarrow> bool" where
  "promotion_fits limits q \<longleftrightarrow> str_fits (lm_max_string limits) (pq_environment_key q) \<and>
     list_all (environment_fits limits) (case pq_environment q of None \<Rightarrow> [] | Some en \<Rightarrow> [en])"

interpretation wire_promotion: checked_codec put_promotion "get_promotion limits" "promotion_fits limits" for limits
proof
  fix q rest
  assume "promotion_fits limits q"
  then show "get_promotion limits (reader_of (put_promotion q @ rest)) = Inr (q, reader_of rest)"
    by (cases q; cases "pq_environment q")
       (simp_all add: put_promotion_def get_promotion_def promotion_fits_def read_simps)
qed

definition encode_promotion :: "protocol_limits \<Rightarrow> promotion_request \<Rightarrow> protocol_status + bytes" where
  "encode_promotion limits q = sealed limits (put_promotion q)"

definition decode_promotion :: "protocol_limits \<Rightarrow> bytes \<Rightarrow> protocol_status + promotion_request" where
  "decode_promotion limits data =
     (case get_promotion limits (reader_of data) of Inl e \<Rightarrow> Inl e | Inr (q, r) \<Rightarrow> decode_or r q)"

section \<open>Rollout plans\<close>

definition put_evidence_requirement :: "evidence_requirement \<Rightarrow> bytes" where
  "put_evidence_requirement q =
     put_u8 (enum_byte evidence_kinds (er_kind q)) @
     put_u8 (enum_byte evidence_verdicts (er_required_verdict q)) @
     put_bool (er_require_exact_subject q) @ put_bool (er_require_current_publisher q)"

definition get_evidence_requirement :: "reader \<Rightarrow> protocol_status + evidence_requirement \<times> reader" where
  "get_evidence_requirement r =
     (let (kind, r) = get_u8 r; (verdict, r) = get_u8 r in
      if \<not> r_ok r \<or> kEvidenceKindCount \<le> unat kind \<or> 2 < unat verdict then Inl PS_DecodeFailure
      else
        let (exact, r) = get_bool r; (current, r) = get_bool r in
        if \<not> r_ok r then Inl PS_DecodeFailure
        else Inr (\<lparr>er_kind = enum_at evidence_kinds kind,
          er_required_verdict = enum_at evidence_verdicts verdict, er_require_exact_subject = exact,
          er_require_current_publisher = current\<rparr>, r))"

definition put_criterion :: "criterion \<Rightarrow> bytes" where
  "put_criterion c =
     put_u8 (enum_byte evidence_kinds (ct_kind c)) @
     put_u8 (enum_byte criterion_comparisons (ct_comparison c)) @ put_f64 (ct_threshold c)"

definition get_criterion :: "reader \<Rightarrow> protocol_status + criterion \<times> reader" where
  "get_criterion r =
     (let (kind, r) = get_u8 r; (comparison, r) = get_u8 r in
      if \<not> r_ok r \<or> kEvidenceKindCount \<le> unat kind \<or> 1 < unat comparison then Inl PS_DecodeFailure
      else
        let (threshold, r) = get_f64 r in
        if \<not> r_ok r then Inl PS_DecodeFailure
        else Inr (\<lparr>ct_kind = enum_at evidence_kinds kind,
          ct_comparison = enum_at criterion_comparisons comparison, ct_threshold = threshold\<rparr>, r))"

interpretation wire_requirement: checked_codec put_evidence_requirement get_evidence_requirement "\<lambda>_. True"
  by unfold_locales (simp add: put_evidence_requirement_def get_evidence_requirement_def read_simps)

interpretation wire_criterion: checked_codec put_criterion get_criterion "\<lambda>_. True"
  by unfold_locales
     (simp add: put_criterion_def get_criterion_def read_simps enum_comparison(2) [simplified])

text \<open>A sequence that gives up at a count above its bound.\<close>

definition get_counted ::
  "nat \<Rightarrow> (reader \<Rightarrow> protocol_status + 'a \<times> reader) \<Rightarrow> reader \<Rightarrow> protocol_status + 'a list \<times> reader" where
  "get_counted bound get r =
     (let (count, r) = get_u32 r in
      if \<not> r_ok r \<or> bound < unat count then Inl PS_DecodeFailure else get_each get (unat count) r)"

context checked_codec begin

lemma get_each_count:
  "list_all fits xs \<Longrightarrow> counted n xs \<Longrightarrow>
   get_each get (unat (of_nat (length xs) :: u32)) (reader_of (put_all put xs @ rest)) = Inr (xs, reader_of rest)"
  by (simp add: unat_count get_each_put_all)

end

lemma wire_sequences [read_simps]:
  "counted n qs \<Longrightarrow> get_counted n get_evidence_requirement
     (reader_of (put_count qs @ put_all put_evidence_requirement qs @ rest)) = Inr (qs, reader_of rest)"
  "counted n cs \<Longrightarrow> get_counted n get_criterion
     (reader_of (put_count cs @ put_all put_criterion cs @ rest)) = Inr (cs, reader_of rest)"
  using wire_requirement.get_each_count [of qs n rest] wire_criterion.get_each_count [of cs n rest]
  by (simp_all add: get_counted_def read_simps list_all_iff)

definition put_cohort :: "cohort_spec \<Rightarrow> bytes" where
  "put_cohort c =
     put_str (hq_name c) @ put_count (hq_scopes c) @ put_all put_u64 (hq_scopes c) @
     put_u32 (hq_traffic_percent c) @ put_u32 (hq_max_blast_radius_percent c)"

definition get_cohort :: "protocol_limits \<Rightarrow> reader \<Rightarrow> protocol_status + cohort_spec \<times> reader" where
  "get_cohort limits r =
     (let (name, r) = get_str (lm_max_string limits) r; (count, r) = get_u32 r in
      if \<not> r_ok r \<or> lm_max_values limits * 16 < unat count then Inl PS_DecodeFailure
      else
        let (scopes, r) = get_n get_u64 (unat count) r; (traffic, r) = get_u32 r; (radius, r) = get_u32 r in
        if \<not> r_ok r \<or> 100 < traffic \<or> 100 < radius then Inl PS_DecodeFailure
        else Inr (\<lparr>hq_name = name, hq_scopes = scopes, hq_traffic_percent = traffic,
          hq_max_blast_radius_percent = radius\<rparr>, r))"

definition cohort_fits :: "protocol_limits \<Rightarrow> cohort_spec \<Rightarrow> bool" where
  "cohort_fits limits c \<longleftrightarrow> str_fits (lm_max_string limits) (hq_name c) \<and>
     counted (lm_max_values limits * 16) (hq_scopes c) \<and>
     \<not> 100 < hq_traffic_percent c \<and> \<not> 100 < hq_max_blast_radius_percent c"

interpretation wire_cohort: checked_codec put_cohort "get_cohort limits" "cohort_fits limits" for limits
  by unfold_locales
     (clarsimp simp: put_cohort_def get_cohort_def cohort_fits_def read_simps simp del: linorder_not_less not_less)

definition put_index :: "nat \<Rightarrow> bytes" where
  "put_index i = put_u32 (of_nat i)"

definition get_index :: "reader \<Rightarrow> nat \<times> reader" where
  "get_index r = (let (i, r) = get_u32 r in (unat i, r))"

interpretation index: codec put_index get_index "\<lambda>i. i < 2 ^ 32"
  by unfold_locales (simp add: put_index_def get_index_def read_simps unat_of_nat)

definition put_stage :: "stage_spec \<Rightarrow> bytes" where
  "put_stage s =
     put_str (gs_name s) @ put_count (gs_cohort_indices s) @ put_all put_index (gs_cohort_indices s) @
     put_count (gs_required_evidence s) @ put_all put_evidence_requirement (gs_required_evidence s) @
     put_count (gs_acceptance s) @ put_all put_criterion (gs_acceptance s) @
     put_count (gs_failure s) @ put_all put_criterion (gs_failure s) @
     put_bool (gs_require_residency_before_entry s) @ put_bool (gs_require_drain_after_commit s)"

definition get_stage :: "protocol_limits \<Rightarrow> reader \<Rightarrow> protocol_status + stage_spec \<times> reader" where
  "get_stage limits r =
     (let (name, r) = get_str (lm_max_string limits) r; (count, r) = get_u32 r in
      if \<not> r_ok r \<or> lm_max_values limits * 8 < unat count then Inl PS_DecodeFailure
      else
        let (indices, r) = get_n get_index (unat count) r in
        case get_counted 64 get_evidence_requirement r of Inl e \<Rightarrow> Inl e
        | Inr (required, r) \<Rightarrow>
          case get_counted 64 get_criterion r of Inl e \<Rightarrow> Inl e
          | Inr (acceptance, r) \<Rightarrow>
            case get_counted 64 get_criterion r of Inl e \<Rightarrow> Inl e
            | Inr (failure, r) \<Rightarrow>
              let (residency, r) = get_bool r; (drain, r) = get_bool r in
              Inr (\<lparr>gs_name = name, gs_cohort_indices = indices, gs_required_evidence = required,
                gs_acceptance = acceptance, gs_failure = failure,
                gs_require_residency_before_entry = residency, gs_require_drain_after_commit = drain\<rparr>, r))"

definition stage_fits :: "protocol_limits \<Rightarrow> stage_spec \<Rightarrow> bool" where
  "stage_fits limits s \<longleftrightarrow> str_fits (lm_max_string limits) (gs_name s) \<and>
     counted (lm_max_values limits * 8) (gs_cohort_indices s) \<and>
     list_all (\<lambda>i. i < 2 ^ 32) (gs_cohort_indices s) \<and> counted 64 (gs_required_evidence s) \<and>
     counted 64 (gs_acceptance s) \<and> counted 64 (gs_failure s)"

interpretation wire_stage: checked_codec put_stage "get_stage limits" "stage_fits limits" for limits
  by unfold_locales
     (clarsimp simp: put_stage_def get_stage_def stage_fits_def read_simps index.get_n_put_all)

section \<open>What a decoder returns is within bounds\<close>

locale bounded_codec = checked_codec put get fits
  for put :: "'a \<Rightarrow> bytes" and get :: "reader \<Rightarrow> protocol_status + 'a \<times> reader" and fits :: "'a \<Rightarrow> bool" +
  assumes get_fits: "get r = Inr (x, r') \<Longrightarrow> fits x"
begin

lemma get_each_fits: "get_each get n r = Inr (xs, r') \<Longrightarrow> length xs = n \<and> list_all fits xs"
  by (induction n arbitrary: r xs) (auto split: sum.splits prod.splits dest: get_fits)

lemma get_counted_fits:
  assumes "get_counted bound get r = Inr (xs, r')"
  shows "counted bound xs \<and> list_all fits xs"
proof -
  obtain count r1 where count: "get_u32 r = (count, r1)" by (cases "get_u32 r")
  then have "get_each get (unat count) r1 = Inr (xs, r')" "unat count \<le> bound"
    using assms by (auto simp: get_counted_def split: if_splits)
  then show ?thesis
    using get_each_fits [of "unat count" r1 xs r'] unsigned_less [where w = count and 'a = nat]
    by (simp add: counted_def)
qed

end

lemma get_str_fits: "get_str m r = (s, r') \<Longrightarrow> str_fits m s"
proof -
  assume s: "get_str m r = (s, r')"
  obtain n r1 where n: "get_u32 r = (n, r1)" by (cases "get_u32 r")
  have "unat n < 2 ^ 32" using unsigned_less [where w = n and 'a = nat] by simp
  then show ?thesis
    using s by (auto simp: get_str_def n str_fits_def split: if_splits)
qed

lemma get_n_length: "get_n get n r = (xs, r') \<Longrightarrow> length xs = n"
  by (induction n arbitrary: r xs) (auto split: prod.splits)

lemma get_n_counted: "get_n get (unat (c :: u32)) r = (xs, r') \<Longrightarrow> \<not> bound < unat c \<Longrightarrow> counted bound xs"
  using unsigned_less [where w = c and 'a = nat] by (auto simp: counted_def dest: get_n_length)

lemma get_indices: "get_n get_index n r = (is, r') \<Longrightarrow> list_all (\<lambda>i. i < 2 ^ 32) is"
proof (induction n arbitrary: r "is")
  case (Suc n)
  obtain w r1 where w: "get_u32 r = (w, r1)" by (cases "get_u32 r")
  have "unat w < 2 ^ 32" using unsigned_less [where w = w and 'a = nat] by simp
  then show ?case using Suc by (auto simp: get_index_def w split: prod.splits)
qed simp

interpretation wire_requirement: bounded_codec put_evidence_requirement get_evidence_requirement "\<lambda>_. True"
  by unfold_locales simp

interpretation wire_criterion: bounded_codec put_criterion get_criterion "\<lambda>_. True"
  by unfold_locales simp

interpretation wire_cohort: bounded_codec put_cohort "get_cohort limits" "cohort_fits limits" for limits
proof unfold_locales
  fix r c r'
  assume "get_cohort limits r = Inr (c, r')"
  then show "cohort_fits limits c"
    by (auto simp: get_cohort_def cohort_fits_def dest: get_str_fits get_n_counted
        split: prod.splits if_splits)
qed

interpretation wire_stage: bounded_codec put_stage "get_stage limits" "stage_fits limits" for limits
proof unfold_locales
  fix r s r'
  assume "get_stage limits r = Inr (s, r')"
  then show "stage_fits limits s"
    by (auto simp: get_stage_def stage_fits_def
        dest: get_str_fits get_n_counted get_indices wire_requirement.get_counted_fits
          wire_criterion.get_counted_fits
        split: prod.splits if_splits sum.splits)
qed

definition encode_rollout_plan :: "protocol_limits \<Rightarrow> rollout_plan_request \<Rightarrow> protocol_status + bytes" where
  "encode_rollout_plan limits q = sealed limits (
     put_u64 (nq_model q) @ put_u64 (nq_candidate q) @ put_u64 (nq_candidate_generation q) @
     put_u64 (nq_artifact_generation q) @ put_u64 (nq_compatibility_generation q) @
     put_u64 (nq_policy_generation q) @ put_u64 (nq_root_scope q) @ put_u64 (nq_root_scope_generation q) @
     put_u8 (enum_byte rollout_strategies (nq_strategy q)) @ put_u64 (nq_previous q) @
     put_u64 (nq_previous_generation q) @ put_u64 (nq_rollback_target q) @
     put_u64 (nq_rollback_target_generation q) @ put_u32 (nq_max_blast_radius_percent q) @
     put_bool (nq_manual_progression q) @ put_u64 (nq_epoch q) @ put_u64 (nq_worker q) @
     put_u64 (nq_boot q) @ put_u64 (nq_promotion q) @ put_u64 (nq_promotion_generation q) @
     put_count (nq_cohorts q) @ put_all put_cohort (nq_cohorts q) @
     put_count (nq_stages q) @ put_all put_stage (nq_stages q))"

definition decode_rollout_plan :: "protocol_limits \<Rightarrow> bytes \<Rightarrow> protocol_status + rollout_plan_request" where
  "decode_rollout_plan limits data =
     (let (model, r) = get_u64 (reader_of data); (candidate, r) = get_u64 r;
          (candidate_generation, r) = get_u64 r; (artifact_generation, r) = get_u64 r;
          (compatibility_generation, r) = get_u64 r; (policy_generation, r) = get_u64 r;
          (root_scope, r) = get_u64 r; (root_scope_generation, r) = get_u64 r; (strategy, r) = get_u8 r in
      if \<not> r_ok r \<or> kRolloutStrategyCount \<le> unat strategy then Inl PS_DecodeFailure
      else
        let (previous, r) = get_u64 r; (previous_generation, r) = get_u64 r;
            (rollback_target, r) = get_u64 r; (rollback_target_generation, r) = get_u64 r;
            (max_blast_radius_percent, r) = get_u32 r; (manual_progression, r) = get_bool r;
            (epoch, r) = get_u64 r; (worker, r) = get_u64 r; (boot, r) = get_u64 r;
            (promotion, r) = get_u64 r; (promotion_generation, r) = get_u64 r in
        case get_counted (lm_max_values limits * 8) (get_cohort limits) r of Inl e \<Rightarrow> Inl e
        | Inr (cohorts, r) \<Rightarrow>
          case get_counted (lm_max_values limits) (get_stage limits) r of Inl e \<Rightarrow> Inl e
          | Inr (stages, r) \<Rightarrow>
            decode_or r \<lparr>nq_model = model, nq_candidate = candidate,
              nq_candidate_generation = candidate_generation, nq_artifact_generation = artifact_generation,
              nq_compatibility_generation = compatibility_generation,
              nq_policy_generation = policy_generation, nq_root_scope = root_scope,
              nq_root_scope_generation = root_scope_generation,
              nq_strategy = enum_at rollout_strategies strategy, nq_previous = previous,
              nq_previous_generation = previous_generation, nq_rollback_target = rollback_target,
              nq_rollback_target_generation = rollback_target_generation,
              nq_max_blast_radius_percent = max_blast_radius_percent,
              nq_manual_progression = manual_progression, nq_cohorts = cohorts, nq_stages = stages,
              nq_epoch = epoch, nq_worker = worker, nq_boot = boot, nq_promotion = promotion,
              nq_promotion_generation = promotion_generation\<rparr>)"

definition rollout_plan_fits :: "protocol_limits \<Rightarrow> rollout_plan_request \<Rightarrow> bool" where
  "rollout_plan_fits limits q \<longleftrightarrow>
     counted (lm_max_values limits * 8) (nq_cohorts q) \<and> list_all (cohort_fits limits) (nq_cohorts q) \<and>
     counted (lm_max_values limits) (nq_stages q) \<and> list_all (stage_fits limits) (nq_stages q)"

lemma wire_plan_sequences [read_simps]:
  "counted n cs \<Longrightarrow> list_all (cohort_fits limits) cs \<Longrightarrow> get_counted n (get_cohort limits)
     (reader_of (put_count cs @ put_all put_cohort cs @ rest)) = Inr (cs, reader_of rest)"
  "counted n ss \<Longrightarrow> list_all (stage_fits limits) ss \<Longrightarrow> get_counted n (get_stage limits)
     (reader_of (put_count ss @ put_all put_stage ss)) = Inr (ss, reader_of [])"
  using wire_cohort.get_each_count [of limits cs n rest] wire_stage.get_each_count [of limits ss n "[]"]
  by (simp_all add: get_counted_def read_simps)

lemma rollout_plan_roundtrip:
  "encode_rollout_plan limits q = Inr out \<Longrightarrow> rollout_plan_fits limits q \<Longrightarrow> decode_rollout_plan limits out = Inr q"
  by (cases q)
     (auto simp: encode_rollout_plan_def decode_rollout_plan_def rollout_plan_fits_def read_simps sealed_eq)

text \<open>
  C28 A rollout plan survives the wire, and whatever bytes arrive, a plan that decodes respects
  every bound of the protocol: counts, string lengths and percentages.
\<close>

theorem rollout_plan_wire:
  assumes "encode_rollout_plan limits q = Inr out" and "rollout_plan_fits limits q"
    and "decode_rollout_plan limits data = Inr p"
  shows "decode_rollout_plan limits out = Inr q \<and> rollout_plan_fits limits p"
proof
  show "decode_rollout_plan limits out = Inr q"
    by (rule rollout_plan_roundtrip [OF assms(1,2)])
  show "rollout_plan_fits limits p"
    using assms(3)
    by (auto simp: decode_rollout_plan_def rollout_plan_fits_def decode_or_def
        dest: wire_cohort.get_counted_fits wire_stage.get_counted_fits
        split: prod.splits if_splits sum.splits)
qed

definition sample_plan_request :: rollout_plan_request where
  "sample_plan_request = \<lparr>nq_model = 1, nq_candidate = 2, nq_candidate_generation = 1,
     nq_artifact_generation = 1, nq_compatibility_generation = 1, nq_policy_generation = 1,
     nq_root_scope = 1, nq_root_scope_generation = 1, nq_strategy = RS_Canary, nq_previous = 0,
     nq_previous_generation = 0, nq_rollback_target = 0, nq_rollback_target_generation = 0,
     nq_max_blast_radius_percent = 100, nq_manual_progression = False,
     nq_cohorts = [\<lparr>hq_name = ''c'', hq_scopes = [1], hq_traffic_percent = 10, hq_max_blast_radius_percent = 50\<rparr>],
     nq_stages = [\<lparr>gs_name = ''s'', gs_cohort_indices = [0],
       gs_required_evidence = [\<lparr>er_kind = EK_Signature, er_required_verdict = EV_Satisfied,
         er_require_exact_subject = True, er_require_current_publisher = False\<rparr>],
       gs_acceptance = [\<lparr>ct_kind = EK_ErrorRate, ct_comparison = CC_AtMost, ct_threshold = 5\<rparr>],
       gs_failure = [], gs_require_residency_before_entry = False, gs_require_drain_after_commit = True\<rparr>],
     nq_epoch = 1, nq_worker = 0, nq_boot = 0, nq_promotion = 0, nq_promotion_generation = 0\<rparr>"

lemma sample_plan_request_fits: "rollout_plan_fits default_limits sample_plan_request"
  by (simp add: sample_plan_request_def rollout_plan_fits_def default_limits_def cohort_fits_def stage_fits_def
      counted_def str_fits_def)

lemma sample_plan_request_encodes:
  "encode_rollout_plan default_limits sample_plan_request
     = Inr (projr (encode_rollout_plan default_limits sample_plan_request))"
  by (simp add: encode_rollout_plan_def sealed_def sample_plan_request_def default_limits_def put_all_def
      put_count_def put_cohort_def put_stage_def put_evidence_requirement_def put_criterion_def put_index_def
      put_bool_def put_str_def put_f64_def)

lemma rollout_plan_wire_witness:
  "decode_rollout_plan default_limits (projr (encode_rollout_plan default_limits sample_plan_request))
     = Inr sample_plan_request \<and> rollout_plan_fits default_limits sample_plan_request"
proof (rule rollout_plan_wire [OF sample_plan_request_encodes sample_plan_request_fits])
  show "decode_rollout_plan default_limits (projr (encode_rollout_plan default_limits sample_plan_request))
      = Inr sample_plan_request"
    by (rule rollout_plan_roundtrip [OF sample_plan_request_encodes sample_plan_request_fits])
qed

section \<open>Replies\<close>

record reply =
  ry_outcome :: outcome_code
  ry_reasons :: "reason list"
  ry_values :: "(string \<times> string) list"

definition new_reply :: "outcome_code \<Rightarrow> reply" where
  "new_reply c = \<lparr>ry_outcome = c, ry_reasons = [], ry_values = []\<rparr>"

definition reply_ok :: "reply \<Rightarrow> bool" where
  "reply_ok y \<longleftrightarrow> is_positive (ry_outcome y)"

definition reply_add :: "reason_code \<Rightarrow> string \<Rightarrow> reply \<Rightarrow> reply" where
  "reply_add code detail y =
     (if code = NoReason then y
      else y\<lparr>ry_reasons := ry_reasons y @ [Reason code (if 160 < length detail then take 160 detail else detail)]\<rparr>)"

fun set_value :: "string \<Rightarrow> string \<Rightarrow> (string \<times> string) list \<Rightarrow> (string \<times> string) list" where
  "set_value key value [] = [(key, value)]"
| "set_value key value ((k, v) # entries) =
     (if k = key then (k, value) # entries else (k, v) # set_value key value entries)"

definition reply_set :: "string \<Rightarrow> string \<Rightarrow> reply \<Rightarrow> reply" where
  "reply_set key value y =
     y\<lparr>ry_values := set_value key (if 256 < length value then take 256 value else value) (ry_values y)\<rparr>"

definition reply_set_number :: "string \<Rightarrow> u64 \<Rightarrow> reply \<Rightarrow> reply" where
  "reply_set_number key value y = reply_set key (show_u64 value) y"

definition reply_find :: "string \<Rightarrow> reply \<Rightarrow> string option" where
  "reply_find key y = map_of (ry_values y) key"

text \<open>Unlike the checked parser of identities, a reply's number wraps around.\<close>

fun reply_digits :: "u64 \<Rightarrow> string \<Rightarrow> u64 option" where
  "reply_digits result [] = Some result"
| "reply_digits result (c # cs) =
     (if c < CHR ''0'' \<or> CHR ''9'' < c then None
      else reply_digits (result * 10 + of_nat (of_char c - of_char CHR ''0'')) cs)"

definition reply_number :: "string \<Rightarrow> u64 \<Rightarrow> reply \<Rightarrow> u64" where
  "reply_number key fallback y =
     (case reply_find key y of
        None \<Rightarrow> fallback
      | Some value \<Rightarrow> if value = [] then fallback
          else (case reply_digits 0 value of None \<Rightarrow> fallback | Some n \<Rightarrow> n))"

definition render_reply :: "reply \<Rightarrow> string" where
  "render_reply y = to_string_outcome (ry_outcome y) @
     concat (map (\<lambda>r. '' '' @ to_string_reason (r_code r)) (ry_reasons y)) @
     concat (map (\<lambda>(k, v). '' '' @ k @ ''='' @ v) (ry_values y))"

definition reply_from_decision :: "decision \<Rightarrow> reply" where
  "reply_from_decision d = \<lparr>ry_outcome = d_outcome d, ry_reasons = d_reasons d, ry_values = []\<rparr>"

definition decision_from_reply :: "reply \<Rightarrow> decision" where
  "decision_from_reply y = normalize_decision (add_reasons (new_decision (ry_outcome y)) (ry_reasons y))"

definition put_reason :: "reason \<Rightarrow> bytes" where
  "put_reason r = put_u16 (reason_number (r_code r)) @ put_str (r_detail r)"

definition get_reason :: "nat \<Rightarrow> reader \<Rightarrow> reason \<times> reader" where
  "get_reason max_string r =
     (let (code, r) = get_u16 r; (detail, r) = get_str max_string r in (Reason (reason_at code) detail, r))"

interpretation wire_reason: codec put_reason "get_reason m" "\<lambda>r. str_fits m (r_detail r)" for m
  by unfold_locales (simp add: put_reason_def get_reason_def read_simps)

definition put_entry :: "string \<times> string \<Rightarrow> bytes" where
  "put_entry e = put_str (fst e) @ put_str (snd e)"

definition get_entry :: "nat \<Rightarrow> reader \<Rightarrow> (string \<times> string) \<times> reader" where
  "get_entry max_string r =
     (let (key, r) = get_str max_string r; (value, r) = get_str max_string r in ((key, value), r))"

interpretation wire_entry: codec put_entry "get_entry m" "\<lambda>e. str_fits m (fst e) \<and> str_fits m (snd e)" for m
  by unfold_locales (simp add: put_entry_def get_entry_def read_simps)

definition encode_reply :: "protocol_limits \<Rightarrow> reply \<Rightarrow> protocol_status + bytes" where
  "encode_reply limits y =
     (if lm_max_reasons limits < length (ry_reasons y) \<or> lm_max_values limits < length (ry_values y) then
        Inl PS_Oversized
      else sealed limits (
        put_u16 (outcome_number (ry_outcome y)) @
        put_count (ry_reasons y) @ put_all put_reason (ry_reasons y) @
        put_count (ry_values y) @ put_all put_entry (ry_values y)))"

definition decode_reply :: "protocol_limits \<Rightarrow> bytes \<Rightarrow> protocol_status + reply" where
  "decode_reply limits data =
     (let (outcome, r) = get_u16 (reader_of data) in
      if outcome_number OC_UNSUPPORTED < outcome then Inl PS_DecodeFailure
      else
        let (reason_count, r) = get_u32 r in
        if \<not> r_ok r \<or> lm_max_reasons limits < unat reason_count then Inl PS_DecodeFailure
        else
          let (reasons, r) = get_n (get_reason (lm_max_string limits)) (unat reason_count) r;
              (value_count, r) = get_u32 r in
          if \<not> r_ok r \<or> lm_max_values limits < unat value_count then Inl PS_DecodeFailure
          else
            let (values, r) = get_n (get_entry (lm_max_string limits)) (unat value_count) r in
            decode_or r \<lparr>ry_outcome = outcome_at outcome, ry_reasons = reasons, ry_values = values\<rparr>)"

definition reply_fits :: "protocol_limits \<Rightarrow> reply \<Rightarrow> bool" where
  "reply_fits limits y \<longleftrightarrow>
     counted (lm_max_reasons limits) (ry_reasons y) \<and> counted (lm_max_values limits) (ry_values y) \<and>
     list_all (\<lambda>r. str_fits (lm_max_string limits) (r_detail r)) (ry_reasons y) \<and>
     list_all (\<lambda>e. str_fits (lm_max_string limits) (fst e) \<and> str_fits (lm_max_string limits) (snd e))
       (ry_values y)"

lemma get_entries_last [read_simps]:
  "list_all (\<lambda>e. str_fits m (fst e) \<and> str_fits m (snd e)) es \<Longrightarrow>
   get_n (get_entry m) (length es) (reader_of (put_all put_entry es)) = (es, reader_of [])"
  using wire_entry.get_n_put_all [of m es "[]"] by simp

lemma is_positive_reply: "reply_ok (reply_from_decision d) \<longleftrightarrow> allowed d"
  by (simp add: reply_ok_def reply_from_decision_def allowed_def)

lemma add_reasons_listed:
  "list_all (\<lambda>r. r_code r \<noteq> NoReason) rs \<Longrightarrow> d_reasons (add_reasons d rs) = d_reasons d @ rs"
  by (induction rs arbitrary: d) (simp_all add: add_reason_def)

lemma reply_roundtrip:
  "encode_reply limits y = Inr out \<Longrightarrow> reply_fits limits y \<Longrightarrow> decode_reply limits out = Inr y"
  by (cases y)
     (auto simp: encode_reply_def decode_reply_def reply_fits_def read_simps sealed_eq
        wire_reason.get_n_put_all split: if_splits)

text \<open>
  A reply carries the decision it reports: sent and read back, it yields the same outcome and
  the decision's reasons in canonical order.
\<close>

theorem reply_carries_decision:
  assumes "encode_reply limits (reply_from_decision d) = Inr out" and "reply_fits limits (reply_from_decision d)"
    and "list_all (\<lambda>r. r_code r \<noteq> NoReason) (d_reasons d)"
  shows "map_sum id decision_from_reply (decode_reply limits out) = Inr (normalize_decision d)"
proof -
  have "decode_reply limits out = Inr (reply_from_decision d)"
    by (rule reply_roundtrip [OF assms(1,2)])
  moreover have "decision_from_reply (reply_from_decision d) = normalize_decision d"
    using add_reasons_listed [OF assms(3), of "new_decision (d_outcome d)"]
    by (cases d) (simp add: decision_from_reply_def reply_from_decision_def normalize_decision_def new_decision_def)
  ultimately show ?thesis by simp
qed

lemma reply_carries_decision_witness:
  "map_sum id decision_from_reply (decode_reply default_limits (projr (encode_reply default_limits
     (reply_from_decision (refuse OC_NOT_FOUND (Reg UnknownVersion) ''gone''))))) =
   Inr (normalize_decision (refuse OC_NOT_FOUND (Reg UnknownVersion) ''gone''))"
  by (rule reply_carries_decision)
     (simp_all add: encode_reply_def reply_from_decision_def refuse_def add_reason_def new_decision_def
        sealed_def default_limits_def put_all_def put_count_def put_reason_def put_str_def reply_fits_def
        counted_def str_fits_def)

end
