(* ===== verification/Mlf_Store_Codec.thy ===== *)
theory Mlf_Store_Codec
  imports Mlf_Wire
begin

text \<open>
  The records of the state file: the writers and readers of src/state_store.cpp, one pair for each
  kind of durable record, over the byte codec of \<open>Mlf_Bytes\<close> (the file's \<open>ByteWriter\<close> and
  \<open>ByteReader\<close> have the operations of the payload codec). A reader gives up at the first count,
  enumerator or identity that cannot be, with the status and the text the code returns. A record
  is storable when reading it back meets none of these faults; the writers check nothing.
\<close>

section \<open>Statuses and limits\<close>

datatype store_status =
    SS_Ok | SS_IoError | SS_BadMagic | SS_UnsupportedVersion | SS_IntegrityFailure | SS_Truncated
  | SS_BoundsExceeded | SS_InvalidContent | SS_AtomicReplaceFailed

primrec to_string_store_status :: "store_status \<Rightarrow> string" where
  "to_string_store_status SS_Ok = ''OK''"
| "to_string_store_status SS_IoError = ''IO_ERROR''"
| "to_string_store_status SS_BadMagic = ''BAD_MAGIC''"
| "to_string_store_status SS_UnsupportedVersion = ''UNSUPPORTED_VERSION''"
| "to_string_store_status SS_IntegrityFailure = ''INTEGRITY_FAILURE''"
| "to_string_store_status SS_Truncated = ''TRUNCATED''"
| "to_string_store_status SS_BoundsExceeded = ''BOUNDS_EXCEEDED''"
| "to_string_store_status SS_InvalidContent = ''INVALID_CONTENT''"
| "to_string_store_status SS_AtomicReplaceFailed = ''ATOMIC_REPLACE_FAILED''"

type_synonym store_fault = "store_status \<times> string"

record decode_limits =
  dl_max_models :: nat
  dl_max_versions :: nat
  dl_max_scopes :: nat
  dl_max_rollouts :: nat
  dl_max_authority_bindings :: nat
  dl_max_workers :: nat
  dl_max_evidence :: nat
  dl_max_attempts :: nat
  dl_max_compatibility_facts :: nat
  dl_max_stages_per_rollout :: nat
  dl_max_cohorts_per_rollout :: nat
  dl_max_history_per_rollout :: nat
  dl_max_string :: nat
  dl_max_digest :: nat
  dl_max_payload_bytes :: nat

definition decode_limits_from_bounds :: "registry_bounds \<Rightarrow> decode_limits" where
  "decode_limits_from_bounds b = \<lparr>dl_max_models = rb_max_models b,
     dl_max_versions = rb_max_models b * rb_max_versions_per_model b, dl_max_scopes = rb_max_scopes b,
     dl_max_rollouts = rb_max_rollouts b, dl_max_authority_bindings = rb_max_authority_bindings b,
     dl_max_workers = rb_max_workers b, dl_max_evidence = rb_max_evidence b,
     dl_max_attempts = rb_max_attempts b, dl_max_compatibility_facts = 8192,
     dl_max_stages_per_rollout = 32, dl_max_cohorts_per_rollout = 64, dl_max_history_per_rollout = 4096,
     dl_max_string = rb_max_name_length b * 2, dl_max_digest = rb_max_digest_length b,
     dl_max_payload_bytes = 16 * 1024 * 1024\<rparr>"

section \<open>Sequences\<close>

text \<open>A sequence: its count against a bound, then its elements.\<close>

definition read_counted ::
  "nat \<Rightarrow> store_fault \<Rightarrow> (reader \<Rightarrow> store_fault + 'a \<times> reader) \<Rightarrow> reader \<Rightarrow> store_fault + 'a list \<times> reader" where
  "read_counted bound problem get r =
     (let (count, r) = get_u32 r in
      if \<not> r_ok r \<or> bound < unat count then Inl problem else get_each get (unat count) r)"

definition plain :: "(reader \<Rightarrow> 'a \<times> reader) \<Rightarrow> reader \<Rightarrow> store_fault + 'a \<times> reader" where
  "plain get r = Inr (get r)"

context checked_codec begin

lemma get_counted_put:
  "counted n xs \<Longrightarrow> list_all fits xs \<Longrightarrow>
   get_each get (unat (of_nat (length xs) :: u32)) (reader_of (put_all put xs @ rest)) = Inr (xs, reader_of rest)"
  by (rule get_each_count)

end

lemma read_counted_codec:
  assumes "checked_codec put get fits" and "counted n xs" and "list_all fits xs"
  shows "read_counted n problem get (reader_of (put_count xs @ put_all put xs @ rest)) = Inr (xs, reader_of rest)"
  using checked_codec.get_counted_put [OF assms] assms(2) by (simp add: read_counted_def read_simps)

interpretation store_id: checked_codec put_u64 "plain get_u64" "\<lambda>_. True"
  by unfold_locales (simp add: plain_def read_simps)

lemma read_ids [read_simps]:
  "counted n xs \<Longrightarrow> read_counted n problem (plain get_u64)
     (reader_of (put_count xs @ put_all put_u64 xs @ rest)) = Inr (xs, reader_of rest)"
  by (rule read_counted_codec [OF store_id.checked_codec_axioms]) (simp_all add: list_all_iff)

text \<open>An enumerator, checked against the size of its enumeration.\<close>

definition read_enum :: "'a list \<Rightarrow> nat \<Rightarrow> store_fault \<Rightarrow> reader \<Rightarrow> store_fault + 'a \<times> reader" where
  "read_enum xs n problem r =
     (let (raw, r) = get_u8 r in if n \<le> unat raw then Inl problem else Inr (enum_at xs raw, r))"

definition write_enum :: "'a list \<Rightarrow> 'a \<Rightarrow> bytes" where
  "write_enum xs x = put_u8 (enum_byte xs x)"

interpretation store_kind: checked_codec "write_enum evidence_kinds" "read_enum evidence_kinds kEvidenceKindCount f"
  "\<lambda>_. True" for f
  by unfold_locales (simp add: write_enum_def read_enum_def read_simps)

interpretation store_scope_kind: checked_codec "write_enum scope_kinds" "read_enum scope_kinds kScopeKindCount f"
  "\<lambda>_. True" for f
  by unfold_locales (simp add: write_enum_def read_enum_def read_simps)

lemma read_kinds [read_simps]:
  "counted n ks \<Longrightarrow> read_counted n problem (read_enum evidence_kinds kEvidenceKindCount f)
     (reader_of (put_count ks @ put_all (write_enum evidence_kinds) ks @ rest)) = Inr (ks, reader_of rest)"
  "counted n ss \<Longrightarrow> read_counted n problem (read_enum scope_kinds kScopeKindCount f)
     (reader_of (put_count ss @ put_all (write_enum scope_kinds) ss @ rest)) = Inr (ss, reader_of rest)"
  by (auto intro!: read_counted_codec [OF store_kind.checked_codec_axioms]
      read_counted_codec [OF store_scope_kind.checked_codec_axioms] simp: list_all_iff)

lemma unat_nat32 [read_simps]: "n < 4294967296 \<Longrightarrow> unat (of_nat n :: u32) = n"
  by (simp add: unat_of_nat)

section \<open>Parts of records\<close>

definition write_subject :: "evidence_subject \<Rightarrow> bytes" where
  "write_subject s =
     put_u64 (es_model s) @ put_u64 (es_version s) @ put_u64 (es_model_generation s) @
     put_u64 (es_artifact_set s) @ put_u64 (es_artifact_generation s) @ put_u64 (es_scope s) @
     put_u64 (es_rollout s) @ put_u64 (es_rollout_generation s) @ put_u64 (es_stage s) @
     put_u64 (es_stage_generation s) @ put_u64 (es_compatibility_generation s)"

definition read_subject :: "reader \<Rightarrow> evidence_subject \<times> reader" where
  "read_subject r =
     (let (model, r) = get_u64 r; (version, r) = get_u64 r; (model_generation, r) = get_u64 r;
          (artifact_set, r) = get_u64 r; (artifact_generation, r) = get_u64 r; (scope, r) = get_u64 r;
          (rollout, r) = get_u64 r; (rollout_generation, r) = get_u64 r; (stage, r) = get_u64 r;
          (stage_generation, r) = get_u64 r; (compatibility_generation, r) = get_u64 r in
      (\<lparr>es_model = model, es_version = version, es_model_generation = model_generation,
        es_artifact_set = artifact_set, es_artifact_generation = artifact_generation, es_scope = scope,
        es_rollout = rollout, es_rollout_generation = rollout_generation, es_stage = stage,
        es_stage_generation = stage_generation,
        es_compatibility_generation = compatibility_generation\<rparr>, r))"

lemma read_back_subject [read_simps]:
  "read_subject (reader_of (write_subject s @ rest)) = (s, reader_of rest)"
  by (simp add: write_subject_def read_subject_def read_simps)

definition write_requirements :: "model_requirements \<Rightarrow> bytes" where
  "write_requirements q =
     put_str (rq_runtime q) @ put_str (rq_runtime_min_version q) @ put_str (rq_backend q) @
     put_str (rq_architecture q) @ put_str (rq_precision q) @ put_str (rq_tokenizer_generation q) @
     put_str (rq_adapter_set q)"

definition read_requirements :: "decode_limits \<Rightarrow> reader \<Rightarrow> model_requirements \<times> reader" where
  "read_requirements limits r =
     (let (runtime, r) = get_str (dl_max_string limits) r;
          (runtime_min_version, r) = get_str (dl_max_string limits) r;
          (backend, r) = get_str (dl_max_string limits) r;
          (architecture, r) = get_str (dl_max_string limits) r;
          (precision, r) = get_str (dl_max_string limits) r;
          (tokenizer_generation, r) = get_str (dl_max_string limits) r;
          (adapter_set, r) = get_str (dl_max_string limits) r in
      (\<lparr>rq_runtime = runtime, rq_runtime_min_version = runtime_min_version, rq_backend = backend,
        rq_architecture = architecture, rq_precision = precision,
        rq_tokenizer_generation = tokenizer_generation, rq_adapter_set = adapter_set\<rparr>, r))"

definition requirements_storable :: "decode_limits \<Rightarrow> model_requirements \<Rightarrow> bool" where
  "requirements_storable limits q \<longleftrightarrow> list_all (str_fits (dl_max_string limits))
     [rq_runtime q, rq_runtime_min_version q, rq_backend q, rq_architecture q, rq_precision q,
      rq_tokenizer_generation q, rq_adapter_set q]"

lemma read_back_requirements [read_simps]:
  "requirements_storable limits q \<Longrightarrow>
   read_requirements limits (reader_of (write_requirements q @ rest)) = (q, reader_of rest)"
  by (simp add: write_requirements_def read_requirements_def requirements_storable_def read_simps)

definition write_artifact :: "artifact_binding \<Rightarrow> bytes" where
  "write_artifact b = put_u64 (ab_set_id b) @ put_u64 (ab_generation b) @ put_str (ab_digest b)"

definition read_artifact :: "decode_limits \<Rightarrow> reader \<Rightarrow> artifact_binding \<times> reader" where
  "read_artifact limits r =
     (let (set_id, r) = get_u64 r; (generation, r) = get_u64 r; (digest, r) = get_str (dl_max_digest limits) r in
      (\<lparr>ab_set_id = set_id, ab_generation = generation, ab_digest = digest\<rparr>, r))"

definition artifact_storable :: "decode_limits \<Rightarrow> artifact_binding \<Rightarrow> bool" where
  "artifact_storable limits b \<longleftrightarrow> str_fits (dl_max_digest limits) (ab_digest b)"

lemma read_back_artifact [read_simps]:
  "artifact_storable limits b \<Longrightarrow>
   read_artifact limits (reader_of (write_artifact b @ rest)) = (b, reader_of rest)"
  by (simp add: write_artifact_def read_artifact_def artifact_storable_def read_simps)

text \<open>
  The readers of a criterion and of an evidence requirement cast the enumerators; their callers
  check the kind and the verdict after all fields were read, but never the comparison of a
  criterion: a number other than 0 and 1, which the code keeps as an unnamed enumerator that is
  not \<open>AtLeast\<close>, is read as \<open>AtMost\<close>.
\<close>

definition write_criterion :: "criterion \<Rightarrow> bytes" where
  "write_criterion c =
     put_u8 (enum_byte evidence_kinds (ct_kind c)) @
     put_u8 (enum_byte criterion_comparisons (ct_comparison c)) @ put_f64 (ct_threshold c)"

definition read_criterion :: "string \<Rightarrow> reader \<Rightarrow> store_fault + criterion \<times> reader" where
  "read_criterion text r =
     (let (kind, r) = get_u8 r; (comparison, r) = get_u8 r; (threshold, r) = get_f64 r in
      if kEvidenceKindCount \<le> unat kind then Inl (SS_InvalidContent, text)
      else Inr (\<lparr>ct_kind = enum_at evidence_kinds kind,
        ct_comparison = (if comparison = 0 then CC_AtLeast else CC_AtMost), ct_threshold = threshold\<rparr>, r))"

lemma read_comparison [read_simps]:
  "(if enum_byte criterion_comparisons c = 0 then CC_AtLeast else CC_AtMost) = c"
  by (cases c) (simp_all add: enum_byte_def criterion_comparisons_def)

definition write_evidence_requirement :: "evidence_requirement \<Rightarrow> bytes" where
  "write_evidence_requirement q =
     put_u8 (enum_byte evidence_kinds (er_kind q)) @
     put_u8 (enum_byte evidence_verdicts (er_required_verdict q)) @
     put_bool (er_require_exact_subject q) @ put_bool (er_require_current_publisher q)"

definition read_evidence_requirement :: "reader \<Rightarrow> store_fault + evidence_requirement \<times> reader" where
  "read_evidence_requirement r =
     (let (kind, r) = get_u8 r; (verdict, r) = get_u8 r; (exact, r) = get_bool r; (current, r) = get_bool r in
      if kEvidenceKindCount \<le> unat kind \<or> 2 < unat verdict then
        Inl (SS_InvalidContent, ''invalid evidence requirement'')
      else Inr (\<lparr>er_kind = enum_at evidence_kinds kind,
        er_required_verdict = enum_at evidence_verdicts verdict, er_require_exact_subject = exact,
        er_require_current_publisher = current\<rparr>, r))"

interpretation store_criterion: checked_codec write_criterion "read_criterion f" "\<lambda>_. True" for f
proof
  fix c rest
  show "read_criterion f (reader_of (write_criterion c @ rest)) = Inr (c, reader_of rest)"
    using read_comparison [of "ct_comparison c"]
    by (cases c) (simp add: write_criterion_def read_criterion_def read_simps)
qed

interpretation store_requirement: checked_codec write_evidence_requirement read_evidence_requirement "\<lambda>_. True"
  by unfold_locales (simp add: write_evidence_requirement_def read_evidence_requirement_def read_simps)

lemma read_criteria [read_simps]:
  "counted n cs \<Longrightarrow> read_counted n problem (read_criterion f)
     (reader_of (put_count cs @ put_all write_criterion cs @ rest)) = Inr (cs, reader_of rest)"
  "counted n qs \<Longrightarrow> read_counted n problem read_evidence_requirement
     (reader_of (put_count qs @ put_all write_evidence_requirement qs @ rest)) = Inr (qs, reader_of rest)"
  by (auto intro!: read_counted_codec [OF store_criterion.checked_codec_axioms]
      read_counted_codec [OF store_requirement.checked_codec_axioms] simp: list_all_iff)

text \<open>Reasons are cast without a check, as on the wire.\<close>

definition write_reason :: "reason \<Rightarrow> bytes" where
  "write_reason r = put_u16 (reason_number (r_code r)) @ put_str (r_detail r)"

definition read_reason :: "decode_limits \<Rightarrow> reader \<Rightarrow> reason \<times> reader" where
  "read_reason limits r =
     (let (code, r) = get_u16 r; (detail, r) = get_str (dl_max_string limits) r in
      (Reason (reason_at code) detail, r))"

interpretation store_reason: checked_codec write_reason "plain (read_reason limits)"
  "\<lambda>r. str_fits (dl_max_string limits) (r_detail r)" for limits
  by unfold_locales (simp add: write_reason_def read_reason_def plain_def read_simps)

lemma read_reasons [read_simps]:
  "counted n rs \<Longrightarrow> list_all (\<lambda>r. str_fits (dl_max_string limits) (r_detail r)) rs \<Longrightarrow>
   read_counted n problem (plain (read_reason limits))
     (reader_of (put_count rs @ put_all write_reason rs @ rest)) = Inr (rs, reader_of rest)"
  by (rule read_counted_codec [OF store_reason.checked_codec_axioms])

section \<open>Scopes and policy\<close>

definition write_scope_record :: "scope_record \<Rightarrow> bytes" where
  "write_scope_record x =
     put_u64 (s_id x) @ put_u64 (s_parent x) @ put_u8 (enum_byte scope_kinds (s_kind x)) @
     put_str (s_name x) @ put_str (s_path x) @ put_u64 (s_generation x) @
     put_u32 (of_nat (s_depth x))"

definition read_scope_record ::
  "decode_limits \<Rightarrow> reader \<Rightarrow> store_fault + scope_record \<times> reader" where
  "read_scope_record limits r =
     (let (id, r) = get_u64 r; (parent, r) = get_u64 r; (kind, r) = get_u8 r in
     if kScopeKindCount \<le> unat kind then Inl (SS_InvalidContent, ''unknown scope kind'')
     else
       let (name, r) = get_str (dl_max_string limits) r;
           (path, r) = get_str (dl_max_string limits * 8) r; (generation, r) = get_u64 r;
           (depth, r) = get_u32 r in
       Inr (\<lparr>s_id = id, s_parent = parent, s_kind = enum_at scope_kinds kind, s_name = name,
         s_path = path, s_generation = generation, s_depth = unat depth\<rparr>, r))"

definition scope_record_storable :: "decode_limits \<Rightarrow> scope_record \<Rightarrow> bool" where
  "scope_record_storable limits x \<longleftrightarrow>
     str_fits (dl_max_string limits) (s_name x) \<and>
     str_fits (dl_max_string limits * 8) (s_path x) \<and> s_depth x < 2 ^ 32"

interpretation store_scope_record: checked_codec write_scope_record "read_scope_record limits" "scope_record_storable limits" for limits
proof
  fix x rest
  assume "scope_record_storable limits x"
  then show "read_scope_record limits (reader_of (write_scope_record x @ rest)) = Inr (x, reader_of rest)"
    by (cases x) (clarsimp simp: write_scope_record_def read_scope_record_def scope_record_storable_def read_simps)
qed

lemmas read_back_scope_record [read_simps] = store_scope_record.get_put

definition write_override :: "scope_policy_override \<Rightarrow> bytes" where
  "write_override x =
     put_u64 (po_scope x) @ put_bool (po_permits_child_override x) @
     put_u32 (po_max_active_generations_per_scope x) @ put_i8 (po_require_rollback_target x) @
     put_i8 (po_require_evidence_for_stage_advance x) @
     put_i8 (po_require_residency_before_stage_entry x) @
     put_count (po_additional_required_evidence x) @
     put_all (write_enum evidence_kinds) (po_additional_required_evidence x) @
     put_count (po_additional_promotable_scope_kinds x) @
     put_all (write_enum scope_kinds) (po_additional_promotable_scope_kinds x)"

definition read_override ::
  "reader \<Rightarrow> store_fault + scope_policy_override \<times> reader" where
  "read_override r =
     (let (scope, r) = get_u64 r; (permits_child_override, r) = get_bool r;
         (max_active_generations_per_scope, r) = get_u32 r;
         (require_rollback_target, r) = get_i8 r;
         (require_evidence_for_stage_advance, r) = get_i8 r;
         (require_residency_before_stage_entry, r) = get_i8 r in
     case read_counted (kEvidenceKindCount * 4)
         (SS_BoundsExceeded, ''override evidence count out of range'')
         (read_enum evidence_kinds kEvidenceKindCount
           (SS_InvalidContent, ''unknown evidence kind in override'')) r of Inl e \<Rightarrow> Inl e
     | Inr (additional_required_evidence, r) \<Rightarrow>
       case read_counted (kScopeKindCount)
           (SS_BoundsExceeded, ''override scope kind count out of range'')
           (read_enum scope_kinds kScopeKindCount
           (SS_InvalidContent, ''unknown scope kind in override'')) r of Inl e \<Rightarrow> Inl e
       | Inr (additional_promotable_scope_kinds, r) \<Rightarrow>
         Inr (\<lparr>po_scope = scope, po_permits_child_override = permits_child_override,
           po_max_active_generations_per_scope = max_active_generations_per_scope,
           po_require_rollback_target = require_rollback_target,
           po_require_evidence_for_stage_advance = require_evidence_for_stage_advance,
           po_require_residency_before_stage_entry = require_residency_before_stage_entry,
           po_additional_required_evidence = additional_required_evidence,
           po_additional_promotable_scope_kinds = additional_promotable_scope_kinds\<rparr>, r))"

definition override_storable :: "scope_policy_override \<Rightarrow> bool" where
  "override_storable x \<longleftrightarrow>
     i8_fits (po_require_rollback_target x) \<and>
     i8_fits (po_require_evidence_for_stage_advance x) \<and>
     i8_fits (po_require_residency_before_stage_entry x) \<and>
     counted (kEvidenceKindCount * 4) (po_additional_required_evidence x) \<and>
     counted (kScopeKindCount) (po_additional_promotable_scope_kinds x)"

interpretation store_override: checked_codec write_override read_override override_storable
proof
  fix x rest
  assume "override_storable x"
  then show "read_override (reader_of (write_override x @ rest)) = Inr (x, reader_of rest)"
    by (cases x) (clarsimp simp: write_override_def read_override_def override_storable_def read_simps)
qed

lemmas read_back_override [read_simps] = store_override.get_put

definition write_policy :: "lifecycle_policy \<Rightarrow> bytes" where
  "write_policy p =
     put_u64 (lp_generation p) @ put_u32 (lp_max_active_generations_per_scope p) @
     put_bool (lp_allow_split_traffic p) @ put_bool (lp_require_rollback_target p) @
     put_bool (lp_allow_automatic_rollback p) @ put_bool (lp_require_manual_approval_for_promotion p) @
     put_u32 (lp_max_blast_radius_percent p) @ put_bool (lp_require_evidence_for_stage_advance p) @
     put_u64 (lp_max_evidence_age_ticks p) @ put_bool (lp_require_residency_before_stage_entry p) @
     put_bool (lp_require_drain_after_stage_commit p) @ put_bool (lp_allow_immediate_cutover p) @
     put_bool (lp_allow_retirement_without_drain p) @ put_u32 (lp_rollback_retention_generations p) @
     put_bool (lp_supersede_inflight_rollout_on_new_promotion p) @
     put_bool (lp_allow_version_label_reuse_after_retirement p) @
     put_count (lp_promotable_scope_kinds p) @
     put_all (write_enum scope_kinds) (lp_promotable_scope_kinds p) @
     put_count (lp_globally_required_evidence p) @
     put_all (write_enum evidence_kinds) (lp_globally_required_evidence p)"

text \<open>Every fault of a policy is reported as the one the caller returns.\<close>

definition policy_fault :: store_fault where
  "policy_fault = (SS_InvalidContent, ''policy section could not be decoded'')"

text \<open>The reader appends to the sequences of the policy it is given.\<close>

definition read_policy ::
  "decode_limits \<Rightarrow> lifecycle_policy \<Rightarrow> reader \<Rightarrow> store_fault + lifecycle_policy \<times> reader" where
  "read_policy limits p0 r =
     (let (generation, r) = get_u64 r; (max_active, r) = get_u32 r; (split, r) = get_bool r;
          (target, r) = get_bool r; (automatic, r) = get_bool r; (approval, r) = get_bool r;
          (radius, r) = get_u32 r; (stage_evidence, r) = get_bool r; (age, r) = get_u64 r;
          (residency, r) = get_bool r; (drain, r) = get_bool r; (cutover, r) = get_bool r;
          (retirement, r) = get_bool r; (retention, r) = get_u32 r; (supersede, r) = get_bool r;
          (reuse, r) = get_bool r in
      case read_counted kScopeKindCount policy_fault (read_enum scope_kinds kScopeKindCount policy_fault) r of
        Inl e \<Rightarrow> Inl e
      | Inr (kinds, r) \<Rightarrow>
        case read_counted (min (dl_max_string limits) (kEvidenceKindCount * 4)) policy_fault
          (read_enum evidence_kinds kEvidenceKindCount policy_fault) r of
          Inl e \<Rightarrow> Inl e
        | Inr (evidence, r) \<Rightarrow>
          if \<not> r_ok r then Inl policy_fault
          else Inr (\<lparr>lp_generation = generation, lp_max_active_generations_per_scope = max_active,
            lp_allow_split_traffic = split, lp_require_rollback_target = target,
            lp_allow_automatic_rollback = automatic, lp_require_manual_approval_for_promotion = approval,
            lp_max_blast_radius_percent = radius, lp_require_evidence_for_stage_advance = stage_evidence,
            lp_max_evidence_age_ticks = age, lp_require_residency_before_stage_entry = residency,
            lp_require_drain_after_stage_commit = drain, lp_allow_immediate_cutover = cutover,
            lp_promotable_scope_kinds = lp_promotable_scope_kinds p0 @ kinds,
            lp_globally_required_evidence = lp_globally_required_evidence p0 @ evidence,
            lp_allow_retirement_without_drain = retirement, lp_rollback_retention_generations = retention,
            lp_supersede_inflight_rollout_on_new_promotion = supersede,
            lp_allow_version_label_reuse_after_retirement = reuse\<rparr>, r))"

definition policy_storable :: "decode_limits \<Rightarrow> lifecycle_policy \<Rightarrow> bool" where
  "policy_storable limits p \<longleftrightarrow> counted kScopeKindCount (lp_promotable_scope_kinds p) \<and>
     counted (min (dl_max_string limits) (kEvidenceKindCount * 4)) (lp_globally_required_evidence p)"

lemma read_back_policy [read_simps]:
  "policy_storable limits p \<Longrightarrow>
   read_policy limits default_policy (reader_of (write_policy p @ rest)) = Inr (p, reader_of rest)"
  by (cases p) (clarsimp simp: write_policy_def read_policy_def policy_storable_def read_simps default_policy_def)

section \<open>Models, versions and compatibility\<close>

definition write_model :: "model_record \<Rightarrow> bytes" where
  "write_model x =
     put_u64 (mr_id x) @ put_str (mr_name x) @ put_str (mr_family x) @
     put_u8 (enum_byte provenances (mr_provenance x)) @ put_u64 (mr_created_sequence x)"

definition read_model ::
  "decode_limits \<Rightarrow> reader \<Rightarrow> store_fault + model_record \<times> reader" where
  "read_model limits r =
     (let (id, r) = get_u64 r; (name, r) = get_str (dl_max_string limits) r;
         (family, r) = get_str (dl_max_string limits) r; (provenance, r) = get_u8 r in
     if 3 < unat provenance then Inl (SS_InvalidContent, ''bad provenance'')
     else
       let (created_sequence, r) = get_u64 r in
       if \<not> id_valid id then
         Inl (SS_InvalidContent, ''model id is zero'')
       else
       Inr (\<lparr>mr_id = id, mr_name = name, mr_family = family,
         mr_provenance = enum_at provenances provenance, mr_created_sequence = created_sequence\<rparr>, r))"

definition model_storable :: "decode_limits \<Rightarrow> model_record \<Rightarrow> bool" where
  "model_storable limits x \<longleftrightarrow>
     str_fits (dl_max_string limits) (mr_name x) \<and>
     str_fits (dl_max_string limits) (mr_family x) \<and> \<not> (\<not> id_valid (mr_id x))"

interpretation store_model: checked_codec write_model "read_model limits" "model_storable limits" for limits
proof
  fix x rest
  assume "model_storable limits x"
  then show "read_model limits (reader_of (write_model x @ rest)) = Inr (x, reader_of rest)"
    by (cases x) (clarsimp simp: write_model_def read_model_def model_storable_def read_simps)
qed

lemmas read_back_model [read_simps] = store_model.get_put

definition write_version :: "version_record \<Rightarrow> bytes" where
  "write_version x =
     put_u64 (vr_model x) @ put_u64 (vr_version x) @ put_str (vr_label x) @
     put_u64 (vr_generation x) @ put_u64 (vr_predecessor x) @
     put_u64 (vr_predecessor_generation x) @ write_artifact (vr_artifact x) @
     write_requirements (vr_requirements x) @ put_u8 (enum_byte lifecycle_states (vr_state x)) @
     put_u64 (vr_lifecycle_generation x) @ put_u64 (vr_last_promotion x) @
     put_u64 (vr_promotion_generation x) @ put_u64 (vr_rollout x) @
     put_u64 (vr_rollout_generation x) @ put_u64 (vr_current_stage x) @
     put_u64 (vr_current_stage_generation x) @ put_u64 (vr_compatibility_generation x) @
     put_u64 (vr_last_rollback x) @ put_u64 (vr_rollback_generation x) @
     put_u8 (enum_byte provenances (vr_provenance x)) @ put_u64 (vr_created_sequence x) @
     put_u64 (vr_updated_sequence x)"

definition read_version ::
  "decode_limits \<Rightarrow> reader \<Rightarrow> store_fault + version_record \<times> reader" where
  "read_version limits r =
     (let (model, r) = get_u64 r; (version, r) = get_u64 r;
         (label, r) = get_str (dl_max_string limits) r; (generation, r) = get_u64 r;
         (predecessor, r) = get_u64 r; (predecessor_generation, r) = get_u64 r;
         (artifact, r) = read_artifact limits r; (requirements, r) = read_requirements limits r;
         (state, r) = get_u8 r in
     if kLifecycleStateCount \<le> unat state then Inl (SS_InvalidContent, ''impossible lifecycle state'')
     else
       let (lifecycle_generation, r) = get_u64 r; (last_promotion, r) = get_u64 r;
           (promotion_generation, r) = get_u64 r; (rollout, r) = get_u64 r;
           (rollout_generation, r) = get_u64 r; (current_stage, r) = get_u64 r;
           (current_stage_generation, r) = get_u64 r; (compatibility_generation, r) = get_u64 r;
           (last_rollback, r) = get_u64 r; (rollback_generation, r) = get_u64 r;
           (provenance, r) = get_u8 r in
       if 3 < unat provenance then Inl (SS_InvalidContent, ''bad provenance'')
       else
         let (created_sequence, r) = get_u64 r; (updated_sequence, r) = get_u64 r in
         if \<not> id_valid model \<or> \<not> id_valid version then
           Inl (SS_InvalidContent, ''version identity is zero'')
         else if \<not> id_valid generation then
           Inl (SS_InvalidContent, ''model generation is zero'')
         else if \<not> id_valid lifecycle_generation then
           Inl (SS_InvalidContent, ''lifecycle generation is zero'')
         else
         Inr (\<lparr>vr_model = model, vr_version = version, vr_label = label, vr_generation = generation,
           vr_predecessor = predecessor, vr_predecessor_generation = predecessor_generation,
           vr_artifact = artifact, vr_requirements = requirements,
           vr_state = enum_at lifecycle_states state,
           vr_lifecycle_generation = lifecycle_generation, vr_last_promotion = last_promotion,
           vr_promotion_generation = promotion_generation, vr_rollout = rollout,
           vr_rollout_generation = rollout_generation, vr_current_stage = current_stage,
           vr_current_stage_generation = current_stage_generation,
           vr_compatibility_generation = compatibility_generation,
           vr_last_rollback = last_rollback, vr_rollback_generation = rollback_generation,
           vr_provenance = enum_at provenances provenance,
           vr_created_sequence = created_sequence, vr_updated_sequence = updated_sequence\<rparr>, r))"

definition version_storable :: "decode_limits \<Rightarrow> version_record \<Rightarrow> bool" where
  "version_storable limits x \<longleftrightarrow>
     str_fits (dl_max_string limits) (vr_label x) \<and>
     artifact_storable limits (vr_artifact x) \<and>
     requirements_storable limits (vr_requirements x) \<and>
     \<not> (\<not> id_valid (vr_model x) \<or> \<not> id_valid (vr_version x)) \<and>
     \<not> (\<not> id_valid (vr_generation x)) \<and>
     \<not> (\<not> id_valid (vr_lifecycle_generation x))"

interpretation store_version: checked_codec write_version "read_version limits" "version_storable limits" for limits
proof
  fix x rest
  assume "version_storable limits x"
  then show "read_version limits (reader_of (write_version x @ rest)) = Inr (x, reader_of rest)"
    by (cases x) (clarsimp simp: write_version_def read_version_def version_storable_def read_simps)
qed

lemmas read_back_version [read_simps] = store_version.get_put

definition write_fact :: "compatibility_fact \<Rightarrow> bytes" where
  "write_fact x =
     put_u64 (cf_model x) @ put_u64 (cf_version x) @ put_u64 (cf_model_generation x) @
     put_u64 (cf_artifact_set x) @ put_u64 (cf_artifact_generation x) @
     put_u64 (cf_generation x) @ put_str (cf_environment_key x) @
     put_u8 (enum_byte compatibility_outcomes (cf_outcome x)) @ put_str (cf_detail x) @
     put_u8 (enum_byte provenances (cf_provenance x)) @ put_u64 (cf_sequence x)"

definition read_fact ::
  "decode_limits \<Rightarrow> reader \<Rightarrow> store_fault + compatibility_fact \<times> reader" where
  "read_fact limits r =
     (let (model, r) = get_u64 r; (version, r) = get_u64 r; (model_generation, r) = get_u64 r;
         (artifact_set, r) = get_u64 r; (artifact_generation, r) = get_u64 r;
         (generation, r) = get_u64 r; (environment_key, r) = get_str (dl_max_string limits) r;
         (outcome, r) = get_u8 r in
     if kCompatibilityOutcomeCount \<le> unat outcome then Inl (SS_InvalidContent, ''unknown compatibility outcome'')
     else
       let (detail, r) = get_str (dl_max_string limits * 2) r; (provenance, r) = get_u8 r in
       if 3 < unat provenance then Inl (SS_InvalidContent, ''bad provenance'')
       else
         let (sequence, r) = get_u64 r in
         if \<not> id_valid version \<or> \<not> id_valid generation \<or> environment_key = [] then
           Inl (SS_InvalidContent, ''invalid compatibility fact identity'')
         else
         Inr (\<lparr>cf_model = model, cf_version = version, cf_model_generation = model_generation,
           cf_artifact_set = artifact_set, cf_artifact_generation = artifact_generation,
           cf_generation = generation, cf_environment_key = environment_key,
           cf_outcome = enum_at compatibility_outcomes outcome, cf_detail = detail,
           cf_provenance = enum_at provenances provenance, cf_sequence = sequence\<rparr>, r))"

definition fact_storable :: "decode_limits \<Rightarrow> compatibility_fact \<Rightarrow> bool" where
  "fact_storable limits x \<longleftrightarrow>
     str_fits (dl_max_string limits) (cf_environment_key x) \<and>
     str_fits (dl_max_string limits * 2) (cf_detail x) \<and>
     \<not> (\<not> id_valid (cf_version x) \<or> \<not> id_valid (cf_generation x) \<or> (cf_environment_key x) = [])"

interpretation store_fact: checked_codec write_fact "read_fact limits" "fact_storable limits" for limits
proof
  fix x rest
  assume "fact_storable limits x"
  then show "read_fact limits (reader_of (write_fact x @ rest)) = Inr (x, reader_of rest)"
    by (cases x) (clarsimp simp: write_fact_def read_fact_def fact_storable_def read_simps)
qed

lemmas read_back_fact [read_simps] = store_fact.get_put

section \<open>Rollouts\<close>

definition write_cohort :: "cohort_definition \<Rightarrow> bytes" where
  "write_cohort x =
     put_u64 (ch_id x) @ put_str (ch_name x) @ put_count (ch_scopes x) @
     put_all put_u64 (ch_scopes x) @ put_u32 (ch_traffic_percent x) @
     put_u32 (ch_max_blast_radius_percent x)"

definition read_cohort ::
  "decode_limits \<Rightarrow> reader \<Rightarrow> store_fault + cohort_definition \<times> reader" where
  "read_cohort limits r =
     (let (id, r) = get_u64 r; (name, r) = get_str (dl_max_string limits) r in
     case read_counted (dl_max_scopes limits)
         (SS_BoundsExceeded, ''cohort scope count out of range'')
         (plain get_u64) r of Inl e \<Rightarrow> Inl e
     | Inr (scopes, r) \<Rightarrow>
       let (traffic_percent, r) = get_u32 r; (max_blast_radius_percent, r) = get_u32 r in
       if 100 < traffic_percent \<or> 100 < max_blast_radius_percent then
         Inl (SS_InvalidContent, ''cohort percentage out of range'')
       else
       Inr (\<lparr>ch_id = id, ch_name = name, ch_scopes = scopes, ch_traffic_percent = traffic_percent,
         ch_max_blast_radius_percent = max_blast_radius_percent\<rparr>, r))"

definition cohort_storable :: "decode_limits \<Rightarrow> cohort_definition \<Rightarrow> bool" where
  "cohort_storable limits x \<longleftrightarrow>
     str_fits (dl_max_string limits) (ch_name x) \<and>
     counted (dl_max_scopes limits) (ch_scopes x) \<and>
     \<not> (100 < (ch_traffic_percent x) \<or> 100 < (ch_max_blast_radius_percent x))"

interpretation store_cohort: checked_codec write_cohort "read_cohort limits" "cohort_storable limits" for limits
proof
  fix x rest
  assume "cohort_storable limits x"
  then show "read_cohort limits (reader_of (write_cohort x @ rest)) = Inr (x, reader_of rest)"
    by (cases x) (clarsimp simp: write_cohort_def read_cohort_def cohort_storable_def read_simps)
qed

lemmas read_back_cohort [read_simps] = store_cohort.get_put

lemma read_cohort_list [read_simps]:
  "counted n xs \<Longrightarrow> list_all (cohort_storable limits) xs \<Longrightarrow> read_counted n problem (read_cohort limits)
     (reader_of (put_count xs @ put_all write_cohort xs @ rest)) = Inr (xs, reader_of rest)"
  by (rule read_counted_codec [OF store_cohort.checked_codec_axioms])

definition write_stage :: "stage_definition \<Rightarrow> bytes" where
  "write_stage x =
     put_u64 (sg_id x) @ put_str (sg_name x) @ put_count (sg_cohorts x) @
     put_all put_u64 (sg_cohorts x) @ put_count (sg_required_evidence x) @
     put_all write_evidence_requirement (sg_required_evidence x) @ put_count (sg_acceptance x) @
     put_all write_criterion (sg_acceptance x) @ put_count (sg_failure x) @
     put_all write_criterion (sg_failure x) @ put_bool (sg_require_residency_before_entry x) @
     put_bool (sg_require_drain_after_commit x)"

definition read_stage ::
  "decode_limits \<Rightarrow> reader \<Rightarrow> store_fault + stage_definition \<times> reader" where
  "read_stage limits r =
     (let (id, r) = get_u64 r; (name, r) = get_str (dl_max_string limits) r in
     case read_counted (dl_max_cohorts_per_rollout limits)
         (SS_BoundsExceeded, ''stage cohort count out of range'')
         (plain get_u64) r of Inl e \<Rightarrow> Inl e
     | Inr (cohorts, r) \<Rightarrow>
       case read_counted (kEvidenceKindCount * 4)
           (SS_BoundsExceeded, ''stage requirement count out of range'')
           (read_evidence_requirement) r of Inl e \<Rightarrow> Inl e
       | Inr (required_evidence, r) \<Rightarrow>
         case read_counted (64)
             (SS_BoundsExceeded, ''acceptance criteria out of range'')
             (read_criterion ''invalid acceptance criterion'') r of Inl e \<Rightarrow> Inl e
         | Inr (acceptance, r) \<Rightarrow>
           case read_counted (64)
               (SS_BoundsExceeded, ''failure criteria out of range'')
               (read_criterion ''invalid failure criterion'') r of Inl e \<Rightarrow> Inl e
           | Inr (failure, r) \<Rightarrow>
             let (require_residency_before_entry, r) = get_bool r;
                 (require_drain_after_commit, r) = get_bool r in
             Inr (\<lparr>sg_id = id, sg_name = name, sg_cohorts = cohorts,
               sg_required_evidence = required_evidence, sg_acceptance = acceptance,
               sg_failure = failure,
               sg_require_residency_before_entry = require_residency_before_entry,
               sg_require_drain_after_commit = require_drain_after_commit\<rparr>, r))"

definition stage_storable :: "decode_limits \<Rightarrow> stage_definition \<Rightarrow> bool" where
  "stage_storable limits x \<longleftrightarrow>
     str_fits (dl_max_string limits) (sg_name x) \<and>
     counted (dl_max_cohorts_per_rollout limits) (sg_cohorts x) \<and>
     counted (kEvidenceKindCount * 4) (sg_required_evidence x) \<and>
     counted (64) (sg_acceptance x) \<and> counted (64) (sg_failure x)"

interpretation store_stage: checked_codec write_stage "read_stage limits" "stage_storable limits" for limits
proof
  fix x rest
  assume "stage_storable limits x"
  then show "read_stage limits (reader_of (write_stage x @ rest)) = Inr (x, reader_of rest)"
    by (cases x) (clarsimp simp: write_stage_def read_stage_def stage_storable_def read_simps)
qed

lemmas read_back_stage [read_simps] = store_stage.get_put

lemma read_stage_list [read_simps]:
  "counted n xs \<Longrightarrow> list_all (stage_storable limits) xs \<Longrightarrow> read_counted n problem (read_stage limits)
     (reader_of (put_count xs @ put_all write_stage xs @ rest)) = Inr (xs, reader_of rest)"
  by (rule read_counted_codec [OF store_stage.checked_codec_axioms])

definition write_stage_record :: "stage_record \<Rightarrow> bytes" where
  "write_stage_record x =
     put_u64 (sh_stage x) @ put_u64 (sh_generation x) @ put_u64 (sh_entered_sequence x) @
     put_u64 (sh_decided_sequence x) @ put_u8 (enum_byte stage_decisions (sh_decision x)) @
     put_count (sh_reasons x) @ put_all write_reason (sh_reasons x)"

definition read_stage_record ::
  "decode_limits \<Rightarrow> reader \<Rightarrow> store_fault + stage_record \<times> reader" where
  "read_stage_record limits r =
     (let (stage, r) = get_u64 r; (generation, r) = get_u64 r;
         (entered_sequence, r) = get_u64 r; (decided_sequence, r) = get_u64 r;
         (decision, r) = get_u8 r in
     if 5 < unat decision then Inl (SS_InvalidContent, ''unknown stage decision'')
     else
       case read_counted (64)
           (SS_BoundsExceeded, ''stage reason count out of range'')
           (plain (read_reason limits)) r of Inl e \<Rightarrow> Inl e
       | Inr (reasons, r) \<Rightarrow>
         Inr (\<lparr>sh_stage = stage, sh_generation = generation, sh_entered_sequence = entered_sequence,
           sh_decided_sequence = decided_sequence,
           sh_decision = enum_at stage_decisions decision, sh_reasons = reasons\<rparr>, r))"

definition stage_record_storable :: "decode_limits \<Rightarrow> stage_record \<Rightarrow> bool" where
  "stage_record_storable limits x \<longleftrightarrow>
     counted (64) (sh_reasons x) \<and>
     list_all (\<lambda>r. str_fits (dl_max_string limits) (r_detail r)) (sh_reasons x)"

interpretation store_stage_record: checked_codec write_stage_record "read_stage_record limits" "stage_record_storable limits" for limits
proof
  fix x rest
  assume "stage_record_storable limits x"
  then show "read_stage_record limits (reader_of (write_stage_record x @ rest)) = Inr (x, reader_of rest)"
    by (cases x) (clarsimp simp: write_stage_record_def read_stage_record_def stage_record_storable_def read_simps)
qed

lemmas read_back_stage_record [read_simps] = store_stage_record.get_put

lemma read_stage_record_list [read_simps]:
  "counted n xs \<Longrightarrow> list_all (stage_record_storable limits) xs \<Longrightarrow> read_counted n problem (read_stage_record limits)
     (reader_of (put_count xs @ put_all write_stage_record xs @ rest)) = Inr (xs, reader_of rest)"
  by (rule read_counted_codec [OF store_stage_record.checked_codec_axioms])

definition write_plan :: "rollout_plan \<Rightarrow> bytes" where
  "write_plan x =
     put_u64 (pl_id x) @ put_u64 (pl_generation x) @ put_u64 (pl_model x) @
     put_u64 (pl_candidate x) @ put_u64 (pl_candidate_generation x) @
     put_u64 (pl_candidate_artifact_set x) @ put_u64 (pl_candidate_artifact_generation x) @
     put_u64 (pl_previous x) @ put_u64 (pl_previous_generation x) @
     put_u64 (pl_compatibility_generation x) @ put_u64 (pl_policy_generation x) @
     put_u64 (pl_evidence_generation x) @ put_u64 (pl_root_scope x) @
     put_u64 (pl_root_scope_generation x) @
     put_u8 (enum_byte rollout_strategies (pl_strategy x)) @ put_u64 (pl_promotion x) @
     put_u64 (pl_promotion_generation x) @ put_u64 (pl_rollback_target x) @
     put_u64 (pl_rollback_target_generation x) @ put_u32 (pl_max_blast_radius_percent x) @
     put_bool (pl_manual_progression x) @ put_count (pl_cohorts x) @
     put_all write_cohort (pl_cohorts x) @ put_count (pl_stages x) @
     put_all write_stage (pl_stages x) @ put_u32 (of_nat (pl_current_stage_index x)) @
     put_u64 (pl_current_stage_generation x) @ put_bool (pl_stage_entered x) @
     put_count (pl_history x) @ put_all write_stage_record (pl_history x) @
     put_bool (pl_completed x) @ put_bool (pl_failed x) @ put_bool (pl_superseded x) @
     put_u64 (pl_last_rollback x) @ put_u64 (pl_last_rollback_generation x) @
     put_u64 (pl_created_sequence x) @ put_u64 (pl_updated_sequence x) @
     put_u8 (enum_byte provenances (pl_provenance x))"

definition read_plan ::
  "decode_limits \<Rightarrow> reader \<Rightarrow> store_fault + rollout_plan \<times> reader" where
  "read_plan limits r =
     (let (id, r) = get_u64 r; (generation, r) = get_u64 r; (model, r) = get_u64 r;
         (candidate, r) = get_u64 r; (candidate_generation, r) = get_u64 r;
         (candidate_artifact_set, r) = get_u64 r; (candidate_artifact_generation, r) = get_u64 r;
         (previous, r) = get_u64 r; (previous_generation, r) = get_u64 r;
         (compatibility_generation, r) = get_u64 r; (policy_generation, r) = get_u64 r;
         (evidence_generation, r) = get_u64 r; (root_scope, r) = get_u64 r;
         (root_scope_generation, r) = get_u64 r; (strategy, r) = get_u8 r in
     if kRolloutStrategyCount \<le> unat strategy then Inl (SS_InvalidContent, ''unknown rollout strategy'')
     else
       let (promotion, r) = get_u64 r; (promotion_generation, r) = get_u64 r;
           (rollback_target, r) = get_u64 r; (rollback_target_generation, r) = get_u64 r;
           (max_blast_radius_percent, r) = get_u32 r; (manual_progression, r) = get_bool r in
       case read_counted (dl_max_cohorts_per_rollout limits)
           (SS_BoundsExceeded, ''cohort count exceeds the decode bound'')
           (read_cohort limits) r of Inl e \<Rightarrow> Inl e
       | Inr (cohorts, r) \<Rightarrow>
         case read_counted (dl_max_stages_per_rollout limits)
             (SS_BoundsExceeded, ''stage count exceeds the decode bound'')
             (read_stage limits) r of Inl e \<Rightarrow> Inl e
         | Inr (stages, r) \<Rightarrow>
           let (current_stage_index, r) = get_u32 r;
               (current_stage_generation, r) = get_u64 r; (stage_entered, r) = get_bool r in
           case read_counted (dl_max_history_per_rollout limits)
               (SS_BoundsExceeded, ''stage history exceeds the decode bound'')
               (read_stage_record limits) r of Inl e \<Rightarrow> Inl e
           | Inr (history, r) \<Rightarrow>
             let (completed, r) = get_bool r; (failed, r) = get_bool r;
                 (superseded, r) = get_bool r; (last_rollback, r) = get_u64 r;
                 (last_rollback_generation, r) = get_u64 r; (created_sequence, r) = get_u64 r;
                 (updated_sequence, r) = get_u64 r; (provenance, r) = get_u8 r in
             if 3 < unat provenance then Inl (SS_InvalidContent, ''bad provenance'')
             else
               if \<not> id_valid id \<or> \<not> id_valid generation \<or> \<not> id_valid candidate then
                 Inl (SS_InvalidContent, ''invalid rollout identity'')
               else if dl_max_stages_per_rollout limits < length stages then
                 Inl (SS_BoundsExceeded, ''stage count exceeds the decode bound'')
               else
               Inr (\<lparr>pl_id = id, pl_generation = generation, pl_model = model,
                 pl_candidate = candidate, pl_candidate_generation = candidate_generation,
                 pl_candidate_artifact_set = candidate_artifact_set,
                 pl_candidate_artifact_generation = candidate_artifact_generation,
                 pl_previous = previous, pl_previous_generation = previous_generation,
                 pl_compatibility_generation = compatibility_generation,
                 pl_policy_generation = policy_generation,
                 pl_evidence_generation = evidence_generation, pl_root_scope = root_scope,
                 pl_root_scope_generation = root_scope_generation,
                 pl_strategy = enum_at rollout_strategies strategy, pl_promotion = promotion,
                 pl_promotion_generation = promotion_generation, pl_cohorts = cohorts,
                 pl_stages = stages, pl_rollback_target = rollback_target,
                 pl_rollback_target_generation = rollback_target_generation,
                 pl_max_blast_radius_percent = max_blast_radius_percent,
                 pl_manual_progression = manual_progression,
                 pl_current_stage_index = unat current_stage_index,
                 pl_current_stage_generation = current_stage_generation,
                 pl_stage_entered = stage_entered, pl_history = history,
                 pl_completed = completed, pl_failed = failed, pl_superseded = superseded,
                 pl_last_rollback = last_rollback,
                 pl_last_rollback_generation = last_rollback_generation,
                 pl_created_sequence = created_sequence, pl_updated_sequence = updated_sequence,
                 pl_provenance = enum_at provenances provenance\<rparr>, r))"

definition plan_storable :: "decode_limits \<Rightarrow> rollout_plan \<Rightarrow> bool" where
  "plan_storable limits x \<longleftrightarrow>
     counted (dl_max_cohorts_per_rollout limits) (pl_cohorts x) \<and>
     list_all (cohort_storable limits) (pl_cohorts x) \<and>
     counted (dl_max_stages_per_rollout limits) (pl_stages x) \<and>
     list_all (stage_storable limits) (pl_stages x) \<and>
     pl_current_stage_index x < 2 ^ 32 \<and>
     counted (dl_max_history_per_rollout limits) (pl_history x) \<and>
     list_all (stage_record_storable limits) (pl_history x) \<and>
     \<not> (\<not> id_valid (pl_id x) \<or> \<not> id_valid (pl_generation x) \<or> \<not> id_valid (pl_candidate x)) \<and>
     \<not> (dl_max_stages_per_rollout limits < length (pl_stages x))"

interpretation store_plan: checked_codec write_plan "read_plan limits" "plan_storable limits" for limits
proof
  fix x rest
  assume "plan_storable limits x"
  then show "read_plan limits (reader_of (write_plan x @ rest)) = Inr (x, reader_of rest)"
    by (cases x) (clarsimp simp: write_plan_def read_plan_def plan_storable_def read_simps)
qed

lemmas read_back_plan [read_simps] = store_plan.get_put

section \<open>Authority, workers, evidence and attempts\<close>

definition write_binding :: "authority_binding \<Rightarrow> bytes" where
  "write_binding x =
     put_u64 (b_scope x) @ put_u64 (b_scope_generation x) @ put_u64 (b_model x) @
     put_u64 (b_version x) @ put_u64 (b_model_generation x) @ put_u64 (b_artifact_set x) @
     put_u64 (b_artifact_generation x) @
     put_u8 (enum_byte lifecycle_states (b_lifecycle_state x)) @
     put_u8 (enum_byte authority_kinds (b_kind x)) @ put_u64 (b_rollout x) @
     put_u64 (b_rollout_generation x) @ put_u64 (b_stage x) @ put_u64 (b_stage_generation x) @
     put_u64 (b_promotion x) @ put_u64 (b_promotion_generation x) @ put_u64 (b_rollback x) @
     put_u64 (b_rollback_generation x) @ put_u64 (b_epoch x) @ put_u64 (b_evidence_generation x) @
     put_u64 (b_granted_sequence x)"

definition read_binding ::
  "reader \<Rightarrow> store_fault + authority_binding \<times> reader" where
  "read_binding r =
     (let (scope, r) = get_u64 r; (scope_generation, r) = get_u64 r; (model, r) = get_u64 r;
         (version, r) = get_u64 r; (model_generation, r) = get_u64 r;
         (artifact_set, r) = get_u64 r; (artifact_generation, r) = get_u64 r;
         (lifecycle_state, r) = get_u8 r in
     if kLifecycleStateCount \<le> unat lifecycle_state then Inl (SS_InvalidContent, ''impossible lifecycle state in authority'')
     else
       let (kind, r) = get_u8 r in
       if 4 < unat kind then Inl (SS_InvalidContent, ''unknown authority kind'')
       else
         let (rollout, r) = get_u64 r; (rollout_generation, r) = get_u64 r;
             (stage, r) = get_u64 r; (stage_generation, r) = get_u64 r;
             (promotion, r) = get_u64 r; (promotion_generation, r) = get_u64 r;
             (rollback, r) = get_u64 r; (rollback_generation, r) = get_u64 r;
             (epoch, r) = get_u64 r; (evidence_generation, r) = get_u64 r;
             (granted_sequence, r) = get_u64 r in
         if \<not> id_valid scope \<or> \<not> id_valid model \<or> \<not> id_valid version then
           Inl (SS_InvalidContent, ''invalid authority binding identity'')
         else
         Inr (\<lparr>b_scope = scope, b_scope_generation = scope_generation, b_model = model,
           b_version = version, b_model_generation = model_generation,
           b_artifact_set = artifact_set, b_artifact_generation = artifact_generation,
           b_lifecycle_state = enum_at lifecycle_states lifecycle_state,
           b_kind = enum_at authority_kinds kind, b_rollout = rollout,
           b_rollout_generation = rollout_generation, b_stage = stage,
           b_stage_generation = stage_generation, b_promotion = promotion,
           b_promotion_generation = promotion_generation, b_rollback = rollback,
           b_rollback_generation = rollback_generation, b_epoch = epoch,
           b_evidence_generation = evidence_generation, b_granted_sequence = granted_sequence,
           b_superseded = False\<rparr>, r))"

definition binding_storable :: "authority_binding \<Rightarrow> bool" where
  "binding_storable x \<longleftrightarrow>
     \<not> (\<not> id_valid (b_scope x) \<or> \<not> id_valid (b_model x) \<or> \<not> id_valid (b_version x)) \<and>
     b_superseded x = False"

interpretation store_binding: checked_codec write_binding read_binding binding_storable
proof
  fix x rest
  assume "binding_storable x"
  then show "read_binding (reader_of (write_binding x @ rest)) = Inr (x, reader_of rest)"
    by (cases x) (clarsimp simp: write_binding_def read_binding_def binding_storable_def read_simps)
qed

lemmas read_back_binding [read_simps] = store_binding.get_put

definition write_lease :: "worker_lease \<Rightarrow> bytes" where
  "write_lease x =
     put_u64 (wl_id x) @ put_u64 (wl_boot x) @ put_u64 (wl_epoch x) @ put_count (wl_scopes x) @
     put_all put_u64 (wl_scopes x) @ put_bool (wl_fenced x) @ put_u64 (wl_registered_sequence x) @
     put_u64 (wl_fenced_sequence x) @ put_str (wl_detail x)"

definition read_lease ::
  "decode_limits \<Rightarrow> reader \<Rightarrow> store_fault + worker_lease \<times> reader" where
  "read_lease limits r =
     (let (id, r) = get_u64 r; (boot, r) = get_u64 r; (epoch, r) = get_u64 r in
     case read_counted (dl_max_scopes limits)
         (SS_BoundsExceeded, ''worker scope count out of range'')
         (plain get_u64) r of Inl e \<Rightarrow> Inl e
     | Inr (scopes, r) \<Rightarrow>
       let (fenced, r) = get_bool r; (registered_sequence, r) = get_u64 r;
           (fenced_sequence, r) = get_u64 r; (detail, r) = get_str (dl_max_string limits) r in
       if \<not> id_valid id \<or> \<not> id_valid boot then
         Inl (SS_InvalidContent, ''invalid worker lease identity'')
       else
       Inr (\<lparr>wl_id = id, wl_boot = boot, wl_epoch = epoch, wl_scopes = scopes, wl_fenced = fenced,
         wl_registered_sequence = registered_sequence, wl_fenced_sequence = fenced_sequence,
         wl_detail = detail\<rparr>, r))"

definition lease_storable :: "decode_limits \<Rightarrow> worker_lease \<Rightarrow> bool" where
  "lease_storable limits x \<longleftrightarrow>
     counted (dl_max_scopes limits) (wl_scopes x) \<and>
     str_fits (dl_max_string limits) (wl_detail x) \<and>
     \<not> (\<not> id_valid (wl_id x) \<or> \<not> id_valid (wl_boot x))"

interpretation store_lease: checked_codec write_lease "read_lease limits" "lease_storable limits" for limits
proof
  fix x rest
  assume "lease_storable limits x"
  then show "read_lease limits (reader_of (write_lease x @ rest)) = Inr (x, reader_of rest)"
    by (cases x) (clarsimp simp: write_lease_def read_lease_def lease_storable_def read_simps)
qed

lemmas read_back_lease [read_simps] = store_lease.get_put

definition write_evidence :: "evidence_record \<Rightarrow> bytes" where
  "write_evidence x =
     put_u64 (e_id x) @ put_u64 (e_generation x) @ put_u8 (enum_byte evidence_kinds (e_kind x)) @
     put_u8 (enum_byte evidence_verdicts (e_verdict x)) @ write_subject (e_subject x) @
     put_u8 (enum_byte provenances (e_provenance x)) @ put_u64 (e_worker x) @ put_u64 (e_boot x) @
     put_u64 (e_epoch x) @ put_u64 (e_policy_generation x) @ put_f64 (e_value x) @
     put_str (e_unit x) @ put_u64 (e_tick x) @ put_str (e_detail x)"

definition read_evidence ::
  "decode_limits \<Rightarrow> reader \<Rightarrow> store_fault + evidence_record \<times> reader" where
  "read_evidence limits r =
     (let (id, r) = get_u64 r; (generation, r) = get_u64 r; (kind, r) = get_u8 r in
     if kEvidenceKindCount \<le> unat kind then Inl (SS_InvalidContent, ''unknown evidence kind'')
     else
       let (verdict, r) = get_u8 r in
       if 2 < unat verdict then Inl (SS_InvalidContent, ''unknown evidence verdict'')
       else
         let (subject, r) = read_subject r; (provenance, r) = get_u8 r in
         if 3 < unat provenance then Inl (SS_InvalidContent, ''bad provenance'')
         else
           let (worker, r) = get_u64 r; (boot, r) = get_u64 r; (epoch, r) = get_u64 r;
               (policy_generation, r) = get_u64 r; (value, r) = get_f64 r;
               (unit, r) = get_str (dl_max_string limits div 4) r; (tick, r) = get_u64 r;
               (detail, r) = get_str (dl_max_string limits * 2) r in
           if \<not> id_valid (es_version subject) \<or> \<not> id_valid generation then
             Inl (SS_InvalidContent, ''invalid evidence identity'')
           else
           Inr (\<lparr>e_id = id, e_generation = generation, e_kind = enum_at evidence_kinds kind,
             e_verdict = enum_at evidence_verdicts verdict, e_subject = subject,
             e_provenance = enum_at provenances provenance, e_worker = worker, e_boot = boot,
             e_epoch = epoch, e_policy_generation = policy_generation, e_value = value,
             e_unit = unit, e_tick = tick, e_detail = detail\<rparr>, r))"

definition evidence_storable :: "decode_limits \<Rightarrow> evidence_record \<Rightarrow> bool" where
  "evidence_storable limits x \<longleftrightarrow>
     str_fits (dl_max_string limits div 4) (e_unit x) \<and>
     str_fits (dl_max_string limits * 2) (e_detail x) \<and>
     \<not> (\<not> id_valid (es_version (e_subject x)) \<or> \<not> id_valid (e_generation x))"

interpretation store_evidence: checked_codec write_evidence "read_evidence limits" "evidence_storable limits" for limits
proof
  fix x rest
  assume "evidence_storable limits x"
  then show "read_evidence limits (reader_of (write_evidence x @ rest)) = Inr (x, reader_of rest)"
    by (cases x) (clarsimp simp: write_evidence_def read_evidence_def evidence_storable_def read_simps)
qed

lemmas read_back_evidence [read_simps] = store_evidence.get_put

definition write_attempt :: "attempt \<Rightarrow> bytes" where
  "write_attempt x =
     put_u64 (ap_id x) @ put_u8 (enum_byte attempt_kinds (ap_kind x)) @ put_u64 (ap_worker x) @
     put_u64 (ap_boot x) @ put_u64 (ap_epoch x) @ put_u64 (ap_model x) @ put_u64 (ap_version x) @
     put_u64 (ap_model_generation x) @ put_u64 (ap_artifact_generation x) @ put_u64 (ap_scope x) @
     put_u64 (ap_scope_generation x) @ put_u64 (ap_rollout x) @
     put_u64 (ap_rollout_generation x) @ put_u64 (ap_stage x) @ put_u64 (ap_stage_generation x) @
     put_u64 (ap_residency_generation x) @ put_u8 (enum_byte attempt_states (ap_state x)) @
     put_bool (ap_idempotent x) @ put_u64 (ap_issued_sequence x) @
     put_u64 (ap_settled_sequence x) @ put_str (ap_detail x)"

definition read_attempt ::
  "decode_limits \<Rightarrow> reader \<Rightarrow> store_fault + attempt \<times> reader" where
  "read_attempt limits r =
     (let (id, r) = get_u64 r; (kind, r) = get_u8 r in
     if kAttemptKindCount \<le> unat kind then Inl (SS_InvalidContent, ''unknown attempt kind'')
     else
       let (worker, r) = get_u64 r; (boot, r) = get_u64 r; (epoch, r) = get_u64 r;
           (model, r) = get_u64 r; (version, r) = get_u64 r; (model_generation, r) = get_u64 r;
           (artifact_generation, r) = get_u64 r; (scope, r) = get_u64 r;
           (scope_generation, r) = get_u64 r; (rollout, r) = get_u64 r;
           (rollout_generation, r) = get_u64 r; (stage, r) = get_u64 r;
           (stage_generation, r) = get_u64 r; (residency_generation, r) = get_u64 r;
           (state, r) = get_u8 r in
       if 5 < unat state then Inl (SS_InvalidContent, ''unknown attempt state'')
       else
         let (idempotent, r) = get_bool r; (issued_sequence, r) = get_u64 r;
             (settled_sequence, r) = get_u64 r; (detail, r) = get_str (dl_max_string limits) r in
         if \<not> id_valid id then
           Inl (SS_InvalidContent, ''attempt id is zero'')
         else
         Inr (\<lparr>ap_id = id, ap_kind = enum_at attempt_kinds kind, ap_worker = worker, ap_boot = boot,
           ap_epoch = epoch, ap_model = model, ap_version = version,
           ap_model_generation = model_generation, ap_artifact_generation = artifact_generation,
           ap_scope = scope, ap_scope_generation = scope_generation, ap_rollout = rollout,
           ap_rollout_generation = rollout_generation, ap_stage = stage,
           ap_stage_generation = stage_generation,
           ap_residency_generation = residency_generation,
           ap_state = enum_at attempt_states state, ap_idempotent = idempotent,
           ap_issued_sequence = issued_sequence, ap_settled_sequence = settled_sequence,
           ap_detail = detail\<rparr>, r))"

definition attempt_storable :: "decode_limits \<Rightarrow> attempt \<Rightarrow> bool" where
  "attempt_storable limits x \<longleftrightarrow>
     str_fits (dl_max_string limits) (ap_detail x) \<and> \<not> (\<not> id_valid (ap_id x))"

interpretation store_attempt: checked_codec write_attempt "read_attempt limits" "attempt_storable limits" for limits
proof
  fix x rest
  assume "attempt_storable limits x"
  then show "read_attempt limits (reader_of (write_attempt x @ rest)) = Inr (x, reader_of rest)"
    by (cases x) (clarsimp simp: write_attempt_def read_attempt_def attempt_storable_def read_simps)
qed

lemmas read_back_attempt [read_simps] = store_attempt.get_put

end
