(* ===== verification/Mlf_Store.thy ===== *)
theory Mlf_Store
  imports Mlf_Store_Codec
begin

text \<open>
  The state file: src/state_store.cpp and include/mlf/state_store.hpp. A file is a header, thirteen
  tagged sections and a checksum. \<open>serialize_durable_state\<close> writes a snapshot,
  \<open>deserialize_durable_state\<close> reads one section after the other into an empty snapshot and then
  checks that the sections agree with each other; \<open>save_durable_state\<close> and \<open>load_durable_state\<close>
  do so on a file. The checksum is copied in the byte order of the host, taken to be little endian.
\<close>

section \<open>Sections\<close>

datatype store_section =
    Sec_Header | Sec_Scopes | Sec_Policy | Sec_Models | Sec_Versions | Sec_Compatibility | Sec_Rollouts
  | Sec_Authority | Sec_Workers | Sec_Evidence | Sec_Attempts | Sec_Committed | Sec_Allocators

definition store_sections :: "store_section list" where
  "store_sections = [Sec_Header, Sec_Scopes, Sec_Policy, Sec_Models, Sec_Versions, Sec_Compatibility,
     Sec_Rollouts, Sec_Authority, Sec_Workers, Sec_Evidence, Sec_Attempts, Sec_Committed, Sec_Allocators]"

definition kSectionCount :: nat where "kSectionCount = 13"

definition section_tag :: "store_section \<Rightarrow> u16" where
  "section_tag s = of_nat (Suc (position_of s store_sections))"

text \<open>\<open>switch (static_cast<Section>(tag))\<close>: the section of a tag, when it has one.\<close>

definition section_at :: "u16 \<Rightarrow> store_section option" where
  "section_at tag = find (\<lambda>s. section_tag s = tag) store_sections"

definition write_section :: "store_section \<Rightarrow> u32 \<Rightarrow> bytes \<Rightarrow> bytes" where
  "write_section s count body = put_u16 (section_tag s) @ put_u32 count @ body"

text \<open>\<open>n\<close> records put into a map, a duplicate key being a fault.\<close>

fun read_into ::
  "(reader \<Rightarrow> store_fault + 'a \<times> reader) \<Rightarrow> ('a \<Rightarrow> 'k::linorder) \<Rightarrow> ('a \<Rightarrow> 'v) \<Rightarrow> store_fault \<Rightarrow> nat \<Rightarrow>
   ('k, 'v) omap \<Rightarrow> reader \<Rightarrow> store_fault + ('k, 'v) omap \<times> reader" where
  "read_into get key val duplicate 0 m r = Inr (m, r)"
| "read_into get key val duplicate (Suc n) m r =
     (case get r of
        Inl e \<Rightarrow> Inl e
      | Inr (x, r) \<Rightarrow>
          if map_of m (key x) \<noteq> None then Inl duplicate
          else read_into get key val duplicate n (om_put (key x) (val x) m) r)"

section \<open>Writing\<close>

definition write_header :: "durable_state \<Rightarrow> bytes" where
  "write_header ds = write_section Sec_Header 1
     (put_u16 (ds_format_version ds) @ put_u64 (ds_generation ds) @ put_u64 (ds_epoch ds) @
      put_u64 (ds_sequence ds))"

definition write_scopes :: "durable_state \<Rightarrow> bytes" where
  "write_scopes ds = write_section Sec_Scopes (of_nat (length (ds_scopes ds)))
     (put_u64 (ds_root_scope ds) @ put_count (ds_policy_overrides ds) @
      put_all write_override (map snd (ds_policy_overrides ds)) @ put_all write_scope_record (ds_scopes ds))"

definition write_records :: "store_section \<Rightarrow> ('v \<Rightarrow> bytes) \<Rightarrow> ('k, 'v) omap \<Rightarrow> bytes" where
  "write_records s write m = write_section s (of_nat (length m)) (put_all write (map snd m))"

definition write_authority :: "durable_state \<Rightarrow> bytes" where
  "write_authority ds = write_records Sec_Authority (\<lambda>bs. put_count bs @ put_all write_binding bs) (ds_authority ds)"

definition write_evidence_section :: "durable_state \<Rightarrow> bytes" where
  "write_evidence_section ds =
     write_section Sec_Evidence (of_nat (length (ds_evidence ds))) (put_all write_evidence (ds_evidence ds))"

definition write_pair :: "u64 \<times> u64 \<Rightarrow> bytes" where
  "write_pair p = put_u64 (fst p) @ put_u64 (snd p)"

definition write_committed :: "durable_state \<Rightarrow> bytes" where
  "write_committed ds = write_section Sec_Committed 2
     (put_count (ds_committed_promotions ds) @ put_all put_u64 (map fst (ds_committed_promotions ds)) @
      put_count (ds_committed_rollbacks ds) @ put_all write_pair (map fst (ds_committed_rollbacks ds)))"

definition write_allocators :: "durable_state \<Rightarrow> bytes" where
  "write_allocators ds = write_section Sec_Allocators 13
     (put_u64 (ds_next_model_id ds) @ put_u64 (ds_next_version_id ds) @ put_u64 (ds_next_rollout_id ds) @
      put_u64 (ds_next_stage_id ds) @ put_u64 (ds_next_cohort_id ds) @ put_u64 (ds_next_promotion_id ds) @
      put_u64 (ds_next_rollback_id ds) @ put_u64 (ds_next_attempt_id ds) @ put_u64 (ds_next_worker_id ds) @
      put_u64 (ds_next_evidence_id ds) @ put_u64 (ds_next_evidence_generation ds) @
      put_u64 (ds_next_compatibility_generation ds) @ put_u64 0)"

definition write_payload :: "durable_state \<Rightarrow> bytes" where
  "write_payload ds =
     write_header ds @ write_scopes ds @
     write_section Sec_Policy 1 (write_policy (ds_base_policy ds)) @
     write_records Sec_Models write_model (ds_models ds) @
     write_records Sec_Versions write_version (ds_versions ds) @
     write_records Sec_Compatibility write_fact (ds_compatibility ds) @
     write_records Sec_Rollouts write_plan (ds_rollouts ds) @ write_authority ds @
     write_records Sec_Workers write_lease (ds_worker_leases ds) @ write_evidence_section ds @
     write_records Sec_Attempts write_attempt (ds_unsettled_attempts ds) @
     write_committed ds @ write_allocators ds"

definition kStateMagic :: bytes where "kStateMagic = [0x4D, 0x4C, 0x46, 0x53]"

definition kStateHeaderSize :: nat where "kStateHeaderSize = 4 + 2 + 2 + 4"

definition kStateTrailerSize :: nat where "kStateTrailerSize = 4"

text \<open>The checks that precede each section, in their order; what is written in between has no effect on them.\<close>

definition serialize_fault :: "durable_state \<Rightarrow> decode_limits \<Rightarrow> store_fault option" where
  "serialize_fault ds limits =
     (if dl_max_scopes limits < length (ds_scopes ds) then
        Some (SS_BoundsExceeded, ''scope count exceeds decode limits'')
      else if dl_max_models limits < length (ds_models ds) then
        Some (SS_BoundsExceeded, ''model count exceeds decode limits'')
      else if dl_max_versions limits < length (ds_versions ds) then
        Some (SS_BoundsExceeded, ''version count exceeds decode limits'')
      else if dl_max_compatibility_facts limits < length (ds_compatibility ds) then
        Some (SS_BoundsExceeded, ''compatibility fact count exceeds decode limits'')
      else if dl_max_rollouts limits < length (ds_rollouts ds) then
        Some (SS_BoundsExceeded, ''rollout count exceeds decode limits'')
      else if dl_max_authority_bindings limits < sum_list (map (length \<circ> snd) (ds_authority ds)) then
        Some (SS_BoundsExceeded, ''authority binding count exceeds decode limits'')
      else if dl_max_workers limits < length (ds_worker_leases ds) then
        Some (SS_BoundsExceeded, ''worker lease count exceeds decode limits'')
      else if dl_max_evidence limits < length (ds_evidence ds) then
        Some (SS_BoundsExceeded, ''evidence count exceeds decode limits'')
      else if dl_max_attempts limits < length (ds_unsettled_attempts ds) then
        Some (SS_BoundsExceeded, ''attempt count exceeds decode limits'')
      else None)"

definition state_frame :: "durable_state \<Rightarrow> bytes" where
  "state_frame ds =
     kStateMagic @ put_u16 (ds_format_version ds) @ put_u16 0 @
     put_u32 (of_nat (length (write_payload ds))) @ write_payload ds"

definition serialize_durable_state :: "durable_state \<Rightarrow> decode_limits \<Rightarrow> store_fault + bytes" where
  "serialize_durable_state ds limits =
     (case serialize_fault ds limits of
        Some e \<Rightarrow> Inl e
      | None \<Rightarrow>
          if dl_max_payload_bytes limits < length (write_payload ds) then
            Inl (SS_BoundsExceeded, ''encoded state exceeds the payload bound'')
          else let out = state_frame ds in Inr (out @ put_u32 (crc32 out)))"

section \<open>Reading\<close>

text \<open>The snapshot a file is read into: \<open>DurableState\<close> as it is constructed.\<close>

definition empty_durable_state :: durable_state where
  "empty_durable_state = \<lparr>ds_format_version = kStateFormatVersion, ds_generation = 0, ds_epoch = 0,
     ds_sequence = 1, ds_models = [], ds_versions = [], ds_scopes = [], ds_root_scope = 0,
     ds_policy_overrides = [], ds_base_policy = default_policy, ds_compatibility = [], ds_rollouts = [],
     ds_authority = [], ds_worker_leases = [], ds_evidence = [], ds_unsettled_attempts = [],
     ds_committed_promotions = [], ds_committed_rollbacks = [], ds_next_model_id = 1,
     ds_next_version_id = 1, ds_next_rollout_id = 1, ds_next_stage_id = 1, ds_next_cohort_id = 1,
     ds_next_promotion_id = 1, ds_next_rollback_id = 1, ds_next_attempt_id = 1, ds_next_worker_id = 1,
     ds_next_evidence_id = 1, ds_next_evidence_generation = 1, ds_next_compatibility_generation = 1\<rparr>"

definition read_header ::
  "u32 \<Rightarrow> durable_state \<Rightarrow> reader \<Rightarrow> store_fault + durable_state \<times> reader" where
  "read_header count ds r =
     (if count \<noteq> 1 then Inl (SS_InvalidContent, ''bad header section count'')
      else
        let (format, r) = get_u16 r; (generation, r) = get_u64 r; (epoch, r) = get_u64 r;
            (sequence, r) = get_u64 r in
        Inr (ds\<lparr>ds_format_version := format, ds_generation := generation, ds_epoch := epoch,
          ds_sequence := sequence\<rparr>, r))"

text \<open>Overrides are put into their map without a check for duplicates.\<close>

fun read_overrides ::
  "nat \<Rightarrow> (u64, scope_policy_override) omap \<Rightarrow> reader \<Rightarrow>
   store_fault + (u64, scope_policy_override) omap \<times> reader" where
  "read_overrides 0 m r = Inr (m, r)"
| "read_overrides (Suc n) m r =
     (case read_override r of
        Inl e \<Rightarrow> Inl e
      | Inr (x, r) \<Rightarrow> read_overrides n (om_put (po_scope x) x m) r)"

definition read_scopes ::
  "decode_limits \<Rightarrow> u32 \<Rightarrow> durable_state \<Rightarrow> reader \<Rightarrow> store_fault + durable_state \<times> reader" where
  "read_scopes limits count ds r =
     (if dl_max_scopes limits < unat count then
        Inl (SS_BoundsExceeded, ''scope count exceeds the decode bound'')
      else
        let (root, r) = get_u64 r; (overrides, r) = get_u32 r in
        if \<not> r_ok r \<or> dl_max_scopes limits < unat overrides then
          Inl (SS_BoundsExceeded, ''policy override count exceeds the bound'')
        else case read_overrides (unat overrides) (ds_policy_overrides ds) r of
          Inl e \<Rightarrow> Inl e
        | Inr (policy_overrides, r) \<Rightarrow>
          (case get_each (read_scope_record limits) (unat count) r of
             Inl e \<Rightarrow> Inl e
           | Inr (scopes, r) \<Rightarrow>
               Inr (ds\<lparr>ds_root_scope := root, ds_policy_overrides := policy_overrides,
                 ds_scopes := ds_scopes ds @ scopes\<rparr>, r)))"

definition read_policy_section ::
  "decode_limits \<Rightarrow> u32 \<Rightarrow> durable_state \<Rightarrow> reader \<Rightarrow> store_fault + durable_state \<times> reader" where
  "read_policy_section limits count ds r =
     (if count \<noteq> 1 then Inl (SS_InvalidContent, ''bad policy section count'')
      else case read_policy limits (ds_base_policy ds) r of
          Inl e \<Rightarrow> Inl e
        | Inr (p, r) \<Rightarrow> Inr (ds\<lparr>ds_base_policy := p\<rparr>, r))"

definition read_models ::
  "decode_limits \<Rightarrow> u32 \<Rightarrow> durable_state \<Rightarrow> reader \<Rightarrow> store_fault + durable_state \<times> reader" where
  "read_models limits count ds r =
     (if dl_max_models limits < unat count then
        Inl (SS_BoundsExceeded, ''model count exceeds the decode bound'')
      else case read_into (read_model limits) mr_id (\<lambda>x. x) (SS_InvalidContent, ''duplicate model id'')
          (unat count) (ds_models ds) r of
        Inl e \<Rightarrow> Inl e
      | Inr (m, r) \<Rightarrow> Inr (ds\<lparr>ds_models := m\<rparr>, r))"

definition read_versions ::
  "decode_limits \<Rightarrow> u32 \<Rightarrow> durable_state \<Rightarrow> reader \<Rightarrow> store_fault + durable_state \<times> reader" where
  "read_versions limits count ds r =
     (if dl_max_versions limits < unat count then
        Inl (SS_BoundsExceeded, ''version count exceeds the decode bound'')
      else case read_into (read_version limits) (\<lambda>v. (vr_model v, vr_version v)) (\<lambda>x. x)
          (SS_InvalidContent, ''duplicate model version id'') (unat count) (ds_versions ds) r of
        Inl e \<Rightarrow> Inl e
      | Inr (m, r) \<Rightarrow> Inr (ds\<lparr>ds_versions := m\<rparr>, r))"

definition read_compatibility ::
  "decode_limits \<Rightarrow> u32 \<Rightarrow> durable_state \<Rightarrow> reader \<Rightarrow> store_fault + durable_state \<times> reader" where
  "read_compatibility limits count ds r =
     (if dl_max_compatibility_facts limits < unat count then
        Inl (SS_BoundsExceeded, ''compatibility count exceeds the bound'')
      else case read_into (read_fact limits) (\<lambda>f. (cf_version f, cf_environment_key f)) (\<lambda>x. x)
          (SS_InvalidContent, ''duplicate compatibility fact'') (unat count) (ds_compatibility ds) r of
        Inl e \<Rightarrow> Inl e
      | Inr (m, r) \<Rightarrow> Inr (ds\<lparr>ds_compatibility := m\<rparr>, r))"

definition read_rollouts ::
  "decode_limits \<Rightarrow> u32 \<Rightarrow> durable_state \<Rightarrow> reader \<Rightarrow> store_fault + durable_state \<times> reader" where
  "read_rollouts limits count ds r =
     (if dl_max_rollouts limits < unat count then
        Inl (SS_BoundsExceeded, ''rollout count exceeds the decode bound'')
      else case read_into (read_plan limits) pl_id (\<lambda>x. x) (SS_InvalidContent, ''duplicate rollout id'')
          (unat count) (ds_rollouts ds) r of
        Inl e \<Rightarrow> Inl e
      | Inr (m, r) \<Rightarrow> Inr (ds\<lparr>ds_rollouts := m\<rparr>, r))"

text \<open>The bindings of a scope; an entry without any is dropped, the first names the scope.\<close>

fun read_authority ::
  "decode_limits \<Rightarrow> nat \<Rightarrow> (u64, authority_binding list) omap \<Rightarrow> reader \<Rightarrow>
   store_fault + (u64, authority_binding list) omap \<times> reader" where
  "read_authority limits 0 m r = Inr (m, r)"
| "read_authority limits (Suc n) m r =
     (case read_counted (dl_max_authority_bindings limits)
         (SS_BoundsExceeded, ''authority binding count out of range'') read_binding r of
        Inl e \<Rightarrow> Inl e
      | Inr (bs, r) \<Rightarrow>
          (case bs of
             [] \<Rightarrow> read_authority limits n m r
           | b # _ \<Rightarrow>
               if map_of m (b_scope b) \<noteq> None then
                 Inl (SS_InvalidContent, ''duplicate authority scope entry'')
               else read_authority limits n (om_put (b_scope b) bs m) r))"

definition read_authority_section ::
  "decode_limits \<Rightarrow> u32 \<Rightarrow> durable_state \<Rightarrow> reader \<Rightarrow> store_fault + durable_state \<times> reader" where
  "read_authority_section limits count ds r =
     (case read_authority limits (unat count) (ds_authority ds) r of
        Inl e \<Rightarrow> Inl e
      | Inr (m, r) \<Rightarrow> Inr (ds\<lparr>ds_authority := m\<rparr>, r))"

definition read_workers ::
  "decode_limits \<Rightarrow> u32 \<Rightarrow> durable_state \<Rightarrow> reader \<Rightarrow> store_fault + durable_state \<times> reader" where
  "read_workers limits count ds r =
     (if dl_max_workers limits < unat count then
        Inl (SS_BoundsExceeded, ''worker count exceeds the decode bound'')
      else case read_into (read_lease limits) wl_id (\<lambda>x. x) (SS_InvalidContent, ''duplicate worker lease'')
          (unat count) (ds_worker_leases ds) r of
        Inl e \<Rightarrow> Inl e
      | Inr (m, r) \<Rightarrow> Inr (ds\<lparr>ds_worker_leases := m\<rparr>, r))"

definition read_evidence_section ::
  "decode_limits \<Rightarrow> u32 \<Rightarrow> durable_state \<Rightarrow> reader \<Rightarrow> store_fault + durable_state \<times> reader" where
  "read_evidence_section limits count ds r =
     (if dl_max_evidence limits < unat count then
        Inl (SS_BoundsExceeded, ''evidence count exceeds the decode bound'')
      else case get_each (read_evidence limits) (unat count) r of
        Inl e \<Rightarrow> Inl e
      | Inr (es, r) \<Rightarrow> Inr (ds\<lparr>ds_evidence := ds_evidence ds @ es\<rparr>, r))"

definition read_attempts ::
  "decode_limits \<Rightarrow> u32 \<Rightarrow> durable_state \<Rightarrow> reader \<Rightarrow> store_fault + durable_state \<times> reader" where
  "read_attempts limits count ds r =
     (if dl_max_attempts limits < unat count then
        Inl (SS_BoundsExceeded, ''attempt count exceeds the decode bound'')
      else case read_into (read_attempt limits) ap_id (\<lambda>x. x) (SS_InvalidContent, ''duplicate attempt id'')
          (unat count) (ds_unsettled_attempts ds) r of
        Inl e \<Rightarrow> Inl e
      | Inr (m, r) \<Rightarrow> Inr (ds\<lparr>ds_unsettled_attempts := m\<rparr>, r))"

definition read_pair :: "reader \<Rightarrow> (u64 \<times> u64) \<times> reader" where
  "read_pair r = (let (a, r) = get_u64 r; (b, r) = get_u64 r in ((a, b), r))"

definition read_committed ::
  "decode_limits \<Rightarrow> u32 \<Rightarrow> durable_state \<Rightarrow> reader \<Rightarrow> store_fault + durable_state \<times> reader" where
  "read_committed limits count ds r =
     (if count \<noteq> 2 then Inl (SS_InvalidContent, ''bad committed section shape'')
      else
        let (promotions, r) = get_u32 r in
        if \<not> r_ok r \<or> dl_max_models limits * 64 < unat promotions then
          Inl (SS_BoundsExceeded, ''committed promotion count out of range'')
        else case read_into (plain get_u64) (\<lambda>i. i) (\<lambda>_. ()) (SS_InvalidContent, ''duplicate committed promotion'')
            (unat promotions) (ds_committed_promotions ds) r of
          Inl e \<Rightarrow> Inl e
        | Inr (committed_promotions, r) \<Rightarrow>
          (let (rollbacks, r) = get_u32 r in
           if \<not> r_ok r \<or> dl_max_models limits * 64 < unat rollbacks then
             Inl (SS_BoundsExceeded, ''committed rollback count out of range'')
           else case read_into (plain read_pair) (\<lambda>p. p) (\<lambda>_. ())
               (SS_InvalidContent, ''duplicate committed rollback'') (unat rollbacks)
               (ds_committed_rollbacks ds) r of
             Inl e \<Rightarrow> Inl e
           | Inr (committed_rollbacks, r) \<Rightarrow>
               Inr (ds\<lparr>ds_committed_promotions := committed_promotions,
                 ds_committed_rollbacks := committed_rollbacks\<rparr>, r)))"

definition read_allocators ::
  "u32 \<Rightarrow> durable_state \<Rightarrow> reader \<Rightarrow> store_fault + durable_state \<times> reader" where
  "read_allocators count ds r =
     (if count \<noteq> 13 then Inl (SS_InvalidContent, ''bad allocator section shape'')
      else
        let (model, r) = get_u64 r; (version, r) = get_u64 r; (rollout, r) = get_u64 r;
            (stage, r) = get_u64 r; (cohort, r) = get_u64 r; (promotion, r) = get_u64 r;
            (rollback, r) = get_u64 r; (attempt, r) = get_u64 r; (worker, r) = get_u64 r;
            (evidence, r) = get_u64 r; (evidence_generation, r) = get_u64 r;
            (compatibility_generation, r) = get_u64 r; (unused, r) = get_u64 r in
        if model = 0 \<or> version = 0 \<or> rollout = 0 \<or> promotion = 0 \<or> rollback = 0 \<or> attempt = 0 \<or>
           worker = 0 \<or> evidence = 0 \<or> compatibility_generation = 0 then
          Inl (SS_InvalidContent, ''allocator counters must be non-zero'')
        else Inr (ds\<lparr>ds_next_model_id := model, ds_next_version_id := version,
          ds_next_rollout_id := rollout, ds_next_stage_id := stage, ds_next_cohort_id := cohort,
          ds_next_promotion_id := promotion, ds_next_rollback_id := rollback,
          ds_next_attempt_id := attempt, ds_next_worker_id := worker, ds_next_evidence_id := evidence,
          ds_next_evidence_generation := evidence_generation,
          ds_next_compatibility_generation := compatibility_generation\<rparr>, r))"

definition read_section ::
  "decode_limits \<Rightarrow> u16 \<Rightarrow> u32 \<Rightarrow> durable_state \<Rightarrow> reader \<Rightarrow> store_fault + durable_state \<times> reader" where
  "read_section limits tag count ds r =
     (case section_at tag of
        Some Sec_Header \<Rightarrow> read_header count ds r
      | Some Sec_Scopes \<Rightarrow> read_scopes limits count ds r
      | Some Sec_Policy \<Rightarrow> read_policy_section limits count ds r
      | Some Sec_Models \<Rightarrow> read_models limits count ds r
      | Some Sec_Versions \<Rightarrow> read_versions limits count ds r
      | Some Sec_Compatibility \<Rightarrow> read_compatibility limits count ds r
      | Some Sec_Rollouts \<Rightarrow> read_rollouts limits count ds r
      | Some Sec_Authority \<Rightarrow> read_authority_section limits count ds r
      | Some Sec_Workers \<Rightarrow> read_workers limits count ds r
      | Some Sec_Evidence \<Rightarrow> read_evidence_section limits count ds r
      | Some Sec_Attempts \<Rightarrow> read_attempts limits count ds r
      | Some Sec_Committed \<Rightarrow> read_committed limits count ds r
      | Some Sec_Allocators \<Rightarrow> read_allocators count ds r
      | None \<Rightarrow> Inl (SS_InvalidContent, ''unknown section tag''))"

text \<open>The loop over the sections. The bound on their number ends it.\<close>

function read_sections ::
  "decode_limits \<Rightarrow> nat \<Rightarrow> durable_state \<Rightarrow> reader \<Rightarrow> store_fault + durable_state \<times> reader" where
  "read_sections limits seen ds r =
     (if exhausted r \<or> \<not> r_ok r then Inr (ds, r)
      else
        let (tag, r) = get_u16 r; (count, r) = get_u32 r in
        if \<not> r_ok r then Inl (SS_Truncated, ''truncated section header'')
        else if kSectionCount + 4 < seen + 1 then Inl (SS_InvalidContent, ''too many sections'')
        else case read_section limits tag count ds r of
          Inl e \<Rightarrow> Inl e
        | Inr (ds, r) \<Rightarrow>
            if \<not> r_ok r then Inl (SS_Truncated, ''section payload truncated'')
            else read_sections limits (seen + 1) ds r)"
  by pat_completeness auto
termination
  by (relation "measure (\<lambda>(limits, seen, ds, r). kSectionCount + 4 - seen)") auto

declare read_sections.simps [simp del]

section \<open>Agreement between the sections\<close>

fun first_problem :: "('a \<Rightarrow> 'e option) \<Rightarrow> 'a list \<Rightarrow> 'e option" where
  "first_problem f [] = None"
| "first_problem f (x # xs) = (case f x of Some e \<Rightarrow> Some e | None \<Rightarrow> first_problem f xs)"

definition invalid :: "bool \<Rightarrow> string \<Rightarrow> store_fault option" where
  "invalid c text = (if c then Some (SS_InvalidContent, text) else None)"

definition scopes_problem :: "durable_state \<Rightarrow> store_fault option" where
  "scopes_problem ds =
     (case ds_scopes ds of
        [] \<Rightarrow> Some (SS_InvalidContent, ''state contains no scope tree'')
      | s # _ \<Rightarrow>
          if s_id s \<noteq> 1 then Some (SS_InvalidContent, ''scope identity is not contiguous from one'')
          else first_problem (\<lambda>(i, s). invalid (s_id s \<noteq> of_nat i + 1) ''scope identity is not contiguous'')
            (enumerate 0 (ds_scopes ds)))"

definition version_problem :: "durable_state \<Rightarrow> version_record \<Rightarrow> store_fault option" where
  "version_problem ds r =
     (if map_of (ds_models ds) (vr_model r) = None then
        Some (SS_InvalidContent, ''version references an unknown model'')
      else if retired r \<and> vr_state r \<noteq> LS_RETIRED then
        Some (SS_InvalidContent, ''retired-but-not-retired contradiction'')
      else if id_valid (vr_predecessor r) then
        (if vr_predecessor r = vr_version r then
           Some (SS_InvalidContent, ''version is its own predecessor'')
         else case map_of (ds_versions ds) (vr_model r, vr_predecessor r) of
             None \<Rightarrow> Some (SS_InvalidContent, ''version references an unknown predecessor'')
           | Some p \<Rightarrow> invalid (vr_predecessor p = vr_version r) ''predecessor cycle between two versions'')
      else None)"

definition fact_problem :: "durable_state \<Rightarrow> compatibility_fact \<Rightarrow> store_fault option" where
  "fact_problem ds f = invalid (map_of (ds_versions ds) (cf_model f, cf_version f) = None)
     ''compatibility fact references an unknown version''"

definition known_scope :: "durable_state \<Rightarrow> u64 \<Rightarrow> bool" where
  "known_scope ds s \<longleftrightarrow> s \<noteq> 0 \<and> unat s \<le> length (ds_scopes ds)"

definition plan_problem :: "durable_state \<Rightarrow> rollout_plan \<Rightarrow> store_fault option" where
  "plan_problem ds p =
     (if map_of (ds_versions ds) (pl_model p, pl_candidate p) = None then
        Some (SS_InvalidContent, ''rollout references an unknown candidate version'')
      else if pl_stages p = [] then Some (SS_InvalidContent, ''rollout has no stages'')
      else if \<not> live p \<and> id_valid (pl_current_stage_generation p) \<and> pl_history p = [] then
        Some (SS_InvalidContent, ''completed rollout has no stage history'')
      else if \<not> list_all (\<lambda>c. list_all (known_scope ds) (ch_scopes c)) (pl_cohorts p) then
        Some (SS_InvalidContent, ''cohort references an unknown scope'')
      else if \<not> list_all (\<lambda>s. list_all (\<lambda>c. list_ex (\<lambda>d. ch_id d = c) (pl_cohorts p)) (sg_cohorts s)) (pl_stages p) then
        Some (SS_InvalidContent, ''stage references an unknown cohort'')
      else invalid (length (pl_stages p) \<le> pl_current_stage_index p \<and> live p)
        ''live rollout stage index out of range'')"

definition binding_problem :: "durable_state \<Rightarrow> authority_binding \<Rightarrow> store_fault option" where
  "binding_problem ds b =
     (case map_of (ds_versions ds) (b_model b, b_version b) of
        None \<Rightarrow> Some (SS_InvalidContent, ''authority references an unknown version'')
      | Some r \<Rightarrow>
          if \<not> known_scope ds (b_scope b) then
            Some (SS_InvalidContent, ''authority references an unknown scope'')
          else if id_valid (b_rollout b) \<and> map_of (ds_rollouts ds) (b_rollout b) = None then
            Some (SS_InvalidContent, ''authority references an unknown rollout'')
          else if id_valid (b_rollout b) \<and>
              map_option pl_generation (map_of (ds_rollouts ds) (b_rollout b)) \<noteq> Some (b_rollout_generation b) then
            Some (SS_InvalidContent, ''authority rollout generation does not match the stored rollout'')
          else if retired r then
            Some (SS_InvalidContent, ''retired generation still holds authority'')
          else invalid (vr_generation r < b_model_generation b)
            ''authority cites a model generation newer than the version record'')"

definition evidence_problem :: "durable_state \<Rightarrow> evidence_record \<Rightarrow> store_fault option" where
  "evidence_problem ds e =
     (if map_of (ds_versions ds) (es_model (e_subject e), es_version (e_subject e)) = None then
        Some (SS_InvalidContent, ''evidence references an unknown version'')
      else invalid (\<not> is_durable_evidence (e_kind e))
        ''dynamic evidence kind must not appear in durable state'')"

definition or_else :: "'e option \<Rightarrow> 'e option \<Rightarrow> 'e option" where
  "or_else a b = (case a of Some e \<Rightarrow> Some e | None \<Rightarrow> b)"

definition consistency_problem :: "durable_state \<Rightarrow> store_fault option" where
  "consistency_problem ds =
     or_else (scopes_problem ds)
    (or_else (first_problem (version_problem ds) (map snd (ds_versions ds)))
    (or_else (first_problem (fact_problem ds) (map snd (ds_compatibility ds)))
    (or_else (first_problem (plan_problem ds) (map snd (ds_rollouts ds)))
    (or_else (first_problem (binding_problem ds) (concat (map snd (ds_authority ds))))
    (or_else (first_problem (\<lambda>s. invalid (\<not> known_scope ds s) ''policy override references an unknown scope'')
      (map fst (ds_policy_overrides ds)))
    (first_problem (evidence_problem ds) (ds_evidence ds)))))))"

section \<open>Whole files\<close>

definition deserialize_durable_state :: "bytes \<Rightarrow> decode_limits \<Rightarrow> store_fault + durable_state" where
  "deserialize_durable_state data limits =
     (if length data < kStateHeaderSize + kStateTrailerSize then
        Inl (SS_Truncated, ''state file shorter than the minimum frame'')
      else if take 4 data \<noteq> kStateMagic then
        Inl (SS_BadMagic, ''state file magic does not match MLFS'')
      else
        let (format, h) = get_u16 (reader_of (drop 4 data)); (reserved, h) = get_u16 h;
            (len, h) = get_u32 h in
        if \<not> r_ok h then Inl (SS_Truncated, ''truncated header'')
        else if format \<noteq> kStateFormatVersion then
          Inl (SS_UnsupportedVersion, ''unsupported state format version'')
        else if dl_max_payload_bytes limits < unat len then
          Inl (SS_BoundsExceeded, ''declared payload exceeds the decode bound'')
        else if length data < kStateHeaderSize + unat len + kStateTrailerSize then
          Inl (SS_Truncated, ''payload shorter than declared length'')
        else
          let framed = kStateHeaderSize + unat len in
          if read32 data framed \<noteq> crc32 (take framed data) then
            Inl (SS_IntegrityFailure, ''integrity check failed'')
          else
            let ds = empty_durable_state\<lparr>ds_format_version := format\<rparr> in
            case read_sections limits 0 ds (reader_of (take (unat len) (drop kStateHeaderSize data))) of
              Inl e \<Rightarrow> Inl e
            | Inr (ds, r) \<Rightarrow>
                if \<not> r_ok r then Inl (SS_Truncated, ''state payload truncated'')
                else if \<not> exhausted r then Inl (SS_InvalidContent, ''trailing bytes in state payload'')
                else case consistency_problem ds of Some e \<Rightarrow> Inl e | None \<Rightarrow> Inr ds)"

text \<open>
  The file system is the environment: a map from paths to contents, and which of the calls a save
  makes fail. A failed write leaves some content in the temporary file. The message the operating
  system adds to an error is not kept.
\<close>

record disk_faults =
  df_create_directories :: bool
  df_open :: bool
  df_write :: "bytes option"
  df_rename :: bool
  df_remove :: bool
  df_retry :: bool
  df_cleanup :: bool

type_synonym disk = "string \<Rightarrow> bytes option"

definition save_durable_state ::
  "durable_state \<Rightarrow> decode_limits \<Rightarrow> string \<Rightarrow> disk_faults \<Rightarrow> disk \<Rightarrow> store_fault option \<times> disk" where
  "save_durable_state ds limits path faults disk =
     (case serialize_durable_state ds limits of
        Inl e \<Rightarrow> (Some e, disk)
      | Inr data \<Rightarrow>
          let temporary = path @ ''.tmp'' in
          if df_create_directories faults then (Some (SS_IoError, ''cannot create state directory''), disk)
          else if df_open faults then (Some (SS_IoError, ''cannot open temporary state file''), disk)
          else (case df_write faults of
            Some partial \<Rightarrow> (Some (SS_IoError, ''temporary state file write failed''), disk(temporary \<mapsto> partial))
          | None \<Rightarrow>
              let written = disk(temporary \<mapsto> data); moved = (disk(path \<mapsto> data))(temporary := None);
                  removed = (if df_remove faults then written else written(path := None)) in
              if \<not> df_rename faults then (None, moved)
              else if \<not> df_retry faults then (None, moved)
              else (Some (SS_AtomicReplaceFailed, ''atomic replacement failed''),
                    if df_cleanup faults then removed else removed(temporary := None))))"

definition load_durable_state :: "string \<Rightarrow> decode_limits \<Rightarrow> disk \<Rightarrow> store_fault + durable_state" where
  "load_durable_state path limits disk =
     (case disk path of
        None \<Rightarrow> Inl (SS_IoError, ''cannot open state file'')
      | Some data \<Rightarrow>
          if data = [] then Inl (SS_Truncated, ''state file is empty'')
          else if dl_max_payload_bytes limits + kStateHeaderSize + kStateTrailerSize < length data then
            Inl (SS_BoundsExceeded, ''state file exceeds the decode bound'')
          else deserialize_durable_state data limits)"

end
