(* ===== verification/Mlf_State_File.thy ===== *)
theory Mlf_State_File
  imports Mlf_Store Mlf_Stream Mlf_Recovery
begin

text \<open>
  What the state file guarantees: a snapshot that fits the limits is read back exactly, a damaged
  or foreign file is refused, whatever is accepted agrees with itself, and what a save does to the
  file it replaces.
\<close>

section \<open>Records in maps\<close>

lemma om_put_last: "list_all (\<lambda>e. fst e < k) m \<Longrightarrow> om_put k v m = m @ [(k, v)]"
  by (induction m) auto

lemma om_fresh: "list_all (\<lambda>e. fst e < (k :: 'k::linorder)) m \<Longrightarrow> map_of m k = None"
  by (induction m) auto

lemma om_wf_snoc: "om_wf (m @ (k, v) # es) \<Longrightarrow> list_all (\<lambda>e. fst e < k) m"
  by (auto simp: om_wf_def sorted_wrt_append list_all_iff)

lemma read_into_put:
  assumes codec: "checked_codec put get fits"
  shows "list_all fits xs \<Longrightarrow> om_wf (m @ map (\<lambda>x. (key x, val x)) xs) \<Longrightarrow>
    read_into get key val duplicate (length xs) m (reader_of (put_all put xs @ rest))
      = Inr (m @ map (\<lambda>x. (key x, val x)) xs, reader_of rest)"
proof (induction xs arbitrary: m)
  case (Cons x xs)
  have last: "list_all (\<lambda>e. fst e < key x) m" using Cons.prems(2) by (auto intro: om_wf_snoc)
  have "get (reader_of (put x @ put_all put xs @ rest)) = Inr (x, reader_of (put_all put xs @ rest))"
    using Cons.prems(1) by (simp add: checked_codec.get_put [OF codec])
  then show ?case
    using Cons.IH [of "m @ [(key x, val x)]"] Cons.prems om_fresh [OF last] om_put_last [OF last]
    by (simp add: put_all_def)
qed (simp add: put_all_def)

text \<open>A map whose keys are the identities of its records.\<close>

definition keyed :: "('v \<Rightarrow> 'k::linorder) \<Rightarrow> ('k, 'v) omap \<Rightarrow> bool" where
  "keyed key m \<longleftrightarrow> om_wf m \<and> list_all (\<lambda>(k, v). k = key v) m"

lemma keyed_entries: "list_all (\<lambda>(k, v). k = key v) m \<Longrightarrow> map (\<lambda>v. (key v, v)) (map snd m) = m"
  by (induction m) auto

lemma read_records:
  assumes "checked_codec put get fits" and "keyed key m" and "list_all fits (map snd m)" and "counted n m"
  shows "read_into get key (\<lambda>x. x) duplicate (unat (of_nat (length m) :: u32)) []
    (reader_of (put_all put (map snd m) @ rest)) = Inr (m, reader_of rest)"
  using read_into_put [OF assms(1,3), of "[]" key "\<lambda>x. x" duplicate rest] assms(2,4) keyed_entries [of key m]
  by (simp add: keyed_def read_simps o_def)

lemma unit_entries: "map (\<lambda>k. (k, ())) (map fst m) = m"
  by (induction m) auto

lemma read_keys:
  assumes "checked_codec put get (\<lambda>_. True)" and "om_wf m" and "counted n m"
  shows "read_into get (\<lambda>k. k) (\<lambda>_. ()) duplicate (unat (of_nat (length m) :: u32)) []
    (reader_of (put_all put (map fst m) @ rest)) = Inr (m, reader_of rest)"
  using read_into_put [OF assms(1), of "map fst m" "[]" "\<lambda>k. k" "\<lambda>_. ()" duplicate rest] assms(2,3)
    unit_entries [of m]
  by (simp add: read_simps list_all_iff o_def)

interpretation store_pair: checked_codec write_pair "plain read_pair" "\<lambda>_. True"
  by unfold_locales (simp add: write_pair_def read_pair_def plain_def read_simps)

lemma read_overrides_put:
  "list_all override_storable (map snd m') \<Longrightarrow> om_wf (m @ m') \<Longrightarrow> list_all (\<lambda>(k, x). k = po_scope x) m' \<Longrightarrow>
   read_overrides (length m') m (reader_of (put_all write_override (map snd m') @ rest))
     = Inr (m @ m', reader_of rest)"
proof (induction m' arbitrary: m)
  case (Cons e m')
  obtain k x where e: "e = (k, x)" by (cases e)
  have last: "list_all (\<lambda>e. fst e < k) m" using Cons.prems(2) e by (auto intro: om_wf_snoc)
  have "read_override (reader_of (write_override x @ put_all write_override (map snd m') @ rest))
      = Inr (x, reader_of (put_all write_override (map snd m') @ rest))"
    using Cons.prems(1) e by (simp add: read_simps)
  then show ?case
    using Cons.IH [of "m @ [(k, x)]"] Cons.prems om_put_last [OF last] e by (simp add: put_all_def)
qed (simp add: put_all_def)

text \<open>The bindings of a scope as the file keeps them.\<close>

definition scope_entry_storable :: "decode_limits \<Rightarrow> u64 \<times> authority_binding list \<Rightarrow> bool" where
  "scope_entry_storable limits e \<longleftrightarrow> snd e \<noteq> [] \<and> fst e = b_scope (hd (snd e)) \<and>
     counted (dl_max_authority_bindings limits) (snd e) \<and> list_all binding_storable (snd e)"

abbreviation write_bindings :: "authority_binding list \<Rightarrow> bytes" where
  "write_bindings bs \<equiv> put_count bs @ put_all write_binding bs"

lemma read_authority_put:
  "list_all (scope_entry_storable limits) m' \<Longrightarrow> om_wf (m @ m') \<Longrightarrow>
   read_authority limits (length m') m (reader_of (put_all write_bindings (map snd m') @ rest))
     = Inr (m @ m', reader_of rest)"
proof (induction m' arbitrary: m)
  case (Cons e m')
  obtain k bs where e: "e = (k, bs)" by (cases e)
  then obtain b bs' where bs: "bs = b # bs'" "k = b_scope b"
    using Cons.prems(1) by (cases bs) (auto simp: scope_entry_storable_def)
  have last: "list_all (\<lambda>e. fst e < k) m" using Cons.prems(2) e by (auto intro: om_wf_snoc)
  have "read_counted (dl_max_authority_bindings limits) problem read_binding
      (reader_of (put_count bs @ put_all write_binding bs @ put_all write_bindings (map snd m') @ rest))
      = Inr (bs, reader_of (put_all write_bindings (map snd m') @ rest))" for problem
    using Cons.prems(1) e
    by (intro read_counted_codec [OF store_binding.checked_codec_axioms]) (auto simp: scope_entry_storable_def)
  then show ?case
    using Cons.IH [of "m @ [(k, bs)]"] Cons.prems om_put_last [OF last] om_fresh [OF last] e bs
    by (simp add: put_all_def)
qed (simp add: put_all_def)

section \<open>A snapshot that fits\<close>

text \<open>
  What a snapshot needs to survive: maps keyed by the identities of their records, records and
  counts within the limits, and sections that agree. The writer checks the counts only.
\<close>

definition records_storable :: "decode_limits \<Rightarrow> durable_state \<Rightarrow> bool" where
  "records_storable limits ds \<longleftrightarrow>
     counted (dl_max_scopes limits) (ds_scopes ds) \<and> list_all (scope_record_storable limits) (ds_scopes ds) \<and>
     counted (dl_max_scopes limits) (ds_policy_overrides ds) \<and> keyed po_scope (ds_policy_overrides ds) \<and>
     list_all override_storable (map snd (ds_policy_overrides ds)) \<and> policy_storable limits (ds_base_policy ds) \<and>
     counted (dl_max_models limits) (ds_models ds) \<and> keyed mr_id (ds_models ds) \<and>
     list_all (model_storable limits) (map snd (ds_models ds)) \<and>
     counted (dl_max_versions limits) (ds_versions ds) \<and>
     keyed (\<lambda>v. (vr_model v, vr_version v)) (ds_versions ds) \<and>
     list_all (version_storable limits) (map snd (ds_versions ds)) \<and>
     counted (dl_max_compatibility_facts limits) (ds_compatibility ds) \<and>
     keyed (\<lambda>f. (cf_version f, cf_environment_key f)) (ds_compatibility ds) \<and>
     list_all (fact_storable limits) (map snd (ds_compatibility ds)) \<and>
     counted (dl_max_rollouts limits) (ds_rollouts ds) \<and> keyed pl_id (ds_rollouts ds) \<and>
     list_all (plan_storable limits) (map snd (ds_rollouts ds))"

definition holders_storable :: "decode_limits \<Rightarrow> durable_state \<Rightarrow> bool" where
  "holders_storable limits ds \<longleftrightarrow>
     length (ds_authority ds) < 2 ^ 32 \<and> om_wf (ds_authority ds) \<and>
     list_all (scope_entry_storable limits) (ds_authority ds) \<and>
     counted (dl_max_workers limits) (ds_worker_leases ds) \<and> keyed wl_id (ds_worker_leases ds) \<and>
     list_all (lease_storable limits) (map snd (ds_worker_leases ds)) \<and>
     counted (dl_max_evidence limits) (ds_evidence ds) \<and> list_all (evidence_storable limits) (ds_evidence ds) \<and>
     counted (dl_max_attempts limits) (ds_unsettled_attempts ds) \<and> keyed ap_id (ds_unsettled_attempts ds) \<and>
     list_all (attempt_storable limits) (map snd (ds_unsettled_attempts ds)) \<and>
     counted (dl_max_models limits * 64) (ds_committed_promotions ds) \<and> om_wf (ds_committed_promotions ds) \<and>
     counted (dl_max_models limits * 64) (ds_committed_rollbacks ds) \<and> om_wf (ds_committed_rollbacks ds)"

definition allocators_storable :: "durable_state \<Rightarrow> bool" where
  "allocators_storable ds \<longleftrightarrow> ds_next_model_id ds \<noteq> 0 \<and> ds_next_version_id ds \<noteq> 0 \<and>
     ds_next_rollout_id ds \<noteq> 0 \<and> ds_next_promotion_id ds \<noteq> 0 \<and> ds_next_rollback_id ds \<noteq> 0 \<and>
     ds_next_attempt_id ds \<noteq> 0 \<and> ds_next_worker_id ds \<noteq> 0 \<and> ds_next_evidence_id ds \<noteq> 0 \<and>
     ds_next_compatibility_generation ds \<noteq> 0"

definition snapshot_storable :: "decode_limits \<Rightarrow> durable_state \<Rightarrow> bool" where
  "snapshot_storable limits ds \<longleftrightarrow> ds_format_version ds = kStateFormatVersion \<and>
     records_storable limits ds \<and> holders_storable limits ds \<and> allocators_storable ds \<and>
     length (write_payload ds) < 2 ^ 32 \<and> consistency_problem ds = None"

section \<open>Sections read back\<close>

lemma section_at_tag [simp]: "section_at (section_tag s) = Some s"
  by (cases s; simp add: section_at_def section_tag_def store_sections_def)

lemma read_sections_step:
  assumes "read_section limits (section_tag s) n ds (reader_of (body @ rest)) = Inr (ds', reader_of rest)"
    and "seen < 17"
  shows "read_sections limits seen ds (reader_of (write_section s n body @ rest))
    = read_sections limits (Suc seen) ds' (reader_of rest)"
proof -
  have "put_u16 (section_tag s) \<noteq> []"
    using length_put(2) [of "section_tag s"] by (cases "put_u16 (section_tag s)") simp_all
  then show ?thesis
    using assms by (subst read_sections.simps) (simp add: write_section_def read_simps kSectionCount_def)
qed

lemma read_sections_end: "read_sections limits seen ds (reader_of []) = Inr (ds, reader_of [])"
  by (subst read_sections.simps) simp

text \<open>Each section, read into the snapshot so far, sets its fields.\<close>

lemma section_header:
  "read_section limits (section_tag Sec_Header) 1 d
     (reader_of ((put_u16 (ds_format_version ds) @ put_u64 (ds_generation ds) @ put_u64 (ds_epoch ds) @
       put_u64 (ds_sequence ds)) @ rest))
   = Inr (d\<lparr>ds_format_version := ds_format_version ds, ds_generation := ds_generation ds,
       ds_epoch := ds_epoch ds, ds_sequence := ds_sequence ds\<rparr>, reader_of rest)"
  by (simp add: read_section_def read_header_def read_simps)

lemma counted_le: "counted n xs \<Longrightarrow> unat (of_nat (length xs) :: u32) \<le> n"
  by (simp add: counted_def unat_of_nat)

lemma section_scopes:
  assumes "records_storable limits ds" and "ds_policy_overrides d = []" and "ds_scopes d = []"
  shows "read_section limits (section_tag Sec_Scopes) (of_nat (length (ds_scopes ds))) d
     (reader_of ((put_u64 (ds_root_scope ds) @ put_count (ds_policy_overrides ds) @
      put_all write_override (map snd (ds_policy_overrides ds)) @ put_all write_scope_record (ds_scopes ds)) @ rest))
   = Inr (d\<lparr>ds_root_scope := ds_root_scope ds, ds_policy_overrides := ds_policy_overrides ds,
       ds_scopes := ds_scopes ds\<rparr>, reader_of rest)"
proof -
  note fits = assms(1) [unfolded records_storable_def keyed_def]
  have "get_each (read_scope_record limits) (length (ds_scopes ds))
      (reader_of (put_all write_scope_record (ds_scopes ds) @ rest)) = Inr (ds_scopes ds, reader_of rest)"
    using fits by (intro store_scope_record.get_each_put_all) blast
  moreover have "read_overrides (length (ds_policy_overrides ds)) []
      (reader_of (put_all write_override (map snd (ds_policy_overrides ds)) @ rest'))
      = Inr (ds_policy_overrides ds, reader_of rest')" for rest'
    using fits read_overrides_put [of "ds_policy_overrides ds" "[]" rest'] by simp
  moreover have "unat (of_nat (length (ds_scopes ds)) :: u32) = length (ds_scopes ds)"
    "unat (of_nat (length (ds_policy_overrides ds)) :: u32) = length (ds_policy_overrides ds)"
    "length (ds_scopes ds) \<le> dl_max_scopes limits" "length (ds_policy_overrides ds) \<le> dl_max_scopes limits"
    using fits by (auto simp: counted_def unat_of_nat)
  ultimately show ?thesis
    using assms(2,3) by (simp add: read_section_def read_scopes_def read_simps linorder_not_less)
qed

lemma section_policy:
  assumes "records_storable limits ds" and "ds_base_policy d = default_policy"
  shows "read_section limits (section_tag Sec_Policy) 1 d (reader_of (write_policy (ds_base_policy ds) @ rest))
   = Inr (d\<lparr>ds_base_policy := ds_base_policy ds\<rparr>, reader_of rest)"
  using assms by (simp add: read_section_def read_policy_section_def records_storable_def read_simps)

lemma section_models:
  assumes "records_storable limits ds" and "ds_models d = []"
  shows "read_section limits (section_tag Sec_Models) (of_nat (length (ds_models ds))) d
     (reader_of (put_all write_model (map snd (ds_models ds)) @ rest))
   = Inr (d\<lparr>ds_models := ds_models ds\<rparr>, reader_of rest)"
  using assms read_records [OF store_model.checked_codec_axioms, of mr_id "ds_models ds" limits "dl_max_models limits" _ rest]
    counted_le [of "dl_max_models limits" "ds_models ds"]
  by (simp add: read_section_def read_models_def records_storable_def linorder_not_less)

lemma section_versions:
  assumes "records_storable limits ds" and "ds_versions d = []"
  shows "read_section limits (section_tag Sec_Versions) (of_nat (length (ds_versions ds))) d
     (reader_of (put_all write_version (map snd (ds_versions ds)) @ rest))
   = Inr (d\<lparr>ds_versions := ds_versions ds\<rparr>, reader_of rest)"
  using assms read_records [OF store_version.checked_codec_axioms, of "\<lambda>v. (vr_model v, vr_version v)"
      "ds_versions ds" limits "dl_max_versions limits" _ rest]
    counted_le [of "dl_max_versions limits" "ds_versions ds"]
  by (simp add: read_section_def read_versions_def records_storable_def linorder_not_less)

lemma section_compatibility:
  assumes "records_storable limits ds" and "ds_compatibility d = []"
  shows "read_section limits (section_tag Sec_Compatibility) (of_nat (length (ds_compatibility ds))) d
     (reader_of (put_all write_fact (map snd (ds_compatibility ds)) @ rest))
   = Inr (d\<lparr>ds_compatibility := ds_compatibility ds\<rparr>, reader_of rest)"
  using assms read_records [OF store_fact.checked_codec_axioms, of "\<lambda>f. (cf_version f, cf_environment_key f)"
      "ds_compatibility ds" limits "dl_max_compatibility_facts limits" _ rest]
    counted_le [of "dl_max_compatibility_facts limits" "ds_compatibility ds"]
  by (simp add: read_section_def read_compatibility_def records_storable_def linorder_not_less)

lemma section_rollouts:
  assumes "records_storable limits ds" and "ds_rollouts d = []"
  shows "read_section limits (section_tag Sec_Rollouts) (of_nat (length (ds_rollouts ds))) d
     (reader_of (put_all write_plan (map snd (ds_rollouts ds)) @ rest))
   = Inr (d\<lparr>ds_rollouts := ds_rollouts ds\<rparr>, reader_of rest)"
  using assms read_records [OF store_plan.checked_codec_axioms, of pl_id "ds_rollouts ds" limits
      "dl_max_rollouts limits" _ rest]
    counted_le [of "dl_max_rollouts limits" "ds_rollouts ds"]
  by (simp add: read_section_def read_rollouts_def records_storable_def linorder_not_less)

lemma section_authority:
  assumes "holders_storable limits ds" and "ds_authority d = []"
  shows "read_section limits (section_tag Sec_Authority) (of_nat (length (ds_authority ds))) d
     (reader_of (put_all write_bindings (map snd (ds_authority ds)) @ rest))
   = Inr (d\<lparr>ds_authority := ds_authority ds\<rparr>, reader_of rest)"
  using assms read_authority_put [of limits "ds_authority ds" "[]" rest]
  by (simp add: read_section_def read_authority_section_def holders_storable_def unat_of_nat)

lemma section_workers:
  assumes "holders_storable limits ds" and "ds_worker_leases d = []"
  shows "read_section limits (section_tag Sec_Workers) (of_nat (length (ds_worker_leases ds))) d
     (reader_of (put_all write_lease (map snd (ds_worker_leases ds)) @ rest))
   = Inr (d\<lparr>ds_worker_leases := ds_worker_leases ds\<rparr>, reader_of rest)"
  using assms read_records [OF store_lease.checked_codec_axioms, of wl_id "ds_worker_leases ds" limits
      "dl_max_workers limits" _ rest]
    counted_le [of "dl_max_workers limits" "ds_worker_leases ds"]
  by (simp add: read_section_def read_workers_def holders_storable_def linorder_not_less)

lemma section_evidence:
  assumes "holders_storable limits ds" and "ds_evidence d = []"
  shows "read_section limits (section_tag Sec_Evidence) (of_nat (length (ds_evidence ds))) d
     (reader_of (put_all write_evidence (ds_evidence ds) @ rest))
   = Inr (d\<lparr>ds_evidence := ds_evidence ds\<rparr>, reader_of rest)"
  using assms store_evidence.get_each_count [of limits "ds_evidence ds" "dl_max_evidence limits" rest]
    counted_le [of "dl_max_evidence limits" "ds_evidence ds"]
  by (simp add: read_section_def read_evidence_section_def holders_storable_def linorder_not_less)

lemma section_attempts:
  assumes "holders_storable limits ds" and "ds_unsettled_attempts d = []"
  shows "read_section limits (section_tag Sec_Attempts) (of_nat (length (ds_unsettled_attempts ds))) d
     (reader_of (put_all write_attempt (map snd (ds_unsettled_attempts ds)) @ rest))
   = Inr (d\<lparr>ds_unsettled_attempts := ds_unsettled_attempts ds\<rparr>, reader_of rest)"
  using assms read_records [OF store_attempt.checked_codec_axioms, of ap_id "ds_unsettled_attempts ds" limits
      "dl_max_attempts limits" _ rest]
    counted_le [of "dl_max_attempts limits" "ds_unsettled_attempts ds"]
  by (simp add: read_section_def read_attempts_def holders_storable_def linorder_not_less)

lemma section_committed:
  assumes "holders_storable limits ds" and "ds_committed_promotions d = []" and "ds_committed_rollbacks d = []"
  shows "read_section limits (section_tag Sec_Committed) 2 d
     (reader_of ((put_count (ds_committed_promotions ds) @ put_all put_u64 (map fst (ds_committed_promotions ds)) @
      put_count (ds_committed_rollbacks ds) @ put_all write_pair (map fst (ds_committed_rollbacks ds))) @ rest))
   = Inr (d\<lparr>ds_committed_promotions := ds_committed_promotions ds,
       ds_committed_rollbacks := ds_committed_rollbacks ds\<rparr>, reader_of rest)"
  using assms read_keys [OF store_id.checked_codec_axioms, of "ds_committed_promotions ds" "dl_max_models limits * 64"]
    read_keys [OF store_pair.checked_codec_axioms, of "ds_committed_rollbacks ds" "dl_max_models limits * 64"]
    counted_le [of "dl_max_models limits * 64" "ds_committed_promotions ds"]
    counted_le [of "dl_max_models limits * 64" "ds_committed_rollbacks ds"]
  by (simp add: read_section_def read_committed_def holders_storable_def read_simps linorder_not_less
      del: unat_count)

lemma section_allocators:
  assumes "allocators_storable ds"
  shows "read_section limits (section_tag Sec_Allocators) 13 d
     (reader_of ((put_u64 (ds_next_model_id ds) @ put_u64 (ds_next_version_id ds) @ put_u64 (ds_next_rollout_id ds) @
      put_u64 (ds_next_stage_id ds) @ put_u64 (ds_next_cohort_id ds) @ put_u64 (ds_next_promotion_id ds) @
      put_u64 (ds_next_rollback_id ds) @ put_u64 (ds_next_attempt_id ds) @ put_u64 (ds_next_worker_id ds) @
      put_u64 (ds_next_evidence_id ds) @ put_u64 (ds_next_evidence_generation ds) @
      put_u64 (ds_next_compatibility_generation ds) @ put_u64 0) @ rest))
   = Inr (d\<lparr>ds_next_model_id := ds_next_model_id ds, ds_next_version_id := ds_next_version_id ds,
       ds_next_rollout_id := ds_next_rollout_id ds, ds_next_stage_id := ds_next_stage_id ds,
       ds_next_cohort_id := ds_next_cohort_id ds, ds_next_promotion_id := ds_next_promotion_id ds,
       ds_next_rollback_id := ds_next_rollback_id ds, ds_next_attempt_id := ds_next_attempt_id ds,
       ds_next_worker_id := ds_next_worker_id ds, ds_next_evidence_id := ds_next_evidence_id ds,
       ds_next_evidence_generation := ds_next_evidence_generation ds,
       ds_next_compatibility_generation := ds_next_compatibility_generation ds\<rparr>, reader_of rest)"
  using assms by (simp add: read_section_def read_allocators_def allocators_storable_def read_simps)

lemma read_payload:
  assumes "snapshot_storable limits ds"
  shows "read_sections limits 0 (empty_durable_state\<lparr>ds_format_version := f\<rparr>) (reader_of (write_payload ds))
    = Inr (ds, reader_of [])"
proof -
  note records = assms [unfolded snapshot_storable_def, THEN conjunct2, THEN conjunct1]
  note holders = assms [unfolded snapshot_storable_def, THEN conjunct2, THEN conjunct2, THEN conjunct1]
  note allocators = assms [unfolded snapshot_storable_def, THEN conjunct2, THEN conjunct2, THEN conjunct2, THEN conjunct1]
  have "read_sections limits 0 (empty_durable_state\<lparr>ds_format_version := f\<rparr>) (reader_of (write_payload ds @ []))
    = Inr (ds, reader_of [])"
    unfolding write_payload_def write_header_def write_scopes_def write_records_def write_authority_def
      write_evidence_section_def write_committed_def write_allocators_def append_assoc [of "write_section _ _ _"]
    by (simp add: empty_durable_state_def read_sections_end
        read_sections_step [OF section_header] read_sections_step [OF section_scopes [OF records]]
        read_sections_step [OF section_policy [OF records]] read_sections_step [OF section_models [OF records]]
        read_sections_step [OF section_versions [OF records]]
        read_sections_step [OF section_compatibility [OF records]]
        read_sections_step [OF section_rollouts [OF records]]
        read_sections_step [OF section_authority [OF holders]]
        read_sections_step [OF section_workers [OF holders]]
        read_sections_step [OF section_evidence [OF holders]]
        read_sections_step [OF section_attempts [OF holders]]
        read_sections_step [OF section_committed [OF holders]]
        read_sections_step [OF section_allocators [OF allocators]] del: append_Nil2)
  then show ?thesis by simp
qed

section \<open>Frames of the file\<close>

definition state_bytes :: "durable_state \<Rightarrow> bytes" where
  "state_bytes ds = state_frame ds @ put_u32 (crc32 (state_frame ds))"

lemma length_state_frame: "length (state_frame ds) = kStateHeaderSize + length (write_payload ds)"
  by (simp add: state_frame_def kStateMagic_def kStateHeaderSize_def)

lemma serialize_bytes:
  assumes "serialize_durable_state ds limits = Inr out"
  shows "out = state_bytes ds \<and> length (write_payload ds) \<le> dl_max_payload_bytes limits"
  using assms by (auto simp: serialize_durable_state_def state_bytes_def Let_def split: option.splits if_splits)

text \<open>The frame checks on a file whose header is intact, whatever its payload and checksum are.\<close>

lemma deserialize_framed:
  assumes "length payload < 2 ^ 32" and "length payload \<le> dl_max_payload_bytes limits" and "4 \<le> length rest"
  shows "deserialize_durable_state
      ((kStateMagic @ put_u16 kStateFormatVersion @ put_u16 0 @ put_u32 (of_nat (length payload)) @ payload) @ rest) limits =
    (if read32 rest 0 \<noteq> crc32 (kStateMagic @ put_u16 kStateFormatVersion @ put_u16 0 @
        put_u32 (of_nat (length payload)) @ payload) then Inl (SS_IntegrityFailure, ''integrity check failed'')
     else case read_sections limits 0 (empty_durable_state\<lparr>ds_format_version := kStateFormatVersion\<rparr>)
         (reader_of payload) of
       Inl e \<Rightarrow> Inl e
     | Inr (ds, r) \<Rightarrow>
         if \<not> r_ok r then Inl (SS_Truncated, ''state payload truncated'')
         else if \<not> exhausted r then Inl (SS_InvalidContent, ''trailing bytes in state payload'')
         else case consistency_problem ds of Some e \<Rightarrow> Inl e | None \<Rightarrow> Inr ds)"
proof -
  have magic: "length kStateMagic = 4" by (simp add: kStateMagic_def)
  define head where "head = kStateMagic @ put_u16 kStateFormatVersion @ put_u16 0 @ put_u32 (of_nat (length payload))"
  have head: "length head = 12" by (simp add: head_def magic)
  have n: "unat (of_nat (length payload) :: u32) = length payload" using assms(1) by (simp add: unat_of_nat)
  have data: "(kStateMagic @ put_u16 kStateFormatVersion @ put_u16 0 @ put_u32 (of_nat (length payload)) @ payload) @ rest
      = head @ payload @ rest" by (simp add: head_def)
  have fields: "drop 4 (head @ payload @ rest) = put_u16 kStateFormatVersion @ put_u16 0 @
      put_u32 (of_nat (length payload)) @ payload @ rest" "take 4 (head @ payload @ rest) = kStateMagic"
    by (simp_all add: head_def magic)
  have parts: "take (kStateHeaderSize + length payload) (head @ payload @ rest) = head @ payload"
    "read32 (head @ payload @ rest) (kStateHeaderSize + length payload) = read32 rest 0"
    "take (length payload) (drop kStateHeaderSize (head @ payload @ rest)) = payload"
    by (simp_all add: head read32_def kStateHeaderSize_def)
  have long: "\<not> length (head @ payload @ rest) < kStateHeaderSize + kStateTrailerSize"
    "\<not> length (head @ payload @ rest) < kStateHeaderSize + length payload + kStateTrailerSize"
    using assms(3) by (simp_all add: head kStateHeaderSize_def kStateTrailerSize_def)
  have "crc32 (head @ payload) = crc32 (kStateMagic @ put_u16 kStateFormatVersion @ put_u16 0 @
      put_u32 (of_nat (length payload)) @ payload)" by (simp add: head_def)
  then show ?thesis
    unfolding data deserialize_durable_state_def fields
    using long assms(2) by (simp add: read_simps n parts Let_def linorder_not_less del: take_append drop_append)
qed

lemma framed_roundtrip:
  assumes "serialize_durable_state ds limits = Inr out" and "snapshot_storable limits ds"
  shows "deserialize_durable_state (out @ rest) limits = Inr ds"
proof -
  have out: "out = state_bytes ds" "length (write_payload ds) \<le> dl_max_payload_bytes limits"
    using serialize_bytes [OF assms(1)] by simp_all
  have version: "ds_format_version ds = kStateFormatVersion" and size: "length (write_payload ds) < 2 ^ 32"
    and agree: "consistency_problem ds = None"
    using assms(2) by (simp_all add: snapshot_storable_def)
  show ?thesis
    using deserialize_framed [OF size out(2), of "put_u32 (crc32 (state_frame ds)) @ rest"]
      read_payload [OF assms(2), of kStateFormatVersion] agree read_at(2) [of "[]" 0]
    by (simp add: out(1) state_bytes_def state_frame_def version)
qed



section \<open>A small snapshot\<close>

text \<open>One scope, and a model whose only version holds it.\<close>

definition sample_snapshot :: durable_state where
  "sample_snapshot = empty_durable_state\<lparr>ds_epoch := 3,
     ds_models := [(1, \<lparr>mr_id = 1, mr_name = ''m'', mr_family = [], mr_provenance = PV_Synthetic,
       mr_created_sequence = 1\<rparr>)],
     ds_versions := [((1, 1), sample_version 1 LS_CURRENT)],
     ds_scopes := [\<lparr>s_id = 1, s_parent = 0, s_kind = SK_Global, s_name = ''f'', s_path = ''f'', s_generation = 1,
       s_depth = 0\<rparr>],
     ds_root_scope := 1, ds_authority := [(1, [sample_binding])]\<rparr>"

definition sample_limits :: decode_limits where
  "sample_limits = decode_limits_from_bounds default_bounds"

lemmas sample_snapshot_simps = sample_snapshot_def empty_durable_state_def sample_limits_def
  decode_limits_from_bounds_def default_bounds_def

lemma sample_snapshot_records: "records_storable sample_limits sample_snapshot"
  by (simp add: records_storable_def sample_snapshot_simps keyed_def scope_record_storable_def policy_storable_def
      model_storable_def version_storable_def artifact_storable_def requirements_storable_def default_policy_def
      sample_version_def new_version_def sample_registration_def empty_requirements_def str_fits_def id_valid_def
      counted_def kEvidenceKindCount_def kScopeKindCount_def evidence_kinds_def scope_kinds_def)

lemma sample_snapshot_holders: "holders_storable sample_limits sample_snapshot"
  by (simp add: holders_storable_def sample_snapshot_simps keyed_def scope_entry_storable_def binding_storable_def
      sample_binding_def empty_binding_def id_valid_def counted_def)

lemma sample_snapshot_agrees: "consistency_problem sample_snapshot = None"
  by (simp add: consistency_problem_def or_else_def scopes_problem_def version_problem_def binding_problem_def
      invalid_def known_scope_def retired_def sample_snapshot_simps sample_binding_def empty_binding_def id_valid_def
      sample_version_def new_version_def sample_registration_def)

lemma sample_snapshot_size: "length (write_payload sample_snapshot) < 1024"
  by (simp add: write_payload_def write_header_def write_scopes_def write_records_def write_authority_def
      write_evidence_section_def write_committed_def write_allocators_def write_section_def put_all_def
      write_scope_record_def write_policy_def write_model_def write_version_def write_artifact_def
      write_requirements_def write_binding_def sample_snapshot_simps default_policy_def sample_binding_def
      empty_binding_def sample_version_def new_version_def sample_registration_def empty_requirements_def put_count_def
      put_str_def put_bool_def)

lemma sample_snapshot_storable: "snapshot_storable sample_limits sample_snapshot"
  using sample_snapshot_size sample_snapshot_agrees sample_snapshot_records sample_snapshot_holders
  by (simp add: snapshot_storable_def allocators_storable_def sample_snapshot_def empty_durable_state_def)

lemma sample_snapshot_bytes:
  "serialize_durable_state sample_snapshot sample_limits = Inr (state_bytes sample_snapshot)"
proof -
  have "dl_max_payload_bytes sample_limits = 16777216" by (simp add: sample_limits_def decode_limits_from_bounds_def)
  moreover have "serialize_fault sample_snapshot sample_limits = None"
    by (simp add: serialize_fault_def sample_snapshot_simps)
  ultimately show ?thesis
    using sample_snapshot_size by (simp add: serialize_durable_state_def state_bytes_def Let_def)
qed

section \<open>Properties\<close>

text \<open>
  C23 Corruption of a state file is detected: if up to four consecutive bytes of its payload arrive
  changed, the file is refused with an integrity failure.
\<close>

theorem corrupted_state_refused:
  assumes "serialize_durable_state ds limits = Inr out" and "snapshot_storable limits ds"
    and "write_payload ds = before @ old @ after" and "length new = length old" and "length old \<le> 4" and "new \<noteq> old"
  shows "deserialize_durable_state (kStateMagic @ put_u16 kStateFormatVersion @ put_u16 0 @
      put_u32 (of_nat (length (write_payload ds))) @ (before @ new @ after) @ put_u32 (crc32 (state_frame ds))) limits
    = Inl (SS_IntegrityFailure, ''integrity check failed'')"
proof -
  let ?head = "kStateMagic @ put_u16 kStateFormatVersion @ put_u16 0 @ put_u32 (of_nat (length (write_payload ds)))"
  have size: "length (before @ new @ after) < 2 ^ 32" "length (before @ new @ after) \<le> dl_max_payload_bytes limits"
    using assms(2) serialize_bytes [OF assms(1)] assms(3,4) by (simp_all add: snapshot_storable_def)
  have same: "length (before @ new @ after) = length (write_payload ds)" using assms(3,4) by simp
  have "state_frame ds = (?head @ before) @ old @ after"
    using assms(2,3) by (simp add: state_frame_def snapshot_storable_def)
  then have "crc32 (state_frame ds) \<noteq> crc32 ((?head @ before) @ new @ after)"
    using crc32_burst [of old new "?head @ before" after] assms(4-6) by metis
  then show ?thesis
    using deserialize_framed [OF size, of "put_u32 (crc32 (state_frame ds))", unfolded same]
      read_at(2) [of "[]" 0 "crc32 (state_frame ds)" "[]"]
    by (simp only: append_assoc append_Nil append_Nil2 length_put) simp
qed


lemma sample_payload_head: "write_payload sample_snapshot = [] @ [1] @ tl (write_payload sample_snapshot)"
  by (simp add: write_payload_def write_header_def write_section_def put_u16_def put_u8_def low_byte_def section_tag_def
     
      store_sections_def)

lemma corrupted_state_refused_witness:
  "deserialize_durable_state (kStateMagic @ put_u16 kStateFormatVersion @ put_u16 0 @
      put_u32 (of_nat (length (write_payload sample_snapshot))) @ ([] @ [9] @ tl (write_payload sample_snapshot)) @
      put_u32 (crc32 (state_frame sample_snapshot))) sample_limits
    = Inl (SS_IntegrityFailure, ''integrity check failed'')"
  by (rule corrupted_state_refused [OF sample_snapshot_bytes sample_snapshot_storable sample_payload_head]) simp_all



text \<open>
  C25 A save touches only its file and the temporary file, leaves the complete new contents when it
  succeeds and the old contents when it fails. The one exception is the second failure of the
  renaming, after the old file has been removed to make room.
\<close>

theorem save_keeps_or_replaces:
  "case save_durable_state ds limits path faults files of (result, files') \<Rightarrow>
     files' = files(path := files' path, path @ ''.tmp'' := files' (path @ ''.tmp'')) \<and>
     (case result of
        None \<Rightarrow> (\<exists>out. serialize_durable_state ds limits = Inr out \<and> files' path = Some out)
      | Some (status, _) \<Rightarrow> files' path = files path \<or>
          status = SS_AtomicReplaceFailed \<and> df_rename faults \<and> \<not> df_remove faults \<and> df_retry faults \<and> files' path = None)"
  by (simp add: save_durable_state_def Let_def fun_eq_iff split: sum.splits option.splits)

text \<open>
  C22 A state survives a restart of the process: what a save that succeeded has written is what the
  next load returns, whatever else the file system did meanwhile to other files.
\<close>

theorem saved_state_loads:
  assumes "save_durable_state ds limits path faults files = (None, files')" and "snapshot_storable limits ds"
    and "files'' path = files' path"
  shows "load_durable_state path limits files'' = Inr ds"
proof -
  obtain out where out: "serialize_durable_state ds limits = Inr out" "files' path = Some out"
    using assms(1) by (auto simp: save_durable_state_def Let_def split: sum.splits option.splits if_splits)
  have "length out \<noteq> 0" "length out \<le> dl_max_payload_bytes limits + kStateHeaderSize + kStateTrailerSize"
    using serialize_bytes [OF out(1)]
    by (simp_all add: state_bytes_def length_state_frame kStateTrailerSize_def kStateHeaderSize_def del: length_0_conv)
  then show ?thesis
    using framed_roundtrip [OF out(1) assms(2), of "[]"] out(2) assms(3) by (simp add: load_durable_state_def)
qed

lemma saved_state_loads_witness:
  "load_durable_state ''s'' sample_limits [''s'' \<mapsto> state_bytes sample_snapshot, ''t'' \<mapsto> []] = Inr sample_snapshot"
proof -
  have "save_durable_state sample_snapshot sample_limits ''s''
      \<lparr>df_create_directories = False, df_open = False, df_write = None, df_rename = True, df_remove = False,
       df_retry = False, df_cleanup = False\<rparr> [''s'' \<mapsto> [1]]
      = (None, [''s'' \<mapsto> state_bytes sample_snapshot])"
    by (simp add: save_durable_state_def sample_snapshot_bytes Let_def fun_eq_iff)
  then show ?thesis
    by (rule saved_state_loads [OF _ sample_snapshot_storable]) simp
qed

end
