(* ===== verification/Mlf_Queries.thy ===== *)
theory Mlf_Queries
  imports Mlf_Findings Mlf_Snapshot
begin

text \<open>
  The read-only queries of the engine: the accessors of src/engine_authority.cpp, each over the
  maps of the state in key order.
\<close>

section \<open>Lookups\<close>

definition find_model_by_name :: "engine \<Rightarrow> string \<Rightarrow> u64 option" where
  "find_model_by_name st name = map_of (st_model_names st) name"

definition find_model_by_id :: "engine \<Rightarrow> u64 \<Rightarrow> u64 option" where
  "find_model_by_id st raw = map_option mr_id (map_of (st_models st) raw)"

definition find_version_by_label :: "engine \<Rightarrow> u64 \<Rightarrow> string \<Rightarrow> u64 option" where
  "find_version_by_label st model label = map_of (st_version_labels st) (model, label)"

definition find_scope_by_path :: "engine \<Rightarrow> string \<Rightarrow> u64 option" where
  "find_scope_by_path st path = find_path (st_scopes st) path"

definition model_of :: "engine \<Rightarrow> u64 \<Rightarrow> model_record option" where
  "model_of st i = map_of (st_models st) i"

definition attempt_of :: "engine \<Rightarrow> u64 \<Rightarrow> attempt option" where
  "attempt_of st i = map_of (st_attempts st) i"

section \<open>Listings\<close>

definition all_models :: "engine \<Rightarrow> model_record list" where
  "all_models st = map snd (st_models st)"

definition list_versions :: "engine \<Rightarrow> u64 \<Rightarrow> version_record list" where
  "list_versions st model = map snd (filter (\<lambda>e. fst (fst e) = model) (st_versions st))"

definition all_versions :: "engine \<Rightarrow> version_record list" where
  "all_versions st = map snd (st_versions st)"

definition all_scopes :: "engine \<Rightarrow> scope_record list" where
  "all_scopes st = sr_records (st_scopes st)"

definition all_rollouts :: "engine \<Rightarrow> rollout_plan list" where
  "all_rollouts st = map snd (st_rollouts st)"

definition all_attempts :: "engine \<Rightarrow> attempt list" where
  "all_attempts st = map snd (st_attempts st)"

definition all_workers :: "engine \<Rightarrow> worker_lease list" where
  "all_workers st = map snd (st_workers st)"

definition compatibility_facts_of :: "engine \<Rightarrow> u64 \<Rightarrow> compatibility_fact list" where
  "compatibility_facts_of st version =
     filter (\<lambda>f. cf_version f = version) (map snd (cr_facts (st_compatibility st)))"

text \<open>Generations of evidence are distinct, so any sort by generation gives the same list.\<close>

definition all_evidence :: "engine \<Rightarrow> evidence_record list" where
  "all_evidence st = sort_key e_generation (concat (map snd (ev_records (st_evidence st))))"

definition evidence_of_version :: "engine \<Rightarrow> u64 \<Rightarrow> evidence_record list" where
  "evidence_of_version st version =
     sort_key e_generation
       (filter (\<lambda>e. es_version (e_subject e) = version) (concat (map snd (ev_records (st_evidence st)))))"

definition effective_policy_at :: "engine \<Rightarrow> u64 \<Rightarrow> lifecycle_policy" where
  "effective_policy_at st scope = effective (st_policy st) (st_scopes st) scope"

definition policy_generation :: "engine \<Rightarrow> u64" where
  "policy_generation st = lp_generation (ps_base (st_policy st))"

section \<open>Names of findings\<close>

definition kFindingKindNames :: "string list" where
  "kFindingKindNames = [''CLEAN'', ''EXPECTED_RESIDENT_MISSING'', ''RETIRED_MODEL_STILL_RESIDENT'',
     ''ROLLOUT_STAGE_WITHOUT_WORKERS'', ''AUTHORITY_WITHOUT_REPLICAS'', ''REPLICA_FOR_NON_AUTHORITATIVE_GENERATION'',
     ''ARTIFACT_GENERATION_CHANGED'', ''COMPATIBILITY_CHANGED'', ''UNRECONCILED_ATTEMPT'',
     ''FENCED_WORKER_STILL_PUBLISHING'', ''STALE_PLAN_BINDING'']"

definition to_string_finding :: "finding_kind \<Rightarrow> string" where
  "to_string_finding k = kFindingKindNames ! finding_kind_index k"

section \<open>What the queries agree on\<close>

lemma set_all_evidence: "set (all_evidence st) = (\<Union>e \<in> set (ev_records (st_evidence st)). set (snd e))"
  by (auto simp: all_evidence_def)

lemma evidence_of_version_all:
  "distinct (map e_generation (all_evidence st)) \<Longrightarrow>
   evidence_of_version st version = filter (\<lambda>e. es_version (e_subject e) = version) (all_evidence st)"
  by (simp add: evidence_of_version_def all_evidence_def filter_sort)

end
