(* ===== verification/Mlf_Coordinator.thy ===== *)
theory Mlf_Coordinator
  imports Mlf_Queries Mlf_Store Mlf_Wire
begin

text \<open>
  The coordinator: src/coordinator.cpp without its frame handlers. Its state is the class with the
  engine it owns; the environment it runs in is the record \<open>world\<close>: the file system, and for each
  save and each send whether it fails, in the order the calls are made. A call beyond the end of
  those lists succeeds. Sent frames are logged with the identity of their session; the bytes of an
  entry are the encoding of its frame. Error texts of the socket layer are not kept.
\<close>

section \<open>State\<close>

record session =
  sn_id :: u64
  sn_open :: bool
  sn_decoder :: frame_decoder
  sn_worker :: u64
  sn_boot :: u64
  sn_epoch :: u64
  sn_hello_seen :: bool
  sn_registered :: bool

record coordinator_config =
  cc_state_path :: string
  cc_engine :: engine_config
  cc_limits :: protocol_limits
  cc_persist_on_change :: bool
  cc_refuse_corrupt :: bool

record coordinator_stats =
  ct_connections_accepted :: u64
  ct_sessions_closed :: u64
  ct_frames_received :: u64
  ct_frames_sent :: u64
  ct_frames_rejected :: u64
  ct_commands_dispatched :: u64
  ct_dispatch_backpressure :: u64
  ct_saves :: u64
  ct_save_failures :: u64
  ct_recoveries :: u64
  ct_worker_fences :: u64

definition zero_stats :: coordinator_stats where
  "zero_stats = \<lparr>ct_connections_accepted = 0, ct_sessions_closed = 0, ct_frames_received = 0,
     ct_frames_sent = 0, ct_frames_rejected = 0, ct_commands_dispatched = 0, ct_dispatch_backpressure = 0,
     ct_saves = 0, ct_save_failures = 0, ct_recoveries = 0, ct_worker_fences = 0\<rparr>"

record world =
  w_disk :: disk
  w_faults :: "disk_faults list"
  w_sends :: "bool list"
  w_sent :: "(u64 \<times> frame) list"

definition no_faults :: disk_faults where
  "no_faults = \<lparr>df_create_directories = False, df_open = False, df_write = None, df_rename = False,
     df_remove = False, df_retry = False, df_cleanup = False\<rparr>"

definition next_fault :: "world \<Rightarrow> disk_faults \<times> world" where
  "next_fault w = (case w_faults w of [] \<Rightarrow> (no_faults, w) | f # fs \<Rightarrow> (f, w\<lparr>w_faults := fs\<rparr>))"

definition next_send :: "world \<Rightarrow> bool \<times> world" where
  "next_send w = (case w_sends w of [] \<Rightarrow> (False, w) | f # fs \<Rightarrow> (f, w\<lparr>w_sends := fs\<rparr>))"

record coordinator =
  co_config :: coordinator_config
  co_engine :: engine
  co_sessions :: "session list"
  co_listening :: bool
  co_port :: u16
  co_running :: bool
  co_pending :: bool
  co_stats :: coordinator_stats
  co_last_saved :: u64
  co_dispatched :: "u64 list"
  co_world :: world

definition new_coordinator :: "coordinator_config \<Rightarrow> world \<Rightarrow> coordinator" where
  "new_coordinator config w = \<lparr>co_config = config, co_engine = new_engine (cc_engine config),
     co_sessions = [], co_listening = False, co_port = 0, co_running = False, co_pending = False,
     co_stats = zero_stats, co_last_saved = 0, co_dispatched = [], co_world = w\<rparr>"

abbreviation co_limits :: "coordinator \<Rightarrow> protocol_limits" where
  "co_limits co \<equiv> cc_limits (co_config co)"

abbreviation co_engine_config :: "coordinator \<Rightarrow> engine_config" where
  "co_engine_config co \<equiv> cc_engine (co_config co)"

definition tally :: "(coordinator_stats \<Rightarrow> coordinator_stats) \<Rightarrow> coordinator \<Rightarrow> coordinator" where
  "tally f co = co\<lparr>co_stats := f (co_stats co)\<rparr>"

definition rejected_frame :: "coordinator \<Rightarrow> coordinator" where
  "rejected_frame = tally (\<lambda>t. t\<lparr>ct_frames_rejected := ct_frames_rejected t + 1\<rparr>)"

definition set_session :: "nat \<Rightarrow> (session \<Rightarrow> session) \<Rightarrow> coordinator \<Rightarrow> coordinator" where
  "set_session i f co = co\<lparr>co_sessions := (co_sessions co)[i := f (co_sessions co ! i)]\<rparr>"

definition scope_path :: "engine \<Rightarrow> u64 \<Rightarrow> string" where
  "scope_path st scope =
     (case find (\<lambda>r. s_id r = scope) (all_scopes st) of None \<Rightarrow> [] | Some r \<Rightarrow> s_path r)"

definition rejected :: "outcome_code \<Rightarrow> reason_code \<Rightarrow> string \<Rightarrow> reply" where
  "rejected code why detail_text = reply_add why detail_text (new_reply code)"

section \<open>Persistence\<close>

definition persist :: "coordinator \<Rightarrow> string option \<times> coordinator" where
  "persist co =
     (if cc_state_path (co_config co) = [] then (None, co)
      else
        let limits = decode_limits_from_bounds (ec_bounds (co_engine_config co));
            (faults, w) = next_fault (co_world co) in
        case save_durable_state (export_durable_state (co_engine co)) limits
            (cc_state_path (co_config co)) faults (w_disk w) of
          (Some (status, detail_text), files) \<Rightarrow>
            (Some (''state save failed ('' @ to_string_store_status status @ ''): '' @ detail_text),
             tally (\<lambda>t. t\<lparr>ct_save_failures := ct_save_failures t + 1\<rparr>) (co\<lparr>co_world := w\<lparr>w_disk := files\<rparr>\<rparr>))
        | (None, files) \<Rightarrow>
            (None, tally (\<lambda>t. t\<lparr>ct_saves := ct_saves t + 1\<rparr>)
              (co\<lparr>co_world := w\<lparr>w_disk := files\<rparr>, co_last_saved := st_sequence (co_engine co)\<rparr>)))"

definition persist_if_changed :: "coordinator \<Rightarrow> string option \<times> coordinator" where
  "persist_if_changed co =
     (if cc_state_path (co_config co) = [] \<or> \<not> cc_persist_on_change (co_config co) then (None, co)
      else if st_sequence (co_engine co) = co_last_saved co then (None, co)
      else persist co)"

section \<open>Sessions\<close>

definition connection_count :: "coordinator \<Rightarrow> nat" where
  "connection_count co = length (filter sn_open (co_sessions co))"

definition session_for_worker :: "u64 \<Rightarrow> u64 \<Rightarrow> coordinator \<Rightarrow> session option" where
  "session_for_worker worker boot co =
     (if \<not> id_valid worker then None
      else find (\<lambda>s. sn_open s \<and> sn_worker s = worker \<and> \<not> (id_valid boot \<and> sn_boot s \<noteq> boot)) (co_sessions co))"

definition send_frame :: "session \<Rightarrow> message_type \<Rightarrow> bytes \<Rightarrow> coordinator \<Rightarrow> bool \<times> coordinator" where
  "send_frame s t payload co =
     (if \<not> sn_open s then (False, rejected_frame co)
      else case encode_frame (make_frame t payload) (co_limits co) of
          Inl _ \<Rightarrow> (False, rejected_frame co)
        | Inr _ \<Rightarrow>
            (case next_send (co_world co) of
               (True, w) \<Rightarrow> (False, rejected_frame (co\<lparr>co_world := w\<rparr>))
             | (False, w) \<Rightarrow>
                 (True, tally (\<lambda>t. t\<lparr>ct_frames_sent := ct_frames_sent t + 1\<rparr>)
                    (co\<lparr>co_world := w\<lparr>w_sent := w_sent w @ [(sn_id s, make_frame t payload)]\<rparr>\<rparr>))))"

definition not_durable :: reply where
  "not_durable = reply_add (Txn TransactionRolledBack)
     ''the change was applied in memory but could not be made durable'' (new_reply OC_Rejected)"

text \<open>The reply itself, once what it acknowledges is durable.\<close>

definition send_encoded :: "nat \<Rightarrow> reply \<Rightarrow> coordinator \<Rightarrow> bool \<times> coordinator" where
  "send_encoded i y co =
     (case encode_reply (co_limits co) y of
        Inl _ \<Rightarrow> (False, rejected_frame co)
      | Inr payload \<Rightarrow> send_frame (co_sessions co ! i) MT_REPLY payload co)"

definition send_reply :: "nat \<Rightarrow> reply \<Rightarrow> coordinator \<Rightarrow> bool \<times> coordinator" where
  "send_reply i y co =
     (if co_pending co then
        (case persist_if_changed (co\<lparr>co_pending := False\<rparr>) of
           (None, co) \<Rightarrow> send_encoded i y co
         | (Some _, co) \<Rightarrow>
             let co = rejected_frame co in
             (False, case encode_reply (co_limits co) not_durable of
                Inl _ \<Rightarrow> co
              | Inr payload \<Rightarrow> snd (send_frame (co_sessions co ! i) MT_REPLY payload co)))
      else send_encoded i y co)"

definition fence_session :: "nat \<Rightarrow> string \<Rightarrow> coordinator \<Rightarrow> coordinator" where
  "fence_session i why co =
     (let s = co_sessions co ! i;
          co = (if id_valid (sn_worker s) \<and> id_valid (sn_boot s) then
                  (case fence_worker (sn_worker s) (sn_boot s) (sn_epoch s) why (co_engine co) of
                     (fenced, st) \<Rightarrow>
                       let co = co\<lparr>co_engine := st\<rparr> in
                       if allowed fenced
                       then tally (\<lambda>t. t\<lparr>ct_worker_fences := ct_worker_fences t + 1\<rparr>) co else co)
                else co) in
      tally (\<lambda>t. t\<lparr>ct_sessions_closed := ct_sessions_closed t + 1\<rparr>)
        (set_session i (\<lambda>s. s\<lparr>sn_open := False, sn_registered := False\<rparr>) co))"

definition close_session :: "nat \<Rightarrow> string \<Rightarrow> coordinator \<Rightarrow> coordinator" where
  "close_session i why co = fence_session i why co"

definition new_session :: "u64 \<Rightarrow> protocol_limits \<Rightarrow> session" where
  "new_session i limits = \<lparr>sn_id = i, sn_open = True, sn_decoder = new_decoder limits, sn_worker = 0,
     sn_boot = 0, sn_epoch = 0, sn_hello_seen = False, sn_registered = False\<rparr>"

text \<open>One element per pending connection: whether it could be made blocking.\<close>

fun accept_ready :: "bool list \<Rightarrow> coordinator \<Rightarrow> coordinator" where
  "accept_ready [] co = co"
| "accept_ready (blocking # rest) co =
     accept_ready rest
       (if \<not> blocking then rejected_frame co
        else if lm_max_connections (co_limits co) \<le> length (co_sessions co) then rejected_frame co
        else tally (\<lambda>t. t\<lparr>ct_connections_accepted := ct_connections_accepted t + 1\<rparr>)
          (co\<lparr>co_sessions := co_sessions co @
             [new_session (of_nat (length (co_sessions co) + 1)) (co_limits co)]\<rparr>))"

section \<open>Dispatch\<close>

definition command_of :: "attempt \<Rightarrow> command_message" where
  "command_of a = \<lparr>cd_kind = ap_kind a, cd_attempt = ap_id a, cd_model = ap_model a,
     cd_version = ap_version a, cd_model_generation = ap_model_generation a,
     cd_artifact_generation = ap_artifact_generation a, cd_scope = ap_scope a,
     cd_rollout = ap_rollout a, cd_rollout_generation = ap_rollout_generation a,
     cd_detail = ap_detail a\<rparr>"

definition backpressure :: "coordinator \<Rightarrow> coordinator" where
  "backpressure = tally (\<lambda>t. t\<lparr>ct_dispatch_backpressure := ct_dispatch_backpressure t + 1\<rparr>)"

definition dispatch_attempt :: "attempt \<Rightarrow> nat \<times> coordinator \<Rightarrow> nat \<times> coordinator" where
  "dispatch_attempt a = (\<lambda>(n, co).
     if ap_state a \<noteq> AS_Dispatched then (n, co)
     else if ap_id a \<in> set (co_dispatched co) then (n, co)
     else case session_for_worker (ap_worker a) (ap_boot a) co of
         None \<Rightarrow> (n, co)
       | Some s \<Rightarrow>
           (case encode_command (co_limits co) (command_of a) of
              Inl _ \<Rightarrow> (n, backpressure co)
            | Inr payload \<Rightarrow>
                (case send_frame s MT_COMMAND payload co of
                   (False, co) \<Rightarrow> (n, backpressure co)
                 | (True, co) \<Rightarrow>
                     (n + 1, tally (\<lambda>t. t\<lparr>ct_commands_dispatched := ct_commands_dispatched t + 1\<rparr>)
                        (co\<lparr>co_dispatched := co_dispatched co @ [ap_id a]\<rparr>)))))"

definition dispatch_pending :: "coordinator \<Rightarrow> nat \<times> coordinator" where
  "dispatch_pending co = fold dispatch_attempt (all_attempts (co_engine co)) (0, co)"

section \<open>Starting and stopping\<close>

text \<open>\<open>bind\<close> is what listening gave, an error or a port; \<open>unblock\<close> the error of making it non-blocking.\<close>

definition recover :: "coordinator \<Rightarrow> string + coordinator" where
  "recover co =
     (let config = co_config co in
      if cc_state_path config = [] then Inr co
      else case load_durable_state (cc_state_path config)
          (decode_limits_from_bounds (ec_bounds (cc_engine config))) (w_disk (co_world co)) of
        Inr loaded \<Rightarrow>
          (case import_durable_state (cc_engine config) loaded (next_generation (ds_epoch loaded)) (co_engine co) of
             (restored, st) \<Rightarrow>
               if \<not> allowed restored then Inl (''durable state was rejected: '' @ render_decision restored)
               else Inr (tally (\<lambda>t. t\<lparr>ct_recoveries := ct_recoveries t + 1\<rparr>)
                 (co\<lparr>co_engine := invalidate_volatile_state ''coordinator restart'' st\<rparr>)))
      | Inl (status, detail_text) \<Rightarrow>
          if status = SS_IoError then Inr co
          else if cc_refuse_corrupt config then
            Inl (''durable state could not be loaded ('' @ to_string_store_status status @ ''): '' @ detail_text)
          else Inr co)"

definition start :: "string + u16 \<Rightarrow> string option \<Rightarrow> coordinator \<Rightarrow> string option \<times> coordinator" where
  "start bind unblock co =
     (if co_running co then (None, co)
      else case recover co of
          Inl e \<Rightarrow> (Some e, co)
        | Inr co \<Rightarrow>
            (case bind of
               Inl e \<Rightarrow> (Some (''coordinator could not bind: '' @ e), co)
             | Inr port \<Rightarrow>
                 let co = co\<lparr>co_listening := True, co_port := port\<rparr> in
                 case unblock of
                   Some e \<Rightarrow> (Some (''listener could not be made non-blocking: '' @ e), co)
                 | None \<Rightarrow> (None, co\<lparr>co_running := True, co_last_saved := st_sequence (co_engine co)\<rparr>)))"

definition stop :: "coordinator \<Rightarrow> coordinator" where
  "stop co = co\<lparr>co_running := False, co_sessions := [], co_listening := False\<rparr>"

end
