(* ===== verification/Mlf_Handlers.thy ===== *)
theory Mlf_Handlers
  imports Mlf_Coordinator
begin

text \<open>
  The frame handlers of src/coordinator.cpp and the poll loop over them. A handler decodes its
  message, runs one engine operation and builds a reply; \<open>answer\<close> is that shape, and the handlers
  below give the operation and the reply of each message type.
\<close>

section \<open>Replies with fields\<close>

definition reply_fields :: "(string \<times> string) list \<Rightarrow> reply \<Rightarrow> reply" where
  "reply_fields = fold (\<lambda>(key, value). reply_set key value)"

definition answer ::
  "nat \<Rightarrow> string \<Rightarrow> protocol_status + 'm \<Rightarrow> ('m \<Rightarrow> reply \<times> engine) \<Rightarrow> coordinator \<Rightarrow> coordinator" where
  "answer i malformed decoded act co =
     (case decoded of
        Inl _ \<Rightarrow> snd (send_reply i (rejected OC_Rejected (Prt ProtocolDecodeFailure) malformed) co)
      | Inr m \<Rightarrow> (case act m of (y, st) \<Rightarrow> snd (send_reply i y (co\<lparr>co_engine := st\<rparr>))))"

definition decided :: "decision \<times> engine \<Rightarrow> reply \<times> engine" where
  "decided r = (reply_from_decision (fst r), snd r)"

text \<open>The fields are added to a positive reply only.\<close>

definition granted :: "decision \<Rightarrow> (string \<times> string) list \<Rightarrow> reply" where
  "granted d entries = (if allowed d then reply_fields entries (reply_from_decision d) else reply_from_decision d)"

section \<open>Sessions announce themselves\<close>

definition handle_hello :: "nat \<Rightarrow> frame \<Rightarrow> coordinator \<Rightarrow> coordinator" where
  "handle_hello i f co =
     (case decode_hello (co_limits co) (f_payload f) of
        Inl _ \<Rightarrow> snd (send_reply i (rejected OC_Rejected (Prt ProtocolDecodeFailure)
          ''HELLO could not be decoded'') (rejected_frame co))
      | Inr hello \<Rightarrow>
          if sn_hello_seen (co_sessions co ! i) then
            snd (send_reply i (rejected OC_CONFLICT (Prt ProtocolDuplicateHello)
              ''HELLO was already received on this connection'') (rejected_frame co))
          else if hm_protocol_version hello \<noteq> lm_version (co_limits co) then
            close_session i ''unsupported protocol version''
              (snd (send_reply i (rejected OC_Rejected (Prt ProtocolUnsupportedVersion)
                ''protocol version is not supported'') (rejected_frame co)))
          else
            let co = set_session i (\<lambda>s. s\<lparr>sn_hello_seen := True, sn_worker := hm_worker hello,
                  sn_boot := hm_boot hello, sn_epoch := st_epoch (co_engine co)\<rparr>) co in
            snd (send_reply i (reply_fields
              [(''coordinator_epoch'', show_u64 (st_epoch (co_engine co))),
               (''protocol_version'', show_u64 (ucast (lm_version (co_limits co)))),
               (''role'', if id_valid (hm_worker hello) then ''worker'' else ''client'')]
              (new_reply OC_Accepted)) co))"

definition handle_register_worker :: "nat \<Rightarrow> frame \<Rightarrow> coordinator \<Rightarrow> coordinator" where
  "handle_register_worker i f co =
     (case decode_hello (co_limits co) (f_payload f) of
        Inl _ \<Rightarrow> snd (send_reply i (rejected OC_Rejected (Prt ProtocolDecodeFailure)
          ''registration could not be decoded'') (rejected_frame co))
      | Inr m \<Rightarrow>
          if \<not> sn_hello_seen (co_sessions co ! i) then
            snd (send_reply i (rejected OC_Rejected (Prt ProtocolInvalidTransition)
              ''REGISTER_WORKER before HELLO'') co)
          else
            (case register_worker (co_engine_config co) \<lparr>wg_id = hm_worker m, wg_boot = hm_boot m,
                wg_epoch = st_epoch (co_engine co), wg_scopes = hm_scopes m, wg_provenance = PV_Synthetic\<rparr>
                (co_engine co) of
               (d, st) \<Rightarrow>
                 let co = co\<lparr>co_engine := st\<rparr>;
                     co = (if allowed d then set_session i (\<lambda>s. s\<lparr>sn_worker := hm_worker m,
                             sn_boot := hm_boot m, sn_registered := True\<rparr>) co else co) in
                 snd (send_reply i (granted d
                   [(''worker_id'', show_u64 (hm_worker m)), (''worker_boot_id'', show_u64 (hm_boot m)),
                    (''coordinator_epoch'', show_u64 (st_epoch st))]) co)))"

section \<open>Registration and publication\<close>

definition on_register_scope :: "engine \<Rightarrow> register_scope_message \<Rightarrow> reply \<times> engine" where
  "on_register_scope st m =
     (case register_scope (rs_path m) st of
        (d, scope, st) \<Rightarrow>
          (granted d ([(''scope_id'', show_u64 scope), (''scope_path'', rs_path m)] @
             (case find (\<lambda>r. s_id r = scope) (all_scopes st) of
                None \<Rightarrow> []
              | Some r \<Rightarrow> [(''scope_generation'', show_u64 (s_generation r)),
                  (''scope_depth'', show_nat (s_depth r))])), st))"

definition on_register_model :: "engine_config \<Rightarrow> engine \<Rightarrow> register_model_message \<Rightarrow> reply \<times> engine" where
  "on_register_model cfg st m =
     (case register_model cfg (mm_name m) (mm_family m) (mm_provenance m) st of
        (d, model, st) \<Rightarrow> (granted d [(''model_id'', show_u64 model)], st))"

definition on_register_version :: "engine_config \<Rightarrow> engine \<Rightarrow> register_version_message \<Rightarrow> reply \<times> engine" where
  "on_register_version cfg st m =
     (case register_version cfg \<lparr>rv_model = rm_model m, rv_label = rm_label m, rv_artifact = rm_artifact m,
         rv_requirements = rm_requirements m, rv_predecessor = rm_predecessor m,
         rv_provenance = rm_provenance m\<rparr> st of
        (d, version, st) \<Rightarrow> (granted d [(''version_id'', show_u64 version)], st))"

definition on_publish_compatibility ::
  "engine_config \<Rightarrow> engine \<Rightarrow> publish_compatibility_message \<Rightarrow> reply \<times> engine" where
  "on_publish_compatibility cfg st m = decided (publish_compatibility cfg (pc_version m) (pc_environment m)
     (pc_outcome m) (pc_detail m) (pc_provenance m) st)"

text \<open>A health frame is published as residency, whatever kind it carries.\<close>

definition wire_evidence :: "message_type \<Rightarrow> session \<Rightarrow> publish_evidence_message \<Rightarrow> evidence_record" where
  "wire_evidence t s m = \<lparr>e_id = 0, e_generation = 0,
     e_kind = (if t = MT_PUBLISH_HEALTH then EK_ResidencyReady else pe_kind m), e_verdict = pe_verdict m,
     e_subject = empty_subject\<lparr>es_version := pe_version m, es_model_generation := pe_model_generation m,
       es_artifact_generation := pe_artifact_generation m, es_scope := pe_scope m,
       es_rollout := pe_rollout m, es_stage := pe_stage m\<rparr>,
     e_provenance = pe_provenance m, e_worker = sn_worker s, e_boot = sn_boot s, e_epoch = sn_epoch s,
     e_policy_generation = 0, e_value = pe_value m, e_unit = pe_unit m, e_tick = pe_tick m,
     e_detail = pe_detail m\<rparr>"

definition on_publish_evidence ::
  "message_type \<Rightarrow> session \<Rightarrow> engine \<Rightarrow> publish_evidence_message \<Rightarrow> reply \<times> engine" where
  "on_publish_evidence t s st m =
     (case engine_publish_evidence (wire_evidence t s m) st of
        (d, e, st) \<Rightarrow> (granted d [(''evidence_id'', show_u64 (e_id e)),
           (''evidence_generation'', show_u64 (e_generation e))], st))"

section \<open>Attempts\<close>

definition requested_kind :: "message_type \<Rightarrow> attempt_kind" where
  "requested_kind t =
     (if t = MT_REQUEST_WARM then AT_Warm else if t = MT_REQUEST_ACTIVATE then AT_Activate
      else if t = MT_REQUEST_DRAIN then AT_Drain else AT_Rollback)"

text \<open>An explicit performer wins; otherwise the requesting session's own lease performs.\<close>

definition performer_boot :: "session \<Rightarrow> attempt_request_message \<Rightarrow> coordinator \<Rightarrow> u64" where
  "performer_boot s m co =
     (let boot = (if id_valid (am_worker m) \<and> \<not> id_valid (am_boot m) then 0
                  else if id_valid (am_worker m) then am_boot m else sn_boot s) in
      if id_valid (am_worker m) \<and> \<not> id_valid boot then
        (case session_for_worker (am_worker m) 0 co of None \<Rightarrow> boot | Some owner \<Rightarrow> sn_boot owner)
      else boot)"

definition on_request :: "message_type \<Rightarrow> session \<Rightarrow> coordinator \<Rightarrow> attempt_request_message \<Rightarrow> reply \<times> engine" where
  "on_request t s co m =
     (case begin_attempt (co_engine_config co)
         \<lparr>aqr_kind = requested_kind t,
          aqr_worker = (if id_valid (am_worker m) then am_worker m else sn_worker s),
          aqr_boot = performer_boot s m co,
          aqr_epoch = (if id_valid (sn_epoch s) then sn_epoch s else st_epoch (co_engine co)),
          aqr_model = am_model m, aqr_version = am_version m, aqr_model_generation = am_model_generation m,
          aqr_artifact_generation = 0, aqr_scope = am_scope m, aqr_rollout = am_rollout m,
          aqr_rollout_generation = am_rollout_generation m, aqr_stage = am_stage m,
          aqr_stage_generation = am_stage_generation m, aqr_idempotent = am_idempotent m,
          aqr_detail = am_detail m\<rparr> (co_engine co) of
        (outcome, st) \<Rightarrow>
          (granted (ao_decision outcome) [(''attempt_id'', show_u64 (ao_attempt outcome))], st))"

definition on_completion :: "session \<Rightarrow> engine \<Rightarrow> completion_message \<Rightarrow> reply \<times> engine" where
  "on_completion s st m = decided (complete_attempt \<lparr>cm_attempt = cp_attempt m, cm_worker = sn_worker s,
     cm_boot = sn_boot s, cm_epoch = sn_epoch s, cm_success = cp_success m, cm_confirmed = cp_confirmed m,
     cm_detail = cp_detail m\<rparr> st)"

section \<open>Queries\<close>

definition version_fields :: "version_record \<Rightarrow> (string \<times> string) list" where
  "version_fields r =
     [(''model_id'', show_u64 (vr_model r)), (''version_id'', show_u64 (vr_version r)),
      (''label'', vr_label r), (''model_generation'', show_u64 (vr_generation r)),
      (''lifecycle_state'', to_string_state (vr_state r)),
      (''lifecycle_generation'', show_u64 (vr_lifecycle_generation r)),
      (''artifact_generation'', show_u64 (ab_generation (vr_artifact r))),
      (''artifact_digest'', ab_digest (vr_artifact r)),
      (''compatibility_generation'', show_u64 (vr_compatibility_generation r)),
      (''promotion_id'', show_u64 (vr_last_promotion r)), (''rollout_id'', show_u64 (vr_rollout r)),
      (''rollout_generation'', show_u64 (vr_rollout_generation r)),
      (''current_stage_id'', show_u64 (vr_current_stage r)),
      (''current_stage_generation'', show_u64 (vr_current_stage_generation r))]"

definition scope_fields :: "engine \<Rightarrow> u64 \<Rightarrow> (string \<times> string) list" where
  "scope_fields st scope =
     (let a = query_authority st scope in
      [(''scope'', scope_path st scope), (''authority_outcome'', to_string_outcome (aq_outcome a))] @
      (case aq_binding a of
         None \<Rightarrow> []
       | Some b \<Rightarrow> [(''authoritative_version_id'', show_u64 (b_version b)),
           (''authoritative_model_generation'', show_u64 (b_model_generation b))]))"

definition stats_fields :: "engine \<Rightarrow> (string \<times> string) list" where
  "stats_fields st =
     (let t = stats st in
      [(''models'', show_nat (ss_models t)), (''versions'', show_nat (ss_versions t)),
       (''scopes'', show_nat (ss_scopes t)), (''rollouts'', show_nat (ss_rollouts t)),
       (''evidence_records'', show_nat (ss_evidence t)),
       (''evidence_dropped'', show_u64 (ss_evidence_dropped t)),
       (''authority_bindings'', show_nat (ss_authority_bindings t)),
       (''compatibility_facts'', show_nat (ss_compatibility_facts t)),
       (''workers'', show_nat (ss_workers t)), (''attempts'', show_nat (ss_attempts t)),
       (''committed_promotions'', show_nat (ss_committed_promotions t)),
       (''committed_rollbacks'', show_nat (ss_committed_rollbacks t)),
       (''policy_generation'', show_u64 (policy_generation st))])"

definition on_query_state :: "engine \<Rightarrow> query_state_message \<Rightarrow> reply \<times> engine" where
  "on_query_state st m =
     (reply_fields
        ([(''coordinator_epoch'', show_u64 (st_epoch st)), (''sequence'', show_u64 (st_sequence st)),
          (''snapshot_generation'', show_u64 (st_snapshot_generation st))] @
         (if id_valid (qs_version m) then
            (case find (\<lambda>r. vr_version r = qs_version m) (all_versions st) of
               None \<Rightarrow> [] | Some r \<Rightarrow> version_fields r)
          else []) @
         (if id_valid (qs_scope m) then scope_fields st (qs_scope m) else []) @ stats_fields st)
        (new_reply OC_Ok), st)"

definition on_query_authority :: "engine \<Rightarrow> query_authority_message \<Rightarrow> reply \<times> engine" where
  "on_query_authority st m =
     (let a = query_authority st (qa_scope m) in
      (fold (\<lambda>r. reply_add (r_code r) (r_detail r)) (x_reasons (aq_explanation a))
        (reply_fields
          ([(''scope'', scope_path st (qa_scope m)), (''scope_generation'', show_u64 (aq_scope_generation a)),
            (''inherited'', if aq_inherited a then ''yes'' else ''no'')] @
           (case aq_binding a of
              None \<Rightarrow> []
            | Some b \<Rightarrow> [(''model_id'', show_u64 (b_model b)), (''version_id'', show_u64 (b_version b)),
                (''model_generation'', show_u64 (b_model_generation b)),
                (''artifact_set_id'', show_u64 (b_artifact_set b)),
                (''artifact_generation'', show_u64 (b_artifact_generation b)),
                (''authority_kind'', to_string_authority_kind (b_kind b)),
                (''rollout_id'', show_u64 (b_rollout b)),
                (''rollout_generation'', show_u64 (b_rollout_generation b)),
                (''granted_sequence'', show_u64 (b_granted_sequence b))]) @
           [(''canary_overlays'', show_nat (length (aq_overlays a))),
            (''rollback_retained'', show_nat (length (aq_retained a)))])
          (new_reply (aq_outcome a))), st))"

section \<open>Promotion, rollout, retirement, rollback\<close>

definition or_current :: "u64 \<Rightarrow> coordinator \<Rightarrow> u64" where
  "or_current epoch co = (if id_valid epoch then epoch else st_epoch (co_engine co))"

definition or_owner :: "u64 \<Rightarrow> u64 \<Rightarrow> coordinator \<Rightarrow> u64" where
  "or_owner worker boot co =
     (if id_valid worker \<and> \<not> id_valid boot then
        (case session_for_worker worker 0 co of None \<Rightarrow> boot | Some owner \<Rightarrow> sn_boot owner)
      else boot)"

definition on_promote :: "coordinator \<Rightarrow> promotion_request \<Rightarrow> reply \<times> engine" where
  "on_promote co q =
     (case promote (co_engine_config co) (q\<lparr>pq_epoch := or_current (pq_epoch q) co,
         pq_boot := or_owner (pq_worker q) (pq_boot q) co\<rparr>) (co_engine co) of
        (outcome, st) \<Rightarrow>
          (granted (po_decision outcome) [(''promotion_id'', show_u64 (po_promotion outcome)),
             (''promotion_generation'', show_u64 (po_promotion_generation outcome))], st))"

definition on_rollout_plan :: "coordinator \<Rightarrow> rollout_plan_request \<Rightarrow> reply \<times> engine" where
  "on_rollout_plan co q =
     (case create_rollout (co_engine_config co) (q\<lparr>nq_epoch := or_current (nq_epoch q) co\<rparr>) (co_engine co) of
        (d, rollout, generation, st) \<Rightarrow>
          (granted d [(''rollout_id'', show_u64 rollout), (''rollout_generation'', show_u64 generation)], st))"

definition on_progress :: "message_type \<Rightarrow> coordinator \<Rightarrow> progress_request \<Rightarrow> reply \<times> engine" where
  "on_progress t co q =
     (let q = q\<lparr>xq_epoch := or_current (xq_epoch q) co, xq_boot := or_owner (xq_worker q) (xq_boot q) co\<rparr> in
      decided ((if t = MT_BEGIN_ROLLOUT then begin_rollout
                else if t = MT_ADVANCE_STAGE then advance_stage else fail_stage) q (co_engine co)))"

definition on_retire :: "coordinator \<Rightarrow> retirement_request \<Rightarrow> reply \<times> engine" where
  "on_retire co q = decided (retire (q\<lparr>tq_epoch := or_current (tq_epoch q) co\<rparr>) (co_engine co))"

definition on_rollback :: "coordinator \<Rightarrow> rollback_request \<Rightarrow> reply \<times> engine" where
  "on_rollback co q =
     (case rollback (q\<lparr>kq_epoch := or_current (kq_epoch q) co\<rparr>) (co_engine co) of
        (outcome, st) \<Rightarrow>
          (granted (ko_decision outcome) [(''rollback_id'', show_u64 (ko_rollback outcome)),
             (''rollback_generation'', show_u64 (ko_rollback_generation outcome))], st))"

definition on_supersede :: "engine \<Rightarrow> supersede_message \<Rightarrow> reply \<times> engine" where
  "on_supersede st m = decided (engine_supersede_rollout (su_rollout m) (su_generation m) (st_epoch st) (su_detail m) st)"

section \<open>Reconciliation\<close>

definition observation_of :: "evidence_record \<Rightarrow> residency_observation" where
  "observation_of e = \<lparr>so_model = es_model (e_subject e), so_version = es_version (e_subject e),
     so_model_generation = es_model_generation (e_subject e),
     so_artifact_generation = es_artifact_generation (e_subject e), so_scope = es_scope (e_subject e),
     so_generation = e_generation e, so_resident = (e_verdict e = EV_Satisfied),
     so_ready = (e_verdict e = EV_Satisfied), so_replica = 0, so_replica_generation = 0,
     so_boot = e_boot e, so_provenance = e_provenance e\<rparr>"

definition reconciliation_of :: "coordinator \<Rightarrow> reconciliation_input" where
  "reconciliation_of co = \<lparr>ri_replicas = [],
     ri_residency = map observation_of
       (filter (\<lambda>e. e_kind e = EK_Readiness \<or> e_kind e = EK_ResidencyReady) (all_evidence (co_engine co))),
     ri_live_workers = map sn_worker (filter sn_registered (co_sessions co)),
     ri_worker_liveness_known = (co_sessions co \<noteq> [])\<rparr>"

definition reconcile_reply :: "coordinator \<Rightarrow> reply" where
  "reconcile_reply co =
     (let findings = reconcile (reconciliation_of co) (co_engine co) in
      fold (\<lambda>f. reply_add (fi_reason f) (fi_detail f)) findings
        (reply_fields ((''findings'', show_nat (length findings)) #
           map (\<lambda>(n, f). (''finding_'' @ show_nat n, to_string_finding (fi_kind f)))
             (enumerate 0 (take 16 findings)))
           (new_reply (if findings = [] then OC_Ok else OC_RECONCILIATION_REQUIRED))))"

section \<open>Fencing\<close>

definition handle_fence :: "nat \<Rightarrow> frame \<Rightarrow> coordinator \<Rightarrow> coordinator" where
  "handle_fence i f co =
     (case decode_fence (co_limits co) (f_payload f) of
        Inl _ \<Rightarrow> snd (send_reply i (rejected OC_Rejected (Prt ProtocolDecodeFailure) ''FENCE is malformed'') co)
      | Inr m \<Rightarrow>
          (case fence_worker (fm_worker m) (fm_boot m) (st_epoch (co_engine co)) (fm_reason m) (co_engine co) of
             (d, st) \<Rightarrow>
               let co = snd (send_reply i (reply_from_decision d) (co\<lparr>co_engine := st\<rparr>));
                   hit = (\<lambda>s. sn_open s \<and> sn_worker s = fm_worker m) in
               if \<not> allowed d then co
               else tally (\<lambda>t. t\<lparr>ct_sessions_closed := ct_sessions_closed t +
                        of_nat (length (filter hit (co_sessions co)))\<rparr>)
                 (co\<lparr>co_sessions := map (\<lambda>s. if hit s then s\<lparr>sn_open := False\<rparr> else s) (co_sessions co)\<rparr>)))"

section \<open>Frames\<close>

definition durable_frames :: "message_type list" where
  "durable_frames = [MT_REGISTER_WORKER, MT_REGISTER_SCOPE, MT_REGISTER_MODEL, MT_REGISTER_VERSION,
     MT_PUBLISH_COMPATIBILITY, MT_PUBLISH_READINESS, MT_PUBLISH_HEALTH, MT_REQUEST_WARM,
     MT_REQUEST_ACTIVATE, MT_REQUEST_DRAIN, MT_REQUEST_ROLLBACK, MT_ACK_ATTEMPT, MT_PUBLISH_COMPLETION,
     MT_FENCE, MT_PROMOTE, MT_REGISTER_ROLLOUT_PLAN, MT_BEGIN_ROLLOUT, MT_ADVANCE_STAGE, MT_FAIL_STAGE,
     MT_RETIRE, MT_REVALIDATE, MT_ROLLBACK, MT_SUPERSEDE_ROLLOUT]"

text \<open>The second switch, with the frames it does not list under the default.\<close>

definition dispatch_frame :: "nat \<Rightarrow> frame \<Rightarrow> coordinator \<Rightarrow> coordinator" where
  "dispatch_frame i f co =
     (let limits = co_limits co; cfg = co_engine_config co; st = co_engine co; s = co_sessions co ! i;
          data = f_payload f; t = f_type f;
          unknown = snd (send_reply i (rejected OC_Rejected (Prt ProtocolUnknownType) (to_string_message t))
            (rejected_frame co)) in
      case t of
        MT_HELLO \<Rightarrow> handle_hello i f co
      | MT_REGISTER_WORKER \<Rightarrow> handle_register_worker i f co
      | MT_REGISTER_SCOPE \<Rightarrow>
          answer i ''REGISTER_SCOPE could not be decoded'' (decode_register_scope limits data) (on_register_scope st) co
      | MT_REGISTER_MODEL \<Rightarrow>
          answer i ''REGISTER_MODEL could not be decoded'' (decode_register_model limits data) (on_register_model cfg st) co
      | MT_REGISTER_VERSION \<Rightarrow>
          answer i ''REGISTER_VERSION could not be decoded'' (decode_register_version limits data) (on_register_version cfg st) co
      | MT_PUBLISH_COMPATIBILITY \<Rightarrow>
          answer i ''PUBLISH_COMPATIBILITY is malformed'' (decode_publish_compatibility limits data)
            (on_publish_compatibility cfg st) co
      | MT_PUBLISH_READINESS \<Rightarrow>
          answer i ''evidence frame is malformed'' (decode_publish_evidence limits data) (on_publish_evidence t s st) co
      | MT_PUBLISH_HEALTH \<Rightarrow>
          answer i ''evidence frame is malformed'' (decode_publish_evidence limits data) (on_publish_evidence t s st) co
      | MT_REQUEST_WARM \<Rightarrow> answer i ''request is malformed'' (decode_attempt_request limits data) (on_request t s co) co
      | MT_REQUEST_ACTIVATE \<Rightarrow> answer i ''request is malformed'' (decode_attempt_request limits data) (on_request t s co) co
      | MT_REQUEST_DRAIN \<Rightarrow> answer i ''request is malformed'' (decode_attempt_request limits data) (on_request t s co) co
      | MT_REQUEST_ROLLBACK \<Rightarrow> answer i ''request is malformed'' (decode_attempt_request limits data) (on_request t s co) co
      | MT_PUBLISH_COMPLETION \<Rightarrow> answer i ''completion is malformed'' (decode_completion limits data) (on_completion s st) co
      | MT_ACK_ATTEMPT \<Rightarrow> answer i ''completion is malformed'' (decode_completion limits data) (on_completion s st) co
      | MT_QUERY_STATE \<Rightarrow> answer i ''QUERY_STATE is malformed'' (decode_query_state limits data) (on_query_state st) co
      | MT_QUERY_AUTHORITY \<Rightarrow>
          answer i ''QUERY_AUTHORITY is malformed'' (decode_query_authority limits data) (on_query_authority st) co
      | MT_FENCE \<Rightarrow> handle_fence i f co
      | MT_PROMOTE \<Rightarrow> answer i ''PROMOTE is malformed'' (decode_promotion limits data) (on_promote co) co
      | MT_REGISTER_ROLLOUT_PLAN \<Rightarrow>
          answer i ''plan is malformed'' (decode_rollout_plan limits data) (on_rollout_plan co) co
      | MT_BEGIN_ROLLOUT \<Rightarrow> answer i ''progress request is malformed'' (decode_progress limits data) (on_progress t co) co
      | MT_ADVANCE_STAGE \<Rightarrow> answer i ''progress request is malformed'' (decode_progress limits data) (on_progress t co) co
      | MT_FAIL_STAGE \<Rightarrow> answer i ''progress request is malformed'' (decode_progress limits data) (on_progress t co) co
      | MT_RETIRE \<Rightarrow> answer i ''RETIRE is malformed'' (decode_retire limits data) (on_retire co) co
      | MT_REVALIDATE \<Rightarrow>
          answer i ''REVALIDATE is malformed'' (decode_revalidate limits data) (\<lambda>q. decided (revalidate q st)) co
      | MT_ROLLBACK \<Rightarrow> answer i ''ROLLBACK is malformed'' (decode_rollback limits data) (on_rollback co) co
      | MT_SUPERSEDE_ROLLOUT \<Rightarrow>
          answer i ''SUPERSEDE_ROLLOUT is malformed'' (decode_supersede limits data) (on_supersede st) co
      | MT_RECONCILE \<Rightarrow> snd (send_reply i (reconcile_reply co) co)
      | MT_HELLO_ACK \<Rightarrow> unknown | MT_REPLY \<Rightarrow> unknown | MT_COMMAND \<Rightarrow> unknown)"

text \<open>Frames that can change durable state ask for a save before their acknowledgement.\<close>

definition handle_frame :: "nat \<Rightarrow> frame \<Rightarrow> coordinator \<Rightarrow> coordinator" where
  "handle_frame i f co = dispatch_frame i f (co\<lparr>co_pending := f_type f \<in> set durable_frames\<rparr>)"

section \<open>Serving\<close>

definition framing_violation :: "nat \<Rightarrow> protocol_status \<Rightarrow> coordinator \<Rightarrow> coordinator" where
  "framing_violation i status co =
     close_session i ''framing violation''
       (snd (send_reply i (rejected (outcome_for status) (protocol_reason_for status)
          (to_string_protocol_status status)) (rejected_frame co)))"

text \<open>
  The loop over the frames that are complete. The decoder is held beside the coordinator while the
  loop runs and put back into the session when it ends; no handler looks at it.
\<close>

definition put_decoder :: "nat \<Rightarrow> frame_decoder \<Rightarrow> coordinator \<Rightarrow> coordinator" where
  "put_decoder i d = set_session i (\<lambda>s. s\<lparr>sn_decoder := d\<rparr>)"

definition unread :: "frame_decoder \<Rightarrow> nat" where
  "unread d = length (fd_buffer d) - fd_position d"

lemma decoder_next_progress:
  "decoder_next d = (Inr f, d') \<Longrightarrow> unread d' < unread d"
  by (auto simp: decoder_next_def unread_def decode_frame_def Let_def kFrameHeaderSize_def
      split: if_splits sum.splits option.splits)

function serve_frames :: "nat \<Rightarrow> frame_decoder \<Rightarrow> coordinator \<Rightarrow> coordinator" where
  "serve_frames i d co =
     (case decoder_next d of
        (Inr f, d') \<Rightarrow>
          let co = handle_frame i f (tally (\<lambda>t. t\<lparr>ct_frames_received := ct_frames_received t + 1\<rparr>) co) in
          if \<not> sn_open (co_sessions co ! i) then put_decoder i d' co else serve_frames i d' co
      | (Inl status, d') \<Rightarrow>
          if status = PS_NeedMoreData then put_decoder i d' co
          else framing_violation i status (put_decoder i d' co))"
  by pat_completeness auto
termination
  by (relation "measure (\<lambda>(i, d, co). unread d)") (auto dest: decoder_next_progress [OF sym])

declare serve_frames.simps [simp del]

definition service_session :: "nat \<Rightarrow> recv_event \<Rightarrow> coordinator \<Rightarrow> coordinator" where
  "service_session i event co =
     (if \<not> sn_open (co_sessions co ! i) then co
      else case event of
          Peer_Closed \<Rightarrow> close_session i ''peer closed the connection'' co
        | Recv_Failed \<Rightarrow> close_session i ''read error'' co
        | Received data \<Rightarrow>
            (case decoder_feed data (sn_decoder (co_sessions co ! i)) of
               (fed, d) \<Rightarrow>
                 if fed \<noteq> PS_Ok then framing_violation i fed (put_decoder i d co)
                 else serve_frames i d co))"

text \<open>
  One poll: what select reported, namely the pending connections and what each ready session reads.
  A connection accepted in this poll is not ready in it.
\<close>

record poll_input =
  pi_accepts :: "bool list"
  pi_reads :: "nat \<Rightarrow> recv_event option"

definition poll_session :: "(nat \<Rightarrow> recv_event option) \<Rightarrow> nat \<Rightarrow> coordinator \<Rightarrow> coordinator" where
  "poll_session reads i co =
     (if \<not> sn_open (co_sessions co ! i) then co
      else case reads i of None \<Rightarrow> co | Some event \<Rightarrow> service_session i event co)"

definition poll_once :: "poll_input option \<Rightarrow> coordinator \<Rightarrow> string option \<times> coordinator" where
  "poll_once input co =
     (if \<not> co_running co then (Some ''coordinator is not running'', co)
      else case input of
          None \<Rightarrow> (Some ''select() failed'', co)
        | Some p \<Rightarrow>
            let ready = length (co_sessions co);
                co = accept_ready (pi_accepts p) co;
                co = fold (poll_session (pi_reads p)) [0..<ready] co;
                co = co\<lparr>co_sessions := filter sn_open (co_sessions co)\<rparr> in
            persist_if_changed (snd (dispatch_pending co)))"

text \<open>The polls until one fails, the inputs end or the coordinator is stopped by a request.\<close>

fun run :: "poll_input option list \<Rightarrow> coordinator \<Rightarrow> string option \<times> coordinator" where
  "run [] co = (None, co)"
| "run (input # inputs) co =
     (if \<not> co_running co then (None, co)
      else case poll_once input co of
          (Some e, co) \<Rightarrow> (Some e, co)
        | (None, co) \<Rightarrow> run inputs co)"

end
