(* ===== verification/Mlf_Service.thy ===== *)
theory Mlf_Service
  imports Mlf_Handlers Mlf_State_File
begin

text \<open>
  What the coordinator guarantees. The engine it owns only ever runs engine operations, whatever
  bytes arrive on its sockets and whatever its state file holds; a change is acknowledged only
  after it was saved, when the change moved the sequence; an attempt is sent to a worker once.
\<close>

section \<open>Maps read from a file\<close>

lemma read_into_wf:
  "read_into get key val duplicate n m r = Inr (m', r') \<Longrightarrow> om_wf m \<Longrightarrow> om_wf m'"
  by (induction get key val duplicate n m r arbitrary: m' r' rule: read_into.induct)
     (auto split: sum.splits if_splits)

lemma read_authority_wf:
  "read_authority limits n m r = Inr (m', r') \<Longrightarrow> om_wf m \<Longrightarrow> om_wf m'"
  by (induction limits n m r arbitrary: m' r' rule: read_authority.induct)
     (auto split: sum.splits if_splits list.splits)

lemma read_section_maps:
  "read_section limits tag n ds r = Inr (ds', r') \<Longrightarrow> durable_maps ds \<Longrightarrow> durable_maps ds'"
  by (auto simp: read_section_def durable_maps_def read_header_def read_scopes_def read_policy_section_def
      read_models_def read_versions_def read_compatibility_def read_rollouts_def read_authority_section_def
      read_workers_def read_evidence_section_def read_attempts_def read_committed_def read_allocators_def Let_def
      dest: read_into_wf read_authority_wf split: option.splits store_section.splits sum.splits if_splits prod.splits)

lemma read_sections_maps:
  "read_sections limits seen ds r = Inr (ds', r') \<Longrightarrow> durable_maps ds \<Longrightarrow> durable_maps ds'"
proof (induction limits seen ds r arbitrary: ds' r' rule: read_sections.induct)
  case (1 limits seen ds r)
  note step = "1.prems"(1) [unfolded read_sections.simps [of limits seen ds r]]
  show ?case
  proof (cases "exhausted r \<or> \<not> r_ok r")
    case True
    then show ?thesis using step "1.prems"(2) by auto
  next
    case False
    obtain tag r1 where head: "get_u16 r = (tag, r1)" by fastforce
    obtain n r2 where num: "get_u32 r1 = (n, r2)" by fastforce
    from False step obtain ds1 r3 where one: "read_section limits tag n ds r2 = Inr (ds1, r3)"
      and others: "read_sections limits (seen + 1) ds1 r3 = Inr (ds', r')" and ok: "r_ok r2" "r_ok r3"
        "\<not> kSectionCount + 4 < seen + 1"
      by (auto simp: head num Let_def split: if_splits sum.splits prod.splits)
    have "durable_maps ds1" by (rule read_section_maps [OF one "1.prems"(2)])
    then show ?thesis
      using "1.IH" [OF False head [symmetric] refl num [symmetric] refl _ ok(3) one] others ok by auto
  qed
qed

lemma loaded_maps: "load_durable_state path limits files = Inr ds \<Longrightarrow> durable_maps ds"
proof -
  have "durable_maps (empty_durable_state\<lparr>ds_format_version := f\<rparr>)" for f
    by (simp add: durable_maps_def empty_durable_state_def om_wf_def)
  then show "load_durable_state path limits files = Inr ds \<Longrightarrow> durable_maps ds"
    by (auto simp: load_durable_state_def deserialize_durable_state_def Let_def
        dest: read_sections_maps split: option.splits if_splits prod.splits sum.splits)
qed

section \<open>What input and output leave alone\<close>

text \<open>The commands that were sent.\<close>

definition commands_sent :: "coordinator \<Rightarrow> frame list" where
  "commands_sent co = filter (\<lambda>f. f_type f = MT_COMMAND) (map snd (w_sent (co_world co)))"

lemma commands_world: "co_world co' = co_world co \<Longrightarrow> commands_sent co' = commands_sent co"
  by (simp add: commands_sent_def)

lemma make_frame_fields [simp]: "f_type (make_frame t p) = t" "f_payload (make_frame t p) = p"
  by (simp_all add: make_frame_def)

lemma tally_fields [simp]:
  "co_engine (tally f co) = co_engine co" "co_config (tally f co) = co_config co"
  "co_sessions (tally f co) = co_sessions co" "co_dispatched (tally f co) = co_dispatched co"
  "co_world (tally f co) = co_world co" "co_last_saved (tally f co) = co_last_saved co"
  "co_pending (tally f co) = co_pending co" "co_running (tally f co) = co_running co"
  by (simp_all add: tally_def)

lemma rejected_frame_fields [simp]:
  "co_engine (rejected_frame co) = co_engine co" "co_config (rejected_frame co) = co_config co"
  "co_sessions (rejected_frame co) = co_sessions co" "co_dispatched (rejected_frame co) = co_dispatched co"
  "co_world (rejected_frame co) = co_world co" "co_last_saved (rejected_frame co) = co_last_saved co"
  "co_pending (rejected_frame co) = co_pending co"
  by (simp_all add: rejected_frame_def)

lemma send_frame_fields [simp]:
  "co_engine (snd (send_frame s t payload co)) = co_engine co"
  "co_config (snd (send_frame s t payload co)) = co_config co"
  "co_sessions (snd (send_frame s t payload co)) = co_sessions co"
  "co_dispatched (snd (send_frame s t payload co)) = co_dispatched co"
  "co_last_saved (snd (send_frame s t payload co)) = co_last_saved co"
  "w_disk (co_world (snd (send_frame s t payload co))) = w_disk (co_world co)"
  by (auto simp: send_frame_def next_send_def split: sum.splits list.splits bool.splits prod.splits)

lemma commands_update [simp]:
  "commands_sent (co\<lparr>co_pending := b\<rparr>) = commands_sent co" "commands_sent (co\<lparr>co_engine := st\<rparr>) = commands_sent co"
  "commands_sent (co\<lparr>co_sessions := ss\<rparr>) = commands_sent co"
  "commands_sent (co\<lparr>co_dispatched := is\<rparr>) = commands_sent co"
  "commands_sent (tally t co) = commands_sent co" "commands_sent (rejected_frame co) = commands_sent co"
  by (rule commands_world; simp)+

lemma send_frame_commands:
  "commands_sent (snd (send_frame s t payload co)) = commands_sent co @
     (if fst (send_frame s t payload co) \<and> t = MT_COMMAND then [make_frame t payload] else [])"
  by (auto simp: send_frame_def next_send_def commands_sent_def tally_def rejected_frame_def
      split: sum.splits list.splits bool.splits prod.splits)

lemma send_encoded_fields [simp]:
  "co_engine (snd (send_encoded i y co)) = co_engine co"
  "co_config (snd (send_encoded i y co)) = co_config co"
  "co_sessions (snd (send_encoded i y co)) = co_sessions co"
  "co_dispatched (snd (send_encoded i y co)) = co_dispatched co"
  "w_disk (co_world (snd (send_encoded i y co))) = w_disk (co_world co)"
  "commands_sent (snd (send_encoded i y co)) = commands_sent co"
  by (simp_all add: send_encoded_def send_frame_commands split: sum.splits)

lemma persist_fields [simp]:
  "co_engine (snd (persist co)) = co_engine co" "co_config (snd (persist co)) = co_config co"
  "co_sessions (snd (persist co)) = co_sessions co" "co_dispatched (snd (persist co)) = co_dispatched co"
  "w_sent (co_world (snd (persist co))) = w_sent (co_world co)"
  by (auto simp: persist_def next_fault_def Let_def split: prod.splits option.splits list.splits)

lemma persist_if_changed_fields [simp]:
  "co_engine (snd (persist_if_changed co)) = co_engine co"
  "co_config (snd (persist_if_changed co)) = co_config co"
  "co_sessions (snd (persist_if_changed co)) = co_sessions co"
  "co_dispatched (snd (persist_if_changed co)) = co_dispatched co"
  "w_sent (co_world (snd (persist_if_changed co))) = w_sent (co_world co)"
  by (auto simp: persist_if_changed_def)

lemma persist_commands [simp]: "commands_sent (snd (persist_if_changed co)) = commands_sent co"
  by (simp add: commands_sent_def)

lemma send_reply_fields [simp]:
  "co_engine (snd (send_reply i y co)) = co_engine co" "co_config (snd (send_reply i y co)) = co_config co"
  "co_sessions (snd (send_reply i y co)) = co_sessions co"
  "co_dispatched (snd (send_reply i y co)) = co_dispatched co"
  "commands_sent (snd (send_reply i y co)) = commands_sent co"
  using persist_if_changed_fields [of "co\<lparr>co_pending := False\<rparr>"] persist_commands [of "co\<lparr>co_pending := False\<rparr>"]
  by (auto simp: send_reply_def Let_def send_frame_commands simp del: persist_if_changed_fields persist_commands
      split: prod.splits option.splits sum.splits)

section \<open>The engine behind the sockets\<close>

text \<open>
  One coordinator step after another: the configuration stays, no command is sent, and the engine
  runs its operations.
\<close>

definition same_sent :: "coordinator \<Rightarrow> coordinator \<Rightarrow> bool" where
  "same_sent co co' \<longleftrightarrow> co_config co' = co_config co \<and> co_dispatched co' = co_dispatched co \<and>
     commands_sent co' = commands_sent co"

declare same_sent_def [simp]

definition serves :: "coordinator \<Rightarrow> coordinator \<Rightarrow> bool" where
  "serves co co' \<longleftrightarrow> same_sent co co' \<and>
     (\<exists>cs. co_engine co' = fold (run_command (co_engine_config co)) cs (co_engine co))"

lemma serves_same: "same_sent co co' \<Longrightarrow> co_engine co' = co_engine co \<Longrightarrow> serves co co'"
  unfolding serves_def by (rule conjI, assumption, rule exI [of _ "[]"]) simp

lemma serves_refl [simp]: "serves co co"
  by (simp add: serves_same same_sent_def)

lemma serves_command:
  assumes "same_sent co co'" and "co_engine co' = run_command (co_engine_config co) c (co_engine co)"
  shows "serves co co'"
  unfolding serves_def by (rule conjI [OF assms(1)], rule exI [of _ "[c]"]) (simp add: assms(2))

lemma serves_trans [trans]: "serves a b \<Longrightarrow> serves b c \<Longrightarrow> serves a c"
proof -
  assume ab: "serves a b" and bc: "serves b c"
  have config: "co_config b = co_config a" using ab by (simp add: serves_def)
  obtain cs where cs: "co_engine b = fold (run_command (co_engine_config a)) cs (co_engine a)"
    using ab unfolding serves_def by blast
  obtain ds where "co_engine c = fold (run_command (co_engine_config b)) ds (co_engine b)"
    using bc unfolding serves_def by blast
  then have "co_engine c = fold (run_command (co_engine_config a)) (cs @ ds) (co_engine a)"
    by (simp add: cs config)
  moreover have "same_sent a c" using ab bc by (simp add: serves_def)
  ultimately show "serves a c" unfolding serves_def by blast
qed

lemma serves_fold: "(\<And>x co. serves co (f x co)) \<Longrightarrow> serves co (fold f xs co)"
  by (induction xs arbitrary: co) (auto intro: serves_trans)

lemma set_session_fields [simp]:
  "co_engine (set_session i f co) = co_engine co" "co_config (set_session i f co) = co_config co"
  "co_dispatched (set_session i f co) = co_dispatched co" "co_world (set_session i f co) = co_world co"
  "co_last_saved (set_session i f co) = co_last_saved co" "co_pending (set_session i f co) = co_pending co"
  "commands_sent (set_session i f co) = commands_sent co"
  by (simp_all add: set_session_def)

lemma serves_reply: "serves co (snd (send_reply i y co))"
  by (simp add: serves_same)

lemma serves_fence_session: "serves co (fence_session i why co)"
proof (cases "id_valid (sn_worker (co_sessions co ! i)) \<and> id_valid (sn_boot (co_sessions co ! i))")
  case True
  let ?s = "co_sessions co ! i"
  have "co_engine (fence_session i why co) =
      run_command (co_engine_config co) (Fence_Worker (sn_worker ?s) (sn_boot ?s) (sn_epoch ?s) why) (co_engine co)"
    using True by (auto simp: fence_session_def Let_def split: prod.splits)
  moreover have "same_sent co (fence_session i why co)"
    by (auto simp: fence_session_def Let_def split: prod.splits)
  ultimately show ?thesis by (intro serves_command)
qed (auto simp: fence_session_def Let_def intro: serves_same)

text \<open>A handler whose operation is one command of the engine.\<close>

definition one_command :: "engine_config \<Rightarrow> engine \<Rightarrow> ('m \<Rightarrow> reply \<times> engine) \<Rightarrow> bool" where
  "one_command cfg st act \<longleftrightarrow> (\<forall>m. snd (act m) = st \<or> (\<exists>c. snd (act m) = run_command cfg c st))"

lemma serves_answer:
  assumes "one_command (co_engine_config co) (co_engine co) act"
  shows "serves co (answer i malformed decoded act co)"
proof (cases decoded)
  case (Inr m)
  have "same_sent co (answer i malformed decoded act co)"
    and "co_engine (answer i malformed decoded act co) = snd (act m)"
    by (simp_all add: answer_def Inr split: prod.splits)
  then show ?thesis
    using assms unfolding one_command_def by (metis serves_command serves_same)
qed (simp add: answer_def serves_reply)

lemma one_commandI: "(\<And>m. snd (act m) = run_command cfg (c m) st) \<Longrightarrow> one_command cfg st act"
  unfolding one_command_def by blast

lemma one_command_handlers:
  "one_command cfg st (on_register_scope st)" "one_command cfg st (on_register_model cfg st)"
  "one_command cfg st (on_register_version cfg st)" "one_command cfg st (on_publish_compatibility cfg st)"
  "one_command cfg st (on_publish_evidence t s st)" "one_command cfg st (on_completion s st)"
  "one_command cfg st (on_query_state st)" "one_command cfg st (on_query_authority st)"
  "one_command cfg st (on_supersede st)" "one_command cfg st (\<lambda>q. decided (revalidate q st))"
proof -
  show "one_command cfg st (on_register_scope st)"
    by (rule one_commandI [of _ _ "\<lambda>m. Register_Scope (rs_path m)"]) (simp add: on_register_scope_def split: prod.splits)
  show "one_command cfg st (on_register_model cfg st)"
    by (rule one_commandI [of _ _ "\<lambda>m. Register_Model (mm_name m) (mm_family m) (mm_provenance m)"])
       (simp add: on_register_model_def split: prod.splits)
  show "one_command cfg st (on_register_version cfg st)"
    by (rule one_commandI [of _ _ "\<lambda>m. Register_Version \<lparr>rv_model = rm_model m, rv_label = rm_label m,
          rv_artifact = rm_artifact m, rv_requirements = rm_requirements m, rv_predecessor = rm_predecessor m,
          rv_provenance = rm_provenance m\<rparr>"]) (simp add: on_register_version_def split: prod.splits)
  show "one_command cfg st (on_publish_compatibility cfg st)"
    by (rule one_commandI [of _ _ "\<lambda>m. Publish_Compatibility (pc_version m) (pc_environment m) (pc_outcome m)
          (pc_detail m) (pc_provenance m)"]) (simp add: on_publish_compatibility_def decided_def)
  show "one_command cfg st (on_publish_evidence t s st)"
    by (rule one_commandI [of _ _ "\<lambda>m. Publish_Evidence (wire_evidence t s m)"])
       (simp add: on_publish_evidence_def split: prod.splits)
  show "one_command cfg st (on_supersede st)"
    by (rule one_commandI [of _ _ "\<lambda>m. Supersede_Rollout (su_rollout m) (su_generation m) (st_epoch st) (su_detail m)"])
       (simp add: on_supersede_def decided_def)
  show "one_command cfg st (\<lambda>q. decided (revalidate q st))"
    by (rule one_commandI [of _ _ Revalidate]) (simp add: decided_def)
  show "one_command cfg st (on_completion s st)"
    unfolding one_command_def on_completion_def decided_def by (metis run_command.simps(23) snd_conv)
qed (simp_all add: one_command_def on_query_state_def on_query_authority_def Let_def)

text \<open>Those that also look at the sessions.\<close>

lemma one_command_session_handlers:
  "one_command (co_engine_config co) (co_engine co) (on_request t s co)"
  "one_command (co_engine_config co) (co_engine co) (on_promote co)"
  "one_command (co_engine_config co) (co_engine co) (on_rollout_plan co)"
  "one_command (co_engine_config co) (co_engine co) (on_progress t co)"
  "one_command (co_engine_config co) (co_engine co) (on_retire co)"
  "one_command (co_engine_config co) (co_engine co) (on_rollback co)"
proof -
  let ?cfg = "co_engine_config co" and ?st = "co_engine co"
  show "one_command ?cfg ?st (on_request t s co)"
    unfolding one_command_def on_request_def
    by (clarsimp split: prod.splits) (metis run_command.simps(22) snd_conv)
  show "one_command ?cfg ?st (on_promote co)"
    unfolding one_command_def on_promote_def
    by (clarsimp split: prod.splits) (metis run_command.simps(13) snd_conv)
  show "one_command ?cfg ?st (on_rollout_plan co)"
    unfolding one_command_def on_rollout_plan_def
    by (clarsimp split: prod.splits) (metis run_command.simps(14) snd_conv)
  show "one_command ?cfg ?st (on_progress t co)"
    by (rule one_commandI [of _ _ "\<lambda>q. (if t = MT_BEGIN_ROLLOUT then Begin_Rollout
          else if t = MT_ADVANCE_STAGE then Advance_Stage else Fail_Stage)
          (q\<lparr>xq_epoch := or_current (xq_epoch q) co, xq_boot := or_owner (xq_worker q) (xq_boot q) co\<rparr>)"])
       (simp add: on_progress_def decided_def Let_def)
  show "one_command ?cfg ?st (on_retire co)"
    by (rule one_commandI [of _ _ "\<lambda>q. Retire (q\<lparr>tq_epoch := or_current (tq_epoch q) co\<rparr>)"])
       (simp add: on_retire_def decided_def)
  show "one_command ?cfg ?st (on_rollback co)"
    unfolding one_command_def on_rollback_def
    by (clarsimp split: prod.splits) (metis run_command.simps(19) snd_conv)
qed

lemmas serves_answers = one_command_handlers [THEN serves_answer] one_command_session_handlers [THEN serves_answer]

lemma serves_hello: "serves co (handle_hello i f co)"
proof (cases "decode_hello (co_limits co) (f_payload f)")
  case (Inr hello)
  have "serves co (close_session i why (snd (send_reply i y (rejected_frame co))))" for why y
    unfolding close_session_def
    by (rule serves_trans [OF serves_same serves_fence_session]) simp_all
  then show ?thesis by (auto simp: handle_hello_def Inr Let_def intro: serves_same)
qed (simp add: handle_hello_def serves_same)

lemma serves_register_worker: "serves co (handle_register_worker i f co)"
proof (cases "decode_hello (co_limits co) (f_payload f)")
  case (Inr m)
  let ?q = "\<lparr>wg_id = hm_worker m, wg_boot = hm_boot m, wg_epoch = st_epoch (co_engine co),
    wg_scopes = hm_scopes m, wg_provenance = PV_Synthetic\<rparr>"
  show ?thesis
  proof (cases "sn_hello_seen (co_sessions co ! i)")
    case True
    have "co_engine (handle_register_worker i f co) =
        run_command (co_engine_config co) (Register_Worker ?q) (co_engine co)"
      and "same_sent co (handle_register_worker i f co)"
      using True by (auto simp: handle_register_worker_def Inr Let_def split: prod.splits)
    then show ?thesis by (intro serves_command)
  qed (simp add: handle_register_worker_def Inr serves_same)
qed (simp add: handle_register_worker_def serves_same)

lemma serves_handle_fence: "serves co (handle_fence i f co)"
proof (cases "decode_fence (co_limits co) (f_payload f)")
  case (Inr m)
  have "co_engine (handle_fence i f co) = run_command (co_engine_config co)
      (Fence_Worker (fm_worker m) (fm_boot m) (st_epoch (co_engine co)) (fm_reason m)) (co_engine co)"
    and "same_sent co (handle_fence i f co)"
    by (auto simp: handle_fence_def Inr Let_def split: prod.splits)
  then show ?thesis by (intro serves_command)
qed (simp add: handle_fence_def serves_reply)

lemma serves_dispatch_frame: "serves co (dispatch_frame i f co)"
  by (cases "f_type f")
     (simp_all add: dispatch_frame_def Let_def serves_answers serves_hello serves_register_worker
       serves_handle_fence serves_reply serves_same)

lemma serves_handle_frame: "serves co (handle_frame i f co)"
  unfolding handle_frame_def by (rule serves_trans [OF serves_same serves_dispatch_frame]) simp_all

lemma serves_violation: "serves co (framing_violation i status co)"
  unfolding framing_violation_def close_session_def
  by (rule serves_trans [OF serves_same serves_fence_session]) simp_all

lemma serves_put_decoder: "serves co (put_decoder i d co)"
  by (simp add: put_decoder_def serves_same)

lemma serves_serve_frames: "serves co (serve_frames i d co)"
proof (induction i d co rule: serve_frames.induct)
  case (1 i d co)
  have handled: "serves co (handle_frame i f (tally t co))" for f t
    by (rule serves_trans [OF serves_same serves_handle_frame]) simp_all
  obtain r d' where next_one: "decoder_next d = (r, d')" by fastforce
  show ?case
  proof (cases r)
    case (Inl status)
    then show ?thesis
      by (subst serve_frames.simps)
         (simp add: next_one serves_put_decoder serves_trans [OF serves_put_decoder serves_violation])
  next
    case (Inr f)
    let ?c = "handle_frame i f (tally (\<lambda>t. t\<lparr>ct_frames_received := ct_frames_received t + 1\<rparr>) co)"
    have "serves ?c (serve_frames i d' ?c)" if "sn_open (co_sessions ?c ! i)"
      using "1.IH" [OF next_one [symmetric, unfolded Inr]] that by auto
    then show ?thesis
      using handled by (subst serve_frames.simps)
         (auto simp: next_one Inr Let_def intro: serves_trans [OF handled serves_put_decoder] serves_trans [OF handled])
  qed
qed

lemma serves_service_session: "serves co (service_session i event co)"
  by (auto simp: service_session_def close_session_def serves_fence_session serves_serve_frames
      intro: serves_trans [OF serves_put_decoder serves_violation] split: recv_event.splits prod.splits)

lemma serves_accept: "serves co (accept_ready bs co)"
proof (induction bs co rule: accept_ready.induct)
  case (2 blocking rest co)
  show ?case
    unfolding accept_ready.simps by (rule serves_trans [OF _ "2.IH"]) (auto intro: serves_same)
qed simp

section \<open>Dispatch\<close>

text \<open>The attempts marked as dispatched are distinct, and the commands sent are theirs, in order.\<close>

definition command_for :: "protocol_limits \<Rightarrow> frame \<Rightarrow> u64 \<Rightarrow> bool" where
  "command_for limits f i \<longleftrightarrow> (\<exists>a. ap_id a = i \<and> encode_command limits (command_of a) = Inr (f_payload f))"

definition dispatched_ok :: "coordinator \<Rightarrow> bool" where
  "dispatched_ok co \<longleftrightarrow> distinct (co_dispatched co) \<and>
     list_all2 (command_for (co_limits co)) (commands_sent co) (co_dispatched co)"

lemma dispatched_ok_same: "same_sent co co' \<Longrightarrow> dispatched_ok co' \<longleftrightarrow> dispatched_ok co"
  by (simp add: dispatched_ok_def)

lemma serves_dispatched: "serves co co' \<Longrightarrow> dispatched_ok co \<Longrightarrow> dispatched_ok co'"
  unfolding serves_def using dispatched_ok_same by blast

definition only_dispatches :: "coordinator \<Rightarrow> coordinator \<Rightarrow> bool" where
  "only_dispatches co co' \<longleftrightarrow> co_config co' = co_config co \<and> co_engine co' = co_engine co \<and>
     (dispatched_ok co \<longrightarrow> dispatched_ok co')"

lemma only_dispatches_sent:
  assumes "send_frame s MT_COMMAND payload co = (b, co')"
  shows "co_config co' = co_config co" and "co_engine co' = co_engine co"
    and "co_dispatched co' = co_dispatched co"
    and "commands_sent co' = commands_sent co @ (if b then [make_frame MT_COMMAND payload] else [])"
  using send_frame_fields [of s MT_COMMAND payload co] send_frame_commands [of s MT_COMMAND payload co] assms
  by simp_all

lemma dispatch_attempt_only: "only_dispatches co (snd (dispatch_attempt a (n, co)))"
proof (cases "ap_state a \<noteq> AS_Dispatched \<or> ap_id a \<in> set (co_dispatched co)")
  case False
  show ?thesis
  proof (cases "session_for_worker (ap_worker a) (ap_boot a) co")
    case (Some s)
    show ?thesis
    proof (cases "encode_command (co_limits co) (command_of a)")
      case (Inr payload)
      obtain b co' where sent: "send_frame s MT_COMMAND payload co = (b, co')" by fastforce
      note after = only_dispatches_sent [OF sent]
      have "command_for (co_limits co) (make_frame MT_COMMAND payload) (ap_id a)"
        using Inr by (auto simp: command_for_def)
      then show ?thesis
        using False Some Inr after
        by (cases b) (auto simp: dispatch_attempt_def backpressure_def sent only_dispatches_def dispatched_ok_def
            list_all2_append list_all2_lengthD)
    qed (use False Some in \<open>simp add: dispatch_attempt_def backpressure_def only_dispatches_def dispatched_ok_def\<close>)
  qed (use False in \<open>simp add: dispatch_attempt_def only_dispatches_def\<close>)
qed (auto simp: dispatch_attempt_def only_dispatches_def)

lemma dispatch_only: "only_dispatches co (snd (fold dispatch_attempt as (n, co)))"
proof (induction as arbitrary: n co)
  case (Cons a as)
  obtain n' co' where one: "dispatch_attempt a (n, co) = (n', co')" by fastforce
  then show ?case using Cons [of co' n'] dispatch_attempt_only [of co a n] by (simp add: only_dispatches_def)
qed (simp add: only_dispatches_def)

text \<open>One poll: sessions are served, then what is pending is dispatched and saved.\<close>

lemma poll_once_parts:
  assumes "co_running co" and "input = Some p"
  obtains mid where "serves co mid" and "only_dispatches mid (snd (dispatch_pending mid))"
    and "poll_once input co = persist_if_changed (snd (dispatch_pending mid))"
proof -
  have session: "serves c (poll_session (pi_reads p) i c)" for i c
    by (simp add: poll_session_def serves_service_session split: option.splits)
  let ?a = "accept_ready (pi_accepts p) co"
  let ?b = "fold (poll_session (pi_reads p)) [0..<length (co_sessions co)] ?a"
  let ?c = "?b\<lparr>co_sessions := filter sn_open (co_sessions ?b)\<rparr>"
  have "serves co ?b" using serves_accept serves_fold [OF session] by (rule serves_trans)
  also have "serves ?b ?c" by (rule serves_same) simp_all
  finally have served: "serves co ?c" .
  have polled: "poll_once input co = persist_if_changed (snd (dispatch_pending ?c))"
    using assms by (simp add: poll_once_def Let_def)
  have only: "only_dispatches ?c (snd (dispatch_pending ?c))"
    unfolding dispatch_pending_def by (rule dispatch_only)
  show thesis by (rule that [OF served only polled])
qed

section \<open>Coordinators that were started\<close>

text \<open>
  The coordinator as a state machine. Between its steps the environment may change the file system
  and the outcomes of calls to come, but not what was sent.
\<close>

inductive co_reachable :: "coordinator_config \<Rightarrow> coordinator \<Rightarrow> bool" for config where
  created: "w_sent w = [] \<Longrightarrow> co_reachable config (new_coordinator config w)"
| started: "co_reachable config co \<Longrightarrow> co_reachable config (snd (start bind unblock co))"
| polled: "co_reachable config co \<Longrightarrow> co_reachable config (snd (poll_once input co))"
| saved: "co_reachable config co \<Longrightarrow> co_reachable config (snd (persist co))"
| stopped: "co_reachable config co \<Longrightarrow> co_reachable config (stop co)"
| environment: "co_reachable config co \<Longrightarrow> w_sent w = w_sent (co_world co) \<Longrightarrow>
    co_reachable config (co\<lparr>co_world := w\<rparr>)"

lemma reachable_serves:
  "serves co co' \<Longrightarrow> reachable (co_engine_config co) (co_engine co) \<Longrightarrow> reachable (co_engine_config co) (co_engine co')"
  by (auto simp: serves_def intro: reachable_commands)

lemma recover_engine:
  assumes "recover co = Inr co'" and "reachable (co_engine_config co) (co_engine co)"
  shows "same_sent co co' \<and> reachable (co_engine_config co) (co_engine co')"
proof (cases "load_durable_state (cc_state_path (co_config co))
    (decode_limits_from_bounds (ec_bounds (co_engine_config co))) (w_disk (co_world co))")
  case (Inr ds)
  let ?st = "snd (import_durable_state (co_engine_config co) ds (next_generation (ds_epoch ds)) (co_engine co))"
  have "reachable (co_engine_config co) ?st"
    by (rule recovery [OF assms(2) loaded_maps [OF Inr]])
  then have "reachable (co_engine_config co) (run_command (co_engine_config co)
      (Invalidate_Volatile_State ''coordinator restart'') ?st)" by (rule command)
  then show ?thesis
    using assms Inr by (auto simp: recover_def Let_def split: if_splits prod.splits)
next
  case (Inl e)
  then show ?thesis using assms by (auto simp: recover_def Let_def split: if_splits prod.splits)
qed

lemma start_engine:
  assumes "reachable (co_engine_config co) (co_engine co)"
  shows "same_sent co (snd (start bind unblock co)) \<and>
    reachable (co_engine_config co) (co_engine (snd (start bind unblock co)))"
proof (cases "recover co")
  case (Inr co')
  have "commands_sent (co'\<lparr>co_listening := True, co_port := port\<rparr>) = commands_sent co'"
    "commands_sent (co'\<lparr>co_listening := True, co_port := port, co_running := True, co_last_saved := n\<rparr>) = commands_sent co'"
    for port n by (rule commands_world; simp)+
  then show ?thesis
    using recover_engine [OF Inr assms] assms
    by (auto simp: start_def Inr Let_def split: sum.splits option.splits)
qed (use assms in \<open>auto simp: start_def\<close>)

lemma co_reachable_sound:
  assumes "co_reachable config co"
  shows "co_config co = config \<and> reachable (cc_engine config) (co_engine co) \<and> dispatched_ok co"
  using assms
proof induction
  case (created w)
  then show ?case by (simp add: new_coordinator_def reachable.fresh dispatched_ok_def commands_sent_def)
next
  case (started co bind unblock)
  then show ?case using start_engine [of co bind unblock] dispatched_ok_same [of co "snd (start bind unblock co)"] by auto
next
  case (polled co input)
  show ?case
  proof (cases "co_running co \<and> input \<noteq> None")
    case True
    then obtain p where p: "co_running co" "input = Some p" by auto
    obtain mid where mid: "serves co mid" "only_dispatches mid (snd (dispatch_pending mid))"
      "poll_once input co = persist_if_changed (snd (dispatch_pending mid))" by (rule poll_once_parts [OF p])
    have "co_config mid = config" using mid(1) polled.IH by (simp add: serves_def)
    moreover have "reachable (cc_engine config) (co_engine mid)"
      using reachable_serves [OF mid(1)] polled.IH by simp
    moreover have "dispatched_ok (snd (dispatch_pending mid))"
      using serves_dispatched [OF mid(1)] polled.IH mid(2) by (simp add: only_dispatches_def)
    then have "dispatched_ok (snd (poll_once input co))"
      unfolding mid(3) by (simp add: dispatched_ok_def)
    ultimately show ?thesis using mid(2,3) by (simp add: only_dispatches_def)
  qed (use polled.IH in \<open>auto simp: poll_once_def split: option.splits\<close>)
next
  case (saved co)
  have "same_sent co (snd (persist co))" by (simp add: commands_sent_def)
  from dispatched_ok_same [OF this] show ?case using saved.IH by simp
next
  case (stopped co)
  have "commands_sent (stop co) = commands_sent co" by (rule commands_world) (simp add: stop_def)
  then have "same_sent co (stop co)" by (simp add: stop_def)
  from dispatched_ok_same [OF this] show ?case using stopped.IH by (simp add: stop_def)
next
  case (environment co w)
  then show ?case by (auto simp: dispatched_ok_def commands_sent_def)
qed

section \<open>Saving before acknowledging\<close>

definition persists :: "coordinator \<Rightarrow> bool" where
  "persists co \<longleftrightarrow> cc_state_path (co_config co) \<noteq> [] \<and> cc_persist_on_change (co_config co)"

text \<open>The file holds exactly the durable state of the engine.\<close>

definition file_is_current :: "coordinator \<Rightarrow> bool" where
  "file_is_current co \<longleftrightarrow> (\<exists>out. w_disk (co_world co) (cc_state_path (co_config co)) = Some out \<and>
     serialize_durable_state (export_durable_state (co_engine co))
       (decode_limits_from_bounds (ec_bounds (co_engine_config co))) = Inr out)"

lemma save_writes:
  "save_durable_state ds limits path faults files = (None, files') \<Longrightarrow>
   \<exists>out. serialize_durable_state ds limits = Inr out \<and> files' path = Some out"
  by (auto simp: save_durable_state_def Let_def split: sum.splits option.splits if_splits)

lemma persist_current:
  "persist co = (None, co') \<Longrightarrow> cc_state_path (co_config co) \<noteq> [] \<Longrightarrow> file_is_current co'"
  using save_writes
  by (fastforce simp: persist_def file_is_current_def Let_def split: prod.splits option.splits)

lemma file_is_current_cong:
  "w_disk (co_world co') = w_disk (co_world co) \<Longrightarrow> co_config co' = co_config co \<Longrightarrow>
   co_engine co' = co_engine co \<Longrightarrow> file_is_current co' = file_is_current co"
  by (simp add: file_is_current_def)

lemma send_frame_log:
  "w_sent (co_world (snd (send_frame s t p co))) = w_sent (co_world co) \<or>
   w_sent (co_world (snd (send_frame s t p co))) = w_sent (co_world co) @ [(sn_id s, make_frame t p)]"
  by (auto simp: send_frame_def next_send_def split: sum.splits list.splits bool.splits prod.splits)

definition failure_notice :: "coordinator \<Rightarrow> frame \<Rightarrow> bool" where
  "failure_notice co g \<longleftrightarrow> (\<exists>p. encode_reply (co_limits co) not_durable = Inr p \<and> g = make_frame MT_REPLY p)"

lemma send_reply_current:
  assumes "co_pending co" and "persists co" and "st_sequence (co_engine co) \<noteq> co_last_saved co"
    and "w_sent (co_world (snd (send_reply i y co))) = w_sent (co_world co) @ [(n, g)]"
  shows "file_is_current (snd (send_reply i y co)) \<or> failure_notice co g"
proof -
  let ?c = "co\<lparr>co_pending := False\<rparr>"
  obtain e co' where saved: "persist_if_changed ?c = (e, co')" by fastforce
  have sent: "w_sent (co_world co') = w_sent (co_world co)" and config: "co_config co' = co_config co"
    using persist_if_changed_fields(2,5) [of ?c] saved by simp_all
  show ?thesis
  proof (cases e)
    case None
    have "file_is_current co'"
      using saved None assms(2,3) persist_current [of ?c co']
      by (auto simp: persist_if_changed_def persists_def split: if_splits)
    moreover have "snd (send_reply i y co) = snd (send_encoded i y co')"
      using assms(1) saved None by (simp add: send_reply_def)
    ultimately show ?thesis by (simp add: file_is_current_cong [of "snd (send_encoded i y co')" co'])
  next
    case (Some x)
    then have step: "snd (send_reply i y co) = (case encode_reply (co_limits co) not_durable of
        Inl _ \<Rightarrow> rejected_frame co'
      | Inr p \<Rightarrow> snd (send_frame (co_sessions co' ! i) MT_REPLY p (rejected_frame co')))"
      using assms(1) saved config by (simp add: send_reply_def Let_def split: sum.splits)
    then have "failure_notice co g" if "encode_reply (co_limits co) not_durable = Inr p" for p
      using assms(4) sent that send_frame_log [of "co_sessions co' ! i" MT_REPLY p "rejected_frame co'"]
      by (auto simp: failure_notice_def)
    moreover have "\<exists>p. encode_reply (co_limits co) not_durable = Inr p"
      using step assms(4) sent by (auto split: sum.splits)
    ultimately have "failure_notice co g" by blast
    then show ?thesis by simp
  qed
qed

text \<open>A handler that ends by sending one reply, about the engine it leaves.\<close>

definition acknowledges :: "nat \<Rightarrow> coordinator \<Rightarrow> coordinator \<Rightarrow> bool" where
  "acknowledges i co co' \<longleftrightarrow> (\<exists>y c. co_pending c = co_pending co \<and> co_last_saved c = co_last_saved co \<and>
     co_world c = co_world co \<and> co_config c = co_config co \<and> co_engine co' = co_engine c \<and>
     co_config co' = co_config c \<and> co_world co' = co_world (snd (send_reply i y c)))"

lemma acknowledgesI:
  assumes "co' = snd (send_reply i y c)" and "co_pending c = co_pending co" and "co_last_saved c = co_last_saved co"
    and "co_world c = co_world co" and "co_config c = co_config co"
  shows "acknowledges i co co'"
  unfolding acknowledges_def by (rule exI [of _ y], rule exI [of _ c]) (simp add: assms)

lemma acknowledges_answer: "acknowledges i co (answer i malformed decoded act co)"
  by (cases decoded) (auto simp: answer_def split: prod.splits intro: acknowledgesI)

lemma acknowledges_register_worker: "acknowledges i co (handle_register_worker i f co)"
  by (auto simp: handle_register_worker_def Let_def split: sum.splits prod.splits intro: acknowledgesI)

lemma acknowledges_fence: "acknowledges i co (handle_fence i f co)"
proof (cases "decode_fence (co_limits co) (f_payload f)")
  case (Inr m)
  obtain d st where d: "fence_worker (fm_worker m) (fm_boot m) (st_epoch (co_engine co)) (fm_reason m) (co_engine co)
      = (d, st)" by fastforce
  show ?thesis
    unfolding acknowledges_def
    by (rule exI [of _ "reply_from_decision d"], rule exI [of _ "co\<lparr>co_engine := st\<rparr>"])
       (simp add: handle_fence_def Inr d Let_def)
qed (auto simp: handle_fence_def intro: acknowledgesI)

lemma acknowledges_durable:
  "f_type f \<in> set durable_frames \<Longrightarrow> acknowledges i co (dispatch_frame i f co)"
  by (cases "f_type f")
     (simp_all add: durable_frames_def dispatch_frame_def Let_def acknowledges_answer acknowledges_register_worker
       acknowledges_fence)

text \<open>A reply to a change the sequence did not count is sent, and nothing is saved for it.\<close>

lemma send_reply_unsaved:
  assumes "st_sequence (co_engine co) = co_last_saved co" and "encode_reply (co_limits co) y = Inr out"
    and "frame_fits (co_limits co) (make_frame MT_REPLY out)" and "sn_open (co_sessions co ! i)"
    and "\<not> fst (next_send (co_world co))"
  shows "w_sent (co_world (snd (send_reply i y co))) =
      w_sent (co_world co) @ [(sn_id (co_sessions co ! i), make_frame MT_REPLY out)] \<and>
    w_disk (co_world (snd (send_reply i y co))) = w_disk (co_world co) \<and>
    co_engine (snd (send_reply i y co)) = co_engine co \<and> co_config (snd (send_reply i y co)) = co_config co"
proof -
  obtain w where w: "next_send (co_world co) = (False, w)" "w_sent w = w_sent (co_world co)" "w_disk w = w_disk (co_world co)"
    using assms(5) by (auto simp: next_send_def split: list.splits)
  have "encode_frame (make_frame MT_REPLY out) (co_limits co) = Inr (frame_bytes (make_frame MT_REPLY out) (co_limits co))"
    by (rule encode_frame_fits [OF assms(3)])
  then show ?thesis
    using assms(1,2,4) w
    by (simp add: send_reply_def persist_if_changed_def send_encoded_def send_frame_def tally_def)
qed

lemma scope_uncounted: "register_scope path st = (d, x, st') \<Longrightarrow> st_sequence st' = st_sequence st"
  by (auto simp: register_scope_def split: prod.splits)

lemma evidence_uncounted: "engine_publish_evidence e st = (d, e', st') \<Longrightarrow> st_sequence st' = st_sequence st"
  by (auto simp: engine_publish_evidence_def Let_def split: prod.splits option.splits if_splits)

lemma reply_ok_granted: "allowed d \<Longrightarrow> reply_ok (granted d entries)"
proof -
  have "ry_outcome (reply_fields entries y) = ry_outcome y" for y
    unfolding reply_fields_def
    by (induction entries arbitrary: y) (auto simp: reply_set_def)
  then show "allowed d \<Longrightarrow> reply_ok (granted d entries)"
    using is_positive_reply [of d] by (simp add: granted_def reply_ok_def)
qed

section \<open>Properties\<close>

text \<open>
  C5 The coordinator refines the engine. Whatever bytes its peers send, however its calls to the
  system fail and whatever its state file holds, the engine it owns is in a state the engine
  reaches by its own operations, so it keeps the invariant and no scope has two live exclusive
  bindings.
\<close>

theorem coordinator_runs_engine:
  assumes "co_reachable config co" and "scope_bound_ok (cc_engine config)"
  shows "reachable (cc_engine config) (co_engine co) \<and> st_wf (co_engine co) \<and>
    length (filter (\<lambda>b. b_kind b = AK_Exclusive) (live_bindings_for (st_authority (co_engine co)) s)) \<le> 1"
proof -
  have reach: "reachable (cc_engine config) (co_engine co)" using co_reachable_sound [OF assms(1)] by simp
  have wf: "st_wf (co_engine co)" by (rule reachable_wf [OF reach assms(2)])
  then have "at_wf (st_authority (co_engine co))" by (simp add: st_wf_def)
  then show ?thesis using reach wf at_wf_single by simp
qed

definition sample_service :: coordinator_config where
  "sample_service = \<lparr>cc_state_path = ''s'', cc_engine = default_config, cc_limits = default_limits,
     cc_persist_on_change = True, cc_refuse_corrupt = True\<rparr>"

definition empty_world :: world where
  "empty_world = \<lparr>w_disk = (\<lambda>_. None), w_faults = [], w_sends = [], w_sent = []\<rparr>"

definition one_poll :: "recv_event \<Rightarrow> poll_input option" where
  "one_poll event = Some \<lparr>pi_accepts = [True], pi_reads = (\<lambda>_. Some event)\<rparr>"

lemma coordinator_runs_engine_witness:
  "st_wf (co_engine (snd (poll_once (one_poll (Received [77, 76, 70, 80])) (snd (start (Inr 7000) None
     (new_coordinator sample_service empty_world))))))"
  using coordinator_runs_engine [OF polled [OF started [OF created]], of empty_world sample_service]
  by (simp add: empty_world_def sample_service_def scope_bound_ok_def default_config_def default_bounds_def)

text \<open>A peer that is connected to a fresh engine.\<close>

definition sample_served :: "u64 \<Rightarrow> coordinator" where
  "sample_served saved = (new_coordinator sample_service empty_world)\<lparr>co_sessions := [new_session 1 default_limits],
     co_last_saved := saved\<rparr>"

text \<open>What the file of a fresh engine holds, and the answer to a frame that cannot be decoded.\<close>

definition fresh_state :: durable_state where
  "fresh_state = export_durable_state (new_engine default_config)"

lemma fresh_state_size: "length (write_payload fresh_state) < 1024"
  by (simp add: fresh_state_def export_durable_state_def new_engine_def ensure_root_def empty_scopes_def
      root_scope_def empty_evidence_def default_config_def live_authority_def durable_evidence_def
      write_payload_def write_header_def write_scopes_def write_records_def write_authority_def
      write_evidence_section_def write_committed_def write_allocators_def write_section_def put_all_def
      write_scope_record_def write_policy_def sample_snapshot_simps default_policy_def put_count_def
      put_str_def put_bool_def id_valid_def om_map_def)

lemma fresh_state_bytes: "serialize_durable_state fresh_state sample_limits = Inr (state_bytes fresh_state)"
proof -
  have "dl_max_payload_bytes sample_limits = 16777216" by (simp add: sample_limits_def decode_limits_from_bounds_def)
  moreover have "serialize_fault fresh_state sample_limits = None"
    by (simp add: serialize_fault_def sample_snapshot_simps fresh_state_def export_durable_state_def new_engine_def ensure_root_def empty_scopes_def
      root_scope_def empty_evidence_def default_config_def live_authority_def durable_evidence_def id_valid_def om_map_def)
  ultimately show ?thesis
    using fresh_state_size by (simp add: serialize_durable_state_def state_bytes_def Let_def)
qed

definition retire_frame :: frame where "retire_frame = make_frame MT_RETIRE []"


definition retire_refusal :: reply where
  "retire_refusal = rejected OC_Rejected (Prt ProtocolDecodeFailure) ''RETIRE is malformed''"

lemma retire_refused:
  "snd (send_reply 0 retire_refusal (sample_served 0\<lparr>co_pending := True\<rparr>)) = handle_frame 0 retire_frame (sample_served 0)"
proof -
  have "get_le i n v (reader_fail (reader_of [])) = (v, reader_fail (reader_of []))" for i n v
    by (induction n arbitrary: i v) (simp_all add: get_u8_def reader_fail_def reader_of_def)
  then have "decode_retire default_limits [] = Inl PS_DecodeFailure"
    by (simp add: decode_retire_def get_u64_def get_u8_def reader_of_def reader_fail_def decode_or_def exhausted_def eval_nat_numeral)
  then show ?thesis
    by (simp add: handle_frame_def dispatch_frame_def answer_def retire_frame_def Let_def durable_frames_def
        make_frame_def retire_refusal_def sample_served_def sample_service_def new_coordinator_def)
qed

lemma retire_refusal_encodes:
  "\<exists>p. encode_reply default_limits retire_refusal = Inr p \<and> length p \<le> 65536"
  by (simp add: retire_refusal_def encode_reply_def rejected_def sealed_def default_limits_def put_str_def put_reason_def
      put_all_def new_reply_def reply_add_def put_count_def)

lemma fresh_state_saved:
  "persist_if_changed (sample_served 0) =
     (None, tally (\<lambda>t. t\<lparr>ct_saves := ct_saves t + 1\<rparr>) ((sample_served 0)\<lparr>
        co_world := empty_world\<lparr>w_disk := [''s'' \<mapsto> state_bytes fresh_state]\<rparr>, co_last_saved := 1\<rparr>))"
proof -
  let ?st = "new_engine default_config"
  have "save_durable_state (export_durable_state ?st) sample_limits ''s'' no_faults Map.empty
      = (None, [''s'' \<mapsto> state_bytes fresh_state])"
    using fresh_state_bytes
    by (simp add: fresh_state_def [symmetric] save_durable_state_def Let_def no_faults_def fun_eq_iff)
  moreover have "st_sequence ?st = 1" by (simp add: new_engine_def)
  moreover have "ec_bounds default_config = default_bounds" by (simp add: default_config_def)
  ultimately show ?thesis
    by (simp add: persist_if_changed_def persist_def sample_served_def sample_service_def new_coordinator_def
        next_fault_def empty_world_def sample_limits_def)
qed

lemma retire_answered:
  "\<exists>p. w_sent (co_world (handle_frame 0 retire_frame (sample_served 0))) = [(1, make_frame MT_REPLY p)] \<and>
     encode_reply default_limits retire_refusal = Inr p \<and> st_sequence (co_engine (handle_frame 0 retire_frame (sample_served 0))) = 1"
proof -
  obtain p where p: "encode_reply default_limits retire_refusal = Inr p" "length p \<le> 65536"
    using retire_refusal_encodes by blast
  have reset: "(sample_served 0)\<lparr>co_pending := True, co_pending := False\<rparr> = sample_served 0"
    by (simp add: sample_served_def new_coordinator_def)
  show ?thesis
    using p retire_refused [symmetric] fresh_state_saved reset
    by (simp add: send_reply_def send_encoded_def tally_def sample_served_def new_coordinator_def
        send_frame_def sample_service_def new_session_def encode_frame_def Let_def make_frame_def default_limits_def
        next_send_def empty_world_def new_engine_def)
qed

lemma answered_after_save:
  assumes "f_type f \<in> set durable_frames" and "persists co"
    and "st_sequence (co_engine (handle_frame i f co)) \<noteq> co_last_saved co"
    and "w_sent (co_world (handle_frame i f co)) = w_sent (co_world co) @ [(n, g)]"
  shows "file_is_current (handle_frame i f co) \<or> failure_notice co g"
proof -
  let ?co = "co\<lparr>co_pending := True\<rparr>" and ?done = "handle_frame i f co"
  have "acknowledges i ?co ?done"
    using acknowledges_durable [OF assms(1), of i ?co] assms(1) by (simp add: handle_frame_def)
  then obtain y c where c: "co_pending c" "co_last_saved c = co_last_saved co" "co_world c = co_world co"
      "co_config c = co_config co" "co_engine ?done = co_engine c" "co_config ?done = co_config c"
      "co_world ?done = co_world (snd (send_reply i y c))"
    by (auto simp: acknowledges_def)
  have "file_is_current (snd (send_reply i y c)) \<or> failure_notice c g"
    using send_reply_current [of c i y n g] assms(2-4) c by (simp add: persists_def)
  moreover have "file_is_current ?done = file_is_current (snd (send_reply i y c))"
    by (rule file_is_current_cong) (simp_all add: c)
  ultimately show ?thesis by (simp add: failure_notice_def c(4))
qed

text \<open>
  C29 A change that moved the sequence is acknowledged only after it is durable: when a mutating
  frame is answered, either the state file holds the engine's durable state or the answer is the
  notice that the change could not be saved.
\<close>

theorem acknowledged_is_durable:
  assumes "f_type f \<in> set durable_frames" and "persists co"
    and "st_sequence (co_engine (handle_frame i f co)) \<noteq> co_last_saved co"
    and "w_sent (co_world (handle_frame i f co)) = w_sent (co_world co) @ [(n, g)]"
  shows "file_is_current (handle_frame i f co) \<or> failure_notice co g"
  by (rule answered_after_save [OF assms])

lemma refusals_differ: "encode_reply default_limits retire_refusal \<noteq> encode_reply default_limits not_durable"
  by (simp add: retire_refusal_def not_durable_def encode_reply_def rejected_def sealed_def default_limits_def
      put_str_def put_reason_def put_all_def new_reply_def reply_add_def put_count_def put_u8_def)

lemma acknowledged_is_durable_witness:
  "file_is_current (handle_frame 0 retire_frame (sample_served 0))"
proof -
  obtain p where p: "w_sent (co_world (handle_frame 0 retire_frame (sample_served 0))) = [(1, make_frame MT_REPLY p)]"
      "encode_reply default_limits retire_refusal = Inr p"
      "st_sequence (co_engine (handle_frame 0 retire_frame (sample_served 0))) = 1"
    using retire_answered by blast
  have "file_is_current (handle_frame 0 retire_frame (sample_served 0))
      \<or> failure_notice (sample_served 0) (make_frame MT_REPLY p)"
  proof (rule acknowledged_is_durable)
    show "f_type retire_frame \<in> set durable_frames"
      by (simp add: retire_frame_def make_frame_def durable_frames_def)
    show "persists (sample_served 0)"
      by (simp add: persists_def sample_served_def new_coordinator_def sample_service_def)
    have "co_last_saved (sample_served 0) = 0" by (simp add: sample_served_def)
    with p show "st_sequence (co_engine (handle_frame 0 retire_frame (sample_served 0))) \<noteq> co_last_saved (sample_served 0)"
      by simp
    have "w_sent (co_world (sample_served 0)) = []"
      by (simp add: sample_served_def new_coordinator_def empty_world_def)
    with p show "w_sent (co_world (handle_frame 0 retire_frame (sample_served 0))) =
        w_sent (co_world (sample_served 0)) @ [(1, make_frame MT_REPLY p)]" by simp
  qed
  moreover have "\<not> failure_notice (sample_served 0) (make_frame MT_REPLY p)"
    using refusals_differ p(2)
    by (auto simp: failure_notice_def make_frame_def sample_served_def new_coordinator_def sample_service_def)
  ultimately show ?thesis by blast
qed

text \<open>
  C30 An attempt is sent to a worker at most once: the commands the coordinator has sent are those of
  the attempts it has marked, one for each, and no attempt is marked twice.
\<close>

theorem attempt_dispatched_once:
  assumes "co_reachable config co"
  shows "distinct (co_dispatched co) \<and>
    list_all2 (command_for (cc_limits config)) (commands_sent co) (co_dispatched co)"
  using co_reachable_sound [OF assms] by (auto simp: dispatched_ok_def)

lemma attempt_dispatched_once_witness:
  "distinct (co_dispatched (snd (poll_once (one_poll Peer_Closed) (snd (start (Inr 7000) None
     (new_coordinator sample_service empty_world))))))"
  using attempt_dispatched_once [OF polled [OF started [OF created]], of empty_world]
  by (simp add: empty_world_def)

text \<open>
  C31 What the sequence does not count is acknowledged without being saved. Let the state file be
  current, and let a frame register a scope or publish evidence. When the operation is accepted and
  changes what the state file should hold, and its reply can be sent, then the coordinator has the
  new state with the old sequence, the positive reply goes out to the peer, nothing is written, and
  so the file is no longer current: a crash now loses a change that was acknowledged.
\<close>

theorem uncounted_change_unsaved:
  assumes "f_type f = MT_REGISTER_SCOPE \<and> decode_register_scope (co_limits co) (f_payload f) = Inr m \<and>
        register_scope (rs_path m) (co_engine co) = (d, x, st) \<and> y = fst (on_register_scope (co_engine co) m) \<or>
      (f_type f = MT_PUBLISH_READINESS \<or> f_type f = MT_PUBLISH_HEALTH) \<and>
        decode_publish_evidence (co_limits co) (f_payload f) = Inr em \<and>
        engine_publish_evidence (wire_evidence (f_type f) (co_sessions co ! i) em) (co_engine co) = (d, e, st) \<and>
        y = fst (on_publish_evidence (f_type f) (co_sessions co ! i) (co_engine co) em)"
    and "allowed d" and "encode_reply (co_limits co) y = Inr out"
    and "frame_fits (co_limits co) (make_frame MT_REPLY out)"
    and "sn_open (co_sessions co ! i)" and "\<not> fst (next_send (co_world co))"
    and "file_is_current co" and "st_sequence (co_engine co) = co_last_saved co"
    and "serialize_durable_state (export_durable_state st) (decode_limits_from_bounds (ec_bounds (co_engine_config co))) \<noteq>
      serialize_durable_state (export_durable_state (co_engine co)) (decode_limits_from_bounds (ec_bounds (co_engine_config co)))"
  shows "co_engine (handle_frame i f co) = st \<and> st_sequence st = st_sequence (co_engine co) \<and> reply_ok y \<and>
    w_sent (co_world (handle_frame i f co)) =
      w_sent (co_world co) @ [(sn_id (co_sessions co ! i), make_frame MT_REPLY out)] \<and>
    w_disk (co_world (handle_frame i f co)) = w_disk (co_world co) \<and>
    \<not> file_is_current (handle_frame i f co)"
proof -
  let ?sent = "snd (send_reply i y (co\<lparr>co_pending := True, co_engine := st\<rparr>))"
  have counted: "st_sequence st = st_sequence (co_engine co)"
    using assms(1) scope_uncounted evidence_uncounted by metis
  have positive: "reply_ok y"
    using assms(1,2) by (auto simp: on_register_scope_def on_publish_evidence_def reply_ok_granted)
  have handled: "handle_frame i f co = ?sent"
    using assms(1) by (elim disjE conjE)
      (simp_all add: handle_frame_def dispatch_frame_def durable_frames_def Let_def answer_def on_register_scope_def
         on_publish_evidence_def)
  have sent: "w_sent (co_world ?sent) = w_sent (co_world co) @ [(sn_id (co_sessions co ! i), make_frame MT_REPLY out)] \<and>
      w_disk (co_world ?sent) = w_disk (co_world co) \<and> co_engine ?sent = st \<and> co_config ?sent = co_config co"
    using send_reply_unsaved [of "co\<lparr>co_pending := True, co_engine := st\<rparr>" y out i] assms(3-6,8) counted by simp
  then have "\<not> file_is_current ?sent"
    using assms(7,9) by (auto simp: file_is_current_def)
  then show ?thesis using counted positive handled sent by simp
qed

definition scope_frame :: frame where
  "scope_frame = make_frame MT_REGISTER_SCOPE (put_str ''global/region:eu'')"

text \<open>The engine that has registered one scope below the root, and its answer.\<close>

lemma root_only: "st_scopes (new_engine default_config) = \<lparr>sr_records = [root_scope], sr_children = [[]],
    sr_index = [(''global'', 1)], sr_max = 4096, sr_root = 1\<rparr>"
  by (simp add: new_engine_def default_config_def default_bounds_def ensure_root_def empty_scopes_def id_valid_def om_emplace_def)

definition eu_scopes :: scope_registry where
  "eu_scopes = \<lparr>sr_records = [root_scope, \<lparr>s_id = 2, s_parent = 1, s_kind = SK_Region, s_name = ''eu'',
       s_path = ''global/region:eu'', s_generation = 1, s_depth = 1\<rparr>],
     sr_children = [[2], []], sr_index = [(''global'', 1), (''global/region:eu'', 2)], sr_max = 4096, sr_root = 1\<rparr>"

lemma eu_registered: "ensure_path ''global/region:eu'' (st_scopes (new_engine default_config)) = (new_decision OC_Accepted, 2, eu_scopes)"
  unfolding root_only eu_scopes_def
  by code_simp

definition eu_engine where "eu_engine = (new_engine default_config)\<lparr>st_scopes := eu_scopes\<rparr>"

lemma eu_scope: "register_scope ''global/region:eu'' (new_engine default_config) = (new_decision OC_Accepted, 2, eu_engine)"
  by (simp add: register_scope_def eu_registered eu_engine_def)

lemma eu_digits: "show_u64 1 = ''1''" "show_u64 2 = ''2''" "show_nat (Suc 0) = ''1''"
  by code_simp+

definition eu_reply :: reply where
  "eu_reply = \<lparr>ry_outcome = OC_Accepted, ry_reasons = [], ry_values = [(''scope_id'', ''2''),
     (''scope_path'', ''global/region:eu''), (''scope_generation'', ''1''), (''scope_depth'', ''1'')]\<rparr>"

lemma eu_answer: "on_register_scope (new_engine default_config) \<lparr>rs_path = ''global/region:eu''\<rparr> = (eu_reply, eu_engine)"
  by (simp add: on_register_scope_def eu_scope granted_def eu_reply_def all_scopes_def eu_engine_def eu_scopes_def root_scope_def
      reply_fields_def reply_set_def reply_from_decision_def new_decision_def allowed_def is_positive_def eu_digits)

lemma eu_reply_encodes: "\<exists>out. encode_reply default_limits eu_reply = Inr out \<and> length out \<le> 65536"
  by (simp add: encode_reply_def eu_reply_def sealed_def put_count_def put_all_def put_entry_def default_limits_def put_str_def
      put_u16_def put_u8_def put_u32_def length_concat)

lemma eu_state_differs:
  "serialize_durable_state (export_durable_state eu_engine) sample_limits \<noteq>
   serialize_durable_state (export_durable_state (new_engine default_config)) sample_limits"
proof
  assume same: "serialize_durable_state (export_durable_state eu_engine) sample_limits =
    serialize_durable_state (export_durable_state (new_engine default_config)) sample_limits"
  then have "serialize_durable_state (export_durable_state eu_engine) sample_limits = Inr (state_bytes fresh_state)"
    using fresh_state_bytes by (simp add: fresh_state_def)
  then have "length (state_bytes (export_durable_state eu_engine)) = length (state_bytes fresh_state)"
    using serialize_bytes(1) by metis
  then have "length (write_payload (export_durable_state eu_engine)) = length (write_payload fresh_state)"
    by (simp add: state_bytes_def length_state_frame)
  moreover have "length (write_payload (export_durable_state eu_engine)) \<noteq> length (write_payload fresh_state)"
    by (simp add: fresh_state_def eu_engine_def eu_scopes_def export_durable_state_def new_engine_def ensure_root_def empty_scopes_def
      root_scope_def empty_evidence_def default_config_def live_authority_def durable_evidence_def
      write_payload_def write_header_def write_scopes_def write_records_def write_authority_def
      write_evidence_section_def write_committed_def write_allocators_def write_section_def put_all_def
      write_scope_record_def write_policy_def sample_snapshot_simps default_policy_def put_count_def
      put_str_def put_bool_def id_valid_def om_map_def)
  ultimately show False by blast
qed

definition current_served :: coordinator where
  "current_served = (sample_served 1)\<lparr>co_world := empty_world\<lparr>w_disk := [''s'' \<mapsto> state_bytes fresh_state]\<rparr>\<rparr>"

lemma current_served_simps:
  "co_engine current_served = new_engine default_config" "co_config current_served = sample_service"
  "co_last_saved current_served = 1" "co_world current_served = empty_world\<lparr>w_disk := [''s'' \<mapsto> state_bytes fresh_state]\<rparr>"
  "co_sessions current_served = [new_session 1 default_limits]"
  "cc_limits sample_service = default_limits" "cc_state_path sample_service = ''s''" "cc_engine sample_service = default_config"
  by (simp_all add: current_served_def sample_served_def new_coordinator_def sample_service_def)

lemma sample_limits_bounds: "decode_limits_from_bounds (ec_bounds default_config) = sample_limits"
  by (simp add: sample_limits_def default_config_def)

text \<open>
  The state file of a fresh engine is current. A peer registers a scope: the engine has it, the
  peer is told so, and the file does not have it.
\<close>

lemma uncounted_change_unsaved_witness:
  "\<exists>out. encode_reply default_limits eu_reply = Inr out \<and> reply_ok eu_reply \<and>
    co_engine (handle_frame 0 scope_frame current_served) = eu_engine \<and>
    find_path (st_scopes eu_engine) ''global/region:eu'' = Some 2 \<and>
    w_sent (co_world (handle_frame 0 scope_frame current_served)) = [(1, make_frame MT_REPLY out)] \<and>
    file_is_current current_served \<and> \<not> file_is_current (handle_frame 0 scope_frame current_served)"
proof -
  let ?m = "\<lparr>rs_path = ''global/region:eu''\<rparr>"
  obtain out where out: "encode_reply default_limits eu_reply = Inr out" "length out \<le> 65536"
    using eu_reply_encodes by blast
  have decoded: "decode_register_scope default_limits (f_payload scope_frame) = Inr ?m"
    by (rule register_scope_roundtrip)
       (simp_all add: scope_frame_def make_frame_def encode_register_scope_def sealed_def register_scope_fits_def
          str_fits_def default_limits_def put_str_length)
  have current: "file_is_current current_served"
    using fresh_state_bytes
    by (simp add: file_is_current_def current_served_simps sample_limits_bounds fresh_state_def)
  have fits: "frame_fits default_limits (make_frame MT_REPLY out)"
    using out(2) by (simp add: frame_fits_def make_frame_def default_limits_def)
  have "co_engine (handle_frame 0 scope_frame current_served) = eu_engine \<and>
    st_sequence eu_engine = st_sequence (co_engine current_served) \<and> reply_ok eu_reply \<and>
    w_sent (co_world (handle_frame 0 scope_frame current_served)) =
      w_sent (co_world current_served) @ [(sn_id (co_sessions current_served ! 0), make_frame MT_REPLY out)] \<and>
    w_disk (co_world (handle_frame 0 scope_frame current_served)) = w_disk (co_world current_served) \<and>
    \<not> file_is_current (handle_frame 0 scope_frame current_served)"
  proof (rule uncounted_change_unsaved [OF disjI1 _ _ _ _ _ current])
    show "f_type scope_frame = MT_REGISTER_SCOPE \<and>
        decode_register_scope (co_limits current_served) (f_payload scope_frame) = Inr ?m \<and>
        register_scope (rs_path ?m) (co_engine current_served) = (new_decision OC_Accepted, 2, eu_engine) \<and>
        eu_reply = fst (on_register_scope (co_engine current_served) ?m)"
      using decoded eu_scope eu_answer by (simp add: current_served_simps scope_frame_def make_frame_def)
  qed (use out fits eu_state_differs in \<open>simp_all add: current_served_simps sample_limits_bounds next_send_def empty_world_def
      new_session_def new_engine_def new_decision_def allowed_def is_positive_def\<close>)
  moreover have "find_path (st_scopes eu_engine) ''global/region:eu'' = Some 2"
    by (simp add: find_path_def eu_engine_def eu_scopes_def)
  ultimately show ?thesis
    using out(1) current by (auto simp: current_served_simps empty_world_def new_session_def)
qed

end
