(* ===== verification/Mlf_Synthetic.thy ===== *)
theory Mlf_Synthetic
  imports Mlf_Findings Mlf_Wire
begin

text \<open>
  The synthetic backend of include/mlf/synthetic_backend.hpp and src/synthetic_backend.cpp: the
  replicas a worker owns, the operations on single replicas, and the execution of the commands a
  coordinator sends. Replicas stand in a map ordered by identity.
\<close>

section \<open>State\<close>

record synthetic_replica =
  sy_id :: u64
  sy_generation :: u64
  sy_scope :: u64
  sy_model :: u64
  sy_version :: u64
  sy_model_generation :: u64
  sy_artifact_generation :: u64
  sy_warm :: bool
  sy_resident :: bool
  sy_ready :: bool
  sy_healthy :: bool
  sy_draining :: bool
  sy_residency_generation :: u64
  sy_owner :: u64
  sy_boot :: u64
  sy_provenance :: provenance

record backend =
  bk_replicas :: "(u64, synthetic_replica) omap"
  bk_next_replica_id :: u64
  bk_max_replicas :: nat
  bk_ambiguous_completion :: bool
  bk_tick :: u64
  bk_owner :: u64
  bk_boot :: u64
  bk_epoch :: u64

definition new_backend :: backend where
  "new_backend = \<lparr>bk_replicas = [], bk_next_replica_id = 1, bk_max_replicas = 4096,
     bk_ambiguous_completion = False, bk_tick = 0, bk_owner = 0, bk_boot = 0, bk_epoch = 0\<rparr>"

definition set_owner :: "u64 \<Rightarrow> u64 \<Rightarrow> u64 \<Rightarrow> backend \<Rightarrow> backend" where
  "set_owner worker boot epoch b = b\<lparr>bk_owner := worker, bk_boot := boot, bk_epoch := epoch\<rparr>"

definition clear_owner :: "backend \<Rightarrow> backend" where
  "clear_owner b = b\<lparr>bk_owner := 0, bk_boot := 0\<rparr>"

definition next_tick :: "backend \<Rightarrow> backend" where
  "next_tick b = b\<lparr>bk_tick := bk_tick b + 1\<rparr>"

section \<open>Replicas\<close>

definition fresh_replica :: "u64 \<Rightarrow> u64 \<Rightarrow> u64 \<Rightarrow> u64 \<Rightarrow> u64 \<Rightarrow> backend \<Rightarrow> synthetic_replica" where
  "fresh_replica scope model version model_generation artifact_generation b = \<lparr>
     sy_id = bk_next_replica_id b, sy_generation = 1, sy_scope = scope, sy_model = model,
     sy_version = version, sy_model_generation = model_generation,
     sy_artifact_generation = artifact_generation, sy_warm = False, sy_resident = False,
     sy_ready = False, sy_healthy = True, sy_draining = False, sy_residency_generation = 1,
     sy_owner = bk_owner b, sy_boot = bk_boot b, sy_provenance = PV_Synthetic\<rparr>"

definition insert_replica :: "synthetic_replica \<Rightarrow> backend \<Rightarrow> backend" where
  "insert_replica r b = b\<lparr>bk_next_replica_id := bk_next_replica_id b + 1,
     bk_replicas := om_emplace (sy_id r) r (bk_replicas b)\<rparr>"

definition add_replica :: "u64 \<Rightarrow> u64 \<Rightarrow> u64 \<Rightarrow> u64 \<Rightarrow> u64 \<Rightarrow> backend \<Rightarrow> decision \<times> u64 \<times> backend" where
  "add_replica scope model version model_generation artifact_generation b =
     (if \<not> id_valid scope \<or> \<not> id_valid model \<or> \<not> id_valid version then
        (refuse OC_Rejected (Reg UnknownScope) ''replica needs scope, model and version'', 0, b)
      else if bk_max_replicas b \<le> length (bk_replicas b) then
        (refuse OC_BOUNDS_EXCEEDED (Bnd BoundsModelCount) ''synthetic replica bound reached'', 0, b)
      else
        let r = fresh_replica scope model version model_generation artifact_generation b in
        (new_decision OC_Accepted, sy_id r, insert_replica r b))"

definition unknown_replica :: decision where
  "unknown_replica = refuse OC_NOT_FOUND (Reg UnknownVersion) ''synthetic replica is not registered''"

definition remove_replica :: "u64 \<Rightarrow> backend \<Rightarrow> decision \<times> backend" where
  "remove_replica i b =
     (case map_of (bk_replicas b) i of
        None \<Rightarrow> (unknown_replica, b)
      | Some _ \<Rightarrow> (new_decision OC_Accepted, b\<lparr>bk_replicas := om_erase i (bk_replicas b)\<rparr>))"

definition lose_replica :: "u64 \<Rightarrow> backend \<Rightarrow> decision \<times> backend" where
  "lose_replica = remove_replica"

text \<open>The operations on one replica find it, refuse or change it, and advance the tick.\<close>

definition on_replica ::
  "u64 \<Rightarrow> (synthetic_replica \<Rightarrow> decision + synthetic_replica) \<Rightarrow> backend \<Rightarrow> decision \<times> backend" where
  "on_replica i act b =
     (case map_of (bk_replicas b) i of
        None \<Rightarrow> (unknown_replica, b)
      | Some r \<Rightarrow>
          (case act r of
             Inl d \<Rightarrow> (d, b)
           | Inr r \<Rightarrow> (new_decision OC_Accepted, next_tick (b\<lparr>bk_replicas := om_put i r (bk_replicas b)\<rparr>))))"

definition set_healthy :: "u64 \<Rightarrow> bool \<Rightarrow> backend \<Rightarrow> decision \<times> backend" where
  "set_healthy i healthy = on_replica i
     (\<lambda>r. Inr (r\<lparr>sy_healthy := healthy, sy_ready := (healthy \<and> sy_ready r)\<rparr>))"

definition warmed :: "synthetic_replica \<Rightarrow> synthetic_replica" where
  "warmed r = r\<lparr>sy_warm := True, sy_resident := True,
     sy_residency_generation := next_generation (sy_residency_generation r)\<rparr>"

definition warm_replica :: "u64 \<Rightarrow> backend \<Rightarrow> decision \<times> backend" where
  "warm_replica i = on_replica i
     (\<lambda>r. if \<not> sy_healthy r then Inl (refuse OC_Rejected (Rdy WarmupIncomplete) ''replica is not healthy'')
          else Inr (warmed r))"

definition activate_replica :: "u64 \<Rightarrow> backend \<Rightarrow> decision \<times> backend" where
  "activate_replica i = on_replica i
     (\<lambda>r. if \<not> sy_warm r then Inl (refuse OC_Rejected (Rdy ReadinessMissing)
            ''a cold replica cannot become ready; warm it first'')
          else Inr (r\<lparr>sy_resident := True, sy_ready := True, sy_draining := False,
            sy_generation := next_generation (sy_generation r),
            sy_residency_generation := next_generation (sy_residency_generation r)\<rparr>))"

definition drained :: "synthetic_replica \<Rightarrow> synthetic_replica" where
  "drained r = r\<lparr>sy_ready := False, sy_draining := True, sy_generation := next_generation (sy_generation r)\<rparr>"

definition drain_replica :: "u64 \<Rightarrow> backend \<Rightarrow> decision \<times> backend" where
  "drain_replica i = on_replica i (\<lambda>r. Inr (drained r))"

definition evict_replica :: "u64 \<Rightarrow> backend \<Rightarrow> decision \<times> backend" where
  "evict_replica i b =
     (case map_of (bk_replicas b) i of
        None \<Rightarrow> (unknown_replica, b)
      | Some r \<Rightarrow> (new_decision OC_Accepted, next_tick (b\<lparr>bk_replicas := om_erase (sy_id r) (bk_replicas b)\<rparr>)))"

text \<open>Erasing in a loop over the map; the number erased is the result.\<close>

definition erase_where :: "(synthetic_replica \<Rightarrow> bool) \<Rightarrow> backend \<Rightarrow> nat \<times> backend" where
  "erase_where p b = (length (filter (\<lambda>e. p (snd e)) (bk_replicas b)),
     next_tick (b\<lparr>bk_replicas := filter (\<lambda>e. \<not> p (snd e)) (bk_replicas b)\<rparr>))"

definition lose_generation_in_scope :: "u64 \<Rightarrow> u64 \<Rightarrow> u64 \<Rightarrow> u64 \<Rightarrow> backend \<Rightarrow> nat \<times> backend" where
  "lose_generation_in_scope model version generation scope =
     erase_where (\<lambda>r. sy_model r = model \<and> sy_version r = version \<and>
       sy_model_generation r = generation \<and> sy_scope r = scope)"

section \<open>What the backend reports\<close>

definition replica_report :: "synthetic_replica \<Rightarrow> replica_observation" where
  "replica_report r = \<lparr>ro_replica = sy_id r, ro_generation = sy_generation r, ro_model = sy_model r,
     ro_version = sy_version r, ro_model_generation = sy_model_generation r,
     ro_artifact_generation = sy_artifact_generation r, ro_scope = sy_scope r,
     ro_resident = sy_resident r, ro_ready = sy_ready r, ro_worker = sy_owner r, ro_boot = sy_boot r,
     ro_provenance = sy_provenance r\<rparr>"

definition residency_report :: "synthetic_replica \<Rightarrow> residency_observation" where
  "residency_report r = \<lparr>so_model = sy_model r, so_version = sy_version r,
     so_model_generation = sy_model_generation r, so_artifact_generation = sy_artifact_generation r,
     so_scope = sy_scope r, so_generation = sy_residency_generation r,
     so_resident = (sy_resident r \<and> \<not> sy_draining r), so_ready = (sy_ready r \<and> sy_healthy r),
     so_replica = sy_id r, so_replica_generation = sy_generation r, so_boot = sy_boot r,
     so_provenance = sy_provenance r\<rparr>"

definition raw_replicas :: "backend \<Rightarrow> synthetic_replica list" where
  "raw_replicas b = map snd (bk_replicas b)"

definition replica_reports :: "backend \<Rightarrow> replica_observation list" where
  "replica_reports b = map replica_report (raw_replicas b)"

definition residency_reports :: "backend \<Rightarrow> residency_observation list" where
  "residency_reports b = map residency_report (raw_replicas b)"

definition replica_of :: "backend \<Rightarrow> u64 \<Rightarrow> synthetic_replica option" where
  "replica_of b i = map_of (bk_replicas b) i"

section \<open>Commands\<close>

record command_result =
  rs_decision :: decision
  rs_effect_applied :: bool
  rs_detail :: string

text \<open>A result starts as a default \<open>Decision\<close>, whose outcome is \<open>Rejected\<close>.\<close>

definition new_result :: command_result where
  "new_result = \<lparr>rs_decision = new_decision OC_Rejected, rs_effect_applied = False, rs_detail = []\<rparr>"

definition refused_command :: "decision \<Rightarrow> command_result" where
  "refused_command d = new_result\<lparr>rs_decision := d\<rparr>"

text \<open>The end of the function, reached by the branches that do not return early.\<close>

definition unconfirmed :: "backend \<Rightarrow> command_result \<Rightarrow> command_result" where
  "unconfirmed b result =
     (if bk_ambiguous_completion b
      then result\<lparr>rs_detail := rs_detail result @ '' (completion deliberately left unconfirmed)''\<rparr> else result)"

definition applied :: "bool \<Rightarrow> string \<Rightarrow> backend \<Rightarrow> command_result \<times> backend" where
  "applied effect detail_text b =
     (unconfirmed b (new_result\<lparr>rs_effect_applied := effect, rs_detail := detail_text\<rparr>), b)"

definition same_generation :: "command_message \<Rightarrow> synthetic_replica \<Rightarrow> bool" where
  "same_generation c r \<longleftrightarrow> sy_model r = cd_model c \<and> sy_version r = cd_version c \<and>
     sy_model_generation r = cd_model_generation c"

definition addressed :: "command_message \<Rightarrow> synthetic_replica \<Rightarrow> bool" where
  "addressed c r \<longleftrightarrow> same_generation c r \<and> sy_scope r = cd_scope c"

definition command_replica :: "command_message \<Rightarrow> backend \<Rightarrow> synthetic_replica" where
  "command_replica c b =
     fresh_replica (cd_scope c) (cd_model c) (cd_version c) (cd_model_generation c) (cd_artifact_generation c) b"

text \<open>A loop that changes every replica with a property and notes whether there was one.\<close>

definition touch_replicas ::
  "(synthetic_replica \<Rightarrow> bool) \<Rightarrow> (synthetic_replica \<Rightarrow> synthetic_replica) \<Rightarrow> backend \<Rightarrow> bool \<times> backend" where
  "touch_replicas p f b = (list_ex (\<lambda>e. p (snd e)) (bk_replicas b),
     next_tick (b\<lparr>bk_replicas := om_map (\<lambda>r. if p r then f r else r) (bk_replicas b)\<rparr>))"

definition serving :: "synthetic_replica \<Rightarrow> synthetic_replica" where
  "serving r = r\<lparr>sy_warm := True, sy_resident := True, sy_ready := True, sy_draining := False,
     sy_generation := next_generation (sy_generation r),
     sy_residency_generation := next_generation (sy_residency_generation r)\<rparr>"

definition restore_serving :: "command_message \<Rightarrow> string \<Rightarrow> string \<Rightarrow> backend \<Rightarrow> command_result \<times> backend" where
  "restore_serving c done_text none_text b =
     (case touch_replicas (\<lambda>r. addressed c r \<and> sy_healthy r) serving b of
        (touched, b) \<Rightarrow> applied touched (if touched then done_text else none_text) b)"

definition bound_reached :: command_result where
  "bound_reached = refused_command (add_reason (new_decision OC_BOUNDS_EXCEEDED) (Bnd BoundsModelCount) ''replica bound reached'')"

text \<open>The warm command after its target is known.\<close>

definition warm_target :: "u64 \<Rightarrow> backend \<Rightarrow> command_result \<times> backend" where
  "warm_target i b =
     (case map_of (bk_replicas b) i of
        None \<Rightarrow> (new_result, b)
      | Some r \<Rightarrow>
          if \<not> sy_healthy r then
            (refused_command (add_reason (new_decision OC_Rejected) (Rdy WarmupIncomplete) ''replica is unhealthy''), b)
          else applied True ''replica warmed and resident''
            (next_tick (b\<lparr>bk_replicas := om_put i (warmed r) (bk_replicas b)\<rparr>)))"

definition execute_warm :: "command_message \<Rightarrow> backend \<Rightarrow> command_result \<times> backend" where
  "execute_warm c b =
     (case find (\<lambda>e. addressed c (snd e) \<and> sy_artifact_generation (snd e) = cd_artifact_generation c)
         (bk_replicas b) of
        Some (i, _) \<Rightarrow> warm_target i b
      | None \<Rightarrow>
          if bk_max_replicas b \<le> length (bk_replicas b) then (bound_reached, b)
          else let r = command_replica c b in warm_target (sy_id r) (insert_replica r b))"

definition execute_canary :: "command_message \<Rightarrow> backend \<Rightarrow> command_result \<times> backend" where
  "execute_canary c b =
     (if bk_max_replicas b \<le> length (bk_replicas b) then (bound_reached, b)
      else applied True ''canary replica started''
        (next_tick (insert_replica (command_replica c b
           \<lparr>sy_warm := True, sy_resident := True, sy_ready := True\<rparr>) b)))"

definition execute :: "command_message \<Rightarrow> backend \<Rightarrow> command_result \<times> backend" where
  "execute c b =
     (case cd_kind c of
        AT_Warm \<Rightarrow> execute_warm c b
      | AT_Activate \<Rightarrow> restore_serving c ''replicas activated'' ''no matching replica was activatable'' b
      | AT_PromoteReplicaGroup \<Rightarrow>
          restore_serving c ''replicas activated'' ''no matching replica was activatable'' b
      | AT_Drain \<Rightarrow>
          (case touch_replicas (addressed c) drained b of
             (touched, b) \<Rightarrow>
               applied touched (if touched then ''replicas drained'' else ''no matching replica needed draining'') b)
      | AT_Rollback \<Rightarrow> restore_serving c ''previous generation restored'' ''no replica to restore'' b
      | AT_Rehydrate \<Rightarrow> restore_serving c ''previous generation restored'' ''no replica to restore'' b
      | AT_StartCanaryReplicas \<Rightarrow> execute_canary c b
      | AT_EvictRetired \<Rightarrow>
          (case erase_where (same_generation c) b of
             (removed, b) \<Rightarrow> applied (0 < removed) (''evicted '' @ show_nat removed @ '' retired replicas'') b))"

section \<open>The invariant of the backend\<close>

text \<open>
  A replica stands under its own identity; it is warm exactly when it is resident, and one that is
  ready is resident and not draining.
\<close>

definition replica_ok :: "synthetic_replica \<Rightarrow> bool" where
  "replica_ok r \<longleftrightarrow> (sy_warm r \<longleftrightarrow> sy_resident r) \<and> (sy_ready r \<longrightarrow> sy_resident r \<and> \<not> sy_draining r)"

definition backend_wf :: "backend \<Rightarrow> bool" where
  "backend_wf b \<longleftrightarrow> om_wf (bk_replicas b) \<and>
     (\<forall>i r. map_of (bk_replicas b) i = Some r \<longrightarrow> sy_id r = i \<and> replica_ok r) \<and>
     length (bk_replicas b) \<le> bk_max_replicas b"

named_theorems backend_simps \<open>operations of the backend and their laws\<close>

lemmas [backend_simps] = next_tick_def insert_replica_def warmed_def drained_def serving_def replica_ok_def
  fresh_replica_def command_replica_def applied_def

lemma om_put_length_known: "map_of m k \<noteq> None \<Longrightarrow> om_wf m \<Longrightarrow> length (om_put k v m) = length m"
proof (induction m)
  case (Cons e m)
  then show ?case
    by (cases e) (fastforce split: if_splits dest: map_of_SomeD)
qed simp

lemma om_put_length_new: "length (om_put k v m) \<le> Suc (length m)"
  by (induction k v m rule: om_put.induct) auto

lemma om_emplace_length: "length (om_emplace k v m) \<le> Suc (length m)"
  by (simp add: om_emplace_def om_put_length_new split: option.splits)

lemma om_map_length: "length (om_map f m) = length m"
  by (simp add: om_map_def)

lemma backend_wf_put:
  assumes "backend_wf b" and "map_of (bk_replicas b) i = Some r" and "sy_id r' = i" and "replica_ok r'"
  shows "backend_wf (b\<lparr>bk_replicas := om_put i r' (bk_replicas b)\<rparr>)"
  using assms by (auto simp: backend_wf_def om_put_length_known)

lemma backend_wf_cong:
  "bk_replicas b = bk_replicas b' \<Longrightarrow> bk_max_replicas b = bk_max_replicas b' \<Longrightarrow> backend_wf b = backend_wf b'"
  by (simp add: backend_wf_def)

lemma backend_wf_tick [simp]: "backend_wf (next_tick b) = backend_wf b"
  by (rule backend_wf_cong) (simp_all add: next_tick_def)

lemma next_tick_same [simp]:
  "bk_replicas (next_tick b) = bk_replicas b" "bk_max_replicas (next_tick b) = bk_max_replicas b"
  by (simp_all add: next_tick_def)

lemma backend_wf_insert:
  assumes "backend_wf b" and "length (bk_replicas b) < bk_max_replicas b" and "replica_ok r"
  shows "backend_wf (insert_replica r b)"
  using assms om_emplace_length [of "sy_id r" r "bk_replicas b"]
  by (auto simp: backend_wf_def insert_replica_def om_emplace_def split: option.splits if_splits)

lemma filter_wf: "om_wf m \<Longrightarrow> om_wf (filter p m)"
  by (induction m) auto

lemma backend_wf_filter:
  assumes "backend_wf b"
  shows "backend_wf (b\<lparr>bk_replicas := filter p (bk_replicas b)\<rparr>)"
proof -
  let ?m = "bk_replicas b"
  have wf: "om_wf ?m" using assms by (simp add: backend_wf_def)
  have "map_of ?m i = Some r" if "map_of (filter p ?m) i = Some r" for i r
    using om_entry_find [OF filter_wf [OF wf], of i r p] om_entry_find [OF wf, of i r] that by simp
  moreover have "length (filter p ?m) \<le> bk_max_replicas b"
    using assms le_trans [OF length_filter_le [of p ?m]] by (simp add: backend_wf_def)
  ultimately show ?thesis using assms filter_wf [OF wf] by (simp add: backend_wf_def) blast
qed

lemma backend_wf_erase:
  "backend_wf b \<Longrightarrow> backend_wf (b\<lparr>bk_replicas := om_erase i (bk_replicas b)\<rparr>)"
  unfolding om_erase_def by (rule backend_wf_filter)

lemma backend_wf_touch:
  assumes "backend_wf b" and "\<And>r. replica_ok r \<Longrightarrow> p r \<Longrightarrow> replica_ok (f r)" and "\<And>r. sy_id (f r) = sy_id r"
  shows "backend_wf (snd (touch_replicas p f b))"
proof -
  have "p r \<Longrightarrow> sy_id (f r) = i \<and> replica_ok (f r)" if "map_of (bk_replicas b) i = Some r" for i r
    using assms that by (auto simp: backend_wf_def)
  then show ?thesis
    using assms(1) by (auto simp: touch_replicas_def backend_wf_def om_map_length)
qed

lemma on_replica_wf:
  assumes "backend_wf b" and "\<And>r r'. replica_ok r \<Longrightarrow> act r = Inr r' \<Longrightarrow> sy_id r' = sy_id r \<and> replica_ok r'"
  shows "backend_wf (snd (on_replica i act b))"
proof (cases "map_of (bk_replicas b) i")
  case (Some r)
  then have "sy_id r = i" "replica_ok r" using assms(1) by (auto simp: backend_wf_def)
  then have "backend_wf (b\<lparr>bk_replicas := om_put i r' (bk_replicas b)\<rparr>)" if "act r = Inr r'" for r'
    using backend_wf_put [OF assms(1) Some] assms(2) [OF _ that] by simp
  then show ?thesis using assms(1) Some by (simp add: on_replica_def split: sum.split)
qed (simp add: on_replica_def assms)

section \<open>Every operation keeps the invariant\<close>

lemma replica_ok_steps [intro]:
  "replica_ok r \<Longrightarrow> replica_ok (warmed r)" "replica_ok (serving r)" "replica_ok r \<Longrightarrow> replica_ok (drained r)"
  "sy_id (warmed r) = sy_id r" "sy_id (serving r) = sy_id r" "sy_id (drained r) = sy_id r"
  by (simp_all add: backend_simps)

lemma add_replica_wf: "backend_wf b \<Longrightarrow> backend_wf (snd (snd (add_replica s m v g a b)))"
  by (simp add: add_replica_def Let_def backend_wf_insert replica_ok_def fresh_replica_def)

lemma remove_replica_wf: "backend_wf b \<Longrightarrow> backend_wf (snd (remove_replica i b))"
  by (simp add: remove_replica_def backend_wf_erase split: option.split)

lemma evict_replica_wf: "backend_wf b \<Longrightarrow> backend_wf (snd (evict_replica i b))"
  by (simp add: evict_replica_def backend_wf_erase split: option.split)

lemma erase_where_wf: "backend_wf b \<Longrightarrow> backend_wf (snd (erase_where p b))"
  by (simp add: erase_where_def backend_wf_filter)

lemma replica_operations_wf:
  assumes "backend_wf b"
  shows "backend_wf (snd (set_healthy i h b))" and "backend_wf (snd (warm_replica i b))"
    and "backend_wf (snd (activate_replica i b))" and "backend_wf (snd (drain_replica i b))"
  unfolding set_healthy_def warm_replica_def activate_replica_def drain_replica_def
  using assms by (auto intro!: on_replica_wf simp: backend_simps split: if_splits)

lemma warm_target_wf: "backend_wf b \<Longrightarrow> backend_wf (snd (warm_target i b))"
proof (cases "map_of (bk_replicas b) i")
  case (Some r)
  moreover assume wf: "backend_wf b"
  moreover have "sy_id r = i" "replica_ok r" using wf Some by (auto simp: backend_wf_def)
  ultimately have "backend_wf (b\<lparr>bk_replicas := om_put i (warmed r) (bk_replicas b)\<rparr>)"
    by (intro backend_wf_put) auto
  then show ?thesis using Some wf by (simp add: warm_target_def applied_def)
qed (simp add: warm_target_def)

lemma execute_wf:
  assumes "backend_wf b"
  shows "backend_wf (snd (execute c b))"
proof -
  have fresh: "replica_ok (command_replica c b)" by (simp add: backend_simps)
  have canary: "replica_ok (command_replica c b\<lparr>sy_warm := True, sy_resident := True, sy_ready := True\<rparr>)"
    by (simp add: backend_simps)
  have "backend_wf (snd (execute_warm c b))"
    using assms fresh
    by (auto simp: execute_warm_def Let_def not_le intro!: warm_target_wf backend_wf_insert split: option.split)
  moreover have "backend_wf (snd (execute_canary c b))"
    using backend_wf_insert [OF assms _ canary] assms
    by (auto simp: execute_canary_def applied_def not_le)
  moreover have "backend_wf (snd (restore_serving c x y b))" for x y
  proof -
    have "backend_wf (snd (touch_replicas (\<lambda>r. addressed c r \<and> sy_healthy r) serving b))"
      by (rule backend_wf_touch [OF assms]) auto
    then show ?thesis by (simp add: restore_serving_def applied_def case_prod_unfold)
  qed
  moreover have "backend_wf (snd (touch_replicas (addressed c) drained b))"
    by (rule backend_wf_touch [OF assms]) auto
  moreover have "backend_wf (snd (erase_where (same_generation c) b))" by (rule erase_where_wf [OF assms])
  ultimately show ?thesis
    by (auto simp: execute_def applied_def split: attempt_kind.split prod.split)
qed

section \<open>The backend as a state machine\<close>

inductive backend_step :: "backend \<Rightarrow> backend \<Rightarrow> bool" where
  Owned: "backend_step b (set_owner worker boot epoch b)"
| Disowned: "backend_step b (clear_owner b)"
| Added: "backend_step b (snd (snd (add_replica s m v g a b)))"
| Lost: "backend_step b (snd (lose_replica i b))"
| Health: "backend_step b (snd (set_healthy i h b))"
| Warmed: "backend_step b (snd (warm_replica i b))"
| Activated: "backend_step b (snd (activate_replica i b))"
| Drained: "backend_step b (snd (drain_replica i b))"
| Evicted: "backend_step b (snd (evict_replica i b))"
| Generation_Lost: "backend_step b (snd (lose_generation_in_scope m v g s b))"
| Executed: "backend_step b (snd (execute c b))"
| Ambiguous: "backend_step b (b\<lparr>bk_ambiguous_completion := x\<rparr>)"
| Ticked: "backend_step b (b\<lparr>bk_tick := t\<rparr>)"

inductive_cases backend_stepE: "backend_step b b'"

lemma backend_step_wf: "backend_step b b' \<Longrightarrow> backend_wf b \<Longrightarrow> backend_wf b'"
proof (induction rule: backend_step.induct)
  case (Generation_Lost b m v g s)
  then show ?case unfolding lose_generation_in_scope_def by (rule erase_where_wf)
qed (simp_all add: add_replica_wf lose_replica_def remove_replica_wf evict_replica_wf replica_operations_wf
      execute_wf, simp_all add: backend_wf_def set_owner_def clear_owner_def)

text \<open>The bound may be set to any value before use.\<close>

inductive backend_reachable :: "nat \<Rightarrow> backend \<Rightarrow> bool" for most where
  New: "backend_reachable most (new_backend\<lparr>bk_max_replicas := most\<rparr>)"
| Step: "backend_reachable most b \<Longrightarrow> backend_step b b' \<Longrightarrow> backend_reachable most b'"

lemma backend_reachable_wf: "backend_reachable most b \<Longrightarrow> backend_wf b"
  by (induction rule: backend_reachable.induct) (auto simp: backend_step_wf, simp add: backend_wf_def new_backend_def)

lemma max_replicas_steps [simp]:
  "bk_max_replicas (snd (on_replica i act b)) = bk_max_replicas b"
  "bk_max_replicas (snd (erase_where p b)) = bk_max_replicas b"
  "bk_max_replicas (snd (touch_replicas p f b)) = bk_max_replicas b"
  "bk_max_replicas (insert_replica r b) = bk_max_replicas b"
  "bk_max_replicas (snd (warm_target i b)) = bk_max_replicas b"
  by (simp_all add: on_replica_def erase_where_def touch_replicas_def insert_replica_def warm_target_def applied_def
      split: option.split sum.split)

lemma backend_step_max: "backend_step b b' \<Longrightarrow> bk_max_replicas b' = bk_max_replicas b"
  by (induction rule: backend_step.induct)
     (auto simp: set_owner_def clear_owner_def add_replica_def Let_def lose_replica_def remove_replica_def
      set_healthy_def warm_replica_def activate_replica_def drain_replica_def evict_replica_def
      lose_generation_in_scope_def execute_def execute_warm_def execute_canary_def restore_serving_def
      applied_def case_prod_unfold split: option.splits attempt_kind.splits)

section \<open>Properties\<close>

text \<open>
  Whatever commands and losses reach the backend, it stays within its bound, each replica stands
  under its own identity, a replica is warm exactly when it is resident, and one that reports ready is
  resident and not draining.
\<close>

theorem backend_replicas_sound:
  assumes "backend_reachable most b"
  shows "length (raw_replicas b) \<le> most \<and> om_wf (bk_replicas b) \<and>
    (replica_of b i = Some r \<longrightarrow> sy_id r = i \<and> (sy_warm r \<longleftrightarrow> sy_resident r) \<and>
      (sy_ready r \<longrightarrow> so_resident (residency_report r)))"
proof -
  have "bk_max_replicas b = most"
    using assms by (induction rule: backend_reachable.induct) (auto simp: backend_step_max)
  then show ?thesis
    using backend_reachable_wf [OF assms]
    by (auto simp: backend_wf_def raw_replicas_def replica_of_def residency_report_def replica_ok_def)
qed

lemma backend_replicas_sound_witness:
  "length (raw_replicas (snd (snd (add_replica 1 2 3 4 5 (new_backend\<lparr>bk_max_replicas := 1\<rparr>))))) \<le> 1"
  using backend_replicas_sound [OF Step [OF New Added], where i = 0] by blast

text \<open>
  C38 A command touches only the replicas of the generation it names, and one that is not an eviction
  only those in its own scope; every other replica is afterwards exactly what it was.
\<close>

theorem command_touches_only_its_generation:
  assumes "om_wf (bk_replicas b)" and "replica_of b (bk_next_replica_id b) = None"
    and "replica_of b i = Some r" and "\<not> same_generation c r \<or> cd_kind c \<noteq> AT_EvictRetired \<and> sy_scope r \<noteq> cd_scope c"
  shows "replica_of (snd (execute c b)) i = Some r"
proof -
  let ?m = "bk_replicas b"
  have i: "map_of ?m i = Some r" "i \<noteq> bk_next_replica_id b" using assms(2,3) by (auto simp: replica_of_def)
  have other: "\<not> addressed c r" using assms(4) by (auto simp: addressed_def)
  have target: "replica_of (snd (warm_target j b')) i = Some r" if "map_of (bk_replicas b') i = Some r" "j \<noteq> i" for j b'
    using that by (auto simp: warm_target_def replica_of_def applied_def split: option.splits)
  have inserted: "map_of (bk_replicas (insert_replica n b)) i = Some r" if "sy_id n = bk_next_replica_id b" for n
    using i that by (simp add: insert_replica_def om_emplace_def split: option.split)
  have warm: "replica_of (snd (execute_warm c b)) i = Some r"
  proof (cases "find (\<lambda>e. addressed c (snd e) \<and> sy_artifact_generation (snd e) = cd_artifact_generation c) ?m")
    case None
    have "sy_id (command_replica c b) = bk_next_replica_id b" by (simp add: backend_simps)
    then show ?thesis using None i target [OF inserted] by (auto simp: execute_warm_def Let_def replica_of_def)
  next
    case (Some e)
    then have "e \<in> set ?m" "addressed c (snd e)" by (auto simp: find_Some_iff)
    then have "map_of ?m (fst e) = Some (snd e)" using om_entry_find [OF assms(1), of "fst e" "snd e"] by simp
    then have "fst e \<noteq> i" using i(1) other \<open>addressed c (snd e)\<close> by auto
    then show ?thesis using Some target i(1) by (cases e) (simp add: execute_warm_def)
  qed
  have touch: "replica_of (snd (touch_replicas p f b)) i = Some r" if "\<not> p r" for p f
    using i(1) that by (simp add: touch_replicas_def replica_of_def)
  have restore: "replica_of (snd (restore_serving c x y b)) i = Some r" for x y
    using touch [of "\<lambda>r. addressed c r \<and> sy_healthy r" serving] other
    by (simp add: restore_serving_def applied_def case_prod_unfold)
  have canary: "replica_of (snd (execute_canary c b)) i = Some r"
    using i(1) inserted [of "command_replica c b\<lparr>sy_warm := True, sy_resident := True, sy_ready := True\<rparr>"]
    by (auto simp: execute_canary_def applied_def replica_of_def fresh_replica_def command_replica_def)
  have evict: "replica_of (snd (erase_where (same_generation c) b)) i = Some r" if "\<not> same_generation c r"
    using i(1) that om_entry_find [OF assms(1), of i r] om_entry_find [OF filter_wf [OF assms(1)], of i r]
    by (auto simp: erase_where_def replica_of_def)
  show ?thesis
    using assms(4) warm touch [of "addressed c" drained] other restore canary evict
    by (cases "cd_kind c") (auto simp: execute_def applied_def case_prod_unfold)
qed

definition sample_command :: "attempt_kind \<Rightarrow> u64 \<Rightarrow> command_message" where
  "sample_command kind generation = \<lparr>cd_kind = kind, cd_attempt = 1, cd_model = 2, cd_version = 3,
     cd_model_generation = generation, cd_artifact_generation = 5, cd_scope = 1, cd_rollout = 0,
     cd_rollout_generation = 0, cd_detail = []\<rparr>"

definition sample_backend :: backend where
  "sample_backend = snd (snd (add_replica 1 2 3 4 5 new_backend))"

lemma sample_backend_simps:
  "bk_replicas sample_backend = [(1, fresh_replica 1 2 3 4 5 new_backend)]" "bk_next_replica_id sample_backend = 2"
  "bk_max_replicas sample_backend = 4096" "bk_ambiguous_completion sample_backend = False"
  by (simp_all add: sample_backend_def add_replica_def new_backend_def id_valid_def backend_simps om_emplace_def)

lemma command_touches_only_its_generation_witness:
  "replica_of (snd (execute (sample_command AT_EvictRetired 9) sample_backend)) 1
     = Some (fresh_replica 1 2 3 4 5 new_backend)"
  by (rule command_touches_only_its_generation)
     (simp_all add: replica_of_def sample_backend_simps same_generation_def sample_command_def fresh_replica_def)

text \<open>A result never says that the command was allowed, whether or not its effect was applied.\<close>

lemma execute_never_allowed: "\<not> allowed (rs_decision (fst (execute c b)))"
proof -
  have refused: "\<not> is_positive OC_Rejected" "\<not> is_positive OC_BOUNDS_EXCEEDED" by (simp_all add: is_positive_def)
  have "\<not> allowed (rs_decision (fst (applied x y b)))" for x y b
    using refused by (simp add: applied_def unconfirmed_def new_result_def allowed_def new_decision_def)
  moreover have "\<not> allowed (rs_decision bound_reached)"
    using refused by (simp add: bound_reached_def refused_command_def new_result_def allowed_def add_reason_def new_decision_def)
  moreover have "\<not> allowed (rs_decision (refused_command (add_reason (new_decision OC_Rejected) (Rdy WarmupIncomplete) x)))"
    "\<not> allowed (rs_decision new_result)" for x
    using refused by (simp_all add: refused_command_def new_result_def allowed_def add_reason_def new_decision_def)
  ultimately show ?thesis
    by (auto simp: execute_def execute_warm_def warm_target_def execute_canary_def restore_serving_def case_prod_unfold
        Let_def split: attempt_kind.split option.split)
qed

end
