(* ===== verification/Mlf_Client.thy ===== *)
theory Mlf_Client
  imports Mlf_Stream Mlf_Wire
begin

text \<open>
  The framed channel over a socket (\<open>FrameChannel\<close> of include/mlf/protocol.hpp) and the synchronous
  client over it (include/mlf/client.hpp, src/client.cpp). What the socket will deliver and which
  sends will fail are part of the channel's state; an operation that has to wait for bytes that
  never come has no result.
\<close>

section \<open>The channel\<close>

text \<open>
  The decoder of a channel is built with the default limits, whatever limits the channel has.
  \<open>ch_error\<close> is the error text its callers pass along by reference.
\<close>

record channel =
  ch_open :: bool
  ch_limits :: protocol_limits
  ch_decoder :: frame_decoder
  ch_events :: "recv_event list"
  ch_sends :: "bool list"
  ch_sent :: "frame list"
  ch_error :: string

definition closed_channel :: channel where
  "closed_channel = \<lparr>ch_open = False, ch_limits = default_limits, ch_decoder = new_decoder default_limits,
     ch_events = [], ch_sends = [], ch_sent = [], ch_error = []\<rparr>"

definition open_channel :: "protocol_limits \<Rightarrow> recv_event list \<Rightarrow> bool list \<Rightarrow> channel" where
  "open_channel limits events sends = closed_channel\<lparr>ch_open := True, ch_limits := limits,
     ch_events := events, ch_sends := sends\<rparr>"

definition set_error :: "string \<Rightarrow> channel \<Rightarrow> channel" where
  "set_error e ch = ch\<lparr>ch_error := e\<rparr>"

definition send_all :: "frame \<Rightarrow> channel \<Rightarrow> protocol_status \<times> channel" where
  "send_all f ch =
     (case ch_sends ch of
        True # rest \<Rightarrow> (PS_IoError, set_error ''send() failed'' (ch\<lparr>ch_sends := rest\<rparr>))
      | _ \<Rightarrow> (PS_Ok, ch\<lparr>ch_sends := tl (ch_sends ch), ch_sent := ch_sent ch @ [f]\<rparr>))"

definition channel_send :: "frame \<Rightarrow> channel \<Rightarrow> protocol_status \<times> channel" where
  "channel_send f ch =
     (if \<not> ch_open ch then (PS_Closed, set_error ''channel is closed'' ch)
      else case encode_frame f (ch_limits ch) of
          Inl status \<Rightarrow> (status, ch)
        | Inr _ \<Rightarrow> send_all f ch)"

definition channel_get :: "channel \<Rightarrow> ((protocol_status + frame) \<times> channel) option" where
  "channel_get ch =
     (if \<not> ch_open ch then Some (Inl PS_Closed, set_error ''channel is closed'' ch)
      else case channel_receive (ch_decoder ch) (ch_events ch) of
          None \<Rightarrow> None
        | Some (result, d, events) \<Rightarrow>
            let ch = ch\<lparr>ch_decoder := d, ch_events := events\<rparr> in
            Some (result, if result = Inl PS_IoError then set_error ''recv() failed'' ch else ch))"

definition channel_close :: "channel \<Rightarrow> channel" where
  "channel_close ch = ch\<lparr>ch_open := False\<rparr>"

section \<open>The client\<close>

record client =
  cl_limits :: protocol_limits
  cl_channel :: channel

definition new_client :: "protocol_limits \<Rightarrow> client" where
  "new_client limits = \<lparr>cl_limits = limits, cl_channel = closed_channel\<rparr>"

text \<open>\<open>outcome\<close> is what connecting the socket gives: an error, or the future of the connection.\<close>

definition client_connect :: "string + recv_event list \<times> bool list \<Rightarrow> client \<Rightarrow> bool \<times> client" where
  "client_connect outcome c =
     (case outcome of
        Inl e \<Rightarrow> (False, c\<lparr>cl_channel := set_error e (cl_channel c)\<rparr>)
      | Inr (events, sends) \<Rightarrow> (True, c\<lparr>cl_channel :=
          set_error (ch_error (cl_channel c)) (open_channel (cl_limits c) events sends)\<rparr>))"

definition client_close :: "client \<Rightarrow> client" where
  "client_close c = (if ch_open (cl_channel c) then c\<lparr>cl_channel := channel_close (cl_channel c)\<rparr> else c)"

definition failed_reply :: "protocol_status \<Rightarrow> string \<Rightarrow> reply" where
  "failed_reply status detail = reply_add (protocol_reason_for status) detail (new_reply (outcome_for status))"

text \<open>The reply out of the frame received.\<close>

definition read_reply :: "protocol_limits \<Rightarrow> frame \<Rightarrow> string option \<times> reply" where
  "read_reply limits f =
     (if f_type f \<noteq> MT_REPLY then
        (Some ''unexpected reply type'', reply_add (Prt ProtocolUnknownType)
           (''unexpected reply type '' @ to_string_message (f_type f)) (new_reply OC_Rejected))
      else case decode_reply limits (f_payload f) of
          Inl status \<Rightarrow> (Some ''reply payload could not be decoded'',
            failed_reply status ''reply payload could not be decoded'')
        | Inr y \<Rightarrow> (None, y))"

definition client_call :: "message_type \<Rightarrow> bytes \<Rightarrow> client \<Rightarrow> (reply \<times> client) option" where
  "client_call t payload c =
     (let ch = cl_channel c in
      if \<not> ch_open ch then
        Some (reply_add (Prt ProtocolDecodeFailure) ''client is not connected'' (new_reply OC_Rejected),
          c\<lparr>cl_channel := set_error ''client is not connected'' ch\<rparr>)
      else case channel_send (make_frame t payload) ch of (sent, ch) \<Rightarrow>
        if sent \<noteq> PS_Ok then Some (failed_reply sent ''frame was not delivered'', c\<lparr>cl_channel := ch\<rparr>)
        else case channel_get ch of
            None \<Rightarrow> None
          | Some (Inl received, ch) \<Rightarrow>
              Some (failed_reply received ''no reply from the coordinator'', c\<lparr>cl_channel := ch\<rparr>)
          | Some (Inr response, ch) \<Rightarrow>
              (case read_reply (cl_limits c) response of
                 (Some e, y) \<Rightarrow> Some (y, c\<lparr>cl_channel := set_error e ch\<rparr>)
               | (None, y) \<Rightarrow> Some (y, c\<lparr>cl_channel := set_error [] ch\<rparr>)))"

text \<open>The two templates: the type of the frame is that of the message, or given by the caller.\<close>

definition call_as :: "message_type \<Rightarrow> protocol_status + bytes \<Rightarrow> client \<Rightarrow> (reply \<times> client) option" where
  "call_as t encoded c =
     (case encoded of
        Inl status \<Rightarrow> Some (failed_reply status ''message could not be encoded'',
          c\<lparr>cl_channel := set_error ''message could not be encoded'' (cl_channel c)\<rparr>)
      | Inr payload \<Rightarrow> client_call t payload c)"

definition client_hello :: "u64 \<Rightarrow> u64 \<Rightarrow> u64 \<Rightarrow> u64 list \<Rightarrow> client \<Rightarrow> (reply \<times> client) option" where
  "client_hello worker boot epoch scopes c =
     call_as MT_HELLO (encode_hello (cl_limits c) \<lparr>hm_protocol_version = lm_version (cl_limits c),
       hm_worker = worker, hm_boot = boot, hm_epoch = epoch, hm_scopes = scopes,
       hm_detail = ''client handshake''\<rparr>) c"

section \<open>A call gets the answer\<close>

text \<open>The channel is at a frame boundary with nothing left over.\<close>

definition at_rest :: "channel \<Rightarrow> bool" where
  "at_rest ch \<longleftrightarrow> ch_open ch \<and> (\<exists>d. ch_decoder ch = d \<and> decoder_holds default_limits d [] \<and> fd_buffer d = [])"

lemma at_rest_open [simp]: "at_rest (open_channel limits events sends)"
  by (simp add: at_rest_def open_channel_def closed_channel_def decoder_holds_new, simp add: new_decoder_def)

text \<open>The next send succeeds.\<close>

definition can_send :: "frame \<Rightarrow> channel \<Rightarrow> bool" where
  "can_send f ch \<longleftrightarrow> frame_fits (ch_limits ch) f \<and> (ch_sends ch = [] \<or> \<not> hd (ch_sends ch))"

lemma channel_send_ok:
  assumes "ch_open ch" and "can_send f ch"
  shows "channel_send f ch = (PS_Ok, ch\<lparr>ch_sends := tl (ch_sends ch), ch_sent := ch_sent ch @ [f]\<rparr>)"
  using assms by (cases "ch_sends ch") (auto simp: channel_send_def can_send_def encode_frame_fits send_all_def)

lemma channel_get_frame:
  assumes "at_rest ch" and "frame_fits default_limits f" and "ch_events ch = map Received cs"
    and "concat cs = frame_bytes f default_limits"
  shows "\<exists>d events. channel_get ch = Some (Inr f, ch\<lparr>ch_decoder := d, ch_events := events\<rparr>)"
proof -
  have d: "decoder_holds default_limits (ch_decoder ch) []" "fd_buffer (ch_decoder ch) = []"
    using assms(1) by (auto simp: at_rest_def)
  have "length (fd_buffer (ch_decoder ch)) + length (concat cs) \<le> frame_bound default_limits"
    using assms(2,4) d(2) by (simp add: length_frame_bytes frame_bound_def frame_fits_def)
  from receive_next_frame [OF d(1) assms(2) _ this, of "[]"] assms(4)
  obtain d' cs' where "channel_receive (ch_decoder ch) (map Received cs) = Some (Inr f, d', map Received cs')"
    by auto
  then show ?thesis using assms(1,3) by (auto simp: channel_get_def at_rest_def Let_def)
qed

text \<open>
  A synchronous call returns exactly the answer: when the request fits and is sent, and the bytes
  that arrive are those of a reply frame, cut into reads in any way, the caller gets that reply.
\<close>

lemma call_answered:
  assumes "at_rest (cl_channel c)" and "can_send (make_frame t payload) (cl_channel c)"
    and "encode_reply default_limits y = Inr out" and "reply_fits default_limits y"
    and "cl_limits c = default_limits" and "ch_events (cl_channel c) = map Received cs"
    and "concat cs = frame_bytes (make_frame MT_REPLY out) default_limits"
  shows "\<exists>c'. client_call t payload c = Some (y, c') \<and>
    ch_sent (cl_channel c') = ch_sent (cl_channel c) @ [make_frame t payload]"
proof -
  let ?f = "make_frame MT_REPLY out"
  let ?ch = "(cl_channel c)\<lparr>ch_sends := tl (ch_sends (cl_channel c)),
    ch_sent := ch_sent (cl_channel c) @ [make_frame t payload]\<rparr>"
  have opened: "ch_open (cl_channel c)" using assms(1) by (simp add: at_rest_def)
  have "length out \<le> lm_max_payload_bytes default_limits"
    using assms(3) by (auto simp: encode_reply_def sealed_def split: if_splits)
  then have fits: "frame_fits default_limits ?f"
    by (simp add: frame_fits_def make_frame_def default_limits_def)
  have rest: "at_rest ?ch" using assms(1) by (simp add: at_rest_def)
  from channel_get_frame [OF rest fits _ assms(7)] assms(6) obtain d events where
    got: "channel_get ?ch = Some (Inr ?f, ?ch\<lparr>ch_decoder := d, ch_events := events\<rparr>)"
    by auto
  have "decode_reply default_limits out = Inr y" by (rule reply_roundtrip [OF assms(3,4)])
  then have "read_reply (cl_limits c) ?f = (None, y)"
    using assms(5) by (simp add: read_reply_def make_frame_def)
  then show ?thesis
    using opened got channel_send_ok [OF opened assms(2)]
    by (simp add: client_call_def Let_def set_error_def)
qed

end
