(* ===== verification/Mlf_Worker.thy ===== *)
theory Mlf_Worker
  imports Mlf_Synthetic Mlf_Client
begin

text \<open>
  The worker of include/mlf/worker.hpp and src/worker.cpp: it announces itself to the coordinator,
  executes the commands it receives on its synthetic backend and publishes what it observes. An
  operation that waits for bytes that never come has no result, as for a channel.
\<close>

section \<open>State\<close>

record worker_config =
  wf_worker_id :: u64
  wf_scopes :: "u64 list"
  wf_limits :: protocol_limits
  wf_die_on_activate :: bool
  wf_unconfirmed_completions :: bool
  wf_connect_attempts :: u32

record worker_stats =
  wt_commands_executed :: u64
  wt_frames_sent :: u64
  wt_frames_received :: u64
  wt_protocol_rejections :: u64
  wt_backpressure_rejections :: u64
  wt_evidence_published :: u64
  wt_replies_sent :: u64

definition zero_worker_stats :: worker_stats where
  "zero_worker_stats = \<lparr>wt_commands_executed = 0, wt_frames_sent = 0, wt_frames_received = 0,
     wt_protocol_rejections = 0, wt_backpressure_rejections = 0, wt_evidence_published = 0, wt_replies_sent = 0\<rparr>"

record worker =
  wk_config :: worker_config
  wk_boot :: u64
  wk_epoch :: u64
  wk_channel :: channel
  wk_backend :: backend
  wk_stats :: worker_stats
  wk_stopping :: bool

text \<open>The boot identity, from the process, the clock and a counter.\<close>

definition make_boot_id :: "u64 \<Rightarrow> u64 \<Rightarrow> u64 \<Rightarrow> u64" where
  "make_boot_id process_id millis counter =
     (let mixed = xor (xor (process_id * 1000003) (millis * 31)) (counter * 7919) in
      if mixed = 0 then 1 else mixed)"

definition new_worker :: "worker_config \<Rightarrow> u64 \<Rightarrow> worker" where
  "new_worker config boot = \<lparr>wk_config = config, wk_boot = boot, wk_epoch = 0, wk_channel = closed_channel,
     wk_backend = new_backend, wk_stats = zero_worker_stats, wk_stopping = False\<rparr>"

abbreviation wk_limits :: "worker \<Rightarrow> protocol_limits" where
  "wk_limits w \<equiv> wf_limits (wk_config w)"

definition wk_tally :: "(worker_stats \<Rightarrow> worker_stats) \<Rightarrow> worker \<Rightarrow> worker" where
  "wk_tally f w = w\<lparr>wk_stats := f (wk_stats w)\<rparr>"

definition wk_fail :: "string \<Rightarrow> worker \<Rightarrow> bool \<times> worker" where
  "wk_fail e w = (False, w\<lparr>wk_channel := set_error e (wk_channel w)\<rparr>)"

definition protocol_rejection :: "worker \<Rightarrow> worker" where
  "protocol_rejection = wk_tally (\<lambda>t. t\<lparr>wt_protocol_rejections := wt_protocol_rejections t + 1\<rparr>)"

section \<open>Sending and receiving\<close>

definition wk_send_frame :: "message_type \<Rightarrow> bytes \<Rightarrow> worker \<Rightarrow> bool \<times> worker" where
  "wk_send_frame t payload w =
     (case channel_send (make_frame t payload) (wk_channel w) of (status, ch) \<Rightarrow>
        let w = w\<lparr>wk_channel := ch\<rparr> in
        if status \<noteq> PS_Ok then wk_fail (''send failed: '' @ to_string_protocol_status status) w
        else (True, wk_tally (\<lambda>t. t\<lparr>wt_frames_sent := wt_frames_sent t + 1\<rparr>) w))"

definition wk_send_reply :: "reply \<Rightarrow> worker \<Rightarrow> bool \<times> worker" where
  "wk_send_reply y w =
     (case encode_reply (wk_limits w) y of
        Inl _ \<Rightarrow> wk_fail ''reply could not be encoded'' w
      | Inr payload \<Rightarrow>
          wk_send_frame MT_REPLY payload (wk_tally (\<lambda>t. t\<lparr>wt_replies_sent := wt_replies_sent t + 1\<rparr>) w))"

definition wk_receive :: "worker \<Rightarrow> ((protocol_status + frame) \<times> worker) option" where
  "wk_receive w = map_option (\<lambda>(r, ch). (r, w\<lparr>wk_channel := ch\<rparr>)) (channel_get (wk_channel w))"

section \<open>Publishing\<close>

text \<open>One and zero as IEEE doubles.\<close>

definition readiness_value :: "bool \<Rightarrow> u64" where
  "readiness_value satisfied = (if satisfied then 0x3FF0000000000000 else 0)"

definition readiness_for :: "synthetic_replica \<Rightarrow> evidence_kind \<Rightarrow> publish_evidence_message" where
  "readiness_for r kind = \<lparr>pe_version = sy_version r, pe_model_generation = sy_model_generation r,
     pe_artifact_generation = sy_artifact_generation r, pe_scope = sy_scope r, pe_rollout = 0, pe_stage = 0,
     pe_kind = kind,
     pe_verdict = (if sy_ready r \<and> sy_healthy r then EV_Satisfied else EV_Unsatisfied),
     pe_value = readiness_value (sy_ready r \<and> sy_healthy r), pe_unit = ''boolean'', pe_tick = 0,
     pe_detail = (if kind = EK_Readiness then ''synthetic replica reports ready''
                  else ''synthetic replica reports resident''),
     pe_provenance = PV_Synthetic\<rparr>"

definition publication_type :: "evidence_kind \<Rightarrow> message_type" where
  "publication_type kind = (if kind = EK_Readiness then MT_PUBLISH_READINESS else MT_PUBLISH_HEALTH)"

text \<open>The two nested loops, over the replicas and the two kinds, as one list of publications.\<close>

definition publications :: "backend \<Rightarrow> (synthetic_replica \<times> evidence_kind) list" where
  "publications b =
     concat (map (\<lambda>r. [(r, EK_Readiness), (r, EK_ResidencyReady)]) (filter sy_resident (raw_replicas b)))"

text \<open>The frame that answers a publication is taken for a reply without looking at its type.\<close>

fun publish_each :: "(synthetic_replica \<times> evidence_kind) list \<Rightarrow> worker \<Rightarrow> (bool \<times> worker) option" where
  "publish_each [] w = Some (True, w)"
| "publish_each ((r, kind) # rest) w =
     (case encode_publish_evidence (wk_limits w) (readiness_for r kind) of
        Inl _ \<Rightarrow> publish_each rest w
      | Inr payload \<Rightarrow>
          (case wk_send_frame (publication_type kind) payload w of
             (False, w) \<Rightarrow> Some (False, w)
           | (True, w) \<Rightarrow>
               (case wk_receive w of
                  None \<Rightarrow> None
                | Some (Inl _, w) \<Rightarrow> Some (False, w)
                | Some (Inr f, w) \<Rightarrow>
                    publish_each rest
                      (case decode_reply (wk_limits w) (f_payload f) of
                         Inl _ \<Rightarrow> w
                       | Inr y \<Rightarrow> if reply_ok y
                           then wk_tally (\<lambda>t. t\<lparr>wt_evidence_published := wt_evidence_published t + 1\<rparr>) w else w))))"

definition publish_observations :: "worker \<Rightarrow> (bool \<times> worker) option" where
  "publish_observations w = publish_each (publications (wk_backend w)) w"

section \<open>Commands\<close>

text \<open>A worker told to die on activation leaves with exit code 97.\<close>

datatype served = Exited nat | Served bool

definition completion_of :: "worker \<Rightarrow> command_message \<Rightarrow> command_result \<Rightarrow> completion_message" where
  "completion_of w c result = \<lparr>cp_attempt = cd_attempt c,
     cp_success = (allowed (rs_decision result) \<and> rs_effect_applied result),
     cp_confirmed = (\<not> wf_unconfirmed_completions (wk_config w) \<and> \<not> bk_ambiguous_completion (wk_backend w)),
     cp_detail = rs_detail result\<rparr>"

definition run_on_backend :: "command_message \<Rightarrow> worker \<Rightarrow> command_result \<times> worker" where
  "run_on_backend c w = (case execute c (wk_backend w) of (result, b) \<Rightarrow> (result, w\<lparr>wk_backend := b\<rparr>))"

definition served :: "bool \<times> worker \<Rightarrow> (served \<times> worker) option" where
  "served r = Some (Served (fst r), snd r)"

text \<open>Sending the completion, and reading the frame that answers it.\<close>

definition wk_report :: "bytes \<Rightarrow> worker \<Rightarrow> (served \<times> worker) option" where
  "wk_report payload w =
     (case wk_send_frame MT_PUBLISH_COMPLETION payload w of
        (False, w) \<Rightarrow> served (False, w)
      | (True, w) \<Rightarrow>
          (case wk_receive w of
             None \<Rightarrow> None
           | Some (Inl _, w) \<Rightarrow> served (False, w)
           | Some (Inr f, w) \<Rightarrow>
               (case decode_reply (wk_limits w) (f_payload f) of
                  Inl _ \<Rightarrow> served (wk_fail ''completion reply could not be decoded'' w)
                | Inr y \<Rightarrow>
                    Option.bind (publish_observations
                      (if reply_ok y then w
                       else snd (wk_fail (''coordinator refused the completion: '' @ render_reply y) w)))
                      served)))"

definition wk_handle_command :: "command_message \<Rightarrow> worker \<Rightarrow> (served \<times> worker) option" where
  "wk_handle_command c w =
     (case run_on_backend c w of (result, w) \<Rightarrow>
        if cd_kind c = AT_Activate \<and> wf_die_on_activate (wk_config w) then
          Some (Exited 97, if rs_effect_applied result then w
            else snd (wk_fail ''activation effect was not applied before simulated death'' w))
        else
          let w = wk_tally (\<lambda>t. t\<lparr>wt_commands_executed := wt_commands_executed t + 1\<rparr>) w in
          case encode_completion (wk_limits w) (completion_of w c result) of
            Inl _ \<Rightarrow> served (wk_fail ''completion could not be encoded'' w)
          | Inr payload \<Rightarrow> wk_report payload w)"

definition command_frames :: "message_type list" where
  "command_frames = [MT_COMMAND, MT_REQUEST_WARM, MT_REQUEST_ACTIVATE, MT_REQUEST_DRAIN, MT_REQUEST_ROLLBACK]"

definition wk_handle_fence :: "frame \<Rightarrow> worker \<Rightarrow> bool \<times> worker" where
  "wk_handle_fence f w =
     (case decode_fence (wk_limits w) (f_payload f) of
        Inl _ \<Rightarrow> (True, protocol_rejection w)
      | Inr m \<Rightarrow>
          if fm_worker m \<noteq> wf_worker_id (wk_config w) \<or> fm_boot m \<noteq> wk_boot w then
            wk_send_reply (reply_add (Wrk WorkerBootStale) ''fence targets a different boot'' (new_reply OC_Rejected)) w
          else case wk_send_reply (reply_set ''fenced'' ''yes'' (new_reply OC_Accepted)) w of
              (False, w) \<Rightarrow> (False, w)
            | (True, w) \<Rightarrow> (True, w\<lparr>wk_stopping := True, wk_channel := channel_close (wk_channel w)\<rparr>))"

definition wk_handle_frame :: "frame \<Rightarrow> worker \<Rightarrow> (served \<times> worker) option" where
  "wk_handle_frame f w =
     (let w = wk_tally (\<lambda>t. t\<lparr>wt_frames_received := wt_frames_received t + 1\<rparr>) w in
      if f_type f \<in> set command_frames then
        (case decode_command (wk_limits w) (f_payload f) of
           Inl _ \<Rightarrow> served (wk_send_reply (reply_add (Prt ProtocolDecodeFailure)
             ''command frame could not be decoded'' (new_reply OC_Rejected)) (protocol_rejection w))
         | Inr c \<Rightarrow> wk_handle_command c w)
      else if f_type f = MT_FENCE then served (wk_handle_fence f w)
      else served (wk_send_reply (reply_add (Prt ProtocolUnknownType) (to_string_message (f_type f))
             (new_reply OC_Rejected)) (protocol_rejection w)))"

section \<open>The life of a worker\<close>

definition serve_one :: "worker \<Rightarrow> (served \<times> worker) option" where
  "serve_one w =
     (if \<not> ch_open (wk_channel w) then served (wk_fail ''worker is not connected'' w)
      else case wk_receive w of
          None \<Rightarrow> None
        | Some (Inl status, w) \<Rightarrow>
            if status = PS_Closed then served (wk_fail ''coordinator closed the connection'' w)
            else served (case wk_fail (''protocol violation: '' @ to_string_protocol_status status) (protocol_rejection w)
              of (ok, w) \<Rightarrow> (ok, w\<lparr>wk_channel := channel_close (wk_channel w)\<rparr>))
        | Some (Inr f, w) \<Rightarrow> wk_handle_frame f w)"

partial_function (option) wk_run :: "worker \<Rightarrow> (served \<times> worker) option" where
  "wk_run w =
     (if wk_stopping w then Some (Served True, w)
      else case serve_one w of
          None \<Rightarrow> None
        | Some (r, w) \<Rightarrow> if r = Served True then wk_run w else Some (r, w))"

definition wk_stop :: "worker \<Rightarrow> worker" where
  "wk_stop w = w\<lparr>wk_stopping := True,
     wk_channel := (if ch_open (wk_channel w) then channel_close (wk_channel w) else wk_channel w)\<rparr>"

text \<open>The attempts to connect: what each of them gives is the argument.\<close>

fun wk_connect :: "nat \<Rightarrow> (string + recv_event list \<times> bool list) list \<Rightarrow> worker \<Rightarrow> worker" where
  "wk_connect attempts [] w = w"
| "wk_connect attempts (Inr (events, sends) # outcomes) w =
     w\<lparr>wk_channel := set_error (ch_error (wk_channel w)) (open_channel (wk_limits w) events sends)\<rparr>"
| "wk_connect attempts (Inl e # outcomes) w =
     (let w = snd (wk_fail e w) in
      if attempts \<le> 1 then w else wk_connect (attempts - 1) outcomes w)"

definition worker_hello :: "worker \<Rightarrow> u64 \<Rightarrow> string \<Rightarrow> hello_message" where
  "worker_hello w epoch detail_text = \<lparr>hm_protocol_version = lm_version (wk_limits w),
     hm_worker = wf_worker_id (wk_config w), hm_boot = wk_boot w, hm_epoch = epoch,
     hm_scopes = wf_scopes (wk_config w), hm_detail = detail_text\<rparr>"

definition own_backend :: "u64 \<Rightarrow> worker \<Rightarrow> worker" where
  "own_backend epoch w =
     w\<lparr>wk_backend := set_owner (wf_worker_id (wk_config w)) (wk_boot w) epoch (wk_backend w)\<rparr>"

text \<open>The second half of \<open>start\<close>, once the handshake was accepted.\<close>

definition wk_register :: "worker \<Rightarrow> (bool \<times> worker) option" where
  "wk_register w =
     (case encode_hello (wk_limits w) (worker_hello w (wk_epoch w) ''worker registration'') of
        Inl _ \<Rightarrow> Some (wk_fail ''REGISTER_WORKER could not be encoded'' w)
      | Inr payload \<Rightarrow>
          (case wk_send_frame MT_REGISTER_WORKER payload w of
             (False, w) \<Rightarrow> Some (False, w)
           | (True, w) \<Rightarrow>
               (case wk_receive w of
                  None \<Rightarrow> None
                | Some (Inl _, w) \<Rightarrow> Some (wk_fail ''no registration acknowledgement from the coordinator'' w)
                | Some (Inr f, w) \<Rightarrow>
                    (case decode_reply (wk_limits w) (f_payload f) of
                       Inl _ \<Rightarrow> Some (wk_fail ''registration reply could not be decoded'' w)
                     | Inr y \<Rightarrow>
                         if \<not> reply_ok y then
                           Some (wk_fail (''coordinator refused worker registration: '' @ render_reply y) w)
                         else publish_observations w))))"

definition wk_handshake :: "worker \<Rightarrow> (bool \<times> worker) option" where
  "wk_handshake w =
     (case encode_hello (wk_limits w) (worker_hello w 0 (''worker boot '' @ show_u64 (wk_boot w))) of
        Inl _ \<Rightarrow> Some (wk_fail ''HELLO could not be encoded'' w)
      | Inr payload \<Rightarrow>
          (case wk_send_frame MT_HELLO payload w of
             (False, w) \<Rightarrow> Some (False, w)
           | (True, w) \<Rightarrow>
               (case wk_receive w of
                  None \<Rightarrow> None
                | Some (Inl _, w) \<Rightarrow> Some (wk_fail ''no HELLO_ACK reply from the coordinator'' w)
                | Some (Inr f, w) \<Rightarrow>
                    if f_type f \<noteq> MT_REPLY then Some (wk_fail ''no HELLO_ACK reply from the coordinator'' w)
                    else case decode_reply (wk_limits w) (f_payload f) of
                        Inl _ \<Rightarrow> Some (wk_fail ''HELLO_ACK could not be decoded'' w)
                      | Inr y \<Rightarrow>
                          if \<not> reply_ok y then
                            Some (wk_fail (''coordinator rejected the handshake: '' @ render_reply y) w)
                          else
                            let epoch = reply_number ''coordinator_epoch'' 0 y in
                            wk_register (own_backend epoch (w\<lparr>wk_epoch := epoch\<rparr>)))))"

definition wk_start :: "(string + recv_event list \<times> bool list) list \<Rightarrow> worker \<Rightarrow> (bool \<times> worker) option" where
  "wk_start outcomes w =
     (let w = wk_connect (unat (wf_connect_attempts (wk_config w))) outcomes w in
      if \<not> ch_open (wk_channel w) then Some (False, w)
      else wk_handshake (own_backend 0 w))"

section \<open>Only commands reach the backend\<close>

text \<open>Sending, receiving and publishing leave everything but the channel and the counters alone.\<close>

definition same_body :: "worker \<Rightarrow> worker \<Rightarrow> bool" where
  "same_body w w' \<longleftrightarrow> wk_backend w' = wk_backend w \<and> wk_config w' = wk_config w \<and> wk_boot w' = wk_boot w \<and>
     wk_epoch w' = wk_epoch w"

lemma same_body_refl [simp, intro]: "same_body w w"
  by (simp add: same_body_def)

lemma same_body_trans: "same_body u v \<Longrightarrow> same_body v w \<Longrightarrow> same_body u w"
  by (simp add: same_body_def)

lemma same_body_local [simp, intro]:
  "same_body w (wk_tally f w)" "same_body w (snd (wk_fail e w))" "same_body w (protocol_rejection w)"
  "same_body w (w\<lparr>wk_channel := ch\<rparr>)" "same_body w (w\<lparr>wk_stopping := x, wk_channel := ch\<rparr>)"
  by (simp_all add: same_body_def wk_tally_def wk_fail_def protocol_rejection_def)

lemma same_body_send [simp, intro]: "same_body w (snd (wk_send_frame t payload w))"
  by (auto simp: wk_send_frame_def Let_def same_body_def wk_tally_def wk_fail_def split: prod.split)

lemma same_body_send_reply [simp, intro]: "same_body w (snd (wk_send_reply y w))"
proof -
  have "same_body w (snd (wk_send_frame MT_REPLY payload (wk_tally f w)))" for payload f
    by (rule same_body_trans [of _ "wk_tally f w"]) auto
  then show ?thesis by (auto simp: wk_send_reply_def split: sum.split)
qed

lemma same_body_receive: "wk_receive w = Some (r, w') \<Longrightarrow> same_body w w'"
  by (auto simp: wk_receive_def)

lemma same_body_publish: "publish_each ps w = Some (ok, w') \<Longrightarrow> same_body w w'"
proof (induction ps w arbitrary: ok w' rule: publish_each.induct)
  case (2 r kind rest w)
  show ?case
  proof (cases "encode_publish_evidence (wk_limits w) (readiness_for r kind)")
    case (Inl e)
    then show ?thesis using 2 by simp
  next
    case (Inr payload)
    obtain sent u where u: "wk_send_frame (publication_type kind) payload w = (sent, u)" by fastforce
    then have wu: "same_body w u" using same_body_send [of w "publication_type kind" payload] by simp
    show ?thesis
    proof (cases "sent \<and> (\<exists>f v. wk_receive u = Some (Inr f, v))")
      case True
      then obtain f v where v: "wk_receive u = Some (Inr f, v)" by blast
      then have wv: "same_body w v" using wu same_body_receive same_body_trans by blast
      define t where "t = (case decode_reply (wk_limits v) (f_payload f) of
          Inl _ \<Rightarrow> v
        | Inr y \<Rightarrow> if reply_ok y
            then wk_tally (\<lambda>t. t\<lparr>wt_evidence_published := wt_evidence_published t + 1\<rparr>) v else v)"
      have "same_body v t" by (auto simp: t_def split: sum.split)
      moreover have "publish_each rest t = Some (ok, w')"
        using 2(3) Inr u v True by (simp add: t_def)
      ultimately show ?thesis
        using 2(2) Inr u v True wv by (metis (no_types, lifting) same_body_trans t_def)
    next
      case False
      then show ?thesis
        using 2(3) Inr u wu same_body_receive [of u]
        by (auto split: option.splits sum.splits bool.splits intro: same_body_trans)
    qed
  qed
qed auto

lemma same_body_observations: "publish_observations w = Some (ok, w') \<Longrightarrow> same_body w w'"
  unfolding publish_observations_def by (rule same_body_publish)

lemma same_body_report:
  assumes "wk_report payload w = Some (r, w')"
  shows "same_body w w'"
proof -
  obtain ok u where u: "wk_send_frame MT_PUBLISH_COMPLETION payload w = (ok, u)" by fastforce
  then have wu: "same_body w u" using same_body_send [of w MT_PUBLISH_COMPLETION payload] by simp
  show ?thesis
  proof (cases "ok \<and> (\<exists>f v. wk_receive u = Some (Inr f, v))")
    case True
    then obtain f v where v: "wk_receive u = Some (Inr f, v)" by blast
    then have wv: "same_body w v" using wu same_body_receive same_body_trans by blast
    have "same_body v w'"
    proof (cases "decode_reply (wk_limits v) (f_payload f)")
      case (Inl e)
      then show ?thesis using assms u v True by (auto simp: wk_report_def served_def)
    next
      case (Inr y)
      define t where "t = (if reply_ok y then v
        else snd (wk_fail (''coordinator refused the completion: '' @ render_reply y) v))"
      have "same_body v t" unfolding t_def by auto
      moreover obtain x where "publish_observations t = Some x" "snd x = w'"
        using assms u v True Inr by (auto simp: wk_report_def served_def t_def split: bind_splits)
      ultimately show ?thesis using same_body_observations [of t "fst x" w'] same_body_trans by auto
    qed
    then show ?thesis using wv same_body_trans by blast
  next
    case False
    then show ?thesis
      using assms u wu same_body_receive [of u]
      by (auto simp: wk_report_def served_def split: option.splits sum.splits bool.splits intro: same_body_trans)
  qed
qed

lemma handle_command_body:
  assumes "wk_handle_command c w = Some (r, w')"
  shows "same_body (snd (run_on_backend c w)) w'"
proof -
  define u where "u = snd (run_on_backend c w)"
  obtain result where run: "run_on_backend c w = (result, u)" by (cases "run_on_backend c w") (simp add: u_def)
  have "same_body u w'" if "wk_report payload (wk_tally f u) = Some (r, w')" for payload f
    using same_body_report [OF that] same_body_local(1) same_body_trans by blast
  then have "same_body u w'"
    using assms run
    by (auto simp: wk_handle_command_def Let_def served_def split: if_splits sum.splits intro: same_body_trans)
  then show ?thesis by (simp add: u_def)
qed

lemma run_on_backend_simps [simp]:
  "wk_backend (snd (run_on_backend c w)) = snd (execute c (wk_backend w))"
  "fst (run_on_backend c w) = fst (execute c (wk_backend w))"
  "same_body w (snd (run_on_backend c w)) \<longleftrightarrow> snd (execute c (wk_backend w)) = wk_backend w"
  by (auto simp: run_on_backend_def same_body_def split: prod.split)

text \<open>What a worker does to its backend: nothing, or the command it was given.\<close>

definition backend_moves :: "worker \<Rightarrow> worker \<Rightarrow> bool" where
  "backend_moves w w' \<longleftrightarrow> backend_step\<^sup>*\<^sup>* (wk_backend w) (wk_backend w')"

lemma backend_moves_trans: "backend_moves u v \<Longrightarrow> backend_moves v w \<Longrightarrow> backend_moves u w"
  unfolding backend_moves_def by (rule rtranclp_trans)

lemma same_body_moves: "same_body w w' \<Longrightarrow> backend_moves w w'"
  by (simp add: same_body_def backend_moves_def)

lemma handle_frame_moves:
  assumes "wk_handle_frame f w = Some (r, w')"
  shows "backend_moves w w'"
proof -
  let ?w = "wk_tally (\<lambda>t. t\<lparr>wt_frames_received := wt_frames_received t + 1\<rparr>) w"
  have start: "same_body w ?w" by simp
  have command: "backend_moves ?w w'" if "wk_handle_command c ?w = Some (r, w')" for c
    using handle_command_body [OF that] backend_step.Executed [of "wk_backend ?w" c]
    by (auto simp: backend_moves_def same_body_def)
  have fenced: "same_body v (snd (wk_handle_fence f v))" for v
  proof -
    have "same_body v (u\<lparr>wk_stopping := True, wk_channel := ch\<rparr>)" if "wk_send_reply y v = (True, u)" for y u ch
      using same_body_send_reply [of v y] that by (auto intro: same_body_trans)
    moreover have "same_body v u" if "wk_send_reply y v = (False, u)" for y u
      using same_body_send_reply [of v y] that by simp
    ultimately show ?thesis
      by (auto simp: wk_handle_fence_def split: sum.split prod.split bool.split)
  qed
  have replied: "same_body ?w (snd (wk_send_reply y (protocol_rejection ?w)))" for y
    using same_body_local(3) same_body_send_reply same_body_trans by blast
  have "backend_moves ?w w'"
    using assms command same_body_moves [OF fenced [of ?w]] same_body_moves [OF replied]
    by (auto simp: wk_handle_frame_def Let_def served_def split: if_splits sum.splits)
  then show ?thesis using same_body_moves [OF start] backend_moves_trans by blast
qed

lemma serve_one_moves:
  assumes "serve_one w = Some (r, w')"
  shows "backend_moves w w'"
proof (cases "ch_open (wk_channel w)")
  case True
  show ?thesis
  proof (cases "wk_receive w")
    case None
    then show ?thesis using assms True by (simp add: serve_one_def)
  next
    case (Some x)
    obtain a u where x: "x = (a, u)" by fastforce
    have wu: "same_body w u" using Some x by (auto dest: same_body_receive)
    have failed: "same_body u (snd (wk_fail e (protocol_rejection u))\<lparr>wk_channel := ch\<rparr>)" for e ch
      by (simp add: same_body_def wk_fail_def protocol_rejection_def wk_tally_def)
    have "backend_moves u w'"
      using assms True Some x handle_frame_moves [of _ u r w'] same_body_moves [OF failed] same_body_moves [of u]
      by (auto simp: serve_one_def served_def case_prod_unfold split: sum.splits if_splits)
    then show ?thesis using same_body_moves [OF wu] backend_moves_trans by blast
  qed
qed (use assms in \<open>auto simp: serve_one_def served_def intro: same_body_moves\<close>)

lemma wk_run_moves:
  assumes "wk_run w = Some x"
  shows "backend_moves w (snd x)"
proof (rule wk_run.raw_induct [where P = "\<lambda>w x. backend_moves w (snd x)", OF _ assms])
  fix go w x
  assume 1: "\<And>w x. go w = Some x \<Longrightarrow> backend_moves w (snd x)"
    "(if wk_stopping w then Some (Served True, w)
      else case serve_one w of
          None \<Rightarrow> None
        | Some (r, w) \<Rightarrow> if r = Served True then go w else Some (r, w)) = Some x"
  show "backend_moves w (snd x)"
  proof (cases "serve_one w")
    case (Some y)
    obtain a u where y: "y = (a, u)" by fastforce
    have "backend_moves w u" using Some y serve_one_moves by blast
    then show ?thesis
      using 1 Some y backend_moves_trans by (auto simp: same_body_moves split: if_splits)
  qed (use 1 in \<open>auto simp: same_body_moves split: if_splits\<close>)
qed

lemma same_body_connect: "wk_backend (wk_connect n outcomes w) = wk_backend w"
  by (induction n outcomes w rule: wk_connect.induct) (auto simp: Let_def wk_fail_def)

lemma same_body_set_epoch: "wk_backend (own_backend epoch (w\<lparr>wk_epoch := e\<rparr>)) =
    set_owner (wf_worker_id (wk_config w)) (wk_boot w) epoch (wk_backend w)"
  by (simp add: own_backend_def)

lemma wk_register_moves: "wk_register w = Some (ok, w') \<Longrightarrow> backend_moves w w'"
proof (rule same_body_moves)
  assume run: "wk_register w = Some (ok, w')"
  have sent: "same_body w u" if "wk_send_frame t payload w = (b, u)" for t payload b u
    using same_body_send [of w t payload] that by simp
  have got: "same_body u v" if "wk_receive u = Some (x, v)" for u v x
    using that by (rule same_body_receive)
  have failed: "same_body u v" if "wk_fail e u = (ok, v)" for u v e
    using same_body_local(2) [of u e] that by simp
  show "same_body w w'"
    using run
    by (auto simp: wk_register_def split: sum.splits prod.splits bool.splits option.splits if_splits
        dest!: sent got same_body_observations failed intro: same_body_trans)
qed

lemma wk_handshake_moves:
  assumes "wk_handshake w = Some (ok, w')"
  shows "backend_moves w w'"
proof -
  have sent: "same_body w u" if "wk_send_frame t payload w = (b, u)" for t payload b u
    using same_body_send [of w t payload] that by simp
  have got: "same_body w v" if "wk_receive u = Some (x, v)" "same_body w u" for u v x
    using same_body_receive [OF that(1)] that(2) same_body_trans by blast
  have failed: "backend_moves w v" if "wk_fail e u = (ok, v)" "same_body w u" for u v e
    using same_body_trans [OF that(2) same_body_local(2) [of u e]] that(1) by (simp add: same_body_moves)
  have registered: "backend_moves w w'"
    if "wk_register (own_backend epoch (u\<lparr>wk_epoch := epoch\<rparr>)) = Some (ok, w')" "same_body w u" for epoch u
  proof -
    have "backend_step (wk_backend w) (wk_backend (own_backend epoch (u\<lparr>wk_epoch := epoch\<rparr>)))"
      unfolding same_body_set_epoch using that(2) backend_step.Owned by (simp add: same_body_def)
    then have "backend_moves w (own_backend epoch (u\<lparr>wk_epoch := epoch\<rparr>))" by (simp add: backend_moves_def)
    then show ?thesis using wk_register_moves [OF that(1)] backend_moves_trans by blast
  qed
  show ?thesis
    using assms
    by (auto simp: wk_handshake_def Let_def same_body_moves split: sum.splits prod.splits bool.splits option.splits if_splits
        dest!: sent dest: got failed registered)
qed

lemma wk_start_moves:
  assumes "wk_start outcomes w = Some (ok, w')"
  shows "backend_moves w w'"
proof -
  let ?c = "wk_connect (unat (wf_connect_attempts (wk_config w))) outcomes w"
  have "backend_moves w (own_backend 0 ?c)"
    using backend_step.Owned [of "wk_backend w"]
    by (simp add: backend_moves_def own_backend_def same_body_connect r_into_rtranclp)
  moreover have "backend_moves w ?c" by (simp add: backend_moves_def same_body_connect)
  ultimately show ?thesis
    using assms backend_moves_trans wk_handshake_moves
    by (auto simp: wk_start_def Let_def split: if_splits)
qed

lemma backend_reachable_moves:
  "backend_step\<^sup>*\<^sup>* b b' \<Longrightarrow> backend_reachable most b \<Longrightarrow> backend_reachable most b'"
  by (induction rule: rtranclp_induct) (auto intro: backend_reachable.Step)

section \<open>A command is no reply\<close>

lemma get_u16_pair:
  "fst (get_u16 (reader_of (a # b # rest))) = or (ucast a) (push_bit 8 (ucast b))"
  by (simp add: get_u16_def eval_nat_numeral get_u8_def reader_of_def Let_def)

lemma u16_high_byte:
  assumes "(b :: u8) \<noteq> 0"
  shows "(255 :: u16) < or (ucast (a :: u8)) (push_bit 8 (ucast b))"
proof -
  let ?v = "or (ucast a) (push_bit 8 (ucast b)) :: u16"
  have "drop_bit 8 ?v = ucast b"
    by (rule bit_word_eqI) (auto simp: bit_simps dest: bit_imp_le_length)
  moreover have "(ucast b :: u16) \<noteq> 0"
  proof
    assume "(ucast b :: u16) = 0"
    then have "unat (ucast b :: u16) = 0" by simp
    then have "unat b = 0" using unsigned_less [of b, where ?'a = nat] by (simp add: unsigned_ucast_eq take_bit_eq_mod)
    then show False using assms by (simp add: unat_eq_zero)
  qed
  ultimately have "unat (drop_bit 8 ?v) \<noteq> 0" by (simp add: unat_eq_zero)
  then have "unat ?v div 256 \<noteq> 0" unfolding unat_drop_bit_eq by (simp add: drop_bit_eq_div)
  then show ?thesis by (simp add: word_less_nat_alt)
qed

lemma low_byte_nonzero: "unat (x :: u64) mod 256 \<noteq> 0 \<Longrightarrow> low_byte 0 x \<noteq> 0"
proof
  assume mod: "unat x mod 256 \<noteq> 0" and low: "low_byte 0 x = 0"
  have "unat (ucast x :: u8) = unat x mod 256" by (simp add: unsigned_ucast_eq take_bit_eq_mod)
  moreover have "low_byte 0 x = (ucast x :: u8)"
    by (rule bit_word_eqI) (simp add: bit_low_byte bit_simps)
  ultimately show False using mod low by simp
qed

lemma command_is_no_reply:
  assumes "encode_command limits c = Inr out" and "low_byte 0 (cd_attempt c) \<noteq> 0"
  shows "decode_reply limits' out = Inl PS_DecodeFailure"
proof -
  obtain rest where out: "out = enum_byte attempt_kinds (cd_kind c) # low_byte 0 (cd_attempt c) # rest"
    using assms(1) by (simp add: encode_command_def sealed_eq put_u8_def put_u64_def upt_conv_Cons)
  have "outcome_number OC_UNSUPPORTED < 255"
    by (simp add: outcome_number_def outcome_codes_def)
  then have "outcome_number OC_UNSUPPORTED < fst (get_u16 (reader_of out))"
    unfolding out get_u16_pair using u16_high_byte [OF assms(2)] by (rule less_trans)
  then show ?thesis by (simp add: decode_reply_def case_prod_unfold Let_def)
qed
section \<open>A worker whose coordinator leaves\<close>

definition sample_worker_config :: worker_config where
  "sample_worker_config = \<lparr>wf_worker_id = 7, wf_scopes = [1], wf_limits = default_limits, wf_die_on_activate = False,
     wf_unconfirmed_completions = False, wf_connect_attempts = 1\<rparr>"

definition leaving :: "recv_event list \<Rightarrow> worker" where
  "leaving events = own_backend 0 ((new_worker sample_worker_config 9)\<lparr>wk_channel :=
     set_error [] (open_channel default_limits events [])\<rparr>)"

lemma leaving_hello:
  "\<exists>p. encode_hello default_limits (worker_hello (leaving events) 0 detail_text) = Inr p \<and> length p \<le> 65536"
  if "length detail_text < 100"
  using that by (simp add: encode_hello_def worker_hello_def sealed_def sample_worker_config_def leaving_def
      own_backend_def new_worker_def put_count_def put_all_def put_str_length) (simp add: default_limits_def)

lemma closed_by_peer:
  "channel_receive (new_decoder default_limits) (Peer_Closed # events) = Some (Inl PS_Closed, new_decoder default_limits, events)"
  by (simp add: decoder_next_def, simp add: new_decoder_def kFrameHeaderSize_def)

lemma leaving_start: "\<exists>w. wk_start [Inr ([Peer_Closed, Peer_Closed], [])] (new_worker sample_worker_config 9) = Some (False, w) \<and>
    ch_open (wk_channel w) \<and> ch_decoder (wk_channel w) = new_decoder default_limits \<and> ch_events (wk_channel w) = [Peer_Closed] \<and> \<not> wk_stopping w"
proof -
  have "length (''worker boot '' @ show_u64 9) < 100" by (simp add: show_u64_def, code_simp)
  from leaving_hello [OF this] obtain p where p: "encode_hello default_limits
      (worker_hello (leaving [Peer_Closed, Peer_Closed]) 0 (''worker boot '' @ show_u64 9)) = Inr p" "length p \<le> 65536"
    by blast
  let ?l = "leaving [Peer_Closed, Peer_Closed]"
  have "wk_start [Inr ([Peer_Closed, Peer_Closed], [])] (new_worker sample_worker_config 9) = wk_handshake ?l"
    by (simp add: wk_start_def leaving_def own_backend_def new_worker_def sample_worker_config_def closed_channel_def set_error_def
        open_channel_def)
  moreover have l: "wk_config ?l = sample_worker_config" "wk_boot ?l = 9" "\<not> wk_stopping ?l"
    "wk_channel ?l = open_channel default_limits [Peer_Closed, Peer_Closed] []"
    by (simp_all add: leaving_def own_backend_def new_worker_def set_error_def open_channel_def closed_channel_def)
  moreover have "channel_send (make_frame MT_HELLO p) (wk_channel ?l) =
      (PS_Ok, (wk_channel ?l)\<lparr>ch_sent := [make_frame MT_HELLO p]\<rparr>)"
    using p(2) channel_send_ok [of "wk_channel ?l" "make_frame MT_HELLO p"]
    by (simp add: l can_send_def frame_fits_def make_frame_def default_limits_def open_channel_def closed_channel_def)
  ultimately show ?thesis
    using p(1) closed_by_peer [of "[Peer_Closed]"]
    by (simp add: wk_handshake_def wk_send_frame_def wk_receive_def channel_get_def open_channel_def closed_channel_def
        wk_fail_def set_error_def wk_tally_def sample_worker_config_def del: channel_receive.simps)
qed

text \<open>
  The low byte of the attempt matters: the payload of this command is also the payload of a
  positive reply with one reason, whose text begins inside the model identity.
\<close>

definition disguised_command :: command_message where
  "disguised_command = \<lparr>cd_kind = AT_Warm, cd_attempt = 256, cd_model = 1, cd_version = 1,
     cd_model_generation = 1, cd_artifact_generation = 1, cd_scope = 1, cd_rollout = 1,
     cd_rollout_generation = 1, cd_detail = replicate 203 (CHR 0x00)\<rparr>"

definition disguised_text :: bytes where
  "disguised_text = replicate 5 0 @ concat (replicate 6 (put_u64 1)) @ put_u32 203 @ replicate 199 0"

definition disguised_reply :: reply where
  "disguised_reply = \<lparr>ry_outcome = OC_Ok, ry_reasons = [Reason NoReason
     (map (\<lambda>b. char_of (unat b)) disguised_text)], ry_values = []\<rparr>"

lemma put_str_of_bytes: "put_str (map (\<lambda>b. char_of (unat (b :: u8))) bs) = put_u32 (of_nat (length bs)) @ bs"
proof -
  have "put_u8 (of_nat (of_char (char_of (unat b) :: char))) = [b]" for b :: u8
    using unsigned_less [of b, where ?'a = nat] by (simp add: put_u8_def)
  then have "concat (map ((\<lambda>c. put_u8 (of_nat (of_char c))) \<circ> (\<lambda>b. char_of (unat b))) bs) = bs"
    by (induction bs) simp_all
  then show ?thesis by (simp add: put_str_def)
qed

lemma disguised_numbers:
  "put_u64 (256 :: u64) = [0, 1, 0, 0, 0, 0, 0, 0]" "put_u64 (1 :: u64) = [1, 0, 0, 0, 0, 0, 0, 0]"
  "put_u32 (203 :: u32) = [203, 0, 0, 0]" "put_u32 (1 :: u32) = [1, 0, 0, 0]" "put_u32 (256 :: u32) = [0, 1, 0, 0]"
  "put_u32 (0 :: u32) = [0, 0, 0, 0]" "put_u16 (0 :: u16) = [0, 0]"
  "enum_byte attempt_kinds AT_Warm = 0" "outcome_number OC_Ok = 0" "reason_number NoReason = 0"
  by code_simp+

lemma zero_detail: "put_str (replicate 203 (CHR 0x00)) = [203, 0, 0, 0] @ replicate 199 0 @ [0, 0, 0, 0]"
proof -
  have "concat (replicate n (put_u8 0)) = replicate n 0" for n by (induction n) (simp_all add: put_u8_def)
  moreover have "replicate 203 (0 :: u8) = replicate 199 0 @ [0, 0, 0, 0]"
    using replicate_add [of 199 4 "0 :: u8"] by (simp add: numeral_eq_Suc)
  ultimately show ?thesis by (simp add: put_str_def disguised_numbers)
qed

lemma disguised_length: "length disguised_text = 256"
  by (simp add: disguised_text_def disguised_numbers length_concat sum_list_replicate)

lemma command_read_as_reply:
  "\<exists>out. encode_command default_limits disguised_command = Inr out \<and>
     decode_reply default_limits out = Inr disguised_reply \<and> reply_ok disguised_reply"
proof -
  let ?out = "[0, 0, 1, 0, 0, 0, 0, 0, 0, 1, 0, 0] @ disguised_text @ [0, 0, 0, 0]"
  have limits: "lm_max_payload_bytes default_limits = 262144" "lm_max_reasons default_limits \<ge> 1" "lm_max_string default_limits \<ge> 256"
    by (simp_all add: default_limits_def)
  have "encode_command default_limits disguised_command = Inr ?out"
    by (simp add: encode_command_def disguised_command_def sealed_eq limits(1) disguised_numbers zero_detail
        disguised_length put_u8_def)
       (simp add: disguised_text_def disguised_numbers numeral_eq_Suc)
  moreover have "encode_reply default_limits disguised_reply = Inr ?out"
    using limits
    by (simp add: encode_reply_def disguised_reply_def sealed_eq put_count_def put_all_def put_reason_def
        put_str_of_bytes disguised_numbers disguised_length)
  moreover have "reply_fits default_limits disguised_reply"
    using limits by (simp add: reply_fits_def disguised_reply_def counted_def str_fits_def disguised_length)
  moreover have "reply_ok disguised_reply"
    by (simp add: reply_ok_def disguised_reply_def is_positive_def)
  ultimately show ?thesis using reply_roundtrip by blast
qed

section \<open>Properties\<close>

text \<open>
  Whatever the coordinator sends, a worker changes its backend by backend operations only, from an
  empty one, so what it publishes comes from sound replicas within the bound.
\<close>

theorem worker_backend_sound:
  assumes "wk_start outcomes (new_worker config boot) = Some (ok, w)" and "wk_run w = Some (r, w')"
  shows "backend_reachable 4096 (wk_backend w') \<and> backend_wf (wk_backend w')"
proof -
  have "backend_step\<^sup>*\<^sup>* new_backend (wk_backend w')"
    using backend_moves_trans [OF wk_start_moves [OF assms(1)] wk_run_moves [OF assms(2)]]
    by (simp add: backend_moves_def new_worker_def)
  moreover have "backend_reachable 4096 new_backend"
    using backend_reachable.New [of 4096] by (simp add: new_backend_def)
  ultimately show ?thesis using backend_reachable_moves backend_reachable_wf by blast
qed

lemma worker_backend_sound_witness:
  "backend_wf (wk_backend (snd (the (wk_run (snd (the (wk_start [Inr ([Peer_Closed, Peer_Closed], [])]
     (new_worker sample_worker_config 9))))))))"
proof -
  obtain w where w: "wk_start [Inr ([Peer_Closed, Peer_Closed], [])] (new_worker sample_worker_config 9) = Some (False, w)"
      "ch_open (wk_channel w)" "ch_decoder (wk_channel w) = new_decoder default_limits"
      "ch_events (wk_channel w) = [Peer_Closed]" "\<not> wk_stopping w"
    using leaving_start by blast
  have "\<exists>v. serve_one w = Some (Served False, v)"
    using w closed_by_peer [of "[]"]
    by (simp add: serve_one_def wk_receive_def channel_get_def served_def wk_fail_def del: channel_receive.simps)
  then obtain v where "serve_one w = Some (Served False, v)" by blast
  then have "wk_run w = Some (Served False, v)" using w(5) by (subst wk_run.simps) simp
  then show ?thesis using worker_backend_sound [OF w(1), of "Served False" v] w(1) by simp
qed

text \<open>
  C35 A worker that is waiting for the answer to a completion takes the next frame for it, whatever
  its type. When that frame is another command, the payload of the command is decoded as a reply and
  the command is not executed: the backend is the one the first command left. This holds for every
  command. When the attempt of the lost command is not a multiple of 256 its payload never decodes
  as a reply, and the worker stops with a decoding error; a multiple of 256 can decode as one
  (\<open>command_read_as_reply\<close>), and then the worker goes on as if it had been answered.
\<close>

theorem command_while_waiting_is_lost:
  assumes "at_rest (wk_channel w)" and "ch_events (wk_channel w) = map Received cs"
    and "encode_command default_limits c2 = Inr out"
    and "concat cs = frame_bytes (make_frame MT_COMMAND out) default_limits"
    and "\<not> wf_die_on_activate (wk_config w)"
    and "encode_completion (wk_limits w) (completion_of (snd (run_on_backend c w)) c (fst (execute c (wk_backend w)))) = Inr payload"
    and "can_send (make_frame MT_PUBLISH_COMPLETION payload) (wk_channel w)"
  shows "(\<exists>v. wk_backend v = snd (execute c (wk_backend w)) \<and>
      wk_handle_command c w =
        (case decode_reply (wk_limits w) out of
           Inl _ \<Rightarrow> Some (Served False, snd (wk_fail ''completion reply could not be decoded'' v))
         | Inr y \<Rightarrow> Option.bind (publish_observations (if reply_ok y then v
             else snd (wk_fail (''coordinator refused the completion: '' @ render_reply y) v))) served)) \<and>
    (\<forall>r w'. wk_handle_command c w = Some (r, w') \<longrightarrow> wk_backend w' = snd (execute c (wk_backend w))) \<and>
    (unat (cd_attempt c2) mod 256 \<noteq> 0 \<longrightarrow>
      (\<exists>w'. wk_handle_command c w = Some (Served False, w') \<and> wk_backend w' = snd (execute c (wk_backend w)) \<and>
        ch_error (wk_channel w') = ''completion reply could not be decoded''))"
proof -
  let ?done = "make_frame MT_PUBLISH_COMPLETION payload" and ?f = "make_frame MT_COMMAND out"
  define u where "u = wk_tally (\<lambda>t. t\<lparr>wt_commands_executed := wt_commands_executed t + 1\<rparr>) (snd (run_on_backend c w))"
  have u: "wk_channel u = wk_channel w" "wk_config u = wk_config w" "wk_backend u = snd (execute c (wk_backend w))"
    by (simp_all add: u_def wk_tally_def run_on_backend_def case_prod_unfold)
  have opened: "ch_open (wk_channel w)" using assms(1) by (simp add: at_rest_def)
  obtain v where v: "wk_send_frame MT_PUBLISH_COMPLETION payload u = (True, v)" "wk_config v = wk_config u"
      "wk_backend v = wk_backend u" "at_rest (wk_channel v)" "ch_events (wk_channel v) = map Received cs"
    using channel_send_ok [OF opened assms(7)] u(1) assms(1,2)
    by (simp add: wk_send_frame_def Let_def wk_tally_def at_rest_def)
  have "frame_fits default_limits ?f"
    using assms(3) by (auto simp: frame_fits_def make_frame_def encode_command_def sealed_eq default_limits_def)
  from channel_get_frame [OF v(4) this v(5) assms(4)] obtain x where
    x: "wk_receive v = Some (Inr ?f, x)" "wk_config x = wk_config v" "wk_backend x = wk_backend v"
    by (auto simp: wk_receive_def)
  have report: "wk_handle_command c w = wk_report payload u"
    using assms(5,6) by (simp add: wk_handle_command_def case_prod_unfold Let_def u_def run_on_backend_def
        wk_tally_def completion_of_def)
  have taken: "wk_handle_command c w =
      (case decode_reply (wk_limits w) out of
         Inl _ \<Rightarrow> Some (Served False, snd (wk_fail ''completion reply could not be decoded'' x))
       | Inr y \<Rightarrow> Option.bind (publish_observations (if reply_ok y then x
           else snd (wk_fail (''coordinator refused the completion: '' @ render_reply y) x))) served)"
    using v x u(2) by (simp add: report wk_report_def served_def wk_fail_def make_frame_def split: sum.split)
  have body: "wk_backend w' = wk_backend u" if "wk_handle_command c w = Some (r, w')" for r w'
    using same_body_report that unfolding report by (auto simp: same_body_def)
  have "decode_reply (wk_limits w) out = Inl PS_DecodeFailure" if "unat (cd_attempt c2) mod 256 \<noteq> 0"
    by (rule command_is_no_reply [OF assms(3) low_byte_nonzero [OF that]])
  then show ?thesis
    using taken body u(3) v(3) x(3) by (auto simp: wk_fail_def set_error_def)
qed

lemma command_while_waiting_is_lost_witness:
  "\<exists>w. wk_handle_command (sample_command AT_Drain 4) ((new_worker sample_worker_config 9)\<lparr>wk_backend := sample_backend,
      wk_channel := open_channel default_limits [Received (frame_bytes (make_frame MT_COMMAND
        (projr (encode_command default_limits (sample_command AT_Activate 4)))) default_limits)] []\<rparr>) = Some (Served False, w) \<and>
    wk_backend w = snd (execute (sample_command AT_Drain 4) sample_backend)"
proof -
  let ?w = "(new_worker sample_worker_config 9)\<lparr>wk_backend := sample_backend,
      wk_channel := open_channel default_limits [Received (frame_bytes (make_frame MT_COMMAND
        (projr (encode_command default_limits (sample_command AT_Activate 4)))) default_limits)] []\<rparr>"
  let ?c = "sample_command AT_Drain 4"
  have "length (rs_detail (fst (execute ?c sample_backend))) < 100"
    by (simp add: execute_def sample_command_def touch_replicas_def applied_def unconfirmed_def sample_backend_simps
        next_tick_def new_result_def)
  then obtain p where p: "encode_completion default_limits
        (completion_of (snd (run_on_backend ?c ?w)) ?c (fst (execute ?c (wk_backend ?w)))) = Inr p" "length p \<le> 65536"
    by (simp add: encode_completion_def completion_of_def sealed_def put_str_length put_bool_def)
       (simp add: default_limits_def put_str_length)
  have command: "encode_command default_limits (sample_command AT_Activate 4)
      = Inr (projr (encode_command default_limits (sample_command AT_Activate 4)))"
    by (simp add: encode_command_def sealed_def sample_command_def put_str_length) (simp add: default_limits_def)
  have "\<exists>w'. wk_handle_command ?c ?w = Some (Served False, w') \<and> wk_backend w' = snd (execute ?c (wk_backend ?w)) \<and>
      ch_error (wk_channel w') = ''completion reply could not be decoded''"
  proof (rule conjunct2 [OF conjunct2 [OF command_while_waiting_is_lost [OF _ _ command _ _ _ _]], THEN mp])
    show "encode_completion (wk_limits ?w) (completion_of (snd (run_on_backend ?c ?w)) ?c (fst (execute ?c (wk_backend ?w)))) = Inr p"
      using p(1) by (simp add: new_worker_def sample_worker_config_def)
    show "can_send (make_frame MT_PUBLISH_COMPLETION p) (wk_channel ?w)"
      using p(2) by (simp add: can_send_def frame_fits_def make_frame_def default_limits_def open_channel_def closed_channel_def)
    show "at_rest (wk_channel ?w)" by simp
    show "ch_events (wk_channel ?w) = map Received [frame_bytes (make_frame MT_COMMAND
        (projr (encode_command default_limits (sample_command AT_Activate 4)))) default_limits]"
      by (simp add: open_channel_def)
  qed (simp_all add: sample_command_def new_worker_def sample_worker_config_def)
  then show ?thesis by auto
qed
end
