(* ===== verification/Mlf_Fabric.thy ===== *)
theory Mlf_Fabric
  imports Mlf_Worker Mlf_Service
begin

text \<open>
  The parts together: a worker or a client on one end of a connection, the coordinator on the other.
\<close>

section \<open>The handshake\<close>

lemma reply_digits_decimal:
  "list_all is_digit cs \<Longrightarrow> reply_digits (of_nat n) cs = Some (of_nat (decimal n cs))"
proof (induction cs arbitrary: n)
  case (Cons c cs)
  then have "is_digit c" and cs: "list_all is_digit cs" by simp_all
  then have c: "\<not> c < CHR ''0''" "\<not> CHR ''9'' < c" by (auto simp: is_digit_def)
  have "of_nat n * 10 + of_nat (of_char c - of_char CHR ''0'') = (of_nat (n * 10 + digit_value c) :: u64)"
    by (simp add: digit_value_def)
  then show ?case using c cs Cons.IH [of "n * 10 + digit_value c"] by simp
qed simp

lemma reply_digits_show: "reply_digits 0 (show_u64 i) = Some i"
  using reply_digits_decimal [of "show_u64 i" 0] show_nat_decimal [of "unat i"] by (simp add: show_u64_def)

lemma show_u64_short: "length (show_u64 i) \<le> 20" "show_u64 i \<noteq> []"
proof -
  have "unat i < 10 ^ 20" using unsigned_less [of i, where ?'a = nat] by simp
  then show "length (show_u64 i) \<le> 20" unfolding show_u64_def by (intro show_nat_length) auto
qed (simp add: show_u64_def show_nat_nonempty)

definition greeting :: "coordinator \<Rightarrow> u64 \<Rightarrow> reply" where
  "greeting co worker = reply_fields
     [(''coordinator_epoch'', show_u64 (st_epoch (co_engine co))),
      (''protocol_version'', show_u64 (ucast (lm_version (co_limits co)))),
      (''role'', if id_valid worker then ''worker'' else ''client'')] (new_reply OC_Accepted)"

lemma greeting_simps:
  "ry_outcome (greeting co worker) = OC_Accepted" "ry_reasons (greeting co worker) = []"
  "ry_values (greeting co worker) = [(''coordinator_epoch'', show_u64 (st_epoch (co_engine co))),
     (''protocol_version'', show_u64 (ucast (lm_version (co_limits co)))),
     (''role'', if id_valid worker then ''worker'' else ''client'')]"
  using show_u64_short(1) [of "st_epoch (co_engine co)"] show_u64_short(1) [of "ucast (lm_version (co_limits co))"]
  by (simp_all add: greeting_def reply_fields_def reply_set_def new_reply_def)

lemma greeting_epoch: "reply_number ''coordinator_epoch'' 0 (greeting co worker) = st_epoch (co_engine co)"
  by (simp add: reply_number_def reply_find_def greeting_simps reply_digits_show show_u64_short)

lemma greeting_ok: "reply_ok (greeting co worker)"
  by (simp add: reply_ok_def greeting_simps is_positive_def)

lemma greeting_fits: "reply_fits default_limits (greeting co worker)"
  using show_u64_short(1) [of "st_epoch (co_engine co)"] show_u64_short(1) [of "ucast (lm_version (co_limits co))"]
  by (simp add: reply_fits_def greeting_simps counted_def str_fits_def default_limits_def)

lemma greeting_encodes: "\<exists>out. encode_reply default_limits (greeting co worker) = Inr out \<and> length out \<le> 65536"
  using show_u64_short(1) [of "st_epoch (co_engine co)"] show_u64_short(1) [of "ucast (lm_version (co_limits co))"]
  by (simp add: encode_reply_def greeting_simps sealed_def put_count_def put_all_def put_entry_def put_str_length
      put_u16_def put_u8_def put_u32_def length_concat) (simp add: default_limits_def)

lemma hello_answered:
  assumes "f_type f = MT_HELLO" and "decode_hello default_limits (f_payload f) = Inr m"
    and "hm_protocol_version m = lm_version default_limits" and limits: "co_limits co = default_limits"
    and "i < length (co_sessions co)" and "sn_open (co_sessions co ! i)" and "\<not> sn_hello_seen (co_sessions co ! i)"
    and sends: "w_sends (co_world co) = [] \<or> \<not> hd (w_sends (co_world co))"
  shows "\<exists>out. encode_reply default_limits (greeting co (hm_worker m)) = Inr out \<and>
    w_sent (co_world (handle_frame i f co)) =
      w_sent (co_world co) @ [(sn_id (co_sessions co ! i), make_frame MT_REPLY out)] \<and>
    sn_epoch (co_sessions (handle_frame i f co) ! i) = st_epoch (co_engine co) \<and>
    sn_worker (co_sessions (handle_frame i f co) ! i) = hm_worker m \<and>
    sn_boot (co_sessions (handle_frame i f co) ! i) = hm_boot m"
proof -
  obtain out where out: "encode_reply default_limits (greeting co (hm_worker m)) = Inr out" "length out \<le> 65536"
    using greeting_encodes by blast
  define co2 where "co2 = set_session i (\<lambda>s. s\<lparr>sn_hello_seen := True, sn_worker := hm_worker m,
    sn_boot := hm_boot m, sn_epoch := st_epoch (co_engine co)\<rparr>) (co\<lparr>co_pending := False\<rparr>)"
  have co2: "co_pending co2 = False" "co_config co2 = co_config co" "co_world co2 = co_world co"
    "co_sessions co2 ! i = (co_sessions co ! i)\<lparr>sn_hello_seen := True, sn_worker := hm_worker m,
       sn_boot := hm_boot m, sn_epoch := st_epoch (co_engine co)\<rparr>"
    using assms(5) by (simp_all add: co2_def set_session_def)
  have handled: "handle_frame i f co = snd (send_reply i (greeting co (hm_worker m)) co2)"
    using assms(1-3,7) limits
    by (simp add: handle_frame_def durable_frames_def dispatch_frame_def handle_hello_def Let_def co2_def
        set_session_def greeting_def)
  have "frame_fits default_limits (make_frame MT_REPLY out)"
    using out(2) by (simp add: frame_fits_def make_frame_def default_limits_def)
  from encode_frame_fits [OF this]
  have "snd (send_reply i (greeting co (hm_worker m)) co2) =
      tally (\<lambda>t. t\<lparr>ct_frames_sent := ct_frames_sent t + 1\<rparr>) (co2\<lparr>co_world := (snd (next_send (co_world co2)))\<lparr>w_sent :=
        w_sent (co_world co2) @ [(sn_id (co_sessions co ! i), make_frame MT_REPLY out)]\<rparr>\<rparr>)"
    using out(1) co2 limits assms(6) sends
    by (cases "w_sends (co_world co)")
       (auto simp: send_reply_def send_encoded_def send_frame_def next_send_def)
  then show ?thesis using out(1) co2 handled by (simp add: tally_def)
qed

lemma handshake_continues:
  assumes "at_rest (wk_channel w)" and "wk_limits w = default_limits"
    and "encode_hello default_limits (worker_hello w 0 (''worker boot '' @ show_u64 (wk_boot w))) = Inr payload"
    and "can_send (make_frame MT_HELLO payload) (wk_channel w)"
    and "ch_events (wk_channel w) = map Received cs"
    and "concat cs = frame_bytes (make_frame MT_REPLY out) default_limits"
    and "encode_reply default_limits y = Inr out" and "reply_fits default_limits y" and "reply_ok y"
  shows "\<exists>u. wk_handshake w = wk_register u \<and> wk_epoch u = reply_number ''coordinator_epoch'' 0 y \<and>
    bk_epoch (wk_backend u) = wk_epoch u \<and> wk_config u = wk_config w \<and> wk_boot u = wk_boot w"
proof -
  have opened: "ch_open (wk_channel w)" using assms(1) by (simp add: at_rest_def)
  obtain v where v: "wk_send_frame MT_HELLO payload w = (True, v)" "wk_config v = wk_config w" "wk_boot v = wk_boot w"
      "at_rest (wk_channel v)" "ch_events (wk_channel v) = map Received cs"
    using channel_send_ok [OF opened assms(4)] assms(1,5)
    by (simp add: wk_send_frame_def Let_def wk_tally_def at_rest_def)
  have "frame_fits default_limits (make_frame MT_REPLY out)"
    using assms(7) by (auto simp: frame_fits_def make_frame_def encode_reply_def sealed_eq default_limits_def split: if_splits)
  from channel_get_frame [OF v(4) this v(5) assms(6)] obtain d events where
    "wk_receive v = Some (Inr (make_frame MT_REPLY out),
       v\<lparr>wk_channel := (wk_channel v)\<lparr>ch_decoder := d, ch_events := events\<rparr>\<rparr>)"
    by (auto simp: wk_receive_def)
  moreover have "decode_reply default_limits out = Inr y" by (rule reply_roundtrip [OF assms(7,8)])
  ultimately show ?thesis
    using v assms(2,3,9)
    by (fastforce simp: wk_handshake_def Let_def make_frame_def own_backend_def set_owner_def)
qed

section \<open>Failed completions\<close>

lemma settle_attempt_lookup:
  "map_option ap_state (map_of (st_attempts (settle_attempt i a state detail_text st)) j) =
     (if j = i then Some state else map_option ap_state (map_of (st_attempts st) j))"
  by (simp add: settle_attempt_def put_attempt_def bump_sequence_def Let_def)

lemma complete_attempt_cases:
  assumes "\<not> cm_success c" and "Q st" and "\<And>b s d. s \<noteq> AS_Completed \<Longrightarrow> Q (settle_attempt (cm_attempt c) b s d st)"
  shows "Q (snd (complete_attempt c st))"
  using assms by (simp add: complete_attempt_def split: option.split)

lemma failed_completion:
  assumes "\<not> cm_success c" and "map_of (st_attempts st) i = Some a" and "ap_state a \<noteq> AS_Completed"
  shows "\<exists>a'. map_of (st_attempts (snd (complete_attempt c st))) i = Some a' \<and> ap_state a' \<noteq> AS_Completed"
proof (rule complete_attempt_cases [OF assms(1)])
  fix b s d
  assume "s \<noteq> AS_Completed"
  then show "\<exists>a'. map_of (st_attempts (settle_attempt (cm_attempt c) b s d st)) i = Some a' \<and> ap_state a' \<noteq> AS_Completed"
    using settle_attempt_lookup [of "cm_attempt c" b s d st i] assms(2,3) by (auto split: if_splits)
qed (use assms in auto)

section \<open>A session that registers a model\<close>

definition model_request :: register_model_message where
  "model_request = \<lparr>mm_name = ''m'', mm_family = [], mm_provenance = PV_Real\<rparr>"

definition model_payload :: bytes where
  "model_payload = put_str ''m'' @ put_str [] @ put_u8 (enum_byte provenances PV_Real)"

definition model_engine :: engine where
  "model_engine = (bump_sequence (new_engine default_config))\<lparr>st_next_model_id := 2,
     st_model_names := [(''m'', 1)], st_models := [(1, \<lparr>mr_id = 1, mr_name = ''m'', mr_family = [],
       mr_provenance = PV_Real, mr_created_sequence = 2\<rparr>)]\<rparr>"

definition model_reply :: reply where
  "model_reply = \<lparr>ry_outcome = OC_Accepted, ry_reasons = [], ry_values = [(''model_id'', show_u64 1)]\<rparr>"

definition model_state :: durable_state where
  "model_state = export_durable_state model_engine"

lemma model_decodes: "decode_register_model default_limits model_payload = Inr model_request"
  by (rule register_model_roundtrip)
     (simp_all add: encode_register_model_def model_payload_def model_request_def sealed_def put_str_length
      register_model_fits_def str_fits_def put_u8_def default_limits_def)

lemma model_registered:
  "on_register_model default_config (new_engine default_config) model_request = (model_reply, model_engine)"
proof -
  have "valid_token ''m'' 128" by (simp add: valid_token_def is_alnum_def)
  then show ?thesis
    using show_u64_short(1) [of 1]
    by (simp add: on_register_model_def model_request_def register_model_def default_config_def default_bounds_def
      new_engine_def om_emplace_def bump_sequence_def default_provenance_def model_engine_def model_reply_def granted_def
      reply_fields_def reply_set_def reply_from_decision_def new_decision_def allowed_def is_positive_def next_generation_def)
qed
lemmas model_state_simps = model_state_def model_engine_def export_durable_state_def new_engine_def ensure_root_def
  empty_scopes_def root_scope_def empty_evidence_def default_config_def live_authority_def durable_evidence_def
  bump_sequence_def

lemma model_state_size: "length (write_payload model_state) < 1024"
  by (simp add: model_state_simps
      write_payload_def write_header_def write_scopes_def write_records_def write_authority_def
      write_evidence_section_def write_committed_def write_allocators_def write_section_def put_all_def
      write_scope_record_def write_policy_def write_model_def sample_snapshot_simps default_policy_def put_count_def
      put_str_def put_bool_def id_valid_def om_map_def)

lemma model_state_bytes: "serialize_durable_state model_state sample_limits = Inr (state_bytes model_state)"
proof -
  have "dl_max_payload_bytes sample_limits = 16777216" by (simp add: sample_limits_def decode_limits_from_bounds_def)
  moreover have "serialize_fault model_state sample_limits = None"
    by (simp add: serialize_fault_def sample_snapshot_simps model_state_simps id_valid_def om_map_def)
  ultimately show ?thesis
    using model_state_size by (simp add: serialize_durable_state_def state_bytes_def Let_def)
qed

definition registering :: coordinator where
  "registering = (sample_served 1)\<lparr>co_engine := model_engine\<rparr>"

lemma model_state_saved:
  "\<exists>st. persist_if_changed registering = (None, st) \<and> co_sessions st = [new_session 1 default_limits] \<and>
     co_config st = sample_service \<and> w_sent (co_world st) = [] \<and> w_sends (co_world st) = [] \<and> co_engine st = model_engine"
proof -
  have "save_durable_state (export_durable_state model_engine) sample_limits ''s'' no_faults Map.empty
      = (None, [''s'' \<mapsto> state_bytes model_state])"
    using model_state_bytes
    by (simp add: model_state_def [symmetric] save_durable_state_def Let_def no_faults_def fun_eq_iff)
  moreover have "st_sequence model_engine = 2" by (simp add: model_engine_def bump_sequence_def new_engine_def next_generation_def)
  moreover have "ec_bounds default_config = default_bounds" by (simp add: default_config_def)
  ultimately show ?thesis
    by (simp add: persist_if_changed_def persist_def registering_def sample_served_def sample_service_def new_coordinator_def
        next_fault_def empty_world_def sample_limits_def tally_def)
qed

lemma model_reply_wire:
  "\<exists>p. encode_reply default_limits model_reply = Inr p \<and> length p \<le> 65536"
  using show_u64_short(1) [of 1]
  by (simp add: encode_reply_def model_reply_def sealed_def put_count_def put_all_def put_entry_def put_str_length
      put_u16_def put_u8_def put_u32_def length_concat) (simp add: default_limits_def)

lemma model_answered:
  "\<exists>p. encode_reply default_limits model_reply = Inr p \<and>
     w_sent (co_world (handle_frame 0 (make_frame MT_REGISTER_MODEL model_payload) (sample_served 1))) = [(1, make_frame MT_REPLY p)] \<and>
     st_sequence (co_engine (handle_frame 0 (make_frame MT_REGISTER_MODEL model_payload) (sample_served 1))) = 2"
proof -
  obtain p where p: "encode_reply default_limits model_reply = Inr p" "length p \<le> 65536"
    using model_reply_wire by blast
  obtain st where st: "persist_if_changed registering = (None, st)" "co_sessions st = [new_session 1 default_limits]"
     "co_config st = sample_service" "w_sent (co_world st) = []" "w_sends (co_world st) = []" "co_engine st = model_engine"
    using model_state_saved by blast
  have reset: "registering\<lparr>co_pending := True, co_pending := False\<rparr> = registering"
    by (simp add: registering_def sample_served_def new_coordinator_def)
  have "handle_frame 0 (make_frame MT_REGISTER_MODEL model_payload) (sample_served 1)
      = snd (send_reply 0 model_reply (registering\<lparr>co_pending := True\<rparr>))"
  proof -
    have c: "co_config (sample_served 1) = sample_service" "co_engine (sample_served 1) = new_engine default_config"
      "cc_limits sample_service = default_limits" "cc_engine sample_service = default_config"
      by (simp_all add: sample_served_def new_coordinator_def sample_service_def)
    have "registering\<lparr>co_pending := True\<rparr> = (sample_served 1)\<lparr>co_pending := True, co_engine := model_engine\<rparr>"
      by (simp add: registering_def)
    then show ?thesis
      by (simp add: handle_frame_def dispatch_frame_def answer_def Let_def durable_frames_def make_frame_def
          c model_decodes model_registered)
  qed
  moreover have "st_sequence model_engine = 2" by (simp add: model_engine_def bump_sequence_def new_engine_def next_generation_def)
  ultimately show ?thesis
    using p st reset
    by (simp add: send_reply_def send_encoded_def tally_def send_frame_def sample_service_def new_session_def
        encode_frame_def Let_def make_frame_def default_limits_def next_send_def)
qed
section \<open>A session that says hello\<close>

definition greeted :: frame where
  "greeted = make_frame MT_REPLY (projr (encode_reply default_limits (greeting (sample_served 0) 7)))"

definition greeting_worker :: worker where
  "greeting_worker = leaving [Received (frame_bytes greeted default_limits)]"

lemma greeting_worker_simps:
  "wk_config greeting_worker = sample_worker_config" "wk_boot greeting_worker = 9" "wk_limits greeting_worker = default_limits"
  "wk_channel greeting_worker = open_channel default_limits [Received (frame_bytes greeted default_limits)] []"
  by (simp_all add: greeting_worker_def leaving_def own_backend_def new_worker_def set_error_def open_channel_def
      closed_channel_def sample_worker_config_def)

section \<open>Properties\<close>

text \<open>
  C33 After the handshake both ends agree: when the coordinator handles a worker's HELLO on a fresh
  session and the worker reads what was sent, cut in any way, the worker goes on to register under
  exactly the coordinator's epoch, and the session is bound to the worker, its boot and that epoch.
\<close>

theorem handshake_agrees:
  assumes "at_rest (wk_channel w)" and "wk_limits w = default_limits" and "co_limits co = default_limits"
    and "hello_fits default_limits (worker_hello w 0 (''worker boot '' @ show_u64 (wk_boot w)))"
    and "encode_hello default_limits (worker_hello w 0 (''worker boot '' @ show_u64 (wk_boot w))) = Inr payload"
    and "can_send (make_frame MT_HELLO payload) (wk_channel w)"
    and "i < length (co_sessions co)" and "sn_open (co_sessions co ! i)" and "\<not> sn_hello_seen (co_sessions co ! i)"
    and "w_sends (co_world co) = [] \<or> \<not> hd (w_sends (co_world co))"
    and "w_sent (co_world (handle_frame i (make_frame MT_HELLO payload) co)) = w_sent (co_world co) @ [(n, g)]"
    and "ch_events (wk_channel w) = map Received cs" and "concat cs = frame_bytes g default_limits"
  shows "\<exists>u s. wk_handshake w = wk_register u \<and> wk_epoch u = st_epoch (co_engine co) \<and>
    bk_epoch (wk_backend u) = st_epoch (co_engine co) \<and>
    co_sessions (handle_frame i (make_frame MT_HELLO payload) co) ! i = s \<and> sn_epoch s = wk_epoch u \<and>
    sn_worker s = wf_worker_id (wk_config w) \<and> sn_boot s = wk_boot w"
proof -
  let ?m = "worker_hello w 0 (''worker boot '' @ show_u64 (wk_boot w))" and ?f = "make_frame MT_HELLO payload"
  have f: "f_type ?f = MT_HELLO" "decode_hello default_limits (f_payload ?f) = Inr ?m"
    "hm_protocol_version ?m = lm_version default_limits"
    using hello_roundtrip [OF assms(5,4)] assms(2) by (simp_all add: make_frame_def worker_hello_def)
  from hello_answered [OF f assms(3,7-10)] obtain out where
    out: "encode_reply default_limits (greeting co (hm_worker ?m)) = Inr out"
      "w_sent (co_world (handle_frame i ?f co)) = w_sent (co_world co) @ [(sn_id (co_sessions co ! i), make_frame MT_REPLY out)]"
      "sn_epoch (co_sessions (handle_frame i ?f co) ! i) = st_epoch (co_engine co)"
      "sn_worker (co_sessions (handle_frame i ?f co) ! i) = hm_worker ?m"
      "sn_boot (co_sessions (handle_frame i ?f co) ! i) = hm_boot ?m"
    by blast
  then have "concat cs = frame_bytes (make_frame MT_REPLY out) default_limits" using assms(11,13) by simp
  from handshake_continues [OF assms(1,2,5,6,12) this out(1) greeting_fits greeting_ok] greeting_epoch
  show ?thesis using out(3-5) by (auto simp: worker_hello_def)
qed

lemma handshake_agrees_witness:
  "\<exists>u. wk_handshake greeting_worker = wk_register u \<and> wk_epoch u = 1"
proof -
  let ?w = greeting_worker and ?co = "sample_served 0"
  let ?m = "worker_hello ?w 0 (''worker boot '' @ show_u64 (wk_boot ?w))"
  have short: "length (''worker boot '' @ show_u64 (wk_boot ?w)) < 100"
    using show_u64_short(1) [of "wk_boot ?w"] by simp
  then obtain payload where payload: "encode_hello default_limits ?m = Inr payload" "length payload \<le> 65536"
    using leaving_hello by (metis greeting_worker_def)
  have fits: "hello_fits default_limits ?m"
    using short by (simp add: hello_fits_def worker_hello_def counted_def str_fits_def greeting_worker_simps
        sample_worker_config_def) (simp add: default_limits_def)
  have co: "co_limits ?co = default_limits" "length (co_sessions ?co) = 1" "sn_open (co_sessions ?co ! 0)"
    "\<not> sn_hello_seen (co_sessions ?co ! 0)" "w_sends (co_world ?co) = []" "st_epoch (co_engine ?co) = 1"
    by (simp_all add: sample_served_def new_coordinator_def sample_service_def new_session_def empty_world_def new_engine_def)
  have "decode_hello default_limits (f_payload (make_frame MT_HELLO payload)) = Inr ?m"
    using hello_roundtrip [OF payload(1) fits] by (simp add: make_frame_def)
  moreover have "f_type (make_frame MT_HELLO payload) = MT_HELLO" by (simp add: make_frame_def)
  moreover have "hm_protocol_version ?m = lm_version default_limits"
    by (simp add: worker_hello_def greeting_worker_simps(3))
  moreover have "0 < length (co_sessions ?co)" using co(2) by simp
  ultimately have "\<exists>out. encode_reply default_limits (greeting ?co (hm_worker ?m)) = Inr out \<and>
      w_sent (co_world (handle_frame 0 (make_frame MT_HELLO payload) ?co)) =
        w_sent (co_world ?co) @ [(sn_id (co_sessions ?co ! 0), make_frame MT_REPLY out)]"
    using hello_answered [of "make_frame MT_HELLO payload" ?m ?co 0] co by blast
  then obtain out where
    out: "encode_reply default_limits (greeting ?co (hm_worker ?m)) = Inr out"
      "w_sent (co_world (handle_frame 0 (make_frame MT_HELLO payload) ?co)) =
        w_sent (co_world ?co) @ [(sn_id (co_sessions ?co ! 0), make_frame MT_REPLY out)]"
    by blast
  then have g: "make_frame MT_REPLY out = greeted"
    by (simp add: greeted_def worker_hello_def greeting_worker_simps sample_worker_config_def)
  have "\<exists>u s. wk_handshake ?w = wk_register u \<and> wk_epoch u = st_epoch (co_engine ?co) \<and>
      bk_epoch (wk_backend u) = st_epoch (co_engine ?co) \<and>
      co_sessions (handle_frame 0 (make_frame MT_HELLO payload) ?co) ! 0 = s \<and> sn_epoch s = wk_epoch u \<and>
      sn_worker s = wf_worker_id (wk_config ?w) \<and> sn_boot s = wk_boot ?w"
  proof (rule handshake_agrees [OF _ _ _ fits payload(1) _ _ _ _ _ out(2)])
    show "can_send (make_frame MT_HELLO payload) (wk_channel ?w)"
      using payload(2) by (simp add: greeting_worker_simps can_send_def frame_fits_def make_frame_def default_limits_def
          open_channel_def closed_channel_def)
    show "ch_events (wk_channel ?w) = map Received [frame_bytes greeted default_limits]"
      by (simp add: greeting_worker_simps open_channel_def)
    show "concat [frame_bytes greeted default_limits] = frame_bytes (make_frame MT_REPLY out) default_limits"
      using g by simp
  qed (use co in \<open>simp_all add: greeting_worker_simps sample_worker_config_def\<close>)
  then show ?thesis using co by auto
qed

text \<open>
  C34 No completion a worker sends completes an attempt: the backend never marks a result as allowed,
  so the completion of a command whose effect was applied is reported, and recorded, as not completed.
\<close>

theorem worker_never_completes_attempt:
  assumes "map_of (st_attempts st) i = Some a" and "ap_state a \<noteq> AS_Completed"
  shows "\<exists>a'. map_of (st_attempts (snd (on_completion s st (completion_of w c (fst (execute c b)))))) i = Some a' \<and>
    ap_state a' \<noteq> AS_Completed"
proof -
  let ?m = "completion_of w c (fst (execute c b))"
  have "\<not> cp_success ?m" using execute_never_allowed [of c b] by (simp add: completion_of_def)
  then show ?thesis
    unfolding on_completion_def decided_def snd_conv by (intro failed_completion [OF _ assms]) simp
qed

text \<open>
  C6 A client that sees success finds the change after a crash: when a frame that can change durable
  state moved the sequence, and the answer, cut into reads in any way, makes the call return a positive
  reply, the state file holds exactly the coordinator's durable state.
\<close>

theorem client_success_is_durable:
  assumes "t \<in> set durable_frames" and "persists co" and "co_limits co = default_limits"
    and "st_sequence (co_engine (handle_frame i (make_frame t payload) co)) \<noteq> co_last_saved co"
    and "w_sent (co_world (handle_frame i (make_frame t payload) co)) = w_sent (co_world co) @ [(n, g)]"
    and "at_rest (cl_channel c)" and "cl_limits c = default_limits" and "can_send (make_frame t payload) (cl_channel c)"
    and "ch_events (cl_channel c) = map Received cs" and "concat cs = frame_bytes g default_limits"
    and "client_call t payload c = Some (y, c')" and "reply_ok y"
  shows "file_is_current (handle_frame i (make_frame t payload) co)"
proof (rule ccontr)
  assume stale: "\<not> ?thesis"
  have "f_type (make_frame t payload) \<in> set durable_frames" using assms(1) by (simp add: make_frame_def)
  from answered_after_save [OF this assms(2,4,5)] stale assms(3) obtain p where
    p: "encode_reply default_limits not_durable = Inr p" "g = make_frame MT_REPLY p"
    by (auto simp: failure_notice_def)
  have fits: "reply_fits default_limits not_durable"
    by (simp add: not_durable_def reply_fits_def counted_def str_fits_def default_limits_def new_reply_def reply_add_def)
  from call_answered [OF assms(6,8) p(1) fits assms(7,9)] assms(10,11) p(2)
  have "y = not_durable" by auto
  with assms(12) show False
    by (simp add: not_durable_def reply_ok_def reply_add_def new_reply_def is_positive_def)
qed

definition attempting_engine :: engine where
  "attempting_engine = sample_engine\<lparr>st_attempts := [(1, sample_attempt\<lparr>ap_state := AS_Dispatched\<rparr>)]\<rparr>"

lemma worker_never_completes_attempt_witness:
  "\<exists>a. map_of (st_attempts (snd (on_completion (new_session 1 default_limits) attempting_engine
     (completion_of (new_worker sample_worker_config 9) (sample_command AT_Drain 4)
       (fst (execute (sample_command AT_Drain 4) sample_backend)))))) 1 = Some a \<and> ap_state a \<noteq> AS_Completed"
  by (rule worker_never_completes_attempt, simp add: attempting_engine_def, simp add: sample_attempt_def)

lemma client_success_is_durable_witness:
  "file_is_current (handle_frame 0 (make_frame MT_REGISTER_MODEL model_payload) (sample_served 1))"
proof -
  obtain p where p: "encode_reply default_limits model_reply = Inr p"
      "w_sent (co_world (handle_frame 0 (make_frame MT_REGISTER_MODEL model_payload) (sample_served 1))) =
        [(1, make_frame MT_REPLY p)]"
      "st_sequence (co_engine (handle_frame 0 (make_frame MT_REGISTER_MODEL model_payload) (sample_served 1))) = 2"
    using model_answered by blast
  let ?g = "make_frame MT_REPLY p" and ?f = "make_frame MT_REGISTER_MODEL model_payload"
  define c where "c = \<lparr>cl_limits = default_limits, cl_channel =
    open_channel default_limits [Received (frame_bytes ?g default_limits)] []\<rparr>"
  have rest: "at_rest (cl_channel c)" by (simp add: c_def)
  have send: "can_send ?f (cl_channel c)"
    by (simp add: c_def can_send_def frame_fits_def make_frame_def default_limits_def open_channel_def closed_channel_def
        model_payload_def put_str_length put_u8_def)
  have fits: "reply_fits default_limits model_reply"
    using show_u64_short(1) [of 1]
    by (simp add: reply_fits_def model_reply_def counted_def str_fits_def default_limits_def)
  have events: "cl_limits c = default_limits" "ch_events (cl_channel c) = map Received [frame_bytes ?g default_limits]"
    by (simp_all add: c_def open_channel_def)
  have bytes: "concat [frame_bytes ?g default_limits] = frame_bytes ?g default_limits" by simp
  from call_answered [OF rest send p(1) fits events bytes] obtain c' where
    call: "client_call MT_REGISTER_MODEL model_payload c = Some (model_reply, c')" by blast
  have co: "co_limits (sample_served 1) = default_limits" "co_last_saved (sample_served 1) = 1"
    "w_sent (co_world (sample_served 1)) = []" "persists (sample_served 1)"
    by (simp_all add: sample_served_def new_coordinator_def sample_service_def empty_world_def persists_def)
  show ?thesis
  proof (rule client_success_is_durable [OF _ co(4,1) _ _ rest events(1) send events(2) bytes call])
    show "MT_REGISTER_MODEL \<in> set durable_frames" by (simp add: durable_frames_def)
    show "reply_ok model_reply" by (simp add: reply_ok_def model_reply_def is_positive_def)
  qed (simp_all add: p co)
qed

end
