(* ===== verification/Mlf_Process.thy ===== *)
theory Mlf_Process
  imports Mlf_Prelude
begin

text \<open>
  Child processes (include/mlf/process.hpp, src/process.cpp), in the POSIX and the Windows build. The
  kernel is a parameter: a record of the calls the code makes, each taking and giving the state of the
  operating system. What waiting for a child gives is the decoded status (\<open>WIFEXITED\<close>,
  \<open>WIFSIGNALED\<close> and their values).
\<close>

section \<open>The calls of the kernel\<close>

datatype wait_status = Exited_With nat | Killed_By nat | Other_Status

text \<open>What the child runs between \<open>fork\<close> and its new image: the program, its arguments and the exit code if \<open>execv\<close> returns.\<close>

record child_code =
  cx_program :: string
  cx_argv :: "string list"
  cx_failure :: nat

record 'os process_calls =
  pc_fork :: "child_code \<Rightarrow> 'os \<Rightarrow> u32 \<times> 'os"
  pc_waitpid :: "u32 \<Rightarrow> bool \<Rightarrow> 'os \<Rightarrow> (u32 \<times> wait_status) \<times> 'os"
  pc_kill :: "u32 \<Rightarrow> 'os \<Rightarrow> bool \<times> 'os"
  pc_getpid :: u32
  pc_gethostname :: "string option"

section \<open>Children\<close>

datatype child_state = CS_Running | CS_Exited | CS_Signalled | CS_Unknown

primrec to_string_child :: "child_state \<Rightarrow> string" where
  "to_string_child CS_Running = ''RUNNING''"
| "to_string_child CS_Exited = ''EXITED''"
| "to_string_child CS_Signalled = ''SIGNALLED''"
| "to_string_child CS_Unknown = ''UNKNOWN''"

record child_process =
  cp_pid :: u64
  cp_handle :: u64
  cp_thread_handle :: u64

definition no_child :: child_process where
  "no_child = \<lparr>cp_pid = 0, cp_handle = 0, cp_thread_handle = 0\<rparr>"

definition child_valid :: "child_process \<Rightarrow> bool" where
  "child_valid c \<longleftrightarrow> cp_pid c \<noteq> 0"

text \<open>Handles are closed on Windows only; here the identity is forgotten and nobody waits for the child.\<close>

definition close_handles :: "child_process \<Rightarrow> child_process" where
  "close_handles c = c\<lparr>cp_pid := 0\<rparr>"

text \<open>Moving gives the new value of the target and of the source.\<close>

definition move_child :: "child_process \<Rightarrow> child_process \<times> child_process" where
  "move_child other = (other, no_child)"

definition move_assign_child :: "bool \<Rightarrow> child_process \<Rightarrow> child_process \<Rightarrow> child_process \<times> child_process" where
  "move_assign_child same self other = (if same then (self, other) else (other, no_child))"

definition spawn :: "'os process_calls \<Rightarrow> string \<Rightarrow> string list \<Rightarrow> child_process \<Rightarrow> 'os \<Rightarrow>
    (string option \<times> child_process) \<times> 'os" where
  "spawn k executable arguments out os =
     (case pc_fork k \<lparr>cx_program = executable, cx_argv = executable # arguments, cx_failure = 127\<rparr> os of
        (child, os) \<Rightarrow>
          if sint child < 0 then ((Some ''fork failed'', out), os)
          else ((None, (close_handles out)\<lparr>cp_pid := scast child\<rparr>), os))"

definition child_running :: "'os process_calls \<Rightarrow> child_process \<Rightarrow> 'os \<Rightarrow> bool \<times> 'os" where
  "child_running k c os =
     (if cp_pid c = 0 then (False, os)
      else case pc_waitpid k (ucast (cp_pid c)) True os of ((result, _), os) \<Rightarrow> (result = 0, os))"

definition exit_report :: "wait_status \<Rightarrow> child_state \<times> nat" where
  "exit_report status =
     (case status of
        Exited_With code \<Rightarrow> (CS_Exited, code)
      | Killed_By signal \<Rightarrow> (CS_Signalled, 128 + signal)
      | Other_Status \<Rightarrow> (CS_Unknown, 0))"

definition child_poll :: "'os process_calls \<Rightarrow> child_process \<Rightarrow> 'os \<Rightarrow> (child_state \<times> nat) \<times> 'os" where
  "child_poll k c os =
     (if cp_pid c = 0 then ((CS_Unknown, 0), os)
      else case pc_waitpid k (ucast (cp_pid c)) True os of
          ((result, status), os) \<Rightarrow>
            if result = 0 then ((CS_Running, 0), os)
            else if sint result < 0 then ((CS_Unknown, 0), os)
            else (exit_report status, os))"

definition child_wait :: "'os process_calls \<Rightarrow> child_process \<Rightarrow> 'os \<Rightarrow> (child_state \<times> nat) \<times> 'os" where
  "child_wait k c os =
     (if cp_pid c = 0 then ((CS_Unknown, 0), os)
      else case pc_waitpid k (ucast (cp_pid c)) False os of
          ((result, status), os) \<Rightarrow>
            if sint result < 0 then ((CS_Unknown, 0), os)
            else (exit_report status, os))"

definition child_terminate :: "'os process_calls \<Rightarrow> child_process \<Rightarrow> 'os \<Rightarrow> bool \<times> 'os" where
  "child_terminate k c os =
     (if cp_pid c = 0 then (False, os)
      else case child_running k c os of
          (False, os) \<Rightarrow> (True, os)
        | (True, os) \<Rightarrow>
            (case pc_kill k (ucast (cp_pid c)) os of
               (False, os) \<Rightarrow> (False, os)
             | (True, os) \<Rightarrow> (True, snd (pc_waitpid k (ucast (cp_pid c)) False os))))"

definition current_process_id :: "'os process_calls \<Rightarrow> u64" where
  "current_process_id k = scast (pc_getpid k)"

text \<open>The name is read into a zeroed buffer and ends at its first zero byte.\<close>

definition c_string :: "string \<Rightarrow> string" where
  "c_string buffer = takeWhile (\<lambda>c. c \<noteq> CHR 0x00) buffer"

definition host_name :: "'os process_calls \<Rightarrow> string" where
  "host_name k = (case pc_gethostname k of None \<Rightarrow> ''unknown-host'' | Some buffer \<Rightarrow> c_string buffer)"

section \<open>Children in the Windows build\<close>

text \<open>
  There a child is held by its handle, so its exit code can be read any number of times. The command
  line is one text: each argument is quoted, and a quote inside it is escaped.
\<close>

record 'os windows_calls =
  wc_create :: "string \<Rightarrow> 'os \<Rightarrow> (u32 + u32 \<times> u64 \<times> u64) \<times> 'os"
  wc_wait :: "u64 \<Rightarrow> bool \<Rightarrow> 'os \<Rightarrow> u32 \<times> 'os"
  wc_exit_code :: "u64 \<Rightarrow> 'os \<Rightarrow> u32 option"
  wc_terminate :: "u64 \<Rightarrow> 'os \<Rightarrow> bool \<times> 'os"
  wc_close :: "u64 \<Rightarrow> 'os \<Rightarrow> 'os"

definition WAIT_TIMEOUT :: u32 where "WAIT_TIMEOUT = 258"
definition WAIT_OBJECT_0 :: u32 where "WAIT_OBJECT_0 = 0"

definition quoted_argument :: "string \<Rightarrow> string" where
  "quoted_argument a = [CHR 0x22] @ concat (map (\<lambda>c. if c = CHR 0x22 then [CHR 0x5C, c] else [c]) a) @ [CHR 0x22]"

definition command_line :: "string \<Rightarrow> string list \<Rightarrow> string" where
  "command_line executable arguments =
     [CHR 0x22] @ executable @ [CHR 0x22] @ concat (map (\<lambda>a. '' '' @ quoted_argument a) arguments)"

definition win_close_handle :: "'os windows_calls \<Rightarrow> u64 \<Rightarrow> 'os \<Rightarrow> 'os" where
  "win_close_handle k h os = (if h = 0 then os else wc_close k h os)"

definition win_close_handles :: "'os windows_calls \<Rightarrow> child_process \<Rightarrow> 'os \<Rightarrow> child_process \<times> 'os" where
  "win_close_handles k c os =
     (no_child, win_close_handle k (cp_thread_handle c) (win_close_handle k (cp_handle c) os))"

definition win_spawn :: "'os windows_calls \<Rightarrow> string \<Rightarrow> string list \<Rightarrow> child_process \<Rightarrow> 'os \<Rightarrow>
    (string option \<times> child_process) \<times> 'os" where
  "win_spawn k executable arguments out os =
     (case wc_create k (command_line executable arguments) os of
        (Inl code, os) \<Rightarrow> ((Some (''CreateProcess failed with code '' @ show_nat (unat code)), out), os)
      | (Inr (pid, process, thread), os) \<Rightarrow>
          (case win_close_handles k out os of
             (out, os) \<Rightarrow> ((None, out\<lparr>cp_pid := ucast pid, cp_handle := process, cp_thread_handle := thread\<rparr>), os)))"

definition win_running :: "'os windows_calls \<Rightarrow> child_process \<Rightarrow> 'os \<Rightarrow> bool \<times> 'os" where
  "win_running k c os =
     (if cp_handle c = 0 then (False, os)
      else case wc_wait k (cp_handle c) False os of (status, os) \<Rightarrow> (status = WAIT_TIMEOUT, os))"

definition win_poll :: "'os windows_calls \<Rightarrow> child_process \<Rightarrow> 'os \<Rightarrow> (child_state \<times> u32) \<times> 'os" where
  "win_poll k c os =
     (if cp_handle c = 0 then ((CS_Unknown, 0), os)
      else case wc_wait k (cp_handle c) False os of
          (status, os) \<Rightarrow>
            if status = WAIT_TIMEOUT then ((CS_Running, 0), os)
            else if status \<noteq> WAIT_OBJECT_0 then ((CS_Unknown, 0), os)
            else case wc_exit_code k (cp_handle c) os of
                None \<Rightarrow> ((CS_Unknown, 0), os)
              | Some code \<Rightarrow>
                  ((if code = 0xC0000000 \<or> 0x80000000 \<le> code then CS_Signalled else CS_Exited, code), os))"

definition win_wait :: "'os windows_calls \<Rightarrow> child_process \<Rightarrow> 'os \<Rightarrow> (child_state \<times> u32) \<times> 'os" where
  "win_wait k c os =
     (if cp_handle c = 0 then ((CS_Unknown, 0), os)
      else case wc_wait k (cp_handle c) True os of
          (status, os) \<Rightarrow> if status \<noteq> WAIT_OBJECT_0 then ((CS_Unknown, 0), os) else win_poll k c os)"

definition win_terminate :: "'os windows_calls \<Rightarrow> child_process \<Rightarrow> 'os \<Rightarrow> bool \<times> 'os" where
  "win_terminate k c os =
     (if cp_handle c = 0 then (False, os)
      else case win_running k c os of
          (False, os) \<Rightarrow> (True, os)
        | (True, os) \<Rightarrow>
            (case wc_terminate k (cp_handle c) os of
               (False, os) \<Rightarrow> (False, os)
             | (True, os) \<Rightarrow> (True, snd (wc_wait k (cp_handle c) True os))))"

text \<open>Looking at a child that ended, under a handle that stays signalled, gives the same report again.\<close>

lemma win_report_stays:
  assumes "\<And>infinite. wc_wait k (cp_handle c) infinite os = (WAIT_OBJECT_0, os)" and "cp_handle c \<noteq> 0"
  shows "win_running k c os = (False, os) \<and> win_wait k c os = win_poll k c os \<and> snd (win_poll k c os) = os"
  using assms by (simp add: win_running_def win_wait_def win_poll_def WAIT_TIMEOUT_def WAIT_OBJECT_0_def split: option.split)

section \<open>What is observed of a child\<close>

text \<open>
  The documented behaviour of \<open>waitpid\<close> the operations rely on: a child whose end was reported is
  gone, and every later call for it fails.
\<close>

definition reported_once :: "'os process_calls \<Rightarrow> u32 \<Rightarrow> bool" where
  "reported_once k pid \<longleftrightarrow> (\<forall>nohang os result status os'.
     pc_waitpid k pid nohang os = ((result, status), os') \<longrightarrow> 0 < sint result \<longrightarrow>
     (\<forall>again. \<exists>s os''. pc_waitpid k pid again os' = ((-1, s), os'')))"

definition gone :: "'os process_calls \<Rightarrow> u32 \<Rightarrow> 'os \<Rightarrow> bool" where
  "gone k pid os \<longleftrightarrow> (\<forall>again. \<exists>s os'. pc_waitpid k pid again os = ((-1, s), os'))"

lemma reported_gone:
  "reported_once k pid \<Longrightarrow> pc_waitpid k pid nohang os = ((result, status), os') \<Longrightarrow> 0 < sint result \<Longrightarrow>
   gone k pid os'"
  by (auto simp: reported_once_def gone_def)

lemma gone_poll: "gone k (ucast (cp_pid c)) os \<Longrightarrow> fst (child_poll k c os) = (CS_Unknown, 0)"
  by (auto simp: gone_def child_poll_def dest!: spec [of _ True])

lemma gone_wait: "gone k (ucast (cp_pid c)) os \<Longrightarrow> fst (child_wait k c os) = (CS_Unknown, 0)"
  by (auto simp: gone_def child_wait_def dest!: spec [of _ False])

lemma gone_running: "gone k (ucast (cp_pid c)) os \<Longrightarrow> \<not> fst (child_running k c os)"
  by (auto simp: gone_def child_running_def dest!: spec [of _ True])

lemmas gone_reports = gone_poll gone_wait gone_running

text \<open>
  C40
  The end of a child is seen once. Polling a child that exited reports its exit code, but whichever
  call observes the end first takes it: after \<open>running\<close> answered that the child no longer runs, both
  \<open>poll\<close> and \<open>wait\<close> answer UNKNOWN with code 0, and the exit code is lost.
\<close>

theorem exit_seen_once:
  assumes "reported_once k (ucast (cp_pid c))" and "cp_pid c \<noteq> 0"
    and "pc_waitpid k (ucast (cp_pid c)) True os = ((pid, Exited_With code), os')" and "0 < sint pid"
  shows "child_poll k c os = ((CS_Exited, code), os') \<and> child_running k c os = (False, os') \<and>
    fst (child_poll k c os') = (CS_Unknown, 0) \<and> fst (child_wait k c os') = (CS_Unknown, 0) \<and>
    \<not> fst (child_running k c os')"
proof -
  have "gone k (ucast (cp_pid c)) os'" by (rule reported_gone [OF assms(1,3,4)])
  moreover have "pid \<noteq> 0" using assms(4) by auto
  ultimately show ?thesis
    using assms by (simp add: gone_reports) (simp add: child_poll_def child_running_def exit_report_def)
qed

text \<open>A kernel with one child, whose state is the status it left, if nobody asked yet.\<close>

definition one_child_kernel :: "wait_status option process_calls" where
  "one_child_kernel = \<lparr>pc_fork = \<lambda>_ os. (7, os),
     pc_waitpid = \<lambda>pid nohang os. (case os of None \<Rightarrow> ((-1, Other_Status), None) | Some s \<Rightarrow> ((pid, s), None)),
     pc_kill = \<lambda>_ os. (os \<noteq> None, os), pc_getpid = 3, pc_gethostname = Some ''node''\<rparr>"

lemma exit_seen_once_witness:
  "case spawn one_child_kernel ''worker'' [] no_child (Some (Exited_With 127)) of ((_, c), os) \<Rightarrow>
     child_poll one_child_kernel c os = ((CS_Exited, 127), None) \<and>
     child_running one_child_kernel c os = (False, None) \<and>
     fst (child_poll one_child_kernel c None) = (CS_Unknown, 0) \<and>
     fst (child_wait one_child_kernel c None) = (CS_Unknown, 0) \<and> \<not> fst (child_running one_child_kernel c None)"
proof -
  have "reported_once one_child_kernel pid" for pid
    by (auto simp: reported_once_def one_child_kernel_def split: option.splits)
  from exit_seen_once [OF this, of "\<lparr>cp_pid = 7, cp_handle = 0, cp_thread_handle = 0\<rparr>"
      "Some (Exited_With 127)" 7 127 None]
  show ?thesis
    by (simp add: spawn_def one_child_kernel_def close_handles_def no_child_def)
qed

text \<open>A child that was spawned has the identity the kernel gave, and whatever the target held before is forgotten.\<close>

lemma spawned_child:
  "spawn k program arguments out os = ((None, c), os') \<Longrightarrow>
   \<exists>pid. 0 \<le> sint pid \<and> cp_pid c = scast pid \<and>
     pc_fork k \<lparr>cx_program = program, cx_argv = program # arguments, cx_failure = 127\<rparr> os = (pid, os')"
  by (auto simp: spawn_def close_handles_def split: prod.splits if_splits)

text \<open>Killing waits for the end, so after it nothing is left to observe.\<close>

lemma terminated_is_gone:
  assumes "reported_once k (ucast (cp_pid c))"
    and "\<And>nohang s. fst (fst (pc_waitpid k (ucast (cp_pid c)) nohang s)) = 0 \<Longrightarrow> nohang"
    and "\<And>nohang s. 0 \<le> sint (fst (fst (pc_waitpid k (ucast (cp_pid c)) nohang s)))"
    and "child_terminate k c os = (True, os')"
  shows "gone k (ucast (cp_pid c)) os'"
proof -
  let ?wait = "pc_waitpid k (ucast (cp_pid c))"
  have reported: "gone k (ucast (cp_pid c)) (snd (?wait nohang s))" if "fst (fst (?wait nohang s)) \<noteq> 0" for nohang s
  proof -
    have "sint (fst (fst (?wait nohang s))) \<noteq> 0" using that by (simp add: signed_eq_0_iff)
    then have "0 < sint (fst (fst (?wait nohang s)))" using assms(3) [of nohang s] by linarith
    then show ?thesis by (intro reported_gone [OF assms(1)]) (simp_all add: prod_eq_iff)
  qed
  obtain result status mid where first: "?wait True os = ((result, status), mid)" by (metis surj_pair)
  show ?thesis
  proof (cases "result = 0")
    case False
    then show ?thesis
      using assms(4) reported [of True os] by (auto simp: child_terminate_def child_running_def first split: if_splits)
  next
    case True
    obtain killed os2 where kill: "pc_kill k (ucast (cp_pid c)) mid = (killed, os2)" by fastforce
    have "os' = snd (?wait False os2)"
      using assms(4) True by (auto simp: child_terminate_def child_running_def first kill split: if_splits bool.splits)
    then show ?thesis using reported [of False os2] assms(2) [of False os2] by blast
  qed
qed

end
