(* ===== verification/Mlf_Host.thy ===== *)
theory Mlf_Host
  imports Mlf_Process Mlf_Compat "HOL-Library.Signed_Division"
begin

text \<open>
  Discovery of the host (include/mlf/host_env.hpp, src/host_env.cpp), in the POSIX build on an x86
  processor. What the processor, the operating system, the loader and the CUDA driver answer is a
  parameter: a record of their calls. A symbol the loader may not find is an option.
\<close>

section \<open>The answers of the host\<close>

record cpuid_result =
  id_eax :: u32
  id_ebx :: u32
  id_ecx :: u32
  id_edx :: u32

text \<open>The calls of the driver give a result code, and a value that counts when the code is 0.\<close>

record cuda_symbols =
  cu_init :: "(u32 \<Rightarrow> int) option"
  cu_device_count :: "(int \<times> int) option"
  cu_device_get :: "(int \<Rightarrow> int \<times> int) option"
  cu_device_name :: "(nat \<Rightarrow> int \<Rightarrow> int \<times> string) option"
  cu_device_attribute :: "(int \<Rightarrow> int \<Rightarrow> int \<times> int) option"
  cu_total_mem_v2 :: "(int \<Rightarrow> int \<times> u64) option"
  cu_total_mem :: "(int \<Rightarrow> int \<times> u64) option"
  cu_driver_version :: "(int \<times> int) option"

record host_calls =
  hc_cpuid :: "u32 \<Rightarrow> u32 \<Rightarrow> cpuid_result option"
  hc_processors :: u64
  hc_memory :: "(u64 \<times> u32) option"
  hc_library :: "string \<Rightarrow> cuda_symbols option"
  hc_host :: string
  hc_process :: u64
  hc_compiler :: string
  hc_release_build :: bool
  hc_machine :: string

section \<open>What is reported\<close>

record cpu_info =
  ci_vendor :: string
  ci_brand :: string
  ci_logical_cores :: u32
  ci_physical_cores :: u32
  ci_total_memory_bytes :: u64
  ci_avx2 :: bool
  ci_avx512 :: bool

record gpu_device =
  gd_index :: u32
  gd_name :: string
  gd_compute_major :: u32
  gd_compute_minor :: u32
  gd_total_memory_bytes :: u64
  gd_architecture_token :: string

record cuda_runtime =
  cu_driver_present :: bool
  cu_version :: u32
  cu_version_string :: string
  cu_runtime_library :: string
  cu_devices :: "gpu_device list"
  cu_provenance :: provenance
  cu_detail :: string

record inference_runtime =
  ir_name :: string
  ir_present :: bool
  ir_path :: string
  ir_detail :: string

record host_environment =
  he_cpu :: cpu_info
  he_os_name :: string
  he_os_version :: string
  he_machine :: string
  he_compiler :: string
  he_build_type :: string
  he_host :: string
  he_process_id :: u64
  he_cuda :: cuda_runtime
  he_runtimes :: "inference_runtime list"

section \<open>The processor\<close>

definition cpuid_leaf :: "host_calls \<Rightarrow> u32 \<Rightarrow> u32 \<Rightarrow> cpuid_result" where
  "cpuid_leaf h leaf subleaf =
     (case hc_cpuid h leaf subleaf of
        None \<Rightarrow> \<lparr>id_eax = 0, id_ebx = 0, id_ecx = 0, id_edx = 0\<rparr>
      | Some r \<Rightarrow> r)"

definition is_space :: "char \<Rightarrow> bool" where
  "is_space c \<longleftrightarrow> c = CHR '' '' \<or> c = CHR 0x09 \<or> c = CHR 0x00"

definition trim :: "string \<Rightarrow> string" where
  "trim value = rev (dropWhile is_space (rev (dropWhile is_space value)))"

text \<open>The four bytes of a register in the order of memory.\<close>

definition register_text :: "u32 \<Rightarrow> string" where
  "register_text r = map (\<lambda>i. char_of (unat (ucast (drop_bit (8 * i) r) :: u8))) [0, 1, 2, 3]"

text \<open>The counts of \<open>sysconf\<close> and \<open>sysinfo\<close>: physical cores are not told apart from logical ones.\<close>

definition processor_count :: "host_calls \<Rightarrow> u32" where
  "processor_count h = ucast (hc_processors h)"

definition memory_bytes :: "host_calls \<Rightarrow> u64" where
  "memory_bytes h = (case hc_memory h of None \<Rightarrow> 0 | Some (ram, unit_bytes) \<Rightarrow> ram * ucast unit_bytes)"

definition discover_cpu :: "host_calls \<Rightarrow> cpu_info" where
  "discover_cpu h =
     (let vendor_leaf = cpuid_leaf h 0 0;
          vendor = register_text (id_ebx vendor_leaf) @ register_text (id_edx vendor_leaf) @ register_text (id_ecx vendor_leaf);
          brand = concat (map (\<lambda>i. let leaf = cpuid_leaf h (0x80000002 + i) 0 in
            register_text (id_eax leaf) @ register_text (id_ebx leaf) @
            register_text (id_ecx leaf) @ register_text (id_edx leaf)) [0, 1, 2]);
          leaf7 = cpuid_leaf h 7 0 in
      \<lparr>ci_vendor = trim (c_string vendor),
       ci_brand = (if 0x80000004 \<le> id_eax (cpuid_leaf h 0x80000000 0) then trim (c_string brand) else []),
       ci_logical_cores = processor_count h,
       ci_physical_cores = processor_count h,
       ci_total_memory_bytes = memory_bytes h,
       ci_avx2 = (7 \<le> id_eax vendor_leaf \<and> bit (id_ebx leaf7) 5),
       ci_avx512 = (7 \<le> id_eax vendor_leaf \<and> bit (id_ebx leaf7) 16)\<rparr>)"

section \<open>The CUDA driver\<close>

record cuda_library =
  cl_init :: "u32 \<Rightarrow> int"
  cl_device_count :: "int \<times> int"
  cl_device_get :: "int \<Rightarrow> int \<times> int"
  cl_device_name :: "nat \<Rightarrow> int \<Rightarrow> int \<times> string"
  cl_device_attribute :: "int \<Rightarrow> int \<Rightarrow> int \<times> int"
  cl_device_total_mem :: "(int \<Rightarrow> int \<times> u64) option"
  cl_driver_version :: "(int \<times> int) option"

definition kAttrComputeCapabilityMajor :: int where "kAttrComputeCapabilityMajor = 75"
definition kAttrComputeCapabilityMinor :: int where "kAttrComputeCapabilityMinor = 76"

text \<open>The first candidate that loads is used, and only if the five calls needed are all there.\<close>

definition load_cuda :: "host_calls \<Rightarrow> cuda_library option" where
  "load_cuda h =
     (case List.map_filter (hc_library h) [''libcuda.so.1'', ''libcuda.so''] of
        [] \<Rightarrow> None
      | s # _ \<Rightarrow>
          (case (cu_init s, cu_device_count s, cu_device_get s, cu_device_name s, cu_device_attribute s) of
             (Some init, Some count, Some get, Some name, Some attribute) \<Rightarrow>
               Some \<lparr>cl_init = init, cl_device_count = count, cl_device_get = get, cl_device_name = name,
                 cl_device_attribute = attribute,
                 cl_device_total_mem = (case cu_total_mem_v2 s of None \<Rightarrow> cu_total_mem s | Some f \<Rightarrow> Some f),
                 cl_driver_version = cu_driver_version s\<rparr>
           | _ \<Rightarrow> None))"

definition show_int :: "int \<Rightarrow> string" where
  "show_int n = (if n < 0 then ''-'' @ show_nat (nat (- n)) else show_nat (nat n))"

definition version_text :: "int \<Rightarrow> string" where
  "version_text version = show_int (version sdiv 1000) @ ''.'' @ show_int (version smod 1000 sdiv 10)"

definition no_cuda :: cuda_runtime where
  "no_cuda = \<lparr>cu_driver_present = False, cu_version = 0, cu_version_string = [], cu_runtime_library = [],
     cu_devices = [], cu_provenance = PV_Unsupported, cu_detail = []\<rparr>"

text \<open>One round of the loop over the devices: nothing when the device cannot be opened.\<close>

definition read_device :: "cuda_library \<Rightarrow> int \<Rightarrow> gpu_device option" where
  "read_device library index =
     (case cl_device_get library index of
        (status, device) \<Rightarrow>
          if status \<noteq> 0 then None
          else
            let (named, buffer) = cl_device_name library 128 device;
                (major_ok, major) = cl_device_attribute library kAttrComputeCapabilityMajor device;
                (minor_ok, minor) = cl_device_attribute library kAttrComputeCapabilityMinor device;
                known = (major_ok = 0 \<and> minor_ok = 0);
                major32 = (if known then word_of_int major else 0);
                minor32 = (if known then word_of_int minor else 0) in
            Some \<lparr>gd_index = word_of_int index,
              gd_name = (if named = 0 then trim (c_string buffer) else []),
              gd_compute_major = major32,
              gd_compute_minor = minor32,
              gd_total_memory_bytes =
                (case cl_device_total_mem library of
                   None \<Rightarrow> 0
                 | Some memory \<Rightarrow> (case memory device of (status, n) \<Rightarrow> if status = 0 then n else 0)),
              gd_architecture_token = (if known then cuda_architecture_token major32 minor32 else [])\<rparr>)"

definition read_devices :: "cuda_library \<Rightarrow> int \<Rightarrow> gpu_device list" where
  "read_devices library n = List.map_filter (read_device library) (map int [0..<nat (min n 16)])"

definition with_driver_version :: "cuda_library \<Rightarrow> cuda_runtime \<Rightarrow> cuda_runtime" where
  "with_driver_version library info =
     (case cl_driver_version library of
        Some (status, version) \<Rightarrow>
          if status = 0 then info\<lparr>cu_version := word_of_int version, cu_version_string := version_text version\<rparr> else info
      | None \<Rightarrow> info)"

definition discover_cuda :: "host_calls \<Rightarrow> cuda_runtime" where
  "discover_cuda h =
     (case load_cuda h of
        None \<Rightarrow> no_cuda\<lparr>cu_detail := ''no CUDA driver library present on this host''\<rparr>
      | Some library \<Rightarrow>
          if cl_init library 0 \<noteq> 0 then
            no_cuda\<lparr>cu_detail := ''CUDA driver library present but cuInit failed (no usable device)''\<rparr>
          else
            let info = with_driver_version library (no_cuda\<lparr>cu_driver_present := True, cu_runtime_library := ''nvcuda''\<rparr>);
                (status, n) = cl_device_count library in
            if status \<noteq> 0 \<or> n \<le> 0 then
              info\<lparr>cu_detail := ''CUDA driver initialized but reported no devices''\<rparr>
            else
              let devices = read_devices library n in
              if devices = [] then
                info\<lparr>cu_detail := ''CUDA driver initialized but no device attributes could be read''\<rparr>
              else info\<lparr>cu_devices := devices, cu_provenance := PV_Real,
                cu_detail := ''device attributes read through the CUDA driver API''\<rparr>)"

section \<open>Other runtimes, and the whole host\<close>

definition runtime_candidates :: "(string \<times> string option) list" where
  "runtime_candidates = [(''onnxruntime'', Some ''libonnxruntime.so''), (''tensorrt'', Some ''libnvinfer.so''),
     (''vllm'', None), (''llama.cpp'', Some ''libllama.so'')]"

definition probe_runtime :: "host_calls \<Rightarrow> string \<times> string option \<Rightarrow> inference_runtime" where
  "probe_runtime h candidate =
     (case candidate of
        (name, None) \<Rightarrow> \<lparr>ir_name = name, ir_present = False, ir_path = [],
          ir_detail = ''no local import path is probed for this runtime''\<rparr>
      | (name, Some path) \<Rightarrow>
          let present = hc_library h path \<noteq> None in
          \<lparr>ir_name = name, ir_present = present, ir_path = path,
            ir_detail = (if present then ''loadable on this host'' else ''not present on this host'')\<rparr>)"

definition discover_inference_runtimes :: "host_calls \<Rightarrow> inference_runtime list" where
  "discover_inference_runtimes h = map (probe_runtime h) runtime_candidates"

text \<open>Name, version and machine of the operating system.\<close>

definition system_names :: "host_calls \<Rightarrow> string \<times> string \<times> string" where
  "system_names h = (''POSIX'', ''unknown'', hc_machine h)"

definition discover_host_environment :: "host_calls \<Rightarrow> host_environment" where
  "discover_host_environment h =
     (case system_names h of (os_name, os_version, machine) \<Rightarrow>
     \<lparr>he_cpu = discover_cpu h, he_os_name = os_name, he_os_version = os_version,
      he_machine = machine, he_compiler = hc_compiler h,
      he_build_type = (if hc_release_build h then ''Release'' else ''Debug''),
      he_host = hc_host h, he_process_id = hc_process h,
      he_cuda = discover_cuda h, he_runtimes = discover_inference_runtimes h\<rparr>)"

section \<open>The environment as a subject of compatibility\<close>

text \<open>The first device whose capability was read defines the profile.\<close>

definition capability_known :: "gpu_device \<Rightarrow> bool" where
  "capability_known d \<longleftrightarrow> \<not> (gd_compute_major d = 0 \<and> gd_compute_minor d = 0)"

definition cpu_precisions :: "cpu_info \<Rightarrow> string list" where
  "cpu_precisions cpu =
     (let ps = [''fp32''];
          ps = (if ci_avx2 cpu then List.insert ''bf16'' ps else ps) in
      if ci_avx512 cpu then List.insert ''fp16'' ps else ps)"

definition device_precisions :: "gpu_device \<Rightarrow> string list \<Rightarrow> string list" where
  "device_precisions d ps =
     (let ps = fold List.insert [''fp16'', ''bf16'', ''fp8'', ''int8''] ps in
      if 8 \<le> gd_compute_major d then List.insert ''int4'' ps else ps)"

definition to_environment_profile :: "host_environment \<Rightarrow> string \<Rightarrow> environment_profile" where
  "to_environment_profile environment key =
     (let cuda = he_cuda environment;
          ps = cpu_precisions (he_cpu environment);
          (architecture, capability, precisions) =
            (case find capability_known (cu_devices cuda) of
               None \<Rightarrow> (he_machine environment, 0, ps)
             | Some d \<Rightarrow> (gd_architecture_token d, gd_compute_major d * 100 + gd_compute_minor d, device_precisions d ps)) in
      \<lparr>en_key = key,
       en_runtime = (if cu_driver_present cuda then ''cuda-driver'' else ''cpu''),
       en_runtime_version = (if cu_driver_present cuda then cu_version_string cuda else []),
       en_backend = (if cu_driver_present cuda then ''cuda'' else ''cpu''),
       en_backend_version = (if cu_driver_present cuda then cu_version_string cuda else []),
       en_architecture = architecture,
       en_precisions = precisions,
       en_tokenizer_generation = [],
       en_adapter_set = [],
       en_compute_capability = capability,
       en_provenance = (if cu_driver_present cuda then PV_Real else PV_Synthetic)\<rparr>)"

definition has_compute_capability_at_least :: "host_environment \<Rightarrow> u32 \<Rightarrow> u32 \<Rightarrow> bool" where
  "has_compute_capability_at_least environment major minor \<longleftrightarrow>
     (\<exists>d \<in> set (cu_devices (he_cuda environment)).
        major < gd_compute_major d \<or> gd_compute_major d = major \<and> minor \<le> gd_compute_minor d)"

section \<open>The report\<close>

definition gpu_line :: "gpu_device \<Rightarrow> string" where
  "gpu_line d = ''gpu['' @ show_nat (unat (gd_index d)) @ '']            = '' @ gd_name d @ '' '' @
     gd_architecture_token d @ '' ('' @ show_nat (unat (gd_compute_major d)) @ ''.'' @
     show_nat (unat (gd_compute_minor d)) @ '') vram='' @ show_u64 (gd_total_memory_bytes d)"

definition runtime_line :: "inference_runtime \<Rightarrow> string" where
  "runtime_line r = ''runtime['' @ ir_name r @ '']'' @ replicate (8 - length (ir_name r)) (CHR '' '') @
     ''= '' @ (if ir_present r then ''present'' else ''absent'') @ '' ('' @ ir_detail r @ '')''"

definition host_lines :: "host_environment \<Rightarrow> string list" where
  "host_lines e =
     (let cpu = he_cpu e; cuda = he_cuda e in
      [''host              = '' @ he_host e,
       ''process_id        = '' @ show_u64 (he_process_id e),
       ''os                = '' @ he_os_name e @ '' '' @ he_os_version e,
       ''machine           = '' @ he_machine e,
       ''compiler          = '' @ he_compiler e @ '' ('' @ he_build_type e @ '')'',
       ''cpu_vendor        = '' @ ci_vendor cpu,
       ''cpu_brand         = '' @ ci_brand cpu,
       ''cpu_cores         = '' @ show_nat (unat (ci_physical_cores cpu)) @ '' physical, '' @
         show_nat (unat (ci_logical_cores cpu)) @ '' logical'',
       ''cpu_avx2          = '' @ show_bool (ci_avx2 cpu),
       ''cpu_avx512        = '' @ show_bool (ci_avx512 cpu),
       ''memory_bytes      = '' @ show_u64 (ci_total_memory_bytes cpu),
       ''cuda_provenance   = '' @ to_string_provenance (cu_provenance cuda),
       ''cuda_driver       = '' @ (if cu_driver_present cuda then ''present'' else ''absent'') @
         '' version='' @ cu_version_string cuda,
       ''cuda_detail       = '' @ cu_detail cuda] @
      map gpu_line (cu_devices cuda) @ map runtime_line (he_runtimes e))"

definition render_host_environment :: "host_environment \<Rightarrow> string" where
  "render_host_environment e = concat (map (\<lambda>line. line @ [CHR 0x0A]) (host_lines e))"

section \<open>What discovery reports\<close>

lemma map_filter_bounded: "length (List.map_filter f xs) \<le> length xs"
  by (simp add: List.map_filter_def)

lemma read_devices_bound: "length (read_devices library n) \<le> 16"
  using map_filter_bounded [of "read_device library" "map int [0..<nat (min n 16)]"]
  by (simp add: read_devices_def nat_le_iff)

lemma read_device_index: "read_device library i = Some d \<Longrightarrow> gd_index d = word_of_int i"
  by (auto simp: read_device_def Let_def split: prod.splits if_splits)

lemma map_filter_indices:
  "map gd_index (List.map_filter (read_device library) is) =
   map word_of_int (filter (\<lambda>i. read_device library i \<noteq> None) is)"
  by (induction "is") (auto simp: List.map_filter_def dest: read_device_index)

lemma small_index_inj: "inj_on (word_of_int :: int \<Rightarrow> u32) {0..<16}"
proof (rule inj_onI)
  fix a b :: int
  assume bounds: "a \<in> {0..<16}" "b \<in> {0..<16}" and eq: "(word_of_int a :: u32) = word_of_int b"
  from eq have "take_bit 32 a = take_bit 32 b" by (simp add: word_of_int_eq_iff)
  moreover have "take_bit 32 a = a" "take_bit 32 b = b" using bounds by (simp_all add: take_bit_int_eq_self_iff)
  ultimately show "a = b" by simp
qed

lemma read_devices_distinct: "distinct (map gd_index (read_devices library n))"
proof -
  let ?is = "map int [0..<nat (min n 16)]"
  have "distinct ?is" by (simp add: distinct_map)
  then have "distinct (filter (\<lambda>i. read_device library i \<noteq> None) ?is)" by (rule distinct_filter)
  moreover have "set (filter (\<lambda>i. read_device library i \<noteq> None) ?is) \<subseteq> {0..<16}" by auto
  ultimately show ?thesis
    unfolding read_devices_def map_filter_indices
    by (simp add: distinct_map inj_on_subset [OF small_index_inj])
qed

lemma read_device_token:
  "read_device library i = Some d \<Longrightarrow> capability_known d \<Longrightarrow>
   gd_architecture_token d = cuda_architecture_token (gd_compute_major d) (gd_compute_minor d)"
  by (auto simp: read_device_def capability_known_def Let_def split: prod.splits if_splits)

lemma read_devices_token:
  "d \<in> set (read_devices library n) \<Longrightarrow> capability_known d \<Longrightarrow>
   gd_architecture_token d = cuda_architecture_token (gd_compute_major d) (gd_compute_minor d)"
  by (auto simp: read_devices_def List.map_filter_def dest: read_device_token)

lemma with_driver_version_keeps [simp]:
  "cu_driver_present (with_driver_version library info) = cu_driver_present info"
  "cu_devices (with_driver_version library info) = cu_devices info"
  "cu_provenance (with_driver_version library info) = cu_provenance info"
  by (auto simp: with_driver_version_def split: option.splits)

lemma no_cuda_simps [simp]:
  "\<not> cu_driver_present no_cuda" "cu_devices no_cuda = []" "cu_provenance no_cuda = PV_Unsupported"
  by (simp_all add: no_cuda_def)

text \<open>Devices come only from the loop over them, and only then is the provenance REAL.\<close>

lemma discover_cuda_devices:
  "cu_devices (discover_cuda h) = [] \<or> (\<exists>library n. cu_devices (discover_cuda h) = read_devices library n)"
  by (auto simp: discover_cuda_def Let_def split: option.splits prod.splits)

lemma discover_cuda_provenance:
  "cu_provenance (discover_cuda h) = (if cu_devices (discover_cuda h) = [] then PV_Unsupported else PV_Real)"
  "cu_devices (discover_cuda h) \<noteq> [] \<Longrightarrow> cu_driver_present (discover_cuda h)"
  by (auto simp: discover_cuda_def Let_def split: option.splits prod.splits)

lemma cpu_precisions_distinct: "distinct (cpu_precisions cpu)"
  by (simp add: cpu_precisions_def Let_def)

lemma device_precisions_distinct: "distinct ps \<Longrightarrow> distinct (device_precisions d ps)"
  by (simp add: device_precisions_def Let_def)

lemma profile_precisions_distinct: "distinct (en_precisions (to_environment_profile e key))"
  by (simp add: to_environment_profile_def Let_def cpu_precisions_distinct device_precisions_distinct
      split: option.splits)

text \<open>
  What the host reports of its devices is consistent: at most sixteen devices with different
  indices, REAL exactly when there is a device, the driver present then, and a device whose
  capability is known carries the token of that capability. A profile made of it names a precision
  at most once, and its architecture is the machine or the token of one of the devices.
\<close>

theorem host_report_consistent:
  "let e = discover_host_environment h; devices = cu_devices (he_cuda e); profile = to_environment_profile e key in
    length devices \<le> 16 \<and> distinct (map gd_index devices) \<and>
    (cu_provenance (he_cuda e) = PV_Real) = (devices \<noteq> []) \<and>
    (devices = [] \<or> cu_driver_present (he_cuda e)) \<and>
    distinct (en_precisions profile) \<and>
    en_architecture profile \<in> insert (hc_machine h)
      {cuda_architecture_token (gd_compute_major d) (gd_compute_minor d) | d. d \<in> set devices}"
proof -
  let ?e = "discover_host_environment h" and ?cuda = "discover_cuda h"
  have cuda: "he_cuda ?e = ?cuda" "he_machine ?e = hc_machine h"
    by (simp_all add: discover_host_environment_def system_names_def)
  have devices: "length (cu_devices ?cuda) \<le> 16 \<and> distinct (map gd_index (cu_devices ?cuda)) \<and>
      (\<forall>d \<in> set (cu_devices ?cuda). capability_known d \<longrightarrow>
        gd_architecture_token d = cuda_architecture_token (gd_compute_major d) (gd_compute_minor d))"
    using discover_cuda_devices [of h] by (auto simp: read_devices_bound read_devices_distinct read_devices_token)
  have "en_architecture (to_environment_profile ?e key) = hc_machine h \<or>
      (\<exists>d \<in> set (cu_devices ?cuda). capability_known d \<and>
        en_architecture (to_environment_profile ?e key) = gd_architecture_token d)"
    by (auto simp: to_environment_profile_def cuda Let_def find_Some_iff split: option.splits)
  then show ?thesis
    unfolding Let_def cuda using devices discover_cuda_provenance [of h] profile_precisions_distinct [of ?e key]
    by auto
qed

text \<open>
  A driver without a device. When the driver initializes but counts no device, discovery reports
  UNSUPPORTED and no device, and yet the profile made of it claims REAL provenance and the cuda
  backend, so that a model requiring that backend is found compatible with the host.
\<close>

theorem driver_without_device_claims_cuda:
  assumes "load_cuda h = Some library" and "cl_init library 0 = 0"
    and "cl_device_count library = (status, n)" and "status \<noteq> 0 \<or> n \<le> 0"
    and "key \<noteq> []" and "length key \<le> 128"
  shows "let e = discover_host_environment h; profile = to_environment_profile e key in
    cu_provenance (he_cuda e) = PV_Unsupported \<and> cu_devices (he_cuda e) = [] \<and>
    en_provenance profile = PV_Real \<and> en_backend profile = ''cuda'' \<and> en_architecture profile = hc_machine h \<and>
    fst (evaluate_requirements (empty_requirements\<lparr>rq_backend := ''cuda''\<rparr>) profile) = CO_COMPATIBLE"
proof -
  have "discover_cuda h = (with_driver_version library (no_cuda\<lparr>cu_driver_present := True,
      cu_runtime_library := ''nvcuda''\<rparr>))\<lparr>cu_detail := ''CUDA driver initialized but reported no devices''\<rparr>"
    using assms by (auto simp: discover_cuda_def Let_def)
  then show ?thesis
    using assms(5,6)
    by (simp add: discover_host_environment_def system_names_def to_environment_profile_def evaluate_requirements_def
        environment_valid_def findings_of_def requirements_empty_def empty_requirements_def check_runtime_def
        check_backend_def check_architecture_def check_precision_def check_tokenizer_def check_adapter_def)
qed

text \<open>A host with a driver that counts no device.\<close>

definition bare_symbols :: cuda_symbols where
  "bare_symbols = \<lparr>cu_init = Some (\<lambda>_. 0), cu_device_count = Some (0, 0), cu_device_get = Some (\<lambda>i. (0, i)),
     cu_device_name = Some (\<lambda>_ _. (0, ''device'')), cu_device_attribute = Some (\<lambda>_ _. (0, 0)),
     cu_total_mem_v2 = None, cu_total_mem = None, cu_driver_version = Some (0, 12040)\<rparr>"

definition bare_host :: host_calls where
  "bare_host = \<lparr>hc_cpuid = \<lambda>_ _. None, hc_processors = 4, hc_memory = None,
     hc_library = \<lambda>name. if name = ''libcuda.so.1'' then Some bare_symbols else None,
     hc_host = ''node'', hc_process = 3, hc_compiler = ''gcc-12'', hc_release_build = True, hc_machine = ''x86_64''\<rparr>"

lemma driver_without_device_claims_cuda_witness:
  "cu_provenance (discover_cuda bare_host) = PV_Unsupported \<and>
   en_provenance (to_environment_profile (discover_host_environment bare_host) ''local'') = PV_Real \<and>
   fst (evaluate_requirements (empty_requirements\<lparr>rq_backend := ''cuda''\<rparr>)
     (to_environment_profile (discover_host_environment bare_host) ''local'')) = CO_COMPATIBLE"
proof -
  obtain library where "load_cuda bare_host = Some library" "cl_init library 0 = 0" "cl_device_count library = (0, 0)"
    by (simp add: load_cuda_def bare_host_def bare_symbols_def List.map_filter_def)
  from driver_without_device_claims_cuda [OF this, of "''local''"] show ?thesis
    by (simp add: Let_def) (simp add: discover_host_environment_def system_names_def)
qed

end
