(* ===== verification/Mlf_Socket.thy ===== *)
theory Mlf_Socket
  imports Mlf_Frame
begin

text \<open>
  Sockets (\<open>Socket\<close> of include/mlf/protocol.hpp and src/protocol.cpp), in the POSIX build. The
  system calls are a parameter, each taking and giving the state of the operating system; a
  \<open>Socket\<close> is the handle it owns. Destructors run where the code's objects end.
\<close>

unbundle bit_operations_syntax

section \<open>Calls and handles\<close>

record 'os socket_calls =
  so_socket :: "'os \<Rightarrow> u32 \<times> 'os"
  so_reuse :: "u32 \<Rightarrow> 'os \<Rightarrow> 'os"
  so_pton :: "string \<Rightarrow> u32 option"
  so_bind :: "u32 \<Rightarrow> u32 \<Rightarrow> u16 \<Rightarrow> 'os \<Rightarrow> bool \<times> 'os"
  so_listen :: "u32 \<Rightarrow> u32 \<Rightarrow> 'os \<Rightarrow> bool \<times> 'os"
  so_connect :: "u32 \<Rightarrow> u32 \<Rightarrow> u16 \<Rightarrow> 'os \<Rightarrow> bool \<times> 'os"
  so_accept :: "u32 \<Rightarrow> 'os \<Rightarrow> u32 \<times> 'os"
  so_close :: "u32 \<Rightarrow> 'os \<Rightarrow> 'os"
  so_shutdown :: "u32 \<Rightarrow> 'os \<Rightarrow> 'os"
  so_get_flags :: "u32 \<Rightarrow> 'os \<Rightarrow> u32"
  so_set_flags :: "u32 \<Rightarrow> u32 \<Rightarrow> 'os \<Rightarrow> bool \<times> 'os"
  so_name :: "u32 \<Rightarrow> 'os \<Rightarrow> u16 option"
  so_send :: "u32 \<Rightarrow> bytes \<Rightarrow> 'os \<Rightarrow> int \<times> 'os"

text \<open>The constants of the system headers.\<close>

definition O_NONBLOCK :: u32 where "O_NONBLOCK = 0x800"
definition INADDR_LOOPBACK :: u32 where "INADDR_LOOPBACK = 0x7F000001"
definition INADDR_ANY :: u32 where "INADDR_ANY = 0"

definition kInvalidHandle :: u64 where "kInvalidHandle = -1"

definition socket_valid :: "u64 \<Rightarrow> bool" where
  "socket_valid handle \<longleftrightarrow> handle \<noteq> kInvalidHandle"

abbreviation descriptor :: "u64 \<Rightarrow> u32" where
  "descriptor handle \<equiv> ucast handle"

section \<open>Ownership\<close>

definition socket_close :: "'os socket_calls \<Rightarrow> u64 \<Rightarrow> 'os \<Rightarrow> u64 \<times> 'os" where
  "socket_close k handle os =
     (if handle = kInvalidHandle then (handle, os)
      else (kInvalidHandle, so_close k (descriptor handle) os))"

text \<open>The new value of the target and of the source.\<close>

definition socket_move :: "u64 \<Rightarrow> u64 \<times> u64" where
  "socket_move other = (other, kInvalidHandle)"

definition socket_assign :: "'os socket_calls \<Rightarrow> bool \<Rightarrow> u64 \<Rightarrow> u64 \<Rightarrow> 'os \<Rightarrow> (u64 \<times> u64) \<times> 'os" where
  "socket_assign k same self other os =
     (if same then ((self, other), os)
      else ((other, kInvalidHandle), snd (socket_close k self os)))"

definition socket_release :: "u64 \<Rightarrow> u64 \<times> u64" where
  "socket_release handle = (handle, kInvalidHandle)"

section \<open>Operations\<close>

definition set_blocking :: "'os socket_calls \<Rightarrow> bool \<Rightarrow> u64 \<Rightarrow> 'os \<Rightarrow> (protocol_status \<times> string) \<times> 'os" where
  "set_blocking k blocking handle os =
     (if handle = kInvalidHandle then ((PS_Closed, ''socket is not open''), os)
      else
        let flags = so_get_flags k (descriptor handle) os in
        if sint flags < 0 then ((PS_IoError, ''fcntl(F_GETFL) failed''), os)
        else case so_set_flags k (descriptor handle)
            (if blocking then flags AND NOT O_NONBLOCK else flags OR O_NONBLOCK) os of
          (False, os) \<Rightarrow> ((PS_IoError, ''fcntl(F_SETFL) failed''), os)
        | (True, os) \<Rightarrow> ((PS_Ok, []), os))"

definition shutdown_send :: "'os socket_calls \<Rightarrow> u64 \<Rightarrow> 'os \<Rightarrow> 'os" where
  "shutdown_send k handle os = (if handle = kInvalidHandle then os else so_shutdown k (descriptor handle) os)"

definition local_port :: "'os socket_calls \<Rightarrow> u64 \<Rightarrow> 'os \<Rightarrow> u16" where
  "local_port k handle os =
     (if handle = kInvalidHandle then 0
      else case so_name k (descriptor handle) os of None \<Rightarrow> 0 | Some port \<Rightarrow> port)"

text \<open>
  An operation that opens a socket gives its status, an error text and the new value of \<open>out\<close>. On
  failure the local socket is closed when it goes out of scope; on success \<open>out\<close> takes its handle.
\<close>

definition opening_failed :: "'os socket_calls \<Rightarrow> string \<Rightarrow> u64 \<Rightarrow> u64 \<Rightarrow> 'os \<Rightarrow>
    (protocol_status \<times> string \<times> u64) \<times> 'os" where
  "opening_failed k e made out os = ((PS_IoError, e, out), snd (socket_close k made os))"

definition opened :: "'os socket_calls \<Rightarrow> u64 \<Rightarrow> u64 \<Rightarrow> 'os \<Rightarrow> (protocol_status \<times> string \<times> u64) \<times> 'os" where
  "opened k made out os =
     (case socket_assign k False out made os of
        ((out, made), os) \<Rightarrow> ((PS_Ok, [], out), snd (socket_close k made os)))"

definition listen_address :: "'os socket_calls \<Rightarrow> string \<Rightarrow> u32 option" where
  "listen_address k address =
     (if address = [] \<or> address = ''127.0.0.1'' \<or> address = ''localhost'' then Some INADDR_LOOPBACK
      else if address = ''0.0.0.0'' then Some INADDR_ANY
      else so_pton k address)"

definition listen_on :: "'os socket_calls \<Rightarrow> string \<Rightarrow> u16 \<Rightarrow> u32 \<Rightarrow> u64 \<Rightarrow> 'os \<Rightarrow>
    (protocol_status \<times> string \<times> u64) \<times> 'os" where
  "listen_on k address port backlog out os =
     (case so_socket k os of
        (fd, os) \<Rightarrow>
          if sint fd < 0 then ((PS_IoError, ''socket() failed'', out), os)
          else
            let listening = scast fd; os = so_reuse k fd os in
            case listen_address k address of
              None \<Rightarrow> opening_failed k ''address is not a valid IPv4 literal; refusing to guess'' listening out os
            | Some ip \<Rightarrow>
                (case so_bind k fd ip port os of
                   (False, os) \<Rightarrow> opening_failed k ''bind() failed'' listening out os
                 | (True, os) \<Rightarrow>
                     (case so_listen k fd backlog os of
                        (False, os) \<Rightarrow> opening_failed k ''listen() failed'' listening out os
                      | (True, os) \<Rightarrow> opened k listening out os)))"

definition connect_to :: "'os socket_calls \<Rightarrow> string \<Rightarrow> u16 \<Rightarrow> u64 \<Rightarrow> 'os \<Rightarrow>
    (protocol_status \<times> string \<times> u64) \<times> 'os" where
  "connect_to k address port out os =
     (case so_socket k os of
        (fd, os) \<Rightarrow>
          if sint fd < 0 then ((PS_IoError, ''socket() failed'', out), os)
          else
            let connection = scast fd in
            case so_pton k (if address = [] then ''127.0.0.1'' else address) of
              None \<Rightarrow> opening_failed k ''address is not a valid IPv4 literal'' connection out os
            | Some ip \<Rightarrow>
                (case so_connect k fd ip port os of
                   (False, os) \<Rightarrow> opening_failed k ''connect() failed'' connection out os
                 | (True, os) \<Rightarrow> opened k connection out os))"

definition socket_accept :: "'os socket_calls \<Rightarrow> u64 \<Rightarrow> u64 \<Rightarrow> 'os \<Rightarrow> (protocol_status \<times> string \<times> u64) \<times> 'os" where
  "socket_accept k handle out os =
     (if handle = kInvalidHandle then ((PS_Closed, ''socket is not open'', out), os)
      else case so_accept k (descriptor handle) os of
          (fd, os) \<Rightarrow>
            if sint fd < 0 then ((PS_IoError, ''accept() failed'', out), os)
            else opened k (scast fd) out os)"

text \<open>The sending loop: chunks of at most a mebibyte, until everything was taken or a call fails.\<close>

function send_bytes :: "'os socket_calls \<Rightarrow> u64 \<Rightarrow> bytes \<Rightarrow> 'os \<Rightarrow> (protocol_status \<times> string) \<times> 'os" where
  "send_bytes k handle content os =
     (if content = [] then ((PS_Ok, []), os)
      else case so_send k (descriptor handle) (take (2 ^ 20) content) os of
          (written, os) \<Rightarrow>
            if written \<le> 0 then ((PS_IoError, ''send() failed''), os)
            else send_bytes k handle (drop (nat written) content) os)"
  by pat_completeness auto
termination
  by (relation "measure (\<lambda>(k, handle, content, os). length content)") auto

declare send_bytes.simps [simp del]

section \<open>No descriptor is lost\<close>

definition owned :: "u64 \<Rightarrow> u32 set" where
  "owned handle = (if handle = kInvalidHandle then {} else {descriptor handle})"

text \<open>
  The documented effect of the calls on the open descriptors of the process: \<open>socket\<close> and \<open>accept\<close>
  give a descriptor that was not open, \<open>close\<close> closes its own, the others leave them alone.
\<close>

definition opens_fresh :: "('os \<Rightarrow> u32 set) \<Rightarrow> ('os \<Rightarrow> u32 \<times> 'os) \<Rightarrow> bool" where
  "opens_fresh fds call \<longleftrightarrow> (\<forall>os fd os'. call os = (fd, os') \<longrightarrow>
     (if sint fd < 0 then fds os' = fds os else fd \<notin> fds os \<and> fds os' = insert fd (fds os)))"

definition descriptor_laws :: "'os socket_calls \<Rightarrow> ('os \<Rightarrow> u32 set) \<Rightarrow> bool" where
  "descriptor_laws k fds \<longleftrightarrow> opens_fresh fds (so_socket k) \<and> (\<forall>fd. opens_fresh fds (so_accept k fd)) \<and>
     (\<forall>fd os. fds (so_close k fd os) = fds os - {fd}) \<and>
     (\<forall>fd os. fds (so_reuse k fd os) = fds os) \<and>
     (\<forall>fd ip port os. fds (snd (so_bind k fd ip port os)) = fds os) \<and>
     (\<forall>fd backlog os. fds (snd (so_listen k fd backlog os)) = fds os) \<and>
     (\<forall>fd ip port os. fds (snd (so_connect k fd ip port os)) = fds os)"

text \<open>What an operation that may replace \<open>out\<close> does with the descriptors.\<close>

definition accounts :: "('os \<Rightarrow> u32 set) \<Rightarrow> u64 \<Rightarrow> 'os \<Rightarrow> (protocol_status \<times> string \<times> u64) \<times> 'os \<Rightarrow> bool" where
  "accounts fds out os r \<longleftrightarrow> (case r of ((status, e, out'), os') \<Rightarrow>
     if status = PS_Ok then socket_valid out' \<and> descriptor out' \<notin> fds os \<and> fds os' = fds os - owned out \<union> owned out'
     else out' = out \<and> fds os' = fds os)"

lemma scast_valid: "0 \<le> sint (fd :: u32) \<Longrightarrow> (scast fd :: u64) \<noteq> kInvalidHandle"
proof
  assume "0 \<le> sint fd" and "(scast fd :: u64) = kInvalidHandle"
  then have "sint (scast fd :: u64) = -1" by (simp add: kInvalidHandle_def)
  moreover have "sint (scast fd :: u64) = sint fd"
    by (rule sint_up_scast) (simp add: is_up.rep_eq)
  ultimately show False using \<open>0 \<le> sint fd\<close> by simp
qed

lemma descriptor_scast [simp]: "descriptor (scast (fd :: u32)) = fd"
proof (rule bit_word_eqI)
  fix n assume "n < LENGTH(32)"
  then have "n < 31 \<or> n = 31" by auto
  then show "bit (descriptor (scast fd)) n = bit fd n" by (auto simp: bit_ucast_iff bit_signed_iff)
qed

lemma closes:
  "descriptor_laws k fds \<Longrightarrow> fds (snd (socket_close k handle os)) = fds os - owned handle"
  by (simp add: socket_close_def owned_def descriptor_laws_def)

lemma opened_accounts:
  assumes laws: "descriptor_laws k fds" and "0 \<le> sint fd" and "fd \<notin> fds os"
    and "fds os' = insert fd (fds os)" and "owned out \<subseteq> fds os"
  shows "accounts fds out os (opened k (scast fd) out os')"
proof -
  have "fd \<notin> owned out" using assms(3,5) by auto
  then have "fds os' - owned out = fds os - owned out \<union> {fd}" using assms(4) by auto
  then show ?thesis
    using assms(3) scast_valid [OF assms(2)] closes [OF laws, of out os']
    by (simp add: accounts_def opened_def socket_assign_def socket_valid_def)
       (simp add: socket_close_def owned_def)
qed

lemma opening_failed_accounts:
  assumes laws: "descriptor_laws k fds" and "0 \<le> sint fd" and "fd \<notin> fds os" and "fds os' = insert fd (fds os)"
  shows "accounts fds out os (opening_failed k e (scast fd) out os')"
  using assms(3,4) scast_valid [OF assms(2)] closes [OF laws, of "scast fd" os']
  by (simp add: accounts_def opening_failed_def owned_def)

lemma descriptor_laws_calls:
  assumes "descriptor_laws k fds"
  shows "so_socket k os = (fd, os') \<Longrightarrow> 0 \<le> sint fd \<Longrightarrow> fd \<notin> fds os \<and> fds os' = insert fd (fds os)"
    and "so_socket k os = (fd, os') \<Longrightarrow> sint fd < 0 \<Longrightarrow> fds os' = fds os"
    and "so_accept k listener os = (fd, os') \<Longrightarrow> 0 \<le> sint fd \<Longrightarrow> fd \<notin> fds os \<and> fds os' = insert fd (fds os)"
    and "so_accept k listener os = (fd, os') \<Longrightarrow> sint fd < 0 \<Longrightarrow> fds os' = fds os"
    and "fds (so_reuse k fd os) = fds os"
    and "so_bind k fd ip port os = (ok, os') \<Longrightarrow> fds os' = fds os"
    and "so_listen k fd backlog os = (ok, os') \<Longrightarrow> fds os' = fds os"
    and "so_connect k fd ip port os = (ok, os') \<Longrightarrow> fds os' = fds os"
  using assms unfolding descriptor_laws_def opens_fresh_def
  by (metis linorder_not_less snd_conv)+

lemma listen_on_accounts:
  assumes laws: "descriptor_laws k fds" and out: "owned out \<subseteq> fds os"
  shows "accounts fds out os (listen_on k address port backlog out os)"
proof -
  note calls = descriptor_laws_calls [OF laws]
  obtain fd os1 where made: "so_socket k os = (fd, os1)" by fastforce
  show ?thesis
  proof (cases "sint fd < 0")
    case True
    then show ?thesis using calls(2) [OF made] by (simp add: listen_on_def made accounts_def)
  next
    case False
    then have fresh: "0 \<le> sint fd" "fd \<notin> fds os" "fds (so_reuse k fd os1) = insert fd (fds os)"
      using calls(1) [OF made] calls(5) by auto
    note ends = opened_accounts [OF laws fresh(1,2) _ out] opening_failed_accounts [OF laws fresh(1,2)]
    show ?thesis
      using False fresh(3)
      by (auto simp: listen_on_def made Let_def dest!: calls(6,7) intro!: ends split: option.splits prod.splits bool.splits)
  qed
qed

lemma connect_to_accounts:
  assumes laws: "descriptor_laws k fds" and out: "owned out \<subseteq> fds os"
  shows "accounts fds out os (connect_to k address port out os)"
proof -
  note calls = descriptor_laws_calls [OF laws]
  obtain fd os1 where made: "so_socket k os = (fd, os1)" by fastforce
  show ?thesis
  proof (cases "sint fd < 0")
    case True
    then show ?thesis using calls(2) [OF made] by (simp add: connect_to_def made accounts_def)
  next
    case False
    then have fresh: "0 \<le> sint fd" "fd \<notin> fds os" "fds os1 = insert fd (fds os)" using calls(1) [OF made] by auto
    note ends = opened_accounts [OF laws fresh(1,2) _ out] opening_failed_accounts [OF laws fresh(1,2)]
    show ?thesis
      using False fresh(3)
      by (auto simp: connect_to_def made Let_def dest!: calls(8) intro!: ends split: option.split prod.split bool.split)
  qed
qed

lemma accept_accounts:
  assumes laws: "descriptor_laws k fds" and out: "owned out \<subseteq> fds os"
  shows "accounts fds out os (socket_accept k handle out os)"
proof -
  note calls = descriptor_laws_calls [OF laws]
  obtain fd os1 where made: "so_accept k (descriptor handle) os = (fd, os1)" by fastforce
  show ?thesis
    using calls(4) [OF made] opened_accounts [OF laws _ _ _ out, of fd os1] calls(3) [OF made]
    by (auto simp: socket_accept_def made accounts_def not_less)
qed

text \<open>
  C27
  No descriptor is lost or closed twice. Opening a socket to listen, to connect or by accepting
  either succeeds, and then the new handle was not open before and the one it replaced is closed, or
  fails, and then the handle is the old one and exactly the same descriptors are open, whichever
  call failed.
\<close>

theorem opening_loses_no_descriptor:
  assumes "descriptor_laws k fds" and "owned out \<subseteq> fds os"
  shows "accounts fds out os (listen_on k address port backlog out os) \<and>
    accounts fds out os (connect_to k address port out os) \<and>
    accounts fds out os (socket_accept k handle out os)"
  using listen_on_accounts [OF assms] connect_to_accounts [OF assms] accept_accounts [OF assms] by blast

text \<open>A system with one socket and one pending connection, whose state is the set of open descriptors; port 7 is taken.\<close>

definition slot_calls :: "u32 set socket_calls" where
  "slot_calls = \<lparr>so_socket = \<lambda>os. if 3 \<in> os then (-1, os) else (3, insert 3 os), so_reuse = \<lambda>_ os. os,
     so_pton = \<lambda>_. Some 1, so_bind = \<lambda>_ _ port os. (port \<noteq> 7, os), so_listen = \<lambda>_ _ os. (True, os),
     so_connect = \<lambda>_ _ port os. (port = 7, os), so_accept = \<lambda>_ os. if 4 \<in> os then (-1, os) else (4, insert 4 os),
     so_close = \<lambda>fd os. os - {fd}, so_shutdown = \<lambda>_ os. os, so_get_flags = \<lambda>_ _. 0,
     so_set_flags = \<lambda>_ _ os. (True, os), so_name = \<lambda>_ _. Some 9, so_send = \<lambda>_ _ os. (0, os)\<rparr>"

lemma opening_loses_no_descriptor_witness:
  "accounts id kInvalidHandle {} (listen_on slot_calls ''localhost'' 7 16 kInvalidHandle {}) \<and>
   accounts id kInvalidHandle {} (connect_to slot_calls ''localhost'' 7 kInvalidHandle {}) \<and>
   accounts id 3 {3} (socket_accept slot_calls 3 3 {3})"
proof -
  have laws: "descriptor_laws slot_calls id"
    by (simp add: descriptor_laws_def opens_fresh_def slot_calls_def)
  have "owned kInvalidHandle = {}" "owned 3 = {3}" by (simp_all add: owned_def kInvalidHandle_def)
  then show ?thesis
    using opening_loses_no_descriptor [OF laws, of kInvalidHandle "{}" "''localhost''" 7 16 0]
      opening_loses_no_descriptor [OF laws, of 3 "{3}" "[]" 0 0 3] by simp
qed

section \<open>Everything is sent, or a beginning of it\<close>

text \<open>The documented effect of \<open>send\<close> on what the connection was given: a beginning of the chunk, of the length returned.\<close>

definition send_law :: "'os socket_calls \<Rightarrow> u32 \<Rightarrow> ('os \<Rightarrow> bytes) \<Rightarrow> bool" where
  "send_law k fd given \<longleftrightarrow> (\<forall>chunk os written os'. so_send k fd chunk os = (written, os') \<longrightarrow>
     nat written \<le> length chunk \<and> given os' = given os @ take (nat written) chunk)"

text \<open>
  The sending loop ends for every behaviour of \<open>send\<close>. When it reports success exactly the given
  bytes were taken, in order and once; when it reports a failure a proper beginning of them was.
\<close>

theorem send_bytes_delivers:
  assumes "send_law k (descriptor handle) given"
  shows "case send_bytes k handle content os of ((status, e), os') \<Rightarrow>
    if status = PS_Ok then given os' = given os @ content
    else \<exists>n < length content. given os' = given os @ take n content"
  using assms
proof (induction k handle content os rule: send_bytes.induct)
  case (1 k handle content os)
  obtain written os1 where call: "so_send k (descriptor handle) (take (2 ^ 20) content) os = (written, os1)"
    by fastforce
  have law: "nat written \<le> length (take (2 ^ 20) content) \<and> given os1 = given os @ take (nat written) (take (2 ^ 20) content)"
    using "1.prems" call unfolding send_law_def by blast
  show ?case
  proof (cases "content = [] \<or> written \<le> 0")
    case True
    moreover have "given os1 = given os" if "written \<le> 0" using law that by simp
    ultimately show ?thesis using call by (subst send_bytes.simps) (auto intro!: exI [of _ 0])
  next
    case False
    then have taken: "given os1 = given os @ take (nat written) content" "nat written \<le> length content" "0 < nat written"
      using law by (auto simp: min_def split: if_splits)
    have IH: "case send_bytes k handle (drop (nat written) content) os1 of ((status, e), os') \<Rightarrow>
        if status = PS_Ok then given os' = given os1 @ drop (nat written) content
        else \<exists>n < length (drop (nat written) content). given os' = given os1 @ take n (drop (nat written) content)"
      using False call "1.prems" by (intro "1.IH") auto
    have "\<exists>m < length content. given os' = given os @ take m content"
      if "n < length content - nat written" "given os' = given os1 @ take n (drop (nat written) content)" for n os'
      using that taken by (intro exI [of _ "nat written + n"]) (simp add: take_add)
    then show ?thesis
      using IH False call taken by (subst send_bytes.simps) (auto split: if_splits)
  qed
qed

text \<open>A connection that takes one byte at a time; its state is what it was given.\<close>

definition byte_calls :: "bytes socket_calls" where
  "byte_calls = \<lparr>so_socket = Pair 3, so_reuse = \<lambda>_ os. os, so_pton = \<lambda>_. None, so_bind = \<lambda>_ _ _. Pair True,
     so_listen = \<lambda>_ _. Pair True, so_connect = \<lambda>_ _ _. Pair True, so_accept = \<lambda>_. Pair 4, so_close = \<lambda>_ os. os,
     so_shutdown = \<lambda>_ os. os, so_get_flags = \<lambda>_ _. 0, so_set_flags = \<lambda>_ _. Pair True, so_name = \<lambda>_ _. None,
     so_send = \<lambda>_ chunk os. (int (length (take 1 chunk)), os @ take 1 chunk)\<rparr>"

lemma send_bytes_delivers_witness: "snd (send_bytes byte_calls 3 [1, 2] []) = [1, 2]"
proof -
  have law: "send_law byte_calls (descriptor 3) id"
    by (auto simp: send_law_def byte_calls_def min_def not_le)
  have "fst (send_bytes byte_calls 3 [1, 2] []) = (PS_Ok, [])"
    by (simp add: send_bytes.simps byte_calls_def)
  then show ?thesis
    using send_bytes_delivers [OF law, where content = "[1, 2]" and os = "[]"]
    by (auto split: prod.splits)
qed

end
