(* ===== verification/Mlf_Transport.thy ===== *)
theory Mlf_Transport
  imports Mlf_Socket Mlf_Stream
begin

text \<open>
  The sending half of a framed channel over a socket (\<open>FrameChannel\<close> of src/protocol.cpp), and both
  halves together: what is written as frames is read as the same frames.
\<close>

section \<open>Writing frames\<close>

definition frame_write :: "'os socket_calls \<Rightarrow> protocol_limits \<Rightarrow> u64 \<Rightarrow> frame \<Rightarrow> 'os \<Rightarrow> (protocol_status \<times> string) \<times> 'os" where
  "frame_write k limits handle f os =
     (if \<not> socket_valid handle then ((PS_Closed, ''channel is closed''), os)
      else case encode_frame f limits of
          Inl status \<Rightarrow> ((status, []), os)
        | Inr encoded \<Rightarrow> send_bytes k handle encoded os)"

definition channel_hang_up :: "'os socket_calls \<Rightarrow> u64 \<Rightarrow> 'os \<Rightarrow> u64 \<times> 'os" where
  "channel_hang_up k handle os = socket_close k handle (shutdown_send k handle os)"

text \<open>A sequence of frames, up to the first that is not sent; the number of those that were comes first.\<close>

fun write_frames :: "'os socket_calls \<Rightarrow> protocol_limits \<Rightarrow> u64 \<Rightarrow> frame list \<Rightarrow> 'os \<Rightarrow> (nat \<times> protocol_status) \<times> 'os" where
  "write_frames k limits handle [] os = ((0, PS_Ok), os)"
| "write_frames k limits handle (f # fs) os =
     (case frame_write k limits handle f os of
        ((status, e), os) \<Rightarrow>
          if status \<noteq> PS_Ok then ((0, status), os)
          else case write_frames k limits handle fs os of ((n, status), os) \<Rightarrow> ((Suc n, status), os))"

section \<open>What the connection was given\<close>

lemma frame_write_gives:
  assumes "send_law k (descriptor handle) given" and "socket_valid handle" and "frame_fits limits f"
    and "frame_write k limits handle f os = ((status, e), os')"
  shows "if status = PS_Ok then given os' = given os @ frame_bytes f limits
    else \<exists>n < length (frame_bytes f limits). given os' = given os @ take n (frame_bytes f limits)"
  using send_bytes_delivers [OF assms(1), where content = "frame_bytes f limits" and os = os] assms(2-4)
  by (simp add: frame_write_def encode_frame_fits)

lemma write_frames_gives:
  assumes "send_law k (descriptor handle) given" and "socket_valid handle" and "list_all (frame_fits limits) fs"
    and "write_frames k limits handle fs os = ((n, status), os')"
  shows "n \<le> length fs \<and> (\<exists>part. given os' = given os @ stream_of limits (take n fs) @ part \<and>
    (if status = PS_Ok then n = length fs \<and> part = []
     else n < length fs \<and> (\<exists>m < length (frame_bytes (fs ! n) limits). part = take m (frame_bytes (fs ! n) limits))))"
  using assms(3,4)
proof (induction fs arbitrary: n os)
  case Nil
  then show ?case by (auto simp: stream_of_def)
next
  case (Cons f fs)
  obtain s e os1 where first: "frame_write k limits handle f os = ((s, e), os1)" by (metis surj_pair)
  note gives = frame_write_gives [OF assms(1,2) _ first]
  show ?case
  proof (cases "s = PS_Ok")
    case False
    then show ?thesis using Cons.prems gives first by (auto simp: stream_of_def)
  next
    case True
    obtain m where rest: "write_frames k limits handle fs os1 = ((m, status), os')" "n = Suc m"
      using Cons.prems(2) True by (auto simp: first split: prod.splits)
    then show ?thesis
      using Cons.IH [OF _ rest(1)] Cons.prems(1) gives True by (auto simp: stream_of_def)
  qed
qed

text \<open>
  C26
  Frames cross the connection. When a sequence of frames within the limits was written with success,
  whatever parts of them the system took at a time, and the bytes arrive cut into any reads within
  the buffer of the receiver, the receiver gets exactly these frames in order. When a write failed,
  the connection was given the frames before it and a proper beginning of the frame it was writing,
  and nothing else.
\<close>

theorem frames_cross_connection:
  assumes "send_law k (descriptor handle) given" and "socket_valid handle" and "list_all (frame_fits limits) fs"
    and "write_frames k limits handle fs os = ((n, status), os')" and "given os = []"
    and "concat chunks = given os'" and "length (given os') \<le> frame_bound limits"
  shows "if status = PS_Ok then receive_frames (length fs) (new_decoder limits) (map Received chunks) = Some fs
    else receive_frames n (new_decoder limits) (map Received chunks) = Some (take n fs) \<and> n < length fs \<and>
      (\<exists>m < length (frame_bytes (fs ! n) limits).
        given os' = stream_of limits (take n fs) @ take m (frame_bytes (fs ! n) limits))"
proof -
  obtain part where given: "given os' = stream_of limits (take n fs) @ part" "n \<le> length fs"
    and part: "if status = PS_Ok then n = length fs \<and> part = []
      else n < length fs \<and> (\<exists>m < length (frame_bytes (fs ! n) limits). part = take m (frame_bytes (fs ! n) limits))"
    using write_frames_gives [OF assms(1-4)] assms(5) by auto
  have "receive_frames (length (take n fs)) (new_decoder limits) (map Received chunks) = Some (take n fs)"
  proof (rule receive_frames_stream [OF _ decoder_holds_new])
    show "list_all (frame_fits limits) (take n fs)"
      using assms(3) by (auto simp: list_all_iff dest: in_set_takeD)
    show "[] @ concat chunks = stream_of limits (take n fs) @ part" using assms(6) given by simp
    show "length (fd_buffer (new_decoder limits)) + length (concat chunks) \<le> frame_bound limits"
      using assms(6,7) by (simp add: new_decoder_def)
  qed
  then show ?thesis using given part by auto
qed

text \<open>Over the connection that takes one byte at a time, read one byte at a time.\<close>

lemma byte_calls_send: "send_bytes byte_calls handle content os = ((PS_Ok, []), os @ content)"
proof (induction content arbitrary: os)
  case Nil
  show ?case by (subst send_bytes.simps) simp
next
  case (Cons b content)
  then show ?case by (subst send_bytes.simps) (simp add: byte_calls_def)
qed

lemma byte_calls_write:
  "socket_valid handle \<Longrightarrow> list_all (frame_fits limits) fs \<Longrightarrow>
   write_frames byte_calls limits handle fs os = ((length fs, PS_Ok), os @ stream_of limits fs)"
  by (induction fs arbitrary: os) (simp_all add: frame_write_def encode_frame_fits byte_calls_send stream_of_def)

lemma frames_cross_connection_witness:
  "receive_frames 2 (new_decoder default_limits)
     (map Received (map (\<lambda>b. [b]) (snd (write_frames byte_calls default_limits 3
       [make_frame MT_HELLO [], make_frame MT_FENCE [7]] []))))
   = Some [make_frame MT_HELLO [], make_frame MT_FENCE [7]]"
proof -
  let ?fs = "[make_frame MT_HELLO [], make_frame MT_FENCE [7]]"
  have fits: "list_all (frame_fits default_limits) ?fs"
    by (simp add: frame_fits_def make_frame_def default_limits_def)
  have valid: "socket_valid 3" by (simp add: socket_valid_def kInvalidHandle_def)
  have law: "send_law byte_calls (descriptor 3) id"
    by (auto simp: send_law_def byte_calls_def min_def not_le)
  have bound: "length (stream_of default_limits ?fs) \<le> frame_bound default_limits"
    by (simp add: frame_fits_def make_frame_def default_limits_def stream_of_def length_frame_bytes
        frame_bound_def kFrameHeaderSize_def kFrameTrailerSize_def)
  have written: "write_frames byte_calls default_limits 3 ?fs [] = ((length ?fs, PS_Ok), stream_of default_limits ?fs)"
    using byte_calls_write [OF valid fits, of "[]"] by (simp only: append_Nil)
  have "receive_frames (length ?fs) (new_decoder default_limits)
      (map Received (map (\<lambda>b. [b]) (stream_of default_limits ?fs))) = Some ?fs"
    using frames_cross_connection [OF law valid fits written, of "map (\<lambda>b. [b]) (stream_of default_limits ?fs)"] bound
    by (simp only: id_apply concat_map_singleton refl if_True simp_thms list.map_ident map_ident)
  moreover have "length ?fs = 2" by simp
  ultimately show ?thesis unfolding written snd_conv by (simp only:)
qed

end
