(* ===== verification/Mlf_Cli.thy ===== *)
theory Mlf_Cli
  imports Mlf_Client Mlf_Queries Mlf_State_File
begin

text \<open>
  The command line tool tools/mlf_cli/main.cpp: its options, and the commands that change the state
  of a coordinator. A command leaves an exit code, what it printed, and its client; what connecting
  gives and what a file holds are inputs.
\<close>

section \<open>Options\<close>

record options =
  op_command :: string
  op_endpoint :: string
  op_state_path :: string
  op_scope_path :: string
  op_model_name :: string
  op_family :: string
  op_label :: string
  op_runtime :: string
  op_backend :: string
  op_architecture :: string
  op_precision :: string
  op_tokenizer :: string
  op_adapter :: string
  op_artifact_path :: string
  op_digest :: string
  op_environment_key :: string
  op_outcometext :: string
  op_model_id :: u64
  op_version_id :: u64
  op_predecessor :: u64
  op_artifact_set :: u64
  op_artifact_generation :: u64
  op_target_version :: u64
  op_rollout_id :: u64
  op_worker_id :: u64
  op_traffic_percent :: u64
  op_immediate :: bool

definition default_options :: options where
  "default_options = \<lparr>op_command = [], op_endpoint = [], op_state_path = [], op_scope_path = ''global'',
     op_model_name = [], op_family = [], op_label = [], op_runtime = [], op_backend = [],
     op_architecture = [], op_precision = [], op_tokenizer = [], op_adapter = [],
     op_artifact_path = [], op_digest = [], op_environment_key = ''local'', op_outcometext = [],
     op_model_id = 0, op_version_id = 0, op_predecessor = 0, op_artifact_set = 0,
     op_artifact_generation = 1, op_target_version = 0, op_rollout_id = 0, op_worker_id = 0,
     op_traffic_percent = 100, op_immediate = False\<rparr>"

definition usage_lines :: "string list" where
  "usage_lines = [
     ''mlf_cli <command> [options]'',
     '''',
     ''Read-only commands (accept --endpoint or --state):'',
     ''  host                 report the real host environment and provenance'',
     ''  summary              store statistics and coordinator epoch'',
     ''  models               list registered model families'',
     ''  versions             list model versions and lifecycle state'',
     ''  state                state of one version (--version-id)'',
     ''  authority            authoritative generation for --scope'',
     ''  rollout              rollout plans and stage history'',
     ''  compatibility        published compatibility facts'',
     ''  evidence             retained evidence records'',
     ''  workers              worker leases and boot identities'',
     ''  epoch                current coordinator epoch and sequence'',
     '''',
     ''Mutation commands (require --endpoint):'',
     ''  register-model       --name --family [--provenance]'',
     ''  register-version     --model-id --label --artifact-set --artifact'',
     ''                       [--runtime --backend --architecture --precision]'',
     ''  publish-compatibility --version-id --outcome [--environment-key]'',
     ''  promote              --model-id --version-id --scope [--immediate]'',
     ''  plan                 create a rollout plan for a promoted candidate'',
     ''  begin                enter the first stage of a rollout'',
     ''  advance              advance the current stage'',
     ''  fail                 fail the current stage'',
     ''  rollback             --model-id --version-id --target-version --scope'',
     ''  retire               --model-id --version-id'',
     ''  revalidate           --model-id --version-id'',
     ''  fence                --worker-id'',
     '''',
     ''Global options: --endpoint <host:port> | --state <path> --scope <path>'']"

text \<open>The options that take a text and those that take a number.\<close>

definition text_options :: "(string \<times> (string \<Rightarrow> options \<Rightarrow> options)) list" where
  "text_options = [
     (''--endpoint'', \<lambda>v q. q\<lparr>op_endpoint := v\<rparr>),
     (''--state'', \<lambda>v q. q\<lparr>op_state_path := v\<rparr>),
     (''--scope'', \<lambda>v q. q\<lparr>op_scope_path := v\<rparr>),
     (''--name'', \<lambda>v q. q\<lparr>op_model_name := v\<rparr>),
     (''--family'', \<lambda>v q. q\<lparr>op_family := v\<rparr>),
     (''--label'', \<lambda>v q. q\<lparr>op_label := v\<rparr>),
     (''--runtime'', \<lambda>v q. q\<lparr>op_runtime := v\<rparr>),
     (''--backend'', \<lambda>v q. q\<lparr>op_backend := v\<rparr>),
     (''--architecture'', \<lambda>v q. q\<lparr>op_architecture := v\<rparr>),
     (''--precision'', \<lambda>v q. q\<lparr>op_precision := v\<rparr>),
     (''--tokenizer'', \<lambda>v q. q\<lparr>op_tokenizer := v\<rparr>),
     (''--adapter'', \<lambda>v q. q\<lparr>op_adapter := v\<rparr>),
     (''--artifact'', \<lambda>v q. q\<lparr>op_artifact_path := v\<rparr>),
     (''--digest'', \<lambda>v q. q\<lparr>op_digest := v\<rparr>),
     (''--environment-key'', \<lambda>v q. q\<lparr>op_environment_key := v\<rparr>),
     (''--outcome'', \<lambda>v q. q\<lparr>op_outcometext := v\<rparr>)]"

definition number_options :: "(string \<times> (u64 \<Rightarrow> options \<Rightarrow> options)) list" where
  "number_options = [
     (''--model-id'', \<lambda>n q. q\<lparr>op_model_id := n\<rparr>),
     (''--version-id'', \<lambda>n q. q\<lparr>op_version_id := n\<rparr>),
     (''--predecessor'', \<lambda>n q. q\<lparr>op_predecessor := n\<rparr>),
     (''--artifact-set'', \<lambda>n q. q\<lparr>op_artifact_set := n\<rparr>),
     (''--artifact-generation'', \<lambda>n q. q\<lparr>op_artifact_generation := n\<rparr>),
     (''--target-version'', \<lambda>n q. q\<lparr>op_target_version := n\<rparr>),
     (''--rollout-id'', \<lambda>n q. q\<lparr>op_rollout_id := n\<rparr>),
     (''--worker-id'', \<lambda>n q. q\<lparr>op_worker_id := n\<rparr>),
     (''--traffic-percent'', \<lambda>n q. q\<lparr>op_traffic_percent := n\<rparr>)]"

text \<open>The digits are not checked for overflow.\<close>

fun cli_digits :: "u64 \<Rightarrow> string \<Rightarrow> u64 option" where
  "cli_digits value [] = Some value"
| "cli_digits value (c # cs) =
     (if c < CHR ''0'' \<or> CHR ''9'' < c then None
      else cli_digits (value * 10 + of_nat (of_char c - of_char CHR ''0'')) cs)"

definition parse_u64 :: "string \<Rightarrow> u64 option" where
  "parse_u64 txt = (if txt = [] then None else cli_digits 0 txt)"

text \<open>Why the arguments are refused decides only what is printed.\<close>

datatype parsed = Parsed options | Usage | Missing_Value | Unknown_Option string

fun parse_arguments :: "string list \<Rightarrow> options \<Rightarrow> parsed" where
  "parse_arguments [] q = Parsed q"
| "parse_arguments (a # rest) q =
     (case map_of text_options a of
        Some store \<Rightarrow> (case rest of [] \<Rightarrow> Missing_Value | v # rest \<Rightarrow> parse_arguments rest (store v q))
      | None \<Rightarrow>
          (case map_of number_options a of
             Some store \<Rightarrow>
               (case rest of
                  [] \<Rightarrow> Missing_Value
                | v # rest \<Rightarrow>
                    (case parse_u64 v of None \<Rightarrow> Missing_Value | Some n \<Rightarrow> parse_arguments rest (store n q)))
           | None \<Rightarrow>
               if a = ''--immediate'' then parse_arguments rest (q\<lparr>op_immediate := True\<rparr>)
               else if a = ''--help'' \<or> a = ''-h'' then Usage
               else Unknown_Option a))"

definition parse_options :: "string list \<Rightarrow> parsed" where
  "parse_options arguments =
     (case arguments of
        [] \<Rightarrow> Usage
      | command # rest \<Rightarrow> parse_arguments rest (default_options\<lparr>op_command := command\<rparr>))"

definition split_endpoint :: "string \<Rightarrow> (string \<times> u16) option" where
  "split_endpoint endpoint =
     (if CHR '':'' \<notin> set endpoint then None
      else
        let port = rev (takeWhile (\<lambda>c. c \<noteq> CHR '':'') (rev endpoint));
            host = take (length endpoint - length port - 1) endpoint in
        case parse_u64 port of
          None \<Rightarrow> None
        | Some n \<Rightarrow> if n = 0 \<or> 65535 < n then None else Some (host, ucast n))"

definition mutation_commands :: "string list" where
  "mutation_commands = [''register-model'', ''register-version'', ''publish-compatibility'', ''promote'', ''plan'',
     ''begin'', ''advance'', ''fail'', ''rollback'', ''retire'', ''revalidate'', ''fence'']"

definition is_mutation :: "string \<Rightarrow> bool" where
  "is_mutation command \<longleftrightarrow> command \<in> set mutation_commands"

section \<open>Printing\<close>

definition newline :: string where
  "newline = [CHR 0x0A]"

definition padded :: "nat \<Rightarrow> string \<Rightarrow> string" where
  "padded width txt = txt @ replicate (width - length txt) CHR '' ''"

definition usage_text :: string where
  "usage_text = concat (map (\<lambda>l. l @ newline) usage_lines)"

text \<open>The client of a command, and what it has printed on the two streams.\<close>

record session_io =
  io_client :: client
  io_out :: string
  io_err :: string

definition say :: "string \<Rightarrow> session_io \<Rightarrow> session_io" where
  "say txt io = io\<lparr>io_out := io_out io @ txt @ newline\<rparr>"

definition complain :: "string \<Rightarrow> session_io \<Rightarrow> session_io" where
  "complain txt io = io\<lparr>io_err := io_err io @ ''mlf_cli: '' @ txt @ newline\<rparr>"

definition new_io :: session_io where
  "new_io = \<lparr>io_client = new_client default_limits, io_out = [], io_err = []\<rparr>"

definition say_value :: "string \<times> string \<Rightarrow> session_io \<Rightarrow> session_io" where
  "say_value e = say (''  '' @ padded 28 (fst e) @ '' = '' @ snd e)"

definition say_outcome :: "nat \<Rightarrow> reply \<Rightarrow> session_io \<Rightarrow> session_io" where
  "say_outcome width y io =
     fold (\<lambda>r. say (''  reason: '' @ padded width (to_string_reason (r_code r)) @ '' '' @ r_detail r)) (ry_reasons y)
       (fold say_value (ry_values y) (say (''outcome='' @ to_string_outcome (ry_outcome y)) io))"

section \<open>Talking to the coordinator\<close>

text \<open>A call over the client of the command; waiting forever has no result.\<close>

definition ask :: "message_type \<Rightarrow> protocol_status + bytes \<Rightarrow> session_io \<Rightarrow> (reply \<times> session_io) option" where
  "ask t encoded io =
     map_option (\<lambda>(y, c). (y, io\<lparr>io_client := c\<rparr>)) (call_as t encoded (io_client io))"

definition greet :: "session_io \<Rightarrow> (reply \<times> session_io) option" where
  "greet io = map_option (\<lambda>(y, c). (y, io\<lparr>io_client := c\<rparr>)) (client_hello 0 0 0 [] (io_client io))"

abbreviation io_limits :: "session_io \<Rightarrow> protocol_limits" where
  "io_limits io \<equiv> cl_limits (io_client io)"

definition resolve_scope :: "string \<Rightarrow> session_io \<Rightarrow> (u64 option \<times> session_io) option" where
  "resolve_scope path io =
     (case ask MT_REGISTER_SCOPE (encode_register_scope (io_limits io) \<lparr>rs_path = path\<rparr>) io of
        None \<Rightarrow> None
      | Some (y, io) \<Rightarrow>
          if \<not> reply_ok y then
            Some (None, complain (''cannot resolve scope '' @ [CHR 0x27] @ path @ [CHR 0x27] @ '': '' @ render_reply y) io)
          else
            let scope = reply_number ''scope_id'' 0 y in
            Some (if id_valid scope then Some scope else None, io))"

section \<open>The messages of the commands\<close>

definition cli_environment :: "string \<Rightarrow> environment_profile" where
  "cli_environment key = \<lparr>en_key = key, en_runtime = [], en_runtime_version = [], en_backend = [],
     en_backend_version = [], en_architecture = [], en_precisions = [], en_tokenizer_generation = [],
     en_adapter_set = [], en_compute_capability = 0, en_provenance = PV_Unknown\<rparr>"

definition cli_promotion :: "options \<Rightarrow> u64 \<Rightarrow> u64 \<Rightarrow> promotion_request" where
  "cli_promotion q epoch scope = \<lparr>pq_model = op_model_id q, pq_candidate = op_version_id q,
     pq_candidate_generation = 0, pq_artifact_generation = 0, pq_compatibility_generation = 0,
     pq_policy_generation = 0, pq_epoch = epoch, pq_scope = scope, pq_scope_generation = 0,
     pq_strategy = (if op_immediate q then RS_ImmediateCutover else RS_Canary),
     pq_rollback_target = op_target_version q, pq_rollback_target_generation = 0, pq_evidence_generation = 0,
     pq_worker = 0, pq_boot = 0, pq_administrative_approval = True,
     pq_request_immediate_cutover = op_immediate q, pq_environment_key = op_environment_key q,
     pq_environment = None\<rparr>"

definition cli_progress :: "options \<Rightarrow> u64 \<Rightarrow> progress_request" where
  "cli_progress q epoch = \<lparr>xq_rollout = op_rollout_id q, xq_rollout_generation = 0, xq_stage = 0,
     xq_stage_generation = 0, xq_scope_generation = 0, xq_epoch = epoch, xq_worker = 0, xq_boot = 0,
     xq_administrative_approval = True, xq_detail = []\<rparr>"

definition cli_rollback :: "options \<Rightarrow> u64 \<Rightarrow> u64 \<Rightarrow> rollback_request" where
  "cli_rollback q epoch scope = \<lparr>kq_model = op_model_id q, kq_candidate = op_version_id q,
     kq_candidate_generation = 0, kq_rollout = op_rollout_id q, kq_rollout_generation = 0,
     kq_target = op_target_version q, kq_target_generation = 0, kq_target_artifact_generation = 0,
     kq_scope = scope, kq_scope_generation = 0, kq_policy_generation = 0, kq_epoch = epoch, kq_worker = 0,
     kq_boot = 0, kq_automatic = False, kq_detail = []\<rparr>"

definition cli_registration :: "options \<Rightarrow> string \<Rightarrow> register_version_message" where
  "cli_registration q digest = \<lparr>rm_model = op_model_id q, rm_label = op_label q,
     rm_artifact = \<lparr>ab_set_id = op_artifact_set q, ab_generation = op_artifact_generation q, ab_digest = digest\<rparr>,
     rm_requirements = \<lparr>rq_runtime = op_runtime q, rq_runtime_min_version = [], rq_backend = op_backend q,
       rq_architecture = op_architecture q, rq_precision = op_precision q,
       rq_tokenizer_generation = op_tokenizer q, rq_adapter_set = op_adapter q\<rparr>,
     rm_predecessor = op_predecessor q, rm_provenance = PV_Real\<rparr>"

text \<open>The digest given, or that of the file, which is read in chunks.\<close>

definition cli_digest :: "(string \<Rightarrow> bytes list option) \<Rightarrow> options \<Rightarrow> nat \<times> string + string" where
  "cli_digest files q =
     (if op_digest q \<noteq> [] then Inr (op_digest q)
      else if op_artifact_path q \<noteq> [] then
        (case compute_file_digest (files (op_artifact_path q)) of
           None \<Rightarrow> Inl (1, ''cannot read artifact '' @ op_artifact_path q)
         | Some digest \<Rightarrow> Inr digest)
      else Inl (2, ''provide --artifact <path> or --digest <token>''))"

text \<open>
  What a command sends: the type of the frame, the encoded message, and the numbers of the reply
  that are printed when it is positive. Or the exit code and the complaint. The last branch, which
  also prints the usage, is never taken: only the commands listed above get here.
\<close>

type_synonym cli_request = "message_type \<times> (protocol_status + bytes) \<times> string list"

definition cli_request_of ::
  "(string \<Rightarrow> bytes list option) \<Rightarrow> protocol_limits \<Rightarrow> u64 \<Rightarrow> u64 \<Rightarrow> options \<Rightarrow> nat \<times> string + cli_request" where
  "cli_request_of files limits epoch scope q =
     (let command = op_command q in
      if command = ''register-model'' then
        (if op_model_name q = [] then Inl (2, ''--name is required'')
         else Inr (MT_REGISTER_MODEL, encode_register_model limits
           \<lparr>mm_name = op_model_name q, mm_family = op_family q, mm_provenance = PV_Real\<rparr>, [''model_id'']))
      else if command = ''register-version'' then
        (case cli_digest files q of
           Inl e \<Rightarrow> Inl e
         | Inr digest \<Rightarrow>
             Inr (MT_REGISTER_VERSION, encode_register_version limits (cli_registration q digest), [''version_id'']))
      else if command = ''publish-compatibility'' then
        (case parse_compatibility_outcome (op_outcometext q) of
           None \<Rightarrow> Inl (2, ''--outcome '' @ op_outcometext q @ '' is not a known compatibility outcome'')
         | Some outcome \<Rightarrow>
             Inr (MT_PUBLISH_COMPATIBILITY, encode_publish_compatibility limits \<lparr>pc_version = op_version_id q,
               pc_environment = cli_environment (op_environment_key q), pc_outcome = outcome,
               pc_detail = ''published by mlf_cli'', pc_provenance = PV_Real\<rparr>, []))
      else if command = ''promote'' then
        Inr (MT_PROMOTE, encode_promotion limits (cli_promotion q epoch scope),
          [''promotion_id'', ''promotion_generation''])
      else if command = ''plan'' then
        Inl (2, ''plan requires the full plan on the wire; use the API or an example'')
      else if command = ''begin'' then Inr (MT_BEGIN_ROLLOUT, encode_progress limits (cli_progress q epoch), [])
      else if command = ''advance'' then Inr (MT_ADVANCE_STAGE, encode_progress limits (cli_progress q epoch), [])
      else if command = ''fail'' then Inr (MT_FAIL_STAGE, encode_progress limits (cli_progress q epoch), [])
      else if command = ''rollback'' then Inr (MT_ROLLBACK, encode_rollback limits (cli_rollback q epoch scope), [])
      else if command = ''retire'' then
        Inr (MT_RETIRE, encode_retire limits \<lparr>tq_model = op_model_id q, tq_version = op_version_id q,
          tq_generation = 0, tq_policy_generation = 0, tq_epoch = epoch\<rparr>, [])
      else if command = ''revalidate'' then
        Inr (MT_REVALIDATE, encode_revalidate limits \<lparr>vq_model = op_model_id q, vq_version = op_version_id q,
          vq_generation = 0, vq_cause = Cmp CompatibilityStale, vq_detail = ''requested by mlf_cli''\<rparr>, [])
      else if command = ''fence'' then
        Inr (MT_FENCE, encode_fence limits \<lparr>fm_worker = op_worker_id q, fm_boot = 0,
          fm_reason = ''fenced by mlf_cli''\<rparr>, [])
      else Inl (2, ''unknown command '' @ command))"

section \<open>Commands that change the coordinator\<close>

definition needs_scope :: "string \<Rightarrow> bool" where
  "needs_scope command \<longleftrightarrow>
     command \<in> {''promote'', ''rollback'', ''plan'', ''begin'', ''advance'', ''fail''}"

definition say_numbers :: "string list \<Rightarrow> reply \<Rightarrow> session_io \<Rightarrow> session_io" where
  "say_numbers keys y io =
     (if keys = [] \<or> \<not> reply_ok y then io
      else say (tl (concat (map (\<lambda>k. '' '' @ k @ ''='' @ show_u64 (reply_number k 0 y)) keys))) io)"

text \<open>The answer of the coordinator is printed; the exit code says whether it was positive.\<close>

definition finish_mutation :: "string list \<Rightarrow> reply \<Rightarrow> session_io \<Rightarrow> nat \<times> session_io" where
  "finish_mutation keys y io =
     (let io = say_outcome 44 y (say_numbers keys y io);
          e = ch_error (cl_channel (io_client io));
          io = (if e \<noteq> [] then complain e io else io) in
      (if reply_ok y then 0 else 1, io))"

definition run_request :: "cli_request \<Rightarrow> session_io \<Rightarrow> (nat \<times> session_io) option" where
  "run_request r io =
     (case r of (t, encoded, keys) \<Rightarrow>
        map_option (\<lambda>(y, io). finish_mutation keys y io) (ask t encoded io))"

definition mutate :: "(string \<Rightarrow> bytes list option) \<Rightarrow> options \<Rightarrow> u64 \<Rightarrow> u64 \<Rightarrow> session_io \<Rightarrow> (nat \<times> session_io) option" where
  "mutate files q epoch scope io =
     (case cli_request_of files (io_limits io) epoch scope q of
        Inl (code, e) \<Rightarrow> Some (code, complain e io)
      | Inr r \<Rightarrow> run_request r io)"

definition mutation_command ::
  "(string \<Rightarrow> bytes list option) \<Rightarrow> (string + recv_event list \<times> bool list) \<Rightarrow> options \<Rightarrow> session_io \<Rightarrow>
   (nat \<times> session_io) option" where
  "mutation_command files connection q io =
     (if op_endpoint q = [] then Some (2, complain (op_command q @ '' requires --endpoint'') io)
      else case split_endpoint (op_endpoint q) of
          None \<Rightarrow> Some (2, complain ''--endpoint must be host:port'' io)
        | Some _ \<Rightarrow>
            (case client_connect connection (io_client io) of (connected, c) \<Rightarrow>
               let io = io\<lparr>io_client := c\<rparr> in
               if \<not> connected then Some (1, complain (ch_error (cl_channel c)) io)
               else case greet io of
                   None \<Rightarrow> None
                 | Some (hello, io) \<Rightarrow>
                     if \<not> reply_ok hello then Some (1, complain (''handshake refused: '' @ render_reply hello) io)
                     else
                       let epoch = reply_number ''coordinator_epoch'' 0 hello in
                       if \<not> needs_scope (op_command q) then mutate files q epoch 0 io
                       else case resolve_scope (op_scope_path q) io of
                           None \<Rightarrow> None
                         | Some (None, io) \<Rightarrow> Some (2, io)
                         | Some (Some scope, io) \<Rightarrow> mutate files q epoch scope io))"

end
