(* ===== verification/Mlf_Inspect.thy ===== *)
theory Mlf_Inspect
  imports Mlf_Cli Mlf_Host
begin

text \<open>
  The read-only commands of tools/mlf_cli/main.cpp, over a state file or over the protocol, and the
  tool as a whole.
\<close>

section \<open>Offline: lines about an engine\<close>

definition number_line :: "string \<Rightarrow> u64 \<Rightarrow> string" where
  "number_line label n = padded 19 label @ '' = '' @ show_u64 n"

definition count_line :: "string \<Rightarrow> nat \<Rightarrow> string" where
  "count_line label n = padded 19 label @ '' = '' @ show_nat n"

definition summary_lines :: "engine \<Rightarrow> string list" where
  "summary_lines st =
     (let t = stats st in
      [number_line ''coordinator_epoch'' (st_epoch st), number_line ''sequence'' (st_sequence st),
       number_line ''policy_generation'' (policy_generation st),
       number_line ''snapshot_generation'' (st_snapshot_generation st),
       count_line ''models'' (ss_models t), count_line ''versions'' (ss_versions t),
       count_line ''scopes'' (ss_scopes t), count_line ''rollouts'' (ss_rollouts t),
       count_line ''authority_bindings'' (ss_authority_bindings t),
       count_line ''compatibility_facts'' (ss_compatibility_facts t),
       count_line ''evidence_records'' (ss_evidence t) @ '' (dropped '' @ show_u64 (ss_evidence_dropped t) @ '')'',
       count_line ''attempts'' (ss_attempts t), count_line ''workers'' (ss_workers t)])"

definition model_line :: "model_record \<Rightarrow> string" where
  "model_line r = ''model '' @ padded 6 (show_u64 (mr_id r)) @ '' name='' @ padded 28 (mr_name r) @
     '' family='' @ padded 20 (mr_family r) @ '' provenance='' @ to_string_provenance (mr_provenance r)"

definition version_line :: "version_record \<Rightarrow> string" where
  "version_line r = ''version '' @ padded 6 (show_u64 (vr_version r)) @ '' label='' @ padded 20 (vr_label r) @
     '' state='' @ padded 22 (to_string_state (vr_state r)) @ '' gen='' @ show_u64 (vr_generation r) @
     '' artifact='' @ show_u64 (ab_set_id (vr_artifact r)) @ ''/'' @ show_u64 (ab_generation (vr_artifact r)) @
     '' compat='' @ show_u64 (vr_compatibility_generation r) @ '' promotion='' @ show_u64 (vr_last_promotion r) @
     '' rollout='' @ show_u64 (vr_rollout r) @ ''/'' @ show_u64 (vr_rollout_generation r)"

definition binding_line :: "authority_binding \<Rightarrow> string" where
  "binding_line b = ''  authority scope='' @ show_u64 (b_scope b) @ '' kind='' @ to_string_authority_kind (b_kind b) @
     '' gen='' @ show_u64 (b_model_generation b) @ '' seq='' @ show_u64 (b_granted_sequence b)"

definition state_lines :: "engine \<Rightarrow> version_record \<Rightarrow> string list" where
  "state_lines st r =
     [version_line r, ''  artifact_digest      = '' @ ab_digest (vr_artifact r),
      ''  predecessor          = '' @ show_u64 (vr_predecessor r),
      ''  lifecycle_generation = '' @ show_u64 (vr_lifecycle_generation r),
      ''  last_rollback        = '' @ show_u64 (vr_last_rollback r) @ '' gen '' @ show_u64 (vr_rollback_generation r)] @
     map binding_line
       (filter (\<lambda>b. \<not> b_superseded b) (authority_bindings st (vr_model r) (vr_version r)))"

definition yes_no :: "bool \<Rightarrow> string" where
  "yes_no x = (if x then ''yes'' else ''no'')"

definition stage_line :: "stage_record \<Rightarrow> string" where
  "stage_line h = ''  stage '' @ show_u64 (sh_stage h) @ '' gen='' @ show_u64 (sh_generation h) @ '' decision='' @
     to_string_stage_decision (sh_decision h) @ '' entered='' @ show_u64 (sh_entered_sequence h) @ '' decided='' @
     show_u64 (sh_decided_sequence h)"

definition rollout_lines :: "rollout_plan \<Rightarrow> string list" where
  "rollout_lines p =
     (''rollout '' @ show_u64 (pl_id p) @ '' gen='' @ show_u64 (pl_generation p) @ '' candidate='' @
      show_u64 (pl_candidate p) @ '' strategy='' @ to_string_strategy (pl_strategy p) @ '' stage='' @
      show_nat (pl_current_stage_index p) @ ''/'' @ show_nat (length (pl_stages p)) @ '' live='' @ yes_no (live p) @
      '' completed='' @ yes_no (pl_completed p) @ '' failed='' @ yes_no (pl_failed p) @ '' superseded='' @
      yes_no (pl_superseded p)) # map stage_line (pl_history p)"

definition fact_line :: "compatibility_fact \<Rightarrow> string" where
  "fact_line f = ''version '' @ padded 6 (show_u64 (cf_version f)) @ '' env='' @ padded 16 (cf_environment_key f) @
     '' outcome='' @ padded 28 (to_string_compatibility (cf_outcome f)) @ '' model_gen='' @
     show_u64 (cf_model_generation f) @ '' artifact_gen='' @ show_u64 (cf_artifact_generation f) @ '' provenance='' @
     to_string_provenance (cf_provenance f)"

definition evidence_line :: "evidence_record \<Rightarrow> string" where
  "evidence_line e = ''evidence '' @ padded 6 (show_u64 (e_id e)) @ '' gen='' @ padded 6 (show_u64 (e_generation e)) @
     '' kind='' @ padded 22 (to_string_evidence_kind (e_kind e)) @ '' verdict='' @
     padded 11 (to_string_verdict (e_verdict e)) @ '' version='' @ show_u64 (es_version (e_subject e)) @ '' scope='' @
     show_u64 (es_scope (e_subject e)) @ '' boot='' @ show_u64 (e_boot e) @ '' provenance='' @
     to_string_provenance (e_provenance e)"

definition worker_line :: "worker_lease \<Rightarrow> string" where
  "worker_line l = ''worker '' @ padded 6 (show_u64 (wl_id l)) @ '' boot='' @ padded 6 (show_u64 (wl_boot l)) @
     '' epoch='' @ padded 6 (show_u64 (wl_epoch l)) @ '' fenced='' @ yes_no (wl_fenced l) @ '' scopes='' @
     show_nat (length (wl_scopes l))"

section \<open>Offline: the commands\<close>

definition say_all :: "string list \<Rightarrow> session_io \<Rightarrow> session_io" where
  "say_all = fold say"

definition version_label :: "engine \<Rightarrow> u64 \<Rightarrow> string" where
  "version_label st version =
     (case find (\<lambda>r. vr_version r = version) (all_versions st) of None \<Rightarrow> ''?'' | Some r \<Rightarrow> vr_label r)"

definition find_scope :: "engine \<Rightarrow> string \<Rightarrow> scope_record option" where
  "find_scope st path = find (\<lambda>r. s_path r = path) (all_scopes st)"

definition inspect_state :: "engine \<Rightarrow> u64 \<Rightarrow> session_io \<Rightarrow> nat \<times> session_io" where
  "inspect_state st version io =
     (if version = 0 then (2, complain ''--version-id is required'' io)
      else case find (\<lambda>r. vr_version r = version) (all_versions st) of
          None \<Rightarrow> (1, complain (''version '' @ show_u64 version @ '' not found'') io)
        | Some r \<Rightarrow> (0, say_all (state_lines st r) io))"

definition inspect_authority :: "engine \<Rightarrow> string \<Rightarrow> session_io \<Rightarrow> nat \<times> session_io" where
  "inspect_authority st path io =
     (case find_scope st path of
        None \<Rightarrow> (1, complain (''scope '' @ path @ '' is not registered'') io)
      | Some scope \<Rightarrow>
          let q = query_authority st (s_id scope);
              io = io\<lparr>io_out := io_out io @ ''explanation:'' @ newline @ render_explanation (aq_explanation q)\<rparr>;
              io = (case aq_binding q of
                      None \<Rightarrow> io
                    | Some b \<Rightarrow> say (''authoritative version label = '' @ version_label st (b_version b)) io) in
          (if aq_outcome q = OC_Ok then 0 else 1, io))"

definition inspect :: "engine \<Rightarrow> options \<Rightarrow> session_io \<Rightarrow> nat \<times> session_io" where
  "inspect st q io =
     (let command = op_command q in
      if command = ''summary'' \<or> command = ''epoch'' then (0, say_all (summary_lines st) io)
      else if command = ''models'' then (0, say_all (map model_line (all_models st)) io)
      else if command = ''versions'' then
        (0, say_all (map (\<lambda>r. ''model '' @ padded 6 (show_u64 (vr_model r)) @ '' '' @ version_line r)
           (all_versions st)) io)
      else if command = ''state'' then inspect_state st (op_version_id q) io
      else if command = ''authority'' then inspect_authority st (op_scope_path q) io
      else if command = ''rollout'' then (0, say_all (concat (map rollout_lines (all_rollouts st))) io)
      else if command = ''compatibility'' then
        (0, say_all (concat (map (\<lambda>r. map fact_line (compatibility_facts_of st (vr_version r))) (all_versions st))) io)
      else if command = ''evidence'' then (0, say_all (map evidence_line (all_evidence st)) io)
      else if command = ''workers'' then (0, say_all (map worker_line (all_workers st)) io)
      else
        let io = complain (''unknown read-only command '' @ command) io in
        (2, io\<lparr>io_out := io_out io @ usage_text\<rparr>))"

definition load_offline :: "(string \<Rightarrow> bytes option) \<Rightarrow> string \<Rightarrow> string + engine" where
  "load_offline disk path =
     (case load_durable_state path (decode_limits_from_bounds (ec_bounds default_config)) disk of
        Inl (status, detail) \<Rightarrow>
          Inl (''cannot load state: '' @ to_string_store_status status @ '' ('' @ detail @ '')'')
      | Inr ds \<Rightarrow>
          (case import_durable_state default_config ds (next_generation (ds_epoch ds)) (new_engine default_config) of
             (d, st) \<Rightarrow> if \<not> allowed d then Inl (''state rejected: '' @ render_decision d) else Inr st))"

section \<open>Over the protocol\<close>

definition remote_commands :: "string list" where
  "remote_commands = [''summary'', ''epoch'', ''state'', ''authority'', ''workers'']"

text \<open>The scope of an authority query is looked up in the local engine, which is empty here.\<close>

definition remote_scope :: "string \<Rightarrow> u64" where
  "remote_scope path = (case find_scope (new_engine default_config) path of None \<Rightarrow> 0 | Some r \<Rightarrow> s_id r)"

definition remote_authority :: "options \<Rightarrow> session_io \<Rightarrow> session_io option" where
  "remote_authority q io =
     (if op_command q \<noteq> ''authority'' \<or> op_scope_path q = [] then Some io
      else map_option
        (\<lambda>(y, io). fold say_value (ry_values y) (say (''authority outcome='' @ to_string_outcome (ry_outcome y)) io))
        (ask MT_QUERY_AUTHORITY (encode_query_authority (io_limits io) \<lparr>qa_scope = remote_scope (op_scope_path q)\<rparr>) io))"

definition inspect_remotely :: "options \<Rightarrow> session_io \<Rightarrow> (nat \<times> session_io) option" where
  "inspect_remotely q io =
     (if op_command q \<notin> set remote_commands then
        Some (2, complain ([CHR 0x27] @ op_command q @ [CHR 0x27] @
          '' lists the whole registry and requires --state <path>; the control plane exposes bounded single-entity queries only'') io)
      else case ask MT_QUERY_STATE (encode_query_state (io_limits io)
          \<lparr>qs_model = op_model_id q, qs_version = op_version_id q, qs_scope = 0\<rparr>) io of
          None \<Rightarrow> None
        | Some (y, io) \<Rightarrow>
            map_option (\<lambda>io. (if reply_ok y then 0 else 1, io)) (remote_authority q (say_outcome 0 y io)))"

definition read_only_command ::
  "host_calls \<Rightarrow> (string \<Rightarrow> bytes option) \<Rightarrow> (string + recv_event list \<times> bool list) \<Rightarrow> options \<Rightarrow> session_io \<Rightarrow>
   (nat \<times> session_io) option" where
  "read_only_command host disk connection q io =
     (if op_command q = ''host'' then
        Some (0, io\<lparr>io_out := io_out io @ render_host_environment (discover_host_environment host)\<rparr>)
      else if op_endpoint q \<noteq> [] then
        (case split_endpoint (op_endpoint q) of
           None \<Rightarrow> Some (2, complain ''--endpoint must be host:port'' io)
         | Some _ \<Rightarrow>
             (case client_connect connection (io_client io) of (connected, c) \<Rightarrow>
                let io = io\<lparr>io_client := c\<rparr> in
                if \<not> connected then Some (1, complain (ch_error (cl_channel c)) io)
                else case greet io of
                    None \<Rightarrow> None
                  | Some (hello, io) \<Rightarrow>
                      if \<not> reply_ok hello then Some (1, complain ''handshake refused'' io)
                      else inspect_remotely q io))
      else if op_state_path q \<noteq> [] then
        (case load_offline disk (op_state_path q) of
           Inl e \<Rightarrow> Some (1, complain e io)
         | Inr st \<Rightarrow> Some (inspect st q io))
      else Some (2, complain ''provide --endpoint or --state'' io))"

section \<open>The tool\<close>

definition banner :: string where
  "banner = ''mlf_cli 1.0.0 (protocol '' @ show_nat (unat kProtocolVersion) @ '', state format '' @
     show_nat (unat kStateFormatVersion) @ '')''"

definition mlf_cli ::
  "host_calls \<Rightarrow> (string \<Rightarrow> bytes list option) \<Rightarrow> (string \<Rightarrow> bytes option) \<Rightarrow>
   (string + recv_event list \<times> bool list) \<Rightarrow> string list \<Rightarrow> (nat \<times> session_io) option" where
  "mlf_cli host files disk connection arguments =
     (case parse_options arguments of
        Usage \<Rightarrow> Some (2, new_io\<lparr>io_out := usage_text\<rparr>)
      | Missing_Value \<Rightarrow> Some (2, new_io)
      | Unknown_Option a \<Rightarrow> Some (2, complain (''unknown option '' @ a) new_io)
      | Parsed q \<Rightarrow>
          if is_mutation (op_command q) then mutation_command files connection q (say banner new_io)
          else read_only_command host disk connection q (say banner new_io))"

end
