(* ===== verification/Mlf_Tool.thy ===== *)
theory Mlf_Tool
  imports Mlf_Inspect Mlf_Fabric
begin

text \<open>What the command line tool guarantees, and where it does not do what it means to.\<close>

section \<open>Numbers\<close>

lemma cli_digits_exact:
  "cli_digits (of_nat n) cs = (if list_all is_digit cs then Some (of_nat (decimal n cs)) else None)"
proof (induction cs arbitrary: n)
  case (Cons c cs)
  have "of_nat n * 10 + of_nat (of_char c - of_char CHR ''0'') = (of_nat (n * 10 + digit_value c) :: u64)"
    by (simp add: digit_value_def)
  moreover have "is_digit c \<longleftrightarrow> \<not> (c < CHR ''0'' \<or> CHR ''9'' < c)" by (auto simp: is_digit_def)
  ultimately show ?case using Cons.IH [of "n * 10 + digit_value c"] by simp
qed simp

text \<open>
  A number on the command line is any non-empty string of digits, and its value is reduced modulo
  two to the power of 64: an identity that does not fit is not refused but names another object.
\<close>

theorem command_line_numbers_wrap:
  "parse_u64 txt = (if txt \<noteq> [] \<and> list_all is_digit txt then Some (of_nat (decimal 0 txt)) else None) \<and>
   parse_u64 (show_nat (unat i + k * 2 ^ 64)) = Some i"
proof -
  have exact: "parse_u64 cs = (if cs \<noteq> [] \<and> list_all is_digit cs then Some (of_nat (decimal 0 cs)) else None)" for cs
    using cli_digits_exact [of 0 cs] by (simp add: parse_u64_def)
  have zero: "(of_nat (2 ^ 64) :: u64) = 0" by simp
  have "(of_nat (unat i + k * 2 ^ 64) :: u64) = of_nat (unat i) + of_nat k * of_nat (2 ^ 64)"
    by (simp only: of_nat_add of_nat_mult)
  also have "\<dots> = i" unfolding zero by simp
  finally have "(of_nat (unat i + k * 2 ^ 64) :: u64) = i" .
  then have wrapped: "word_of_nat (decimal 0 (show_nat (unat i + k * 2 ^ 64))) = i"
    using show_nat_decimal [of "unat i + k * 2 ^ 64"] by (simp only:)
  then show ?thesis
    using exact [of "show_nat (unat i + k * 2 ^ 64)"] exact show_nat_decimal [of "unat i + k * 2 ^ 64"]
    by (simp only: show_nat_nonempty wrapped simp_thms if_True)
qed

section \<open>Authority over the protocol\<close>

lemma fresh_scopes: "all_scopes (new_engine default_config) = [root_scope]"
  by (simp add: all_scopes_def new_engine_def ensure_root_def empty_scopes_def)

text \<open>
  Over the protocol the tool reports no authority for any scope but the root: it looks the scope up
  in its own empty engine, so it asks about the invalid scope and every coordinator finds nothing.
\<close>

theorem remote_authority_never_found:
  assumes "path \<noteq> ''global''"
  shows "aq_outcome (query_authority st (remote_scope path)) = OC_NO_AUTHORITATIVE_MODEL \<and>
    aq_binding (query_authority st (remote_scope path)) = None"
proof -
  have "remote_scope path = 0"
    using assms by (simp add: remote_scope_def find_scope_def fresh_scopes root_scope_def)
  then show ?thesis by (simp add: query_authority_def sr_find_def id_valid_def)
qed

lemma remote_authority_never_found_witness:
  "aq_binding (query_authority sample_engine (remote_scope ''global/region:eu'')) = None"
  using remote_authority_never_found [of "''global/region:eu''"] by simp

section \<open>Inspection\<close>

definition io_sent :: "session_io \<Rightarrow> frame list" where
  "io_sent io = ch_sent (cl_channel (io_client io))"

lemma io_sent_printing [simp]:
  "io_sent (say txt io) = io_sent io" "io_sent (complain txt io) = io_sent io" "io_sent (io\<lparr>io_out := x\<rparr>) = io_sent io"
  by (simp_all add: io_sent_def say_def complain_def)

lemma io_sent_folded [simp]: "(\<And>x io. io_sent (f x io) = io_sent io) \<Longrightarrow> io_sent (fold f xs io) = io_sent io"
  by (induction xs arbitrary: io) simp_all

lemma io_sent_outcome [simp]: "io_sent (say_outcome width y io) = io_sent io"
  by (simp add: say_outcome_def say_value_def)

definition sends_only :: "message_type set \<Rightarrow> frame list \<Rightarrow> frame list \<Rightarrow> bool" where
  "sends_only ts before after \<longleftrightarrow> (\<exists>fs. after = before @ fs \<and> list_all (\<lambda>f. f_type f \<in> ts) fs)"

lemma sends_only_refl [simp]: "sends_only ts fs fs"
  by (simp add: sends_only_def)

lemma sends_only_trans: "sends_only ts a b \<Longrightarrow> sends_only ts b c \<Longrightarrow> sends_only ts a c"
  by (auto simp: sends_only_def)

lemma channel_send_only: "channel_send (make_frame t payload) ch = (status, ch') \<Longrightarrow> t \<in> ts \<Longrightarrow>
    sends_only ts (ch_sent ch) (ch_sent ch')"
  by (auto simp: channel_send_def send_all_def set_error_def sends_only_def make_frame_def
      split: if_splits sum.splits list.splits bool.splits)

lemma channel_get_sent: "channel_get ch = Some (r, ch') \<Longrightarrow> ch_sent ch' = ch_sent ch"
  by (auto simp: channel_get_def Let_def set_error_def split: if_splits option.splits)

lemma call_sends:
  assumes "call_as t encoded c = Some (y, c')" and "t \<in> ts"
  shows "sends_only ts (ch_sent (cl_channel c)) (ch_sent (cl_channel c'))"
  using assms channel_send_only [OF _ assms(2)] channel_get_sent
  by (fastforce simp: call_as_def client_call_def Let_def set_error_def split: sum.splits if_splits prod.splits option.splits)

definition reading :: "message_type set" where
  "reading = {MT_HELLO, MT_QUERY_STATE, MT_QUERY_AUTHORITY}"

lemma ask_sends: "ask t encoded io = Some (y, io') \<Longrightarrow> t \<in> ts \<Longrightarrow> sends_only ts (io_sent io) (io_sent io')"
  using call_sends by (fastforce simp: ask_def io_sent_def)

lemma greet_sends: "greet io = Some (y, io') \<Longrightarrow> sends_only reading (io_sent io) (io_sent io')"
  using call_sends [of MT_HELLO _ _ _ _ reading]
  by (fastforce simp: greet_def io_sent_def client_hello_def reading_def)

lemma remote_authority_sends:
  "remote_authority q io = Some io' \<Longrightarrow> sends_only reading (io_sent io) (io_sent io')"
  using ask_sends [of MT_QUERY_AUTHORITY _ _ _ _ reading]
  by (fastforce simp: remote_authority_def reading_def say_value_def split: if_splits)

lemma inspect_remotely_sends:
  assumes "inspect_remotely q io = Some (code, io')"
  shows "sends_only reading (io_sent io) (io_sent io')"
proof (cases "op_command q \<in> set remote_commands")
  case True
  then obtain y u where u: "ask MT_QUERY_STATE (encode_query_state (io_limits io)
       \<lparr>qs_model = op_model_id q, qs_version = op_version_id q, qs_scope = 0\<rparr>) io = Some (y, u)"
    "remote_authority q (say_outcome 0 y u) = Some io'"
    using assms by (auto simp: inspect_remotely_def split: option.splits)
  have "sends_only reading (io_sent io) (io_sent u)" by (rule ask_sends [OF u(1)]) (simp add: reading_def)
  moreover have "sends_only reading (io_sent u) (io_sent io')" using remote_authority_sends [OF u(2)] by simp
  ultimately show ?thesis by (rule sends_only_trans)
qed (use assms in \<open>auto simp: inspect_remotely_def\<close>)

lemma io_sent_inspect [simp]: "io_sent (snd (inspect st q io)) = io_sent io"
proof -
  have lines: "io_sent (say_all xs io) = io_sent io" for xs io by (simp add: say_all_def)
  have "io_sent (snd (inspect_state st v io)) = io_sent io" for v
    by (simp add: inspect_state_def lines split: option.split)
  moreover have "io_sent (snd (inspect_authority st path io)) = io_sent io" for path
    by (simp add: inspect_authority_def Let_def split: option.split)
  ultimately show ?thesis by (simp add: inspect_def Let_def lines)
qed

lemma read_only_sends:
  assumes "read_only_command host disk connection q io = Some (code, io')"
    and "io_sent io = []"
  shows "sends_only reading [] (io_sent io')"
proof -
  obtain connected c where c: "client_connect connection (io_client io) = (connected, c)" by fastforce
  have fresh: "io_sent (io\<lparr>io_client := c\<rparr>) = []"
    using c assms(2) by (auto simp: client_connect_def io_sent_def set_error_def open_channel_def closed_channel_def
        split: sum.splits prod.splits)
  have "sends_only reading [] (io_sent io')" if "greet (io\<lparr>io_client := c\<rparr>) = Some (hello, u)"
      "(if \<not> reply_ok hello then Some (1, complain ''handshake refused'' u) else inspect_remotely q u) = Some (code, io')"
    for hello u
    using greet_sends [OF that(1)] inspect_remotely_sends [of q u code io'] that(2) fresh sends_only_trans
    by (auto split: if_splits)
  moreover have "io_sent io' = []" if "inspect st q io = (code, io')" for st
    using io_sent_inspect [of st q io] that assms(2) by simp
  ultimately show ?thesis
    using assms fresh c
    by (auto simp: read_only_command_def Let_def split: if_splits option.splits sum.splits prod.splits)
qed

text \<open>What a coordinator does with such a frame.\<close>

lemma hello_inert:
  assumes "\<not> id_valid (sn_worker (co_sessions co ! i))"
  shows "co_engine (handle_hello i f co) = co_engine co"
  using assms
  by (auto simp: handle_hello_def close_session_def fence_session_def Let_def rejected_frame_def tally_def set_session_def
      split: sum.splits)

lemma answer_inert:
  "(\<And>m. snd (act m) = co_engine co) \<Longrightarrow> co_engine (answer i malformed decoded act co) = co_engine co"
  by (auto simp: answer_def split: sum.split prod.split) (metis snd_conv)

lemma queries_inert: "snd (on_query_state st m) = st" "snd (on_query_authority st n) = st"
  by (simp_all add: on_query_state_def on_query_authority_def Let_def split: option.split)

lemma reading_inert:
  assumes "f_type f \<in> reading" and "\<not> id_valid (sn_worker (co_sessions co ! i))"
  shows "co_engine (handle_frame i f co) = co_engine co"
  using assms hello_inert [of "co\<lparr>co_pending := False\<rparr>" i f]
    answer_inert [of "on_query_state (co_engine co)" "co\<lparr>co_pending := False\<rparr>" i]
    answer_inert [of "on_query_authority (co_engine co)" "co\<lparr>co_pending := False\<rparr>" i]
  by (auto simp: reading_def handle_frame_def dispatch_frame_def Let_def durable_frames_def queries_inert)

text \<open>
  C39 Inspection changes nothing: whatever a command that is not a mutation sends, no coordinator that
  serves the connection changes its engine for it.
\<close>

theorem inspection_changes_nothing:
  assumes "parse_options arguments = Parsed q" and "\<not> is_mutation (op_command q)"
    and "mlf_cli host files disk connection arguments = Some (code, io)"
    and "f \<in> set (io_sent io)" and "\<not> id_valid (sn_worker (co_sessions co ! i))"
  shows "co_engine (handle_frame i f co) = co_engine co"
proof -
  have "io_sent (say banner new_io) = []" by (simp add: new_io_def, simp add: io_sent_def new_client_def closed_channel_def)
  with assms(1-3) have "sends_only reading [] (io_sent io)"
    by (intro read_only_sends [of host disk connection q "say banner new_io" code]) (simp_all add: mlf_cli_def)
  with assms(4) have "f_type f \<in> reading" by (auto simp: sends_only_def list_all_iff)
  then show ?thesis by (rule reading_inert [OF _ assms(5)])
qed

definition sample_arguments :: "string list" where
  "sample_arguments = [''summary'', ''--endpoint'', ''h:7'']"

lemma sample_arguments_parsed:
  "parse_options sample_arguments = Parsed (default_options\<lparr>op_command := ''summary'', op_endpoint := ''h:7''\<rparr>)"
  by (simp add: parse_options_def sample_arguments_def text_options_def default_options_def)

lemma sample_endpoint: "split_endpoint ''h:7'' = Some (''h'', 7)"
  by (simp add: split_endpoint_def parse_u64_def)

lemma hello_without_answer:
  "\<exists>y c f. client_hello 0 0 0 [] (snd (client_connect (Inr ([Peer_Closed], [])) (new_client default_limits))) = Some (y, c) \<and>
     \<not> reply_ok y \<and> ch_sent (cl_channel c) = [f]"
proof -
  let ?c = "snd (client_connect (Inr ([Peer_Closed], [])) (new_client default_limits))"
  have c: "cl_channel ?c = open_channel default_limits [Peer_Closed] []" "cl_limits ?c = default_limits"
    by (simp_all add: client_connect_def new_client_def set_error_def open_channel_def closed_channel_def)
  obtain p where p: "encode_hello default_limits \<lparr>hm_protocol_version = lm_version default_limits, hm_worker = 0,
      hm_boot = 0, hm_epoch = 0, hm_scopes = [], hm_detail = ''client handshake''\<rparr> = Inr p" "length p \<le> 65536"
    by (simp add: encode_hello_def sealed_def put_count_def put_all_def) (simp add: default_limits_def put_str_length)
  have "can_send (make_frame MT_HELLO p) (open_channel default_limits [Peer_Closed] [])"
    using p(2) by (simp add: can_send_def frame_fits_def make_frame_def open_channel_def closed_channel_def)
      (simp add: default_limits_def)
  from channel_send_ok [OF _ this] have sent: "channel_send (make_frame MT_HELLO p) (open_channel default_limits [Peer_Closed] []) =
      (PS_Ok, (open_channel default_limits [Peer_Closed] [])\<lparr>ch_sent := [make_frame MT_HELLO p]\<rparr>)"
    by (simp add: open_channel_def closed_channel_def)
  have "\<not> reply_ok (failed_reply PS_Closed detail)" for detail
    by (simp add: failed_reply_def outcome_for_def reply_add_def new_reply_def reply_ok_def is_positive_def)
  then show ?thesis
    using p(1) sent c closed_by_peer [of "[]"]
    by (simp add: client_hello_def call_as_def client_call_def Let_def channel_get_def del: channel_receive.simps)
       (simp add: open_channel_def closed_channel_def del: channel_receive.simps)
qed

lemma inspection_changes_nothing_witness:
  "\<exists>f. io_sent (snd (the (mlf_cli bare_host (\<lambda>_. None) Map.empty (Inr ([Peer_Closed], [])) sample_arguments))) = [f] \<and>
     co_engine (handle_frame 0 f (sample_served 0)) = co_engine (sample_served 0)"
proof -
  obtain y c f where h: "client_hello 0 0 0 [] (snd (client_connect (Inr ([Peer_Closed], [])) (new_client default_limits))) = Some (y, c)"
     "\<not> reply_ok y" "ch_sent (cl_channel c) = [f]"
    using hello_without_answer by blast
  have "\<exists>io. mlf_cli bare_host (\<lambda>_. None) Map.empty (Inr ([Peer_Closed], [])) sample_arguments = Some (1, io) \<and> io_sent io = [f]"
    using h sample_endpoint
    by (simp add: mlf_cli_def sample_arguments_parsed is_mutation_def mutation_commands_def read_only_command_def
        new_io_def say_def greet_def case_prod_unfold Let_def client_connect_def complain_def io_sent_def default_options_def)
  then obtain io where io: "mlf_cli bare_host (\<lambda>_. None) Map.empty (Inr ([Peer_Closed], [])) sample_arguments = Some (1, io)"
     "io_sent io = [f]" by blast
  have "co_engine (handle_frame 0 f (sample_served 0)) = co_engine (sample_served 0)"
    by (rule inspection_changes_nothing [OF sample_arguments_parsed _ io(1)])
       (simp_all add: io is_mutation_def mutation_commands_def sample_served_def new_session_def id_valid_def)
  then show ?thesis using io by simp
qed

end
