(* ===== verification/Mlf_Main.thy ===== *)
theory Mlf_Main
  imports Mlf_Service Mlf_Worker Mlf_Cli Mlf_Host Mlf_Socket
begin

text \<open>
  The entry points of the two processes, tools/mlf_coordinator/main.cpp and tools/mlf_worker/main.cpp:
  their arguments, what they print, the life of the object they host and the exit code. A process
  that leaves before it starts anything is the value \<open>Leave\<close> of its exit code and its two streams.
\<close>

datatype 'a launched = Leave nat string string | Launch 'a

definition lines_of :: "string list \<Rightarrow> string" where
  "lines_of ls = concat (map (\<lambda>l. l @ newline) ls)"

section \<open>The arguments of the coordinator\<close>

record coordinator_launch =
  la_config :: coordinator_config
  la_bind :: string
  la_port :: u16
  la_poll :: u32
  la_port_file :: string
  la_host_report :: bool

definition default_coordinator :: coordinator_config where
  "default_coordinator = \<lparr>cc_state_path = [], cc_engine = default_config, cc_limits = default_limits,
     cc_persist_on_change = True, cc_refuse_corrupt = True\<rparr>"

definition default_coordinator_launch :: coordinator_launch where
  "default_coordinator_launch = \<lparr>la_config = default_coordinator, la_bind = ''127.0.0.1'', la_port = 0,
     la_poll = 20, la_port_file = [], la_host_report = False\<rparr>"

definition coordinator_usage :: string where
  "coordinator_usage = lines_of [
     ''mlf_coordinator [--bind <addr>] [--port <n>] [--state <path>] [--port-file <path>]'',
     ''                [--poll-ms <n>] [--no-persist] [--allow-corrupt-state]'',
     ''                [--host-report]'']"

definition coordinator_complaint :: "string \<Rightarrow> string" where
  "coordinator_complaint txt = ''mlf_coordinator: '' @ txt @ newline"

fun coordinator_arguments :: "string list \<Rightarrow> coordinator_launch \<Rightarrow> coordinator_launch launched" where
  "coordinator_arguments [] l = Launch l"
| "coordinator_arguments (a # rest) l =
     (if a = ''--help'' \<or> a = ''-h'' then Leave 0 coordinator_usage []
      else if a = ''--no-persist'' then
        coordinator_arguments rest (l\<lparr>la_config := (la_config l)\<lparr>cc_persist_on_change := False\<rparr>\<rparr>)
      else if a = ''--allow-corrupt-state'' then
        coordinator_arguments rest (l\<lparr>la_config := (la_config l)\<lparr>cc_refuse_corrupt := False\<rparr>\<rparr>)
      else if a = ''--host-report'' then coordinator_arguments rest (l\<lparr>la_host_report := True\<rparr>)
      else case rest of
          [] \<Rightarrow> Leave 2 [] (coordinator_complaint (''option '' @ a @ '' requires a value''))
        | v # rest \<Rightarrow>
            if a = ''--bind'' then coordinator_arguments rest (l\<lparr>la_bind := v\<rparr>)
            else if a = ''--port'' then
              (case parse_u64 v of
                 None \<Rightarrow> Leave 2 [] (coordinator_complaint ''--port must be 0..65535'')
               | Some n \<Rightarrow>
                   if 65535 < n then Leave 2 [] (coordinator_complaint ''--port must be 0..65535'')
                   else coordinator_arguments rest (l\<lparr>la_port := ucast n\<rparr>))
            else if a = ''--state'' then
              coordinator_arguments rest (l\<lparr>la_config := (la_config l)\<lparr>cc_state_path := v\<rparr>\<rparr>)
            else if a = ''--port-file'' then coordinator_arguments rest (l\<lparr>la_port_file := v\<rparr>)
            else if a = ''--poll-ms'' then
              (case parse_u64 v of
                 None \<Rightarrow> Leave 2 [] []
               | Some n \<Rightarrow> coordinator_arguments rest (l\<lparr>la_poll := ucast n\<rparr>))
            else Leave 2 coordinator_usage (coordinator_complaint (''unknown option '' @ a)))"

section \<open>The life of the coordinator process\<close>

text \<open>Opening the listener, and making it non-blocking: what \<open>start\<close> takes as its two inputs.\<close>

definition bind_listener :: "'os socket_calls \<Rightarrow> string \<Rightarrow> u16 \<Rightarrow> 'os \<Rightarrow> ((string + u16) \<times> u64) \<times> 'os" where
  "bind_listener k address port os =
     (case listen_on k address port 64 kInvalidHandle os of
        ((status, e, listener), os) \<Rightarrow>
          ((if status = PS_Ok then Inr (local_port k listener os) else Inl e, listener), os))"

definition unblock_listener :: "'os socket_calls \<Rightarrow> u64 \<Rightarrow> 'os \<Rightarrow> string option \<times> 'os" where
  "unblock_listener k listener os =
     (case set_blocking k False listener os of
        ((status, e), os) \<Rightarrow> (if status = PS_Ok then None else Some e, os))"

text \<open>Starting on a system: the listener is opened only after the recovery succeeded.\<close>

definition start_on :: "'os socket_calls \<Rightarrow> string \<Rightarrow> u16 \<Rightarrow> coordinator \<Rightarrow> 'os \<Rightarrow>
    (string option \<times> coordinator \<times> u64) \<times> 'os" where
  "start_on k address port co os =
     (case recover co of
        Inl _ \<Rightarrow> (case start (Inl []) None co of (e, co) \<Rightarrow> ((e, co, kInvalidHandle), os))
      | Inr _ \<Rightarrow>
          (case bind_listener k address port os of
             ((Inl failure, listener), os) \<Rightarrow>
               (case start (Inl failure) None co of (e, co) \<Rightarrow> ((e, co, listener), os))
           | ((Inr bound, listener), os) \<Rightarrow>
               (case unblock_listener k listener os of
                  (blocked, os) \<Rightarrow>
                    (case start (Inr bound) blocked co of (e, co) \<Rightarrow> ((e, co, listener), os)))))"

text \<open>The interval of a poll, as seconds and microseconds of a \<open>timeval\<close>.\<close>

definition poll_timeval :: "u32 \<Rightarrow> int \<times> int" where
  "poll_timeval millis = (sint millis sdiv 1000, sint millis smod 1000 * 1000)"

text \<open>After the start: polls until one fails or the process is asked to stop, and then the last save.\<close>

definition serve_process :: "poll_input option list \<Rightarrow> coordinator \<Rightarrow> nat \<times> string \<times> coordinator" where
  "serve_process inputs co =
     (case run inputs co of
        (Some (c # cs), co) \<Rightarrow> (1, coordinator_complaint (c # cs), stop co)
      | (_, co) \<Rightarrow> (0, [], stop (snd (persist co))))"

definition write_port :: "string \<Rightarrow> bool \<Rightarrow> coordinator \<Rightarrow> coordinator" where
  "write_port path can_open co =
     (if path = [] \<or> \<not> can_open then co
      else co\<lparr>co_world := (co_world co)\<lparr>w_disk := (w_disk (co_world co))
        (path \<mapsto> map (\<lambda>c. of_char c) (show_nat (unat (co_port co))))\<rparr>\<rparr>)"

definition listening_line :: "string \<Rightarrow> coordinator \<Rightarrow> string" where
  "listening_line address co = ''mlf_coordinator listening on '' @ address @ '':'' @ show_nat (unat (co_port co)) @
     '' epoch='' @ show_u64 (st_epoch (co_engine co)) @ newline"

record 'os ended =
  en_code :: nat
  en_out :: string
  en_err :: string
  en_coordinator :: coordinator
  en_os :: 'os

text \<open>\<open>answers\<close> is what \<open>select\<close> gives poll after poll for an interval, \<open>port_opens\<close> whether the port file can be written.\<close>

definition coordinator_process ::
  "host_calls \<Rightarrow> 'os socket_calls \<Rightarrow> (int \<times> int \<Rightarrow> poll_input option list) \<Rightarrow> bool \<Rightarrow> world \<Rightarrow>
   coordinator_launch \<Rightarrow> 'os \<Rightarrow> 'os ended" where
  "coordinator_process h k answers port_opens w l os =
     (let report = (if la_host_report l then render_host_environment (discover_host_environment h) else []) in
      case start_on k (la_bind l) (la_port l) (new_coordinator (la_config l) w) os of
        ((Some e, co, listener), os) \<Rightarrow>
          \<lparr>en_code = 1, en_out = report, en_err = coordinator_complaint e, en_coordinator = stop co,
           en_os = snd (socket_close k listener os)\<rparr>
      | ((None, co, listener), os) \<Rightarrow>
          let co = write_port (la_port_file l) port_opens co in
          case serve_process (answers (poll_timeval (la_poll l))) co of
            (code, err, co') \<Rightarrow>
              \<lparr>en_code = code, en_out = report @ listening_line (la_bind l) co, en_err = err,
               en_coordinator = co', en_os = snd (socket_close k listener os)\<rparr>)"

definition coordinator_main ::
  "host_calls \<Rightarrow> 'os socket_calls \<Rightarrow> (int \<times> int \<Rightarrow> poll_input option list) \<Rightarrow> bool \<Rightarrow> world \<Rightarrow>
   string list \<Rightarrow> 'os \<Rightarrow> (nat \<times> string \<times> string) + 'os ended" where
  "coordinator_main h k answers port_opens w arguments os =
     (case coordinator_arguments arguments default_coordinator_launch of
        Leave code out err \<Rightarrow> Inl (code, out, err)
      | Launch l \<Rightarrow> Inr (coordinator_process h k answers port_opens w l os))"

section \<open>The arguments of the worker\<close>

record worker_launch =
  lw_host :: string
  lw_port :: u16
  lw_config :: worker_config

definition default_worker_launch :: worker_launch where
  "default_worker_launch = \<lparr>lw_host = ''127.0.0.1'', lw_port = 0,
     lw_config = \<lparr>wf_worker_id = 0, wf_scopes = [], wf_limits = default_limits, wf_die_on_activate = False,
       wf_unconfirmed_completions = False, wf_connect_attempts = 1\<rparr>\<rparr>"

definition worker_usage :: string where
  "worker_usage = lines_of [
     ''mlf_worker --host <addr> --port <n> [--worker-id <id>] [--scopes <n,n,...>]'',
     ''           [--die-on-activate] [--unconfirmed-completions]'',
     '''',
     ''  --die-on-activate            apply an activation effect, then terminate this'',
     ''                               process before acknowledging it. Used to prove'',
     ''                               ambiguous completion with real process death.'',
     ''  --unconfirmed-completions    never confirm a completion this worker sends.'']"

definition worker_complaint :: "string \<Rightarrow> string" where
  "worker_complaint txt = ''mlf_worker: '' @ txt @ newline"

text \<open>The next comma at or after a position, or the length of the text if there is none.\<close>

definition comma_from :: "nat \<Rightarrow> string \<Rightarrow> nat" where
  "comma_from pos input = pos + length (takeWhile (\<lambda>c. c \<noteq> CHR '','') (drop pos input))"

text \<open>The scan of a scope list: a field that is no positive number is passed over.\<close>

function scan_scopes :: "string \<Rightarrow> nat \<Rightarrow> u64 list \<Rightarrow> u64 list" where
  "scan_scopes input pos scopes =
     (if length input < pos then scopes
      else
        let until = comma_from pos input;
            scopes = (if pos < until then
                case parse_u64 (take (until - pos) (drop pos input)) of
                  None \<Rightarrow> scopes
                | Some scope \<Rightarrow> if scope \<noteq> 0 then scopes @ [scope] else scopes
              else scopes) in
        if length input \<le> until then scopes else scan_scopes input (until + 1) scopes)"
  by pat_completeness auto
termination
  by (relation "measure (\<lambda>(input, pos, scopes). length input + 1 - pos)") (auto simp: comma_from_def)

declare scan_scopes.simps [simp del]

fun worker_arguments :: "string list \<Rightarrow> worker_launch \<Rightarrow> worker_launch launched" where
  "worker_arguments [] l = Launch l"
| "worker_arguments (a # rest) l =
     (if a = ''--help'' \<or> a = ''-h'' then Leave 0 worker_usage []
      else if a = ''--die-on-activate'' then
        worker_arguments rest (l\<lparr>lw_config := (lw_config l)\<lparr>wf_die_on_activate := True\<rparr>\<rparr>)
      else if a = ''--unconfirmed-completions'' then
        worker_arguments rest (l\<lparr>lw_config := (lw_config l)\<lparr>wf_unconfirmed_completions := True\<rparr>\<rparr>)
      else case rest of
          [] \<Rightarrow> Leave 2 [] (worker_complaint (''option '' @ a @ '' requires a value''))
        | v # rest \<Rightarrow>
            if a = ''--host'' then worker_arguments rest (l\<lparr>lw_host := v\<rparr>)
            else if a = ''--port'' then
              (case parse_u64 v of
                 None \<Rightarrow> Leave 2 [] (worker_complaint ''--port must be 1..65535'')
               | Some n \<Rightarrow>
                   if n = 0 \<or> 65535 < n then Leave 2 [] (worker_complaint ''--port must be 1..65535'')
                   else worker_arguments rest (l\<lparr>lw_port := ucast n\<rparr>))
            else if a = ''--worker-id'' then
              (case parse_u64 v of
                 None \<Rightarrow> Leave 2 [] (worker_complaint ''--worker-id must be a positive integer'')
               | Some n \<Rightarrow>
                   if n = 0 then Leave 2 [] (worker_complaint ''--worker-id must be a positive integer'')
                   else worker_arguments rest (l\<lparr>lw_config := (lw_config l)\<lparr>wf_worker_id := n\<rparr>\<rparr>))
            else if a = ''--scopes'' then
              worker_arguments rest (l\<lparr>lw_config := (lw_config l)\<lparr>wf_scopes := scan_scopes v 0 (wf_scopes (lw_config l))\<rparr>\<rparr>)
            else Leave 2 worker_usage (worker_complaint (''unknown option '' @ a)))"

text \<open>After the arguments: the port is required, and the process names the worker that has no name.\<close>

definition launch_worker :: "u64 \<Rightarrow> string list \<Rightarrow> worker_launch launched" where
  "launch_worker process arguments =
     (case worker_arguments arguments default_worker_launch of
        Leave code out err \<Rightarrow> Leave code out err
      | Launch l \<Rightarrow>
          if lw_port l = 0 then Leave 2 [] (worker_complaint ''--port is required'')
          else if id_valid (wf_worker_id (lw_config l)) then Launch l
          else Launch (l\<lparr>lw_config := (lw_config l)\<lparr>wf_worker_id := process\<rparr>\<rparr>))"

section \<open>The life of the worker process\<close>

text \<open>Each frame is served with an empty error text.\<close>

definition without_error :: "worker \<Rightarrow> worker" where
  "without_error w = w\<lparr>wk_channel := set_error [] (wk_channel w)\<rparr>"

partial_function (option) worker_loop :: "worker \<Rightarrow> ((nat \<times> string) \<times> worker) option" where
  "worker_loop w =
     (case serve_one (without_error w) of
        None \<Rightarrow> None
      | Some (Exited code, w) \<Rightarrow> Some ((code, []), w)
      | Some (Served ok, w) \<Rightarrow>
          if ok then worker_loop w
          else if ch_error (wk_channel w) \<noteq> [] then
            Some ((1, worker_complaint (ch_error (wk_channel w))), wk_stop w)
          else Some ((0, []), wk_stop w))"

definition worker_process ::
  "u64 \<Rightarrow> (string + recv_event list \<times> bool list) list \<Rightarrow> worker_launch \<Rightarrow> ((nat \<times> string) \<times> worker) option" where
  "worker_process boot outcomes l =
     (case wk_start outcomes (new_worker (lw_config l) boot) of
        None \<Rightarrow> None
      | Some (False, w) \<Rightarrow> Some ((1, worker_complaint (ch_error (wk_channel w))), wk_stop w)
      | Some (True, w) \<Rightarrow> worker_loop w)"

section \<open>What the arguments give\<close>

text \<open>The fields between the commas of a text.\<close>

fun fields_of :: "string \<Rightarrow> string list" where
  "fields_of [] = [[]]"
| "fields_of (c # cs) = (if c = CHR '','' then [] # fields_of cs else (c # hd (fields_of cs)) # tl (fields_of cs))"

definition positive_number :: "string \<Rightarrow> u64 option" where
  "positive_number txt = (case parse_u64 txt of None \<Rightarrow> None | Some n \<Rightarrow> if n = 0 then None else Some n)"

lemma fields_of_parts:
  "fields_of s = takeWhile (\<lambda>c. c \<noteq> CHR '','') s #
     (case dropWhile (\<lambda>c. c \<noteq> CHR '','') s of [] \<Rightarrow> [] | _ # rest \<Rightarrow> fields_of rest)"
  by (induction s) (auto split: list.splits)

lemma positive_number_Nil [simp]: "positive_number [] = None"
  by (simp add: positive_number_def parse_u64_def)

text \<open>The scan with its positions reads the positive numbers among the fields, in order.\<close>

lemma scan_scopes_fields:
  "pos \<le> length input \<Longrightarrow>
   scan_scopes input pos scopes = scopes @ List.map_filter positive_number (fields_of (drop pos input))"
proof (induction input pos scopes rule: scan_scopes.induct)
  case (1 input pos scopes)
  let ?s = "drop pos input" and ?until = "comma_from pos input"
  let ?field = "takeWhile (\<lambda>c. c \<noteq> CHR '','') ?s"
  let ?scopes = "scopes @ (case positive_number ?field of None \<Rightarrow> [] | Some n \<Rightarrow> [n])"
  have field: "take (?until - pos) ?s = ?field"
    by (simp add: comma_from_def takeWhile_eq_take [symmetric])
  have empty: "\<not> pos < ?until \<Longrightarrow> ?field = []" by (simp add: comma_from_def)
  have step: "(if pos < ?until then case parse_u64 (take (?until - pos) ?s) of None \<Rightarrow> scopes
      | Some scope \<Rightarrow> if scope \<noteq> 0 then scopes @ [scope] else scopes else scopes) = ?scopes"
    unfolding field using empty by (auto simp: positive_number_def parse_u64_def split: option.splits)
  show ?case
  proof (cases "length input \<le> ?until")
    case True
    then have "length ?s \<le> length ?field" by (simp add: comma_from_def)
    then have none: "dropWhile (\<lambda>c. c \<noteq> CHR '','') ?s = []" by (simp only: dropWhile_eq_drop) simp
    have "fields_of ?s = [?field]" by (subst fields_of_parts) (simp only: none list.case)
    moreover have "scan_scopes input pos scopes = ?scopes"
      using "1.prems" True step by (subst scan_scopes.simps) (simp add: Let_def)
    ultimately show ?thesis by (simp add: List.map_filter_simps split: option.split)
  next
    case False
    then have "dropWhile (\<lambda>c. c \<noteq> CHR '','') ?s \<noteq> []"
      by (simp add: dropWhile_eq_drop comma_from_def)
    then obtain c where rest: "dropWhile (\<lambda>c. c \<noteq> CHR '','') ?s = c # drop (?until + 1) input"
      by (cases "dropWhile (\<lambda>c. c \<noteq> CHR '','') ?s")
         (auto simp: dropWhile_eq_drop comma_from_def drop_Suc tl_drop add.commute dest: arg_cong [of _ _ tl])
    have IH: "scan_scopes input (?until + 1) ?scopes =
        ?scopes @ List.map_filter positive_number (fields_of (drop (?until + 1) input))"
      using False "1.prems" by (intro "1.IH" [OF _ refl step [symmetric]]) simp_all
    have "scan_scopes input pos scopes = scan_scopes input (?until + 1) ?scopes"
      using False "1.prems" step by (subst scan_scopes.simps) (simp add: Let_def)
    then show ?thesis
      unfolding IH by (subst fields_of_parts) (simp add: rest List.map_filter_simps split: option.split)
  qed
qed

text \<open>A worker that is launched has a port, a name, and no scope 0.\<close>

lemma positive_numbers: "0 \<notin> set (List.map_filter positive_number fs)"
  by (induction fs) (auto simp: List.map_filter_simps positive_number_def split: option.splits)

lemma worker_arguments_step:
  assumes "worker_arguments (a # rest) l = Launch l'"
  obtains others l1 where "length others \<le> length rest" and "worker_arguments others l1 = Launch l'"
    and "0 \<notin> set (wf_scopes (lw_config l)) \<Longrightarrow> 0 \<notin> set (wf_scopes (lw_config l1))"
proof -
  note found = that
  show thesis
  proof (cases rest)
    case Nil
    then show thesis using assms by (intro found [of "[]" l']) (auto split: if_splits)
  next
    case (Cons v others)
    consider "a = ''--die-on-activate''" | "a = ''--unconfirmed-completions''"
      | "a \<noteq> ''--die-on-activate''" "a \<noteq> ''--unconfirmed-completions''" by blast
    then show thesis
    proof cases
      case 1
      then show thesis using assms
        by (intro found [of rest "l\<lparr>lw_config := (lw_config l)\<lparr>wf_die_on_activate := True\<rparr>\<rparr>"]) simp_all
    next
      case 2
      then show thesis using assms
        by (intro found [of rest "l\<lparr>lw_config := (lw_config l)\<lparr>wf_unconfirmed_completions := True\<rparr>\<rparr>"]) simp_all
    next
      case 3
      then obtain l1 where "worker_arguments others l1 = Launch l'"
          "wf_scopes (lw_config l1) = wf_scopes (lw_config l) \<or>
           wf_scopes (lw_config l1) = scan_scopes v 0 (wf_scopes (lw_config l))"
        using assms Cons by (auto split: if_splits option.splits)
      then show thesis using Cons by (intro found [of others l1]) (auto simp: scan_scopes_fields positive_numbers)
    qed
  qed
qed

lemma worker_arguments_sound:
  "worker_arguments arguments l = Launch l' \<Longrightarrow> 0 \<notin> set (wf_scopes (lw_config l)) \<Longrightarrow>
   0 \<notin> set (wf_scopes (lw_config l'))"
proof (induction "length arguments" arbitrary: arguments l rule: less_induct)
  case less
  show ?case
  proof (cases arguments)
    case (Cons a rest)
    obtain others l1 where "length others \<le> length rest" "worker_arguments others l1 = Launch l'"
      "0 \<notin> set (wf_scopes (lw_config l1))"
      using worker_arguments_step [of a rest l l'] less.prems Cons by metis
    then show ?thesis using less.hyps [of others l1] Cons by simp
  qed (use less.prems in simp)
qed

lemma launched_worker:
  assumes "launch_worker process arguments = Launch l" and "process \<noteq> 0"
  shows "lw_port l \<noteq> 0 \<and> wf_worker_id (lw_config l) \<noteq> 0 \<and> 0 \<notin> set (wf_scopes (lw_config l))"
proof -
  obtain l0 where l0: "worker_arguments arguments default_worker_launch = Launch l0"
    using assms(1) by (auto simp: launch_worker_def split: launched.splits)
  have "0 \<notin> set (wf_scopes (lw_config l0))"
    by (rule worker_arguments_sound [OF l0]) (simp add: default_worker_launch_def)
  then show ?thesis using assms l0 by (auto simp: launch_worker_def id_valid_def split: if_splits)
qed

section \<open>The end of the coordinator process\<close>

text \<open>An interval whose 32 bits are a negative number is a negative \<open>timeval\<close>.\<close>

lemma negative_interval:
  assumes "sint millis < 0"
  shows "fst (poll_timeval millis) < 0 \<or> snd (poll_timeval millis) < 0"
proof (rule ccontr)
  let ?n = "sint millis"
  assume "\<not> ?thesis"
  then have "0 \<le> ?n sdiv 1000" "0 \<le> ?n smod 1000" by (simp_all add: poll_timeval_def)
  then have "0 \<le> ?n sdiv 1000 * 1000 + ?n smod 1000" by simp
  then show False using assms sdiv_mult_smod_eq [of ?n 1000] by simp
qed

text \<open>
  With such an interval, which \<open>--poll-ms\<close> accepts because it casts any number to an \<open>int\<close>, the
  documented failure of \<open>select\<close> ends the process at its first poll.
\<close>

lemma negative_interval_ends_process:
  assumes "start_on k (la_bind l) (la_port l) (new_coordinator (la_config l) w) os = ((None, co, listener), os')"
    and "sint (la_poll l) < 0" and "\<And>tv. fst tv < 0 \<or> snd tv < 0 \<Longrightarrow> \<exists>later. answers tv = None # later"
  shows "en_code (coordinator_process h k answers port_opens w l os) = 1 \<and>
    en_err (coordinator_process h k answers port_opens w l os) = coordinator_complaint ''select() failed''"
proof -
  obtain later where "answers (poll_timeval (la_poll l)) = None # later"
    using assms(3) negative_interval [OF assms(2)] by blast
  moreover have "co_running (write_port path can_open co)" for path can_open
    using assms(1)
    by (auto simp: start_on_def start_def write_port_def Let_def new_coordinator_def
        split: sum.splits prod.splits option.splits)
  ultimately show ?thesis
    by (simp add: coordinator_process_def assms(1) Let_def serve_process_def poll_once_def)
qed

lemma poll_argument_wraps:
  "coordinator_arguments [''--poll-ms'', ''4294967295''] l = Launch (l\<lparr>la_poll := -1\<rparr>)"
  by (simp add: parse_u64_def)

text \<open>Neither the start nor the end of the process leaves the listener open.\<close>

lemma bind_listener_accounts:
  "descriptor_laws k fds \<Longrightarrow> bind_listener k address port os = ((bound, listener), os') \<Longrightarrow>
   fds os' = fds os \<union> owned listener \<and> owned listener \<inter> fds os = {}"
  using listen_on_accounts [of k fds kInvalidHandle os address port 64]
  by (auto simp: bind_listener_def accounts_def owned_def split: prod.splits if_splits)

lemma unblock_listener_keeps:
  "(\<And>fd flags os. fds (snd (so_set_flags k fd flags os)) = fds os) \<Longrightarrow>
   unblock_listener k listener os = (blocked, os') \<Longrightarrow> fds os' = fds os"
  by (auto simp: unblock_listener_def set_blocking_def Let_def split: prod.splits if_splits bool.splits)
     (metis snd_conv)+

lemma start_on_accounts:
  assumes "descriptor_laws k fds" and "\<And>fd flags os. fds (snd (so_set_flags k fd flags os)) = fds os"
    and "start_on k address port co os = ((e, co', listener), os')"
  shows "fds os' = fds os \<union> owned listener \<and> owned listener \<inter> fds os = {}"
  using assms(3) bind_listener_accounts [OF assms(1)] unblock_listener_keeps [of fds, OF assms(2)]
  by (fastforce simp: start_on_def owned_def split: sum.splits prod.splits)

lemma process_leaves_no_listener:
  assumes "descriptor_laws k fds" and "\<And>fd flags os. fds (snd (so_set_flags k fd flags os)) = fds os"
  shows "fds (en_os (coordinator_process h k answers port_opens w l os)) = fds os"
proof -
  obtain e co listener os' where s: "start_on k (la_bind l) (la_port l) (new_coordinator (la_config l) w) os = ((e, co, listener), os')"
    by (metis surj_pair)
  have "fds (snd (socket_close k listener os')) = fds os"
    using closes [OF assms(1), of listener os'] start_on_accounts [OF assms s] by auto
  then show ?thesis by (cases e) (simp_all add: coordinator_process_def s Let_def case_prod_unfold)
qed

text \<open>
  C32
  The exit code of a coordinator that served. It is 0 exactly when no poll failed; then the state
  file is current if the last save succeeded, but that save is not checked, and when it fails the
  code is 0 all the same. When a poll failed the code is 1 and nothing is saved at all.
\<close>

theorem exit_code_ignores_last_save:
  assumes "cc_state_path (co_config co1) \<noteq> []" and "run inputs co = (e, co1)"
  shows "case serve_process inputs co of (code, err, co2) \<Rightarrow>
    code = (if e = None \<or> e = Some [] then 0 else 1) \<and>
    (if code = 0 then w_disk (co_world co2) = w_disk (co_world (snd (persist co1))) \<and>
       (fst (persist co1) = None \<longrightarrow> file_is_current co2)
     else w_disk (co_world co2) = w_disk (co_world co1))"
proof -
  have stopped: "w_disk (co_world (stop co)) = w_disk (co_world co)" "file_is_current (stop co) = file_is_current co" for co
    by (simp_all add: stop_def file_is_current_def)
  have "file_is_current (snd (persist co1))" if "fst (persist co1) = None"
    using persist_current [of co1 "snd (persist co1)"] that assms(1) by (simp add: prod_eq_iff)
  then show ?thesis
    by (auto simp: serve_process_def assms(2) stopped split: option.split list.split)
qed

text \<open>A coordinator whose disk refuses to be written: the process ends with code 0 and leaves no file.\<close>

definition full_world :: world where
  "full_world = empty_world\<lparr>w_faults := [no_faults\<lparr>df_open := True\<rparr>]\<rparr>"

lemma exit_code_ignores_last_save_witness:
  "case serve_process [] (new_coordinator sample_service full_world) of (code, err, co2) \<Rightarrow>
     code = 0 \<and> w_disk (co_world co2) ''s'' = None"
proof -
  let ?co = "new_coordinator sample_service full_world"
  have "run [] ?co = (None, ?co)" by simp
  moreover have "cc_state_path (co_config ?co) \<noteq> []" by (simp add: new_coordinator_def sample_service_def)
  ultimately have "case serve_process [] ?co of (code, err, co2) \<Rightarrow>
      code = 0 \<and> w_disk (co_world co2) = w_disk (co_world (snd (persist ?co)))"
    using exit_code_ignores_last_save [of ?co "[]" ?co None] by (auto split: if_splits)
  moreover have "w_disk (co_world (snd (persist ?co))) ''s'' = None"
    by (simp add: persist_def new_coordinator_def sample_service_def full_world_def empty_world_def next_fault_def
        save_durable_state_def no_faults_def Let_def split: sum.split)
  ultimately show ?thesis by (auto split: prod.splits)
qed

section \<open>The end of the worker process\<close>

text \<open>
  C36
  A fenced worker leaves with an error. Served a fence of its own boot, the worker acknowledges it
  and stops voluntarily, and the loop of the library ends with success; the loop of the process does
  not look at that, serves the closed connection once more and exits with code 1.
\<close>

theorem fenced_worker_exits_with_error:
  assumes "at_rest (wk_channel w)" and "ch_error (wk_channel w) = []" and "\<not> wk_stopping w"
    and "ch_events (wk_channel w) = map Received cs"
    and "concat cs = frame_bytes (make_frame MT_FENCE out) default_limits"
    and "encode_fence default_limits m = Inr out" and "fence_fits default_limits m"
    and "wk_limits w = default_limits"
    and "fm_worker m = wf_worker_id (wk_config w)" and "fm_boot m = wk_boot w"
    and "encode_reply default_limits (reply_set ''fenced'' ''yes'' (new_reply OC_Accepted)) = Inr payload"
    and "can_send (make_frame MT_REPLY payload) (wk_channel w)"
  shows "(\<exists>w'. wk_run w = Some (Served True, w')) \<and>
    (\<exists>w'. worker_loop w = Some ((1, worker_complaint ''worker is not connected''), w'))"
proof -
  let ?f = "make_frame MT_FENCE out"
  have "frame_fits default_limits ?f"
    using assms(6) by (auto simp: frame_fits_def make_frame_def encode_fence_def sealed_eq default_limits_def)
  from channel_get_frame [OF assms(1) this assms(4,5)] obtain d events where
    got: "wk_receive w = Some (Inr ?f, w\<lparr>wk_channel := (wk_channel w)\<lparr>ch_decoder := d, ch_events := events\<rparr>\<rparr>)"
    by (auto simp: wk_receive_def)
  have decoded: "decode_fence default_limits out = Inr m" by (rule fence_roundtrip [OF assms(6,7)])
  have opened: "ch_open (wk_channel w)" using assms(1) by (simp add: at_rest_def)
  obtain w1 where one: "serve_one w = Some (Served True, w1)" "wk_stopping w1" "\<not> ch_open (wk_channel w1)"
  proof -
    define v where "v = wk_tally (\<lambda>t. t\<lparr>wt_replies_sent := wt_replies_sent t + 1\<rparr>)
      (wk_tally (\<lambda>t. t\<lparr>wt_frames_received := wt_frames_received t + 1\<rparr>)
        (w\<lparr>wk_channel := (wk_channel w)\<lparr>ch_decoder := d, ch_events := events\<rparr>\<rparr>))"
    have v: "wk_config v = wk_config w" "wk_boot v = wk_boot w" "ch_open (wk_channel v)"
        "can_send (make_frame MT_REPLY payload) (wk_channel v)"
      using opened assms(12) by (simp_all add: v_def wk_tally_def can_send_def)
    obtain u where u: "wk_send_frame MT_REPLY payload v = (True, u)"
      using channel_send_ok [OF v(3,4)] by (simp add: wk_send_frame_def Let_def)
    have "serve_one w = Some (Served True, u\<lparr>wk_stopping := True, wk_channel := channel_close (wk_channel u)\<rparr>)"
      using opened got decoded assms(8-11) u v_def
      by (simp add: serve_one_def wk_handle_frame_def command_frames_def wk_handle_fence_def wk_send_reply_def
          served_def make_frame_def wk_tally_def Let_def)
    then show thesis by (rule that) (simp_all add: channel_close_def)
  qed
  have "without_error w = w"
    using assms(2) by (simp add: without_error_def set_error_def)
  moreover have "serve_one (without_error w1) = Some (Served False,
      (without_error w1)\<lparr>wk_channel := set_error ''worker is not connected'' (wk_channel (without_error w1))\<rparr>)"
    using one(3) by (simp add: serve_one_def served_def wk_fail_def without_error_def set_error_def)
  ultimately have "\<exists>w'. worker_loop w = Some ((1, worker_complaint ''worker is not connected''), w')"
    by (subst worker_loop.simps, simp add: one, subst worker_loop.simps) (simp add: set_error_def)
  moreover have "wk_run w = Some (Served True, w1)"
    by (subst wk_run.simps, simp add: assms(3) one, subst wk_run.simps) (simp add: one)
  ultimately show ?thesis by blast
qed

lemma fenced_worker_exits_with_error_witness:
  "\<exists>w w'. wk_boot w = 9 \<and> wf_worker_id (wk_config w) = 7 \<and>
     worker_loop w = Some ((1, worker_complaint ''worker is not connected''), w')"
proof -
  let ?m = "\<lparr>fm_worker = 7, fm_boot = 9, fm_reason = ''lost''\<rparr>"
  obtain out where out: "encode_fence default_limits ?m = Inr out"
    by (simp add: encode_fence_def sealed_def put_str_length) (simp add: default_limits_def)
  obtain payload where payload: "encode_reply default_limits (reply_set ''fenced'' ''yes'' (new_reply OC_Accepted)) = Inr payload"
      "length payload \<le> 65536"
    by (simp add: encode_reply_def reply_set_def new_reply_def sealed_def put_count_def put_all_def put_entry_def put_str_length)
       (simp add: default_limits_def sealed_def put_count_def put_all_def put_entry_def put_str_length)
  let ?w = "(new_worker sample_worker_config 9)\<lparr>wk_channel :=
      open_channel default_limits [Received (frame_bytes (make_frame MT_FENCE out) default_limits)] []\<rparr>"
  have "\<exists>w'. worker_loop ?w = Some ((1, worker_complaint ''worker is not connected''), w')"
  proof (rule conjunct2 [OF fenced_worker_exits_with_error [OF _ _ _ _ _ out _ _ _ _ payload(1)]])
    show "can_send (make_frame MT_REPLY payload) (wk_channel ?w)"
      using payload(2) by (simp add: can_send_def frame_fits_def make_frame_def default_limits_def open_channel_def closed_channel_def)
    show "ch_events (wk_channel ?w) = map Received [frame_bytes (make_frame MT_FENCE out) default_limits]"
      by (simp add: open_channel_def)
    show "at_rest (wk_channel ?w)" by simp
    show "fence_fits default_limits ?m" by (simp add: fence_fits_def str_fits_def default_limits_def)
  qed (simp_all add: new_worker_def sample_worker_config_def open_channel_def closed_channel_def)
  moreover have "wk_boot ?w = 9 \<and> wf_worker_id (wk_config ?w) = 7"
    by (simp add: new_worker_def sample_worker_config_def)
  ultimately show ?thesis by blast
qed

end
