(* ===== verification/Mlf_Runs.thy ===== *)
theory Mlf_Runs
  imports Mlf_Main
begin

text \<open>
  The processes seen as runs of the objects they host. Each phase of the coordinator process is a step
  of the state machine of \<open>Mlf_Service\<close>, and the worker process moves its backend by operations of
  the backend only, so what holds of the runs holds when a process ends.
\<close>

section \<open>The configuration\<close>

text \<open>No argument changes the configuration of the engine.\<close>

lemma coordinator_arguments_step:
  assumes "coordinator_arguments (a # rest) l = Launch l'"
  obtains others l1 where "length others \<le> length rest" and "coordinator_arguments others l1 = Launch l'"
    and "cc_engine (la_config l1) = cc_engine (la_config l)"
proof -
  note found = that
  show thesis
  proof (cases rest)
    case Nil
    then show thesis using assms by (intro found [of "[]" l']) (auto split: if_splits)
  next
    case (Cons v others)
    consider "a = ''--no-persist''" | "a = ''--allow-corrupt-state''" | "a = ''--host-report''"
      | "a \<noteq> ''--no-persist''" "a \<noteq> ''--allow-corrupt-state''" "a \<noteq> ''--host-report''" by blast
    then show thesis
    proof cases
      case 1
      then show thesis using assms
        by (intro found [of rest "l\<lparr>la_config := (la_config l)\<lparr>cc_persist_on_change := False\<rparr>\<rparr>"]) simp_all
    next
      case 2
      then show thesis using assms
        by (intro found [of rest "l\<lparr>la_config := (la_config l)\<lparr>cc_refuse_corrupt := False\<rparr>\<rparr>"]) simp_all
    next
      case 3
      then show thesis using assms by (intro found [of rest "l\<lparr>la_host_report := True\<rparr>"]) simp_all
    next
      case 4
      then obtain l1 where "coordinator_arguments others l1 = Launch l'"
          "cc_engine (la_config l1) = cc_engine (la_config l)"
        using assms Cons by (auto split: if_splits option.splits)
      then show thesis using Cons by (intro found [of others l1]) auto
    qed
  qed
qed

lemma coordinator_arguments_engine:
  "coordinator_arguments arguments l = Launch l' \<Longrightarrow> cc_engine (la_config l') = cc_engine (la_config l)"
proof (induction "length arguments" arbitrary: arguments l rule: less_induct)
  case less
  show ?case
  proof (cases arguments)
    case (Cons a rest)
    obtain others l1 where "length others \<le> length rest" "coordinator_arguments others l1 = Launch l'"
      "cc_engine (la_config l1) = cc_engine (la_config l)"
      using coordinator_arguments_step [of a rest l l'] less.prems Cons by metis
    then show ?thesis using less.hyps [of others l1] Cons by simp
  qed (use less.prems in simp)
qed

section \<open>The phases of the process\<close>

lemma run_reachable: "co_reachable config co \<Longrightarrow> co_reachable config (snd (run inputs co))"
proof (induction inputs co rule: run.induct)
  case (2 input inputs co)
  have polled: "co_reachable config (snd (poll_once input co))" by (rule co_reachable.polled [OF "2.prems"])
  show ?case
  proof (cases "co_running co")
    case True
    obtain e co1 where poll: "poll_once input co = (e, co1)" by fastforce
    show ?thesis using True poll polled "2.IH" [OF _ poll [symmetric]] by (cases e) auto
  qed (use "2.prems" in simp)
qed simp

lemma start_on_reachable:
  assumes "co_reachable config co" and "start_on k address port co os = ((e, co', listener), os')"
  shows "co_reachable config co'"
proof -
  have "\<exists>bind unblock. co' = snd (start bind unblock co)"
    using assms(2) by (auto simp: start_on_def split: sum.splits prod.splits) (metis snd_conv)+
  then show ?thesis using co_reachable.started [OF assms(1)] by auto
qed

lemma write_port_reachable: "co_reachable config co \<Longrightarrow> co_reachable config (write_port path can_open co)"
  unfolding write_port_def by (auto intro: co_reachable.environment)

lemma serve_process_reachable:
  assumes "co_reachable config co" and "serve_process inputs co = (code, err, co')"
  shows "co_reachable config co'"
proof -
  obtain e co1 where r: "run inputs co = (e, co1)" by fastforce
  have "co_reachable config co1" using run_reachable [OF assms(1), of inputs] r by simp
  then have "co_reachable config (stop co1)" "co_reachable config (stop (snd (persist co1)))"
    by (auto intro: co_reachable.stopped co_reachable.saved)
  then show ?thesis using assms(2) by (auto simp: serve_process_def r split: option.splits list.splits)
qed

lemma process_reachable:
  assumes "w_sent w = []"
  shows "co_reachable (la_config l) (en_coordinator (coordinator_process h k answers port_opens w l os))"
proof -
  obtain e co listener os' where s: "start_on k (la_bind l) (la_port l) (new_coordinator (la_config l) w) os = ((e, co, listener), os')"
    by (metis surj_pair)
  have co: "co_reachable (la_config l) co"
    by (rule start_on_reachable [OF co_reachable.created [of w "la_config l", OF assms] s])
  obtain code err co' where p: "serve_process (answers (poll_timeval (la_poll l))) (write_port (la_port_file l) port_opens co) = (code, err, co')"
    by (metis surj_pair)
  have "co_reachable (la_config l) co'" by (rule serve_process_reachable [OF write_port_reachable [OF co] p])
  then show ?thesis
    using co_reachable.stopped [OF co] by (cases e) (simp_all add: coordinator_process_def s p Let_def)
qed

text \<open>
  C7
  The coordinator process runs the engine and nothing else. Whatever its arguments, the host, the
  sockets, the state file, the failures it meets and the bytes that arrive, when the process ends
  its engine satisfies the engine invariant, and the commands it sent are those of attempts each
  dispatched once.
\<close>

theorem coordinator_process_sound:
  assumes "coordinator_main h k answers port_opens w arguments os = Inr e" and "w_sent w = []"
  shows "st_wf (co_engine (en_coordinator e)) \<and> dispatched_ok (en_coordinator e)"
proof -
  obtain l where l: "coordinator_arguments arguments default_coordinator_launch = Launch l"
      "e = coordinator_process h k answers port_opens w l os"
    using assms(1) by (auto simp: coordinator_main_def split: launched.splits)
  have "cc_engine (la_config l) = default_config"
    using coordinator_arguments_engine [OF l(1)] by (simp add: default_coordinator_launch_def default_coordinator_def)
  moreover have "co_config (en_coordinator e) = la_config l \<and> reachable (cc_engine (la_config l)) (co_engine (en_coordinator e)) \<and>
      dispatched_ok (en_coordinator e)"
    unfolding l(2) by (rule co_reachable_sound [OF process_reachable [OF assms(2)]])
  ultimately show ?thesis
    using reachable_wf [of default_config] by (simp add: scope_bound_ok_def default_config_def default_bounds_def)
qed

lemma coordinator_process_sound_witness:
  "\<exists>e. coordinator_main bare_host slot_calls (\<lambda>_. []) True empty_world [''--port'', ''8''] {} = Inr e \<and>
     st_wf (co_engine (en_coordinator e))"
proof -
  obtain e where e: "coordinator_main bare_host slot_calls (\<lambda>_. []) True empty_world [''--port'', ''8''] {} = Inr e"
    by (simp add: coordinator_main_def parse_u64_def)
  have "w_sent empty_world = []" by (simp add: empty_world_def)
  with coordinator_process_sound [OF e] e show ?thesis by blast
qed

section \<open>The worker process\<close>

lemma without_error_moves: "same_body w (without_error w)"
  by (simp add: same_body_def without_error_def)

lemma worker_loop_moves:
  assumes "worker_loop w = Some x"
  shows "backend_moves w (snd x)"
proof (rule worker_loop.raw_induct [where P = "\<lambda>w x. backend_moves w (snd x)", OF _ assms])
  fix go w x
  assume 1: "\<And>w x. go w = Some x \<Longrightarrow> backend_moves w (snd x)"
    "(case serve_one (without_error w) of
        None \<Rightarrow> None
      | Some (Exited code, w) \<Rightarrow> Some ((code, []), w)
      | Some (Served ok, w) \<Rightarrow>
          if ok then go w
          else if ch_error (wk_channel w) \<noteq> [] then
            Some ((1, worker_complaint (ch_error (wk_channel w))), wk_stop w)
          else Some ((0, []), wk_stop w)) = Some x"
  obtain r u where y: "serve_one (without_error w) = Some (r, u)"
    using 1(2) by (cases "serve_one (without_error w)") auto
  have u: "backend_moves w u"
    using serve_one_moves [OF y] same_body_moves [OF without_error_moves [of w]] backend_moves_trans by blast
  moreover have "backend_moves u (wk_stop u)" by (simp add: backend_moves_def wk_stop_def)
  ultimately have "backend_moves w (wk_stop u)" by (rule backend_moves_trans)
  then show "backend_moves w (snd x)"
    using 1 y u backend_moves_trans by (auto split: served.splits if_splits)
qed

text \<open>
  C37
  The worker process publishes from sound replicas. Whatever connecting gives and whatever the
  coordinator sends, when the process ends its backend was reached from an empty one by operations
  of the backend alone, so its replicas are well formed and within the bound.
\<close>

theorem worker_process_sound:
  assumes "worker_process boot outcomes l = Some (code, w)"
  shows "backend_reachable 4096 (wk_backend w) \<and> backend_wf (wk_backend w)"
proof -
  obtain ok u where started: "wk_start outcomes (new_worker (lw_config l) boot) = Some (ok, u)"
    using assms by (auto simp: worker_process_def split: option.splits)
  have "backend_moves u (wk_stop u)" by (simp add: backend_moves_def wk_stop_def)
  then have "backend_moves u w"
    using assms worker_loop_moves [of u] by (cases ok) (fastforce simp: worker_process_def started)+
  then have "backend_step\<^sup>*\<^sup>* new_backend (wk_backend w)"
    using backend_moves_trans [OF wk_start_moves [OF started]] by (simp add: backend_moves_def new_worker_def)
  moreover have "backend_reachable 4096 new_backend"
    using backend_reachable.New [of 4096] by (simp add: new_backend_def)
  ultimately show ?thesis using backend_reachable_moves backend_reachable_wf by blast
qed

lemma worker_process_sound_witness:
  "\<exists>code w. worker_process 9 [Inr ([Peer_Closed, Peer_Closed], [])]
     \<lparr>lw_host = ''127.0.0.1'', lw_port = 7000, lw_config = sample_worker_config\<rparr> = Some (code, w) \<and>
     fst code = 1 \<and> backend_wf (wk_backend w)"
proof -
  let ?l = "\<lparr>lw_host = ''127.0.0.1'', lw_port = 7000, lw_config = sample_worker_config\<rparr>"
  obtain u where "wk_start [Inr ([Peer_Closed, Peer_Closed], [])] (new_worker sample_worker_config 9) = Some (False, u)"
    using leaving_start by blast
  then have ended: "worker_process 9 [Inr ([Peer_Closed, Peer_Closed], [])] ?l =
      Some ((1, worker_complaint (ch_error (wk_channel u))), wk_stop u)"
    by (simp add: worker_process_def)
  with worker_process_sound [OF ended] show ?thesis by auto
qed

end
