(* ===== verification/Spec2Isabelle.thy ===== *)
theory Spec2Isabelle
  imports Mlf_Prelude Mlf_Status Mlf_Identity Mlf_Search Mlf_Lifecycle Mlf_Scope Mlf_Authority
    Mlf_Artifact Mlf_Evidence Mlf_Compat Mlf_Policy Mlf_Rollout Mlf_State Mlf_Invariant Mlf_Registry
    Mlf_Workers Mlf_Promotion Mlf_Rollback Mlf_Reconcile Mlf_Findings Mlf_Rollout_Ops Mlf_Stages
    Mlf_Snapshot Mlf_Evolve Mlf_Steps Mlf_Operations Mlf_Plan_Steps Mlf_Stage_Steps Mlf_Engine
    Mlf_Safety Mlf_Recovery Mlf_Gates Mlf_Bytes Mlf_Crc Mlf_Frame Mlf_Stream Mlf_Codecs Mlf_Wire
    Mlf_Store_Codec Mlf_Store Mlf_State_File
    Mlf_Queries Mlf_Coordinator Mlf_Handlers Mlf_Service Mlf_Synthetic Mlf_Client Mlf_Worker Mlf_Fabric
    Mlf_Process Mlf_Host Mlf_Socket Mlf_Transport Mlf_Cli Mlf_Inspect Mlf_Tool Mlf_Main Mlf_Runs
begin

text \<open>
  Model Lifecycle Fabric: a verification library.

  The program keeps the lifecycle truth of machine learning models: which generation of which
  model holds authority in which scope, by which rollout it got there, and what evidence,
  compatibility facts and policy justified it. The engine (include/mlf/engine.hpp, src/engine_*.cpp)
  owns that truth and is built from small stores, one file each. Everything runs under one mutex,
  so an operation is a function from the state to the state and a decision.

  \<^bold>\<open>Conventions.\<close> Identities and generations are 64-bit words (\<open>u64\<close>), as in identity.hpp; a
  \<open>std::map\<close> is a key-sorted association list (\<open>omap\<close>), an \<open>std::optional\<close> an option, a
  \<open>Decision\<close> the record \<open>decision\<close> whose reasons carry the code's reason codes; the reason codes
  of status.hpp are grouped in datatypes by the section of the enum they stand in. Range checks of
  enum values that a caller could only violate by a cast are omitted. An operation that changes
  state has type \<open>engine \<Rightarrow> _ \<times> engine\<close>.

  \<^bold>\<open>Theories, bottom up.\<close>
  \<^item> \<open>Mlf_Prelude\<close>: ordered maps, optional values, list and word lemmas.
  \<^item> \<open>Mlf_Identity\<close>, \<open>Mlf_Status\<close>, \<open>Mlf_Lifecycle\<close> (with \<open>Mlf_Search\<close>, the breadth-first search):
    identities, decisions and explanations, the transition table and \<open>lifecycle_path\<close>.
  \<^item> \<open>Mlf_Scope\<close>, \<open>Mlf_Authority\<close>, \<open>Mlf_Artifact\<close>, \<open>Mlf_Evidence\<close>, \<open>Mlf_Compat\<close>, \<open>Mlf_Policy\<close>,
    \<open>Mlf_Rollout\<close>: one component each, with its record, its operations, its invariant and the
    lemmas that every operation keeps it. What a restored scope tree must be is \<open>consistent_tree\<close>,
    which does not use the code's checks. SHA-256 is modelled at its word width.
  \<^item> \<open>Mlf_State\<close>: the state of the engine (engine_impl.hpp) and the shared guards and commits;
    \<open>Mlf_Registry\<close>, \<open>Mlf_Workers\<close>, \<open>Mlf_Promotion\<close>, \<open>Mlf_Rollback\<close>, \<open>Mlf_Reconcile\<close>,
    \<open>Mlf_Findings\<close>, \<open>Mlf_Rollout_Ops\<close>, \<open>Mlf_Stages\<close>, \<open>Mlf_Snapshot\<close>: its operations, one theory
    per group of the code's files.
  \<^item> \<open>Mlf_Invariant\<close>, \<open>Mlf_Evolve\<close>, \<open>Mlf_Steps\<close>: the engine invariant \<open>st_wf\<close>, the relation
    \<open>evolves\<close> between an engine and a later one (a version walks the table edge by edge and its
    lifecycle generation counts the edges, every plan keeps its binding and extends its history,
    settled attempts stay, clocks advance), and \<open>good\<close>: an operation keeps the first and
    establishes the second. \<open>Mlf_Operations\<close>, \<open>Mlf_Plan_Steps\<close>, \<open>Mlf_Stage_Steps\<close> prove it for
    every operation.
  \<^item> \<open>Mlf_Engine\<close>: the engine as a state machine, \<open>run_command\<close> and \<open>reachable\<close>;
    \<open>Mlf_Safety\<close>, \<open>Mlf_Recovery\<close>: what holds of every reachable state and of recovery;
    \<open>Mlf_Gates\<close>: each of the four gates decides exactly its declarative condition, by an algebra
    of gate parts (locale \<open>severity_gate\<close>, interpreted for the four severity orders).

  \<^bold>\<open>Bytes, frames and files.\<close> A writer of the code is the list of bytes it appends, a reader the
  record of the bytes left and its sticky failure flag; a \<open>double\<close> is its 64 bits, and the host is
  little-endian. Encoders return bytes or a status, decoders a value or a status. A decoder's law,
  that it returns what was encoded and leaves the rest, is the locale \<open>codec\<close> (\<open>checked_codec\<close> when
  it can refuse), interpreted for every element type of messages and of the state file.
  \<^item> \<open>Mlf_Bytes\<close>, \<open>Mlf_Crc\<close>, \<open>Mlf_Codecs\<close>: the primitive codec, the checksum with its table and its
    burst detection, the numbers of the enumerations.
  \<^item> \<open>Mlf_Frame\<close>, \<open>Mlf_Stream\<close>, \<open>Mlf_Wire\<close>: protocol.cpp, its frames, the incremental decoder and
    the channel over the events of a socket, and a codec with its round trip for each message.
  \<^item> \<open>Mlf_Store_Codec\<close>, \<open>Mlf_Store\<close>, \<open>Mlf_State_File\<close>: state_store.cpp, the records of the state
    file, its sections, the agreement checks, save and load; and what the file guarantees.

  \<^bold>\<open>The coordinator.\<close> coordinator.cpp is single threaded: it polls its sockets, decodes the frames a
  session has received and answers them from the engine. Its state is the record \<open>coordinator\<close>; the
  outside is the record \<open>world\<close>, which holds the files, the failures the coming saves and sends will
  meet, and the frames sent so far. What \<open>select\<close> and \<open>recv\<close> give is the argument of \<open>poll_once\<close>.
  \<^item> \<open>Mlf_Queries\<close>: the read-only accessors of the engine.
  \<^item> \<open>Mlf_Coordinator\<close>: sessions, saving, replies, fencing of lost sessions, dispatch, start and stop.
  \<^item> \<open>Mlf_Handlers\<close>: the handler of each message type, the loop over the frames of a session, which
    ends because each frame leaves fewer unread bytes, and the poll loop.
  \<^item> \<open>Mlf_Service\<close>: the coordinator only runs engine operations, saves what the sequence counts before
    it acknowledges it, acknowledges scopes and evidence without a save, and sends an attempt once.

  \<^bold>\<open>Workers and clients.\<close> The other ends of the connections. A channel holds what its socket will
  still deliver; an operation that waits for bytes that never come has the result \<open>None\<close>, and the
  serving loop of a worker is a \<open>partial_function\<close>.
  \<^item> \<open>Mlf_Synthetic\<close>: the synthetic backend, its invariant over every operation and what a command
    may touch.
  \<^item> \<open>Mlf_Client\<close>, \<open>Mlf_Worker\<close>: the channel, the synchronous client, and the worker from connecting
    to its last frame.
  \<^item> \<open>Mlf_Fabric\<close>: both ends together: the handshake agrees on the epoch, a client that sees
    success finds the change in the state file, and what becomes of a worker's completions.
  \<^item> \<open>Mlf_Cli\<close>, \<open>Mlf_Inspect\<close>, \<open>Mlf_Tool\<close>: the command line tool, from its arguments to what it
    prints, the frames it sends and its exit code; inspection changes nothing.

  \<^bold>\<open>The system beneath.\<close> The calls of the operating system, the processor and the CUDA driver are
  parameters: records of functions that take and give the state of the system. What the code relies
  on is stated as predicates on them (\<open>descriptor_laws\<close>, \<open>send_law\<close>, \<open>reported_once\<close>), which
  are hypotheses where they are used.
  \<^item> \<open>Mlf_Process\<close>, \<open>Mlf_Host\<close>, \<open>Mlf_Socket\<close>: child processes, the discovery of the host and its
    profile, sockets; no descriptor is lost on any path, a send takes everything or a beginning, and
    the end of a child is seen once.
  \<^item> \<open>Mlf_Transport\<close>: frames written to a socket, however little the system takes at a time, are the
    frames read at the other end.
  \<^item> \<open>Mlf_Main\<close>: the two processes from their arguments to their exit codes, over the sockets and the
    coordinator or worker they host; \<open>Mlf_Runs\<close>: the processes are runs of what they host, so
    the engine and the backend are sound when a process ends.

  \<^bold>\<open>Bounds and fuel.\<close> The lifecycle search terminates by a measure on the states not yet seen; the
  chain of a scope uses the length of the registry as fuel, and \<open>ancestor_is_on_chain\<close> shows that
  this never cuts a search short. The loop over the sections of a state file is bounded by the code's
  own limit of seventeen sections. No other fuel is used.

  \<^bold>\<open>Not modelled.\<close> The texts of operating system errors, the request to stop from another thread,
  the monotonic clock and sleeping; the discovery calls and the socket start-up of the Windows build
  (child processes are modelled for both builds); the examples and benchmarks, which only call the
  operations modelled here. A channel of \<open>Mlf_Client\<close> sends a frame whole or fails; that a failed
  send may leave a beginning of the frame on the connection is \<open>frames_cross_connection\<close>. The manifest
  lists each part and its status.
\<close>

end
